(* ===== verification/Tri_Prelude.thy ===== *)
theory Tri_Prelude
  imports Main "HOL-Library.Word" "HOL-Library.Monad_Syntax"
begin

text \<open>
  The shared base of the development: the named collections the component theories fill,
  the type abbreviations for machine integers and bytes, and generic lemmas on lists, options
  and words that more than one component uses.
\<close>

named_theorems frame_defs \<open>definitions of the serial frame builder and parser\<close>
named_theorems op_defs \<open>definitions of component operations, unfolded in component proofs\<close>
named_theorems enum_defs \<open>text tables of the enumerations\<close>

unbundle bit_operations_syntax

type_synonym u8 = "8 word"
type_synonym u16 = "16 word"
type_synonym u32 = "32 word"
type_synonym u64 = "64 word"
type_synonym bytes = "u8 list"

text \<open>A map given by its entries, as a brace initializer of an unordered map gives it.\<close>

abbreviation map_entries :: "('k \<times> 'v) list \<Rightarrow> ('k \<rightharpoonup> 'v)" where
  "map_entries \<equiv> map_of"

subsection \<open>Options\<close>

lemma bind_eq_Some_iff:
  "Option.bind x f = Some y \<longleftrightarrow> (\<exists>z. x = Some z \<and> f z = Some y)"
  by (cases x) auto

text \<open>The elimination form, which leaves the case distinctions of the rest to be split.\<close>

lemma bind_SomeE:
  assumes "Option.bind x f = Some y"
  obtains z where "x = Some z" "f z = Some y"
  using assms by (auto simp: bind_eq_Some_iff)

subsection \<open>Lists\<close>

text \<open>Dropping from the front of a list until at most \<open>n\<close> elements are left.\<close>

definition keep_last :: "nat \<Rightarrow> 'a list \<Rightarrow> 'a list" where
  "keep_last n xs = drop (length xs - n) xs"

lemma length_keep_last [simp]: "length (keep_last n xs) = min n (length xs)"
  by (auto simp: keep_last_def)

lemma keep_last_id [simp]: "length xs \<le> n \<Longrightarrow> keep_last n xs = xs"
  by (simp add: keep_last_def)

lemma keep_last_0 [simp]: "keep_last 0 xs = []"
  by (simp add: keep_last_def)

lemma set_keep_last: "set (keep_last n xs) \<subseteq> set xs"
  by (simp add: keep_last_def set_drop_subset)

lemma keep_last_snoc: "keep_last (Suc n) (xs @ [x]) = keep_last n xs @ [x]"
  by (simp add: keep_last_def)

lemma keep_last_append_keep_last: "keep_last n (keep_last n xs @ ys) = keep_last n (xs @ ys)"
proof (cases "length xs \<le> n")
  case True
  then show ?thesis by simp
next
  case False
  then have d: "length xs - n + length ys \<le> length xs \<or> length ys \<ge> n"
    by arith
  show ?thesis
  proof (cases "length ys \<ge> n")
    case True
    with False show ?thesis by (simp add: keep_last_def)
  next
    case le: False
    with False have "length xs + length ys - n = length ys + (length xs - n)"
      by simp
    with False le show ?thesis by (simp add: keep_last_def)
  qed
qed

lemma last_keep_last: "xs \<noteq> [] \<Longrightarrow> 0 < n \<Longrightarrow> last (keep_last n xs) = last xs"
  by (simp add: keep_last_def)

subsection \<open>Bytes and words\<close>

lemma word16_split_or:
  fixes v :: u16
  shows "push_bit 8 (ucast (ucast (drop_bit 8 v) :: u8)) OR ucast (ucast v :: u8) = v"
  by (rule bit_word_eqI) (auto simp: bit_simps)

lemma u8_of_masked [simp]: "(ucast (v AND 0xff) :: u8) = ucast (v :: u16)"
proof -
  have m: "(0xff :: u16) = mask 8" by (simp add: mask_eq_exp_minus_1)
  show ?thesis
    unfolding m by (auto intro!: bit_word_eqI simp: bit_simps)
qed

lemma word8_of_u16_hi:
  fixes a b :: u8
  shows "ucast (drop_bit 8 (push_bit 8 (ucast a :: u16) OR ucast b)) = a"
  by (rule bit_word_eqI) (auto simp: bit_simps dest: bit_imp_le_length)

lemma word8_of_u16_lo:
  fixes a b :: u8
  shows "ucast (push_bit 8 (ucast a :: u16) OR ucast b) = b"
  by (rule bit_word_eqI) (auto simp: bit_simps)

end
