(* ===== verification/Tri_Result.thy ===== *)
theory Tri_Result
  imports Tri_Prelude
begin

text \<open>
  The foundation layer's error model (foundation/error): the error codes with their numeric
  values, their messages, the class Status and the template Result.
\<close>

subsection \<open>Error codes\<close>

datatype ErrorCode =
    Ok
  | InvalidArgument | NotInitialized | AlreadyInitialized | NotFound | Timeout | Busy
  | IoError | PermissionDenied | ParseError | ConfigError | InternalError | Unsupported
  | InvalidCommand | UnsupportedWorkMode | ProtocolNotActive | ProtocolBusy
  | VisibleCameraOffline | CompositeCameraOffline | CompositeCameraOpenFailed
  | CompositeMetadataOpenFailed | SerialOpenFailed | SerialWriteFailed | SerialReadTimeout
  | SerialAckInvalid | CompositeModeSwitchFailed | PipelineBuildFailed | PipelineStartFailed
  | MjpegDecodeFailed | FrameSyncTimeout | ImageRegistrationFailed | FusionProcessFailed
  | EncoderInitFailed | MainStreamNotReady

text \<open>The underlying 32-bit value: an enumerator without initializer is one more than the
  one before it.\<close>

fun error_value :: "ErrorCode \<Rightarrow> int" where
  "error_value Ok = 0"
| "error_value InvalidArgument = 1000"
| "error_value NotInitialized = 1001"
| "error_value AlreadyInitialized = 1002"
| "error_value NotFound = 1003"
| "error_value Timeout = 1004"
| "error_value Busy = 1005"
| "error_value IoError = 1006"
| "error_value PermissionDenied = 1007"
| "error_value ParseError = 1008"
| "error_value ConfigError = 1009"
| "error_value InternalError = 1010"
| "error_value Unsupported = 1011"
| "error_value InvalidCommand = 2000"
| "error_value UnsupportedWorkMode = 2001"
| "error_value ProtocolNotActive = 2002"
| "error_value ProtocolBusy = 2003"
| "error_value VisibleCameraOffline = 2004"
| "error_value CompositeCameraOffline = 2005"
| "error_value CompositeCameraOpenFailed = 2006"
| "error_value CompositeMetadataOpenFailed = 2007"
| "error_value SerialOpenFailed = 2008"
| "error_value SerialWriteFailed = 2009"
| "error_value SerialReadTimeout = 2010"
| "error_value SerialAckInvalid = 2011"
| "error_value CompositeModeSwitchFailed = 2012"
| "error_value PipelineBuildFailed = 2013"
| "error_value PipelineStartFailed = 2014"
| "error_value MjpegDecodeFailed = 2015"
| "error_value FrameSyncTimeout = 2016"
| "error_value ImageRegistrationFailed = 2017"
| "error_value FusionProcessFailed = 2018"
| "error_value EncoderInitFailed = 2019"
| "error_value MainStreamNotReady = 2020"

text \<open>\<open>isOk\<close> and \<open>errorMessage\<close> of ErrorMessage.cpp.\<close>

definition isOk :: "ErrorCode \<Rightarrow> bool" where
  "isOk c \<longleftrightarrow> c = Ok"

fun errorMessage :: "ErrorCode \<Rightarrow> string" where
  "errorMessage Ok = ''OK''"
| "errorMessage InvalidArgument = ''invalid argument''"
| "errorMessage NotInitialized = ''not initialized''"
| "errorMessage AlreadyInitialized = ''already initialized''"
| "errorMessage NotFound = ''not found''"
| "errorMessage Timeout = ''timeout''"
| "errorMessage Busy = ''busy''"
| "errorMessage IoError = ''I/O error''"
| "errorMessage PermissionDenied = ''permission denied''"
| "errorMessage ParseError = ''parse error''"
| "errorMessage ConfigError = ''configuration error''"
| "errorMessage InternalError = ''internal error''"
| "errorMessage Unsupported = ''unsupported''"
| "errorMessage InvalidCommand = ''invalid command''"
| "errorMessage UnsupportedWorkMode = ''unsupported work mode''"
| "errorMessage ProtocolNotActive = ''protocol not active''"
| "errorMessage ProtocolBusy = ''protocol busy''"
| "errorMessage VisibleCameraOffline = ''visible camera offline''"
| "errorMessage CompositeCameraOffline = ''composite camera offline''"
| "errorMessage CompositeCameraOpenFailed = ''composite camera open failed''"
| "errorMessage CompositeMetadataOpenFailed = ''composite metadata open failed''"
| "errorMessage SerialOpenFailed = ''serial open failed''"
| "errorMessage SerialWriteFailed = ''serial write failed''"
| "errorMessage SerialReadTimeout = ''serial read timeout''"
| "errorMessage SerialAckInvalid = ''serial ACK invalid''"
| "errorMessage CompositeModeSwitchFailed = ''composite sensor mode switch failed''"
| "errorMessage PipelineBuildFailed = ''pipeline build failed''"
| "errorMessage PipelineStartFailed = ''pipeline start failed''"
| "errorMessage MjpegDecodeFailed = ''MJPEG decode failed''"
| "errorMessage FrameSyncTimeout = ''frame sync timeout''"
| "errorMessage ImageRegistrationFailed = ''image registration failed''"
| "errorMessage FusionProcessFailed = ''fusion process failed''"
| "errorMessage EncoderInitFailed = ''encoder init failed''"
| "errorMessage MainStreamNotReady = ''main stream not ready''"

lemma error_value_nonneg: "0 \<le> error_value c"
  by (cases c) simp_all

lemma errorMessage_nonempty [simp]: "errorMessage c \<noteq> []"
  by (cases c) simp_all

text \<open>The enumerators are pairwise different values, so the codes are ordered by value.\<close>

definition error_of_value :: "int \<Rightarrow> ErrorCode" where
  "error_of_value v =
     (if v = 0 then Ok
      else if v < 2000 then
        [InvalidArgument, NotInitialized, AlreadyInitialized, NotFound, Timeout, Busy, IoError,
         PermissionDenied, ParseError, ConfigError, InternalError, Unsupported] ! nat (v - 1000)
      else
        [InvalidCommand, UnsupportedWorkMode, ProtocolNotActive, ProtocolBusy,
         VisibleCameraOffline, CompositeCameraOffline, CompositeCameraOpenFailed,
         CompositeMetadataOpenFailed, SerialOpenFailed, SerialWriteFailed, SerialReadTimeout,
         SerialAckInvalid, CompositeModeSwitchFailed, PipelineBuildFailed, PipelineStartFailed,
         MjpegDecodeFailed, FrameSyncTimeout, ImageRegistrationFailed, FusionProcessFailed,
         EncoderInitFailed, MainStreamNotReady] ! nat (v - 2000))"

lemma error_of_value_inverse: "error_of_value (error_value c) = c"
  by (cases c) (simp_all add: error_of_value_def)

lemma error_value_inj: "error_value a = error_value b \<Longrightarrow> a = b"
  by (metis error_of_value_inverse)

instantiation ErrorCode :: linorder
begin

definition less_eq_ErrorCode :: "ErrorCode \<Rightarrow> ErrorCode \<Rightarrow> bool" where
  "less_eq_ErrorCode a b \<longleftrightarrow> error_value a \<le> error_value b"

definition less_ErrorCode :: "ErrorCode \<Rightarrow> ErrorCode \<Rightarrow> bool" where
  "less_ErrorCode a b \<longleftrightarrow> error_value a < error_value b"

instance
  by standard (auto simp: less_eq_ErrorCode_def less_ErrorCode_def dest: error_value_inj)

end

subsection \<open>Status and Result\<close>

record Status =
  st_code :: ErrorCode
  st_message :: string

definition status_ok :: "Status \<Rightarrow> bool" where
  "status_ok s \<longleftrightarrow> st_code s = Ok"

definition status_success :: Status where
  "status_success = \<lparr>st_code = Ok, st_message = []\<rparr>"

definition status_error :: "ErrorCode \<Rightarrow> string \<Rightarrow> Status" where
  "status_error c m = \<lparr>st_code = c, st_message = m\<rparr>"

definition describe :: "Status \<Rightarrow> string" where
  "describe s = (if st_message s \<noteq> [] then st_message s else errorMessage (st_code s))"

text \<open>
  \<open>Result<T>\<close> is a variant of a value and a Status; \<open>Result<void>\<close> carries a Status only and
  is the case of the one-element type. No call of \<open>error\<close> in the program passes the code
  \<open>Ok\<close>: an error result is an \<open>Inl\<close>.
\<close>

type_synonym 'a Result = "Status + 'a"

abbreviation Error :: "ErrorCode \<Rightarrow> string \<Rightarrow> 'a Result" where
  "Error c m \<equiv> Inl (status_error c m)"

abbreviation Success :: "unit Result" where
  "Success \<equiv> Inr ()"

fun result_ok :: "'a Result \<Rightarrow> bool" where
  "result_ok (Inr _) = True"
| "result_ok (Inl _) = False"

fun result_status :: "'a Result \<Rightarrow> Status" where
  "result_status (Inr _) = status_success"
| "result_status (Inl s) = s"

text \<open>
  The call \<open>error(ret.status().code(), ret.status().describe())\<close>, by which a layer passes a
  failure on under another value type.
\<close>

definition rewrap :: "Status \<Rightarrow> 'a Result" where
  "rewrap s = Error (st_code s) (describe s)"

lemma st_status_error [simp]:
  "st_code (status_error c m) = c" "st_message (status_error c m) = m"
  by (simp_all add: status_error_def)

lemma status_error_inject [simp]:
  "status_error c m = status_error c' m' \<longleftrightarrow> c = c' \<and> m = m'"
  by (simp add: status_error_def)

lemma describe_nonempty [simp]: "describe s \<noteq> []"
  by (simp add: describe_def)

lemma describe_status_error [simp]: "m \<noteq> [] \<Longrightarrow> describe (status_error c m) = m"
  by (simp add: describe_def)

lemma rewrap_not_Inr [simp]: "rewrap s \<noteq> Inr x" "Inr x \<noteq> rewrap s"
  by (simp_all add: rewrap_def)

text \<open>Passing an error on keeps its code and its text, however many layers do so.\<close>

lemma rewrap_rewrap:
  "result_status (rewrap (result_status (rewrap s :: 'a Result)) :: 'b Result)
    = result_status (rewrap s :: 'b Result)"
  by (simp add: rewrap_def)

lemma rewrap_code: "rewrap s = Inl t \<Longrightarrow> st_code t = st_code s"
  by (auto simp: rewrap_def)

end
