(* ===== verification/Tri_Utils.thy ===== *)
theory Tri_Utils
  imports Tri_Result
begin

text \<open>
  The foundation layer's utilities (foundation/utils): the ctype functions and string helpers
  of StringUtils.h, the byte helpers of ByteUtils.h, the checks of NetUtils.cpp, the decimal and
  hexadecimal texts that \<open>std::to_string\<close> and the stream manipulators print, and the
  \<open>normalize\<close> helper that the parsers of the enumerations share. Characters are bytes; the ctype
  functions are those of the "C" locale, which the program never changes.
\<close>

subsection \<open>Characters\<close>

definition chr_code :: "char \<Rightarrow> nat" where
  "chr_code c = of_char c"

definition isspace :: "char \<Rightarrow> bool" where
  "isspace c \<longleftrightarrow> chr_code c = 32 \<or> (9 \<le> chr_code c \<and> chr_code c \<le> 13)"

definition isdigit :: "char \<Rightarrow> bool" where
  "isdigit c \<longleftrightarrow> 48 \<le> chr_code c \<and> chr_code c \<le> 57"

definition isupper :: "char \<Rightarrow> bool" where
  "isupper c \<longleftrightarrow> 65 \<le> chr_code c \<and> chr_code c \<le> 90"

definition islower :: "char \<Rightarrow> bool" where
  "islower c \<longleftrightarrow> 97 \<le> chr_code c \<and> chr_code c \<le> 122"

definition isalnum :: "char \<Rightarrow> bool" where
  "isalnum c \<longleftrightarrow> isdigit c \<or> isupper c \<or> islower c"

definition isxdigit :: "char \<Rightarrow> bool" where
  "isxdigit c \<longleftrightarrow> isdigit c \<or> (65 \<le> chr_code c \<and> chr_code c \<le> 70)
     \<or> (97 \<le> chr_code c \<and> chr_code c \<le> 102)"

definition toupper :: "char \<Rightarrow> char" where
  "toupper c = (if islower c then char_of (chr_code c - 32) else c)"

definition tolower :: "char \<Rightarrow> char" where
  "tolower c = (if isupper c then char_of (chr_code c + 32) else c)"

lemmas ctype_defs = chr_code_def isspace_def isdigit_def isupper_def islower_def isalnum_def
  isxdigit_def toupper_def tolower_def

lemma chr_code_less: "chr_code c < 256"
  unfolding chr_code_def by (simp add: of_char_def)

lemma chr_code_char_of: "n < 256 \<Longrightarrow> chr_code (char_of n) = n"
  by (simp add: chr_code_def of_char_of)

lemma chr_code_toupper: "chr_code (toupper c) = (if islower c then chr_code c - 32 else chr_code c)"
  by (auto simp: toupper_def islower_def chr_code_char_of)

lemma toupper_idem [simp]: "toupper (toupper c) = toupper c"
  by (auto simp: toupper_def islower_def chr_code_char_of)

lemma isspace_toupper [simp]: "isspace (toupper c) \<longleftrightarrow> isspace c"
  by (auto simp: isspace_def chr_code_toupper islower_def)

subsection \<open>StringUtils.h\<close>

text \<open>\<open>trim\<close> erases the white space at both ends.\<close>

definition trim :: "string \<Rightarrow> string" where
  "trim s = rev (dropWhile isspace (rev (dropWhile isspace s)))"

definition startsWith :: "string \<Rightarrow> string \<Rightarrow> bool" where
  "startsWith s prefix \<longleftrightarrow> take (length prefix) s = prefix"

definition endsWith :: "string \<Rightarrow> string \<Rightarrow> bool" where
  "endsWith s suffix \<longleftrightarrow>
     length suffix \<le> length s \<and> drop (length s - length suffix) s = suffix"

text \<open>
  \<open>std::getline\<close> over a string stream: the text up to each delimiter, and what follows the last
  one unless that is empty.
\<close>

fun getlines_acc :: "char \<Rightarrow> string \<Rightarrow> string \<Rightarrow> string list" where
  "getlines_acc d [] acc = (if acc = [] then [] else [rev acc])"
| "getlines_acc d (c # cs) acc =
     (if c = d then rev acc # getlines_acc d cs [] else getlines_acc d cs (c # acc))"

definition split :: "string \<Rightarrow> char \<Rightarrow> string list" where
  "split s delimiter = getlines_acc delimiter s []"

lemma getlines_acc_line:
  "d \<notin> set a \<Longrightarrow> getlines_acc d (a @ d # b) acc = (rev acc @ a) # getlines_acc d b []"
  by (induction a arbitrary: acc) auto

lemma split_line: "d \<notin> set a \<Longrightarrow> split (a @ d # b) d = a # split b d"
  by (simp add: split_def getlines_acc_line)

lemma getlines_acc_no_delimiter:
  "l \<in> set (getlines_acc d s acc) \<Longrightarrow> d \<notin> set acc \<Longrightarrow> d \<notin> set l"
  by (induction d s acc rule: getlines_acc.induct) (auto split: if_splits)

lemma split_no_delimiter: "l \<in> set (split s d) \<Longrightarrow> d \<notin> set l"
  by (auto simp: split_def dest: getlines_acc_no_delimiter)

definition unquote :: "string \<Rightarrow> string" where
  "unquote s0 =
     (let s = trim s0
      in if 2 \<le> length s \<and> ((hd s = CHR 0x22 \<and> last s = CHR 0x22)
                        \<or> (hd s = CHR 0x27 \<and> last s = CHR 0x27))
         then take (length s - 2) (drop 1 s) else s)"

definition toBool :: "string \<Rightarrow> bool \<Rightarrow> bool" where
  "toBool s0 fallback =
     (let s = map tolower (trim s0)
      in if s = ''true'' \<or> s = ''1'' \<or> s = ''yes'' \<or> s = ''on'' then True
         else if s = ''false'' \<or> s = ''0'' \<or> s = ''no'' \<or> s = ''off'' then False
         else fallback)"

text \<open>
  The helper \<open>normalize\<close>, the same in WorkMode.cpp, CommandTypes.cpp, ProtocolTypes.cpp,
  FusionEngine.cpp and CompositeSensorControlTypes.cpp: white space and the separators are
  erased and the rest is upper case. PrivateControlServer.cpp has the lower-case variant.
\<close>

definition is_separator :: "char \<Rightarrow> bool" where
  "is_separator c \<longleftrightarrow> isspace c \<or> c = CHR ''_'' \<or> c = CHR ''-'' \<or> c = CHR ''.''"

definition normalize :: "string \<Rightarrow> string" where
  "normalize s = map toupper (filter (\<lambda>c. \<not> is_separator c) s)"

definition normalize_lower :: "string \<Rightarrow> string" where
  "normalize_lower s = map tolower (filter (\<lambda>c. \<not> is_separator c) s)"

definition lower :: "string \<Rightarrow> string" where
  "lower s = map tolower s"

lemma is_separator_toupper [simp]: "is_separator (toupper c) \<longleftrightarrow> is_separator c"
proof -
  have "toupper c = d \<longleftrightarrow> c = d" if "chr_code d < 65 \<or> chr_code d = 95" for d
  proof
    assume "toupper c = d"
    then have "chr_code (toupper c) = chr_code d" by simp
    with that have "chr_code c = chr_code d"
      by (auto simp: chr_code_toupper islower_def split: if_splits)
    then show "c = d" by (simp add: chr_code_def)
  next
    assume "c = d"
    with that show "toupper c = d"
      by (auto simp: toupper_def islower_def)
  qed
  then show ?thesis
    by (simp add: is_separator_def chr_code_def)
qed

text \<open>Normalizing is idempotent, and separators and case do not matter.\<close>

lemma normalize_idem [simp]: "normalize (normalize s) = normalize s"
  by (induction s) (simp_all add: normalize_def)

lemma normalize_append: "normalize (s @ t) = normalize s @ normalize t"
  by (simp add: normalize_def)

lemma normalize_map_toupper [simp]: "normalize (map toupper s) = normalize s"
  by (induction s) (simp_all add: normalize_def)

lemma normalize_filter [simp]: "normalize (filter (\<lambda>c. \<not> is_separator c) s) = normalize s"
  by (simp add: normalize_def)

lemma dropWhile_ends:
  "xs \<noteq> [] \<Longrightarrow> \<not> P (last xs) \<Longrightarrow> dropWhile P (rev xs) = rev xs"
  by (cases xs rule: rev_cases) auto

lemma trim_ends: "trim s = [] \<or> \<not> isspace (hd (trim s)) \<and> \<not> isspace (last (trim s))"
proof -
  define t where "t = dropWhile isspace s"
  define u where "u = dropWhile isspace (rev t)"
  have tr: "trim s = rev u"
    by (simp add: trim_def t_def u_def)
  show ?thesis
  proof (cases "u = []")
    case True
    with tr show ?thesis by simp
  next
    case False
    then have hd: "\<not> isspace (hd u)"
      unfolding u_def by (rule hd_dropWhile)
    obtain p where p: "rev t = p @ u"
      unfolding u_def by (metis takeWhile_dropWhile_id)
    then have tu: "t = rev u @ rev p"
      by (metis rev_append rev_rev_ident)
    with False have "t \<noteq> []" by simp
    then have "\<not> isspace (hd t)"
      unfolding t_def by (rule hd_dropWhile)
    with tu False have "\<not> isspace (last u)"
      by (simp add: hd_rev)
    with hd tr False show ?thesis
      by (simp add: hd_rev last_rev)
  qed
qed

lemma trim_idem [simp]: "trim (trim s) = trim s"
proof -
  from trim_ends [of s] consider "trim s = []"
    | "trim s \<noteq> []" "\<not> isspace (hd (trim s))" "\<not> isspace (last (trim s))"
    by blast
  then show ?thesis
  proof cases
    case 1
    then show ?thesis by (simp only: trim_def [of "[]"]) simp
  next
    case 2
    then have "dropWhile isspace (trim s) = trim s"
      by (cases "trim s") auto
    with 2 show ?thesis
      by (subst trim_def) (simp add: dropWhile_ends)
  qed
qed

subsection \<open>ByteUtils.h\<close>

definition be16 :: "u8 \<Rightarrow> u8 \<Rightarrow> u16" where
  "be16 hi lo = push_bit 8 (ucast hi) OR ucast lo"

definition appendBe16 :: "bytes \<Rightarrow> u16 \<Rightarrow> bytes" where
  "appendBe16 out v = out @ [ucast (drop_bit 8 v), ucast v]"

text \<open>\<open>be16\<close> at an offset of a byte vector, which the callers check to be in range.\<close>

definition be16_at :: "bytes \<Rightarrow> nat \<Rightarrow> u16" where
  "be16_at bs off = be16 (bs ! off) (bs ! (off + 1))"

definition hex_digit :: "nat \<Rightarrow> char" where
  "hex_digit d = (if d < 10 then char_of (48 + d) else char_of (55 + d))"

definition hex_byte :: "u8 \<Rightarrow> string" where
  "hex_byte b = [hex_digit (unat b div 16), hex_digit (unat b mod 16)]"

fun toHex :: "bytes \<Rightarrow> string" where
  "toHex [] = []"
| "toHex [b] = hex_byte b"
| "toHex (b # c # bs) = hex_byte b @ '' '' @ toHex (c # bs)"

fun checksum_sum :: "bytes \<Rightarrow> u32" where
  "checksum_sum [] = 0"
| "checksum_sum [b] = ucast (push_bit 8 (ucast b) :: u16)"
| "checksum_sum (a # b # bs) = ucast (be16 a b) + checksum_sum bs"

definition checksum16 :: "bytes \<Rightarrow> u16" where
  "checksum16 data = ucast (checksum_sum data AND 0xffff)"

lemma length_appendBe16 [simp]: "length (appendBe16 out v) = length out + 2"
  by (simp add: appendBe16_def)

lemma be16_of_bytes [simp]: "be16 (ucast (drop_bit 8 v)) (ucast v) = v"
  by (simp add: be16_def word16_split_or)

lemma bytes_of_be16 [simp]:
  "ucast (drop_bit 8 (be16 a b)) = a" "ucast (be16 a b) = b"
  by (simp_all only: be16_def word8_of_u16_hi word8_of_u16_lo)

lemma be16_inject: "be16 a b = be16 c d \<longleftrightarrow> a = c \<and> b = d"
  by (metis bytes_of_be16)

lemma length_toHex: "bs \<noteq> [] \<Longrightarrow> length (toHex bs) = 3 * length bs - 1"
  by (induction bs rule: toHex.induct) (simp_all add: hex_byte_def)

subsection \<open>Numbers as text\<close>

function show_nat :: "nat \<Rightarrow> string" where
  "show_nat n = (if n < 10 then [char_of (48 + n)]
     else show_nat (n div 10) @ [char_of (48 + n mod 10)])"
  by pat_completeness auto
termination
  by (relation "measure id") auto

declare show_nat.simps [simp del]

definition show_int :: "int \<Rightarrow> string" where
  "show_int i = (if i < 0 then CHR ''-'' # show_nat (nat (- i)) else show_nat (nat i))"

function show_hex :: "nat \<Rightarrow> string" where
  "show_hex n = (if n < 16 then [hex_digit n] else show_hex (n div 16) @ [hex_digit (n mod 16)])"
  by pat_completeness auto
termination
  by (relation "measure id") auto

declare show_hex.simps [simp del]

text \<open>\<open>hexWord\<close> of CompositeSensorCommandParser.cpp and CompositeSensorController.cpp.\<close>

definition hexWord :: "u16 \<Rightarrow> string" where
  "hexWord v = ''0x'' @ show_hex (unat v)"

text \<open>The value of a decimal text, to state that printing loses nothing.\<close>

definition digits_value :: "string \<Rightarrow> nat" where
  "digits_value s = foldl (\<lambda>n c. 10 * n + (chr_code c - 48)) 0 s"

lemma digits_value_snoc:
  "digits_value (s @ [c]) = 10 * digits_value s + (chr_code c - 48)"
  by (simp add: digits_value_def)

lemma digits_value_show_nat [simp]: "digits_value (show_nat n) = n"
proof (induction n rule: show_nat.induct)
  case (1 n)
  show ?case
  proof (cases "n < 10")
    case True
    then show ?thesis
      by (subst show_nat.simps) (simp add: digits_value_def chr_code_char_of)
  next
    case False
    with 1 have "digits_value (show_nat (n div 10)) = n div 10" by simp
    with False show ?thesis
      by (subst show_nat.simps) (simp add: digits_value_snoc chr_code_char_of)
  qed
qed

lemma show_nat_nonempty [simp]: "show_nat n \<noteq> []"
  by (subst show_nat.simps) simp

lemma show_nat_inject: "show_nat m = show_nat n \<longleftrightarrow> m = n"
  by (metis digits_value_show_nat)

subsection \<open>NetUtils.cpp\<close>

definition isValidPort :: "int \<Rightarrow> bool" where
  "isValidPort port \<longleftrightarrow> 0 < port \<and> port \<le> 65535"

fun octet_value :: "string \<Rightarrow> nat \<Rightarrow> nat option" where
  "octet_value [] n = Some n"
| "octet_value (c # cs) n =
     (if \<not> isdigit c then None else octet_value cs (n * 10 + (chr_code c - 48)))"

fun ipv4_parts :: "string list \<Rightarrow> nat \<Rightarrow> bool" where
  "ipv4_parts [] count = (count = 4)"
| "ipv4_parts (part # ps) count =
     (if part = [] \<or> 3 < length part then False
      else case octet_value part 0 of
        None \<Rightarrow> False
      | Some n \<Rightarrow> if 255 < n then False else ipv4_parts ps (count + 1))"

definition isLikelyIpv4 :: "string \<Rightarrow> bool" where
  "isLikelyIpv4 ip = ipv4_parts (split ip (CHR ''.'')) 0"

lemma ipv4_parts_count: "ipv4_parts ps n \<Longrightarrow> n + length ps = 4"
  by (induction ps n rule: ipv4_parts.induct) (auto split: if_splits option.splits)

end
