(* ===== verification/Tri_EnumText.thy ===== *)
theory Tri_EnumText
  imports Tri_Utils
begin

text \<open>
  The interface of an enumeration that the program prints and parses: work modes, sensor output
  modes, fusion modes, command types, command sources and protocol kinds each come with a
  \<open>toString\<close> and a \<open>...FromString\<close> that normalizes its argument first. The laws are that parsing
  inverts printing and that parsing looks at the normalized text only.
\<close>

locale enum_text =
  fixes to_text :: "'e \<Rightarrow> string"
    and of_text :: "string \<Rightarrow> 'e"
  assumes of_to: "of_text (to_text e) = e"
    and of_normalize: "of_text (normalize s) = of_text s"
begin

lemma to_text_inject: "to_text a = to_text b \<longleftrightarrow> a = b"
  by (metis of_to)

lemma of_text_cong: "normalize s = normalize t \<Longrightarrow> of_text s = of_text t"
  by (metis of_normalize)

text \<open>Any spelling with the letters and digits of the printed name is read as that value.\<close>

lemma of_text_spelling: "normalize s = normalize (to_text e) \<Longrightarrow> of_text s = e"
  by (metis of_text_cong of_to)

lemma of_text_case: "of_text (map toupper s) = of_text s"
  by (rule of_text_cong) simp

lemma of_text_separators: "of_text (filter (\<lambda>c. \<not> is_separator c) s) = of_text s"
  by (rule of_text_cong) simp

lemma of_text_surround:
  assumes "\<forall>c \<in> set p \<union> set q. is_separator c"
  shows "of_text (p @ to_text e @ q) = e"
proof (rule of_text_spelling)
  from assms have "normalize p = []" "normalize q = []"
    by (auto simp: normalize_def filter_empty_conv)
  then show "normalize (p @ to_text e @ q) = normalize (to_text e)"
    by (simp add: normalize_append)
qed

end

text \<open>
  The simplifier evaluates the parsers on the printed names: it needs the characters' codes and
  the tests of \<open>normalize\<close> on literals.
\<close>

lemmas normalize_eval = normalize_def is_separator_def isspace_def toupper_def islower_def
  chr_code_def

end
