(* ===== verification/Tri_SensorTypes.thy ===== *)
theory Tri_SensorTypes
  imports Tri_EnumText
begin

text \<open>
  The vocabulary of the composite (low-light and thermal) sensor's serial protocol:
  device_control/CompositeSensorControlTypes.h and .cpp, and the controller's state record of
  CompositeSensorState.h.
\<close>

datatype CompositeSensorOutputMode =
  Unknown | LowlightOnly | ThermalOnly | LowlightThermalComposite

datatype CompositeSensorAckType = Unknown | Ack | Nack | ModeReport

datatype CompositeSensorCommandCode = ReadRegister | WriteRegister

fun command_code :: "CompositeSensorCommandCode \<Rightarrow> u16" where
  "command_code ReadRegister = 0x5AF8"
| "command_code WriteRegister = 0x5AF9"

text \<open>
  The status word of an acknowledgement is cast from the received 16 bits without a check, so it
  is any 16-bit value; the enumerators are three of them.
\<close>

type_synonym CompositeSensorStatusWord = u16

definition StatusUnknown :: CompositeSensorStatusWord where
  "StatusUnknown = 0x0000"

definition StatusExecutable :: CompositeSensorStatusWord where
  "StatusExecutable = 0x5858"

definition StatusRejected :: CompositeSensorStatusWord where
  "StatusRejected = 0x4B4B"

datatype CompositeSensorRegister =
    FusionMode | InfraredPolarity | FusionColor | InfraredCorrection
  | LowlightBrightness | LowlightContrast | InfraredBrightness | InfraredContrast
  | ContourMode | InfraredRegistrationZoom | InfraredRegistrationOffsetX
  | InfraredRegistrationOffsetY | LowlightRegistrationZoom | LowlightRegistrationOffsetX
  | LowlightRegistrationOffsetY | SaveConfig

fun register_address :: "CompositeSensorRegister \<Rightarrow> u16" where
  "register_address FusionMode = 0x6500"
| "register_address InfraredPolarity = 0x6504"
| "register_address FusionColor = 0x6508"
| "register_address InfraredCorrection = 0x650C"
| "register_address LowlightBrightness = 0x6514"
| "register_address LowlightContrast = 0x6518"
| "register_address InfraredBrightness = 0x651C"
| "register_address InfraredContrast = 0x6520"
| "register_address ContourMode = 0x652C"
| "register_address InfraredRegistrationZoom = 0x6730"
| "register_address InfraredRegistrationOffsetX = 0x6732"
| "register_address InfraredRegistrationOffsetY = 0x6734"
| "register_address LowlightRegistrationZoom = 0x6736"
| "register_address LowlightRegistrationOffsetX = 0x6738"
| "register_address LowlightRegistrationOffsetY = 0x673A"
| "register_address SaveConfig = 0x6510"

datatype FusionColorValue = BlackWhite | Forest | Snow | Ocean | City | Desert | Default

fun fusion_color_value :: "FusionColorValue \<Rightarrow> u16" where
  "fusion_color_value BlackWhite = 1"
| "fusion_color_value Forest = 2"
| "fusion_color_value Snow = 3"
| "fusion_color_value Ocean = 4"
| "fusion_color_value City = 5"
| "fusion_color_value Desert = 6"
| "fusion_color_value Default = 7"

datatype ContourModeValue = Off | Red | Green | Blue | Purple

fun contour_mode_value :: "ContourModeValue \<Rightarrow> u16" where
  "contour_mode_value Off = 0"
| "contour_mode_value Red = 1"
| "contour_mode_value Green = 2"
| "contour_mode_value Blue = 3"
| "contour_mode_value Purple = 4"

datatype InfraredPolarityValue = WhiteHot | BlackHot

fun infrared_polarity_value :: "InfraredPolarityValue \<Rightarrow> u16" where
  "infrared_polarity_value WhiteHot = 0"
| "infrared_polarity_value BlackHot = 1"

datatype SaveConfigAction = SaveCurrent | RestoreDefault

fun save_config_value :: "SaveConfigAction \<Rightarrow> u16" where
  "save_config_value SaveCurrent = 1"
| "save_config_value RestoreDefault = 2"

record CompositeSensorAck =
  ack_type :: CompositeSensorAckType
  ack_mode :: CompositeSensorOutputMode
  ack_originalCommand :: CompositeSensorCommandCode
  ack_status :: CompositeSensorStatusWord
  ack_data :: u16
  ack_checksum :: u16
  ack_expectedChecksum :: u16
  ack_message :: string

definition default_ack :: CompositeSensorAck where
  "default_ack =
     \<lparr>ack_type = CompositeSensorAckType.Unknown, ack_mode = CompositeSensorOutputMode.Unknown,
      ack_originalCommand = WriteRegister, ack_status = StatusUnknown, ack_data = 0,
      ack_checksum = 0, ack_expectedChecksum = 0, ack_message = []\<rparr>"

subsection \<open>Text and register values\<close>

fun toString_OutputMode :: "CompositeSensorOutputMode \<Rightarrow> string" where
  "toString_OutputMode LowlightOnly = ''LOWLIGHT_ONLY''"
| "toString_OutputMode ThermalOnly = ''THERMAL_ONLY''"
| "toString_OutputMode LowlightThermalComposite = ''LOWLIGHT_THERMAL_COMPOSITE''"
| "toString_OutputMode CompositeSensorOutputMode.Unknown = ''UNKNOWN''"

fun toString_FusionColor :: "FusionColorValue \<Rightarrow> string" where
  "toString_FusionColor BlackWhite = ''BLACK_WHITE''"
| "toString_FusionColor Forest = ''FOREST''"
| "toString_FusionColor Snow = ''SNOW''"
| "toString_FusionColor Ocean = ''OCEAN''"
| "toString_FusionColor City = ''CITY''"
| "toString_FusionColor Desert = ''DESERT''"
| "toString_FusionColor Default = ''DEFAULT''"

fun toString_ContourMode :: "ContourModeValue \<Rightarrow> string" where
  "toString_ContourMode Off = ''OFF''"
| "toString_ContourMode Red = ''RED''"
| "toString_ContourMode Green = ''GREEN''"
| "toString_ContourMode Blue = ''BLUE''"
| "toString_ContourMode Purple = ''PURPLE''"

fun toString_InfraredPolarity :: "InfraredPolarityValue \<Rightarrow> string" where
  "toString_InfraredPolarity WhiteHot = ''WHITE_HOT''"
| "toString_InfraredPolarity BlackHot = ''BLACK_HOT''"

definition compositeSensorOutputModeFromString :: "string \<Rightarrow> CompositeSensorOutputMode" where
  "compositeSensorOutputModeFromString text =
     (let s = normalize text
      in if s \<in> {''LOWLIGHTONLY'', ''LOWLIGHT'', ''MICROLIGHTONLY'', ''MICROLIGHT''}
         then LowlightOnly
         else if s \<in> {''THERMALONLY'', ''THERMAL'', ''INFRAREDONLY'', ''INFRARED''}
         then ThermalOnly
         else if s \<in> {''LOWLIGHTTHERMALCOMPOSITE'', ''LOWLIGHTTHERMAL'', ''COMPOSITE'', ''FUSION'',
                      ''LOWLIGHTTHERMALFUSION''}
         then LowlightThermalComposite
         else CompositeSensorOutputMode.Unknown)"

fun outputModeRegisterValue :: "CompositeSensorOutputMode \<Rightarrow> u16" where
  "outputModeRegisterValue ThermalOnly = 1"
| "outputModeRegisterValue LowlightOnly = 2"
| "outputModeRegisterValue LowlightThermalComposite = 3"
| "outputModeRegisterValue CompositeSensorOutputMode.Unknown = 0"

definition outputModeFromRegisterValue :: "u16 \<Rightarrow> CompositeSensorOutputMode" where
  "outputModeFromRegisterValue v =
     (if v = 1 then ThermalOnly else if v = 2 then LowlightOnly
      else if v = 3 then LowlightThermalComposite else CompositeSensorOutputMode.Unknown)"

definition toString_StatusWord :: "CompositeSensorStatusWord \<Rightarrow> string" where
  "toString_StatusWord st =
     (if st = StatusExecutable then ''EXECUTABLE''
      else if st = StatusRejected then ''REJECTED'' else ''UNKNOWN'')"

definition isExecutable :: "CompositeSensorStatusWord \<Rightarrow> bool" where
  "isExecutable st \<longleftrightarrow> st = StatusExecutable"

record CompositeSensorState =
  cs_initialized :: bool
  cs_serialOnline :: bool
  cs_currentMode :: CompositeSensorOutputMode
  cs_lastSwitchTimeMs :: int
  cs_switchCount :: u32
  cs_errorCount :: u32
  cs_lastError :: string

definition default_sensor_state :: CompositeSensorState where
  "default_sensor_state =
     \<lparr>cs_initialized = False, cs_serialOnline = False,
      cs_currentMode = CompositeSensorOutputMode.Unknown, cs_lastSwitchTimeMs = 0,
      cs_switchCount = 0, cs_errorCount = 0, cs_lastError = []\<rparr>"

subsection \<open>Facts about the vocabulary\<close>

lemma status_words [simp]:
  "StatusExecutable \<noteq> StatusRejected" "StatusExecutable \<noteq> StatusUnknown"
  "StatusRejected \<noteq> StatusExecutable" "StatusRejected \<noteq> StatusUnknown"
  by (simp_all add: StatusExecutable_def StatusRejected_def StatusUnknown_def)

lemma command_code_inject [simp]: "command_code a = command_code b \<longleftrightarrow> a = b"
  by (cases a; cases b) simp_all

text \<open>The register map has no two registers at one address, and no unaligned address.\<close>

fun register_at :: "u16 \<Rightarrow> CompositeSensorRegister option" where
  "register_at a =
     map_of (map (\<lambda>r. (register_address r, r))
       [FusionMode, InfraredPolarity, FusionColor, InfraredCorrection, LowlightBrightness,
        LowlightContrast, InfraredBrightness, InfraredContrast, ContourMode,
        InfraredRegistrationZoom, InfraredRegistrationOffsetX, InfraredRegistrationOffsetY,
        LowlightRegistrationZoom, LowlightRegistrationOffsetX, LowlightRegistrationOffsetY,
        SaveConfig]) a"

lemma register_at_address: "register_at (register_address r) = Some r"
  by (cases r) simp_all

lemma register_address_inject: "register_address a = register_address b \<longleftrightarrow> a = b"
  by (metis register_at_address option.inject)

lemma outputModeFromRegisterValue_inverse [simp]:
  "outputModeFromRegisterValue (outputModeRegisterValue m) = m"
  by (cases m) (simp_all add: outputModeFromRegisterValue_def)

lemma outputModeRegisterValue_0_iff:
  "outputModeRegisterValue m = 0 \<longleftrightarrow> m = CompositeSensorOutputMode.Unknown"
  by (cases m) simp_all

lemma outputModeFromRegisterValue_range:
  "outputModeFromRegisterValue v \<noteq> CompositeSensorOutputMode.Unknown \<Longrightarrow>
   outputModeRegisterValue (outputModeFromRegisterValue v) = v"
  by (auto simp: outputModeFromRegisterValue_def split: if_splits)

interpretation output_mode_text:
  enum_text toString_OutputMode compositeSensorOutputModeFromString
proof
  fix m show "compositeSensorOutputModeFromString (toString_OutputMode m) = m"
    by (cases m) (simp_all add: compositeSensorOutputModeFromString_def normalize_eval)
next
  fix s show "compositeSensorOutputModeFromString (normalize s)
      = compositeSensorOutputModeFromString s"
    by (simp add: compositeSensorOutputModeFromString_def)
qed

end
