(* ===== verification/Tri_Config.thy ===== *)
theory Tri_Config
  imports Tri_Utils
begin

text \<open>
  The configuration records of foundation/config/ConfigTypes.h with the defaults of their member
  initializers. Signed C++ integers are \<open>int\<close>; an unordered map is a partial function.
\<close>

record CameraEndpointConfig =
  ep_enable :: bool
  ep_name :: string
  ep_videoNode :: string
  ep_metadataNode :: string
  ep_width :: int
  ep_height :: int
  ep_fps :: int
  ep_format :: string
  ep_metadataFormat :: string

definition default_endpoint :: CameraEndpointConfig where
  "default_endpoint =
     \<lparr>ep_enable = False, ep_name = [], ep_videoNode = [], ep_metadataNode = [], ep_width = 0,
      ep_height = 0, ep_fps = 0, ep_format = [], ep_metadataFormat = []\<rparr>"

record CameraConfig =
  cc_visible :: CameraEndpointConfig
  cc_compositeLowThermal :: CameraEndpointConfig

definition default_camera_config :: CameraConfig where
  "default_camera_config =
     \<lparr>cc_visible = default_endpoint, cc_compositeLowThermal = default_endpoint\<rparr>"

record SerialConfig =
  sc_enable :: bool
  sc_dev :: string
  sc_baudrate :: int
  sc_databits :: int
  sc_stopbits :: int
  sc_parity :: string
  sc_timeoutMs :: int
  sc_retryCount :: int
  sc_commands :: "string \<rightharpoonup> string"

definition default_serial_config :: SerialConfig where
  "default_serial_config =
     \<lparr>sc_enable = False, sc_dev = [], sc_baudrate = 115200, sc_databits = 8, sc_stopbits = 1,
      sc_parity = ''none'', sc_timeoutMs = 500, sc_retryCount = 3, sc_commands = Map.empty\<rparr>"

record ModeConfig =
  mc_defaultMode :: string
  mc_enabledModes :: "string \<rightharpoonup> bool"
  mc_compositeOutputs :: "string \<rightharpoonup> string"

definition default_mode_config :: ModeConfig where
  "default_mode_config =
     \<lparr>mc_defaultMode = [], mc_enabledModes = Map.empty, mc_compositeOutputs = Map.empty\<rparr>"

record MediaConfig =
  md_codec :: string
  md_encoder :: string
  md_width :: int
  md_height :: int
  md_fps :: int
  md_bitrate :: int
  md_gop :: int
  md_lowLatency :: bool
  md_dropFrame :: bool
  md_rtspEnable :: bool
  md_rtspPort :: int
  md_rtspPath :: string

definition default_media_config :: MediaConfig where
  "default_media_config =
     \<lparr>md_codec = ''h264'', md_encoder = ''mpp'', md_width = 1920, md_height = 1080, md_fps = 25,
      md_bitrate = 4096, md_gop = 25, md_lowLatency = True, md_dropFrame = True,
      md_rtspEnable = True, md_rtspPort = 8554, md_rtspPath = ''/live/main''\<rparr>"

record ProtocolConfig =
  pc_active :: string
  pc_allowMultiOnline :: bool
  pc_priority :: "string list"
  pc_reserveMultiOnlineArchitecture :: bool

definition default_protocol_config :: ProtocolConfig where
  "default_protocol_config =
     \<lparr>pc_active = ''gb28181'', pc_allowMultiOnline = False, pc_priority = [],
      pc_reserveMultiOnlineArchitecture = True\<rparr>"

record SystemConfig =
  sys_camera :: CameraConfig
  sys_serial :: SerialConfig
  sys_mode :: ModeConfig
  sys_media :: MediaConfig
  sys_protocol :: ProtocolConfig

definition default_system_config :: SystemConfig where
  "default_system_config =
     \<lparr>sys_camera = default_camera_config, sys_serial = default_serial_config,
      sys_mode = default_mode_config, sys_media = default_media_config,
      sys_protocol = default_protocol_config\<rparr>"

end
