(* ===== verification/Tri_SensorFrames.thy ===== *)
theory Tri_SensorFrames
  imports Tri_SensorTypes Tri_Config
begin

text \<open>
  The frames of the sensor's serial protocol: the command builder
  (device_control/CompositeSensorCommandBuilder.cpp) and the acknowledgement parser
  (CompositeSensorCommandParser.cpp), with a word-level specification of the frames that both are
  shown to implement.
\<close>

subsection \<open>Command builder\<close>

definition kHeader :: u16 where "kHeader = 0x55AA"
definition kReadLength :: u16 where "kReadLength = 0x0006"
definition kWriteLength :: u16 where "kWriteLength = 0x0008"
definition kWriteAckLength :: u16 where "kWriteAckLength = 0x0006"
definition kReadAckLength :: u16 where "kReadAckLength = 0x0008"
definition kWriteAckBytes :: nat where "kWriteAckBytes = 10"
definition kReadAckBytes :: nat where "kReadAckBytes = 12"

lemmas frame_constants = kHeader_def kReadLength_def kWriteLength_def kWriteAckLength_def
  kReadAckLength_def kWriteAckBytes_def kReadAckBytes_def

text \<open>The builder holds a pointer to the serial configuration, null until \<open>init\<close>.\<close>

type_synonym CommandBuilder = "SerialConfig option"

definition builder_init :: "SerialConfig \<Rightarrow> CommandBuilder \<Rightarrow> unit Result \<times> CommandBuilder" where
  "builder_init config b =
     (if \<not> sc_enable config
      then (Error ConfigError ''composite sensor serial config is disabled'', b)
      else (Success, Some config))"

definition checksumWords3 :: "u16 \<Rightarrow> u16 \<Rightarrow> u16 \<Rightarrow> u16" where
  "checksumWords3 a b c = a + b + c"

definition checksumWords4 :: "u16 \<Rightarrow> u16 \<Rightarrow> u16 \<Rightarrow> u16 \<Rightarrow> u16" where
  "checksumWords4 a b c d = a + b + c + d"

definition builder_appendBe16 :: "bytes \<Rightarrow> u16 \<Rightarrow> bytes" where
  "builder_appendBe16 out v = out @ [ucast (drop_bit 8 v AND 0xff), ucast (v AND 0xff)]"

definition buildReadRegister :: "CommandBuilder \<Rightarrow> u16 \<Rightarrow> bytes Result" where
  "buildReadRegister b address =
     (case b of
        None \<Rightarrow> Error NotInitialized ''composite sensor command builder is not initialized''
      | Some _ \<Rightarrow>
          let out = [];
              out = builder_appendBe16 out kHeader;
              out = builder_appendBe16 out kReadLength;
              out = builder_appendBe16 out (command_code ReadRegister);
              out = builder_appendBe16 out address;
              out = builder_appendBe16 out
                      (checksumWords3 kReadLength (command_code ReadRegister) address)
          in Inr out)"

definition buildWriteRegister :: "CommandBuilder \<Rightarrow> u16 \<Rightarrow> u16 \<Rightarrow> bytes Result" where
  "buildWriteRegister b address v =
     (case b of
        None \<Rightarrow> Error NotInitialized ''composite sensor command builder is not initialized''
      | Some _ \<Rightarrow>
          let out = [];
              out = builder_appendBe16 out kHeader;
              out = builder_appendBe16 out kWriteLength;
              out = builder_appendBe16 out (command_code WriteRegister);
              out = builder_appendBe16 out address;
              out = builder_appendBe16 out v;
              out = builder_appendBe16 out
                      (checksumWords4 kWriteLength (command_code WriteRegister) address v)
          in Inr out)"

definition buildReadNamed :: "CommandBuilder \<Rightarrow> CompositeSensorRegister \<Rightarrow> bytes Result" where
  "buildReadNamed b reg = buildReadRegister b (register_address reg)"

definition buildWriteNamed ::
  "CommandBuilder \<Rightarrow> CompositeSensorRegister \<Rightarrow> u16 \<Rightarrow> bytes Result" where
  "buildWriteNamed b reg v = buildWriteRegister b (register_address reg) v"

definition buildSetOutputMode ::
  "CommandBuilder \<Rightarrow> CompositeSensorOutputMode \<Rightarrow> bytes Result" where
  "buildSetOutputMode b mode =
     (let v = outputModeRegisterValue mode
      in if v = 0 then Error InvalidArgument ''unknown composite sensor output mode''
         else buildWriteNamed b FusionMode v)"

definition buildQueryOutputMode :: "CommandBuilder \<Rightarrow> bytes Result" where
  "buildQueryOutputMode b = buildReadNamed b FusionMode"

text \<open>
  \<open>parseHexCommand\<close>: hexadecimal digits are collected, \<open>0x\<close> prefixes, white space and a few
  separators are skipped, anything else is an error; then the digits are read two by two. Two
  hexadecimal digits always convert, so the \<open>catch\<close> branch is not reachable.
\<close>

fun hex_normalize :: "string \<Rightarrow> string \<Rightarrow> string Result" where
  "hex_normalize [] acc = Inr (rev acc)"
| "hex_normalize (c # cs) acc =
     (if c = CHR ''0'' \<and> cs \<noteq> [] \<and> (hd cs = CHR ''x'' \<or> hd cs = CHR ''X'')
      then hex_normalize (tl cs) acc
      else if isxdigit c then hex_normalize cs (c # acc)
      else if isspace c \<or> c \<in> {CHR '','', CHR '':'', CHR ''-'', CHR ''_''}
      then hex_normalize cs acc
      else Error ParseError ''invalid hex command character'')"

definition hex_value :: "char \<Rightarrow> nat" where
  "hex_value c =
     (if isdigit c then chr_code c - 48
      else if isupper c then chr_code c - 55 else chr_code c - 87)"

fun hex_bytes :: "string \<Rightarrow> bytes" where
  "hex_bytes (a # b # cs) = word_of_nat (16 * hex_value a + hex_value b) # hex_bytes cs"
| "hex_bytes _ = []"

definition parseHexCommand :: "string \<Rightarrow> bytes Result" where
  "parseHexCommand text =
     (case hex_normalize text [] of
        Inl e \<Rightarrow> Inl e
      | Inr normalized \<Rightarrow>
          if normalized = [] then Error InvalidArgument ''hex command is empty''
          else if length normalized mod 2 \<noteq> 0
          then Error ParseError ''hex command must contain even number of digits''
          else Inr (hex_bytes normalized))"

definition commandByKey :: "CommandBuilder \<Rightarrow> string \<Rightarrow> bytes Result" where
  "commandByKey b key =
     (case b of
        None \<Rightarrow> Error NotInitialized ''composite sensor command builder is not initialized''
      | Some config \<Rightarrow>
          (case sc_commands config key of
             None \<Rightarrow> Error ConfigError (''serial command is empty: '' @ key)
           | Some text \<Rightarrow>
               if trim text = [] then Error ConfigError (''serial command is empty: '' @ key)
               else parseHexCommand text))"

subsection \<open>Acknowledgement parser\<close>

definition asciiFromBytes :: "bytes \<Rightarrow> string" where
  "asciiFromBytes bs =
     map (\<lambda>b. char_of (unat b)) (filter (\<lambda>b. 0x20 \<le> b \<and> b \<le> 0x7e) bs)"

definition parseWriteRegisterAck :: "bytes \<Rightarrow> CompositeSensorAck Result" where
  "parseWriteRegisterAck bs =
     (if length bs \<noteq> kWriteAckBytes
      then Error SerialAckInvalid (''write-register ACK must be 10 bytes, actual='' @
             show_nat (length bs) @ '', raw='' @ toHex bs)
      else
        let header = be16_at bs 0; len = be16_at bs 2; original = be16_at bs 4;
            status = be16_at bs 6; checksum = be16_at bs 8;
            expected = checksumWords3 len original status;
            ack = default_ack\<lparr>ack_type := Ack, ack_originalCommand := WriteRegister,
                    ack_status := status, ack_checksum := checksum,
                    ack_expectedChecksum := expected\<rparr>
        in if header \<noteq> kHeader
           then Error SerialAckInvalid (''invalid ACK header: '' @ hexWord header)
           else if len \<noteq> kWriteAckLength
           then Error SerialAckInvalid (''invalid write ACK length: '' @ hexWord len)
           else if original \<noteq> command_code WriteRegister
           then Error SerialAckInvalid
                  (''invalid write ACK original command: '' @ hexWord original)
           else if status \<noteq> StatusExecutable \<and> status \<noteq> StatusRejected
           then Error SerialAckInvalid (''invalid write ACK status word: '' @ hexWord status)
           else if checksum \<noteq> expected
           then Error SerialAckInvalid (''invalid write ACK checksum, expected='' @
                  hexWord expected @ '', actual='' @ hexWord checksum)
           else if \<not> isExecutable (ack_status ack)
           then Error SerialAckInvalid
                  (''write-register command rejected by device, status='' @
                   toString_StatusWord (ack_status ack))
           else Inr (ack\<lparr>ack_message := ''write-register ACK OK''\<rparr>))"

definition parseReadRegisterAck :: "bytes \<Rightarrow> CompositeSensorAck Result" where
  "parseReadRegisterAck bs =
     (if length bs \<noteq> kReadAckBytes
      then Error SerialAckInvalid (''read-register ACK must be 12 bytes, actual='' @
             show_nat (length bs) @ '', raw='' @ toHex bs)
      else
        let header = be16_at bs 0; len = be16_at bs 2; original = be16_at bs 4;
            status = be16_at bs 6; dat = be16_at bs 8; checksum = be16_at bs 10;
            expected = checksumWords4 len original status dat;
            ack = default_ack\<lparr>ack_type := Ack, ack_originalCommand := ReadRegister,
                    ack_status := status, ack_data := dat, ack_checksum := checksum,
                    ack_expectedChecksum := expected\<rparr>
        in if header \<noteq> kHeader
           then Error SerialAckInvalid (''invalid read ACK header: '' @ hexWord header)
           else if len \<noteq> kReadAckLength
           then Error SerialAckInvalid (''invalid read ACK length: '' @ hexWord len)
           else if original \<noteq> command_code ReadRegister
           then Error SerialAckInvalid
                  (''invalid read ACK original command: '' @ hexWord original)
           else if status \<noteq> StatusExecutable \<and> status \<noteq> StatusRejected
           then Error SerialAckInvalid (''invalid read ACK status word: '' @ hexWord status)
           else if checksum \<noteq> expected
           then Error SerialAckInvalid (''invalid read ACK checksum, expected='' @
                  hexWord expected @ '', actual='' @ hexWord checksum)
           else if \<not> isExecutable (ack_status ack)
           then Error SerialAckInvalid
                  (''read-register command rejected by device, status='' @
                   toString_StatusWord (ack_status ack))
           else Inr (ack\<lparr>ack_message := ''read-register ACK OK''\<rparr>))"

definition parseAck ::
  "bytes \<Rightarrow> CompositeSensorOutputMode \<Rightarrow> CompositeSensorAck Result" where
  "parseAck bs expectedMode =
     (case parseWriteRegisterAck bs of
        Inl e \<Rightarrow> Inl e
      | Inr ack \<Rightarrow> Inr (ack\<lparr>ack_mode := expectedMode\<rparr>))"

definition parseModeText :: "string \<Rightarrow> CompositeSensorOutputMode" where
  "parseModeText text = compositeSensorOutputModeFromString (trim text)"

definition parseModeReport :: "bytes \<Rightarrow> CompositeSensorOutputMode Result" where
  "parseModeReport bs =
     (case parseReadRegisterAck bs of
        Inr ack \<Rightarrow>
          (let mode = outputModeFromRegisterValue (ack_data ack)
           in if mode = CompositeSensorOutputMode.Unknown
              then Error SerialAckInvalid (''unknown fusion mode register value: '' @
                     show_nat (unat (ack_data ack)))
              else Inr mode)
      | Inl e \<Rightarrow>
          (let mode = parseModeText (asciiFromBytes bs)
           in if mode \<noteq> CompositeSensorOutputMode.Unknown then Inr mode
              else Error SerialAckInvalid
                     (''unable to parse composite sensor mode report: '' @ describe e)))"

end
