(* ===== verification/Tri_SensorProtocol.thy ===== *)
theory Tri_SensorProtocol
  imports Tri_SensorFrames
begin

text \<open>
  The specification of the serial protocol's frames as lists of 16-bit words, and the proofs that
  the command builder emits exactly these frames and that the parser accepts exactly the
  acknowledgements among them. The device's side of the exchange is specified here too: which
  command a frame carries and how a register device answers it.
\<close>

subsection \<open>Frames as words\<close>

definition word_bytes :: "u16 list \<Rightarrow> bytes" where
  "word_bytes ws = concat (map (\<lambda>w. [ucast (drop_bit 8 w), ucast w]) ws)"

text \<open>
  A frame is the header, the length in bytes of what follows the length word, the command code,
  the body and the sum of all words after the header.
\<close>

definition frame_length :: "u16 list \<Rightarrow> u16" where
  "frame_length body = of_nat (2 * length body + 4)"

definition frame_checksum :: "CompositeSensorCommandCode \<Rightarrow> u16 list \<Rightarrow> u16" where
  "frame_checksum code body = frame_length body + command_code code + sum_list body"

definition sensor_frame :: "CompositeSensorCommandCode \<Rightarrow> u16 list \<Rightarrow> bytes" where
  "sensor_frame code body = word_bytes
     (kHeader # frame_length body # command_code code # body @ [frame_checksum code body])"

definition write_ack :: "u16 \<Rightarrow> bytes" where
  "write_ack status = sensor_frame WriteRegister [status]"

definition read_ack :: "u16 \<Rightarrow> u16 \<Rightarrow> bytes" where
  "read_ack status d = sensor_frame ReadRegister [status, d]"

lemma word_bytes_simps [simp]:
  "word_bytes [] = []"
  "word_bytes (w # ws) = ucast (drop_bit 8 w) # ucast w # word_bytes ws"
  by (simp_all add: word_bytes_def)

lemma length_word_bytes [simp]: "length (word_bytes ws) = 2 * length ws"
  by (induction ws) simp_all

lemma word_bytes_inject: "word_bytes ws = word_bytes vs \<longleftrightarrow> ws = vs"
proof (induction ws arbitrary: vs)
  case Nil
  then show ?case by (cases vs) simp_all
next
  case (Cons w ws)
  show ?case
  proof (cases vs)
    case (Cons v vs')
    have "(ucast (drop_bit 8 w) :: u8) = ucast (drop_bit 8 v) \<and> (ucast w :: u8) = ucast v
        \<longleftrightarrow> w = v"
      by (metis be16_of_bytes)
    with Cons Cons.IH show ?thesis by auto
  qed simp
qed

lemma length_sensor_frame: "length (sensor_frame code body) = 2 * length body + 8"
  by (simp add: sensor_frame_def)

lemma sensor_frame_inject:
  "sensor_frame c xs = sensor_frame d ys \<longleftrightarrow> c = d \<and> xs = ys"
proof
  assume eq: "sensor_frame c xs = sensor_frame d ys"
  then have "length (sensor_frame c xs) = length (sensor_frame d ys)" by simp
  with eq show "c = d \<and> xs = ys"
    by (simp add: length_sensor_frame sensor_frame_def word_bytes_inject del: word_bytes_simps)
qed simp

lemma two_bytes:
  assumes "length bs = Suc (Suc n)"
  obtains a b rest where "bs = a # b # rest" "length rest = n"
  using assms by (metis length_Suc_conv)

lemma word_bytes_be16_at_10:
  assumes "length bs = 10"
  shows "word_bytes [be16_at bs 0, be16_at bs 2, be16_at bs 4, be16_at bs 6, be16_at bs 8] = bs"
proof -
  from assms obtain a b c d e f g h i j where "bs = [a, b, c, d, e, f, g, h, i, j]"
    by (auto simp: eval_nat_numeral length_Suc_conv)
  then show ?thesis by (simp add: be16_at_def)
qed

lemma word_bytes_be16_at_12:
  assumes "length bs = 12"
  shows "word_bytes [be16_at bs 0, be16_at bs 2, be16_at bs 4, be16_at bs 6, be16_at bs 8,
    be16_at bs 10] = bs"
proof -
  from assms obtain a b c d e f g h i j k l where "bs = [a, b, c, d, e, f, g, h, i, j, k, l]"
    by (auto simp: eval_nat_numeral length_Suc_conv)
  then show ?thesis by (simp add: be16_at_def)
qed

lemma be16_at_word_bytes_5:
  assumes "bs = word_bytes [u, v, w, x, y]"
  shows "be16_at bs 0 = u" "be16_at bs 2 = v" "be16_at bs 4 = w" "be16_at bs 6 = x"
    "be16_at bs 8 = y"
  using assms by (simp_all add: be16_at_def)

lemma be16_at_word_bytes_6:
  assumes "bs = word_bytes [u, v, w, x, y, z]"
  shows "be16_at bs 0 = u" "be16_at bs 2 = v" "be16_at bs 4 = w" "be16_at bs 6 = x"
    "be16_at bs 8 = y" "be16_at bs 10 = z"
  using assms by (simp_all add: be16_at_def)

subsection \<open>The builder emits frames\<close>

lemma builder_appendBe16_eq: "builder_appendBe16 out v = out @ word_bytes [v]"
  by (simp add: builder_appendBe16_def)

lemma frame_body_sums:
  "frame_length [a] = 6" "frame_length [a, b] = 8"
  by (simp_all add: frame_length_def)

theorem buildReadRegister_frame:
  "buildReadRegister (Some config) address = Inr (sensor_frame ReadRegister [address])"
  by (simp add: buildReadRegister_def builder_appendBe16_eq sensor_frame_def frame_checksum_def
      frame_body_sums kReadLength_def checksumWords3_def)

theorem buildWriteRegister_frame:
  "buildWriteRegister (Some config) address v = Inr (sensor_frame WriteRegister [address, v])"
  by (simp add: buildWriteRegister_def builder_appendBe16_eq sensor_frame_def frame_checksum_def
      frame_body_sums kWriteLength_def checksumWords4_def add.assoc)

subsection \<open>The parser accepts acknowledgement frames\<close>

definition write_ack_value :: CompositeSensorAck where
  "write_ack_value =
     default_ack\<lparr>ack_type := Ack, ack_originalCommand := WriteRegister,
       ack_status := StatusExecutable,
       ack_checksum := frame_checksum WriteRegister [StatusExecutable],
       ack_expectedChecksum := frame_checksum WriteRegister [StatusExecutable],
       ack_message := ''write-register ACK OK''\<rparr>"

definition read_ack_value :: "u16 \<Rightarrow> CompositeSensorAck" where
  "read_ack_value d =
     default_ack\<lparr>ack_type := Ack, ack_originalCommand := ReadRegister,
       ack_status := StatusExecutable, ack_data := d,
       ack_checksum := frame_checksum ReadRegister [StatusExecutable, d],
       ack_expectedChecksum := frame_checksum ReadRegister [StatusExecutable, d],
       ack_message := ''read-register ACK OK''\<rparr>"

lemma write_ack_words:
  "write_ack st = word_bytes [kHeader, kWriteAckLength, command_code WriteRegister, st,
     checksumWords3 kWriteAckLength (command_code WriteRegister) st]"
  by (simp add: write_ack_def sensor_frame_def frame_checksum_def frame_body_sums
      kWriteAckLength_def checksumWords3_def)

lemma read_ack_words:
  "read_ack st d = word_bytes [kHeader, kReadAckLength, command_code ReadRegister, st, d,
     checksumWords4 kReadAckLength (command_code ReadRegister) st d]"
  by (simp add: read_ack_def sensor_frame_def frame_checksum_def frame_body_sums
      kReadAckLength_def checksumWords4_def add.assoc)

lemma length_acks [simp]: "length (write_ack st) = kWriteAckBytes" "length (read_ack st d) = kReadAckBytes"
  by (simp_all add: write_ack_words read_ack_words kWriteAckBytes_def kReadAckBytes_def)

lemma parse_write_ack: "parseWriteRegisterAck (write_ack StatusExecutable) = Inr write_ack_value"
  by (simp add: parseWriteRegisterAck_def be16_at_word_bytes_5 [OF write_ack_words] isExecutable_def
      write_ack_value_def frame_checksum_def frame_body_sums kWriteAckLength_def checksumWords3_def
      Let_def)

lemma parse_read_ack: "parseReadRegisterAck (read_ack StatusExecutable d) = Inr (read_ack_value d)"
  by (simp add: parseReadRegisterAck_def be16_at_word_bytes_6 [OF read_ack_words] isExecutable_def
      read_ack_value_def frame_checksum_def frame_body_sums kReadAckLength_def checksumWords4_def
      Let_def add.assoc)

lemma parse_write_ack_inv:
  assumes "parseWriteRegisterAck bs = Inr ack"
  shows "bs = write_ack StatusExecutable"
proof -
  from assms have len: "length bs = 10"
    by (auto simp: parseWriteRegisterAck_def kWriteAckBytes_def split: if_splits)
  from assms have "be16_at bs 0 = kHeader" "be16_at bs 2 = kWriteAckLength"
    "be16_at bs 4 = command_code WriteRegister" "be16_at bs 6 = StatusExecutable"
    "be16_at bs 8 = checksumWords3 kWriteAckLength (command_code WriteRegister) StatusExecutable"
    by (auto simp: parseWriteRegisterAck_def isExecutable_def Let_def split: if_splits)
  with word_bytes_be16_at_10 [OF len] show ?thesis
    by (simp only: write_ack_words)
qed

lemma parse_read_ack_inv:
  assumes "parseReadRegisterAck bs = Inr ack"
  shows "bs = read_ack StatusExecutable (ack_data ack)"
proof -
  from assms have len: "length bs = 12"
    by (auto simp: parseReadRegisterAck_def kReadAckBytes_def split: if_splits)
  from assms have "be16_at bs 0 = kHeader" "be16_at bs 2 = kReadAckLength"
    "be16_at bs 4 = command_code ReadRegister" "be16_at bs 6 = StatusExecutable"
    "be16_at bs 8 = ack_data ack"
    "be16_at bs 10 = checksumWords4 kReadAckLength (command_code ReadRegister) StatusExecutable
       (ack_data ack)"
    by (auto simp: parseReadRegisterAck_def isExecutable_def Let_def split: if_splits)
  with word_bytes_be16_at_12 [OF len] show ?thesis
    by (simp only: read_ack_words)
qed

text \<open>
  The write-acknowledgement parser accepts one byte string only, the frame that answers
  a write command with the status EXECUTABLE, and reports it with both checksums equal.
\<close>

theorem parseWriteRegisterAck_accepts:
  "parseWriteRegisterAck bs = Inr ack \<longleftrightarrow>
     bs = write_ack StatusExecutable \<and> ack = write_ack_value"
  by (metis parse_write_ack parse_write_ack_inv sum.inject(2))

text \<open>
  Claim C32. The read-acknowledgement parser accepts the frames that answer a read command with the
  status EXECUTABLE and a data word, and no other byte string; it reports that data word.
\<close>

theorem parseReadRegisterAck_accepts:
  "parseReadRegisterAck bs = Inr ack \<longleftrightarrow>
     (\<exists>d. bs = read_ack StatusExecutable d \<and> ack = read_ack_value d)"
  by (metis parse_read_ack parse_read_ack_inv sum.inject(2))

text \<open>Every error of the parser is SerialAckInvalid; a rejected command names the status.\<close>

lemma parse_errors:
  "parseWriteRegisterAck bs = Inl e \<Longrightarrow> st_code e = SerialAckInvalid"
  "parseReadRegisterAck bs = Inl e' \<Longrightarrow> st_code e' = SerialAckInvalid"
  by (auto simp: parseWriteRegisterAck_def parseReadRegisterAck_def Let_def split: if_splits)

lemma parse_errors_text:
  "parseWriteRegisterAck bs = Inl e \<Longrightarrow> st_message e \<noteq> []"
  "parseReadRegisterAck bs = Inl e' \<Longrightarrow> st_message e' \<noteq> []"
  by (auto simp: parseWriteRegisterAck_def parseReadRegisterAck_def Let_def split: if_splits)

lemma parse_rejected:
  "parseWriteRegisterAck (write_ack StatusRejected) =
     Error SerialAckInvalid ''write-register command rejected by device, status=REJECTED''"
  "parseReadRegisterAck (read_ack StatusRejected d) =
     Error SerialAckInvalid ''read-register command rejected by device, status=REJECTED''"
  by (simp_all add: parseWriteRegisterAck_def parseReadRegisterAck_def Let_def
      be16_at_word_bytes_5 [OF write_ack_words] be16_at_word_bytes_6 [OF read_ack_words]
      isExecutable_def toString_StatusWord_def)

text \<open>Two valid read acknowledgements with different data differ in the data word and in the
  checksum word, so changing one byte of an acknowledgement is always detected.\<close>

definition differ_at :: "'a list \<Rightarrow> 'a list \<Rightarrow> nat set" where
  "differ_at xs ys = {i. i < length xs \<and> xs ! i \<noteq> ys ! i}"

lemma differ_at_word:
  assumes "xs = word_bytes ws" "ys = word_bytes vs" "length ws = length vs"
    and "k < length ws" and "ws ! k \<noteq> vs ! k"
  shows "\<exists>i \<in> {2 * k, 2 * k + 1}. i \<in> differ_at xs ys"
proof -
  have nth: "word_bytes us ! (2 * k) = ucast (drop_bit 8 (us ! k))
      \<and> word_bytes us ! (2 * k + 1) = ucast (us ! k)" if "k < length us" for us
    using that
  proof (induction us arbitrary: k)
    case (Cons u us)
    then show ?case by (cases k) simp_all
  qed simp
  have "(ucast (drop_bit 8 (ws ! k)) :: u8) \<noteq> ucast (drop_bit 8 (vs ! k))
      \<or> (ucast (ws ! k) :: u8) \<noteq> ucast (vs ! k)"
    using assms(5) by (metis be16_of_bytes)
  with assms(1-4) nth [of ws] nth [of vs] show ?thesis
    by (auto simp: differ_at_def)
qed

lemma read_acks_differ_twice:
  assumes "d \<noteq> d'"
  shows "2 \<le> card (differ_at (read_ack st d) (read_ack st d'))"
proof -
  let ?D = "differ_at (read_ack st d) (read_ack st d')"
  have fin: "finite ?D" by (simp add: differ_at_def)
  have w: "\<exists>i \<in> {2 * k, 2 * k + 1}. i \<in> ?D"
    if "k = 4 \<or> k = 5" for k
  proof (rule differ_at_word [OF read_ack_words read_ack_words])
    from that assms show
      "[kHeader, kReadAckLength, command_code ReadRegister, st, d,
        checksumWords4 kReadAckLength (command_code ReadRegister) st d] ! k
       \<noteq> [kHeader, kReadAckLength, command_code ReadRegister, st, d',
        checksumWords4 kReadAckLength (command_code ReadRegister) st d'] ! k"
      by (auto simp: checksumWords4_def)
  qed (use that in auto)
  obtain i where i: "i \<in> {8, 9}" "i \<in> ?D"
    using w [of 4] by auto
  obtain j where j: "j \<in> {10, 11}" "j \<in> ?D"
    using w [of 5] by auto
  have "{i, j} \<subseteq> ?D" and "card {i, j} = 2"
    using i j by auto
  with fin show ?thesis by (metis card_mono)
qed

subsection \<open>The device's side\<close>

text \<open>
  The command a frame carries, and how a device that stores one word per register answers it: a
  write stores the word and is acknowledged, a read returns the word. A frame that is no command
  is not answered.
\<close>

datatype sensor_command = ReadCommand u16 | WriteCommand u16 u16

fun command_frame :: "sensor_command \<Rightarrow> bytes" where
  "command_frame (ReadCommand a) = sensor_frame ReadRegister [a]"
| "command_frame (WriteCommand a v) = sensor_frame WriteRegister [a, v]"

definition decode_command :: "bytes \<Rightarrow> sensor_command option" where
  "decode_command bs =
     (if length bs = 10 \<and> bs = command_frame (ReadCommand (be16_at bs 6))
      then Some (ReadCommand (be16_at bs 6))
      else if length bs = 12 \<and> bs = command_frame (WriteCommand (be16_at bs 6) (be16_at bs 8))
      then Some (WriteCommand (be16_at bs 6) (be16_at bs 8))
      else None)"

fun device_answer :: "(u16 \<Rightarrow> u16) \<Rightarrow> sensor_command \<Rightarrow> (u16 \<Rightarrow> u16) \<times> bytes" where
  "device_answer regs (ReadCommand a) = (regs, read_ack StatusExecutable (regs a))"
| "device_answer regs (WriteCommand a v) = (regs(a := v), write_ack StatusExecutable)"

lemma length_command_frame [simp]:
  "length (command_frame (ReadCommand a)) = 10"
  "length (command_frame (WriteCommand a v)) = 12"
  by (simp_all add: length_sensor_frame)

lemma command_frame_words:
  "command_frame (ReadCommand a) = word_bytes [kHeader, 6, command_code ReadRegister, a,
     frame_checksum ReadRegister [a]]"
  "command_frame (WriteCommand a v) = word_bytes [kHeader, 8, command_code WriteRegister, a, v,
     frame_checksum WriteRegister [a, v]]"
  by (simp_all add: sensor_frame_def frame_body_sums)

lemma decode_command_frame: "decode_command (command_frame c) = Some c"
proof (cases c)
  case (ReadCommand a)
  then show ?thesis
    by (simp add: decode_command_def be16_at_word_bytes_5 [OF command_frame_words(1)]
        del: command_frame.simps)
next
  case (WriteCommand a v)
  then show ?thesis
    by (simp add: decode_command_def be16_at_word_bytes_6 [OF command_frame_words(2)]
        del: command_frame.simps)
qed

lemma decode_command_Some: "decode_command bs = Some c \<Longrightarrow> bs = command_frame c"
  by (auto simp: decode_command_def split: if_splits)

lemma command_frame_inject: "command_frame c = command_frame d \<longleftrightarrow> c = d"
  by (metis decode_command_frame option.inject)

lemma command_frame_nonempty [simp]: "command_frame c \<noteq> []"
  by (cases c) (simp_all add: command_frame_words del: command_frame.simps)

lemma build_command_frame:
  "buildReadRegister (Some config) a = Inr (command_frame (ReadCommand a))"
  "buildWriteRegister (Some config) a v = Inr (command_frame (WriteCommand a v))"
  by (simp_all add: buildReadRegister_frame buildWriteRegister_frame)

end
