(* ===== verification/Tri_Serial.thy ===== *)
theory Tri_Serial
  imports Tri_Config
begin

text \<open>
  The serial port: the translation of the configured endpoint and serial settings
  (hardware/common/HardwareConfig.cpp), the port itself (hardware/serial/SerialPort.cpp) and the
  checksummed framing of hardware/serial/SerialProtocol.cpp. The operating system is a parameter:
  a record of its calls over an abstract world, each returning what the call returns (a failure
  carries the text of strerror) and the new world.
\<close>

subsection \<open>HardwareConfig.cpp\<close>

record CaptureFormat =
  cf_width :: u32
  cf_height :: u32
  cf_pixelformat :: u32
  cf_fps :: u32

text \<open>The fourcc codes of linux/videodev2.h: 'MJPG', 'YUYV' and 'NV12', little endian.\<close>

definition fourcc :: "char \<Rightarrow> char \<Rightarrow> char \<Rightarrow> char \<Rightarrow> u32" where
  "fourcc a b c d = word_of_nat (chr_code a + 256 * chr_code b + 65536 * chr_code c
     + 16777216 * chr_code d)"

definition V4L2_PIX_FMT_MJPEG :: u32 where
  "V4L2_PIX_FMT_MJPEG = fourcc (CHR ''M'') (CHR ''J'') (CHR ''P'') (CHR ''G'')"

definition V4L2_PIX_FMT_YUYV :: u32 where
  "V4L2_PIX_FMT_YUYV = fourcc (CHR ''Y'') (CHR ''U'') (CHR ''Y'') (CHR ''V'')"

definition V4L2_PIX_FMT_NV12 :: u32 where
  "V4L2_PIX_FMT_NV12 = fourcc (CHR ''N'') (CHR ''V'') (CHR ''1'') (CHR ''2'')"

definition default_capture_format :: CaptureFormat where
  "default_capture_format =
     \<lparr>cf_width = 0, cf_height = 0, cf_pixelformat = V4L2_PIX_FMT_MJPEG, cf_fps = 30\<rparr>"

definition makeCaptureFormat :: "CameraEndpointConfig \<Rightarrow> CaptureFormat Result" where
  "makeCaptureFormat cfg =
     (if ep_width cfg \<le> 0 \<or> ep_height cfg \<le> 0 \<or> ep_fps cfg \<le> 0
      then Error InvalidArgument ''invalid camera endpoint width/height/fps''
      else
        let fmt = lower (ep_format cfg);
            mk = (\<lambda>pix. \<lparr>cf_width = word_of_int (ep_width cfg),
                         cf_height = word_of_int (ep_height cfg),
                         cf_pixelformat = pix, cf_fps = word_of_int (ep_fps cfg)\<rparr>)
        in if fmt = ''mjpeg'' \<or> fmt = ''mjpg'' then Inr (mk V4L2_PIX_FMT_MJPEG)
           else if fmt = ''yuyv'' \<or> fmt = ''yuyv422'' then Inr (mk V4L2_PIX_FMT_YUYV)
           else if fmt = ''nv12'' then Inr (mk V4L2_PIX_FMT_NV12)
           else Error Unsupported (''unsupported pixel format from config: '' @ ep_format cfg))"

datatype SerialParity = ParityNone | Odd | Even

record SerialPortConfig =
  sp_device :: string
  sp_baudrate :: int
  sp_dataBits :: int
  sp_stopBits :: int
  sp_parity :: SerialParity
  sp_timeoutMs :: int

definition default_port_config :: SerialPortConfig where
  "default_port_config =
     \<lparr>sp_device = [], sp_baudrate = 115200, sp_dataBits = 8, sp_stopBits = 1, sp_parity = ParityNone,
      sp_timeoutMs = 500\<rparr>"

definition makeSerialPortConfig :: "SerialConfig \<Rightarrow> SerialPortConfig Result" where
  "makeSerialPortConfig cfg =
     (if \<not> sc_enable cfg then Error InvalidArgument ''serial config is disabled''
      else if sc_dev cfg = [] then Error InvalidArgument ''serial dev is empty''
      else
        let out = default_port_config\<lparr>sp_device := sc_dev cfg, sp_baudrate := sc_baudrate cfg,
                    sp_dataBits := sc_databits cfg, sp_stopBits := sc_stopbits cfg,
                    sp_timeoutMs := sc_timeoutMs cfg\<rparr>;
            p = lower (sc_parity cfg)
        in if p = ''none'' \<or> p = ''n'' then Inr (out\<lparr>sp_parity := ParityNone\<rparr>)
           else if p = ''odd'' \<or> p = ''o'' then Inr (out\<lparr>sp_parity := Odd\<rparr>)
           else if p = ''even'' \<or> p = ''e'' then Inr (out\<lparr>sp_parity := Even\<rparr>)
           else Error Unsupported (''unsupported parity: '' @ sc_parity cfg))"

subsection \<open>The operating system's calls\<close>

datatype write_outcome = WriteInterrupted | WriteFailed string | Wrote nat

datatype poll_outcome = PollTimeout | PollFailed string | PollReady

text \<open>What the port writes into the terminal attributes before it sets them.\<close>

record LineSettings =
  ln_speed :: int
  ln_dataBits :: int
  ln_twoStopBits :: bool
  ln_parityEnabled :: bool
  ln_parityOdd :: bool

record 'w serial_os =
  so_open :: "string \<Rightarrow> 'w \<Rightarrow> (string + int) \<times> 'w"
  so_close :: "int \<Rightarrow> 'w \<Rightarrow> 'w"
  so_tcgetattr :: "int \<Rightarrow> 'w \<Rightarrow> string option \<times> 'w"
  so_tcsetattr :: "int \<Rightarrow> LineSettings \<Rightarrow> 'w \<Rightarrow> string option \<times> 'w"
  so_tcflush :: "int \<Rightarrow> 'w \<Rightarrow> 'w"
  so_write :: "int \<Rightarrow> bytes \<Rightarrow> 'w \<Rightarrow> write_outcome \<times> 'w"
  so_poll :: "int \<Rightarrow> int \<Rightarrow> 'w \<Rightarrow> poll_outcome \<times> 'w"
  so_read :: "int \<Rightarrow> nat \<Rightarrow> 'w \<Rightarrow> (string + bytes) \<times> 'w"

subsection \<open>SerialPort.cpp\<close>

record SerialPort =
  port_fd :: int
  port_config :: SerialPortConfig

definition default_port :: SerialPort where
  "default_port = \<lparr>port_fd = -1, port_config = default_port_config\<rparr>"

definition toSpeed :: "int \<Rightarrow> int" where
  "toSpeed baudrate =
     (if baudrate \<in> {9600, 19200, 38400, 57600, 115200, 230400, 460800, 921600}
      then baudrate else 0)"

definition port_isOpen :: "SerialPort \<Rightarrow> bool" where
  "port_isOpen p \<longleftrightarrow> 0 \<le> port_fd p"

definition closePort :: "'w serial_os \<Rightarrow> SerialPort \<Rightarrow> 'w \<Rightarrow> SerialPort \<times> 'w" where
  "closePort os p w =
     (p\<lparr>port_fd := -1\<rparr>, if 0 \<le> port_fd p then so_close os (port_fd p) w else w)"

definition configureTermios :: "'w serial_os \<Rightarrow> SerialPort \<Rightarrow> 'w \<Rightarrow> unit Result \<times> 'w" where
  "configureTermios os p w =
     (let cfg = port_config p in
      case so_tcgetattr os (port_fd p) w of
        (Some e, w) \<Rightarrow> (Error IoError (''tcgetattr: '' @ e), w)
      | (None, w) \<Rightarrow>
          if toSpeed (sp_baudrate cfg) = 0
          then (Error Unsupported (''unsupported baudrate: '' @ show_int (sp_baudrate cfg)), w)
          else if sp_dataBits cfg \<noteq> 7 \<and> sp_dataBits cfg \<noteq> 8
          then (Error Unsupported (''unsupported data bits: '' @ show_int (sp_dataBits cfg)), w)
          else if sp_stopBits cfg \<noteq> 2 \<and> sp_stopBits cfg \<noteq> 1
          then (Error Unsupported (''unsupported stop bits: '' @ show_int (sp_stopBits cfg)), w)
          else
            (case so_tcsetattr os (port_fd p)
                    \<lparr>ln_speed = toSpeed (sp_baudrate cfg), ln_dataBits = sp_dataBits cfg,
                     ln_twoStopBits = (sp_stopBits cfg = 2),
                     ln_parityEnabled = (sp_parity cfg = Odd \<or> sp_parity cfg = Even),
                     ln_parityOdd = (sp_parity cfg = Odd)\<rparr> w of
               (Some e, w) \<Rightarrow> (Error IoError (''tcsetattr: '' @ e), w)
             | (None, w) \<Rightarrow> (Success, so_tcflush os (port_fd p) w)))"

definition openPort ::
  "'w serial_os \<Rightarrow> SerialPortConfig \<Rightarrow> SerialPort \<Rightarrow> 'w \<Rightarrow> unit Result \<times> SerialPort \<times> 'w" where
  "openPort os config p w =
     (if port_isOpen p then (Error AlreadyInitialized ''serial port already open'', p, w)
      else if sp_device config = []
      then (Error InvalidArgument ''serial device is empty'', p, w)
      else
        let p = p\<lparr>port_config := config\<rparr> in
        case so_open os (sp_device config) w of
          (Inl e, w) \<Rightarrow>
            (Error SerialOpenFailed (''open '' @ sp_device config @ '': '' @ e),
             p\<lparr>port_fd := -1\<rparr>, w)
        | (Inr fd, w) \<Rightarrow>
            let p = p\<lparr>port_fd := fd\<rparr> in
            (case configureTermios os p w of
               (Inl e, w) \<Rightarrow> (case closePort os p w of (p, w) \<Rightarrow> (Inl e, p, w))
             | (Inr _, w) \<Rightarrow> (Success, p, w)))"

text \<open>
  The loop of \<open>writeBytes\<close> does not end if the system keeps interrupting the call or keeps
  accepting no byte: \<open>None\<close> is that case.
\<close>

partial_function (option) write_loop ::
  "'w serial_os \<Rightarrow> int \<Rightarrow> bytes \<Rightarrow> nat \<Rightarrow> 'w \<Rightarrow> (unit Result \<times> 'w) option" where
  "write_loop os fd bs written w =
     (if written < length bs
      then (case so_write os fd (drop written bs) w of
              (r, w) \<Rightarrow>
                (case r of
                   WriteInterrupted \<Rightarrow> write_loop os fd bs written w
                 | WriteFailed e \<Rightarrow> Some (Error SerialWriteFailed (''serial write: '' @ e), w)
                 | Wrote n \<Rightarrow> write_loop os fd bs (written + n) w))
      else Some (Success, w))"

definition writeBytes ::
  "'w serial_os \<Rightarrow> SerialPort \<Rightarrow> bytes \<Rightarrow> 'w \<Rightarrow> (unit Result \<times> 'w) option" where
  "writeBytes os p bs w =
     (if port_fd p < 0 then Some (Error NotInitialized ''serial port not open'', w)
      else if bs = [] then Some (Error InvalidArgument ''serial write bytes empty'', w)
      else write_loop os (port_fd p) bs 0 w)"

text \<open>The buffer of \<open>readBytes\<close> holds \<open>maxBytes\<close> bytes, so the system reads no more.\<close>

definition readBytes ::
  "'w serial_os \<Rightarrow> SerialPort \<Rightarrow> nat \<Rightarrow> int \<Rightarrow> 'w \<Rightarrow> bytes Result \<times> 'w" where
  "readBytes os p maxBytes timeoutMs w =
     (if port_fd p < 0 then (Error NotInitialized ''serial port not open'', w)
      else if maxBytes = 0 then (Error InvalidArgument ''maxBytes is zero'', w)
      else
        case so_poll os (port_fd p) timeoutMs w of
          (PollTimeout, w) \<Rightarrow> (Error SerialReadTimeout ''serial read timeout'', w)
        | (PollFailed e, w) \<Rightarrow> (Error IoError (''serial poll: '' @ e), w)
        | (PollReady, w) \<Rightarrow>
            (case so_read os (port_fd p) maxBytes w of
               (Inl e, w) \<Rightarrow> (Error IoError (''serial read: '' @ e), w)
             | (Inr bs, w) \<Rightarrow> (Inr (take maxBytes bs), w)))"

lemma readBytes_bound: "readBytes os p n t w = (Inr bs, w') \<Longrightarrow> length bs \<le> n"
  by (auto simp: readBytes_def split: if_splits prod.splits poll_outcome.splits sum.splits)

text \<open>A port is open after a successful \<open>openPort\<close> and closed after a failed one.\<close>

lemma openPort_isOpen:
  assumes "openPort os config p w = (r, p', w')" and "\<not> port_isOpen p"
    and "\<And>d v fd v'. so_open os d v = (Inr fd, v') \<Longrightarrow> 0 \<le> fd"
  shows "port_isOpen p' \<longleftrightarrow> result_ok r"
  using assms
  by (fastforce simp: openPort_def port_isOpen_def closePort_def Let_def
      split: if_splits prod.splits sum.splits)

subsection \<open>SerialProtocol.cpp\<close>

definition appendChecksumBE :: "bytes \<Rightarrow> bytes" where
  "appendChecksumBE payload = (let sum = checksum16 payload in appendBe16 payload sum)"

definition parseWithChecksumBE :: "bytes \<Rightarrow> bytes Result" where
  "parseWithChecksumBE frame =
     (if length frame < 3 then Error InvalidArgument ''serial frame too short''
      else
        let payload = take (length frame - 2) frame;
            expected = be16_at frame (length frame - 2);
            actual = checksum16 payload
        in if expected \<noteq> actual then Error SerialAckInvalid ''serial checksum mismatch''
           else Inr payload)"

lemma last_two_bytes:
  assumes "2 \<le> length bs"
  obtains xs a b where "bs = xs @ [a, b]"
proof -
  from assms obtain ys b where "bs = ys @ [b]" "1 \<le> length ys"
    by (cases bs rule: rev_cases) auto
  moreover from this obtain xs a where "ys = xs @ [a]"
    by (cases ys rule: rev_cases) auto
  ultimately show ?thesis using that by simp
qed

text \<open>Framing round trip.\<close>

theorem parseWithChecksumBE_inverse:
  "parseWithChecksumBE frame = Inr payload \<longleftrightarrow>
     payload \<noteq> [] \<and> frame = appendChecksumBE payload"
proof
  assume ok: "parseWithChecksumBE frame = Inr payload"
  then have len: "3 \<le> length frame"
    and p: "payload = take (length frame - 2) frame"
    and c: "be16_at frame (length frame - 2) = checksum16 payload"
    by (auto simp: parseWithChecksumBE_def Let_def split: if_splits)
  obtain xs a b where f: "frame = xs @ [a, b]"
    using len last_two_bytes [of frame] by force
  with p have "payload = xs" by simp
  moreover have "checksum16 xs = be16 a b"
    using f c \<open>payload = xs\<close> by (simp add: be16_at_def nth_append)
  ultimately show "payload \<noteq> [] \<and> frame = appendChecksumBE payload"
    using f len by (auto simp: appendChecksumBE_def appendBe16_def Let_def)
next
  assume "payload \<noteq> [] \<and> frame = appendChecksumBE payload"
  then show "parseWithChecksumBE frame = Inr payload"
    by (cases payload)
       (auto simp: parseWithChecksumBE_def appendChecksumBE_def appendBe16_def be16_at_def
         Let_def nth_append)
qed

end
