(* ===== verification/Tri_Events.thy ===== *)
theory Tri_Events
  imports Tri_Result
begin

text \<open>
  Events and their delivery (foundation/event). An event carries its type, its name and its text
  fields; the timestamp and the payload, which no part of the program reads, are left out.
\<close>

datatype EventType =
  Unknown | SystemStarted | SystemStopping | ConfigReloaded | CameraOnline | CameraOffline
  | ModeChanged | PipelineStarted | PipelineStopped | ProtocolError | FaultDetected

record Event =
  ev_type :: EventType
  ev_name :: string
  ev_fields :: "string \<rightharpoonup> string"

end
