(* ===== verification/Tri_SensorController.thy ===== *)
theory Tri_SensorController
  imports Tri_SensorProtocol Tri_Serial Tri_Events
begin

text \<open>
  The controller of the composite sensor (device_control/CompositeSensorController.cpp): its state,
  its exchange of commands and acknowledgements over the serial port with retries, and its register
  operations. The controller is passed explicitly, with the world of the operating system; a result
  \<open>None\<close> is a call that does not return because the port's write loop does not.
\<close>

record SensorController =
  ctl_config :: SerialConfig
  ctl_eventBus :: bool
  ctl_serial :: SerialPort
  ctl_builder :: CommandBuilder
  ctl_state :: CompositeSensorState
  ctl_ackRequired :: bool
  ctl_published :: "Event list"

text \<open>
  \<open>ctl_eventBus\<close> tells whether the controller has been given an event bus; the events it publishes
  there are kept in \<open>ctl_published\<close>, oldest first.
\<close>

definition new_controller :: SensorController where
  "new_controller =
     \<lparr>ctl_config = default_serial_config, ctl_eventBus = False, ctl_serial = default_port,
      ctl_builder = None, ctl_state = default_sensor_state, ctl_ackRequired = True,
      ctl_published = []\<rparr>"

definition isReady :: "SensorController \<Rightarrow> bool" where
  "isReady c \<longleftrightarrow> cs_initialized (ctl_state c) \<and> cs_serialOnline (ctl_state c) \<and>
     port_isOpen (ctl_serial c)"

definition setAckRequired :: "bool \<Rightarrow> SensorController \<Rightarrow> SensorController" where
  "setAckRequired required c = c\<lparr>ctl_ackRequired := required\<rparr>"

definition ensureReady :: "SensorController \<Rightarrow> unit Result" where
  "ensureReady c =
     (if \<not> isReady c then Error NotInitialized ''composite sensor controller is not ready''
      else Success)"

definition recordError :: "Status \<Rightarrow> SensorController \<Rightarrow> SensorController" where
  "recordError status c =
     (let st = ctl_state c;
          st = st\<lparr>cs_errorCount := cs_errorCount st + 1, cs_lastError := describe status\<rparr>;
          st = (if st_code status = SerialOpenFailed \<or> st_code status = SerialReadTimeout \<or>
                   st_code status = SerialWriteFailed \<or> st_code status = IoError
                then st\<lparr>cs_serialOnline := False\<rparr> else st)
      in c\<lparr>ctl_state := st\<rparr>)"

definition clearLastError :: "SensorController \<Rightarrow> SensorController" where
  "clearLastError c = c\<lparr>ctl_state := (ctl_state c)\<lparr>cs_lastError := []\<rparr>\<rparr>"

definition publishModeChanged ::
  "CompositeSensorOutputMode \<Rightarrow> SensorController \<Rightarrow> SensorController" where
  "publishModeChanged mode c =
     (if \<not> ctl_eventBus c then c
      else c\<lparr>ctl_published := ctl_published c @
             [\<lparr>ev_type = ModeChanged, ev_name = ''CompositeSensorOutputModeChanged'',
               ev_fields = map_entries
                 [(''component'', ''CompositeSensorController''),
                  (''composite_output_mode'', toString_OutputMode mode)]\<rparr>]\<rparr>)"

subsection \<open>Opening and closing\<close>

definition ctl_init ::
  "'w serial_os \<Rightarrow> SerialConfig \<Rightarrow> bool \<Rightarrow> SensorController \<Rightarrow> 'w \<Rightarrow>
     unit Result \<times> SensorController \<times> 'w" where
  "ctl_init os config eventBus c w =
     (if cs_initialized (ctl_state c)
      then (Error AlreadyInitialized ''composite sensor controller already initialized'', c, w)
      else
        let c = c\<lparr>ctl_config := config, ctl_eventBus := eventBus\<rparr> in
        case builder_init (ctl_config c) (ctl_builder c) of
          (Inl e, b) \<Rightarrow> (Inl e, recordError e (c\<lparr>ctl_builder := b\<rparr>), w)
        | (Inr _, b) \<Rightarrow>
            let c = c\<lparr>ctl_builder := b\<rparr> in
            (case makeSerialPortConfig (ctl_config c) of
               Inl e \<Rightarrow> (rewrap e, recordError e c, w)
             | Inr portCfg \<Rightarrow>
                 (case openPort os portCfg (ctl_serial c) w of
                    (Inl e, p, w) \<Rightarrow> (Inl e, recordError e (c\<lparr>ctl_serial := p\<rparr>), w)
                  | (Inr _, p, w) \<Rightarrow>
                      (Success,
                       c\<lparr>ctl_serial := p,
                         ctl_state := (ctl_state c)\<lparr>cs_initialized := True,
                           cs_serialOnline := True, cs_lastError := []\<rparr>\<rparr>, w))))"

definition ctl_shutdown ::
  "'w serial_os \<Rightarrow> SensorController \<Rightarrow> 'w \<Rightarrow> SensorController \<times> 'w" where
  "ctl_shutdown os c w =
     (case closePort os (ctl_serial c) w of
        (p, w) \<Rightarrow>
          (c\<lparr>ctl_serial := p,
             ctl_state := (ctl_state c)\<lparr>cs_serialOnline := False, cs_initialized := False\<rparr>\<rparr>, w))"

subsection \<open>One exchange with the sensor\<close>

text \<open>
  \<open>readExact\<close> collects exactly \<open>expectedBytes\<close> bytes from as many reads as it takes; the
  accumulator \<open>out\<close> starts empty. It ends because a read yields at least one byte or an error.
\<close>

function readExact ::
  "'w serial_os \<Rightarrow> SerialPort \<Rightarrow> nat \<Rightarrow> int \<Rightarrow> bytes \<Rightarrow> 'w \<Rightarrow> bytes Result \<times> 'w" where
  "readExact os p expectedBytes timeoutMs out w =
     (if length out < expectedBytes
      then (case readBytes os p (expectedBytes - length out) timeoutMs w of
              (r, w) \<Rightarrow>
                (case r of
                   Inl e \<Rightarrow> (rewrap e, w)
                 | Inr chunk \<Rightarrow>
                     if chunk = [] then (Error SerialReadTimeout ''serial read returned empty data'', w)
                     else readExact os p expectedBytes timeoutMs (out @ chunk) w))
      else (Inr out, w))"
  by pat_completeness auto
termination
  by (relation "measure (\<lambda>(os, p, n, t, out, w). n - length out)")
     (auto intro!: diff_less_mono2)

declare readExact.simps [simp del]

definition sendWriteOnce ::
  "'w serial_os \<Rightarrow> SensorController \<Rightarrow> bytes \<Rightarrow> 'w \<Rightarrow> (unit Result \<times> 'w) option" where
  "sendWriteOnce os c command w =
     do { (r, w) \<leftarrow> writeBytes os (ctl_serial c) command w;
          Some (case r of
            Inl e \<Rightarrow> (Inl e, w)
          | Inr _ \<Rightarrow>
              (case readExact os (ctl_serial c) kWriteAckBytes (sc_timeoutMs (ctl_config c)) [] w of
                 (Inl e, w) \<Rightarrow>
                   if \<not> ctl_ackRequired c \<and> st_code e = SerialReadTimeout then (Success, w)
                   else (rewrap e, w)
               | (Inr bs, w) \<Rightarrow>
                   (case parseWriteRegisterAck bs of
                      Inl e \<Rightarrow> (rewrap e, w)
                    | Inr _ \<Rightarrow> (Success, w)))) }"

definition sendReadOnce ::
  "'w serial_os \<Rightarrow> SensorController \<Rightarrow> bytes \<Rightarrow> 'w \<Rightarrow>
     (CompositeSensorAck Result \<times> 'w) option" where
  "sendReadOnce os c command w =
     do { (r, w) \<leftarrow> writeBytes os (ctl_serial c) command w;
          Some (case r of
            Inl e \<Rightarrow> (rewrap e, w)
          | Inr _ \<Rightarrow>
              (case readExact os (ctl_serial c) kReadAckBytes (sc_timeoutMs (ctl_config c)) [] w of
                 (Inl e, w) \<Rightarrow> (rewrap e, w)
               | (Inr bs, w) \<Rightarrow> (parseReadRegisterAck bs, w))) }"

text \<open>The loop that both retrying senders are: \<open>n\<close> attempts are left and \<open>prev\<close> is the status
  of the attempt before.\<close>

fun retry_loop ::
  "string \<Rightarrow> ('w \<Rightarrow> ('a Result \<times> 'w) option) \<Rightarrow> nat \<Rightarrow> Status \<Rightarrow> 'w \<Rightarrow>
     ('a Result \<times> 'w) option" where
  "retry_loop text attempt 0 prev w =
     Some (Error CompositeModeSwitchFailed (text @ describe prev), w)"
| "retry_loop text attempt (Suc n) prev w =
     do { (r, w) \<leftarrow> attempt w;
          (case r of Inr x \<Rightarrow> Some (Inr x, w) | Inl e \<Rightarrow> retry_loop text attempt n e w) }"

definition attempts :: "SensorController \<Rightarrow> nat" where
  "attempts c = nat (max 1 (sc_retryCount (ctl_config c) + 1))"

definition sendWriteCommandWithRetry ::
  "'w serial_os \<Rightarrow> SensorController \<Rightarrow> bytes \<Rightarrow> 'w \<Rightarrow> (unit Result \<times> 'w) option" where
  "sendWriteCommandWithRetry os c command w =
     retry_loop ''composite sensor write command failed after retries: ''
       (sendWriteOnce os c command) (attempts c) status_success w"

definition sendReadCommandWithRetry ::
  "'w serial_os \<Rightarrow> SensorController \<Rightarrow> bytes \<Rightarrow> 'w \<Rightarrow>
     (CompositeSensorAck Result \<times> 'w) option" where
  "sendReadCommandWithRetry os c command w =
     retry_loop ''composite sensor read command failed after retries: ''
       (sendReadOnce os c command) (attempts c) status_success w"

subsection \<open>Registers\<close>

definition readRegister ::
  "'w serial_os \<Rightarrow> u16 \<Rightarrow> SensorController \<Rightarrow> 'w \<Rightarrow>
     (u16 Result \<times> SensorController \<times> 'w) option" where
  "readRegister os address c w =
     (case ensureReady c of
        Inl e \<Rightarrow> Some (rewrap e, c, w)
      | Inr _ \<Rightarrow>
          (case buildReadRegister (ctl_builder c) address of
             Inl e \<Rightarrow> Some (rewrap e, recordError e c, w)
           | Inr cmd \<Rightarrow>
               do { (r, w) \<leftarrow> sendReadCommandWithRetry os c cmd w;
                    Some (case r of
                      Inl e \<Rightarrow> (rewrap e, recordError e c, w)
                    | Inr ack \<Rightarrow> (Inr (ack_data ack), clearLastError c, w)) }))"

definition writeRegister ::
  "'w serial_os \<Rightarrow> u16 \<Rightarrow> u16 \<Rightarrow> SensorController \<Rightarrow> 'w \<Rightarrow>
     (unit Result \<times> SensorController \<times> 'w) option" where
  "writeRegister os address v c w =
     (case ensureReady c of
        Inl e \<Rightarrow> Some (Inl e, c, w)
      | Inr _ \<Rightarrow>
          (case buildWriteRegister (ctl_builder c) address v of
             Inl e \<Rightarrow> Some (rewrap e, recordError e c, w)
           | Inr cmd \<Rightarrow>
               do { (r, w) \<leftarrow> sendWriteCommandWithRetry os c cmd w;
                    Some (case r of
                      Inl e \<Rightarrow> (Inl e, recordError e c, w)
                    | Inr _ \<Rightarrow> (Success, clearLastError c, w)) }))"

definition readRegisterNamed ::
  "'w serial_os \<Rightarrow> CompositeSensorRegister \<Rightarrow> SensorController \<Rightarrow> 'w \<Rightarrow>
     (u16 Result \<times> SensorController \<times> 'w) option" where
  "readRegisterNamed os reg c w = readRegister os (register_address reg) c w"

definition writeRegisterNamed ::
  "'w serial_os \<Rightarrow> CompositeSensorRegister \<Rightarrow> u16 \<Rightarrow> SensorController \<Rightarrow> 'w \<Rightarrow>
     (unit Result \<times> SensorController \<times> 'w) option" where
  "writeRegisterNamed os reg v c w = writeRegister os (register_address reg) v c w"

subsection \<open>Output mode\<close>

definition setFusionMode ::
  "'w serial_os \<Rightarrow> int \<Rightarrow> CompositeSensorOutputMode \<Rightarrow> SensorController \<Rightarrow> 'w \<Rightarrow>
     (unit Result \<times> SensorController \<times> 'w) option" where
  "setFusionMode os now mode c w =
     (if mode = CompositeSensorOutputMode.Unknown
      then Some (Error InvalidArgument ''invalid composite sensor output mode'', c, w)
      else
        do { (r, c, w) \<leftarrow> writeRegisterNamed os FusionMode (outputModeRegisterValue mode) c w;
             Some (case r of
               Inl e \<Rightarrow> (Inl e, c, w)
             | Inr _ \<Rightarrow>
                 let st = ctl_state c;
                     st = st\<lparr>cs_currentMode := mode, cs_lastSwitchTimeMs := now,
                             cs_switchCount := cs_switchCount st + 1, cs_lastError := []\<rparr>
                 in (Success, publishModeChanged mode (c\<lparr>ctl_state := st\<rparr>), w)) })"

definition setOutputMode ::
  "'w serial_os \<Rightarrow> int \<Rightarrow> CompositeSensorOutputMode \<Rightarrow> SensorController \<Rightarrow> 'w \<Rightarrow>
     (unit Result \<times> SensorController \<times> 'w) option" where
  "setOutputMode os now mode c w = setFusionMode os now mode c w"

definition getFusionMode ::
  "'w serial_os \<Rightarrow> SensorController \<Rightarrow> 'w \<Rightarrow>
     (CompositeSensorOutputMode Result \<times> SensorController \<times> 'w) option" where
  "getFusionMode os c w =
     do { (r, c, w) \<leftarrow> readRegisterNamed os FusionMode c w;
          Some (case r of
            Inl e \<Rightarrow> (rewrap e, c, w)
          | Inr v \<Rightarrow>
              let mode = outputModeFromRegisterValue v in
              if mode = CompositeSensorOutputMode.Unknown
              then (Error SerialAckInvalid
                      (''unknown fusion mode register value: '' @ show_nat (unat v)), c, w)
              else (Inr mode, c\<lparr>ctl_state := (ctl_state c)\<lparr>cs_currentMode := mode\<rparr>\<rparr>, w)) }"

definition queryOutputMode ::
  "'w serial_os \<Rightarrow> SensorController \<Rightarrow> 'w \<Rightarrow>
     (CompositeSensorOutputMode Result \<times> SensorController \<times> 'w) option" where
  "queryOutputMode os c w = getFusionMode os c w"

text \<open>\<open>waitStable\<close> sleeps for the time it is given; the sleep is not observable here.\<close>

definition waitStable :: "int \<Rightarrow> SensorController \<Rightarrow> unit Result" where
  "waitStable timeoutMs c =
     (if timeoutMs < 0 then Error InvalidArgument ''timeoutMs must be >= 0''
      else (case ensureReady c of Inl e \<Rightarrow> Inl e | Inr _ \<Rightarrow> Success))"

subsection \<open>Register settings\<close>

definition setFusionColor where
  "setFusionColor os color c w = writeRegisterNamed os FusionColor (fusion_color_value color) c w"

definition setContourMode where
  "setContourMode os mode c w = writeRegisterNamed os ContourMode (contour_mode_value mode) c w"

definition setInfraredPolarity where
  "setInfraredPolarity os polarity c w =
     writeRegisterNamed os InfraredPolarity (infrared_polarity_value polarity) c w"

definition triggerInfraredCorrection where
  "triggerInfraredCorrection os c w = writeRegisterNamed os InfraredCorrection 1 c w"

definition validatePercent :: "u16 \<Rightarrow> string \<Rightarrow> unit Result" where
  "validatePercent v name =
     (if 100 < v then Error InvalidArgument (name @ '' must be 0..100'') else Success)"

definition setInfraredBrightness where
  "setInfraredBrightness os v c w =
     (case validatePercent v ''infrared brightness'' of
        Inl e \<Rightarrow> Some (Inl e, c, w)
      | Inr _ \<Rightarrow> writeRegisterNamed os InfraredBrightness v c w)"

definition setInfraredContrast where
  "setInfraredContrast os v c w =
     (case validatePercent v ''infrared contrast'' of
        Inl e \<Rightarrow> Some (Inl e, c, w)
      | Inr _ \<Rightarrow> writeRegisterNamed os InfraredContrast v c w)"

definition setLowlightBrightness where
  "setLowlightBrightness os v c w =
     (case validatePercent v ''lowlight brightness'' of
        Inl e \<Rightarrow> Some (Inl e, c, w)
      | Inr _ \<Rightarrow> writeRegisterNamed os LowlightBrightness v c w)"

definition setLowlightContrast where
  "setLowlightContrast os v c w =
     (case validatePercent v ''lowlight contrast'' of
        Inl e \<Rightarrow> Some (Inl e, c, w)
      | Inr _ \<Rightarrow> writeRegisterNamed os LowlightContrast v c w)"

definition setInfraredRegistrationZoom where
  "setInfraredRegistrationZoom os (v :: u16) c w =
     (if 15 < v
      then Some (Error InvalidArgument ''infrared registration zoom must be 0..15'', c, w)
      else writeRegisterNamed os InfraredRegistrationZoom v c w)"

text \<open>An offset is a signed 16-bit number; the register takes its two's complement.\<close>

definition setInfraredRegistrationOffsetX where
  "setInfraredRegistrationOffsetX os (v :: int) c w =
     writeRegisterNamed os InfraredRegistrationOffsetX (word_of_int v) c w"

definition setInfraredRegistrationOffsetY where
  "setInfraredRegistrationOffsetY os (v :: int) c w =
     writeRegisterNamed os InfraredRegistrationOffsetY (word_of_int v) c w"

definition setLowlightRegistrationZoom where
  "setLowlightRegistrationZoom os (v :: u16) c w =
     (if 10 < v
      then Some (Error InvalidArgument ''lowlight registration zoom must be 0..10'', c, w)
      else writeRegisterNamed os LowlightRegistrationZoom v c w)"

definition setLowlightRegistrationOffsetX where
  "setLowlightRegistrationOffsetX os (v :: int) c w =
     writeRegisterNamed os LowlightRegistrationOffsetX (word_of_int v) c w"

definition setLowlightRegistrationOffsetY where
  "setLowlightRegistrationOffsetY os (v :: int) c w =
     writeRegisterNamed os LowlightRegistrationOffsetY (word_of_int v) c w"

definition saveCurrentConfig where
  "saveCurrentConfig os c w =
     (if register_address SaveConfig = 0xFFFF
      then Some (Error Unsupported
             ''save config register address is not defined in current protocol excerpt'', c, w)
      else writeRegisterNamed os SaveConfig (save_config_value SaveCurrent) c w)"

definition restoreDefaultConfig where
  "restoreDefaultConfig os c w =
     (if register_address SaveConfig = 0xFFFF
      then Some (Error Unsupported
             ''save/restore register address is not defined in current protocol excerpt'', c, w)
      else writeRegisterNamed os SaveConfig (save_config_value RestoreDefault) c w)"

subsection \<open>Failures\<close>

text \<open>An exhausted retry loop reports the code CompositeModeSwitchFailed, whatever failed.\<close>

lemma retry_loop_code:
  assumes "retry_loop text attempt n prev w = Some (Inl e, w')"
  shows "st_code e = CompositeModeSwitchFailed"
  using assms
  by (induction n arbitrary: prev w)
     (auto elim!: bind_SomeE split: prod.split_asm sum.split_asm)

lemma retry_loop_text:
  assumes "retry_loop text attempt n prev w = Some (Inl e, w')"
  shows "\<exists>rest. st_message e = text @ rest"
  using assms
  by (induction n arbitrary: prev w)
     (auto elim!: bind_SomeE split: prod.split_asm sum.split_asm)

text \<open>What a register operation may change in the controller.\<close>

definition same_link :: "SensorController \<Rightarrow> SensorController \<Rightarrow> bool" where
  "same_link c c' \<longleftrightarrow>
     (\<exists>n msg. c' = c\<lparr>ctl_state := (ctl_state c)\<lparr>cs_errorCount := n, cs_lastError := msg\<rparr>\<rparr>)"

lemma same_link_refl: "same_link c c"
proof -
  have "c = c\<lparr>ctl_state := (ctl_state c)\<lparr>cs_errorCount := cs_errorCount (ctl_state c),
      cs_lastError := cs_lastError (ctl_state c)\<rparr>\<rparr>" by simp
  then show ?thesis unfolding same_link_def by blast
qed

lemma same_link_clear: "same_link c (clearLastError c)"
proof -
  have "clearLastError c = c\<lparr>ctl_state := (ctl_state c)\<lparr>cs_errorCount := cs_errorCount (ctl_state c),
      cs_lastError := []\<rparr>\<rparr>" by (simp add: clearLastError_def)
  then show ?thesis unfolding same_link_def by blast
qed

lemma same_link_record:
  assumes "st_code e = CompositeModeSwitchFailed \<or> st_code e = NotInitialized"
  shows "same_link c (recordError e c)"
  using assms unfolding same_link_def recordError_def by (auto simp: Let_def)

lemma same_link_isReady: "same_link c c' \<Longrightarrow> isReady c' = isReady c"
  by (auto simp: same_link_def isReady_def)

lemma build_errors:
  "buildReadRegister b a = Inl e \<Longrightarrow> st_code e = NotInitialized"
  "buildWriteRegister b a v = Inl e' \<Longrightarrow> st_code e' = NotInitialized"
  by (auto simp: buildReadRegister_def buildWriteRegister_def Let_def split: option.splits)

lemma readRegister_link:
  assumes "readRegister os a c w = Some (r, c', w')"
  shows "same_link c c'"
  using assms
  by (auto simp: readRegister_def ensureReady_def sendReadCommandWithRetry_def
      elim!: bind_SomeE split: if_splits sum.split_asm prod.split_asm
      intro!: same_link_refl same_link_clear same_link_record dest: build_errors retry_loop_code)

lemma writeRegister_link:
  assumes "writeRegister os a v c w = Some (r, c', w')"
  shows "same_link c c'"
  using assms
  by (auto simp: writeRegister_def ensureReady_def sendWriteCommandWithRetry_def
      elim!: bind_SomeE split: if_splits sum.split_asm prod.split_asm
      intro!: same_link_refl same_link_clear same_link_record dest: build_errors retry_loop_code)

end
