(* ===== verification/Tri_SensorLine.thy ===== *)
theory Tri_SensorLine
  imports Tri_SensorController
begin

text \<open>
  The controller at the end of a serial line with a sensor at the other: a reference sensor that
  takes a command byte by byte and answers it, what a faithful line is (it may split a transfer at
  will, but delivers), and the register operations over such a line.
\<close>

subsection \<open>The reference sensor\<close>

record sensor_device =
  dv_regs :: "u16 \<Rightarrow> u16"
  dv_rx :: bytes
  dv_tx :: bytes

definition device_byte :: "sensor_device \<Rightarrow> u8 \<Rightarrow> sensor_device" where
  "device_byte dv b =
     (let rx = dv_rx dv @ [b] in
      case decode_command rx of
        None \<Rightarrow> dv\<lparr>dv_rx := rx\<rparr>
      | Some c \<Rightarrow>
          (case device_answer (dv_regs dv) c of
             (regs, answer) \<Rightarrow> \<lparr>dv_regs = regs, dv_rx = [], dv_tx = dv_tx dv @ answer\<rparr>))"

definition device_feed :: "sensor_device \<Rightarrow> bytes \<Rightarrow> sensor_device" where
  "device_feed dv bs = foldl device_byte dv bs"

lemma device_feed_simps [simp]:
  "device_feed dv [] = dv"
  "device_feed dv (b # bs) = device_feed (device_byte dv b) bs"
  by (simp_all add: device_feed_def)

lemma device_feed_append: "device_feed dv (xs @ ys) = device_feed (device_feed dv xs) ys"
  by (simp add: device_feed_def)

text \<open>No proper prefix of a command is a command, so the sensor answers at the last byte only.\<close>

lemma command_frame_length_word:
  "be16_at (command_frame c) 2 = of_nat (length (command_frame c) - 4)"
proof (cases c)
  case (ReadCommand a)
  then show ?thesis
    by (simp add: be16_at_word_bytes_5 [OF command_frame_words(1)] del: command_frame.simps)
next
  case (WriteCommand a v)
  then show ?thesis
    by (simp add: be16_at_word_bytes_6 [OF command_frame_words(2)] del: command_frame.simps)
qed

lemma length_command_cases: "length (command_frame c) = 10 \<or> length (command_frame c) = 12"
  by (cases c) (simp_all del: command_frame.simps)

lemma command_prefix:
  assumes "n < length (command_frame c)"
  shows "decode_command (take n (command_frame c)) = None"
proof (rule ccontr)
  assume "decode_command (take n (command_frame c)) \<noteq> None"
  then obtain d where d: "take n (command_frame c) = command_frame d"
    using decode_command_Some by blast
  have l: "length (command_frame d) = n"
    using arg_cong [OF d, of length] assms by simp
  have "be16_at (command_frame d) 2 = be16_at (command_frame c) 2"
    using length_command_cases [of d] l by (auto simp: d [symmetric] be16_at_def)
  with l assms length_command_cases [of c] length_command_cases [of d] show False
    by (auto simp: command_frame_length_word)
qed

lemma device_feed_prefix:
  assumes "n < length (command_frame c)" "dv_rx dv = []"
  shows "device_feed dv (take n (command_frame c)) = dv\<lparr>dv_rx := take n (command_frame c)\<rparr>"
  using assms
proof (induction n)
  case 0
  then show ?case by simp
next
  case (Suc n)
  have t: "take (Suc n) (command_frame c) = take n (command_frame c) @ [command_frame c ! n]"
    using Suc.prems by (simp add: take_Suc_conv_app_nth)
  show ?case
    using Suc command_prefix [OF Suc.prems(1)]
    by (simp add: t device_feed_append device_byte_def)
qed

lemma device_feed_command:
  assumes "dv_rx dv = []"
  shows "device_feed dv (command_frame c) =
    \<lparr>dv_regs = fst (device_answer (dv_regs dv) c), dv_rx = [],
     dv_tx = dv_tx dv @ snd (device_answer (dv_regs dv) c)\<rparr>"
proof -
  let ?f = "command_frame c" and ?n = "length (command_frame c) - 1"
  have n: "?n < length ?f" by simp
  have f: "?f = take ?n ?f @ [?f ! ?n]"
    using take_Suc_conv_app_nth [OF n] by simp
  have "device_feed dv ?f = device_byte (dv\<lparr>dv_rx := take ?n ?f\<rparr>) (?f ! ?n)"
    by (subst f) (simp only: device_feed_append device_feed_prefix [OF n assms] device_feed_simps)
  also have "\<dots> = \<lparr>dv_regs = fst (device_answer (dv_regs dv) c), dv_rx = [],
     dv_tx = dv_tx dv @ snd (device_answer (dv_regs dv) c)\<rparr>"
    by (simp add: device_byte_def f [symmetric, simplified] decode_command_frame Let_def
        split: prod.split)
  finally show ?thesis .
qed

subsection \<open>A faithful line\<close>

text \<open>
  \<open>view w\<close> is the sensor in the world \<open>w\<close>. The line is faithful when a write passes some of its
  first bytes, at least one, to the sensor, when a poll reports a byte the sensor has sent, and
  when a read then takes at least one of them, in order.
\<close>

definition faithful_line :: "'w serial_os \<Rightarrow> int \<Rightarrow> ('w \<Rightarrow> sensor_device) \<Rightarrow> bool" where
  "faithful_line os fd view \<longleftrightarrow>
     (\<forall>w bs. bs \<noteq> [] \<longrightarrow>
        (\<exists>n w'. so_write os fd bs w = (Wrote n, w') \<and> 0 < n \<and> n \<le> length bs \<and>
           view w' = device_feed (view w) (take n bs))) \<and>
     (\<forall>w t. dv_tx (view w) \<noteq> [] \<longrightarrow>
        (\<exists>w'. so_poll os fd t w = (PollReady, w') \<and> view w' = view w)) \<and>
     (\<forall>w m. dv_tx (view w) \<noteq> [] \<longrightarrow> 0 < m \<longrightarrow>
        (\<exists>n w'. so_read os fd m w = (Inr (take n (dv_tx (view w))), w') \<and> 0 < n \<and> n \<le> m \<and>
           view w' = (view w)\<lparr>dv_tx := drop n (dv_tx (view w))\<rparr>))"

lemma faithful_lineD:
  assumes "faithful_line os fd view"
  shows "bs \<noteq> [] \<Longrightarrow> \<exists>n w'. so_write os fd bs w = (Wrote n, w') \<and> 0 < n \<and> n \<le> length bs \<and>
      view w' = device_feed (view w) (take n bs)"
    and "dv_tx (view w) \<noteq> [] \<Longrightarrow> \<exists>w'. so_poll os fd t w = (PollReady, w') \<and> view w' = view w"
    and "dv_tx (view w) \<noteq> [] \<Longrightarrow> 0 < m \<Longrightarrow>
      \<exists>n w'. so_read os fd m w = (Inr (take n (dv_tx (view w))), w') \<and> 0 < n \<and> n \<le> m \<and>
        view w' = (view w)\<lparr>dv_tx := drop n (dv_tx (view w))\<rparr>"
  using assms unfolding faithful_line_def by blast+

lemma write_loop_faithful:
  assumes line: "faithful_line os fd view" and "k \<le> length bs"
  shows "\<exists>w'. write_loop os fd bs k w = Some (Success, w') \<and>
    view w' = device_feed (view w) (drop k bs)"
  using assms(2)
proof (induction "length bs - k" arbitrary: k w rule: less_induct)
  case less
  show ?case
  proof (cases "k < length bs")
    case False
    then show ?thesis by (simp add: write_loop.simps)
  next
    case True
    then have "drop k bs \<noteq> []" by simp
    then obtain n w1 where n: "so_write os fd (drop k bs) w = (Wrote n, w1)" "0 < n"
      "n \<le> length (drop k bs)" "view w1 = device_feed (view w) (take n (drop k bs))"
      using faithful_lineD(1) [OF line] by blast
    then have "length bs - (k + n) < length bs - k" "k + n \<le> length bs"
      using True by simp_all
    from less.hyps [OF this] obtain w' where
      "write_loop os fd bs (k + n) w1 = Some (Success, w')"
      "view w' = device_feed (view w1) (drop (k + n) bs)"
      by blast
    moreover have "drop k bs = take n (drop k bs) @ drop (k + n) bs"
      by (metis append_take_drop_id drop_drop add.commute)
    then have "device_feed (view w) (drop k bs) = device_feed (view w1) (drop (k + n) bs)"
      using n(4) device_feed_append by metis
    ultimately show ?thesis
      using True n(1) by (subst write_loop.simps) simp
  qed
qed

text \<open>The controller stands at a faithful line when its port is the one of the line.\<close>

definition connected ::
  "'w serial_os \<Rightarrow> ('w \<Rightarrow> sensor_device) \<Rightarrow> SensorController \<Rightarrow> bool" where
  "connected os view c \<longleftrightarrow>
     isReady c \<and> ctl_builder c \<noteq> None \<and> faithful_line os (port_fd (ctl_serial c)) view"

text \<open>The line is idle: the sensor is in the middle of no command and has sent nothing.\<close>

definition idle :: "sensor_device \<Rightarrow> bool" where
  "idle dv \<longleftrightarrow> dv_rx dv = [] \<and> dv_tx dv = []"

lemma readBytes_faithful:
  assumes line: "faithful_line os (port_fd p) view" and "0 \<le> port_fd p"
    and tx: "dv_tx (view w) \<noteq> []" and "0 < m"
  shows "\<exists>n w'. readBytes os p m t w = (Inr (take n (dv_tx (view w))), w') \<and> 0 < n \<and> n \<le> m \<and>
    view w' = (view w)\<lparr>dv_tx := drop n (dv_tx (view w))\<rparr>"
proof -
  obtain w1 where w1: "so_poll os (port_fd p) t w = (PollReady, w1)" "view w1 = view w"
    using faithful_lineD(2) [OF line tx] by blast
  with tx have "dv_tx (view w1) \<noteq> []" by simp
  from faithful_lineD(3) [OF line this \<open>0 < m\<close>] obtain n w2 where
    "so_read os (port_fd p) m w1 = (Inr (take n (dv_tx (view w1))), w2)" "0 < n" "n \<le> m"
    "view w2 = (view w1)\<lparr>dv_tx := drop n (dv_tx (view w1))\<rparr>" by blast
  with w1 assms show ?thesis by (auto simp: readBytes_def min_absorb2)
qed

lemma readExact_faithful:
  assumes line: "faithful_line os (port_fd p) view" and fd: "0 \<le> port_fd p"
    and "length out + length (dv_tx (view w)) = m"
  shows "\<exists>w'. readExact os p m t out w = (Inr (out @ dv_tx (view w)), w') \<and>
    view w' = (view w)\<lparr>dv_tx := []\<rparr>"
  using assms(3)
proof (induction "length (dv_tx (view w))" arbitrary: out w rule: less_induct)
  case less
  show ?case
  proof (cases "dv_tx (view w) = []")
    case True
    then have "view w = (view w)\<lparr>dv_tx := []\<rparr>" by simp
    with True less.prems show ?thesis by (simp add: readExact.simps)
  next
    case False
    with less.prems have "0 < m - length out" by auto
    with readBytes_faithful [OF line fd False this] obtain n w1 where
      n: "readBytes os p (m - length out) t w = (Inr (take n (dv_tx (view w))), w1)" "0 < n"
      "n \<le> m - length out" "view w1 = (view w)\<lparr>dv_tx := drop n (dv_tx (view w))\<rparr>"
      by blast
    let ?chunk = "take n (dv_tx (view w))"
    have "length (dv_tx (view w1)) < length (dv_tx (view w))"
      "length (out @ ?chunk) + length (dv_tx (view w1)) = m"
      using n False less.prems by auto
    from less.hyps [OF this] obtain w' where
      "readExact os p m t (out @ ?chunk) w1 = (Inr (out @ ?chunk @ dv_tx (view w1)), w')"
      "view w' = (view w1)\<lparr>dv_tx := []\<rparr>"
      by auto
    with n False less.prems show ?thesis
      by (subst readExact.simps) auto
  qed
qed

text \<open>One exchange: the whole command goes out, and the acknowledgement is what comes back.\<close>

lemma exchange_faithful:
  assumes "connected os view c" "idle (view w)"
    and ans: "device_answer (dv_regs (view w)) cmd = (regs, ack)"
  shows "\<exists>w1 w2. writeBytes os (ctl_serial c) (command_frame cmd) w = Some (Success, w1) \<and>
    readExact os (ctl_serial c) (length ack) t [] w1 = (Inr ack, w2) \<and>
    view w2 = \<lparr>dv_regs = regs, dv_rx = [], dv_tx = []\<rparr>"
proof -
  from assms have line: "faithful_line os (port_fd (ctl_serial c)) view"
    and fd: "0 \<le> port_fd (ctl_serial c)" and v: "dv_rx (view w) = []" "dv_tx (view w) = []"
    by (auto simp: connected_def isReady_def port_isOpen_def idle_def)
  obtain w1 where w1: "write_loop os (port_fd (ctl_serial c)) (command_frame cmd) 0 w
      = Some (Success, w1)" "view w1 = device_feed (view w) (command_frame cmd)"
    using write_loop_faithful [OF line, of 0 "command_frame cmd" w] by auto
  then have "view w1 = \<lparr>dv_regs = regs, dv_rx = [], dv_tx = ack\<rparr>"
    using ans v by (simp add: device_feed_command)
  with readExact_faithful [OF line fd, of "[]" w1 "length ack" t] obtain w2 where
    "readExact os (ctl_serial c) (length ack) t [] w1 = (Inr ack, w2)"
    "view w2 = \<lparr>dv_regs = regs, dv_rx = [], dv_tx = []\<rparr>"
    by auto
  with w1 fd show ?thesis by (auto simp: writeBytes_def)
qed

lemma attempts_Suc: "\<exists>n. attempts c = Suc n"
  by (rule not0_implies_Suc) (simp add: attempts_def)

lemma retry_first:
  assumes "attempt w = Some (Inr x, w')"
  shows "retry_loop text attempt (Suc n) prev w = Some (Inr x, w')"
  using assms by simp

text \<open>Over a faithful idle line, a register operation is a step of the sensor's registers.\<close>

lemma writeRegister_faithful:
  assumes "connected os view c" "idle (view w)"
  shows "\<exists>w'. writeRegister os a v c w = Some (Success, clearLastError c, w') \<and> idle (view w') \<and>
    dv_regs (view w') = (dv_regs (view w))(a := v)"
proof -
  from assms(1) obtain config where c: "isReady c" "ctl_builder c = Some config"
    by (auto simp: connected_def)
  obtain w1 w2 where
    "writeBytes os (ctl_serial c) (command_frame (WriteCommand a v)) w = Some (Success, w1)"
    "readExact os (ctl_serial c) kWriteAckBytes (sc_timeoutMs (ctl_config c)) [] w1
      = (Inr (write_ack StatusExecutable), w2)"
    "view w2 = \<lparr>dv_regs = (dv_regs (view w))(a := v), dv_rx = [], dv_tx = []\<rparr>"
    using exchange_faithful [OF assms, of "WriteCommand a v"] by force
  moreover from this
  have "sendWriteOnce os c (command_frame (WriteCommand a v)) w = Some (Success, w2)"
    by (simp add: sendWriteOnce_def parse_write_ack del: command_frame.simps)
  moreover obtain n where "attempts c = Suc n" using attempts_Suc by blast
  ultimately show ?thesis
    using c by (simp add: writeRegister_def ensureReady_def build_command_frame
        sendWriteCommandWithRetry_def idle_def del: command_frame.simps)
qed

lemma readRegister_faithful:
  assumes "connected os view c" "idle (view w)"
  shows "\<exists>w'. readRegister os a c w
      = Some (Inr (dv_regs (view w) a), clearLastError c, w') \<and> idle (view w') \<and>
    dv_regs (view w') = dv_regs (view w)"
proof -
  from assms(1) obtain config where c: "isReady c" "ctl_builder c = Some config"
    by (auto simp: connected_def)
  let ?d = "dv_regs (view w) a"
  obtain w1 w2 where
    "writeBytes os (ctl_serial c) (command_frame (ReadCommand a)) w = Some (Success, w1)"
    "readExact os (ctl_serial c) kReadAckBytes (sc_timeoutMs (ctl_config c)) [] w1
      = (Inr (read_ack StatusExecutable ?d), w2)"
    "view w2 = \<lparr>dv_regs = dv_regs (view w), dv_rx = [], dv_tx = []\<rparr>"
    using exchange_faithful [OF assms, of "ReadCommand a"] by force
  moreover from this
  have "sendReadOnce os c (command_frame (ReadCommand a)) w = Some (Inr (read_ack_value ?d), w2)"
    by (simp add: sendReadOnce_def parse_read_ack del: command_frame.simps)
  moreover obtain n where "attempts c = Suc n" using attempts_Suc by blast
  ultimately show ?thesis
    using c by (simp add: readRegister_def ensureReady_def build_command_frame
        sendReadCommandWithRetry_def idle_def read_ack_value_def del: command_frame.simps)
qed

lemma setOutputMode_faithful:
  assumes "connected os view c" "idle (view w)" "mode \<noteq> CompositeSensorOutputMode.Unknown"
  shows "\<exists>c1 w1. setOutputMode os now mode c w = Some (Success, c1, w1) \<and> connected os view c1 \<and> idle (view w1) \<and>
    dv_regs (view w1) = (dv_regs (view w))(register_address FusionMode := outputModeRegisterValue mode) \<and>
    cs_currentMode (ctl_state c1) = mode \<and>
    cs_switchCount (ctl_state c1) = cs_switchCount (ctl_state c) + 1 \<and>
    length (ctl_published c1) = length (ctl_published c) + (if ctl_eventBus c then 1 else 0)"
proof -
  obtain w1 where w1: "writeRegister os (register_address FusionMode) (outputModeRegisterValue mode) c w
      = Some (Success, clearLastError c, w1)" "idle (view w1)"
    "dv_regs (view w1) = (dv_regs (view w))(register_address FusionMode := outputModeRegisterValue mode)"
    using writeRegister_faithful [OF assms(1,2)] by blast
  with assms(1,3) show ?thesis
    by (simp add: setOutputMode_def setFusionMode_def writeRegisterNamed_def Let_def
        clearLastError_def publishModeChanged_def connected_def isReady_def del: register_address.simps)
qed

subsection \<open>A line for the witnesses\<close>

text \<open>A line whose world is the sensor itself, and that passes one byte at a time.\<close>

definition byte_line :: "sensor_device serial_os" where
  "byte_line =
     \<lparr>so_open = (\<lambda>_ dv. (Inr 3, dv)), so_close = (\<lambda>_ dv. dv),
      so_tcgetattr = (\<lambda>_ dv. (None, dv)), so_tcsetattr = (\<lambda>_ _ dv. (None, dv)),
      so_tcflush = (\<lambda>_ dv. dv),
      so_write = (\<lambda>_ bs dv. (Wrote 1, device_feed dv (take 1 bs))),
      so_poll = (\<lambda>_ _ dv. (if dv_tx dv = [] then PollTimeout else PollReady, dv)),
      so_read = (\<lambda>_ _ dv. (Inr (take 1 (dv_tx dv)), dv\<lparr>dv_tx := drop 1 (dv_tx dv)\<rparr>))\<rparr>"

definition fresh_sensor :: sensor_device where
  "fresh_sensor = \<lparr>dv_regs = (\<lambda>_. 0), dv_rx = [], dv_tx = []\<rparr>"

definition line_config :: SerialConfig where
  "line_config = default_serial_config\<lparr>sc_enable := True, sc_dev := ''/dev/ttyS9''\<rparr>"

definition line_controller :: SensorController where
  "line_controller = fst (snd (ctl_init byte_line line_config True new_controller fresh_sensor))"

lemma byte_line_faithful: "faithful_line byte_line fd (\<lambda>dv. dv)"
  unfolding faithful_line_def byte_line_def by (auto intro!: exI [of _ 1] simp: Suc_le_eq)

lemma lower_none: "lower ''none'' = ''none''"
  by code_simp

lemma line_enabled: "sc_enable line_config"
  by (simp add: line_config_def)

lemma line_port_config:
  "makeSerialPortConfig line_config = Inr (default_port_config\<lparr>sp_device := ''/dev/ttyS9''\<rparr>)"
  by (simp add: makeSerialPortConfig_def line_config_def default_serial_config_def
      default_port_config_def lower_none Let_def)

lemma line_open:
  "openPort byte_line (default_port_config\<lparr>sp_device := ''/dev/ttyS9''\<rparr>) default_port dv
     = (Success, \<lparr>port_fd = 3, port_config = default_port_config\<lparr>sp_device := ''/dev/ttyS9''\<rparr>\<rparr>, dv)"
  by (simp add: openPort_def port_isOpen_def default_port_def default_port_config_def
      configureTermios_def toSpeed_def byte_line_def)

lemma line_controller_eq:
  "ctl_init byte_line line_config True new_controller fresh_sensor
     = (Success, line_controller, fresh_sensor)"
  "connected byte_line (\<lambda>dv. dv) line_controller"
proof -
  have "\<exists>c. ctl_init byte_line line_config True new_controller fresh_sensor
      = (Success, c, fresh_sensor) \<and> connected byte_line (\<lambda>dv. dv) c"
    by (simp add: ctl_init_def new_controller_def default_sensor_state_def builder_init_def
        line_port_config line_open connected_def byte_line_faithful isReady_def port_isOpen_def
        line_enabled Let_def)
  then show "ctl_init byte_line line_config True new_controller fresh_sensor
     = (Success, line_controller, fresh_sensor)"
    "connected byte_line (\<lambda>dv. dv) line_controller"
    by (auto simp: line_controller_def)
qed

lemma fresh_sensor_idle: "idle fresh_sensor"
  by (simp add: fresh_sensor_def idle_def)

subsection \<open>What the controller guarantees\<close>

text \<open>
  Claim C2. Over a faithful line a register that was written reads back as it was written and every
  other register reads as before, however the line splits the transfers; both calls return.
\<close>

theorem write_read_register:
  assumes "connected os view c" and "idle (view w)"
  shows "\<exists>c1 w1 c2 w2. writeRegister os a v c w = Some (Success, c1, w1) \<and>
    readRegister os b c1 w1
      = Some (Inr (if b = a then v else dv_regs (view w) b), c2, w2) \<and>
    connected os view c2 \<and> idle (view w2)"
proof -
  obtain w1 where w1: "writeRegister os a v c w = Some (Success, clearLastError c, w1)"
    "idle (view w1)" "dv_regs (view w1) = (dv_regs (view w))(a := v)"
    using writeRegister_faithful [OF assms] by blast
  moreover have c1: "connected os view (clearLastError c)"
    using assms(1) by (simp add: connected_def isReady_def clearLastError_def)
  moreover obtain w2 where "readRegister os b (clearLastError c) w1 = Some (Inr (dv_regs (view w1) b),
      clearLastError (clearLastError c), w2)" "idle (view w2)"
    using readRegister_faithful [OF c1 w1(2)] by blast
  moreover have "clearLastError (clearLastError c) = clearLastError c"
    by (simp add: clearLastError_def)
  ultimately show ?thesis by (auto simp: fun_upd_apply)
qed

theorem write_read_register_witness:
  "\<exists>c1 w1 c2 w2. writeRegister byte_line 0x6500 3 line_controller fresh_sensor
      = Some (Success, c1, w1) \<and>
    readRegister byte_line 0x6500 c1 w1 = Some (Inr 3, c2, w2)"
  using write_read_register [OF line_controller_eq(2) fresh_sensor_idle, of "0x6500" 3 "0x6500"]
  by auto

text \<open>
  Over a faithful line setting an output mode succeeds, announces the mode once, counts
  the switch and leaves the sensor in the mode that is then queried.
\<close>

theorem set_get_output_mode:
  assumes "connected os view c" and "idle (view w)"
    and "mode \<noteq> CompositeSensorOutputMode.Unknown"
  shows "\<exists>c1 w1 c2 w2. setOutputMode os now mode c w = Some (Success, c1, w1) \<and>
    cs_currentMode (ctl_state c1) = mode \<and>
    cs_switchCount (ctl_state c1) = cs_switchCount (ctl_state c) + 1 \<and>
    length (ctl_published c1) = length (ctl_published c) + (if ctl_eventBus c then 1 else 0) \<and>
    dv_regs (view w1) (register_address FusionMode) = outputModeRegisterValue mode \<and>
    queryOutputMode os c1 w1 = Some (Inr mode, c2, w2)"
proof -
  obtain c1 w1 where c1: "setOutputMode os now mode c w = Some (Success, c1, w1)" "connected os view c1" "idle (view w1)"
    "dv_regs (view w1) = (dv_regs (view w))(register_address FusionMode := outputModeRegisterValue mode)"
    "cs_currentMode (ctl_state c1) = mode"
    "cs_switchCount (ctl_state c1) = cs_switchCount (ctl_state c) + 1"
    "length (ctl_published c1) = length (ctl_published c) + (if ctl_eventBus c then 1 else 0)"
    using setOutputMode_faithful [OF assms] by blast
  moreover have "\<exists>c2 w2. queryOutputMode os c1 w1 = Some (Inr mode, c2, w2)"
    using readRegister_faithful [OF c1(2,3), of "register_address FusionMode"] c1(4) assms(3)
    by (auto simp: queryOutputMode_def getFusionMode_def readRegisterNamed_def Let_def
        simp del: register_address.simps)
  ultimately show ?thesis by auto
qed

theorem set_get_output_mode_witness:
  "\<exists>c1 w1 c2 w2.
    setOutputMode byte_line 7 CompositeSensorOutputMode.LowlightOnly line_controller fresh_sensor
      = Some (Success, c1, w1) \<and>
    queryOutputMode byte_line c1 w1 = Some (Inr CompositeSensorOutputMode.LowlightOnly, c2, w2)"
  using set_get_output_mode [OF line_controller_eq(2) fresh_sensor_idle,
      of CompositeSensorOutputMode.LowlightOnly 7] by auto

text \<open>
  A register value the controller reports is never made up: on any line, faithful or not,
  a successful read has received, byte for byte, the acknowledgement that carries the value with the
  status EXECUTABLE and a correct checksum.
\<close>

theorem readRegister_received:
  assumes "readRegister os a c w = Some (Inr v, c', w')"
  shows "\<exists>w1. readExact os (ctl_serial c) kReadAckBytes (sc_timeoutMs (ctl_config c)) [] w1
    = (Inr (read_ack StatusExecutable v), w')"
proof -
  have last: "\<exists>w1. attempt w1 = Some (Inr x, w')"
    if "retry_loop label attempt n prev w = Some (Inr x, w')"
    for label n prev w and attempt :: "'a \<Rightarrow> (CompositeSensorAck Result \<times> 'a) option" and x
    using that
    by (induction n arbitrary: prev w) (auto elim!: bind_SomeE split: sum.split_asm)
  from assms obtain cmd ack where
    "sendReadCommandWithRetry os c cmd w = Some (Inr ack, w')" "v = ack_data ack"
    by (auto simp: readRegister_def elim!: bind_SomeE split: sum.split_asm)
  with last obtain w1 where "sendReadOnce os c cmd w1 = Some (Inr ack, w')"
    unfolding sendReadCommandWithRetry_def by blast
  with \<open>v = ack_data ack\<close> show ?thesis
    by (auto simp: sendReadOnce_def elim!: bind_SomeE split: sum.split_asm prod.split_asm
        dest!: parse_read_ack_inv)
qed

theorem readRegister_received_witness:
  "\<exists>w1 w2. readExact byte_line (ctl_serial line_controller) kReadAckBytes
      (sc_timeoutMs (ctl_config line_controller)) [] w1 = (Inr (read_ack StatusExecutable 0), w2)"
proof -
  obtain c2 w2 where "readRegister byte_line 0x6500 line_controller fresh_sensor
      = Some (Inr 0, c2, w2)"
    using readRegister_faithful [OF line_controller_eq(2) fresh_sensor_idle, of "0x6500"]
    by (auto simp: fresh_sensor_def)
  then show ?thesis by (blast dest: readRegister_received)
qed

text \<open>Counting the attempts: the world is paired with the number of attempts made.\<close>

definition counted ::
  "('w \<Rightarrow> ('a Result \<times> 'w) option) \<Rightarrow> 'w \<times> nat \<Rightarrow> ('a Result \<times> 'w \<times> nat) option" where
  "counted attempt wk = do { (r, w) \<leftarrow> attempt (fst wk); Some (r, w, Suc (snd wk)) }"

lemma retry_loop_counted:
  assumes "retry_loop label (counted attempt) n prev (w, k) = Some (r, w', k')"
  shows "k' \<le> k + n" "result_ok r \<Longrightarrow> k < k'" "\<not> result_ok r \<Longrightarrow> k' = k + n"
proof -
  have "k' \<le> k + n \<and> (result_ok r \<longrightarrow> k < k') \<and> (\<not> result_ok r \<longrightarrow> k' = k + n)"
    using assms
  proof (induction n arbitrary: prev w k)
    case (Suc n)
    from Suc.prems obtain r1 w1 where a: "attempt w = Some (r1, w1)"
      by (auto simp: counted_def elim!: bind_SomeE)
    show ?case
    proof (cases r1)
      case (Inl e)
      with a have "counted attempt (w, k) = Some (Inl e, w1, Suc k)"
        by (simp add: counted_def)
      with Suc.prems have "retry_loop label (counted attempt) n e (w1, Suc k) = Some (r, w', k')"
        by simp
      from Suc.IH [OF this] show ?thesis by auto
    next
      case (Inr x)
      with Suc.prems a show ?thesis by (auto simp: counted_def)
    qed
  qed auto
  then show "k' \<le> k + n" "result_ok r \<Longrightarrow> k < k'" "\<not> result_ok r \<Longrightarrow> k' = k + n"
    by simp_all
qed

text \<open>A line on which every write fails.\<close>

definition dead_line :: "sensor_device serial_os" where
  "dead_line = byte_line\<lparr>so_write := (\<lambda>_ _ dv. (WriteFailed ''EIO'', dv))\<rparr>"

lemma dead_line_once:
  assumes "cmd \<noteq> []"
  shows "sendWriteOnce dead_line line_controller cmd dv
    = Some (Error SerialWriteFailed ''serial write: EIO'', dv)"
  using assms line_controller_eq(2)
  by (simp add: sendWriteOnce_def writeBytes_def connected_def isReady_def port_isOpen_def
      write_loop.simps dead_line_def)

lemma dead_line_retry:
  assumes "cmd \<noteq> []"
  shows "retry_loop label (sendWriteOnce dead_line line_controller cmd) n
      (status_error SerialWriteFailed ''serial write: EIO'') dv
    = Some (Error CompositeModeSwitchFailed (label @ ''serial write: EIO''), dv)"
  by (induction n) (simp_all add: dead_line_once [OF assms])

text \<open>
  Once the controller is initialized no register operation takes it off line, whatever
  the port does: a write keeps \<open>isReady\<close>, and its error is NotInitialized (when the controller was
  not ready, with the state unchanged) or CompositeModeSwitchFailed, counted in \<open>errorCount\<close>.
\<close>

theorem writeRegister_failure:
  assumes "writeRegister os a v c w = Some (Inl e, c', w')"
    and "ctl_builder c \<noteq> None"
  shows "isReady c' = isReady c \<and>
    (if isReady c
     then st_code e = CompositeModeSwitchFailed \<and>
       c' = c\<lparr>ctl_state := (ctl_state c)\<lparr>cs_errorCount := cs_errorCount (ctl_state c) + 1,
              cs_lastError := describe e\<rparr>\<rparr>
     else st_code e = NotInitialized \<and> c' = c \<and> w' = w)"
proof -
  from assms obtain config where b: "ctl_builder c = Some config" by blast
  have "isReady c' = isReady c"
    by (rule same_link_isReady [OF writeRegister_link [OF assms(1)]])
  moreover have "st_code e = CompositeModeSwitchFailed \<and> c' = recordError e c" if "isReady c"
    using assms(1) that
    by (auto simp: writeRegister_def ensureReady_def sendWriteCommandWithRetry_def b
        build_command_frame elim!: bind_SomeE split: sum.split_asm dest: retry_loop_code)
  moreover have "st_code e = NotInitialized \<and> c' = c \<and> w' = w" if "\<not> isReady c"
    using assms(1) that by (auto simp: writeRegister_def ensureReady_def)
  ultimately show ?thesis by (simp add: recordError_def Let_def)
qed

theorem writeRegister_failure_witness:
  "\<exists>e c'. writeRegister dead_line 0x6500 3 line_controller fresh_sensor
      = Some (Inl e, c', fresh_sensor) \<and>
    st_code e = CompositeModeSwitchFailed \<and> isReady c' \<and>
    cs_errorCount (ctl_state c') = cs_errorCount (ctl_state line_controller) + 1"
proof -
  have c: "isReady line_controller" "ctl_builder line_controller \<noteq> None"
    using line_controller_eq(2) by (simp_all add: connected_def)
  then obtain config where b: "ctl_builder line_controller = Some config" by blast
  obtain n where n: "attempts line_controller = Suc n" using attempts_Suc by blast
  obtain e c' where run: "writeRegister dead_line 0x6500 3 line_controller fresh_sensor
      = Some (Inl e, c', fresh_sensor)"
    using c(1) by (simp add: writeRegister_def ensureReady_def b build_command_frame
        sendWriteCommandWithRetry_def n dead_line_once dead_line_retry del: command_frame.simps)
  from writeRegister_failure [OF run c(2)] run c(1) show ?thesis by auto
qed

text \<open>
  A command is sent at least once and at most \<open>retryCount + 1\<close> times (once when
  \<open>retryCount\<close> is negative); it is given up only after all of these attempts have failed.
\<close>

theorem retry_attempts:
  assumes "retry_loop label (counted (sendWriteOnce os c command)) (attempts c) status_success (w, 0)
    = Some (r, w', k)"
  shows "1 \<le> k \<and> int k \<le> max 1 (sc_retryCount (ctl_config c) + 1) \<and>
    (\<not> result_ok r \<longrightarrow> int k = max 1 (sc_retryCount (ctl_config c) + 1))"
proof -
  obtain m where "attempts c = Suc m" using attempts_Suc by blast
  moreover have "int (attempts c) = max 1 (sc_retryCount (ctl_config c) + 1)"
    by (simp add: attempts_def)
  ultimately show ?thesis
    using retry_loop_counted [OF assms] by (cases "result_ok r") auto
qed

theorem retry_attempts_witness:
  "\<exists>k. retry_loop ''failed: '' (counted (sendWriteOnce dead_line line_controller [1]))
      (attempts line_controller) status_success (fresh_sensor, 0)
    = Some (Error CompositeModeSwitchFailed ''failed: serial write: EIO'', fresh_sensor, k) \<and> k = 4"
proof -
  have cnt: "sc_retryCount (ctl_config line_controller) = 3"
    by (simp add: line_controller_def ctl_init_def new_controller_def default_sensor_state_def
        builder_init_def line_port_config line_open line_enabled Let_def)
       (simp add: line_config_def default_serial_config_def)
  then have run: "retry_loop ''failed: '' (counted (sendWriteOnce dead_line line_controller [1]))
      (attempts line_controller) status_success (fresh_sensor, 0)
    = Some (Error CompositeModeSwitchFailed ''failed: serial write: EIO'', fresh_sensor, 4)"
    by (simp add: attempts_def eval_nat_numeral counted_def dead_line_once)
  from retry_attempts [OF run] run cnt show ?thesis by simp
qed

text \<open>
  The settings with a documented range refuse a value outside it with InvalidArgument,
  without touching the controller or the port.
\<close>

theorem settings_range:
  assumes "(\<exists>set \<in> {setInfraredBrightness, setInfraredContrast, setLowlightBrightness,
        setLowlightContrast}. r = set os v c w \<and> 100 < v) \<or>
      (r = setInfraredRegistrationZoom os v c w \<and> 15 < v) \<or>
      (r = setLowlightRegistrationZoom os v c w \<and> 10 < v)"
  shows "\<exists>m. r = Some (Error InvalidArgument m, c, w)"
  using assms
  by (auto simp: setInfraredBrightness_def setInfraredContrast_def setLowlightBrightness_def
      setLowlightContrast_def setInfraredRegistrationZoom_def setLowlightRegistrationZoom_def
      validatePercent_def)

theorem settings_range_witness:
  "(\<exists>m. setLowlightContrast byte_line 101 line_controller fresh_sensor
      = Some (Error InvalidArgument m, line_controller, fresh_sensor)) \<and>
   (\<exists>m. setLowlightRegistrationZoom byte_line 11 line_controller fresh_sensor
      = Some (Error InvalidArgument m, line_controller, fresh_sensor))"
  using settings_range [of "setLowlightContrast byte_line 101 line_controller fresh_sensor"
      byte_line 101 line_controller fresh_sensor]
    settings_range [of "setLowlightRegistrationZoom byte_line 11 line_controller fresh_sensor"
      byte_line 11 line_controller fresh_sensor] by auto

end
