(* ===== verification/Tri_Threads.thy ===== *)
theory Tri_Threads
  imports Tri_Result "HOL-Library.Multiset"
begin

text \<open>
  The threading primitives (foundation/thread): the blocking queue, the thread pool and the single
  worker. Each critical section is one atomic operation; an operation that waits on a condition
  variable is a partial one, \<open>None\<close> while its condition does not hold. The pool is a step relation
  over its owner, its clients and its workers.
\<close>

subsection \<open>BlockingQueue.h\<close>

record 'a BlockingQueue =
  bq_capacity :: nat
  bq_queue :: "'a list"
  bq_closed :: bool

definition new_blocking_queue :: "nat \<Rightarrow> 'a BlockingQueue" where
  "new_blocking_queue capacity = \<lparr>bq_capacity = capacity, bq_queue = [], bq_closed = False\<rparr>"

definition bq_push :: "'a \<Rightarrow> 'a BlockingQueue \<Rightarrow> 'a BlockingQueue option" where
  "bq_push v q =
     (if bq_closed q \<or> bq_capacity q = 0 \<or> length (bq_queue q) < bq_capacity q
      then Some (if bq_closed q then q else q\<lparr>bq_queue := bq_queue q @ [v]\<rparr>)
      else None)"

definition bq_pop :: "'a BlockingQueue \<Rightarrow> ('a option \<times> 'a BlockingQueue) option" where
  "bq_pop q =
     (if bq_closed q \<or> bq_queue q \<noteq> []
      then Some (case bq_queue q of
                   [] \<Rightarrow> (None, q)
                 | v # vs \<Rightarrow> (Some v, q\<lparr>bq_queue := vs\<rparr>))
      else None)"

definition bq_tryPop :: "'a BlockingQueue \<Rightarrow> 'a option \<times> 'a BlockingQueue" where
  "bq_tryPop q =
     (case bq_queue q of [] \<Rightarrow> (None, q) | v # vs \<Rightarrow> (Some v, q\<lparr>bq_queue := vs\<rparr>))"

definition bq_close :: "'a BlockingQueue \<Rightarrow> 'a BlockingQueue" where
  "bq_close q = q\<lparr>bq_closed := True\<rparr>"

definition bq_size :: "'a BlockingQueue \<Rightarrow> nat" where
  "bq_size q = length (bq_queue q)"

definition bq_inv :: "'a BlockingQueue \<Rightarrow> bool" where
  "bq_inv q \<longleftrightarrow> bq_capacity q = 0 \<or> length (bq_queue q) \<le> bq_capacity q"

lemma bq_inv_preserved:
  "bq_inv (new_blocking_queue n)"
  "bq_inv q \<Longrightarrow> bq_push v q = Some q' \<Longrightarrow> bq_inv q'"
  "bq_inv q \<Longrightarrow> bq_pop q = Some (r, q') \<Longrightarrow> bq_inv q'"
  "bq_inv q \<Longrightarrow> bq_inv (snd (bq_tryPop q))"
  "bq_inv q \<Longrightarrow> bq_inv (bq_close q)"
  by (auto simp: bq_inv_def new_blocking_queue_def bq_push_def bq_pop_def bq_tryPop_def
      bq_close_def split: if_splits list.splits)

text \<open>After \<open>close\<close> no operation waits, so every blocked thread is released.\<close>

lemma bq_close_releases:
  "bq_closed q \<Longrightarrow> bq_push v q = Some q"
  "bq_closed q \<Longrightarrow> \<exists>r q'. bq_pop q = Some (r, q') \<and> bq_closed q'"
  by (auto simp: bq_push_def bq_pop_def split: list.splits)

subsection \<open>ThreadPool.cpp\<close>

text \<open>
  A worker runs the loop \<open>while (running_) { pop; run }\<close>: it is about to test the flag, waiting in
  \<open>pop\<close>, running a task, or finished. \<open>tp_stopping\<close> marks the owner inside \<open>stop()\<close>, waiting for
  the workers; \<open>tp_accepted\<close>, \<open>tp_taken\<close> and \<open>tp_executed\<close> record, in order, the tasks the queue
  took, the tasks workers took from it and the tasks that were run.
\<close>

datatype 'a worker_pc = AtLoop | AtPop | Executing 'a | Exited

record 'a ThreadPool =
  tp_running :: bool
  tp_tasks :: "'a BlockingQueue"
  tp_workers :: "'a worker_pc list"
  tp_stopping :: bool
  tp_accepted :: "'a list"
  tp_taken :: "'a list"
  tp_executed :: "'a list"

definition new_pool :: "'a ThreadPool" where
  "new_pool =
     \<lparr>tp_running = False, tp_tasks = new_blocking_queue 0, tp_workers = [], tp_stopping = False,
      tp_accepted = [], tp_taken = [], tp_executed = []\<rparr>"

definition pool_start :: "nat \<Rightarrow> 'a ThreadPool \<Rightarrow> unit Result \<times> 'a ThreadPool" where
  "pool_start workerCount p =
     (if tp_running p then (Error Busy ''thread pool already running'', p)
      else if workerCount = 0 then (Error InvalidArgument ''worker count is zero'', p)
      else (Success, p\<lparr>tp_running := True,
                       tp_workers := tp_workers p @ replicate workerCount AtLoop\<rparr>))"

definition pool_submit :: "'a \<Rightarrow> 'a ThreadPool \<Rightarrow> 'a ThreadPool option" where
  "pool_submit task p =
     map_option
       (\<lambda>q. p\<lparr>tp_tasks := q,
              tp_accepted := (if bq_closed (tp_tasks p) then tp_accepted p
                              else tp_accepted p @ [task])\<rparr>)
       (bq_push task (tp_tasks p))"

text \<open>\<open>stop()\<close> in two steps: it closes the queue, then it joins the workers.\<close>

definition pool_stop_begin :: "'a ThreadPool \<Rightarrow> 'a ThreadPool" where
  "pool_stop_begin p =
     (if \<not> tp_running p then p
      else p\<lparr>tp_running := False, tp_tasks := bq_close (tp_tasks p), tp_stopping := True\<rparr>)"

definition pool_stop_end :: "'a ThreadPool \<Rightarrow> 'a ThreadPool option" where
  "pool_stop_end p =
     (if tp_stopping p \<and> (\<forall>pc \<in> set (tp_workers p). pc = Exited)
      then Some (p\<lparr>tp_workers := [], tp_stopping := False\<rparr>) else None)"

definition pool_worker :: "nat \<Rightarrow> 'a ThreadPool \<Rightarrow> 'a ThreadPool option" where
  "pool_worker i p =
     (if i < length (tp_workers p)
      then (case tp_workers p ! i of
              AtLoop \<Rightarrow>
                Some (p\<lparr>tp_workers := (tp_workers p)[i := (if tp_running p then AtPop else Exited)]\<rparr>)
            | AtPop \<Rightarrow>
                (case bq_pop (tp_tasks p) of
                   None \<Rightarrow> None
                 | Some (None, q) \<Rightarrow>
                     Some (p\<lparr>tp_tasks := q, tp_workers := (tp_workers p)[i := Exited]\<rparr>)
                 | Some (Some t, q) \<Rightarrow>
                     Some (p\<lparr>tp_tasks := q, tp_workers := (tp_workers p)[i := Executing t],
                             tp_taken := tp_taken p @ [t]\<rparr>))
            | Executing t \<Rightarrow>
                Some (p\<lparr>tp_workers := (tp_workers p)[i := AtLoop],
                        tp_executed := tp_executed p @ [t]\<rparr>)
            | Exited \<Rightarrow> None)
      else None)"

inductive pool_step :: "'a ThreadPool \<Rightarrow> 'a ThreadPool \<Rightarrow> bool" where
  Start: "\<not> tp_stopping p \<Longrightarrow> pool_start n p = (r, p') \<Longrightarrow> pool_step p p'"
| Submit: "pool_submit t p = Some p' \<Longrightarrow> pool_step p p'"
| StopBegin: "\<not> tp_stopping p \<Longrightarrow> pool_stop_begin p = p' \<Longrightarrow> pool_step p p'"
| StopEnd: "pool_stop_end p = Some p' \<Longrightarrow> pool_step p p'"
| Work: "pool_worker i p = Some p' \<Longrightarrow> pool_step p p'"

inductive_cases pool_stepE: "pool_step p p'"

subsection \<open>No task is lost, repeated or reordered\<close>

fun pc_tasks :: "'a worker_pc \<Rightarrow> 'a multiset" where
  "pc_tasks (Executing t) = {#t#}"
| "pc_tasks _ = {#}"

definition running_tasks :: "'a worker_pc list \<Rightarrow> 'a multiset" where
  "running_tasks pcs = sum_list (map pc_tasks pcs)"

lemma running_tasks_update:
  assumes "i < length pcs"
  shows "running_tasks (pcs[i := pc]) + pc_tasks (pcs ! i) = running_tasks pcs + pc_tasks pc"
proof -
  have u: "pcs[i := pc] = take i pcs @ pc # drop (Suc i) pcs"
    using assms by (rule upd_conv_take_nth_drop)
  have v: "pcs = take i pcs @ pcs ! i # drop (Suc i) pcs"
    using assms by (rule id_take_nth_drop)
  have "running_tasks pcs = running_tasks (take i pcs) + pc_tasks (pcs ! i)
      + running_tasks (drop (Suc i) pcs)"
    by (subst v) (simp add: running_tasks_def)
  then show ?thesis by (simp add: u running_tasks_def)
qed

definition pool_inv :: "'a ThreadPool \<Rightarrow> bool" where
  "pool_inv p \<longleftrightarrow>
     bq_capacity (tp_tasks p) = 0 \<and>
     tp_taken p @ bq_queue (tp_tasks p) = tp_accepted p \<and>
     mset (tp_executed p) + running_tasks (tp_workers p) = mset (tp_taken p) \<and>
     (tp_stopping p \<longrightarrow> \<not> tp_running p \<and> bq_closed (tp_tasks p))"

lemma pool_worker_inv:
  assumes "pool_worker i p = Some p'" "pool_inv p"
  shows "pool_inv p'"
proof -
  from assms(1) have i: "i < length (tp_workers p)"
    by (auto simp: pool_worker_def split: if_splits)
  note u = running_tasks_update [OF i]
  show ?thesis
  proof (cases "tp_workers p ! i")
    case AtLoop
    with assms i u [of AtPop] u [of Exited] show ?thesis
      by (auto simp: pool_worker_def pool_inv_def)
  next
    case AtPop
    with assms i u [of Exited] u [of "Executing (hd (bq_queue (tp_tasks p)))"] show ?thesis
      by (auto simp: pool_worker_def pool_inv_def bq_pop_def split: if_splits list.splits)
  next
    case (Executing t)
    with u [of AtLoop] have
      "running_tasks (tp_workers p) = add_mset t (running_tasks ((tp_workers p)[i := AtLoop]))"
      by simp
    with assms i Executing show ?thesis
      by (auto simp: pool_worker_def pool_inv_def)
  next
    case Exited
    with assms i show ?thesis by (simp add: pool_worker_def)
  qed
qed

lemma running_tasks_new [simp]:
  "running_tasks [] = {#}"
  "running_tasks (pcs @ replicate n AtLoop) = running_tasks pcs"
  by (induction n) (simp_all add: running_tasks_def flip: replicate_append_same)

lemma running_tasks_exited: "\<forall>pc \<in> set pcs. pc = Exited \<Longrightarrow> running_tasks pcs = {#}"
  by (induction pcs) (simp_all add: running_tasks_def)

lemma pool_step_inv:
  assumes "pool_step p p'" "pool_inv p"
  shows "pool_inv p'"
  using assms
proof (cases rule: pool_step.cases)
  case (Work i)
  with assms show ?thesis by (auto intro: pool_worker_inv)
qed (auto simp: pool_inv_def pool_start_def pool_submit_def pool_stop_begin_def pool_stop_end_def
    bq_push_def bq_close_def running_tasks_exited split: if_splits)

lemma new_pool_inv: "pool_inv new_pool"
  by (simp add: pool_inv_def new_pool_def new_blocking_queue_def)

lemma pool_reach_inv: "pool_step\<^sup>*\<^sup>* p p' \<Longrightarrow> pool_inv p \<Longrightarrow> pool_inv p'"
  by (induction rule: rtranclp_induct) (auto intro: pool_step_inv)

text \<open>
  Claim C33. In every state the pool can reach, whatever the interleaving of clients, owner and
  workers, the tasks taken so far and the tasks still queued are together the accepted tasks in the
  order of submission, and each task taken is either running or was run exactly once.
\<close>

theorem pool_fifo_once:
  assumes "pool_step\<^sup>*\<^sup>* new_pool p"
  shows "tp_taken p @ bq_queue (tp_tasks p) = tp_accepted p \<and>
    mset (tp_executed p) + running_tasks (tp_workers p) = mset (tp_taken p)"
  using pool_reach_inv [OF assms new_pool_inv] by (simp add: pool_inv_def)

text \<open>A run of one worker through two tasks.\<close>

lemma pool_run_example:
  "pool_step\<^sup>*\<^sup>* new_pool
     \<lparr>tp_running = True, tp_tasks = \<lparr>bq_capacity = 0, bq_queue = [8], bq_closed = False\<rparr>,
      tp_workers = [Executing (7::nat)], tp_stopping = False,
      tp_accepted = [7, 8], tp_taken = [7], tp_executed = []\<rparr>"
proof -
  let ?q = "\<lambda>ts. \<lparr>bq_capacity = 0, bq_queue = ts :: nat list, bq_closed = False\<rparr>"
  let ?p = "\<lambda>ts w acc tak. \<lparr>tp_running = True, tp_tasks = ?q ts, tp_workers = [w],
    tp_stopping = False, tp_accepted = acc, tp_taken = tak, tp_executed = []\<rparr>"
  have "pool_step\<^sup>*\<^sup>* new_pool (?p [] AtLoop [] [])"
    by (rule r_into_rtranclp, rule Start [where n = 1 and r = Success])
       (simp_all add: pool_start_def new_pool_def new_blocking_queue_def)
  also have "pool_step (?p [] AtLoop [] []) (?p [7] AtLoop [7] [])"
    by (rule Submit [where t = 7]) (simp add: pool_submit_def bq_push_def)
  also have "pool_step (?p [7] AtLoop [7] []) (?p [7, 8] AtLoop [7, 8] [])"
    by (rule Submit [where t = 8]) (simp add: pool_submit_def bq_push_def)
  also have "pool_step (?p [7, 8] AtLoop [7, 8] []) (?p [7, 8] AtPop [7, 8] [])"
    by (rule Work [where i = 0]) (simp add: pool_worker_def)
  also have "pool_step (?p [7, 8] AtPop [7, 8] []) (?p [8] (Executing 7) [7, 8] [7])"
    by (rule Work [where i = 0]) (simp add: pool_worker_def bq_pop_def)
  finally show ?thesis .
qed

theorem pool_fifo_once_witness:
  "mset [] + running_tasks [Executing (7::nat)] = mset [7] \<and> [7] @ [8] = [7, 8 :: nat]"
  using pool_fifo_once [OF pool_run_example] by simp

subsection \<open>Stopping\<close>

text \<open>While the flag is down a worker makes at most three more steps: it takes at most one task.\<close>

fun pc_weight :: "'a worker_pc \<Rightarrow> nat" where
  "pc_weight Exited = 0"
| "pc_weight AtLoop = 1"
| "pc_weight (Executing t) = 2"
| "pc_weight AtPop = 3"

definition stop_weight :: "'a ThreadPool \<Rightarrow> nat" where
  "stop_weight p = sum_list (map pc_weight (tp_workers p))"

lemma weight_update:
  assumes "i < length pcs"
  shows "sum_list (map pc_weight (pcs[i := pc])) + pc_weight (pcs ! i)
    = sum_list (map pc_weight pcs) + pc_weight pc"
proof -
  have u: "pcs[i := pc] = take i pcs @ pc # drop (Suc i) pcs"
    using assms by (rule upd_conv_take_nth_drop)
  have v: "pcs = take i pcs @ pcs ! i # drop (Suc i) pcs"
    using assms by (rule id_take_nth_drop)
  have "sum_list (map pc_weight pcs) = sum_list (map pc_weight (take i pcs)) + pc_weight (pcs ! i)
      + sum_list (map pc_weight (drop (Suc i) pcs))"
    by (subst v) simp
  then show ?thesis by (simp add: u)
qed

lemma stopping_worker:
  assumes "pool_worker i p = Some p'" "tp_stopping p" "\<not> tp_running p"
  shows "stop_weight p' < stop_weight p"
    "tp_stopping p' \<and> \<not> tp_running p' \<and> length (tp_workers p') = length (tp_workers p)"
    "bq_closed (tp_tasks p) \<Longrightarrow> bq_closed (tp_tasks p')"
proof -
  from assms(1) have i: "i < length (tp_workers p)"
    by (auto simp: pool_worker_def split: if_splits)
  note u = weight_update [OF i]
  show "stop_weight p' < stop_weight p"
  proof (cases "tp_workers p ! i")
    case AtLoop
    with assms i u [of Exited] show ?thesis by (auto simp: pool_worker_def stop_weight_def)
  next
    case AtPop
    with assms i u [of Exited] u [of "Executing (hd (bq_queue (tp_tasks p)))"] show ?thesis
      by (auto simp: pool_worker_def stop_weight_def bq_pop_def split: if_splits list.splits)
  next
    case (Executing t)
    with assms i u [of AtLoop] show ?thesis by (auto simp: pool_worker_def stop_weight_def)
  next
    case Exited
    with assms i show ?thesis by (simp add: pool_worker_def)
  qed
  show "tp_stopping p' \<and> \<not> tp_running p' \<and> length (tp_workers p') = length (tp_workers p)"
    "bq_closed (tp_tasks p) \<Longrightarrow> bq_closed (tp_tasks p')"
    using assms by (auto simp: pool_worker_def bq_pop_def
        split: if_splits worker_pc.splits list.splits)
qed

lemma stopping_progress:
  assumes "bq_closed (tp_tasks p)" "tp_stopping p"
  shows "pool_stop_end p \<noteq> None \<or> (\<exists>i. pool_worker i p \<noteq> None)"
proof (cases "\<forall>pc \<in> set (tp_workers p). pc = Exited")
  case True
  with assms show ?thesis by (simp add: pool_stop_end_def)
next
  case False
  then obtain i where i: "i < length (tp_workers p)" "tp_workers p ! i \<noteq> Exited"
    by (auto simp: in_set_conv_nth)
  with assms(1) bq_close_releases(2) [of "tp_tasks p"] have "pool_worker i p \<noteq> None"
    by (auto simp: pool_worker_def split: worker_pc.splits option.splits prod.splits)
  then show ?thesis by blast
qed

definition worker_move :: "'a ThreadPool \<Rightarrow> 'a ThreadPool \<Rightarrow> bool" where
  "worker_move p p' \<longleftrightarrow> (\<exists>i. pool_worker i p = Some p')"

lemma stopping_run:
  assumes "(worker_move ^^ n) p p'" "tp_stopping p" "\<not> tp_running p" "bq_closed (tp_tasks p)"
  shows "n + stop_weight p' \<le> stop_weight p \<and> tp_stopping p' \<and> \<not> tp_running p' \<and>
    bq_closed (tp_tasks p')"
  using assms
proof (induction n arbitrary: p')
  case (Suc n)
  from Suc.prems(1) obtain p1 where 1: "(worker_move ^^ n) p p1" and "worker_move p1 p'"
    by auto
  then obtain i where i: "pool_worker i p1 = Some p'" by (auto simp: worker_move_def)
  from Suc.IH [OF 1 Suc.prems(2-)] have "n + stop_weight p1 \<le> stop_weight p" "tp_stopping p1"
    "\<not> tp_running p1" "bq_closed (tp_tasks p1)" by simp_all
  with stopping_worker [OF i] show ?case by linarith
qed simp

lemma stop_weight_bound: "stop_weight p \<le> 3 * length (tp_workers p)"
proof -
  have "sum_list (map pc_weight pcs) \<le> 3 * length pcs" for pcs :: "'a worker_pc list"
  proof (induction pcs)
    case (Cons pc pcs)
    then show ?case by (cases pc) simp_all
  qed simp
  then show ?thesis by (simp add: stop_weight_def)
qed

text \<open>
  Claim C34. \<open>stop()\<close> returns: once it has begun, the workers can make at most three steps each, and
  as long as the join has not succeeded one of them can make a step.
\<close>

theorem pool_stop_returns:
  assumes "pool_step\<^sup>*\<^sup>* new_pool p" and "tp_stopping p" and "(worker_move ^^ n) p p'"
  shows "n \<le> 3 * length (tp_workers p) \<and>
    (pool_stop_end p' \<noteq> None \<or> (\<exists>i. pool_worker i p' \<noteq> None))"
proof -
  have "\<not> tp_running p" "bq_closed (tp_tasks p)"
    using pool_reach_inv [OF assms(1) new_pool_inv] assms(2) by (simp_all add: pool_inv_def)
  from stopping_run [OF assms(3,2) this] have "n \<le> stop_weight p"
    "tp_stopping p'" "bq_closed (tp_tasks p')" by simp_all
  then show ?thesis
    using stop_weight_bound [of p] stopping_progress [of p'] by (intro conjI) linarith+
qed

text \<open>A pool stopped while its only worker was waiting.\<close>

definition stopped_example :: "nat \<Rightarrow> nat worker_pc list \<Rightarrow> bool \<Rightarrow> nat ThreadPool" where
  "stopped_example n pcs stopping =
     \<lparr>tp_running = False, tp_tasks = \<lparr>bq_capacity = 0, bq_queue = [], bq_closed = True\<rparr>,
      tp_workers = pcs, tp_stopping = stopping, tp_accepted = [], tp_taken = [],
      tp_executed = []\<rparr>"

lemma stopped_example_reach:
  "pool_step\<^sup>*\<^sup>* new_pool (stopped_example n [AtLoop] True)"
  "pool_step\<^sup>*\<^sup>* new_pool (stopped_example n [] False)"
proof -
  let ?p = "(fst \<circ> (\<lambda>x. (snd x, ()))) (pool_start 1 new_pool) :: nat ThreadPool"
  have "pool_step\<^sup>*\<^sup>* new_pool ?p"
    by (rule r_into_rtranclp, rule Start [where n = 1 and r = Success])
       (simp_all add: pool_start_def new_pool_def)
  also have "pool_step ?p (stopped_example n [AtLoop] True)"
    by (rule StopBegin) (simp_all add: pool_start_def new_pool_def pool_stop_begin_def
        stopped_example_def bq_close_def new_blocking_queue_def)
  finally show 1: "pool_step\<^sup>*\<^sup>* new_pool (stopped_example n [AtLoop] True)" .
  also have "pool_step (stopped_example n [AtLoop] True) (stopped_example n [Exited] True)"
    by (rule Work [where i = 0]) (simp add: pool_worker_def stopped_example_def)
  also have "pool_step (stopped_example n [Exited] True) (stopped_example n [] False)"
    by (rule StopEnd) (simp add: pool_stop_end_def stopped_example_def)
  finally show "pool_step\<^sup>*\<^sup>* new_pool (stopped_example n [] False)" .
qed

theorem pool_stop_returns_witness:
  "1 \<le> 3 * length (tp_workers (stopped_example 0 [AtLoop] True)) \<and>
   (\<exists>q. pool_stop_end (stopped_example 0 [Exited] True) = Some q)"
proof -
  have stop: "tp_stopping (stopped_example 0 [AtLoop] True)" by (simp add: stopped_example_def)
  have move: "(worker_move ^^ 1) (stopped_example 0 [AtLoop] True) (stopped_example 0 [Exited] True)"
    unfolding relpowp_1 worker_move_def
    by (rule exI [of _ 0]) (simp add: pool_worker_def stopped_example_def)
  from pool_stop_returns [OF stopped_example_reach(1) stop move] show ?thesis
    by (auto simp: pool_worker_def stopped_example_def split: if_splits)
qed

text \<open>The queue of a stopped pool stays closed, also after the pool has been started again.\<close>

lemma closed_step:
  assumes "pool_step p p'" "bq_closed (tp_tasks p)"
  shows "bq_closed (tp_tasks p') \<and> tp_accepted p' = tp_accepted p"
  using assms
  by (cases rule: pool_step.cases)
     (auto simp: pool_start_def pool_submit_def pool_stop_begin_def pool_stop_end_def
       pool_worker_def bq_push_def bq_pop_def bq_close_def
       split: if_splits worker_pc.splits list.splits)

lemma closed_reach:
  "pool_step\<^sup>*\<^sup>* p p' \<Longrightarrow> bq_closed (tp_tasks p) \<Longrightarrow>
     bq_closed (tp_tasks p') \<and> tp_accepted p' = tp_accepted p"
  by (induction rule: rtranclp_induct) (auto dest: closed_step)

text \<open>
  A pool is not restartable: after \<open>stop()\<close> closed the queue, \<open>start\<close> still reports
  success, but whatever is submitted from then on is dropped and never run.
\<close>

theorem pool_dead_after_stop:
  assumes "pool_step\<^sup>*\<^sup>* new_pool p" and "bq_closed (tp_tasks p)" and "pool_step\<^sup>*\<^sup>* p p'"
  shows "tp_accepted p' = tp_accepted p \<and> set (tp_executed p') \<subseteq> set (tp_accepted p) \<and>
    pool_submit t p' = Some p' \<and>
    (\<not> tp_running p' \<longrightarrow> fst (pool_start (Suc n) p') = Success)"
proof -
  have c: "bq_closed (tp_tasks p')" "tp_accepted p' = tp_accepted p"
    using closed_reach [OF assms(3,2)] by simp_all
  have "pool_inv p'"
    using assms(1,3) by (blast intro: pool_reach_inv new_pool_inv rtranclp_trans)
  then have inv: "mset (tp_executed p') + running_tasks (tp_workers p') = mset (tp_taken p')"
    "tp_taken p' @ bq_queue (tp_tasks p') = tp_accepted p'"
    by (simp_all add: pool_inv_def)
  have "set_mset (mset (tp_executed p')) \<subseteq> set_mset (mset (tp_taken p'))"
    by (simp add: inv(1) [symmetric])
  then have "set (tp_executed p') \<subseteq> set (tp_accepted p')"
    by (auto simp: inv(2) [symmetric])
  with c show ?thesis
    by (simp add: pool_submit_def bq_close_releases(1) pool_start_def)
qed

theorem pool_dead_after_stop_witness:
  "tp_executed (snd (pool_start 2 (stopped_example 0 [] False))) = [] \<and>
   pool_submit 5 (snd (pool_start 2 (stopped_example 0 [] False)))
     = Some (snd (pool_start 2 (stopped_example 0 [] False)))"
proof -
  let ?p = "stopped_example 0 [] False" and ?p' = "snd (pool_start 2 (stopped_example 0 [] False))"
  have s: "pool_step\<^sup>*\<^sup>* ?p ?p'"
    by (rule r_into_rtranclp, rule Start [where n = 2 and r = "fst (pool_start 2 ?p)"])
       (simp_all add: stopped_example_def)
  have "bq_closed (tp_tasks ?p)" by (simp add: stopped_example_def)
  from pool_dead_after_stop [OF stopped_example_reach(2) this s, of 5] show ?thesis
    by (simp add: stopped_example_def)
qed

subsection \<open>Worker.cpp\<close>

text \<open>
  A worker owns one thread: none, a thread that runs the task, or one whose task has returned and
  that has not been joined. Assigning a new thread over one that has not been joined ends the
  program, which is \<open>None\<close>.
\<close>

datatype thread_state = NoThread | RunningTask | FinishedTask

record Worker =
  wk_name :: string
  wk_running :: bool
  wk_stopFlag :: bool
  wk_thread :: thread_state

definition new_worker :: Worker where
  "new_worker = \<lparr>wk_name = [], wk_running = False, wk_stopFlag = False, wk_thread = NoThread\<rparr>"

definition worker_start :: "string \<Rightarrow> bool \<Rightarrow> Worker \<Rightarrow> (unit Result \<times> Worker) option" where
  "worker_start name hasTask wk =
     (if wk_running wk then Some (Error Busy ''worker already running'', wk)
      else if \<not> hasTask then Some (Error InvalidArgument ''worker task is empty'', wk)
      else if wk_thread wk \<noteq> NoThread then None
      else Some (Success, wk\<lparr>wk_name := name, wk_stopFlag := False, wk_running := True,
                             wk_thread := RunningTask\<rparr>))"

text \<open>The thread's own end, when its task returns.\<close>

definition worker_return :: "Worker \<Rightarrow> Worker" where
  "worker_return wk =
     (if wk_thread wk = RunningTask
      then wk\<lparr>wk_running := False, wk_thread := FinishedTask\<rparr> else wk)"

text \<open>\<open>stop()\<close> raises the flag and joins; the join is over when the task has returned.\<close>

definition worker_stop :: "Worker \<Rightarrow> Worker" where
  "worker_stop wk =
     (let wk = worker_return (wk\<lparr>wk_stopFlag := True\<rparr>)
      in wk\<lparr>wk_thread := NoThread, wk_running := False\<rparr>)"

definition worker_inv :: "Worker \<Rightarrow> bool" where
  "worker_inv wk \<longleftrightarrow> (wk_running wk \<longleftrightarrow> wk_thread wk = RunningTask)"

lemma worker_inv_preserved:
  "worker_inv new_worker"
  "worker_inv wk \<Longrightarrow> worker_start name hasTask wk = Some (r, wk') \<Longrightarrow> worker_inv wk'"
  "worker_inv wk \<Longrightarrow> worker_inv (worker_return wk)"
  "worker_inv (worker_stop wk)"
  by (auto simp: worker_inv_def new_worker_def worker_start_def worker_return_def worker_stop_def
      Let_def split: if_splits)

text \<open>
  A worker that was stopped can be started again; one whose task returned by itself cannot: the
  program ends in \<open>std::terminate\<close>.
\<close>

lemma worker_restart:
  "worker_start name True (worker_stop wk) \<noteq> None"
  "wk_thread wk = RunningTask \<Longrightarrow> worker_start name True (worker_return wk) = None"
  by (auto simp: worker_start_def worker_stop_def worker_return_def Let_def)

end
