(* ===== verification/Tri_EventBus.thy ===== *)
theory Tri_EventBus
  imports Tri_Events Tri_Threads
begin

text \<open>
  The event bus (foundation/event/EventBus.cpp): subscription, and delivery either in the caller or
  through the thread pool. A callback is a function of the event and of a world it may change; a
  task of the pool is a callback with its event.
\<close>

type_synonym 'w callback = "Event \<Rightarrow> 'w \<Rightarrow> 'w"

record 'w Subscriber =
  sub_id :: u64
  sub_callback :: "'w callback"

record 'w EventBus =
  eb_nextId :: u64
  eb_async :: bool
  eb_initialized :: bool
  eb_pool :: "('w callback \<times> Event) ThreadPool"
  eb_subscribers :: "EventType \<Rightarrow> 'w Subscriber list"

definition new_bus :: "'w EventBus" where
  "new_bus =
     \<lparr>eb_nextId = 1, eb_async = False, eb_initialized = False, eb_pool = new_pool,
      eb_subscribers = (\<lambda>_. [])\<rparr>"

definition bus_init :: "bool \<Rightarrow> nat \<Rightarrow> 'w EventBus \<Rightarrow> unit Result \<times> 'w EventBus" where
  "bus_init async workers b =
     (if eb_initialized b then (Error Busy ''event bus already initialized'', b)
      else
        let b = b\<lparr>eb_async := async\<rparr> in
        if async
        then (case pool_start workers (eb_pool b) of
                (Inl e, p) \<Rightarrow> (Inl e, b\<lparr>eb_pool := p\<rparr>)
              | (Inr _, p) \<Rightarrow> (Success, b\<lparr>eb_pool := p, eb_initialized := True\<rparr>))
        else (Success, b\<lparr>eb_initialized := True\<rparr>))"

text \<open>\<open>shutdown()\<close> up to the point where the pool waits for its workers.\<close>

definition bus_shutdown :: "'w EventBus \<Rightarrow> 'w EventBus" where
  "bus_shutdown b =
     b\<lparr>eb_subscribers := (\<lambda>_. []), eb_initialized := False, eb_pool := pool_stop_begin (eb_pool b)\<rparr>"

definition subscribe :: "EventType \<Rightarrow> 'w callback \<Rightarrow> 'w EventBus \<Rightarrow> u64 \<times> 'w EventBus" where
  "subscribe type callback b =
     (let sid = eb_nextId b in
      (sid, b\<lparr>eb_nextId := sid + 1,
              eb_subscribers := (eb_subscribers b)(type := eb_subscribers b type @
                [\<lparr>sub_id = sid, sub_callback = callback\<rparr>])\<rparr>))"

definition unsubscribe :: "u64 \<Rightarrow> 'w EventBus \<Rightarrow> 'w EventBus" where
  "unsubscribe sid b =
     b\<lparr>eb_subscribers := (\<lambda>type. filter (\<lambda>s. sub_id s \<noteq> sid) (eb_subscribers b type))\<rparr>"

definition callbacks_of :: "'w EventBus \<Rightarrow> EventType \<Rightarrow> 'w callback list" where
  "callbacks_of b type = map sub_callback (eb_subscribers b type)"

text \<open>The queue of the pool is not bounded, so \<open>submit\<close> does not wait.\<close>

fun submit_all :: "('w callback \<times> Event) list \<Rightarrow> ('w callback \<times> Event) ThreadPool \<Rightarrow>
    ('w callback \<times> Event) ThreadPool option" where
  "submit_all [] p = Some p"
| "submit_all (t # ts) p = do { p \<leftarrow> pool_submit t p; submit_all ts p }"

definition publish :: "Event \<Rightarrow> 'w EventBus \<Rightarrow> 'w \<Rightarrow> ('w EventBus \<times> 'w) option" where
  "publish event b w =
     (let callbacks = callbacks_of b (ev_type event) in
      if eb_async b
      then do { p \<leftarrow> submit_all (map (\<lambda>cb. (cb, event)) callbacks) (eb_pool b);
                Some (b\<lparr>eb_pool := p\<rparr>, w) }
      else Some (b, fold (\<lambda>cb w. cb event w) callbacks w))"

subsection \<open>Subscriptions\<close>

text \<open>Every handed-out identifier is below the next one, and no two subscriptions share one. The
  counter has 64 bits; \<open>bus_inv\<close> holds as long as it has not wrapped.\<close>

definition bus_inv :: "'w EventBus \<Rightarrow> bool" where
  "bus_inv b \<longleftrightarrow>
     (\<forall>type. distinct (map sub_id (eb_subscribers b type)) \<and>
        (\<forall>s \<in> set (eb_subscribers b type). sub_id s < eb_nextId b)) \<and>
     (\<forall>t t' s s'. s \<in> set (eb_subscribers b t) \<longrightarrow> s' \<in> set (eb_subscribers b t') \<longrightarrow>
        sub_id s = sub_id s' \<longrightarrow> t = t')"

lemma bus_inv_new: "bus_inv new_bus"
  by (simp add: bus_inv_def new_bus_def)

lemma bus_inv_unsubscribe: "bus_inv b \<Longrightarrow> bus_inv (unsubscribe sid b)"
  by (auto simp: bus_inv_def unsubscribe_def distinct_map_filter)

lemma less_succ_word: "x + 1 \<noteq> (0 :: u64) \<Longrightarrow> x < x + 1"
  by (metis add.commute lessI unatSuc word_less_nat_alt)

lemma bus_inv_subscribe:
  assumes "bus_inv b" "eb_nextId b + 1 \<noteq> 0"
  shows "bus_inv (snd (subscribe type cb b))"
proof -
  have lt: "eb_nextId b < eb_nextId b + 1" using assms(2) by (rule less_succ_word)
  have old: "s \<in> set (eb_subscribers b t) \<Longrightarrow> sub_id s < eb_nextId b" for s t
    using assms(1) by (simp add: bus_inv_def)
  have fresh: "sub_id s \<noteq> eb_nextId b" "eb_nextId b \<noteq> sub_id s"
    if "s \<in> set (eb_subscribers b t)" for s t
    using old that by fastforce+
  have less: "s \<in> set (eb_subscribers b t) \<Longrightarrow> sub_id s < eb_nextId b + 1" for s t
    using old lt by (blast intro: less_trans)
  have one: "distinct (map sub_id (eb_subscribers b t))" for t
    using assms(1) by (simp add: bus_inv_def)
  have cross: "t = t'" if "s \<in> set (eb_subscribers b t)" "s' \<in> set (eb_subscribers b t')"
    "sub_id s = sub_id s'" for s s' t t'
    using assms(1) that unfolding bus_inv_def by blast
  show ?thesis
    unfolding bus_inv_def subscribe_def
    using fresh less lt one cross by (auto simp: Let_def image_iff)
qed

text \<open>
  A subscription is delivered to exactly its type, after the earlier subscribers of that
  type, and unsubscribing with the identifier it returned takes that subscription back and no other.
\<close>

theorem subscribe_unsubscribe:
  assumes "bus_inv b" and "subscribe type cb b = (sid, b')"
  shows "callbacks_of b' t = callbacks_of b t @ (if t = type then [cb] else []) \<and>
    callbacks_of (unsubscribe sid b') t = callbacks_of b t"
proof -
  have "filter (\<lambda>s. sub_id s \<noteq> sid) (eb_subscribers b t) = eb_subscribers b t" for t
    using assms by (fastforce simp: filter_id_conv bus_inv_def subscribe_def Let_def)
  then show ?thesis
    using assms(2) by (auto simp: subscribe_def callbacks_of_def unsubscribe_def Let_def)
qed

theorem subscribe_unsubscribe_witness:
  "callbacks_of (unsubscribe 1 (snd (subscribe ModeChanged (\<lambda>e n. n + 1 :: nat) new_bus)))
     ModeChanged = []"
proof -
  have "subscribe ModeChanged (\<lambda>e n. n + 1 :: nat) new_bus
      = (1, snd (subscribe ModeChanged (\<lambda>e n. n + 1) new_bus))"
    by (simp add: subscribe_def new_bus_def Let_def)
  from subscribe_unsubscribe [OF bus_inv_new this, of ModeChanged] show ?thesis
    by (simp add: callbacks_of_def new_bus_def)
qed

subsection \<open>Delivery\<close>

lemma submit_all_open:
  assumes "bq_capacity (tp_tasks p) = 0" "\<not> bq_closed (tp_tasks p)"
  shows "submit_all ts p = Some (p\<lparr>tp_tasks := (tp_tasks p)\<lparr>bq_queue := bq_queue (tp_tasks p) @ ts\<rparr>,
    tp_accepted := tp_accepted p @ ts\<rparr>)"
  using assms
  by (induction ts arbitrary: p) (simp_all add: pool_submit_def bq_push_def)

lemma submit_all_closed:
  assumes "bq_closed (tp_tasks p)"
  shows "submit_all ts p = Some p"
  using assms by (induction ts) (simp_all add: pool_submit_def bq_push_def)

text \<open>
  A synchronous bus calls the callbacks of the event's type in the order of subscription; an
  asynchronous one queues one task for each of them, in that order, behind the tasks already queued,
  and runs none itself.
\<close>

theorem publish_delivers:
  "(\<not> eb_async b \<longrightarrow>
      publish e b w = Some (b, fold (\<lambda>cb w. cb e w) (callbacks_of b (ev_type e)) w)) \<and>
   (eb_async b \<longrightarrow> bq_capacity (tp_tasks (eb_pool b)) = 0 \<longrightarrow> \<not> bq_closed (tp_tasks (eb_pool b)) \<longrightarrow>
      (\<exists>b'. publish e b w = Some (b', w) \<and>
        bq_queue (tp_tasks (eb_pool b')) = bq_queue (tp_tasks (eb_pool b)) @
          map (\<lambda>cb. (cb, e)) (callbacks_of b (ev_type e))))"
  by (auto simp: publish_def Let_def submit_all_open)

definition mode_event :: Event where
  "mode_event = \<lparr>ev_type = ModeChanged, ev_name = ''m'', ev_fields = Map.empty\<rparr>"

definition counting_bus :: "bool \<Rightarrow> nat EventBus" where
  "counting_bus async = snd (bus_init async 1
     (snd (subscribe ModeChanged (\<lambda>e n. n + 1) (snd (subscribe ModeChanged (\<lambda>e n. 10 * n) new_bus)))))"

theorem publish_delivers_witness:
  "publish mode_event (counting_bus False) 2 = Some (counting_bus False, 21) \<and>
   (\<exists>b'. publish mode_event (counting_bus True) 2 = Some (b', 2) \<and>
     length (bq_queue (tp_tasks (eb_pool b'))) = 2)"
  using publish_delivers [of "counting_bus False" mode_event 2]
    publish_delivers [of "counting_bus True" mode_event 2]
  by (auto simp: counting_bus_def mode_event_def bus_init_def subscribe_def new_bus_def Let_def
      pool_start_def new_pool_def new_blocking_queue_def callbacks_of_def)

text \<open>
  An asynchronous bus that was shut down never delivers again: it can be initialized and
  subscribed to with success, but publishing leaves its queue as it is.
\<close>

theorem bus_silent_after_shutdown:
  assumes "eb_async b" and "tp_running (eb_pool b)" and "n \<noteq> 0"
    and "pool_stop_end (eb_pool (bus_shutdown b)) = Some p"
  shows "\<exists>b1 b2. bus_init True n ((bus_shutdown b)\<lparr>eb_pool := p\<rparr>) = (Success, b1) \<and>
    b2 = snd (subscribe (ev_type e) cb b1) \<and> callbacks_of b2 (ev_type e) = [cb] \<and>
    publish e b2 w = Some (b2, w)"
proof -
  let ?b1 = "snd (bus_init True n ((bus_shutdown b)\<lparr>eb_pool := p\<rparr>))"
  let ?b2 = "snd (subscribe (ev_type e) cb ?b1)"
  have p: "p = (pool_stop_begin (eb_pool b))\<lparr>tp_workers := [], tp_stopping := False\<rparr>"
    using assms(4) by (simp add: pool_stop_end_def bus_shutdown_def split: if_splits)
  then have run: "\<not> tp_running p" and closed: "bq_closed (tp_tasks p)"
    using assms(2) by (simp_all add: pool_stop_begin_def bq_close_def)
  have 1: "bus_init True n ((bus_shutdown b)\<lparr>eb_pool := p\<rparr>) = (Success, ?b1)"
    using run assms(3) by (simp add: bus_init_def bus_shutdown_def pool_start_def Let_def)
  have subs: "eb_subscribers ?b1 = (\<lambda>_. [])" "eb_async ?b1" "bq_closed (tp_tasks (eb_pool ?b1))"
    using run closed assms(3)
    by (simp_all add: bus_init_def bus_shutdown_def pool_start_def Let_def)
  then have "callbacks_of ?b2 (ev_type e) = [cb]" "eb_async ?b2"
    "bq_closed (tp_tasks (eb_pool ?b2))"
    by (simp_all add: subscribe_def callbacks_of_def Let_def)
  moreover from this have "publish e ?b2 w = Some (?b2, w)"
    by (simp add: publish_def submit_all_closed Let_def)
  ultimately show ?thesis using 1 by blast
qed

definition stopping_bus :: "nat EventBus" where
  "stopping_bus = (counting_bus True)\<lparr>eb_pool := (eb_pool (counting_bus True))\<lparr>tp_workers := [Exited]\<rparr>\<rparr>"

theorem bus_silent_after_shutdown_witness:
  "\<exists>b1 b2 p. bus_init True 1 ((bus_shutdown stopping_bus)\<lparr>eb_pool := p\<rparr>) = (Success, b1) \<and>
    b2 = snd (subscribe ModeChanged (\<lambda>e n. n + 1) b1) \<and>
    publish mode_event b2 5 = Some (b2, 5)"
proof -
  have a: "eb_async stopping_bus" "tp_running (eb_pool stopping_bus)"
    by (simp_all add: stopping_bus_def counting_bus_def bus_init_def subscribe_def new_bus_def
        Let_def pool_start_def new_pool_def)
  then obtain p where "pool_stop_end (eb_pool (bus_shutdown stopping_bus)) = Some p"
    by (simp add: pool_stop_end_def bus_shutdown_def pool_stop_begin_def)
       (simp add: stopping_bus_def)
  from bus_silent_after_shutdown [OF a _ this, of 1 mode_event "\<lambda>e n. n + 1" 5] show ?thesis
    by (auto simp: mode_event_def)
qed

end
