(* ===== verification/Tri_Frames.thy ===== *)
theory Tri_Frames
  imports Tri_EnumText Tri_Serial
begin

text \<open>
  The vocabulary of the media layer: cameras and their frames (device/CameraTypes), video frames and
  pixel formats (media/frame/VideoFrame.h), encoded frames, and the frame types of the codec library
  wrappers (hardware/mpp/MppTypes.h). The driver's own timestamp of a captured frame, which no part of
  the program reads, is left out.
\<close>

subsection \<open>Cameras\<close>

datatype CameraId = Visible | CompositeLowThermal

datatype CameraKind = VisibleUvc | CompositeLowThermalUvc

datatype CameraLifecycleState = Uninitialized | Initialized | Opened | Streaming | CameraError

fun toString_CameraId :: "CameraId \<Rightarrow> string" where
  "toString_CameraId Visible = ''visible''"
| "toString_CameraId CompositeLowThermal = ''composite_low_thermal''"

fun toString_CameraKind :: "CameraKind \<Rightarrow> string" where
  "toString_CameraKind VisibleUvc = ''visible_uvc''"
| "toString_CameraKind CompositeLowThermalUvc = ''composite_low_thermal_uvc''"

fun toString_CameraState :: "CameraLifecycleState \<Rightarrow> string" where
  "toString_CameraState Uninitialized = ''uninitialized''"
| "toString_CameraState Initialized = ''initialized''"
| "toString_CameraState Opened = ''opened''"
| "toString_CameraState Streaming = ''streaming''"
| "toString_CameraState CameraError = ''error''"

record CameraFrame =
  cf_cameraId :: CameraId
  cf_sequence :: u64
  cf_fwidth :: u32
  cf_fheight :: u32
  cf_fpixelformat :: u32
  cf_bytes :: bytes
  cf_receiveTimestampMs :: int
  cf_metadata :: bytes
  cf_metadataTimestampMs :: int

subsection \<open>Codec library types\<close>

datatype MppCodec = CodecMjpeg | CodecH264 | CodecH265

datatype MppPixelFormat = MppUnknown | MppNv12 | MppRgb888

record MppFrame =
  mf_width :: u32
  mf_height :: u32
  mf_format :: MppPixelFormat
  mf_data :: bytes

text \<open>A time stamp is a number of milliseconds in 64 signed bits; the model has the number. It is copied, compared,
  subtracted from another one (\<open>delta\<close> in Tri_Queues) and cast to 64 unsigned bits, where the cast is written
  out; time stamps of a clock are far from the ends of the range, so no subtraction overflows.\<close>

record MppPacket =
  mp_codec :: MppCodec
  mp_data :: bytes
  mp_ptsMs :: int
  mp_keyFrame :: bool

subsection \<open>Video frames\<close>

datatype VideoPixelFormat = FormatUnknown | Mjpeg | Nv12 | Rgb888 | Yuyv422

definition fromV4L2PixelFormat :: "u32 \<Rightarrow> VideoPixelFormat" where
  "fromV4L2PixelFormat code =
     (if code = V4L2_PIX_FMT_MJPEG then Mjpeg
      else if code = V4L2_PIX_FMT_YUYV then Yuyv422
      else if code = V4L2_PIX_FMT_NV12 then Nv12 else FormatUnknown)"

fun toString_PixelFormat :: "VideoPixelFormat \<Rightarrow> string" where
  "toString_PixelFormat Mjpeg = ''MJPG''"
| "toString_PixelFormat Nv12 = ''NV12''"
| "toString_PixelFormat Rgb888 = ''RGB888''"
| "toString_PixelFormat Yuyv422 = ''YUYV422''"
| "toString_PixelFormat FormatUnknown = ''UNKNOWN''"

definition isEncodedFormat :: "VideoPixelFormat \<Rightarrow> bool" where
  "isEncodedFormat f \<longleftrightarrow> f = Mjpeg"

definition isRawFormat :: "VideoPixelFormat \<Rightarrow> bool" where
  "isRawFormat f \<longleftrightarrow> f = Nv12 \<or> f = Rgb888 \<or> f = Yuyv422"

record VideoFrame =
  vf_source :: CameraId
  vf_sequence :: u64
  vf_width :: u32
  vf_height :: u32
  vf_format :: VideoPixelFormat
  vf_v4l2PixelFormat :: u32
  vf_data :: bytes
  vf_ptsMs :: int
  vf_metadata :: bytes

definition default_video_frame :: VideoFrame where
  "default_video_frame =
     \<lparr>vf_source = Visible, vf_sequence = 0, vf_width = 0, vf_height = 0, vf_format = FormatUnknown,
      vf_v4l2PixelFormat = 0, vf_data = [], vf_ptsMs = 0, vf_metadata = []\<rparr>"

definition fromCameraFrame :: "CameraFrame \<Rightarrow> VideoFrame" where
  "fromCameraFrame f =
     default_video_frame\<lparr>vf_source := cf_cameraId f, vf_sequence := cf_sequence f,
       vf_width := cf_fwidth f, vf_height := cf_fheight f,
       vf_v4l2PixelFormat := cf_fpixelformat f,
       vf_format := fromV4L2PixelFormat (cf_fpixelformat f), vf_data := cf_bytes f,
       vf_ptsMs := cf_receiveTimestampMs f, vf_metadata := cf_metadata f\<rparr>"

fun toMppPixelFormat :: "VideoPixelFormat \<Rightarrow> MppPixelFormat" where
  "toMppPixelFormat Nv12 = MppNv12"
| "toMppPixelFormat Rgb888 = MppRgb888"
| "toMppPixelFormat _ = MppUnknown"

definition toMppFrame :: "VideoFrame \<Rightarrow> MppPixelFormat \<Rightarrow> MppFrame" where
  "toMppFrame frame fallback =
     (let mapped = toMppPixelFormat (vf_format frame)
      in \<lparr>mf_width = vf_width frame, mf_height = vf_height frame,
          mf_format = (if mapped = MppUnknown then fallback else mapped),
          mf_data = vf_data frame\<rparr>)"

definition fromMppFrame :: "MppFrame \<Rightarrow> CameraId \<Rightarrow> int \<Rightarrow> VideoFrame" where
  "fromMppFrame frame source ptsMs =
     default_video_frame\<lparr>vf_source := source, vf_width := mf_width frame,
       vf_height := mf_height frame,
       vf_format := (if mf_format frame = MppNv12 then Nv12
                     else if mf_format frame = MppRgb888 then Rgb888 else FormatUnknown),
       vf_data := mf_data frame, vf_ptsMs := ptsMs\<rparr>"

record EncodedFrame =
  ef_codec :: MppCodec
  ef_data :: bytes
  ef_ptsMs :: int
  ef_keyFrame :: bool
  ef_sequence :: u64

definition default_encoded_frame :: EncodedFrame where
  "default_encoded_frame =
     \<lparr>ef_codec = CodecH264, ef_data = [], ef_ptsMs = 0, ef_keyFrame = False, ef_sequence = 0\<rparr>"

definition fromMppPacket :: "MppPacket \<Rightarrow> u64 \<Rightarrow> EncodedFrame" where
  "fromMppPacket packet seq =
     default_encoded_frame\<lparr>ef_codec := mp_codec packet, ef_data := mp_data packet,
       ef_ptsMs := mp_ptsMs packet, ef_keyFrame := mp_keyFrame packet, ef_sequence := seq\<rparr>"

definition toMppPacket :: "EncodedFrame \<Rightarrow> MppPacket" where
  "toMppPacket frame =
     \<lparr>mp_codec = ef_codec frame, mp_data = ef_data frame, mp_ptsMs = ef_ptsMs frame,
      mp_keyFrame = ef_keyFrame frame\<rparr>"

record SyncedFrameGroup =
  sg_visible :: VideoFrame
  sg_composite :: VideoFrame
  sg_deltaMs :: int

subsection \<open>Conversions\<close>

lemma fourcc_values:
  "V4L2_PIX_FMT_MJPEG = 0x47504A4D" "V4L2_PIX_FMT_YUYV = 0x56595559"
  "V4L2_PIX_FMT_NV12 = 0x3231564E"
  by (simp_all add: V4L2_PIX_FMT_MJPEG_def V4L2_PIX_FMT_YUYV_def V4L2_PIX_FMT_NV12_def fourcc_def
      chr_code_def)

text \<open>Every format the configuration accepts is one the media layer recognises, and none else.\<close>

lemma configured_format_known:
  assumes "makeCaptureFormat cfg = Inr fmt"
  shows "fromV4L2PixelFormat (cf_pixelformat fmt) \<in> {Mjpeg, Yuyv422, Nv12}"
  using assms
  by (auto simp: makeCaptureFormat_def fromV4L2PixelFormat_def Let_def split: if_splits)

lemma encoded_or_raw: "f = FormatUnknown \<or> isEncodedFormat f \<or> isRawFormat f"
  by (cases f) (simp_all add: isEncodedFormat_def isRawFormat_def)

lemma toMppPacket_inverse: "toMppPacket (fromMppPacket p s) = p"
  by (simp add: toMppPacket_def fromMppPacket_def default_encoded_frame_def)

lemma fromMppPacket_inverse: "fromMppPacket (toMppPacket f) (ef_sequence f) = f"
  by (simp add: toMppPacket_def fromMppPacket_def default_encoded_frame_def)

end
