(* ===== verification/Tri_Queues.thy ===== *)
theory Tri_Queues
  imports Tri_Frames "HOL-Library.Sublist"
begin

text \<open>
  The queues between the stages of the media layer: the bounded frame queue
  (media/frame/FrameQueue.cpp), the main stream of encoded frames (media/stream/MainStream.cpp), both
  dropping the oldest frame when they are full, and the pairing of the two cameras' frames
  (media/frame/FrameSync.cpp). Each critical section is one operation. An operation that waits is
  given whether its time-out has expired, and is \<open>None\<close> while it waits.
\<close>

subsection \<open>Queues that drop the oldest\<close>

text \<open>
  The contract of a queue of bounded capacity whose \<open>push\<close> never waits: it keeps the newest frames,
  in order, and counts the ones it drops.
\<close>

locale leaky_queue =
  fixes push :: "'a \<Rightarrow> 's \<Rightarrow> 's"
    and frames :: "'s \<Rightarrow> 'a list"
    and capacity :: "'s \<Rightarrow> nat"
    and dropped :: "'s \<Rightarrow> u64"
    and accepting :: "'s \<Rightarrow> bool"
  assumes push_frames: "accepting s \<Longrightarrow> frames (push x s) = keep_last (capacity s) (frames s @ [x])"
    and push_capacity: "capacity (push x s) = capacity s"
    and push_accepting: "accepting s \<Longrightarrow> accepting (push x s)"
    and push_bound: "accepting s \<Longrightarrow> 0 < capacity s \<and> length (frames s) \<le> capacity s"
    and push_dropped: "accepting s \<Longrightarrow> dropped (push x s) =
      dropped s + of_nat (Suc (length (frames s)) - capacity s)"
begin

lemma fold_capacity: "capacity (fold push xs s) = capacity s"
  by (induction xs arbitrary: s) (simp_all add: push_capacity)

lemma fold_accepting: "accepting s \<Longrightarrow> accepting (fold push xs s)"
  by (induction xs arbitrary: s) (simp_all add: push_accepting)

lemma fold_push_frames:
  "accepting s \<Longrightarrow> frames (fold push xs s) = keep_last (capacity s) (frames s @ xs)"
proof (induction xs arbitrary: s)
  case Nil
  then show ?case by (simp add: push_bound)
next
  case (Cons x xs)
  then show ?case
    by (simp add: push_frames push_capacity push_accepting keep_last_append_keep_last)
qed

lemma newest_survives:
  assumes "accepting s" "xs \<noteq> []"
  shows "last (frames (fold push xs s)) = last xs"
  using assms push_bound [OF assms(1)] by (simp add: fold_push_frames last_keep_last)

lemma fold_push_dropped:
  "accepting s \<Longrightarrow> dropped (fold push xs s) =
     dropped s + of_nat (length (frames s) + length xs - capacity s)"
proof (induction xs arbitrary: s)
  case Nil
  then show ?case using push_bound [OF Nil] by simp
next
  case (Cons x xs)
  have b: "0 < capacity s" "length (frames s) \<le> capacity s"
    using push_bound [OF Cons.prems] by simp_all
  have l: "length (frames (push x s)) = min (capacity s) (Suc (length (frames s)))"
    using Cons.prems by (simp add: push_frames)
  have "(Suc (length (frames s)) - capacity s) +
      (length (frames (push x s)) + length xs - capacity s)
      = length (frames s) + length (x # xs) - capacity s"
    using b l by (auto simp: min_def)
  then show ?case
    using Cons.IH [OF push_accepting [OF Cons.prems]] Cons.prems
    by (simp add: push_dropped push_capacity add.assoc flip: of_nat_add)
qed

end

subsection \<open>FrameQueue.cpp\<close>

record FrameQueue =
  fq_capacity :: nat
  fq_queue :: "VideoFrame list"
  fq_closed :: bool
  fq_dropped :: u64

definition new_frame_queue :: "nat \<Rightarrow> FrameQueue" where
  "new_frame_queue capacity =
     \<lparr>fq_capacity = (if capacity = 0 then 1 else capacity), fq_queue = [], fq_closed = False,
      fq_dropped = 0\<rparr>"

definition fq_push :: "VideoFrame \<Rightarrow> FrameQueue \<Rightarrow> unit Result \<times> FrameQueue" where
  "fq_push frame q =
     (if fq_closed q then (Error Busy ''frame queue is closed'', q)
      else
        let q = (if fq_capacity q \<le> length (fq_queue q)
                 then q\<lparr>fq_queue := tl (fq_queue q), fq_dropped := fq_dropped q + 1\<rparr> else q)
        in (Success, q\<lparr>fq_queue := fq_queue q @ [frame]\<rparr>))"

definition fq_pop :: "int \<Rightarrow> bool \<Rightarrow> FrameQueue \<Rightarrow> (VideoFrame option \<times> FrameQueue) option" where
  "fq_pop timeoutMs expired q =
     (if fq_closed q \<or> fq_queue q \<noteq> [] \<or> (0 \<le> timeoutMs \<and> expired)
      then Some (case fq_queue q of
                   [] \<Rightarrow> (None, q)
                 | f # fs \<Rightarrow> (Some f, q\<lparr>fq_queue := fs\<rparr>))
      else None)"

definition fq_close :: "FrameQueue \<Rightarrow> FrameQueue" where
  "fq_close q = q\<lparr>fq_closed := True\<rparr>"

definition fq_clear :: "FrameQueue \<Rightarrow> FrameQueue" where
  "fq_clear q = q\<lparr>fq_queue := []\<rparr>"

definition fq_inv :: "FrameQueue \<Rightarrow> bool" where
  "fq_inv q \<longleftrightarrow> 0 < fq_capacity q \<and> length (fq_queue q) \<le> fq_capacity q"

lemma fq_inv_preserved:
  "fq_inv (new_frame_queue n)"
  "fq_inv q \<Longrightarrow> fq_inv (snd (fq_push f q))"
  "fq_inv q \<Longrightarrow> fq_pop t e q = Some (r, q') \<Longrightarrow> fq_inv q'"
  "fq_inv q \<Longrightarrow> fq_inv (fq_close q)"
  "fq_inv q \<Longrightarrow> fq_inv (fq_clear q)"
  by (auto simp: fq_inv_def new_frame_queue_def fq_push_def fq_pop_def fq_close_def fq_clear_def
      Let_def split: if_splits list.splits)

lemma fq_push_closed: "fq_closed (snd (fq_push f q)) = fq_closed q"
  by (simp add: fq_push_def Let_def)

lemma drop_one_keep_last:
  assumes "length xs \<le> c" "0 < c"
  shows "(if c \<le> length xs then tl xs else xs) @ [x] = keep_last c (xs @ [x])"
  using assms by (cases xs) (auto simp: keep_last_def)

interpretation fq: leaky_queue "\<lambda>f q. snd (fq_push f q)" fq_queue fq_capacity fq_dropped
  "\<lambda>q. fq_inv q \<and> \<not> fq_closed q"
proof
  fix q x assume a: "fq_inv q \<and> \<not> fq_closed q"
  then show "fq_queue (snd (fq_push x q)) = keep_last (fq_capacity q) (fq_queue q @ [x])"
    using drop_one_keep_last [of "fq_queue q" "fq_capacity q" x]
    by (auto simp: fq_push_def fq_inv_def Let_def)
  show "fq_inv (snd (fq_push x q)) \<and> \<not> fq_closed (snd (fq_push x q))"
    using a fq_inv_preserved(2) [of q x] by (simp add: fq_push_closed)
  show "0 < fq_capacity q \<and> length (fq_queue q) \<le> fq_capacity q"
    using a by (simp add: fq_inv_def)
  show "fq_dropped (snd (fq_push x q)) =
      fq_dropped q + of_nat (Suc (length (fq_queue q)) - fq_capacity q)"
    using a by (auto simp: fq_push_def fq_inv_def Let_def)
next
  fix x q show "fq_capacity (snd (fq_push x q)) = fq_capacity q"
    by (simp add: fq_push_def Let_def)
qed

text \<open>
  An open frame queue, whatever is pushed into it, holds the newest frames in order, never
  more than its capacity, and its drop counter advances by exactly the number of frames lost.
\<close>

theorem frame_queue_keeps_newest:
  assumes "fq_inv q" and "\<not> fq_closed q"
  shows "fq_queue (fold (\<lambda>f q. snd (fq_push f q)) fs q) = keep_last (fq_capacity q) (fq_queue q @ fs) \<and>
    fq_dropped (fold (\<lambda>f q. snd (fq_push f q)) fs q)
      = fq_dropped q + of_nat (length (fq_queue q) + length fs - fq_capacity q)"
  using assms fq.fold_push_frames [of q fs] fq.fold_push_dropped [of q fs] by simp

definition numbered_frame :: "nat \<Rightarrow> VideoFrame" where
  "numbered_frame n = default_video_frame\<lparr>vf_ptsMs := int n\<rparr>"

theorem frame_queue_keeps_newest_witness:
  "fq_queue (fold (\<lambda>f q. snd (fq_push f q)) (map numbered_frame [1, 2, 3]) (new_frame_queue 2))
     = map numbered_frame [2, 3]"
proof -
  have "\<not> fq_closed (new_frame_queue 2)" by (simp add: new_frame_queue_def)
  from frame_queue_keeps_newest [OF fq_inv_preserved(1) this, of "map numbered_frame [1, 2, 3]"] show ?thesis
    by (simp add: new_frame_queue_def keep_last_def)
qed

subsection \<open>MainStream.cpp\<close>

datatype StreamState = StreamStopped | StreamRunning | StreamError

record StreamProfile =
  pf_codec :: MppCodec
  pf_width :: u32
  pf_height :: u32
  pf_fps :: u32
  pf_bitrateKbps :: u32
  pf_gop :: u32
  pf_lowLatency :: bool
  pf_name :: string

definition default_profile :: StreamProfile where
  "default_profile =
     \<lparr>pf_codec = CodecH264, pf_width = 0, pf_height = 0, pf_fps = 25, pf_bitrateKbps = 4096,
      pf_gop = 25, pf_lowLatency = True, pf_name = ''main''\<rparr>"

record StreamStats =
  ss_framesIn :: u64
  ss_framesDropped :: u64
  ss_lastPtsMs :: int

definition zero_stats :: StreamStats where
  "zero_stats = \<lparr>ss_framesIn = 0, ss_framesDropped = 0, ss_lastPtsMs = 0\<rparr>"

record MainStream =
  ms_frames :: "EncodedFrame list"
  ms_capacity :: nat
  ms_profile :: StreamProfile
  ms_stats :: StreamStats
  ms_state :: StreamState

definition new_main_stream :: MainStream where
  "new_main_stream =
     \<lparr>ms_frames = [], ms_capacity = 30, ms_profile = default_profile, ms_stats = zero_stats,
      ms_state = StreamStopped\<rparr>"

definition codecFromString :: "string \<Rightarrow> MppCodec" where
  "codecFromString codec =
     (if codec = ''h265'' \<or> codec = ''H265'' \<or> codec = ''hevc'' \<or> codec = ''HEVC'' then CodecH265
      else if codec = ''mjpeg'' \<or> codec = ''MJPEG'' then CodecMjpeg
      else CodecH264)"

definition ms_init :: "MediaConfig \<Rightarrow> MainStream \<Rightarrow> unit Result \<times> MainStream" where
  "ms_init config s =
     (let p = (ms_profile s)\<lparr>pf_codec := codecFromString (md_codec config),
                pf_width := word_of_int (md_width config),
                pf_height := word_of_int (md_height config),
                pf_fps := word_of_int (md_fps config),
                pf_bitrateKbps := word_of_int (md_bitrate config),
                pf_gop := word_of_int (md_gop config),
                pf_lowLatency := md_lowLatency config\<rparr>;
          cap = (if pf_lowLatency p then 1 else if pf_fps p = 0 then 30 else unat (pf_fps p))
      in (Success, s\<lparr>ms_profile := p, ms_capacity := cap, ms_stats := zero_stats, ms_frames := [],
                     ms_state := StreamStopped\<rparr>))"

definition ms_start :: "MainStream \<Rightarrow> MainStream" where
  "ms_start s = s\<lparr>ms_state := StreamRunning\<rparr>"

definition ms_stop :: "MainStream \<Rightarrow> MainStream" where
  "ms_stop s = s\<lparr>ms_state := StreamStopped\<rparr>"

definition ms_clear :: "MainStream \<Rightarrow> MainStream" where
  "ms_clear s = s\<lparr>ms_frames := []\<rparr>"

text \<open>The loop of \<open>push\<close> that drops from the front while the queue is full. A capacity of zero would
  make it take the front of an empty queue; \<open>ms_init\<close> sets none.\<close>

function drop_full :: "MainStream \<Rightarrow> MainStream" where
  "drop_full s =
     (if ms_capacity s \<le> length (ms_frames s) \<and> ms_frames s \<noteq> []
      then drop_full (s\<lparr>ms_frames := tl (ms_frames s),
                        ms_stats := (ms_stats s)\<lparr>ss_framesDropped :=
                          ss_framesDropped (ms_stats s) + 1\<rparr>\<rparr>)
      else s)"
  by pat_completeness auto
termination
  by (relation "measure (\<lambda>s. length (ms_frames s))") auto

declare drop_full.simps [simp del]

definition ms_push :: "EncodedFrame \<Rightarrow> MainStream \<Rightarrow> unit Result \<times> MainStream" where
  "ms_push frame s =
     (if ms_state s \<noteq> StreamRunning
      then (Error MainStreamNotReady ''main stream is not running'', s)
      else
        let s = drop_full s;
            st = (ms_stats s)\<lparr>ss_lastPtsMs := ef_ptsMs frame,
                    ss_framesIn := ss_framesIn (ms_stats s) + 1\<rparr>
        in (Success, s\<lparr>ms_stats := st, ms_frames := ms_frames s @ [frame]\<rparr>))"

definition ms_waitFrame ::
  "int \<Rightarrow> bool \<Rightarrow> MainStream \<Rightarrow> (EncodedFrame option \<times> MainStream) option" where
  "ms_waitFrame timeoutMs expired s =
     (if ms_state s \<noteq> StreamRunning \<or> ms_frames s \<noteq> [] \<or> (0 \<le> timeoutMs \<and> expired)
      then Some
        (if ms_frames s = [] then (None, s)
         else
           let s = (if pf_lowLatency (ms_profile s) \<and> 1 < length (ms_frames s)
                    then s\<lparr>ms_frames := [last (ms_frames s)],
                           ms_stats := (ms_stats s)\<lparr>ss_framesDropped :=
                             ss_framesDropped (ms_stats s) + of_nat (length (ms_frames s) - 1)\<rparr>\<rparr>
                    else s)
           in (Some (hd (ms_frames s)), s\<lparr>ms_frames := tl (ms_frames s)\<rparr>))
      else None)"

definition ms_latestFrame :: "MainStream \<Rightarrow> EncodedFrame option" where
  "ms_latestFrame s = (if ms_frames s = [] then None else Some (last (ms_frames s)))"

definition ms_inv :: "MainStream \<Rightarrow> bool" where
  "ms_inv s \<longleftrightarrow> 0 < ms_capacity s \<and> length (ms_frames s) \<le> ms_capacity s"

lemma drop_full_id: "length (ms_frames s) < ms_capacity s \<Longrightarrow> drop_full s = s"
  by (subst drop_full.simps) simp

lemma drop_full_capacity: "ms_capacity (drop_full s) = ms_capacity s"
proof (induction s rule: drop_full.induct)
  case (1 s)
  then show ?case by (subst drop_full.simps) simp
qed

lemma drop_full_eq:
  "ms_inv s \<Longrightarrow> drop_full s =
     (if ms_capacity s \<le> length (ms_frames s)
      then s\<lparr>ms_frames := tl (ms_frames s),
             ms_stats := (ms_stats s)\<lparr>ss_framesDropped := ss_framesDropped (ms_stats s) + 1\<rparr>\<rparr>
      else s)"
  by (subst drop_full.simps) (auto simp: ms_inv_def drop_full_id)

lemma ms_push_running:
  assumes "ms_inv s" "ms_state s = StreamRunning"
  shows "fst (ms_push f s) = Success"
    "ms_frames (snd (ms_push f s)) = keep_last (ms_capacity s) (ms_frames s @ [f])"
    "ms_capacity (snd (ms_push f s)) = ms_capacity s"
    "ms_state (snd (ms_push f s)) = StreamRunning"
    "ms_profile (snd (ms_push f s)) = ms_profile s"
    "ms_inv (snd (ms_push f s))"
    "ss_framesIn (ms_stats (snd (ms_push f s))) = ss_framesIn (ms_stats s) + 1"
    "ss_framesDropped (ms_stats (snd (ms_push f s))) = ss_framesDropped (ms_stats s) +
       of_nat (Suc (length (ms_frames s)) - ms_capacity s)"
proof -
  from assms(1) have b: "0 < ms_capacity s" "length (ms_frames s) \<le> ms_capacity s"
    by (simp_all add: ms_inv_def)
  show f: "ms_frames (snd (ms_push f s)) = keep_last (ms_capacity s) (ms_frames s @ [f])"
    using assms drop_one_keep_last [OF b(2,1), of f]
    by (auto simp: ms_push_def drop_full_eq Let_def split: if_splits)
  show c: "ms_capacity (snd (ms_push f s)) = ms_capacity s"
    using assms by (simp add: ms_push_def drop_full_eq Let_def)
  show "ms_inv (snd (ms_push f s))"
    using b unfolding ms_inv_def c f by simp
  show "ss_framesDropped (ms_stats (snd (ms_push f s))) = ss_framesDropped (ms_stats s) +
       of_nat (Suc (length (ms_frames s)) - ms_capacity s)"
    using assms b by (auto simp: ms_push_def drop_full_eq Let_def)
qed (use assms in \<open>simp_all add: ms_push_def drop_full_eq Let_def\<close>)

lemma ms_push_capacity: "ms_capacity (snd (ms_push f s)) = ms_capacity s"
  by (simp add: ms_push_def drop_full_capacity Let_def)

interpretation ms: leaky_queue "\<lambda>f s. snd (ms_push f s)" ms_frames ms_capacity
  "\<lambda>s. ss_framesDropped (ms_stats s)" "\<lambda>s. ms_inv s \<and> ms_state s = StreamRunning"
proof
  fix s f assume a: "ms_inv s \<and> ms_state s = StreamRunning"
  show "0 < ms_capacity s \<and> length (ms_frames s) \<le> ms_capacity s"
    using a by (simp add: ms_inv_def)
qed (simp_all add: ms_push_running ms_push_capacity)

lemma ms_inv_preserved:
  "ms_inv new_main_stream"
  "ms_inv (snd (ms_init config s))"
  "ms_inv s \<Longrightarrow> ms_inv (ms_start s)"
  "ms_inv s \<Longrightarrow> ms_inv (ms_stop s)"
  "ms_inv s \<Longrightarrow> ms_inv (ms_clear s)"
  "ms_inv s \<Longrightarrow> ms_inv (snd (ms_push f s))"
  "ms_inv s \<Longrightarrow> ms_waitFrame t e s = Some (r, s') \<Longrightarrow> ms_inv s'"
proof -
  show "ms_inv (snd (ms_init config s))"
    by (simp add: ms_inv_def ms_init_def Let_def unat_gt_0)
  show "ms_inv s \<Longrightarrow> ms_inv (snd (ms_push f s))"
    using ms_push_running(6) by (cases "ms_state s = StreamRunning") (auto simp: ms_push_def)
qed (auto simp: ms_inv_def new_main_stream_def ms_start_def ms_stop_def ms_clear_def
    ms_waitFrame_def Let_def split: if_splits)

text \<open>
  A running stream in low-latency mode hands out the newest frame pushed, and nothing is
  left behind it: a consumer that falls behind never works through old frames.
\<close>

theorem low_latency_newest:
  assumes "ms_inv s" and "ms_state s = StreamRunning" and "pf_lowLatency (ms_profile s)"
    and "fs \<noteq> []"
  shows "\<exists>s'. ms_waitFrame t e (fold (\<lambda>f s. snd (ms_push f s)) fs s) = Some (Some (last fs), s') \<and>
    ms_frames s' = []"
proof -
  let ?s = "fold (\<lambda>f s. snd (ms_push f s)) fs s"
  have acc: "ms_inv s \<and> ms_state s = StreamRunning" using assms by simp
  have st: "ms_inv ?s" "ms_state ?s = StreamRunning"
    using ms.fold_accepting [OF acc, of fs] by simp_all
  have l: "last (ms_frames ?s) = last fs"
    using ms.newest_survives [OF acc assms(4)] .
  have prof: "pf_lowLatency (ms_profile (fold (\<lambda>f s. snd (ms_push f s)) fs s))"
    if "ms_inv s" "ms_state s = StreamRunning" "pf_lowLatency (ms_profile s)" for fs s
    using that by (induction fs arbitrary: s) (simp_all add: ms_push_running)
  have "0 < length (ms_frames ?s)"
    using ms.fold_push_frames [OF acc, of fs] assms(1,4) by (simp add: ms_inv_def)
  then have ne: "ms_frames ?s \<noteq> []" by simp
  show ?thesis
  proof (cases "1 < length (ms_frames ?s)")
    case True
    with prof [OF assms(1-3), of fs] ne l st show ?thesis
      by (auto simp: ms_waitFrame_def Let_def)
  next
    case False
    with ne obtain f where "ms_frames ?s = [f]"
      by (cases "ms_frames ?s") auto
    with l st show ?thesis by (auto simp: ms_waitFrame_def Let_def)
  qed
qed

definition low_latency_stream :: MainStream where
  "low_latency_stream = ms_start (snd (ms_init default_media_config new_main_stream))"

definition numbered_packet :: "nat \<Rightarrow> EncodedFrame" where
  "numbered_packet n = default_encoded_frame\<lparr>ef_sequence := of_nat n\<rparr>"

theorem low_latency_newest_witness:
  "\<exists>s'. ms_waitFrame 0 False
      (fold (\<lambda>f s. snd (ms_push f s)) (map numbered_packet [1, 2, 3]) low_latency_stream)
      = Some (Some (numbered_packet 3), s') \<and> ms_frames s' = []"
proof -
  have "ms_inv low_latency_stream"
    by (simp add: low_latency_stream_def ms_inv_preserved)
  moreover have "ms_state low_latency_stream = StreamRunning"
    "pf_lowLatency (ms_profile low_latency_stream)"
    by (simp_all add: low_latency_stream_def ms_start_def ms_init_def default_media_config_def Let_def)
  ultimately show ?thesis
    using low_latency_newest [of low_latency_stream "map numbered_packet [1, 2, 3]" 0 False]
    by simp
qed

text \<open>Runs of a stream: the frames a run accepts, the frames it hands out, and the stream after it. A
  wait that would block is skipped.\<close>

datatype ms_op = OpPush EncodedFrame | OpWait int bool | OpClear | OpStart | OpStop

fun ms_do :: "ms_op \<Rightarrow> MainStream \<Rightarrow> EncodedFrame list \<times> EncodedFrame list \<times> MainStream" where
  "ms_do (OpPush f) s =
     (case ms_push f s of (r, s') \<Rightarrow> (if result_ok r then [f] else [], [], s'))"
| "ms_do (OpWait t e) s =
     (case ms_waitFrame t e s of
        None \<Rightarrow> ([], [], s)
      | Some (r, s') \<Rightarrow> ([], (case r of None \<Rightarrow> [] | Some f \<Rightarrow> [f]), s'))"
| "ms_do OpClear s = ([], [], ms_clear s)"
| "ms_do OpStart s = ([], [], ms_start s)"
| "ms_do OpStop s = ([], [], ms_stop s)"

fun ms_run :: "ms_op list \<Rightarrow> MainStream \<Rightarrow> EncodedFrame list \<times> EncodedFrame list \<times> MainStream" where
  "ms_run [] s = ([], [], s)"
| "ms_run (p # ps) s =
     (case ms_do p s of
        (a, d, s1) \<Rightarrow> (case ms_run ps s1 of (a', d', s') \<Rightarrow> (a @ a', d @ d', s')))"

lemma subseq_keep_last: "subseq (keep_last n xs) xs"
  unfolding keep_last_def by (rule suffix_imp_subseq) (rule suffix_drop)

lemma ms_do_step:
  assumes "ms_inv s" "ms_do p s = (a, d, s')"
  shows "ms_inv s' \<and> subseq (d @ ms_frames s') (ms_frames s @ a)"
proof (cases p)
  case (OpPush f)
  show ?thesis
  proof (cases "ms_state s = StreamRunning")
    case True
    with OpPush assms ms_push_running [OF assms(1) True, of f] show ?thesis
      by (auto simp: split_beta subseq_keep_last)
  next
    case False
    with OpPush assms show ?thesis by (auto simp: ms_push_def)
  qed
next
  case (OpWait t e)
  have w: "subseq ((case r of None \<Rightarrow> [] | Some f \<Rightarrow> [f]) @ ms_frames s1) (ms_frames s)"
    if "ms_waitFrame t e s = Some (r, s1)" for r s1
  proof (cases "ms_frames s = []")
    case True
    with that show ?thesis by (auto simp: ms_waitFrame_def split: if_splits)
  next
    case False
    have "subseq [last (ms_frames s)] (ms_frames s)"
      using False by (metis append_butlast_last_id list_emb_append2 subseq_order.refl)
    with False that show ?thesis by (auto simp: ms_waitFrame_def Let_def split: if_splits)
  qed
  with OpWait assms ms_inv_preserved(7) [OF assms(1)] show ?thesis
    by (auto split: option.splits)
qed (use assms in \<open>auto simp: ms_inv_preserved ms_clear_def ms_start_def ms_stop_def ms_inv_def\<close>)

text \<open>
  Whatever the interleaving of pushes, waits, clears, starts and stops, the frames a stream
  hands out, followed by those it still holds, are a subsequence of the frames it accepted: frames may
  be dropped, but none is repeated, invented or handed out of order.
\<close>

theorem stream_in_order:
  assumes "ms_inv s" and "ms_run ops s = (acc, del, s')"
  shows "subseq (del @ ms_frames s') (ms_frames s @ acc)"
  using assms
proof (induction ops arbitrary: s acc del)
  case Nil
  then show ?case by simp
next
  case (Cons p ps)
  from Cons.prems(2) obtain a d s1 a' d' where 1: "ms_do p s = (a, d, s1)"
    and 2: "ms_run ps s1 = (a', d', s')" and r: "acc = a @ a'" "del = d @ d'"
    by (auto split: prod.splits)
  from ms_do_step [OF Cons.prems(1) 1] have inv: "ms_inv s1"
    and st: "subseq (d @ ms_frames s1) (ms_frames s @ a)" by simp_all
  have "subseq (d @ d' @ ms_frames s') (d @ ms_frames s1 @ a')"
    using Cons.IH [OF inv 2] by (simp add: subseq_append')
  also have "subseq (d @ ms_frames s1 @ a') (ms_frames s @ a @ a')"
    using list_emb_append_mono [OF st, of a' a'] by simp
  finally show ?case by (simp add: r)
qed

theorem stream_in_order_witness:
  "\<exists>acc del s'. ms_run [OpPush (numbered_packet 1), OpPush (numbered_packet 2), OpWait 5 True,
      OpClear, OpPush (numbered_packet 3)] low_latency_stream = (acc, del, s') \<and>
    subseq (del @ ms_frames s') (ms_frames low_latency_stream @ acc)"
proof -
  have "ms_inv low_latency_stream"
    by (simp add: low_latency_stream_def ms_inv_preserved)
  then show ?thesis by (metis prod_cases3 stream_in_order)
qed

subsection \<open>FrameSync.cpp\<close>

record FrameSync =
  fs_maxDeltaMs :: int
  fs_capacity :: nat
  fs_visible :: "VideoFrame list"
  fs_composite :: "VideoFrame list"

definition new_frame_sync :: "int \<Rightarrow> nat \<Rightarrow> FrameSync" where
  "new_frame_sync maxDeltaMs capacity =
     \<lparr>fs_maxDeltaMs = maxDeltaMs, fs_capacity = (if capacity = 0 then 1 else capacity),
      fs_visible = [], fs_composite = []\<rparr>"

fun fs_trim :: "nat \<Rightarrow> VideoFrame list \<Rightarrow> VideoFrame list" where
  "fs_trim c [] = []"
| "fs_trim c (f # fs) = (if c < length (f # fs) then fs_trim c fs else f # fs)"

definition pushVisible :: "VideoFrame \<Rightarrow> FrameSync \<Rightarrow> FrameSync" where
  "pushVisible frame s = s\<lparr>fs_visible := fs_trim (fs_capacity s) (fs_visible s @ [frame])\<rparr>"

definition pushComposite :: "VideoFrame \<Rightarrow> FrameSync \<Rightarrow> FrameSync" where
  "pushComposite frame s = s\<lparr>fs_composite := fs_trim (fs_capacity s) (fs_composite s @ [frame])\<rparr>"

definition delta :: "VideoFrame \<Rightarrow> VideoFrame \<Rightarrow> int" where
  "delta v c = \<bar>vf_ptsMs v - vf_ptsMs c\<bar>"

text \<open>The search for the closest frame, over the rest of the queue from index \<open>i\<close> on.\<close>

fun scan_best :: "VideoFrame \<Rightarrow> VideoFrame list \<Rightarrow> nat \<Rightarrow> nat \<Rightarrow> int \<Rightarrow> nat \<times> int" where
  "scan_best v [] i bestIndex bestDelta = (bestIndex, bestDelta)"
| "scan_best v (c # cs) i bestIndex bestDelta =
     (if delta v c < bestDelta then scan_best v cs (Suc i) i (delta v c)
      else scan_best v cs (Suc i) bestIndex bestDelta)"

definition trySync :: "FrameSync \<Rightarrow> SyncedFrameGroup option \<times> FrameSync" where
  "trySync s =
     (if fs_visible s = [] \<or> fs_composite s = [] then (None, s)
      else
        let v = hd (fs_visible s); c0 = hd (fs_composite s);
            (bestIndex, bestDelta) = scan_best v (tl (fs_composite s)) 1 0 (delta v c0)
        in if fs_maxDeltaMs s < bestDelta
           then (None,
                 if vf_ptsMs v < vf_ptsMs c0 then s\<lparr>fs_visible := tl (fs_visible s)\<rparr>
                 else s\<lparr>fs_composite := tl (fs_composite s)\<rparr>)
           else (Some \<lparr>sg_visible = v, sg_composite = fs_composite s ! bestIndex,
                       sg_deltaMs = bestDelta\<rparr>,
                 s\<lparr>fs_visible := tl (fs_visible s),
                   fs_composite := drop (bestIndex + 1) (fs_composite s)\<rparr>))"

definition fs_clear :: "FrameSync \<Rightarrow> FrameSync" where
  "fs_clear s = s\<lparr>fs_visible := [], fs_composite := []\<rparr>"

lemma fs_trim_eq: "fs_trim c fs = keep_last c fs"
  by (induction fs) (auto simp: keep_last_def Suc_diff_le)

text \<open>The scan finds the first index of least distance.\<close>

definition closest :: "VideoFrame \<Rightarrow> VideoFrame list \<Rightarrow> nat \<Rightarrow> bool" where
  "closest v cs i \<longleftrightarrow> i < length cs \<and> (\<forall>j < length cs. delta v (cs ! i) \<le> delta v (cs ! j)) \<and>
     (\<forall>j < i. delta v (cs ! i) < delta v (cs ! j))"

lemma scan_best_closest:
  assumes "closest v pre b"
  shows "\<exists>i. scan_best v cs (length pre) b (delta v (pre ! b)) = (i, delta v ((pre @ cs) ! i)) \<and>
    closest v (pre @ cs) i"
  using assms
proof (induction cs arbitrary: pre b)
  case Nil
  then show ?case by simp
next
  case (Cons c cs)
  show ?case
  proof (cases "delta v c < delta v (pre ! b)")
    case True
    have "closest v (pre @ [c]) (length pre)"
      using Cons.prems True by (fastforce simp: closest_def nth_append less_Suc_eq)
    from Cons.IH [OF this] True show ?thesis by simp
  next
    case False
    have "closest v (pre @ [c]) b"
      using Cons.prems False by (auto simp: closest_def nth_append less_Suc_eq)
    from Cons.IH [OF this] False Cons.prems show ?thesis by (simp add: closest_def nth_append)
  qed
qed

lemma trySync_cases:
  assumes "fs_visible s = v # vs" "fs_composite s = c # cs"
  obtains i where "closest v (c # cs) i"
    "trySync s =
      (if fs_maxDeltaMs s < delta v ((c # cs) ! i)
       then (None, if vf_ptsMs v < vf_ptsMs c then s\<lparr>fs_visible := vs\<rparr> else s\<lparr>fs_composite := cs\<rparr>)
       else (Some \<lparr>sg_visible = v, sg_composite = (c # cs) ! i, sg_deltaMs = delta v ((c # cs) ! i)\<rparr>,
             s\<lparr>fs_visible := vs, fs_composite := drop (i + 1) (c # cs)\<rparr>))"
proof -
  have "closest v [c] 0" by (simp add: closest_def)
  from scan_best_closest [OF this, of cs] obtain i where
    "scan_best v cs 1 0 (delta v c) = (i, delta v ((c # cs) ! i))" "closest v (c # cs) i"
    by auto
  with assms show ?thesis using that [of i] by (simp add: trySync_def Let_def)
qed

text \<open>
  Claim C4. A pair the synchroniser forms is the oldest visible frame with the composite frame
  closest to it in time, the earliest of these, within the allowed distance; the pair and the
  composite frames before it leave the queues, and nothing else does.
\<close>

theorem trySync_pairs_closest:
  assumes "trySync s = (Some g, s')"
  shows "\<exists>i. closest (hd (fs_visible s)) (fs_composite s) i \<and>
    fs_visible s = sg_visible g # fs_visible s' \<and> sg_composite g = fs_composite s ! i \<and>
    sg_deltaMs g = delta (sg_visible g) (sg_composite g) \<and> sg_deltaMs g \<le> fs_maxDeltaMs s \<and>
    fs_composite s = take i (fs_composite s) @ sg_composite g # fs_composite s'"
proof -
  from assms obtain v vs c cs where q: "fs_visible s = v # vs" "fs_composite s = c # cs"
    by (cases "fs_visible s"; cases "fs_composite s") (auto simp: trySync_def)
  from trySync_cases [OF q] obtain i where i: "closest v (c # cs) i"
    "trySync s =
      (if fs_maxDeltaMs s < delta v ((c # cs) ! i)
       then (None, if vf_ptsMs v < vf_ptsMs c then s\<lparr>fs_visible := vs\<rparr> else s\<lparr>fs_composite := cs\<rparr>)
       else (Some \<lparr>sg_visible = v, sg_composite = (c # cs) ! i, sg_deltaMs = delta v ((c # cs) ! i)\<rparr>,
             s\<lparr>fs_visible := vs, fs_composite := drop (i + 1) (c # cs)\<rparr>))" .
  have "c # cs = take i (c # cs) @ (c # cs) ! i # drop (i + 1) (c # cs)"
    using i(1) id_take_nth_drop [of i "c # cs"] by (simp add: closest_def)
  with i assms q show ?thesis by (intro exI [of _ i]) (auto split: if_splits)
qed

definition at_ms :: "int \<Rightarrow> VideoFrame" where
  "at_ms t = default_video_frame\<lparr>vf_ptsMs := t\<rparr>"

definition sync_of :: "int list \<Rightarrow> int list \<Rightarrow> FrameSync" where
  "sync_of vs cs = fold (\<lambda>t. pushComposite (at_ms t)) cs
     (fold (\<lambda>t. pushVisible (at_ms t)) vs (new_frame_sync 40 8))"

lemma sync_of_eval:
  "sync_of [100, 140] [30, 90, 115] =
     \<lparr>fs_maxDeltaMs = 40, fs_capacity = 8, fs_visible = map at_ms [100, 140],
      fs_composite = map at_ms [30, 90, 115]\<rparr>"
  "sync_of [100] [10, 50] =
     \<lparr>fs_maxDeltaMs = 40, fs_capacity = 8, fs_visible = [at_ms 100],
      fs_composite = map at_ms [10, 50]\<rparr>"
  by (simp_all add: sync_of_def new_frame_sync_def pushComposite_def pushVisible_def)

theorem trySync_pairs_closest_witness:
  "sg_composite (the (fst (trySync (sync_of [100, 140] [30, 90, 115])))) = at_ms 90"
proof -
  have "trySync (sync_of [100, 140] [30, 90, 115]) =
    (Some \<lparr>sg_visible = at_ms 100, sg_composite = at_ms 90, sg_deltaMs = 10\<rparr>,
     \<lparr>fs_maxDeltaMs = 40, fs_capacity = 8, fs_visible = [at_ms 140], fs_composite = [at_ms 115]\<rparr>)"
    by (simp add: sync_of_eval trySync_def delta_def at_ms_def Let_def)
  from trySync_pairs_closest [OF this] this show ?thesis by auto
qed

text \<open>
  When no pair can be formed exactly one frame is discarded, and it could never have been
  paired: it is further than the allowed distance from every frame of the other camera that is not
  older than the other queue's head.
\<close>

theorem trySync_discards_hopeless:
  assumes "trySync s = (None, s')" and "fs_visible s \<noteq> []" and "fs_composite s \<noteq> []"
  shows
    "(\<exists>v. fs_visible s = v # fs_visible s' \<and> fs_composite s' = fs_composite s \<and>
       (\<forall>c. vf_ptsMs (hd (fs_composite s)) \<le> vf_ptsMs c \<longrightarrow> fs_maxDeltaMs s < delta v c)) \<or>
     (\<exists>c. fs_composite s = c # fs_composite s' \<and> fs_visible s' = fs_visible s \<and>
       (\<forall>v. vf_ptsMs (hd (fs_visible s)) \<le> vf_ptsMs v \<longrightarrow> fs_maxDeltaMs s < delta v c))"
proof -
  from assms obtain v vs c cs where q: "fs_visible s = v # vs" "fs_composite s = c # cs"
    by (cases "fs_visible s"; cases "fs_composite s") auto
  from trySync_cases [OF q] obtain i where i: "closest v (c # cs) i"
    "trySync s =
      (if fs_maxDeltaMs s < delta v ((c # cs) ! i)
       then (None, if vf_ptsMs v < vf_ptsMs c then s\<lparr>fs_visible := vs\<rparr> else s\<lparr>fs_composite := cs\<rparr>)
       else (Some \<lparr>sg_visible = v, sg_composite = (c # cs) ! i, sg_deltaMs = delta v ((c # cs) ! i)\<rparr>,
             s\<lparr>fs_visible := vs, fs_composite := drop (i + 1) (c # cs)\<rparr>))" .
  from i assms(1) have far: "fs_maxDeltaMs s < delta v ((c # cs) ! i)"
    and s': "s' = (if vf_ptsMs v < vf_ptsMs c then s\<lparr>fs_visible := vs\<rparr> else s\<lparr>fs_composite := cs\<rparr>)"
    by (auto split: if_splits)
  have "delta v ((c # cs) ! i) \<le> delta v c"
    using i(1) unfolding closest_def by (metis length_greater_0_conv list.discI nth_Cons_0)
  with far have d: "fs_maxDeltaMs s < delta v c" by simp
  show ?thesis
  proof (cases "vf_ptsMs v < vf_ptsMs c")
    case True
    with d q s' show ?thesis by (auto simp: delta_def)
  next
    case False
    with d q s' show ?thesis by (auto simp: delta_def)
  qed
qed

theorem trySync_discards_hopeless_witness:
  "\<exists>s'. trySync (sync_of [100] [10, 50]) = (None, s') \<and>
     fs_visible s' = [at_ms 100] \<and> 40 < delta (at_ms 100) (at_ms 10)"
proof -
  let ?s' = "\<lparr>fs_maxDeltaMs = 40, fs_capacity = 8, fs_visible = [at_ms 100], fs_composite = [at_ms 50]\<rparr>"
  have r: "trySync (sync_of [100] [10, 50]) = (None, ?s')"
    by (simp add: sync_of_eval trySync_def delta_def at_ms_def Let_def)
  from trySync_discards_hopeless [OF r] r show ?thesis
    by (auto simp: sync_of_eval)
qed

text \<open>Every call with both queues filled takes a frame out, so a loop of calls ends.\<close>

lemma trySync_shrinks:
  assumes "fs_visible s \<noteq> []" "fs_composite s \<noteq> []"
  shows "length (fs_visible (snd (trySync s))) + length (fs_composite (snd (trySync s)))
    < length (fs_visible s) + length (fs_composite s)"
  using assms
  by (cases "fs_visible s"; cases "fs_composite s")
     (auto simp: trySync_def Let_def split: prod.splits)

lemma fs_bounded:
  "length (fs_visible (pushVisible f s)) \<le> fs_capacity s"
  "length (fs_composite (pushComposite f s)) \<le> fs_capacity s"
  by (simp_all add: pushVisible_def pushComposite_def fs_trim_eq)

end
