(* ===== verification/Tri_WorkMode.thy ===== *)
theory Tri_WorkMode
  imports Tri_EnumText
begin

text \<open>
  The work modes of the camera (mode/WorkMode.cpp) and the stages of a mode switch
  (mode/ModeTypes.cpp): names, configuration keys, the parser of mode names and the predicates that
  say which cameras a mode needs.
\<close>

datatype WorkMode =
  Unknown | VisibleOnly | LowlightOnly | ThermalOnly | LowlightThermalComposite
  | VisibleLowlightFusion | VisibleThermalFusion | VisibleCompositeFusion

fun toString_WorkMode :: "WorkMode \<Rightarrow> string" where
  "toString_WorkMode WorkMode.VisibleOnly = ''VISIBLE_ONLY''"
| "toString_WorkMode WorkMode.LowlightOnly = ''LOWLIGHT_ONLY''"
| "toString_WorkMode WorkMode.ThermalOnly = ''THERMAL_ONLY''"
| "toString_WorkMode WorkMode.LowlightThermalComposite = ''LOWLIGHT_THERMAL_COMPOSITE''"
| "toString_WorkMode WorkMode.VisibleLowlightFusion = ''VISIBLE_LOWLIGHT_FUSION''"
| "toString_WorkMode WorkMode.VisibleThermalFusion = ''VISIBLE_THERMAL_FUSION''"
| "toString_WorkMode WorkMode.VisibleCompositeFusion = ''VISIBLE_COMPOSITE_FUSION''"
| "toString_WorkMode WorkMode.Unknown = ''UNKNOWN''"

fun configKey :: "WorkMode \<Rightarrow> string" where
  "configKey WorkMode.VisibleOnly = ''visible_only''"
| "configKey WorkMode.LowlightOnly = ''lowlight_only''"
| "configKey WorkMode.ThermalOnly = ''thermal_only''"
| "configKey WorkMode.LowlightThermalComposite = ''lowlight_thermal_composite''"
| "configKey WorkMode.VisibleLowlightFusion = ''visible_lowlight_fusion''"
| "configKey WorkMode.VisibleThermalFusion = ''visible_thermal_fusion''"
| "configKey WorkMode.VisibleCompositeFusion = ''visible_composite_fusion''"
| "configKey WorkMode.Unknown = ''unknown''"

definition workModeFromString :: "string \<Rightarrow> WorkMode" where
  "workModeFromString text =
     (let s = normalize text in
      if s = ''VISIBLEONLY'' \<or> s = ''VISIBLE'' then WorkMode.VisibleOnly
      else if s = ''LOWLIGHTONLY'' \<or> s = ''LOWLIGHT'' \<or> s = ''MICROLIGHT''
      then WorkMode.LowlightOnly
      else if s = ''THERMALONLY'' \<or> s = ''THERMAL'' \<or> s = ''INFRARED'' then WorkMode.ThermalOnly
      else if s = ''LOWLIGHTTHERMALCOMPOSITE'' \<or> s = ''LOWLIGHTTHERMAL'' \<or>
              s = ''COMPOSITE'' \<or> s = ''FUSION''
      then WorkMode.LowlightThermalComposite
      else if s = ''VISIBLELOWLIGHTFUSION'' \<or> s = ''VISIBLELOWLIGHT''
      then WorkMode.VisibleLowlightFusion
      else if s = ''VISIBLETHERMALFUSION'' \<or> s = ''VISIBLETHERMAL''
      then WorkMode.VisibleThermalFusion
      else if s = ''VISIBLECOMPOSITEFUSION'' \<or> s = ''VISIBLECOMPOSITE'' \<or> s = ''TRIFUSION''
      then WorkMode.VisibleCompositeFusion
      else WorkMode.Unknown)"

definition requiresVisibleCamera :: "WorkMode \<Rightarrow> bool" where
  "requiresVisibleCamera mode \<longleftrightarrow>
     mode = WorkMode.VisibleOnly \<or> mode = WorkMode.VisibleLowlightFusion \<or>
     mode = WorkMode.VisibleThermalFusion \<or> mode = WorkMode.VisibleCompositeFusion"

definition requiresCompositeCamera :: "WorkMode \<Rightarrow> bool" where
  "requiresCompositeCamera mode \<longleftrightarrow>
     mode = WorkMode.LowlightOnly \<or> mode = WorkMode.ThermalOnly \<or>
     mode = WorkMode.LowlightThermalComposite \<or> mode = WorkMode.VisibleLowlightFusion \<or>
     mode = WorkMode.VisibleThermalFusion \<or> mode = WorkMode.VisibleCompositeFusion"

definition requiresCompositeSensorSwitch :: "WorkMode \<Rightarrow> bool" where
  "requiresCompositeSensorSwitch mode \<longleftrightarrow> requiresCompositeCamera mode"

definition isFusionMode :: "WorkMode \<Rightarrow> bool" where
  "isFusionMode mode \<longleftrightarrow>
     mode = WorkMode.VisibleLowlightFusion \<or> mode = WorkMode.VisibleThermalFusion \<or>
     mode = WorkMode.VisibleCompositeFusion"

datatype ModeSwitchStage =
  Idle | Planning | StoppingPipeline | SwitchingCompositeSensor | StartingPipeline | Running | Failed

fun toString_Stage :: "ModeSwitchStage \<Rightarrow> string" where
  "toString_Stage Idle = ''IDLE''"
| "toString_Stage Planning = ''PLANNING''"
| "toString_Stage StoppingPipeline = ''STOPPING_PIPELINE''"
| "toString_Stage SwitchingCompositeSensor = ''SWITCHING_COMPOSITE_SENSOR''"
| "toString_Stage StartingPipeline = ''STARTING_PIPELINE''"
| "toString_Stage Running = ''RUNNING''"
| "toString_Stage Failed = ''FAILED''"

subsection \<open>Names\<close>

interpretation work_mode_text: enum_text toString_WorkMode workModeFromString
proof
  fix m show "workModeFromString (toString_WorkMode m) = m"
    by (cases m) (simp_all add: workModeFromString_def normalize_eval)
next
  fix s show "workModeFromString (normalize s) = workModeFromString s"
    by (simp add: workModeFromString_def)
qed

text \<open>The configuration key names the same mode: it is the printed name in lower case.\<close>

lemma configKey_parse: "workModeFromString (configKey m) = m"
  by (rule work_mode_text.of_text_spelling)
     (cases m; simp only: configKey.simps toString_WorkMode.simps; code_simp)

lemma configKey_inject: "configKey a = configKey b \<longleftrightarrow> a = b"
  by (metis configKey_parse)

lemma fusion_needs_both:
  "isFusionMode m \<longleftrightarrow> requiresVisibleCamera m \<and> requiresCompositeCamera m"
  by (cases m) (simp_all add: isFusionMode_def requiresVisibleCamera_def requiresCompositeCamera_def)

lemma mode_needs_camera:
  "m \<noteq> WorkMode.Unknown \<longleftrightarrow> requiresVisibleCamera m \<or> requiresCompositeCamera m"
  by (cases m) (simp_all add: requiresVisibleCamera_def requiresCompositeCamera_def)

text \<open>
  A work mode is read back from its name and from its configuration key, in any letter case
  and with any separators put around the name; the parser looks at nothing else.
\<close>

theorem work_mode_names:
  "workModeFromString (toString_WorkMode m) = m \<and> workModeFromString (configKey m) = m \<and>
   workModeFromString (map toupper s) = workModeFromString s \<and>
   workModeFromString (filter (\<lambda>c. \<not> is_separator c) s) = workModeFromString s \<and>
   workModeFromString ('' - '' @ toString_WorkMode m @ ''_.'') = m"
proof -
  have "workModeFromString ('' - '' @ toString_WorkMode m @ ''_.'') = m"
    by (rule work_mode_text.of_text_surround) (simp add: is_separator_def isspace_def chr_code_def)
  then show ?thesis
    by (simp only: work_mode_text.of_to configKey_parse work_mode_text.of_text_case
        work_mode_text.of_text_separators simp_thms)
qed

end
