(* ===== verification/Tri_Fusion.thy ===== *)
theory Tri_Fusion
  imports Tri_Frames
begin

text \<open>
  The fusion layer (algorithm): fusion modes, calibration and alignment, the three fusion algorithms
  and the engine that holds them. The algorithms' classes differ in their mode and name only, so one
  record with the mode stands for the three. The matrix and the sizes of a calibration profile, which
  only the warp receives and ignores, are left out.
\<close>

subsection \<open>FusionTypes.h\<close>

datatype FusionMode = Unknown | VisibleLowlight | VisibleThermal | VisibleComposite

datatype FusionQualityPreset = LowLatency | Balanced | Quality

record FusionConfig =
  fc_enabled :: bool
  fc_enableRegistration :: bool
  fc_quality :: FusionQualityPreset
  fc_calibrationFile :: string
  fc_params :: "string \<rightharpoonup> string"

definition default_fusion_config :: FusionConfig where
  "default_fusion_config =
     \<lparr>fc_enabled = True, fc_enableRegistration = True, fc_quality = LowLatency,
      fc_calibrationFile = [], fc_params = Map.empty\<rparr>"

record FusionStats =
  fst_framesProcessed :: u64
  fst_framesDropped :: u64
  fst_errors :: u64
  fst_lastProcessCostMs :: int
  fst_lastError :: string

definition zero_fusion_stats :: FusionStats where
  "zero_fusion_stats =
     \<lparr>fst_framesProcessed = 0, fst_framesDropped = 0, fst_errors = 0, fst_lastProcessCostMs = 0,
      fst_lastError = []\<rparr>"

fun toString_FusionMode :: "FusionMode \<Rightarrow> string" where
  "toString_FusionMode VisibleLowlight = ''VISIBLE_LOWLIGHT_FUSION''"
| "toString_FusionMode VisibleThermal = ''VISIBLE_THERMAL_FUSION''"
| "toString_FusionMode VisibleComposite = ''VISIBLE_COMPOSITE_FUSION''"
| "toString_FusionMode FusionMode.Unknown = ''UNKNOWN''"

definition fusionModeFromString :: "string \<Rightarrow> FusionMode" where
  "fusionModeFromString text =
     (let s = normalize text in
      if s = ''VISIBLELOWLIGHTFUSION'' \<or> s = ''VISIBLELOWLIGHT'' then VisibleLowlight
      else if s = ''VISIBLETHERMALFUSION'' \<or> s = ''VISIBLETHERMAL'' then VisibleThermal
      else if s = ''VISIBLECOMPOSITEFUSION'' \<or> s = ''VISIBLECOMPOSITE'' \<or> s = ''TRIFUSION''
      then VisibleComposite
      else FusionMode.Unknown)"

interpretation fusion_mode_text: enum_text toString_FusionMode fusionModeFromString
proof
  fix m show "fusionModeFromString (toString_FusionMode m) = m"
    by (cases m) (simp_all add: fusionModeFromString_def normalize_eval)
next
  fix s show "fusionModeFromString (normalize s) = fusionModeFromString s"
    by (simp add: fusionModeFromString_def)
qed

subsection \<open>Registration\<close>

record CalibrationProfile =
  cal_name :: string
  cal_valid :: bool

definition default_calibration :: CalibrationProfile where
  "default_calibration = \<lparr>cal_name = ''default'', cal_valid = False\<rparr>"

definition calibration_load :: "string \<Rightarrow> unit Result \<times> CalibrationProfile" where
  "calibration_load path =
     (if path = [] then (Success, default_calibration)
      else (Error Unsupported (''calibration file parsing is not implemented yet: '' @ path),
            \<lparr>cal_name = path, cal_valid = False\<rparr>))"

definition calibration_setProfile ::
  "CalibrationProfile \<Rightarrow> CalibrationProfile \<Rightarrow> unit Result \<times> CalibrationProfile" where
  "calibration_setProfile profile old =
     (if \<not> cal_valid profile then (Error InvalidArgument ''calibration profile is invalid'', old)
      else (Success, profile))"

record ImageAligner =
  al_profile :: CalibrationProfile
  al_initialized :: bool

definition new_aligner :: ImageAligner where
  "new_aligner = \<lparr>al_profile = default_calibration, al_initialized = False\<rparr>"

definition aligner_init :: "CalibrationProfile \<Rightarrow> ImageAligner \<Rightarrow> unit Result \<times> ImageAligner" where
  "aligner_init profile a =
     (if \<not> cal_valid profile then (Success, a\<lparr>al_initialized := False\<rparr>)
      else (Success, \<lparr>al_profile = profile, al_initialized = True\<rparr>))"

definition warp :: "VideoFrame \<Rightarrow> VideoFrame Result" where
  "warp frame = Inr frame"

definition align :: "ImageAligner \<Rightarrow> SyncedFrameGroup \<Rightarrow> SyncedFrameGroup Result" where
  "align a g =
     (if \<not> al_initialized a then Inr g
      else (case warp (sg_visible g) of
              Inl e \<Rightarrow> rewrap e
            | Inr warped \<Rightarrow> Inr (g\<lparr>sg_visible := warped\<rparr>)))"

subsection \<open>The algorithms\<close>

record FusionAlgorithm =
  fa_mode :: FusionMode
  fa_config :: FusionConfig
  fa_calibration :: CalibrationProfile
  fa_aligner :: ImageAligner
  fa_runtimeParams :: "string \<rightharpoonup> string"
  fa_initialized :: bool

definition new_algorithm :: "FusionMode \<Rightarrow> FusionAlgorithm" where
  "new_algorithm mode =
     \<lparr>fa_mode = mode, fa_config = default_fusion_config, fa_calibration = default_calibration,
      fa_aligner = new_aligner, fa_runtimeParams = Map.empty, fa_initialized = False\<rparr>"

definition newVisibleLowlightFusion :: FusionAlgorithm where
  "newVisibleLowlightFusion = new_algorithm VisibleLowlight"

definition newVisibleThermalFusion :: FusionAlgorithm where
  "newVisibleThermalFusion = new_algorithm VisibleThermal"

definition newVisibleCompositeFusion :: FusionAlgorithm where
  "newVisibleCompositeFusion = new_algorithm VisibleComposite"

fun algorithm_name :: "FusionMode \<Rightarrow> string" where
  "algorithm_name VisibleLowlight = ''VisibleLowlightFusion''"
| "algorithm_name VisibleThermal = ''VisibleThermalFusion''"
| "algorithm_name VisibleComposite = ''VisibleCompositeFusion''"
| "algorithm_name FusionMode.Unknown = []"

definition alg_init :: "FusionConfig \<Rightarrow> FusionAlgorithm \<Rightarrow> unit Result \<times> FusionAlgorithm" where
  "alg_init config a =
     (let a = a\<lparr>fa_config := config, fa_runtimeParams := fc_params config\<rparr>;
          a = (if fc_calibrationFile config \<noteq> []
               then a\<lparr>fa_calibration := snd (calibration_load (fc_calibrationFile config))\<rparr> else a)
      in case aligner_init (fa_calibration a) (fa_aligner a) of
           (Inl e, al) \<Rightarrow> (Inl e, a\<lparr>fa_aligner := al\<rparr>)
         | (Inr _, al) \<Rightarrow> (Success, a\<lparr>fa_aligner := al, fa_initialized := True\<rparr>))"

definition makePlaceholderOutput :: "SyncedFrameGroup \<Rightarrow> VideoFrame" where
  "makePlaceholderOutput input =
     (if vf_data (sg_visible input) \<noteq> [] then sg_visible input else sg_composite input)"

definition alg_process :: "FusionAlgorithm \<Rightarrow> SyncedFrameGroup \<Rightarrow> VideoFrame Result" where
  "alg_process a input =
     (if \<not> fa_initialized a
      then Error NotInitialized (algorithm_name (fa_mode a) @ '' is not initialized'')
      else (case align (fa_aligner a) input of
              Inl e \<Rightarrow> rewrap e
            | Inr aligned \<Rightarrow> Inr (makePlaceholderOutput aligned)))"

definition alg_setParam ::
  "string \<Rightarrow> string \<Rightarrow> FusionAlgorithm \<Rightarrow> unit Result \<times> FusionAlgorithm" where
  "alg_setParam key val a =
     (if key = [] then (Error InvalidArgument ''fusion param key is empty'', a)
      else (Success, a\<lparr>fa_runtimeParams := (fa_runtimeParams a)(key \<mapsto> val)\<rparr>))"

definition alg_getParam :: "string \<Rightarrow> FusionAlgorithm \<Rightarrow> string Result" where
  "alg_getParam key a =
     (case fa_runtimeParams a key of
        None \<Rightarrow> Error NotFound (''fusion param not found: '' @ key)
      | Some v \<Rightarrow> Inr v)"

definition alg_release :: "FusionAlgorithm \<Rightarrow> FusionAlgorithm" where
  "alg_release a =
     a\<lparr>fa_runtimeParams := Map.empty, fa_calibration := default_calibration,
       fa_initialized := False\<rparr>"

text \<open>
  The parameters of an algorithm behave as a store: what the two classes that offer them, the
  algorithm and the engine above it, promise of \<open>setParam\<close> and \<open>getParam\<close>.
\<close>

locale param_store =
  fixes set_param :: "string \<Rightarrow> string \<Rightarrow> 's \<Rightarrow> 's"
    and get_param :: "string \<Rightarrow> 's \<Rightarrow> string Result"
    and usable :: "'s \<Rightarrow> bool"
  assumes usable_set: "usable s \<Longrightarrow> usable (set_param k v s)"
    and get_set: "usable s \<Longrightarrow> k \<noteq> [] \<Longrightarrow> get_param k (set_param k v s) = Inr v"
    and get_other: "usable s \<Longrightarrow> k' \<noteq> k \<Longrightarrow> get_param k' (set_param k v s) = get_param k' s"
begin

lemma get_after_sets:
  assumes "usable s" "k \<noteq> []"
  shows "get_param k (fold (\<lambda>(k, v) s. set_param k v s) kvs s) =
    (case map_of (rev kvs) k of None \<Rightarrow> get_param k s | Some v \<Rightarrow> Inr v)"
  using assms(1)
proof (induction kvs arbitrary: s)
  case (Cons kv kvs)
  obtain k' v where kv: "kv = (k', v)" by (cases kv)
  show ?case
    using Cons.IH [OF usable_set [OF Cons.prems], of k' v] Cons.prems assms(2)
    by (cases "map_of (rev kvs) k"; cases "k = k'") (simp_all add: kv get_set get_other map_add_def)
qed simp

end

interpretation alg_params: param_store "\<lambda>k v a. snd (alg_setParam k v a)" alg_getParam "\<lambda>_. True"
  by unfold_locales (auto simp: alg_setParam_def alg_getParam_def)

lemma alg_init_ok:
  "fst (alg_init c a) = Success" "fa_initialized (snd (alg_init c a))"
  "fa_mode (snd (alg_init c a)) = fa_mode a"
  by (simp_all add: alg_init_def aligner_init_def Let_def)

lemma align_id: "align a g = Inr g"
  by (simp add: align_def warp_def)

lemma alg_process_eq:
  "alg_process a g =
     (if fa_initialized a then Inr (makePlaceholderOutput g)
      else Error NotInitialized (algorithm_name (fa_mode a) @ '' is not initialized''))"
  by (simp add: alg_process_def align_id)

subsection \<open>FusionEngine.cpp\<close>

record FusionEngine =
  fe_config :: FusionConfig
  fe_currentMode :: FusionMode
  fe_stats :: FusionStats
  fe_initialized :: bool
  fe_algorithms :: "FusionMode \<rightharpoonup> FusionAlgorithm"

definition new_engine :: FusionEngine where
  "new_engine =
     \<lparr>fe_config = default_fusion_config, fe_currentMode = FusionMode.Unknown,
      fe_stats = zero_fusion_stats, fe_initialized = False, fe_algorithms = Map.empty\<rparr>"

definition fe_recordError :: "Status \<Rightarrow> FusionEngine \<Rightarrow> FusionEngine" where
  "fe_recordError status e =
     e\<lparr>fe_stats := (fe_stats e)\<lparr>fst_errors := fst_errors (fe_stats e) + 1,
         fst_lastError := describe status\<rparr>\<rparr>"

definition fe_init :: "FusionConfig \<Rightarrow> FusionEngine \<Rightarrow> unit Result \<times> FusionEngine" where
  "fe_init config e =
     (if fe_initialized e then (Error AlreadyInitialized ''fusion engine already initialized'', e)
      else (Success, e\<lparr>fe_config := config, fe_initialized := True, fe_stats := zero_fusion_stats\<rparr>))"

text \<open>The argument is an owned pointer: \<open>None\<close> is the null pointer.\<close>

definition registerAlgorithm ::
  "FusionAlgorithm option \<Rightarrow> FusionEngine \<Rightarrow> unit Result \<times> FusionEngine" where
  "registerAlgorithm algorithm e =
     (if \<not> fe_initialized e then (Error NotInitialized ''fusion engine is not initialized'', e)
      else case algorithm of
        None \<Rightarrow> (Error InvalidArgument ''fusion algorithm is null'', e)
      | Some a \<Rightarrow>
          let mode = fa_mode a in
          if mode = FusionMode.Unknown
          then (Error InvalidArgument ''cannot register unknown fusion algorithm'', e)
          else (case alg_init (fe_config e) a of
                  (Inl s, a) \<Rightarrow> (Inl s, fe_recordError s e)
                | (Inr _, a) \<Rightarrow>
                    let e = e\<lparr>fe_algorithms := (fe_algorithms e)(mode \<mapsto> a)\<rparr>
                    in (Success, if fe_currentMode e = FusionMode.Unknown
                                 then e\<lparr>fe_currentMode := mode\<rparr> else e)))"

definition registerDefaultAlgorithms :: "FusionEngine \<Rightarrow> unit Result \<times> FusionEngine" where
  "registerDefaultAlgorithms e =
     (case registerAlgorithm (Some newVisibleLowlightFusion) e of
        (Inl s, e) \<Rightarrow> (Inl s, e)
      | (Inr _, e) \<Rightarrow>
          (case registerAlgorithm (Some newVisibleThermalFusion) e of
             (Inl s, e) \<Rightarrow> (Inl s, e)
           | (Inr _, e) \<Rightarrow>
               (case registerAlgorithm (Some newVisibleCompositeFusion) e of
                  (Inl s, e) \<Rightarrow> (Inl s, e)
                | (Inr _, e) \<Rightarrow> (Success, e))))"

definition fe_setMode :: "FusionMode \<Rightarrow> FusionEngine \<Rightarrow> unit Result \<times> FusionEngine" where
  "fe_setMode mode e =
     (if \<not> fe_initialized e then (Error NotInitialized ''fusion engine is not initialized'', e)
      else if mode = FusionMode.Unknown then (Error InvalidArgument ''unknown fusion mode'', e)
      else if fe_algorithms e mode = None
      then (Error Unsupported (''fusion algorithm not registered: '' @ toString_FusionMode mode), e)
      else (Success, e\<lparr>fe_currentMode := mode\<rparr>))"

definition currentAlgorithm :: "FusionEngine \<Rightarrow> FusionAlgorithm option" where
  "currentAlgorithm e = fe_algorithms e (fe_currentMode e)"

text \<open>The two clock reads around the algorithm's work are arguments.\<close>

definition fe_process ::
  "int \<Rightarrow> int \<Rightarrow> SyncedFrameGroup \<Rightarrow> FusionEngine \<Rightarrow> VideoFrame Result \<times> FusionEngine" where
  "fe_process start now input e =
     (if \<not> fe_initialized e then (Error NotInitialized ''fusion engine is not initialized'', e)
      else case currentAlgorithm e of
        None \<Rightarrow> (Error Unsupported ''no current fusion algorithm selected'', e)
      | Some a \<Rightarrow>
          let ret = alg_process a input;
              e = e\<lparr>fe_stats := (fe_stats e)\<lparr>fst_lastProcessCostMs := now - start\<rparr>\<rparr>
          in (case ret of
                Inl s \<Rightarrow>
                  (Inl s, fe_recordError s
                     (e\<lparr>fe_stats := (fe_stats e)\<lparr>fst_framesDropped :=
                        fst_framesDropped (fe_stats e) + 1\<rparr>\<rparr>))
              | Inr f \<Rightarrow>
                  (Inr f, e\<lparr>fe_stats := (fe_stats e)\<lparr>fst_framesProcessed :=
                     fst_framesProcessed (fe_stats e) + 1, fst_lastError := []\<rparr>\<rparr>)))"

definition fe_setParam :: "string \<Rightarrow> string \<Rightarrow> FusionEngine \<Rightarrow> unit Result \<times> FusionEngine" where
  "fe_setParam key val e =
     (case currentAlgorithm e of
        None \<Rightarrow> (Error Unsupported ''no current fusion algorithm selected'', e)
      | Some a \<Rightarrow>
          (case alg_setParam key val a of
             (r, a) \<Rightarrow> (r, e\<lparr>fe_algorithms := (fe_algorithms e)(fe_currentMode e \<mapsto> a)\<rparr>)))"

definition fe_getParam :: "string \<Rightarrow> FusionEngine \<Rightarrow> string Result" where
  "fe_getParam key e =
     (case currentAlgorithm e of
        None \<Rightarrow> Error Unsupported ''no current fusion algorithm selected''
      | Some a \<Rightarrow> alg_getParam key a)"

text \<open>\<open>release\<close> releases every algorithm and then destroys it.\<close>

definition fe_release :: "FusionEngine \<Rightarrow> FusionEngine" where
  "fe_release e =
     e\<lparr>fe_algorithms := Map.empty, fe_currentMode := FusionMode.Unknown, fe_initialized := False\<rparr>"

interpretation engine_params: param_store "\<lambda>k v e. snd (fe_setParam k v e)" fe_getParam
  "\<lambda>e. currentAlgorithm e \<noteq> None"
  by unfold_locales
     (auto simp: fe_setParam_def fe_getParam_def currentAlgorithm_def alg_setParam_def
       alg_getParam_def)

subsection \<open>The engine's invariant\<close>

text \<open>The selected mode has an algorithm, unless none is selected; every algorithm is kept under its
  own mode and is ready to process.\<close>

definition engine_inv :: "FusionEngine \<Rightarrow> bool" where
  "engine_inv e \<longleftrightarrow>
     (fe_currentMode e = FusionMode.Unknown \<or> fe_algorithms e (fe_currentMode e) \<noteq> None) \<and>
     (\<forall>m a. fe_algorithms e m = Some a \<longrightarrow>
        m \<noteq> FusionMode.Unknown \<and> fa_mode a = m \<and> fa_initialized a)"

lemma engine_inv_new: "engine_inv new_engine"
  by (simp add: engine_inv_def new_engine_def)

lemma registerAlgorithm_eq:
  assumes "fe_initialized e" "fa_mode a \<noteq> FusionMode.Unknown"
  shows "registerAlgorithm (Some a) e =
    (Success, e\<lparr>fe_algorithms := (fe_algorithms e)(fa_mode a \<mapsto> snd (alg_init (fe_config e) a)),
       fe_currentMode := (if fe_currentMode e = FusionMode.Unknown then fa_mode a
                          else fe_currentMode e)\<rparr>)"
  using assms alg_init_ok(1) [of "fe_config e" a]
  by (cases "alg_init (fe_config e) a") (auto simp: registerAlgorithm_def Let_def)

lemma engine_inv_register:
  assumes "engine_inv e"
  shows "engine_inv (snd (registerAlgorithm a e))"
proof (cases "\<exists>x. a = Some x \<and> fe_initialized e \<and> fa_mode x \<noteq> FusionMode.Unknown")
  case True
  then obtain x where "a = Some x" "fe_initialized e" "fa_mode x \<noteq> FusionMode.Unknown" by blast
  with assms show ?thesis
    by (auto simp: registerAlgorithm_eq engine_inv_def alg_init_ok)
next
  case False
  with assms show ?thesis by (auto simp: registerAlgorithm_def split: option.splits)
qed

lemma engine_inv_preserved:
  "engine_inv e \<Longrightarrow> engine_inv (snd (fe_init c e))"
  "engine_inv e \<Longrightarrow> engine_inv (snd (fe_setMode m e))"
  "engine_inv e \<Longrightarrow> engine_inv (snd (fe_process t t' g e))"
  "engine_inv e \<Longrightarrow> engine_inv (snd (fe_setParam k v e))"
  "engine_inv (fe_release e)"
  by (auto simp: engine_inv_def fe_init_def fe_setMode_def fe_process_def fe_setParam_def
      alg_setParam_def currentAlgorithm_def fe_release_def fe_recordError_def Let_def
      split: option.splits sum.splits)

text \<open>Runs of the engine.\<close>

datatype engine_op =
  EInit FusionConfig | ERegister "FusionAlgorithm option" | ESetMode FusionMode
  | EProcess int int SyncedFrameGroup | ESetParam string string | ERelease

fun engine_do :: "engine_op \<Rightarrow> FusionEngine \<Rightarrow> FusionEngine" where
  "engine_do (EInit c) e = snd (fe_init c e)"
| "engine_do (ERegister a) e = snd (registerAlgorithm a e)"
| "engine_do (ESetMode m) e = snd (fe_setMode m e)"
| "engine_do (EProcess t t' g) e = snd (fe_process t t' g e)"
| "engine_do (ESetParam k v) e = snd (fe_setParam k v e)"
| "engine_do ERelease e = fe_release e"

lemma engine_reach_inv: "engine_inv e \<Longrightarrow> engine_inv (fold engine_do ops e)"
proof (induction ops arbitrary: e)
  case (Cons p ps)
  then show ?case by (cases p) (simp_all add: engine_inv_preserved engine_inv_register)
qed simp

text \<open>
  After any sequence of operations, an engine with a mode selected processes every frame
  pair successfully, with the selected mode's algorithm: the output is the visible frame, or the
  composite one when the visible frame is empty, and the processed count goes up by one.
\<close>

theorem engine_processes:
  assumes "e = fold engine_do ops new_engine" and "fe_initialized e"
    and "fe_currentMode e \<noteq> FusionMode.Unknown"
  shows "\<exists>a e'. currentAlgorithm e = Some a \<and> fa_mode a = fe_currentMode e \<and>
    fe_process t t' g e = (Inr (if vf_data (sg_visible g) \<noteq> [] then sg_visible g
                               else sg_composite g), e') \<and>
    fst_framesProcessed (fe_stats e') = fst_framesProcessed (fe_stats e) + 1 \<and>
    fst_errors (fe_stats e') = fst_errors (fe_stats e)"
proof -
  have "engine_inv e"
    using engine_reach_inv [OF engine_inv_new] assms(1) by simp
  with assms(3) obtain a where "currentAlgorithm e = Some a" "fa_mode a = fe_currentMode e"
    "fa_initialized a"
    by (auto simp: engine_inv_def currentAlgorithm_def)
  with assms(2) show ?thesis
    by (simp add: fe_process_def alg_process_eq makePlaceholderOutput_def Let_def)
qed

definition ready_engine :: FusionEngine where
  "ready_engine = fold engine_do
     [EInit default_fusion_config, ERegister (Some newVisibleThermalFusion),
      ESetParam ''gain'' ''2''] new_engine"

theorem engine_processes_witness:
  "fst (fe_process 0 3 \<lparr>sg_visible = default_video_frame,
      sg_composite = default_video_frame\<lparr>vf_data := [1]\<rparr>, sg_deltaMs = 0\<rparr> ready_engine)
    = Inr (default_video_frame\<lparr>vf_data := [1]\<rparr>)"
proof -
  have "fe_initialized ready_engine" "fe_currentMode ready_engine \<noteq> FusionMode.Unknown"
    by (simp_all add: ready_engine_def fe_init_def new_engine_def registerAlgorithm_eq
        newVisibleThermalFusion_def new_algorithm_def fe_setParam_def currentAlgorithm_def
        split: prod.splits)
  from engine_processes [OF ready_engine_def this, of 0 3 "\<lparr>sg_visible = default_video_frame,
      sg_composite = default_video_frame\<lparr>vf_data := [1]\<rparr>, sg_deltaMs = 0\<rparr>"]
  show ?thesis by (auto simp: default_video_frame_def)
qed

text \<open>After the defaults are registered every fusion mode can be selected.\<close>

lemma registerDefault_modes:
  assumes "fe_initialized e"
  shows "fst (registerDefaultAlgorithms e) = Success"
    "fe_initialized (snd (registerDefaultAlgorithms e))"
    "m \<noteq> FusionMode.Unknown \<Longrightarrow> fe_algorithms (snd (registerDefaultAlgorithms e)) m \<noteq> None"
proof -
  have modes: "fa_mode newVisibleLowlightFusion = VisibleLowlight"
    "fa_mode newVisibleThermalFusion = VisibleThermal"
    "fa_mode newVisibleCompositeFusion = VisibleComposite"
    by (simp_all add: newVisibleLowlightFusion_def newVisibleThermalFusion_def
        newVisibleCompositeFusion_def new_algorithm_def)
  show "fst (registerDefaultAlgorithms e) = Success"
    "fe_initialized (snd (registerDefaultAlgorithms e))"
    using assms by (simp_all add: registerDefaultAlgorithms_def registerAlgorithm_eq modes)
  show "m \<noteq> FusionMode.Unknown \<Longrightarrow> fe_algorithms (snd (registerDefaultAlgorithms e)) m \<noteq> None"
    using assms by (cases m) (simp_all add: registerDefaultAlgorithms_def registerAlgorithm_eq modes)
qed

end
