(* ===== verification/Tri_Plan.thy ===== *)
theory Tri_Plan
  imports Tri_WorkMode Tri_Fusion Tri_SensorTypes
begin

text \<open>
  What a work mode asks of the hardware and of the pipeline: the mode policy (mode/ModePolicy.cpp),
  the pipeline configurations (media/pipeline/PipelineTypes.h, PipelineBuilder.cpp) and the planner
  (mode/ModeSwitchPlanner.cpp).
\<close>

subsection \<open>ModePolicy.cpp\<close>

record ModePolicy =
  mo_config :: ModeConfig
  mo_initialized :: bool

definition policy_init :: "ModeConfig \<Rightarrow> ModePolicy \<Rightarrow> unit Result \<times> ModePolicy" where
  "policy_init config p = (Success, \<lparr>mo_config = config, mo_initialized = True\<rparr>)"

definition validateModeEnabled :: "ModePolicy \<Rightarrow> WorkMode \<Rightarrow> unit Result" where
  "validateModeEnabled p mode =
     (if \<not> mo_initialized p then Error NotInitialized ''mode policy is not initialized''
      else if mode = WorkMode.Unknown then Error InvalidArgument ''unknown work mode''
      else let key = configKey mode in
        if mc_enabledModes (mo_config p) key = Some False
        then Error UnsupportedWorkMode (''work mode disabled by config: '' @ key)
        else Success)"

fun defaultCompositeOutput :: "WorkMode \<Rightarrow> CompositeSensorOutputMode" where
  "defaultCompositeOutput WorkMode.LowlightOnly = CompositeSensorOutputMode.LowlightOnly"
| "defaultCompositeOutput WorkMode.VisibleLowlightFusion = CompositeSensorOutputMode.LowlightOnly"
| "defaultCompositeOutput WorkMode.ThermalOnly = CompositeSensorOutputMode.ThermalOnly"
| "defaultCompositeOutput WorkMode.VisibleThermalFusion = CompositeSensorOutputMode.ThermalOnly"
| "defaultCompositeOutput WorkMode.LowlightThermalComposite =
     CompositeSensorOutputMode.LowlightThermalComposite"
| "defaultCompositeOutput WorkMode.VisibleCompositeFusion =
     CompositeSensorOutputMode.LowlightThermalComposite"
| "defaultCompositeOutput WorkMode.VisibleOnly = CompositeSensorOutputMode.Unknown"
| "defaultCompositeOutput WorkMode.Unknown = CompositeSensorOutputMode.Unknown"

definition compositeOutputFor :: "ModePolicy \<Rightarrow> WorkMode \<Rightarrow> CompositeSensorOutputMode Result" where
  "compositeOutputFor p mode =
     (if \<not> requiresCompositeSensorSwitch mode then Inr CompositeSensorOutputMode.Unknown
      else
        let key = configKey mode;
            fallback =
              (let fb = defaultCompositeOutput mode in
               if fb = CompositeSensorOutputMode.Unknown
               then Error UnsupportedWorkMode
                      (''work mode does not map to composite sensor output: '' @ toString_WorkMode mode)
               else Inr fb)
        in case mc_compositeOutputs (mo_config p) key of
             None \<Rightarrow> fallback
           | Some text \<Rightarrow>
               if text = [] then fallback
               else
                 let m = compositeSensorOutputModeFromString text in
                 if m = CompositeSensorOutputMode.Unknown
                 then Error ConfigError (''invalid composite_output for mode '' @ key @ '': '' @ text)
                 else Inr m)"

subsection \<open>PipelineTypes.h and the configurations of PipelineBuilder.cpp\<close>

datatype PipelineType = VisibleOnly | CompositeOnly | VisibleCompositeFusion

fun toString_PipelineType :: "PipelineType \<Rightarrow> string" where
  "toString_PipelineType PipelineType.VisibleOnly = ''visible_only''"
| "toString_PipelineType PipelineType.CompositeOnly = ''composite_only''"
| "toString_PipelineType PipelineType.VisibleCompositeFusion = ''visible_composite_fusion''"

record PipelineConfig =
  pl_type :: PipelineType
  pl_requireVisible :: bool
  pl_requireComposite :: bool
  pl_captureTimeoutMs :: int
  pl_frameQueueSize :: int
  pl_useDecoder :: bool
  pl_useEncoder :: bool
  pl_useFormatConvert :: bool
  pl_encoderInputFormat :: VideoPixelFormat
  pl_passthroughEncoded :: bool
  pl_media :: MediaConfig

definition default_pipeline_config :: PipelineConfig where
  "default_pipeline_config =
     \<lparr>pl_type = CompositeOnly, pl_requireVisible = False, pl_requireComposite = True,
      pl_captureTimeoutMs = 1000, pl_frameQueueSize = 8, pl_useDecoder = False,
      pl_useEncoder = False, pl_useFormatConvert = False, pl_encoderInputFormat = Nv12,
      pl_passthroughEncoded = False, pl_media = default_media_config\<rparr>"

definition pipeline_visibleOnly :: "MediaConfig \<Rightarrow> PipelineConfig" where
  "pipeline_visibleOnly media =
     default_pipeline_config\<lparr>pl_type := PipelineType.VisibleOnly, pl_requireVisible := True,
       pl_requireComposite := False, pl_useDecoder := False, pl_useEncoder := False,
       pl_useFormatConvert := False, pl_encoderInputFormat := Nv12,
       pl_passthroughEncoded := True, pl_media := media\<rparr>"

definition pipeline_compositeOnly :: "MediaConfig \<Rightarrow> bool \<Rightarrow> bool \<Rightarrow> PipelineConfig" where
  "pipeline_compositeOnly media decode encode =
     default_pipeline_config\<lparr>pl_type := CompositeOnly, pl_requireVisible := False,
       pl_requireComposite := True, pl_useDecoder := decode, pl_useEncoder := encode,
       pl_useFormatConvert := encode, pl_encoderInputFormat := Nv12,
       pl_passthroughEncoded := \<not> encode, pl_media := media\<rparr>"

definition pipeline_compositeYuyvToH264 :: "MediaConfig \<Rightarrow> PipelineConfig" where
  "pipeline_compositeYuyvToH264 media =
     default_pipeline_config\<lparr>pl_type := CompositeOnly, pl_requireVisible := False,
       pl_requireComposite := True, pl_useDecoder := False, pl_useEncoder := True,
       pl_useFormatConvert := True, pl_encoderInputFormat := Nv12,
       pl_passthroughEncoded := False, pl_media := media\<rparr>"

definition pipeline_compositeOnlyAuto :: "MediaConfig \<Rightarrow> PipelineConfig" where
  "pipeline_compositeOnlyAuto media =
     default_pipeline_config\<lparr>pl_type := CompositeOnly, pl_requireVisible := False,
       pl_requireComposite := True, pl_useDecoder := True, pl_useEncoder := True,
       pl_useFormatConvert := True, pl_encoderInputFormat := Nv12,
       pl_passthroughEncoded := False, pl_media := media\<rparr>"

definition pipeline_visibleCompositeFusionPlaceholder :: "MediaConfig \<Rightarrow> PipelineConfig" where
  "pipeline_visibleCompositeFusionPlaceholder media =
     default_pipeline_config\<lparr>pl_type := PipelineType.VisibleCompositeFusion, pl_requireVisible := True,
       pl_requireComposite := True, pl_useDecoder := True, pl_useEncoder := True,
       pl_useFormatConvert := True, pl_encoderInputFormat := Nv12,
       pl_passthroughEncoded := False, pl_media := media\<rparr>"

subsection \<open>ModeSwitchPlanner.cpp\<close>

record ModeSwitchPlan =
  mp_targetMode :: WorkMode
  mp_requiredCameras :: "CameraId list"
  mp_requireVisible :: bool
  mp_requireComposite :: bool
  mp_requireCompositeSensorSwitch :: bool
  mp_compositeOutput :: CompositeSensorOutputMode
  mp_requireFusion :: bool
  mp_fusionMode :: FusionMode
  mp_restartPipeline :: bool
  mp_stableWaitMs :: int
  mp_pipeline :: PipelineConfig
  mp_pipelineNodes :: "string list"

definition default_plan :: ModeSwitchPlan where
  "default_plan =
     \<lparr>mp_targetMode = WorkMode.Unknown, mp_requiredCameras = [], mp_requireVisible = False,
      mp_requireComposite = False, mp_requireCompositeSensorSwitch = False,
      mp_compositeOutput = CompositeSensorOutputMode.Unknown, mp_requireFusion = False,
      mp_fusionMode = FusionMode.Unknown, mp_restartPipeline = True, mp_stableWaitMs = 200,
      mp_pipeline = default_pipeline_config, mp_pipelineNodes = []\<rparr>"

record ModeSwitchPlanner =
  pn_policy :: ModePolicy
  pn_mediaConfig :: MediaConfig
  pn_initialized :: bool

definition new_planner :: ModeSwitchPlanner where
  "new_planner =
     \<lparr>pn_policy = \<lparr>mo_config = default_mode_config, mo_initialized = False\<rparr>,
      pn_mediaConfig = default_media_config, pn_initialized = False\<rparr>"

definition planner_init ::
  "ModeConfig \<Rightarrow> MediaConfig \<Rightarrow> ModeSwitchPlanner \<Rightarrow> unit Result \<times> ModeSwitchPlanner" where
  "planner_init modeConfig mediaConfig pn =
     (case policy_init modeConfig (pn_policy pn) of
        (Inl e, po) \<Rightarrow> (Inl e, pn\<lparr>pn_policy := po\<rparr>)
      | (Inr _, po) \<Rightarrow>
          (Success, \<lparr>pn_policy = po, pn_mediaConfig = mediaConfig, pn_initialized = True\<rparr>))"

fun fusionModeFor :: "WorkMode \<Rightarrow> FusionMode" where
  "fusionModeFor WorkMode.VisibleLowlightFusion = VisibleLowlight"
| "fusionModeFor WorkMode.VisibleThermalFusion = VisibleThermal"
| "fusionModeFor WorkMode.VisibleCompositeFusion = VisibleComposite"
| "fusionModeFor _ = FusionMode.Unknown"

fun fusion_node :: "FusionMode \<Rightarrow> string" where
  "fusion_node VisibleLowlight = ''VisibleLowlightFusion''"
| "fusion_node VisibleThermal = ''VisibleThermalFusion''"
| "fusion_node VisibleComposite = ''VisibleCompositeFusion''"
| "fusion_node FusionMode.Unknown = ''UnknownFusion''"

definition describePipelineNodes :: "ModeSwitchPlan \<Rightarrow> string list" where
  "describePipelineNodes plan =
     (if mp_requireVisible plan then [''VisibleCaptureNode''] else []) @
     (if mp_requireComposite plan then [''CompositeCaptureNode''] else []) @
     (if pl_useDecoder (mp_pipeline plan) then [''MjpegDecoder''] else []) @
     (if mp_requireFusion plan
      then [''FrameSync'', ''ImageRegistrationNode'', fusion_node (mp_fusionMode plan)] else []) @
     (if pl_useFormatConvert (mp_pipeline plan) then [''FormatConvertNode(NV12)''] else []) @
     (if pl_useEncoder (mp_pipeline plan) then [''MppH264Encoder'']
      else if pl_passthroughEncoded (mp_pipeline plan) then [''EncodedPassthrough''] else []) @
     [''MainStream'']"

definition buildPlan :: "ModeSwitchPlanner \<Rightarrow> WorkMode \<Rightarrow> ModeSwitchPlan Result" where
  "buildPlan pn targetMode =
     (if \<not> pn_initialized pn then Error NotInitialized ''mode switch planner is not initialized''
      else case validateModeEnabled (pn_policy pn) targetMode of
        Inl e \<Rightarrow> rewrap e
      | Inr _ \<Rightarrow>
          let plan = default_plan\<lparr>mp_targetMode := targetMode,
                mp_requireVisible := requiresVisibleCamera targetMode,
                mp_requireComposite := requiresCompositeCamera targetMode,
                mp_requireCompositeSensorSwitch := requiresCompositeSensorSwitch targetMode,
                mp_requireFusion := isFusionMode targetMode,
                mp_fusionMode := fusionModeFor targetMode\<rparr>;
              plan = (if mp_requireVisible plan
                      then plan\<lparr>mp_requiredCameras := mp_requiredCameras plan @ [Visible]\<rparr>
                      else plan);
              plan = (if mp_requireComposite plan
                      then plan\<lparr>mp_requiredCameras := mp_requiredCameras plan @ [CompositeLowThermal]\<rparr>
                      else plan);
              finish = (\<lambda>plan :: ModeSwitchPlan.
                let plan = plan\<lparr>mp_pipeline :=
                      (if targetMode = WorkMode.VisibleOnly
                       then pipeline_visibleOnly (pn_mediaConfig pn)
                       else if isFusionMode targetMode
                       then pipeline_visibleCompositeFusionPlaceholder (pn_mediaConfig pn)
                       else pipeline_compositeOnlyAuto (pn_mediaConfig pn))\<rparr>
                in Inr (plan\<lparr>mp_pipelineNodes := describePipelineNodes plan\<rparr>))
          in if mp_requireCompositeSensorSwitch plan
             then (case compositeOutputFor (pn_policy pn) targetMode of
                     Inl e \<Rightarrow> rewrap e
                   | Inr out \<Rightarrow> finish (plan\<lparr>mp_compositeOutput := out\<rparr>))
             else finish plan)"

definition buildPlanNamed :: "ModeSwitchPlanner \<Rightarrow> string \<Rightarrow> ModeSwitchPlan Result" where
  "buildPlanNamed pn targetMode = buildPlan pn (workModeFromString targetMode)"

subsection \<open>What a plan guarantees\<close>

text \<open>A mode that needs the composite camera always has a sensor output: the configured one or the
  default.\<close>

lemma compositeOutputFor_ok:
  assumes "requiresCompositeCamera m"
  shows "(\<exists>out. compositeOutputFor p m = Inr out \<and> out \<noteq> CompositeSensorOutputMode.Unknown) \<or>
    (\<exists>text. mc_compositeOutputs (mo_config p) (configKey m) = Some text \<and> text \<noteq> [] \<and>
       compositeSensorOutputModeFromString text = CompositeSensorOutputMode.Unknown \<and>
       (\<exists>msg. compositeOutputFor p m = Error ConfigError msg))"
proof -
  have "defaultCompositeOutput m \<noteq> CompositeSensorOutputMode.Unknown"
    using assms by (cases m) (simp_all add: requiresCompositeCamera_def)
  then show ?thesis
    using assms
    by (auto simp: compositeOutputFor_def requiresCompositeSensorSwitch_def Let_def
        split: option.splits)
qed

text \<open>The plan of a mode that is enabled, once its sensor output is known.\<close>

definition pipeline_of :: "MediaConfig \<Rightarrow> WorkMode \<Rightarrow> PipelineConfig" where
  "pipeline_of media m =
     (if m = WorkMode.VisibleOnly then pipeline_visibleOnly media
      else if isFusionMode m then pipeline_visibleCompositeFusionPlaceholder media
      else pipeline_compositeOnlyAuto media)"

definition plan_of :: "MediaConfig \<Rightarrow> WorkMode \<Rightarrow> CompositeSensorOutputMode \<Rightarrow> ModeSwitchPlan" where
  "plan_of media m out =
     (let p = default_plan\<lparr>mp_targetMode := m,
            mp_requiredCameras := (if requiresVisibleCamera m then [Visible] else []) @
              (if requiresCompositeCamera m then [CompositeLowThermal] else []),
            mp_requireVisible := requiresVisibleCamera m,
            mp_requireComposite := requiresCompositeCamera m,
            mp_requireCompositeSensorSwitch := requiresCompositeCamera m,
            mp_compositeOutput := out,
            mp_requireFusion := isFusionMode m, mp_fusionMode := fusionModeFor m,
            mp_pipeline := pipeline_of media m\<rparr>
      in p\<lparr>mp_pipelineNodes := describePipelineNodes p\<rparr>)"

lemma buildPlan_eq:
  assumes "pn_initialized pn" "validateModeEnabled (pn_policy pn) m = Success"
  shows "buildPlan pn m =
    (if requiresCompositeCamera m
     then (case compositeOutputFor (pn_policy pn) m of
             Inl e \<Rightarrow> rewrap e
           | Inr out \<Rightarrow> Inr (plan_of (pn_mediaConfig pn) m out))
     else Inr (plan_of (pn_mediaConfig pn) m CompositeSensorOutputMode.Unknown))"
  using assms
  by (cases "requiresVisibleCamera m"; cases "requiresCompositeCamera m";
      cases "compositeOutputFor (pn_policy pn) m")
     (simp_all add: buildPlan_def plan_of_def pipeline_of_def default_plan_def
       requiresCompositeSensorSwitch_def Let_def)

lemma buildPlan_Inr:
  assumes "buildPlan pn m = Inr plan"
  obtains out where "pn_initialized pn" "validateModeEnabled (pn_policy pn) m = Success"
    "requiresCompositeCamera m \<Longrightarrow> compositeOutputFor (pn_policy pn) m = Inr out"
    "\<not> requiresCompositeCamera m \<Longrightarrow> out = CompositeSensorOutputMode.Unknown"
    "plan = plan_of (pn_mediaConfig pn) m out"
proof -
  from assms have i: "pn_initialized pn" and v: "validateModeEnabled (pn_policy pn) m = Success"
    by (auto simp: buildPlan_def split: if_splits sum.split_asm)
  show ?thesis
  proof (cases "requiresCompositeCamera m")
    case True
    with assms buildPlan_eq [OF i v] show ?thesis
      by (auto intro: that [OF i v] split: sum.split_asm)
  next
    case False
    with assms buildPlan_eq [OF i v] show ?thesis
      by (auto intro: that [OF i v])
  qed
qed

lemma pipeline_of_cameras:
  assumes "m \<noteq> WorkMode.Unknown"
  shows "pl_requireVisible (pipeline_of media m) = requiresVisibleCamera m"
    "pl_requireComposite (pipeline_of media m) = requiresCompositeCamera m"
  using assms
  by (cases m; simp add: pipeline_of_def isFusionMode_def pipeline_visibleOnly_def
      pipeline_visibleCompositeFusionPlaceholder_def pipeline_compositeOnlyAuto_def
      requiresVisibleCamera_def requiresCompositeCamera_def)+

text \<open>A pipeline configuration that can carry frames from the cameras it needs to the stream.\<close>

definition pipeline_consistent :: "PipelineConfig \<Rightarrow> bool" where
  "pipeline_consistent c \<longleftrightarrow>
     (pl_requireVisible c \<or> pl_requireComposite c) \<and>
     (pl_useEncoder c \<longleftrightarrow> \<not> pl_passthroughEncoded c) \<and>
     (pl_useEncoder c \<longrightarrow> pl_useFormatConvert c \<and> pl_encoderInputFormat c = Nv12)"

lemma pipeline_of_consistent: "m \<noteq> WorkMode.Unknown \<Longrightarrow> pipeline_consistent (pipeline_of media m)"
  by (simp add: pipeline_of_def pipeline_consistent_def pipeline_visibleOnly_def
      pipeline_visibleCompositeFusionPlaceholder_def pipeline_compositeOnlyAuto_def)

text \<open>What each work mode shows, as its name says: the output of the composite sensor it works on and the way the two
  cameras are fused.\<close>

definition mode_table :: "(WorkMode \<times> CompositeSensorOutputMode \<times> FusionMode) list" where
  "mode_table =
     [(WorkMode.VisibleOnly, CompositeSensorOutputMode.Unknown, FusionMode.Unknown),
      (WorkMode.LowlightOnly, CompositeSensorOutputMode.LowlightOnly, FusionMode.Unknown),
      (WorkMode.ThermalOnly, CompositeSensorOutputMode.ThermalOnly, FusionMode.Unknown),
      (WorkMode.LowlightThermalComposite, CompositeSensorOutputMode.LowlightThermalComposite, FusionMode.Unknown),
      (WorkMode.VisibleLowlightFusion, CompositeSensorOutputMode.LowlightOnly, VisibleLowlight),
      (WorkMode.VisibleThermalFusion, CompositeSensorOutputMode.ThermalOnly, VisibleThermal),
      (WorkMode.VisibleCompositeFusion, CompositeSensorOutputMode.LowlightThermalComposite, VisibleComposite)]"

lemma defaults_in_table:
  "m \<noteq> WorkMode.Unknown \<Longrightarrow> (m, defaultCompositeOutput m, fusionModeFor m) \<in> set mode_table"
  by (cases m) (simp_all add: mode_table_def)

lemma compositeOutputFor_names:
  assumes "compositeOutputFor p m = Inr out" "requiresCompositeCamera m"
  shows "out = (case mc_compositeOutputs (mo_config p) (configKey m) of
      Some text \<Rightarrow> if text = [] then defaultCompositeOutput m else compositeSensorOutputModeFromString text
    | None \<Rightarrow> defaultCompositeOutput m)"
  using assms
  by (auto simp: compositeOutputFor_def requiresCompositeSensorSwitch_def Let_def split: option.splits if_splits)

text \<open>
  Claim C10. A plan fits its work mode: exactly the cameras the mode needs are required, by the plan
  and by its pipeline; the fusion mode and the output of the composite sensor are those of the table above, except that
  a text of the configuration, when it is not empty, names another output for a mode that needs that camera; no mode
  that needs it is left without an output; the pipeline can carry frames, and its nodes end in the main stream.
\<close>

theorem plan_fits_mode:
  assumes "buildPlan pn m = Inr plan"
  shows "mp_targetMode plan = m \<and>
    set (mp_requiredCameras plan) = {c. c = Visible \<and> requiresVisibleCamera m \<or>
      c = CompositeLowThermal \<and> requiresCompositeCamera m} \<and>
    pl_requireVisible (mp_pipeline plan) = requiresVisibleCamera m \<and>
    pl_requireComposite (mp_pipeline plan) = requiresCompositeCamera m \<and>
    (mp_compositeOutput plan \<noteq> CompositeSensorOutputMode.Unknown) = requiresCompositeCamera m \<and>
    (\<exists>usual. (m, usual, mp_fusionMode plan) \<in> set mode_table \<and>
       mp_compositeOutput plan =
         (case mc_compositeOutputs (mo_config (pn_policy pn)) (configKey m) of
            Some text \<Rightarrow> if text \<noteq> [] \<and> requiresCompositeCamera m
                         then compositeSensorOutputModeFromString text else usual
          | None \<Rightarrow> usual)) \<and>
    (mp_fusionMode plan \<noteq> FusionMode.Unknown) = isFusionMode m \<and>
    pipeline_consistent (mp_pipeline plan) \<and>
    last (mp_pipelineNodes plan) = ''MainStream''"
proof -
  from assms obtain out where p: "validateModeEnabled (pn_policy pn) m = Success"
    "requiresCompositeCamera m \<Longrightarrow> compositeOutputFor (pn_policy pn) m = Inr out"
    "\<not> requiresCompositeCamera m \<Longrightarrow> out = CompositeSensorOutputMode.Unknown"
    "plan = plan_of (pn_mediaConfig pn) m out"
    using buildPlan_Inr [OF assms] by blast
  have m: "m \<noteq> WorkMode.Unknown"
    using p(1) by (auto simp: validateModeEnabled_def split: if_splits)
  have out: "out \<noteq> CompositeSensorOutputMode.Unknown \<longleftrightarrow> requiresCompositeCamera m"
    using compositeOutputFor_ok [of m "pn_policy pn"] p(2,3) by auto
  have fus: "fusionModeFor m \<noteq> FusionMode.Unknown \<longleftrightarrow> isFusionMode m"
    by (cases m) (simp_all add: isFusionMode_def)
  have usual: "\<not> requiresCompositeCamera m \<Longrightarrow> defaultCompositeOutput m = CompositeSensorOutputMode.Unknown"
    using m by (cases m) (simp_all add: requiresCompositeCamera_def)
  have named: "out = (case mc_compositeOutputs (mo_config (pn_policy pn)) (configKey m) of
      Some text \<Rightarrow> if text \<noteq> [] \<and> requiresCompositeCamera m
                   then compositeSensorOutputModeFromString text else defaultCompositeOutput m
    | None \<Rightarrow> defaultCompositeOutput m)"
  proof (cases "requiresCompositeCamera m")
    case True
    with compositeOutputFor_names [OF p(2) [OF True] True] show ?thesis by (auto split: option.splits)
  qed (use p(3) usual in \<open>auto split: option.splits\<close>)
  note plan = p(4) plan_of_def describePipelineNodes_def Let_def
  have "\<exists>usual. (m, usual, mp_fusionMode plan) \<in> set mode_table \<and>
       mp_compositeOutput plan =
         (case mc_compositeOutputs (mo_config (pn_policy pn)) (configKey m) of
            Some text \<Rightarrow> if text \<noteq> [] \<and> requiresCompositeCamera m
                         then compositeSensorOutputModeFromString text else usual
          | None \<Rightarrow> usual)"
    using defaults_in_table [OF m] named by (intro exI [of _ "defaultCompositeOutput m"] conjI) (simp_all add: plan)
  then show ?thesis
    using m out fus pipeline_of_cameras [OF m, of "pn_mediaConfig pn"]
      pipeline_of_consistent [OF m, of "pn_mediaConfig pn"]
    by (intro conjI) (auto simp: plan)
qed

text \<open>A planner whose configuration names a sensor output for one mode.\<close>

definition sample_planner :: ModeSwitchPlanner where
  "sample_planner = snd (planner_init
     (default_mode_config\<lparr>mc_compositeOutputs :=
        [''thermal_only'' \<mapsto> ''LOWLIGHT_THERMAL_COMPOSITE'', ''lowlight_only'' \<mapsto> ''bad''],
        mc_enabledModes := [''visible_only'' \<mapsto> False]\<rparr>)
     default_media_config new_planner)"

lemma sample_output: "compositeSensorOutputModeFromString ''LOWLIGHT_THERMAL_COMPOSITE''
    = CompositeSensorOutputMode.LowlightThermalComposite"
  by (rule output_mode_text.of_to
      [of CompositeSensorOutputMode.LowlightThermalComposite, simplified toString_OutputMode.simps])

theorem plan_fits_mode_witness:
  "\<exists>plan. buildPlan sample_planner WorkMode.ThermalOnly = Inr plan \<and>
     set (mp_requiredCameras plan) = {CompositeLowThermal} \<and>
     last (mp_pipelineNodes plan) = ''MainStream''"
proof -
  obtain plan where plan: "buildPlan sample_planner WorkMode.ThermalOnly = Inr plan"
    by (simp add: buildPlan_eq sample_planner_def planner_init_def policy_init_def
        validateModeEnabled_def default_mode_config_def compositeOutputFor_def sample_output
        requiresCompositeSensorSwitch_def requiresCompositeCamera_def Let_def)
  from plan_fits_mode [OF this] plan show ?thesis
    by (auto simp: requiresVisibleCamera_def requiresCompositeCamera_def)
qed

text \<open>
  An initialized planner refuses exactly the unknown mode, the modes the configuration
  disables, and the modes whose configured sensor output does not parse; every other mode, by default
  every mode, has a plan.
\<close>

theorem plan_refused_iff:
  assumes "pn_initialized pn" and "mo_initialized (pn_policy pn)"
  shows "(\<exists>e. buildPlan pn m = Inl e) \<longleftrightarrow>
    m = WorkMode.Unknown \<or>
    mc_enabledModes (mo_config (pn_policy pn)) (configKey m) = Some False \<or>
    (requiresCompositeCamera m \<and>
     (\<exists>text. mc_compositeOutputs (mo_config (pn_policy pn)) (configKey m) = Some text \<and> text \<noteq> [] \<and>
        compositeSensorOutputModeFromString text = CompositeSensorOutputMode.Unknown))"
proof (cases "m = WorkMode.Unknown \<or>
    mc_enabledModes (mo_config (pn_policy pn)) (configKey m) = Some False")
  case True
  then have "\<exists>e. validateModeEnabled (pn_policy pn) m = Inl e"
    using assms(2) by (auto simp: validateModeEnabled_def Let_def)
  then obtain e where "validateModeEnabled (pn_policy pn) m = Inl e" by blast
  then have "buildPlan pn m = rewrap e"
    using assms(1) by (simp only: buildPlan_def sum.case not_True_eq_False if_False)
  then have "\<exists>e. buildPlan pn m = Inl e" by (simp add: rewrap_def)
  with True show ?thesis by blast
next
  case False
  with assms have v: "validateModeEnabled (pn_policy pn) m = Success"
    by (auto simp: validateModeEnabled_def Let_def)
  have out: "(\<exists>e. compositeOutputFor (pn_policy pn) m = Inl e) \<longleftrightarrow>
    (\<exists>text. mc_compositeOutputs (mo_config (pn_policy pn)) (configKey m) = Some text \<and> text \<noteq> [] \<and>
       compositeSensorOutputModeFromString text = CompositeSensorOutputMode.Unknown)"
    if "requiresCompositeCamera m"
  proof -
    have "defaultCompositeOutput m \<noteq> CompositeSensorOutputMode.Unknown"
      using that by (cases m) (simp_all add: requiresCompositeCamera_def)
    then show ?thesis
      using that by (auto simp: compositeOutputFor_def requiresCompositeSensorSwitch_def Let_def
          split: option.splits)
  qed
  show ?thesis
  proof (cases "requiresCompositeCamera m")
    case True
    then show ?thesis
      using buildPlan_eq [OF assms(1) v] False out [OF True]
      by (cases "compositeOutputFor (pn_policy pn) m") (auto simp: rewrap_def)
  next
    case no: False
    with buildPlan_eq [OF assms(1) v] False show ?thesis by simp
  qed
qed

theorem plan_refused_iff_witness:
  "(\<exists>e. buildPlan sample_planner WorkMode.VisibleOnly = Inl e) \<and>
   \<not> (\<exists>e. buildPlan sample_planner WorkMode.VisibleCompositeFusion = Inl e)"
proof -
  have i: "pn_initialized sample_planner" "mo_initialized (pn_policy sample_planner)"
    by (simp_all add: sample_planner_def planner_init_def policy_init_def)
  show ?thesis
    using plan_refused_iff [OF i, of WorkMode.VisibleOnly]
      plan_refused_iff [OF i, of WorkMode.VisibleCompositeFusion]
    by (simp add: sample_planner_def planner_init_def policy_init_def default_mode_config_def)
qed

end
