(* ===== verification/Tri_Video.thy ===== *)
theory Tri_Video
  imports Tri_Frames
begin

text \<open>
  Video capture hardware: the V4L2 device (hardware/v4l2/V4L2Device.cpp), the inspection of UVC nodes
  (hardware/uvc/UvcDevice.cpp) and the metadata reader (UvcMetadataReader.cpp). The operating system
  is a parameter, a record of its calls over an abstract world. An ioctl that is interrupted for ever
  makes the calling operation not return, which is \<open>None\<close>.
\<close>

subsection \<open>The operating system's calls\<close>

datatype open_mode = ReadWrite | ReadWriteNonBlock | ReadOnlyNonBlock

datatype ioctl_request =
  QueryCap | SetFmt u32 u32 u32 | GetFmt | SetParm u32 | ReqBufs u32 | QueryBuf nat | QBuf nat
  | StreamOn | StreamOff

text \<open>What an ioctl writes into its argument.\<close>

record ioctl_reply =
  ir_driver :: string
  ir_card :: string
  ir_busInfo :: string
  ir_capabilities :: u32
  ir_deviceCaps :: u32
  ir_width :: u32
  ir_height :: u32
  ir_pixelformat :: u32
  ir_count :: u32
  ir_length :: u32
  ir_offset :: u32

datatype ioctl_outcome = IoctlInterrupted | IoctlFailed string | IoctlDone ioctl_reply

record V4L2FormatDesc =
  fd_pixelformat :: u32
  fd_description :: string

datatype enum_outcome = EnumEnd | EnumFailed string | EnumFormat V4L2FormatDesc

record dequeued_buffer =
  dq_index :: nat
  dq_bytesUsed :: u32

record 'w video_os =
  vo_open :: "string \<Rightarrow> open_mode \<Rightarrow> 'w \<Rightarrow> (string + int) \<times> 'w"
  vo_close :: "int \<Rightarrow> 'w \<Rightarrow> 'w"
  vo_ioctl :: "int \<Rightarrow> ioctl_request \<Rightarrow> 'w \<Rightarrow> ioctl_outcome \<times> 'w"
  vo_enumFormat :: "int \<Rightarrow> nat \<Rightarrow> 'w \<Rightarrow> enum_outcome \<times> 'w"
  vo_mmap :: "int \<Rightarrow> u32 \<Rightarrow> u32 \<Rightarrow> 'w \<Rightarrow> (string + int) \<times> 'w"
  vo_munmap :: "int \<Rightarrow> u32 \<Rightarrow> 'w \<Rightarrow> 'w"
  vo_poll :: "int \<Rightarrow> int \<Rightarrow> 'w \<Rightarrow> poll_outcome \<times> 'w"
  vo_dequeue :: "int \<Rightarrow> 'w \<Rightarrow> (string + dequeued_buffer) \<times> 'w"
  vo_memory :: "int \<Rightarrow> nat \<Rightarrow> 'w \<Rightarrow> bytes"
  vo_read :: "int \<Rightarrow> nat \<Rightarrow> 'w \<Rightarrow> (string + bytes) \<times> 'w"

subsection \<open>V4L2Types.cpp and V4L2Error.h\<close>

definition fourccToString :: "u32 \<Rightarrow> string" where
  "fourccToString code =
     takeWhile (\<lambda>c. c \<noteq> char_of (0 :: nat))
       (map (\<lambda>i. char_of (unat (drop_bit (8 * i) code AND 0xff))) [0, 1, 2, 3])"

definition hasCapability :: "u32 \<Rightarrow> u32 \<Rightarrow> bool" where
  "hasCapability caps flag \<longleftrightarrow> caps AND flag = flag"

text \<open>\<open>find\<close> other than \<open>npos\<close>: the text occurs in the string.\<close>

fun contains_text :: "string \<Rightarrow> string \<Rightarrow> bool" where
  "contains_text needle [] = (needle = [])"
| "contains_text needle (c # cs) = (startsWith (c # cs) needle \<or> contains_text needle cs)"

definition openFailedCodeForPath :: "string \<Rightarrow> ErrorCode" where
  "openFailedCodeForPath path =
     (if contains_text ''video0'' path then CompositeCameraOpenFailed else IoError)"

subsection \<open>V4L2Device.cpp\<close>

record MappedBuffer =
  mb_start :: int
  mb_length :: u32

record V4L2Device =
  vd_fd :: int
  vd_path :: string
  vd_buffers :: "MappedBuffer list"
  vd_streaming :: bool

definition new_v4l2 :: V4L2Device where
  "new_v4l2 = \<lparr>vd_fd = -1, vd_path = [], vd_buffers = [], vd_streaming = False\<rparr>"

definition vd_isOpen :: "V4L2Device \<Rightarrow> bool" where
  "vd_isOpen d \<longleftrightarrow> 0 \<le> vd_fd d"

text \<open>The loop of \<open>xioctl\<close>, which repeats an interrupted call.\<close>

partial_function (option) ioctl_loop ::
  "'w video_os \<Rightarrow> int \<Rightarrow> ioctl_request \<Rightarrow> 'w \<Rightarrow> ((string + ioctl_reply) \<times> 'w) option" where
  "ioctl_loop os fd req w =
     (case vo_ioctl os fd req w of
        (r, w) \<Rightarrow>
          (case r of
             IoctlInterrupted \<Rightarrow> ioctl_loop os fd req w
           | IoctlFailed e \<Rightarrow> Some (Inl e, w)
           | IoctlDone reply \<Rightarrow> Some (Inr reply, w)))"

definition xioctl ::
  "'w video_os \<Rightarrow> ioctl_request \<Rightarrow> ErrorCode \<Rightarrow> V4L2Device \<Rightarrow> 'w \<Rightarrow>
     (ioctl_reply Result \<times> 'w) option" where
  "xioctl os req code d w =
     (if vd_fd d < 0 then Some (Error NotInitialized ''V4L2 device not open'', w)
      else do { (r, w) \<leftarrow> ioctl_loop os (vd_fd d) req w;
                Some (case r of
                        Inl e \<Rightarrow> (Error code (''ioctl failed: '' @ e), w)
                      | Inr reply \<Rightarrow> (Inr reply, w)) })"

definition stopStream ::
  "'w video_os \<Rightarrow> V4L2Device \<Rightarrow> 'w \<Rightarrow> (unit Result \<times> V4L2Device \<times> 'w) option" where
  "stopStream os d w =
     (if \<not> vd_streaming d then Some (Success, d, w)
      else do { (r, w) \<leftarrow> xioctl os StreamOff IoError d w;
                Some (map_sum id (\<lambda>_. ()) r, d\<lparr>vd_streaming := False\<rparr>, w) })"

definition openDevice ::
  "'w video_os \<Rightarrow> string \<Rightarrow> bool \<Rightarrow> V4L2Device \<Rightarrow> 'w \<Rightarrow> unit Result \<times> V4L2Device \<times> 'w" where
  "openDevice os path nonBlock d w =
     (if vd_isOpen d
      then (Error AlreadyInitialized (''V4L2 device already open: '' @ vd_path d), d, w)
      else if path = [] then (Error InvalidArgument ''empty V4L2 device path'', d, w)
      else case vo_open os path (if nonBlock then ReadWriteNonBlock else ReadWrite) w of
        (Inl e, w) \<Rightarrow>
          (Error (openFailedCodeForPath path) (''open '' @ path @ '': '' @ e), d\<lparr>vd_fd := -1\<rparr>, w)
      | (Inr fd, w) \<Rightarrow> (Success, d\<lparr>vd_fd := fd, vd_path := path\<rparr>, w))"

definition unmap_all :: "'w video_os \<Rightarrow> MappedBuffer list \<Rightarrow> 'w \<Rightarrow> 'w" where
  "unmap_all os bs w =
     fold (\<lambda>b w. if mb_start b \<noteq> 0 \<and> 0 < mb_length b then vo_munmap os (mb_start b) (mb_length b) w
                 else w) bs w"

definition closeDevice :: "'w video_os \<Rightarrow> V4L2Device \<Rightarrow> 'w \<Rightarrow> (V4L2Device \<times> 'w) option" where
  "closeDevice os d w =
     do { (d, w) \<leftarrow> (if vd_streaming d
                     then map_option snd (stopStream os d w) else Some (d, w));
          let w = unmap_all os (vd_buffers d) w;
          let w = (if 0 \<le> vd_fd d then vo_close os (vd_fd d) w else w);
          Some (d\<lparr>vd_buffers := [], vd_fd := -1, vd_path := []\<rparr>, w) }"

record V4L2CapabilityInfo =
  ci_driver :: string
  ci_card :: string
  ci_busInfo :: string
  ci_capabilities :: u32
  ci_deviceCaps :: u32

definition queryCapability ::
  "'w video_os \<Rightarrow> V4L2Device \<Rightarrow> 'w \<Rightarrow> (V4L2CapabilityInfo Result \<times> 'w) option" where
  "queryCapability os d w =
     do { (r, w) \<leftarrow> xioctl os QueryCap IoError d w;
          Some (case r of
                  Inl e \<Rightarrow> (rewrap e, w)
                | Inr c \<Rightarrow>
                    (Inr \<lparr>ci_driver = ir_driver c, ci_card = ir_card c, ci_busInfo = ir_busInfo c,
                          ci_capabilities = ir_capabilities c, ci_deviceCaps = ir_deviceCaps c\<rparr>, w)) }"

partial_function (option) enum_loop ::
  "'w video_os \<Rightarrow> int \<Rightarrow> nat \<Rightarrow> V4L2FormatDesc list \<Rightarrow> 'w \<Rightarrow>
     (V4L2FormatDesc list Result \<times> 'w) option" where
  "enum_loop os fd index out w =
     (case vo_enumFormat os fd index w of
        (r, w) \<Rightarrow>
          (case r of
             EnumEnd \<Rightarrow> Some (Inr out, w)
           | EnumFailed e \<Rightarrow> Some (Error IoError (''VIDIOC_ENUM_FMT: '' @ e), w)
           | EnumFormat desc \<Rightarrow> enum_loop os fd (index + 1) (out @ [desc]) w))"

definition enumFormats ::
  "'w video_os \<Rightarrow> V4L2Device \<Rightarrow> 'w \<Rightarrow> (V4L2FormatDesc list Result \<times> 'w) option" where
  "enumFormats os d w =
     (if vd_fd d < 0 then Some (Error NotInitialized ''V4L2 device not open'', w)
      else enum_loop os (vd_fd d) 0 [] w)"

definition setFrameRate :: "'w video_os \<Rightarrow> u32 \<Rightarrow> V4L2Device \<Rightarrow> 'w \<Rightarrow> (unit Result \<times> 'w) option" where
  "setFrameRate os fps d w =
     (if fps = 0 then Some (Error InvalidArgument ''fps is zero'', w)
      else do { (r, w) \<leftarrow> xioctl os (SetParm fps) IoError d w;
                Some (map_sum id (\<lambda>_. ()) r, w) })"

definition setFormat ::
  "'w video_os \<Rightarrow> CaptureFormat \<Rightarrow> V4L2Device \<Rightarrow> 'w \<Rightarrow> (unit Result \<times> 'w) option" where
  "setFormat os fmt d w =
     (if cf_width fmt = 0 \<or> cf_height fmt = 0 \<or> cf_fps fmt = 0
      then Some (Error InvalidArgument ''invalid V4L2 capture format'', w)
      else do { (r, w) \<leftarrow> xioctl os (SetFmt (cf_width fmt) (cf_height fmt) (cf_pixelformat fmt))
                            IoError d w;
                (case r of
                   Inl e \<Rightarrow> Some (Inl e, w)
                 | Inr f \<Rightarrow>
                     if ir_pixelformat f \<noteq> cf_pixelformat fmt
                     then Some (Error Unsupported (''driver changed pixel format to '' @
                                  fourccToString (ir_pixelformat f)), w)
                     else setFrameRate os (cf_fps fmt) d w) })"

definition getFormat ::
  "'w video_os \<Rightarrow> V4L2Device \<Rightarrow> 'w \<Rightarrow> (CaptureFormat Result \<times> 'w) option" where
  "getFormat os d w =
     do { (r, w) \<leftarrow> xioctl os GetFmt IoError d w;
          Some (case r of
                  Inl e \<Rightarrow> (rewrap e, w)
                | Inr f \<Rightarrow>
                    (Inr \<lparr>cf_width = ir_width f, cf_height = ir_height f,
                          cf_pixelformat = ir_pixelformat f, cf_fps = 0\<rparr>, w)) }"

definition enqueueBuffer ::
  "'w video_os \<Rightarrow> nat \<Rightarrow> V4L2Device \<Rightarrow> 'w \<Rightarrow> (unit Result \<times> 'w) option" where
  "enqueueBuffer os index d w =
     (if length (vd_buffers d) \<le> index
      then Some (Error InvalidArgument ''invalid V4L2 buffer index'', w)
      else do { (r, w) \<leftarrow> xioctl os (QBuf index) IoError d w;
                Some (map_sum id (\<lambda>_. ()) r, w) })"

text \<open>The loop of \<open>requestBuffers\<close> over the buffers still to be mapped and queued.\<close>

fun map_buffers ::
  "'w video_os \<Rightarrow> nat list \<Rightarrow> V4L2Device \<Rightarrow> 'w \<Rightarrow> (unit Result \<times> V4L2Device \<times> 'w) option" where
  "map_buffers os [] d w = Some (Success, d, w)"
| "map_buffers os (i # is) d w =
     do { (r, w) \<leftarrow> xioctl os (QueryBuf i) IoError d w;
          (case r of
             Inl e \<Rightarrow> Some (Inl e, d, w)
           | Inr buf \<Rightarrow>
               (case vo_mmap os (vd_fd d) (ir_length buf) (ir_offset buf) w of
                  (Inl e, w) \<Rightarrow> Some (Error IoError (''mmap: '' @ e), d, w)
                | (Inr start, w) \<Rightarrow>
                    let d = d\<lparr>vd_buffers := (vd_buffers d)
                               [i := \<lparr>mb_start = start, mb_length = ir_length buf\<rparr>]\<rparr> in
                    do { (q, w) \<leftarrow> enqueueBuffer os i d w;
                         (case q of
                            Inl e \<Rightarrow> Some (Inl e, d, w)
                          | Inr _ \<Rightarrow> map_buffers os is d w) })) }"

definition resize_buffers :: "nat \<Rightarrow> MappedBuffer list \<Rightarrow> MappedBuffer list" where
  "resize_buffers n bs = take n bs @ replicate (n - length bs) \<lparr>mb_start = 0, mb_length = 0\<rparr>"

definition requestBuffers ::
  "'w video_os \<Rightarrow> u32 \<Rightarrow> V4L2Device \<Rightarrow> 'w \<Rightarrow> (unit Result \<times> V4L2Device \<times> 'w) option" where
  "requestBuffers os count d w =
     (if count < 2
      then Some (Error InvalidArgument ''V4L2 buffer count must be >= 2'', d, w)
      else do { (r, w) \<leftarrow> xioctl os (ReqBufs count) IoError d w;
                (case r of
                   Inl e \<Rightarrow> Some (Inl e, d, w)
                 | Inr req \<Rightarrow>
                     if ir_count req < 2
                     then Some (Error InternalError ''insufficient V4L2 buffers returned by driver'',
                                d, w)
                     else let n = unat (ir_count req) in
                       map_buffers os [0..<n] (d\<lparr>vd_buffers := resize_buffers n (vd_buffers d)\<rparr>) w) })"

definition startStream ::
  "'w video_os \<Rightarrow> V4L2Device \<Rightarrow> 'w \<Rightarrow> (unit Result \<times> V4L2Device \<times> 'w) option" where
  "startStream os d w =
     (if vd_streaming d then Some (Success, d, w)
      else do { (r, w) \<leftarrow> xioctl os StreamOn IoError d w;
                Some (case r of
                        Inl e \<Rightarrow> (Inl e, d, w)
                      | Inr _ \<Rightarrow> (Success, d\<lparr>vd_streaming := True\<rparr>, w)) })"

record V4L2BufferView =
  bv_index :: nat
  bv_data :: int
  bv_bytesUsed :: u32
  bv_length :: u32

definition dequeueBuffer ::
  "'w video_os \<Rightarrow> int \<Rightarrow> V4L2Device \<Rightarrow> 'w \<Rightarrow> V4L2BufferView Result \<times> 'w" where
  "dequeueBuffer os timeoutMs d w =
     (if \<not> vd_streaming d then (Error NotInitialized ''V4L2 stream not started'', w)
      else case vo_poll os (vd_fd d) timeoutMs w of
        (PollTimeout, w) \<Rightarrow> (Error Timeout ''V4L2 dequeue timeout'', w)
      | (PollFailed e, w) \<Rightarrow> (Error IoError (''poll: '' @ e), w)
      | (PollReady, w) \<Rightarrow>
          (case vo_dequeue os (vd_fd d) w of
             (Inl e, w) \<Rightarrow> (Error IoError (''VIDIOC_DQBUF: '' @ e), w)
           | (Inr buf, w) \<Rightarrow>
               if length (vd_buffers d) \<le> dq_index buf
               then (Error InternalError ''invalid V4L2 buffer index'', w)
               else (Inr \<lparr>bv_index = dq_index buf, bv_data = mb_start (vd_buffers d ! dq_index buf),
                          bv_bytesUsed = dq_bytesUsed buf,
                          bv_length = mb_length (vd_buffers d ! dq_index buf)\<rparr>, w)))"

text \<open>A streaming device is open, and a closed one holds no mapping.\<close>

definition vd_inv :: "V4L2Device \<Rightarrow> bool" where
  "vd_inv d \<longleftrightarrow> (vd_streaming d \<longrightarrow> vd_isOpen d) \<and> (\<not> vd_isOpen d \<longrightarrow> vd_buffers d = [])"

lemma vd_inv_new: "vd_inv new_v4l2"
  by (simp add: vd_inv_def new_v4l2_def)

lemma vd_inv_close:
  assumes "closeDevice os d w = Some (d', w')"
  shows "vd_inv d' \<and> \<not> vd_isOpen d' \<and> vd_buffers d' = [] \<and> \<not> vd_streaming d'"
  using assms
  by (auto simp: closeDevice_def vd_inv_def vd_isOpen_def stopStream_def Let_def
      elim!: bind_SomeE split: if_splits)

lemma vd_inv_start: "startStream os d w = Some (r, d', w') \<Longrightarrow> vd_inv d \<Longrightarrow> vd_inv d'"
  by (auto simp: startStream_def xioctl_def vd_inv_def vd_isOpen_def
      elim!: bind_SomeE split: if_splits sum.split_asm)

lemma startStream_open:
  "startStream os d w = Some (Success, d', w') \<Longrightarrow> vd_inv d \<Longrightarrow>
     d' = d\<lparr>vd_streaming := True\<rparr> \<and> vd_isOpen d"
  by (auto simp: startStream_def xioctl_def vd_inv_def vd_isOpen_def
      elim!: bind_SomeE split: if_splits sum.split_asm)

lemma stopStream_effect:
  "stopStream os d w = Some (r, d', w') \<Longrightarrow> d' = d\<lparr>vd_streaming := False\<rparr>"
  by (auto simp: stopStream_def elim!: bind_SomeE split: if_splits)

lemma map_buffers_keeps:
  "map_buffers os is d w = Some (r, d', w') \<Longrightarrow>
     vd_fd d' = vd_fd d \<and> vd_path d' = vd_path d \<and> vd_streaming d' = vd_streaming d \<and>
     length (vd_buffers d') = length (vd_buffers d)"
  by (induction os "is" d w rule: map_buffers.induct)
     (fastforce simp: Let_def elim!: bind_SomeE split: sum.split_asm prod.split_asm)+

lemma requestBuffers_keeps:
  assumes "requestBuffers os n d w = Some (r, d', w')"
  shows "vd_fd d' = vd_fd d \<and> vd_streaming d' = vd_streaming d"
    and "result_ok r \<Longrightarrow> 2 \<le> length (vd_buffers d')"
proof -
  show "vd_fd d' = vd_fd d \<and> vd_streaming d' = vd_streaming d"
    using assms by (auto simp: requestBuffers_def Let_def elim!: bind_SomeE
        split: if_splits sum.split_asm dest!: map_buffers_keeps)
  assume "result_ok r"
  with assms show "2 \<le> length (vd_buffers d')"
    by (auto simp: requestBuffers_def resize_buffers_def Let_def word_less_nat_alt not_less
        elim!: bind_SomeE split: if_splits sum.split_asm dest!: map_buffers_keeps)
qed

lemma openDevice_effect:
  "openDevice os path nb d w = (r, d', w') \<Longrightarrow> vd_inv d \<Longrightarrow> \<not> vd_isOpen d \<Longrightarrow>
     vd_streaming d' = False \<and> vd_buffers d' = []"
  by (auto simp: openDevice_def vd_inv_def split: if_splits sum.split_asm prod.split_asm)

end
