(* ===== verification/Tri_Cameras.thy ===== *)
theory Tri_Cameras
  imports Tri_Video Tri_Events
begin

text \<open>
  The cameras: UVC nodes and the metadata reader (hardware/uvc), the visible and the composite
  camera device (device/VisibleCameraDevice.cpp, CompositeLowThermalCameraDevice.cpp). The two device
  classes differ in their messages and in the metadata node of the composite one; what they have in
  common is defined once, with the label of the class as an argument.
\<close>

subsection \<open>UvcDevice.cpp and UvcMetadataReader.cpp\<close>

datatype UvcNodeKind = Unknown | VideoCapture | MetadataCapture

fun toString_UvcNodeKind :: "UvcNodeKind \<Rightarrow> string" where
  "toString_UvcNodeKind VideoCapture = ''video_capture''"
| "toString_UvcNodeKind MetadataCapture = ''metadata_capture''"
| "toString_UvcNodeKind UvcNodeKind.Unknown = ''unknown''"

record UvcNodeInfo =
  un_path :: string
  un_kind :: UvcNodeKind
  un_driver :: string
  un_card :: string
  un_busInfo :: string
  un_capabilities :: u32
  un_deviceCaps :: u32

text \<open>The capability bits of linux/videodev2.h.\<close>

definition V4L2_CAP_DEVICE_CAPS :: u32 where "V4L2_CAP_DEVICE_CAPS = 0x80000000"
definition V4L2_CAP_META_CAPTURE :: u32 where "V4L2_CAP_META_CAPTURE = 0x00800000"
definition V4L2_CAP_VIDEO_CAPTURE :: u32 where "V4L2_CAP_VIDEO_CAPTURE = 0x00000001"

definition effectiveCaps :: "ioctl_reply \<Rightarrow> u32" where
  "effectiveCaps cap =
     (if ir_capabilities cap AND V4L2_CAP_DEVICE_CAPS \<noteq> 0 then ir_deviceCaps cap
      else ir_capabilities cap)"

text \<open>The inspection calls ioctl once; the text of an interrupted call is strerror(EINTR).\<close>

definition inspectNode :: "'w video_os \<Rightarrow> string \<Rightarrow> 'w \<Rightarrow> UvcNodeInfo Result \<times> 'w" where
  "inspectNode os path w =
     (if path = [] then (Error InvalidArgument ''empty UVC node path'', w)
      else case vo_open os path ReadWriteNonBlock w of
        (Inl e, w) \<Rightarrow> (Error IoError (''open '' @ path @ '': '' @ e), w)
      | (Inr fd, w) \<Rightarrow>
          (case vo_ioctl os fd QueryCap w of
             (IoctlInterrupted, w) \<Rightarrow>
               (Error IoError (''VIDIOC_QUERYCAP '' @ path @ '': Interrupted system call''),
                vo_close os fd w)
           | (IoctlFailed e, w) \<Rightarrow>
               (Error IoError (''VIDIOC_QUERYCAP '' @ path @ '': '' @ e), vo_close os fd w)
           | (IoctlDone cap, w) \<Rightarrow>
               (Inr \<lparr>un_path = path,
                     un_kind =
                       (if effectiveCaps cap AND V4L2_CAP_META_CAPTURE \<noteq> 0 then MetadataCapture
                        else if effectiveCaps cap AND V4L2_CAP_VIDEO_CAPTURE \<noteq> 0 then VideoCapture
                        else UvcNodeKind.Unknown),
                     un_driver = ir_driver cap, un_card = ir_card cap, un_busInfo = ir_busInfo cap,
                     un_capabilities = ir_capabilities cap, un_deviceCaps = ir_deviceCaps cap\<rparr>,
                vo_close os fd w)))"

definition isVideoCaptureNode :: "UvcNodeInfo \<Rightarrow> bool" where
  "isVideoCaptureNode info \<longleftrightarrow> un_kind info = VideoCapture"

definition isMetadataNode :: "UvcNodeInfo \<Rightarrow> bool" where
  "isMetadataNode info \<longleftrightarrow> un_kind info = MetadataCapture"

record UvcMetadataReader =
  ur_fd :: int
  ur_path :: string

definition new_reader :: UvcMetadataReader where
  "new_reader = \<lparr>ur_fd = -1, ur_path = []\<rparr>"

definition ur_isOpen :: "UvcMetadataReader \<Rightarrow> bool" where
  "ur_isOpen r \<longleftrightarrow> 0 \<le> ur_fd r"

definition openNode ::
  "'w video_os \<Rightarrow> string \<Rightarrow> UvcMetadataReader \<Rightarrow> 'w \<Rightarrow> unit Result \<times> UvcMetadataReader \<times> 'w" where
  "openNode os path r w =
     (if ur_isOpen r then (Error AlreadyInitialized ''metadata node already open'', r, w)
      else if path = [] then (Error InvalidArgument ''empty metadata node path'', r, w)
      else case vo_open os path ReadOnlyNonBlock w of
        (Inl e, w) \<Rightarrow>
          (Error CompositeMetadataOpenFailed (''open '' @ path @ '': '' @ e), r\<lparr>ur_fd := -1\<rparr>, w)
      | (Inr fd, w) \<Rightarrow> (Success, \<lparr>ur_fd = fd, ur_path = path\<rparr>, w))"

definition closeNode :: "'w video_os \<Rightarrow> UvcMetadataReader \<Rightarrow> 'w \<Rightarrow> UvcMetadataReader \<times> 'w" where
  "closeNode os r w = (\<lparr>ur_fd = -1, ur_path = []\<rparr>, if 0 \<le> ur_fd r then vo_close os (ur_fd r) w else w)"

record UvcMetadataPacket =
  up_bytes :: bytes
  up_timestampMs :: int

definition readPacket ::
  "'w video_os \<Rightarrow> int \<Rightarrow> int \<Rightarrow> nat \<Rightarrow> UvcMetadataReader \<Rightarrow> 'w \<Rightarrow>
     UvcMetadataPacket Result \<times> 'w" where
  "readPacket os now timeoutMs maxBytes r w =
     (if ur_fd r < 0 then (Error NotInitialized ''metadata node not open'', w)
      else if maxBytes = 0 then (Error InvalidArgument ''maxBytes is zero'', w)
      else case vo_poll os (ur_fd r) timeoutMs w of
        (PollTimeout, w) \<Rightarrow> (Error Timeout ''metadata read timeout'', w)
      | (PollFailed e, w) \<Rightarrow> (Error IoError (''metadata poll: '' @ e), w)
      | (PollReady, w) \<Rightarrow>
          (case vo_read os (ur_fd r) maxBytes w of
             (Inl e, w) \<Rightarrow> (Error IoError (''metadata read: '' @ e), w)
           | (Inr bs, w) \<Rightarrow> (Inr \<lparr>up_bytes = take maxBytes bs, up_timestampMs = now\<rparr>, w)))"

subsection \<open>State of a camera device\<close>

record CameraStatus =
  cam_id :: CameraId
  cam_kind :: CameraKind
  cam_state :: CameraLifecycleState
  cam_enabled :: bool
  cam_configured :: bool
  cam_opened :: bool
  cam_streaming :: bool
  cam_online :: bool
  cam_metadataAvailable :: bool
  cam_framesRead :: u64
  cam_metadataPacketsRead :: u64
  cam_droppedFrames :: u64
  cam_lastErrorCode :: ErrorCode
  cam_lastErrorMessage :: string

definition default_status :: CameraStatus where
  "default_status =
     \<lparr>cam_id = Visible, cam_kind = VisibleUvc, cam_state = Uninitialized, cam_enabled = False,
      cam_configured = False, cam_opened = False, cam_streaming = False, cam_online = False,
      cam_metadataAvailable = False, cam_framesRead = 0, cam_metadataPacketsRead = 0,
      cam_droppedFrames = 0, cam_lastErrorCode = Ok, cam_lastErrorMessage = []\<rparr>"

record CameraCapability =
  cap_name :: string
  cap_videoNode :: string
  cap_metadataNode :: string
  cap_driver :: string
  cap_card :: string
  cap_busInfo :: string
  cap_formats :: "V4L2FormatDesc list"
  cap_configuredFormat :: CaptureFormat
  cap_hasVideoNode :: bool
  cap_hasMetadataNode :: bool

definition default_capability :: CameraCapability where
  "default_capability =
     \<lparr>cap_name = [], cap_videoNode = [], cap_metadataNode = [], cap_driver = [], cap_card = [],
      cap_busInfo = [], cap_formats = [], cap_configuredFormat = default_capture_format,
      cap_hasVideoNode = False, cap_hasMetadataNode = False\<rparr>"

record CameraDevice =
  dev_config :: CameraEndpointConfig
  dev_captureFormat :: CaptureFormat
  dev_v4l2 :: V4L2Device
  dev_metadataReader :: UvcMetadataReader
  dev_capability :: CameraCapability
  dev_status :: CameraStatus
  dev_sequence :: u64

definition new_camera :: CameraDevice where
  "new_camera =
     \<lparr>dev_config = default_endpoint, dev_captureFormat = default_capture_format,
      dev_v4l2 = new_v4l2, dev_metadataReader = new_reader, dev_capability = default_capability,
      dev_status = default_status, dev_sequence = 0\<rparr>"

abbreviation set_status :: "CameraDevice \<Rightarrow> (CameraStatus \<Rightarrow> CameraStatus) \<Rightarrow> CameraDevice" where
  "set_status d f \<equiv> d\<lparr>dev_status := f (dev_status d)\<rparr>"

definition rememberError :: "ErrorCode \<Rightarrow> string \<Rightarrow> CameraDevice \<Rightarrow> 'a Result \<times> CameraDevice" where
  "rememberError code message d =
     (Error code message,
      set_status d (\<lambda>s. s\<lparr>cam_state := CameraError, cam_lastErrorCode := code,
                         cam_lastErrorMessage := message\<rparr>))"

definition clearError :: "CameraDevice \<Rightarrow> CameraDevice" where
  "clearError d = set_status d (\<lambda>s. s\<lparr>cam_lastErrorCode := Ok, cam_lastErrorMessage := []\<rparr>)"

abbreviation camera_fail :: "Status \<Rightarrow> CameraDevice \<Rightarrow> 'w \<Rightarrow> 'a Result \<times> CameraDevice \<times> 'w" where
  "camera_fail e d w \<equiv>
     (case rememberError (st_code e) (describe e) d of (r, d) \<Rightarrow> (r, d, w))"

subsection \<open>Operations the two classes share\<close>

definition camera_init ::
  "CameraId \<Rightarrow> CameraKind \<Rightarrow> CameraCapability \<Rightarrow> CameraEndpointConfig \<Rightarrow> CameraDevice \<Rightarrow>
     unit Result \<times> CameraDevice" where
  "camera_init cid kind capability config d =
     (let d = d\<lparr>dev_config := config,
                dev_status := default_status\<lparr>cam_id := cid, cam_kind := kind,
                  cam_enabled := ep_enable config\<rparr>,
                dev_capability := capability\<rparr>
      in if \<not> ep_enable config
         then (Success, set_status d (\<lambda>s. s\<lparr>cam_state := Initialized, cam_configured := True\<rparr>))
         else case makeCaptureFormat config of
           Inl e \<Rightarrow> rememberError (st_code e) (describe e) d
         | Inr fmt \<Rightarrow>
             let d = d\<lparr>dev_captureFormat := fmt,
                       dev_capability := (dev_capability d)\<lparr>cap_configuredFormat := fmt\<rparr>\<rparr>
             in (Success, clearError (set_status d (\<lambda>s. s\<lparr>cam_configured := True,
                                                           cam_state := Initialized\<rparr>))))"

text \<open>\<open>open()\<close>: what follows a successful \<open>openDevice\<close>, and the whole up to the opened state. On a
  failed set-up the device is closed again.\<close>

definition noteDriver :: "V4L2CapabilityInfo Result \<Rightarrow> CameraCapability \<Rightarrow> CameraCapability" where
  "noteDriver cap cb =
     (case cap of
        Inl _ \<Rightarrow> cb
      | Inr c \<Rightarrow> cb\<lparr>cap_driver := ci_driver c, cap_card := ci_card c, cap_busInfo := ci_busInfo c\<rparr>)"

definition noteFormats :: "V4L2FormatDesc list Result \<Rightarrow> CameraCapability \<Rightarrow> CameraCapability" where
  "noteFormats formats cb = (case formats of Inl _ \<Rightarrow> cb | Inr fs \<Rightarrow> cb\<lparr>cap_formats := fs\<rparr>)"

definition setup_opened ::
  "'w video_os \<Rightarrow> CameraDevice \<Rightarrow> V4L2Device \<Rightarrow> 'w \<Rightarrow> (unit Result \<times> CameraDevice \<times> 'w) option" where
  "setup_opened os d v w =
     do { (cap, w) \<leftarrow> queryCapability os v w;
          (formats, w) \<leftarrow> enumFormats os v w;
          let d = d\<lparr>dev_capability := noteFormats formats (noteDriver cap (dev_capability d))\<rparr>;
          (r, w) \<leftarrow> setFormat os (dev_captureFormat d) v w;
          (case r of
             Inl e \<Rightarrow>
               do { (v, w) \<leftarrow> closeDevice os v w;
                    Some (camera_fail e (d\<lparr>dev_v4l2 := v\<rparr>) w) }
           | Inr _ \<Rightarrow>
               do { (r, v, w) \<leftarrow> requestBuffers os 4 v w;
                    (case r of
                       Inl e \<Rightarrow>
                         do { (v, w) \<leftarrow> closeDevice os v w;
                              Some (camera_fail e (d\<lparr>dev_v4l2 := v\<rparr>) w) }
                     | Inr _ \<Rightarrow>
                         let d = d\<lparr>dev_v4l2 := v, dev_capability :=
                                     (dev_capability d)\<lparr>cap_hasVideoNode := True\<rparr>\<rparr>
                         in Some (Success, clearError (set_status d (\<lambda>s. s\<lparr>cam_opened := True,
                              cam_online := True, cam_state := Opened\<rparr>)), w)) }) }"

definition camera_open ::
  "string \<Rightarrow> 'w video_os \<Rightarrow> CameraDevice \<Rightarrow> 'w \<Rightarrow> (unit Result \<times> CameraDevice \<times> 'w) option" where
  "camera_open label os d w =
     (let path = ep_videoNode (dev_config d); st = dev_status d in
      if \<not> cam_configured st
      then Some (camera_fail (status_error NotInitialized (label @ '' camera is not initialized'')) d w)
      else if \<not> cam_enabled st
      then Some (camera_fail (status_error InvalidArgument (label @ '' camera is disabled'')) d w)
      else if vd_isOpen (dev_v4l2 d) then Some (Success, d, w)
      else (case inspectNode os path w of
        (Inl e, w) \<Rightarrow> Some (camera_fail e d w)
      | (Inr info, w) \<Rightarrow>
          if \<not> isVideoCaptureNode info
          then Some (camera_fail (status_error Unsupported
                       (path @ '' is not a UVC video capture node'')) d w)
          else (case openDevice os path False (dev_v4l2 d) w of
                  (Inl e, v, w) \<Rightarrow> Some (camera_fail e (d\<lparr>dev_v4l2 := v\<rparr>) w)
                | (Inr _, v, w) \<Rightarrow> setup_opened os (d\<lparr>dev_v4l2 := v\<rparr>) v w)))"

text \<open>\<open>start()\<close>, over the class's own \<open>open()\<close>.\<close>

definition camera_start ::
  "(CameraDevice \<Rightarrow> 'w \<Rightarrow> (unit Result \<times> CameraDevice \<times> 'w) option) \<Rightarrow> 'w video_os \<Rightarrow>
     CameraDevice \<Rightarrow> 'w \<Rightarrow> (unit Result \<times> CameraDevice \<times> 'w) option" where
  "camera_start opn os d w =
     do { (r, d, w) \<leftarrow> (if \<not> vd_isOpen (dev_v4l2 d) then opn d w else Some (Success, d, w));
          (case r of
             Inl e \<Rightarrow> Some (Inl e, d, w)
           | Inr _ \<Rightarrow>
               do { (r, v, w) \<leftarrow> startStream os (dev_v4l2 d) w;
                    let d = d\<lparr>dev_v4l2 := v\<rparr>;
                    Some (case r of
                            Inl e \<Rightarrow> camera_fail e d w
                          | Inr _ \<Rightarrow> (Success, clearError (set_status d (\<lambda>s. s\<lparr>cam_streaming := True,
                                                cam_state := Streaming\<rparr>)), w)) }) }"

definition camera_stop ::
  "'w video_os \<Rightarrow> CameraDevice \<Rightarrow> 'w \<Rightarrow> (unit Result \<times> CameraDevice \<times> 'w) option" where
  "camera_stop os d w =
     (if \<not> vd_isOpen (dev_v4l2 d) then Some (Success, d, w)
      else do { (r, v, w) \<leftarrow> stopStream os (dev_v4l2 d) w;
                let d = set_status (d\<lparr>dev_v4l2 := v\<rparr>) (\<lambda>s. s\<lparr>cam_streaming := False,
                          cam_state := (if cam_opened s then Opened else Initialized)\<rparr>);
                Some (case r of Inl e \<Rightarrow> camera_fail e d w | Inr _ \<Rightarrow> (Success, d, w)) })"

definition camera_close ::
  "'w video_os \<Rightarrow> CameraDevice \<Rightarrow> 'w \<Rightarrow> (CameraDevice \<times> 'w) option" where
  "camera_close os d w =
     do { (d, w) \<leftarrow> (if vd_isOpen (dev_v4l2 d)
                     then do { (_, d, w) \<leftarrow> camera_stop os d w;
                               (v, w) \<leftarrow> closeDevice os (dev_v4l2 d) w;
                               Some (d\<lparr>dev_v4l2 := v\<rparr>, w) }
                     else Some (d, w));
          Some (set_status d (\<lambda>s. s\<lparr>cam_opened := False, cam_streaming := False, cam_online := False,
                  cam_state := (if cam_configured s then Initialized else Uninitialized)\<rparr>), w) }"

text \<open>\<open>readFrame\<close>, with what the class does to the frame before the buffer goes back to the driver.
  The bytes of the frame are \<open>bytesUsed\<close> bytes of the mapped buffer, zero where nothing is mapped.\<close>

definition copy_buffer :: "'w video_os \<Rightarrow> V4L2BufferView \<Rightarrow> 'w \<Rightarrow> bytes" where
  "copy_buffer os view w =
     (let n = unat (bv_bytesUsed view);
          m = (if 0 < n \<and> bv_data view \<noteq> 0 then take n (vo_memory os (bv_data view) n w) else [])
      in m @ replicate (n - length m) 0)"

definition camera_readFrame ::
  "string \<Rightarrow> CameraId \<Rightarrow> (CameraFrame \<Rightarrow> CameraDevice \<Rightarrow> 'w \<Rightarrow> CameraFrame \<times> CameraDevice \<times> 'w) \<Rightarrow>
     'w video_os \<Rightarrow> int \<Rightarrow> int \<Rightarrow> CameraDevice \<Rightarrow> 'w \<Rightarrow>
     (CameraFrame Result \<times> CameraDevice \<times> 'w) option" where
  "camera_readFrame label cid attach os now timeoutMs d w =
     (if \<not> vd_streaming (dev_v4l2 d)
      then Some (Error NotInitialized (label @ '' camera stream is not started''), d, w)
      else case dequeueBuffer os timeoutMs (dev_v4l2 d) w of
        (Inl e, w) \<Rightarrow>
          Some (rewrap e, set_status d (\<lambda>s. s\<lparr>cam_droppedFrames := cam_droppedFrames s + 1,
                  cam_lastErrorCode := st_code e, cam_lastErrorMessage := describe e\<rparr>), w)
      | (Inr view, w) \<Rightarrow>
          let d = d\<lparr>dev_sequence := dev_sequence d + 1\<rparr>;
              frame = \<lparr>cf_cameraId = cid, cf_sequence = dev_sequence d,
                       cf_fwidth = cf_width (dev_captureFormat d),
                       cf_fheight = cf_height (dev_captureFormat d),
                       cf_fpixelformat = cf_pixelformat (dev_captureFormat d),
                       cf_bytes = copy_buffer os view w, cf_receiveTimestampMs = now,
                       cf_metadata = [], cf_metadataTimestampMs = 0\<rparr>
          in case attach frame d w of
               (frame, d, w) \<Rightarrow>
                 do { (r, w) \<leftarrow> enqueueBuffer os (bv_index view) (dev_v4l2 d) w;
                      Some (case r of
                              Inl e \<Rightarrow> (rewrap e, d, w)
                            | Inr _ \<Rightarrow>
                                (Inr frame, clearError (set_status d (\<lambda>s. s\<lparr>cam_framesRead :=
                                   cam_framesRead s + 1\<rparr>)), w)) })"


subsection \<open>VisibleCameraDevice.cpp\<close>

definition visible_init :: "CameraEndpointConfig \<Rightarrow> CameraDevice \<Rightarrow> unit Result \<times> CameraDevice" where
  "visible_init config d =
     camera_init Visible VisibleUvc
       (default_capability\<lparr>cap_name := ep_name config, cap_videoNode := ep_videoNode config\<rparr>) config d"

definition visible_open ::
  "'w video_os \<Rightarrow> CameraDevice \<Rightarrow> 'w \<Rightarrow> (unit Result \<times> CameraDevice \<times> 'w) option" where
  "visible_open os d w = camera_open ''visible'' os d w"

definition visible_start ::
  "'w video_os \<Rightarrow> CameraDevice \<Rightarrow> 'w \<Rightarrow> (unit Result \<times> CameraDevice \<times> 'w) option" where
  "visible_start os d w = camera_start (visible_open os) os d w"

definition visible_readFrame ::
  "'w video_os \<Rightarrow> int \<Rightarrow> int \<Rightarrow> CameraDevice \<Rightarrow> 'w \<Rightarrow>
     (CameraFrame Result \<times> CameraDevice \<times> 'w) option" where
  "visible_readFrame os now timeoutMs d w =
     camera_readFrame ''visible'' Visible (\<lambda>frame d w. (frame, d, w)) os now timeoutMs d w"

definition visible_close :: "'w video_os \<Rightarrow> CameraDevice \<Rightarrow> 'w \<Rightarrow> (CameraDevice \<times> 'w) option" where
  "visible_close os d w = camera_close os d w"

subsection \<open>CompositeLowThermalCameraDevice.cpp\<close>

definition composite_init :: "CameraEndpointConfig \<Rightarrow> CameraDevice \<Rightarrow> unit Result \<times> CameraDevice" where
  "composite_init config d =
     camera_init CompositeLowThermal CompositeLowThermalUvc
       (default_capability\<lparr>cap_name := ep_name config, cap_videoNode := ep_videoNode config,
                           cap_metadataNode := ep_metadataNode config\<rparr>) config d"

definition tryOpenMetadataNode :: "'w video_os \<Rightarrow> CameraDevice \<Rightarrow> 'w \<Rightarrow> CameraDevice \<times> 'w" where
  "tryOpenMetadataNode os d w =
     (let path = ep_metadataNode (dev_config d);
          d = set_status (d\<lparr>dev_capability := (dev_capability d)\<lparr>cap_hasMetadataNode := False\<rparr>\<rparr>)
                (\<lambda>s. s\<lparr>cam_metadataAvailable := False\<rparr>)
      in if path = [] then (d, w)
         else case inspectNode os path w of
           (Inl _, w) \<Rightarrow> (d, w)
         | (Inr info, w) \<Rightarrow>
             if \<not> isMetadataNode info then (d, w)
             else case openNode os path (dev_metadataReader d) w of
               (Inl _, rd, w) \<Rightarrow> (d\<lparr>dev_metadataReader := rd\<rparr>, w)
             | (Inr _, rd, w) \<Rightarrow>
                 (set_status (d\<lparr>dev_metadataReader := rd,
                       dev_capability := (dev_capability d)\<lparr>cap_hasMetadataNode := True\<rparr>\<rparr>)
                    (\<lambda>s. s\<lparr>cam_metadataAvailable := True\<rparr>), w))"

text \<open>An \<open>open()\<close> of an open device returns before the metadata node is tried.\<close>

definition composite_open ::
  "'w video_os \<Rightarrow> CameraDevice \<Rightarrow> 'w \<Rightarrow> (unit Result \<times> CameraDevice \<times> 'w) option" where
  "composite_open os d w =
     do { (r, d', w) \<leftarrow> camera_open ''composite'' os d w;
          Some (if result_ok r \<and> \<not> vd_isOpen (dev_v4l2 d)
                then (case tryOpenMetadataNode os d' w of (d', w) \<Rightarrow> (r, d', w))
                else (r, d', w)) }"

definition composite_start ::
  "'w video_os \<Rightarrow> CameraDevice \<Rightarrow> 'w \<Rightarrow> (unit Result \<times> CameraDevice \<times> 'w) option" where
  "composite_start os d w = camera_start (composite_open os) os d w"

definition tryAttachMetadata ::
  "'w video_os \<Rightarrow> int \<Rightarrow> CameraFrame \<Rightarrow> CameraDevice \<Rightarrow> 'w \<Rightarrow> CameraFrame \<times> CameraDevice \<times> 'w" where
  "tryAttachMetadata os now frame d w =
     (if \<not> cam_metadataAvailable (dev_status d) \<or> \<not> ur_isOpen (dev_metadataReader d)
      then (frame, d, w)
      else case readPacket os now 1 4096 (dev_metadataReader d) w of
        (Inl _, w) \<Rightarrow> (frame, d, w)
      | (Inr pkt, w) \<Rightarrow>
          (frame\<lparr>cf_metadata := up_bytes pkt, cf_metadataTimestampMs := up_timestampMs pkt\<rparr>,
           set_status d (\<lambda>s. s\<lparr>cam_metadataPacketsRead := cam_metadataPacketsRead s + 1\<rparr>), w))"

definition composite_readFrame ::
  "'w video_os \<Rightarrow> int \<Rightarrow> int \<Rightarrow> CameraDevice \<Rightarrow> 'w \<Rightarrow>
     (CameraFrame Result \<times> CameraDevice \<times> 'w) option" where
  "composite_readFrame os now timeoutMs d w =
     camera_readFrame ''composite'' CompositeLowThermal (tryAttachMetadata os now) os now timeoutMs d w"

definition composite_close :: "'w video_os \<Rightarrow> CameraDevice \<Rightarrow> 'w \<Rightarrow> (CameraDevice \<times> 'w) option" where
  "composite_close os d w =
     (case closeNode os (dev_metadataReader d) w of
        (rd, w) \<Rightarrow>
          map_option (\<lambda>(d, w). (set_status d (\<lambda>s. s\<lparr>cam_metadataAvailable := False\<rparr>), w))
            (camera_close os (d\<lparr>dev_metadataReader := rd\<rparr>) w))"

subsection \<open>The status of a camera never claims more than its device\<close>

definition cam_inv :: "CameraDevice \<Rightarrow> bool" where
  "cam_inv d \<longleftrightarrow>
     vd_inv (dev_v4l2 d) \<and>
     (cam_opened (dev_status d) \<longrightarrow> vd_isOpen (dev_v4l2 d)) \<and>
     (cam_streaming (dev_status d) \<longrightarrow> vd_streaming (dev_v4l2 d)) \<and>
     (cam_online (dev_status d) \<longrightarrow> cam_opened (dev_status d)) \<and>
     (cam_state (dev_status d) = Opened \<longrightarrow> cam_opened (dev_status d)) \<and>
     (cam_state (dev_status d) = Streaming \<longrightarrow> cam_streaming (dev_status d))"

lemma cam_inv_new: "cam_inv new_camera"
  by (simp add: cam_inv_def new_camera_def vd_inv_new default_status_def)

lemma cam_inv_rememberError [intro]:
  "cam_inv d \<Longrightarrow> rememberError code msg d = (r, d') \<Longrightarrow> cam_inv d' \<and> dev_v4l2 d' = dev_v4l2 d"
  by (auto simp: rememberError_def cam_inv_def)

lemma rememberError_snd:
  "snd (rememberError code msg d) =
     set_status d (\<lambda>s. s\<lparr>cam_state := CameraError, cam_lastErrorCode := code, cam_lastErrorMessage := msg\<rparr>)"
  "fst (rememberError code msg d) = Error code msg"
  by (simp_all add: rememberError_def)

lemma camera_init_inv: "camera_init cid k cap cfg d = (r, d') \<Longrightarrow> cam_inv d \<Longrightarrow> cam_inv d'"
  by (auto simp: camera_init_def cam_inv_def rememberError_def clearError_def default_status_def
      Let_def split: if_splits sum.splits)

lemma setFormat_open: "setFormat os f v w = Some (Success, w') \<Longrightarrow> vd_isOpen v"
  by (auto simp: setFormat_def xioctl_def vd_isOpen_def elim!: bind_SomeE
      split: if_splits sum.split_asm)

lemma vd_isOpen_cong: "vd_fd a = vd_fd b \<Longrightarrow> vd_isOpen a = vd_isOpen b"
  by (simp add: vd_isOpen_def)

text \<open>A call of \<open>open()\<close> leaves an open device as it was, or ends with a closed device and an
  error, or ends with an open device and the state that says so.\<close>

definition opened_status :: "CameraStatus \<Rightarrow> CameraStatus" where
  "opened_status st = st\<lparr>cam_opened := True, cam_online := True, cam_state := Opened,
                         cam_lastErrorCode := Ok, cam_lastErrorMessage := []\<rparr>"

definition failed_status :: "ErrorCode \<Rightarrow> string \<Rightarrow> CameraStatus \<Rightarrow> CameraStatus" where
  "failed_status c m st =
     st\<lparr>cam_state := CameraError, cam_lastErrorCode := c, cam_lastErrorMessage := m\<rparr>"

lemma setup_opened_cases:
  assumes "setup_opened os d v w = Some (r, d', w')" and "\<not> vd_streaming v" "vd_buffers v = []"
  shows "(\<exists>c m. r = Error c m \<and> vd_inv (dev_v4l2 d') \<and> \<not> vd_isOpen (dev_v4l2 d') \<and>
            dev_status d' = failed_status c m (dev_status d))
       \<or> r = Success \<and> vd_isOpen (dev_v4l2 d') \<and> vd_inv (dev_v4l2 d') \<and>
         \<not> vd_streaming (dev_v4l2 d') \<and> 2 \<le> length (vd_buffers (dev_v4l2 d')) \<and>
         dev_status d' = opened_status (dev_status d)"
proof -
  have req: "vd_isOpen v2 \<and> vd_inv v2 \<and> \<not> vd_streaming v2 \<and> 2 \<le> length (vd_buffers v2)"
    if "setFormat os f v u = Some (Success, u1)" "requestBuffers os 4 v u1 = Some (Success, v2, u2)"
    for f u u1 v2 u2
    using requestBuffers_keeps[OF that(2)] setFormat_open[OF that(1)] assms(2)
    by (auto simp: vd_isOpen_def vd_inv_def)
  show ?thesis
    using assms(1)
    by (auto simp: setup_opened_def Let_def rememberError_def failed_status_def opened_status_def
        clearError_def elim!: bind_SomeE dest!: vd_inv_close split: sum.split_asm)
      (frule (1) req, simp)+
qed

lemma camera_open_cases:
  assumes "camera_open label os d w = Some (r, d', w')" and "vd_inv (dev_v4l2 d)"
  shows "r = Success \<and> d' = d \<and> vd_isOpen (dev_v4l2 d)
       \<or> (\<exists>c m. r = Error c m \<and> (dev_v4l2 d' = dev_v4l2 d \<or> vd_inv (dev_v4l2 d') \<and> \<not> vd_isOpen (dev_v4l2 d)
             \<and> \<not> vd_isOpen (dev_v4l2 d')) \<and> dev_status d' = failed_status c m (dev_status d))
       \<or> r = Success \<and> \<not> vd_isOpen (dev_v4l2 d) \<and> vd_isOpen (dev_v4l2 d') \<and> vd_inv (dev_v4l2 d') \<and>
         \<not> vd_streaming (dev_v4l2 d') \<and> 2 \<le> length (vd_buffers (dev_v4l2 d')) \<and>
         dev_status d' = opened_status (dev_status d)"
proof (cases "vd_isOpen (dev_v4l2 d) \<or> \<not> cam_configured (dev_status d) \<or> \<not> cam_enabled (dev_status d)")
  case True
  with assms show ?thesis
    by (auto simp: camera_open_def Let_def rememberError_def failed_status_def split: if_splits)
next
  case closed: False
  obtain info w1 where ins: "inspectNode os (ep_videoNode (dev_config d)) w = (info, w1)"
    by fastforce
  obtain ro v1 w2 where opn: "openDevice os (ep_videoNode (dev_config d)) False (dev_v4l2 d) w1 = (ro, v1, w2)"
    by (cases "openDevice os (ep_videoNode (dev_config d)) False (dev_v4l2 d) w1") auto
  from openDevice_effect[OF opn assms(2)] closed
  have v1: "\<not> vd_streaming v1" "vd_buffers v1 = []"
    by simp_all
  have fail1: "vd_inv v1 \<and> \<not> vd_isOpen v1" if "ro = Inl e" for e
    using that opn closed v1
    by (auto simp: openDevice_def vd_isOpen_def vd_inv_def split: if_splits sum.split_asm prod.split_asm)
  show ?thesis
  proof (cases "\<exists>i. info = Inr i \<and> isVideoCaptureNode i \<and> result_ok ro")
    case True
    with assms(1) closed ins opn
    have "setup_opened os (d\<lparr>dev_v4l2 := v1\<rparr>) v1 w2 = Some (r, d', w')"
      by (cases ro) (auto simp: camera_open_def)
    from setup_opened_cases[OF this v1] closed show ?thesis by auto
  next
    case False
    with assms(1) closed ins opn fail1 show ?thesis
      by (auto simp: camera_open_def Let_def rememberError_def failed_status_def
          split: sum.split_asm if_splits)
  qed
qed

lemma camera_open_inv:
  "camera_open label os d w = Some (r, d', w') \<Longrightarrow> cam_inv d \<Longrightarrow> cam_inv d'"
  using camera_open_cases[of label os d w r d' w']
  by (auto simp: cam_inv_def vd_inv_def opened_status_def failed_status_def)

lemma camera_open_ok:
  "camera_open label os d w = Some (Success, d', w') \<Longrightarrow> cam_inv d \<Longrightarrow> vd_isOpen (dev_v4l2 d')"
  using camera_open_cases[of label os d w Success d' w'] by (auto simp: cam_inv_def)

lemma camera_open_fails:
  "camera_open label os d w = Some (Inl e, d', w') \<Longrightarrow> cam_inv d \<Longrightarrow>
     cam_state (dev_status d') = CameraError \<and> cam_lastErrorCode (dev_status d') = st_code e \<and>
     (vd_isOpen (dev_v4l2 d') \<longrightarrow> vd_isOpen (dev_v4l2 d))"
  using camera_open_cases[of label os d w "Inl e" d' w'] by (auto simp: cam_inv_def failed_status_def)

lemma tryOpenMetadataNode_keeps:
  "tryOpenMetadataNode os d w = (d', w') \<Longrightarrow>
     dev_v4l2 d' = dev_v4l2 d \<and>
     (\<exists>b. dev_status d' = (dev_status d)\<lparr>cam_metadataAvailable := b\<rparr>)"
  by (auto simp: tryOpenMetadataNode_def Let_def split: if_splits sum.split_asm prod.split_asm)

lemma composite_open_cases:
  assumes "composite_open os d w = Some (r, d', w')"
  obtains d1 w1 b where "camera_open ''composite'' os d w = Some (r, d1, w1)"
    and "dev_v4l2 d' = dev_v4l2 d1"
    and "dev_status d' = (dev_status d1)\<lparr>cam_metadataAvailable := b\<rparr>"
proof -
  from assms obtain d1 w1 where o: "camera_open ''composite'' os d w = Some (r, d1, w1)"
    and e: "(if result_ok r \<and> \<not> vd_isOpen (dev_v4l2 d)
             then (case tryOpenMetadataNode os d1 w1 of (d', w) \<Rightarrow> (r, d', w))
             else (r, d1, w1)) = (r, d', w')"
    by (auto simp: composite_open_def elim!: bind_SomeE split: if_splits prod.split_asm)
  have "dev_v4l2 d' = dev_v4l2 d1 \<and>
      (\<exists>b. dev_status d' = (dev_status d1)\<lparr>cam_metadataAvailable := b\<rparr>)"
  proof (cases "result_ok r \<and> \<not> vd_isOpen (dev_v4l2 d)")
    case True
    with e have "tryOpenMetadataNode os d1 w1 = (d', w')" by (simp split: prod.split_asm)
    then show ?thesis by (rule tryOpenMetadataNode_keeps)
  next
    case False
    with e have "d' = d1" by (simp split: if_splits)
    then show ?thesis by (auto intro: exI[of _ "cam_metadataAvailable (dev_status d1)"])
  qed
  with o that show thesis by blast
qed

lemma composite_open_inv:
  assumes "composite_open os d w = Some (r, d', w')" "cam_inv d"
  shows "cam_inv d'"
  using assms(1)
proof (rule composite_open_cases)
  fix d1 w1 b
  assume "camera_open ''composite'' os d w = Some (r, d1, w1)"
    and "dev_v4l2 d' = dev_v4l2 d1"
    and "dev_status d' = (dev_status d1)\<lparr>cam_metadataAvailable := b\<rparr>"
  with camera_open_inv assms(2) show "cam_inv d'"
    by (fastforce simp: cam_inv_def)
qed

lemma composite_open_ok:
  "composite_open os d w = Some (Success, d', w') \<Longrightarrow> cam_inv d \<Longrightarrow> vd_isOpen (dev_v4l2 d')"
  by (erule composite_open_cases) (auto dest: camera_open_ok)

lemma composite_open_fails:
  "composite_open os d w = Some (Inl e, d', w') \<Longrightarrow> cam_inv d \<Longrightarrow>
     cam_state (dev_status d') = CameraError \<and> cam_lastErrorCode (dev_status d') = st_code e \<and>
     (vd_isOpen (dev_v4l2 d') \<longrightarrow> vd_isOpen (dev_v4l2 d))"
  by (erule composite_open_cases) (auto dest: camera_open_fails)

text \<open>Starting, stopping and closing, for any class whose \<open>open()\<close> keeps the invariant.\<close>

definition is_streaming :: "CameraDevice \<Rightarrow> bool" where
  "is_streaming d \<longleftrightarrow> vd_streaming (dev_v4l2 d) \<and> cam_streaming (dev_status d) \<and>
     cam_state (dev_status d) = Streaming"

definition is_closed :: "CameraDevice \<Rightarrow> bool" where
  "is_closed d \<longleftrightarrow> \<not> vd_isOpen (dev_v4l2 d) \<and> \<not> vd_streaming (dev_v4l2 d) \<and>
     vd_buffers (dev_v4l2 d) = [] \<and> \<not> cam_opened (dev_status d) \<and>
     \<not> cam_streaming (dev_status d) \<and> \<not> cam_online (dev_status d)"

lemma camera_stop_cases:
  assumes "camera_stop os d w = Some (r, d', w')" "cam_inv d"
  shows "cam_inv d' \<and> \<not> vd_streaming (dev_v4l2 d') \<and> \<not> cam_streaming (dev_status d') \<and>
     vd_isOpen (dev_v4l2 d') = vd_isOpen (dev_v4l2 d) \<and> cam_opened (dev_status d') = cam_opened (dev_status d)
     \<and> dev_metadataReader d' = dev_metadataReader d"
  using assms
  by (auto simp: camera_stop_def cam_inv_def vd_inv_def rememberError_def vd_isOpen_def Let_def
      elim!: bind_SomeE split: if_splits sum.split_asm dest!: stopStream_effect)

lemma camera_close_cases:
  assumes "camera_close os d w = Some (d', w')" "cam_inv d"
  shows "cam_inv d' \<and> is_closed d'"
proof (cases "vd_isOpen (dev_v4l2 d)")
  case False
  with assms show ?thesis
    by (auto simp: camera_close_def cam_inv_def is_closed_def vd_inv_def split: if_splits)
next
  case True
  with assms(1) obtain r d1 w1 v w2
    where s: "camera_stop os d w = Some (r, d1, w1)"
      and c: "closeDevice os (dev_v4l2 d1) w1 = Some (v, w2)"
      and d': "d' = set_status (d1\<lparr>dev_v4l2 := v\<rparr>) (\<lambda>s. s\<lparr>cam_opened := False, cam_streaming := False,
                  cam_online := False, cam_state := (if cam_configured s then Initialized else Uninitialized)\<rparr>)"
    by (auto simp: camera_close_def elim!: bind_SomeE)
  from vd_inv_close[OF c] d' show ?thesis
    by (auto simp: cam_inv_def is_closed_def)
qed

locale camera_class =
  fixes opn :: "'w video_os \<Rightarrow> CameraDevice \<Rightarrow> 'w \<Rightarrow> (unit Result \<times> CameraDevice \<times> 'w) option"
    and close :: "'w video_os \<Rightarrow> CameraDevice \<Rightarrow> 'w \<Rightarrow> (CameraDevice \<times> 'w) option"
  assumes open_inv: "opn os d w = Some (r, d', w') \<Longrightarrow> cam_inv d \<Longrightarrow> cam_inv d'"
    and open_ok: "opn os d w = Some (Success, d', w') \<Longrightarrow> cam_inv d \<Longrightarrow> vd_isOpen (dev_v4l2 d')"
    and open_fails: "opn os d w = Some (Inl e, d', w') \<Longrightarrow> cam_inv d \<Longrightarrow>
      cam_state (dev_status d') = CameraError \<and> cam_lastErrorCode (dev_status d') = st_code e \<and>
      (vd_isOpen (dev_v4l2 d') \<longrightarrow> vd_isOpen (dev_v4l2 d))"
    and close_closes: "close os d w = Some (d', w') \<Longrightarrow> cam_inv d \<Longrightarrow> cam_inv d' \<and> is_closed d'"
begin

lemma start_cases:
  assumes "camera_start (opn os) os d w = Some (r, d', w')" "cam_inv d"
  shows "cam_inv d' \<and> (result_ok r \<longrightarrow> is_streaming d')"
proof -
  obtain r1 d1 w1 where o: "(if \<not> vd_isOpen (dev_v4l2 d) then opn os d w else Some (Success, d, w)) = Some (r1, d1, w1)"
    and rest: "(case r1 of Inl e \<Rightarrow> Some (Inl e, d1, w1)
           | Inr _ \<Rightarrow>
               do { (r, v, w) \<leftarrow> startStream os (dev_v4l2 d1) w1;
                    let d = d1\<lparr>dev_v4l2 := v\<rparr>;
                    Some (case r of
                            Inl e \<Rightarrow> camera_fail e d w
                          | Inr _ \<Rightarrow> (Success, clearError (set_status d (\<lambda>s. s\<lparr>cam_streaming := True,
                                                cam_state := Streaming\<rparr>)), w)) }) = Some (r, d', w')"
    using assms(1) unfolding camera_start_def by (elim bind_SomeE) auto
  have i1: "cam_inv d1" and o1: "result_ok r1 \<Longrightarrow> vd_isOpen (dev_v4l2 d1)"
    using o assms(2) open_inv open_ok by (auto split: if_splits elim!: result_ok.elims)
  show ?thesis
  proof (cases r1)
    case (Inl e)
    with rest i1 show ?thesis by auto
  next
    case (Inr u)
    with o1 have op: "vd_isOpen (dev_v4l2 d1)" by simp
    from rest Inr obtain r2 v w2 where s: "startStream os (dev_v4l2 d1) w1 = Some (r2, v, w2)"
      and e: "(case r2 of Inl e \<Rightarrow> camera_fail e (d1\<lparr>dev_v4l2 := v\<rparr>) w2
                | Inr _ \<Rightarrow> (Success, clearError (set_status (d1\<lparr>dev_v4l2 := v\<rparr>) (\<lambda>s. s\<lparr>cam_streaming := True,
                             cam_state := Streaming\<rparr>)), w2)) = (r, d', w')"
      by (auto elim!: bind_SomeE simp: Let_def)
    from s i1 have v: "v = dev_v4l2 d1 \<or> v = (dev_v4l2 d1)\<lparr>vd_streaming := True\<rparr>"
      and v2: "result_ok r2 \<Longrightarrow> vd_streaming v"
      by (auto simp: startStream_def elim!: bind_SomeE split: if_splits sum.split_asm)
    from e i1 op v v2 show ?thesis
      by (cases r2) (auto simp: cam_inv_def vd_inv_def vd_isOpen_def rememberError_def clearError_def is_streaming_def)
  qed
qed

lemma start_stop:
  assumes "camera_start (opn os) os d w = Some (Success, d1, w1)" "cam_inv d"
    and "camera_stop os d1 w1 = Some (r, d2, w2)"
  shows "vd_isOpen (dev_v4l2 d2) \<and> \<not> vd_streaming (dev_v4l2 d2)"
proof -
  from start_cases[OF assms(1,2)] have i: "cam_inv d1" and "is_streaming d1" by auto
  then have "vd_isOpen (dev_v4l2 d1)" by (simp add: is_streaming_def cam_inv_def vd_inv_def)
  with camera_stop_cases[OF assms(3) i] show ?thesis by simp
qed

end

interpretation vis: camera_class visible_open visible_close
  by unfold_locales
    (simp_all add: visible_open_def visible_close_def camera_open_inv camera_open_ok camera_open_fails
      camera_close_cases)

lemma cam_inv_reader [simp]: "cam_inv (d\<lparr>dev_metadataReader := rd\<rparr>) = cam_inv d"
  by (simp add: cam_inv_def)

lemma composite_close_cases:
  assumes "composite_close os d w = Some (d', w')" "cam_inv d"
  shows "cam_inv d' \<and> is_closed d'"
proof -
  obtain rd w1 where r: "closeNode os (dev_metadataReader d) w = (rd, w1)" by fastforce
  with assms(1) obtain d1 where c: "camera_close os (d\<lparr>dev_metadataReader := rd\<rparr>) w1 = Some (d1, w')"
    and d': "d' = set_status d1 (\<lambda>s. s\<lparr>cam_metadataAvailable := False\<rparr>)"
    by (auto simp: composite_close_def)
  from camera_close_cases[OF c] assms(2) have "cam_inv d1 \<and> is_closed d1" by simp
  with d' show ?thesis by (auto simp: cam_inv_def is_closed_def)
qed

interpretation comp: camera_class composite_open composite_close
  by unfold_locales (simp_all add: composite_open_inv composite_open_ok composite_open_fails
      composite_close_cases)

end
