(* ===== verification/Tri_CameraManager.thy ===== *)
theory Tri_CameraManager
  imports Tri_Cameras
begin

text \<open>
  The manager of the two cameras (device/CameraManager.cpp): its operations, the events it
  publishes, and the properties of the cameras it hands out.
\<close>

subsection \<open>CameraManager.cpp\<close>

text \<open>The published events are kept in the order of publication.\<close>

record CameraManager =
  cm_config :: CameraConfig
  cm_eventBus :: bool
  cm_visible :: CameraDevice
  cm_composite :: CameraDevice
  cm_initialized :: bool
  cm_published :: "Event list"

definition new_camera_manager :: CameraManager where
  "new_camera_manager =
     \<lparr>cm_config = default_camera_config, cm_eventBus = False, cm_visible = new_camera,
      cm_composite = new_camera, cm_initialized = False, cm_published = []\<rparr>"

abbreviation bool_text :: "bool \<Rightarrow> string" where
  "bool_text b \<equiv> (if b then ''true'' else ''false'')"

definition camera_event :: "CameraStatus \<Rightarrow> bool \<Rightarrow> Event" where
  "camera_event st online =
     \<lparr>ev_type = (if online then CameraOnline else CameraOffline),
      ev_name = (if online then ''camera_online'' else ''camera_offline''),
      ev_fields =
        (let fs = Map.empty(''camera_id'' \<mapsto> toString_CameraId (cam_id st),
                    ''camera_kind'' \<mapsto> toString_CameraKind (cam_kind st),
                    ''state'' \<mapsto> toString_CameraState (cam_state st),
                    ''online'' \<mapsto> bool_text online,
                    ''streaming'' \<mapsto> bool_text (cam_streaming st))
         in if cam_lastErrorMessage st \<noteq> [] then fs(''last_error'' \<mapsto> cam_lastErrorMessage st) else fs)\<rparr>"

definition publishCameraEvent :: "CameraStatus \<Rightarrow> bool \<Rightarrow> CameraManager \<Rightarrow> CameraManager" where
  "publishCameraEvent st online m =
     (if cm_eventBus m then m\<lparr>cm_published := cm_published m @ [camera_event st online]\<rparr> else m)"

definition manager_init ::
  "CameraConfig \<Rightarrow> bool \<Rightarrow> CameraManager \<Rightarrow> unit Result \<times> CameraManager" where
  "manager_init config bus m =
     (let m = m\<lparr>cm_config := config, cm_eventBus := bus\<rparr> in
      case visible_init (cc_visible config) (cm_visible m) of
        (Inl e, d) \<Rightarrow> (Inl e, m\<lparr>cm_visible := d\<rparr>)
      | (Inr _, d) \<Rightarrow>
          (case composite_init (cc_compositeLowThermal config) (cm_composite m) of
             (Inl e, c) \<Rightarrow> (Inl e, m\<lparr>cm_visible := d, cm_composite := c\<rparr>)
           | (Inr _, c) \<Rightarrow>
               (Success, m\<lparr>cm_visible := d, cm_composite := c, cm_initialized := True\<rparr>)))"

definition select_camera :: "CameraId \<Rightarrow> CameraManager \<Rightarrow> CameraDevice" where
  "select_camera cid m =
     (case cid of Visible \<Rightarrow> cm_visible m | CompositeLowThermal \<Rightarrow> cm_composite m)"

definition put_camera :: "CameraId \<Rightarrow> CameraDevice \<Rightarrow> CameraManager \<Rightarrow> CameraManager" where
  "put_camera cid d m =
     (case cid of Visible \<Rightarrow> m\<lparr>cm_visible := d\<rparr> | CompositeLowThermal \<Rightarrow> m\<lparr>cm_composite := d\<rparr>)"

text \<open>The virtual \<open>start()\<close> of the selected camera.\<close>

definition device_start ::
  "'w video_os \<Rightarrow> CameraId \<Rightarrow> CameraDevice \<Rightarrow> 'w \<Rightarrow> (unit Result \<times> CameraDevice \<times> 'w) option" where
  "device_start os cid =
     (case cid of Visible \<Rightarrow> visible_start os | CompositeLowThermal \<Rightarrow> composite_start os)"

definition openAllEnabled ::
  "'w video_os \<Rightarrow> CameraManager \<Rightarrow> 'w \<Rightarrow> (unit Result \<times> CameraManager \<times> 'w) option" where
  "openAllEnabled os m w =
     (if \<not> cm_initialized m
      then Some (Error NotInitialized ''camera manager is not initialized'', m, w)
      else do {
        (r, m, w) \<leftarrow>
          (if cam_enabled (dev_status (cm_visible m))
           then do { (r, d, w) \<leftarrow> visible_open os (cm_visible m) w;
                     Some (r, publishCameraEvent (dev_status d) (result_ok r) (m\<lparr>cm_visible := d\<rparr>), w) }
           else Some (Success, m, w));
        (case r of
           Inl e \<Rightarrow> Some (Inl e, m, w)
         | Inr _ \<Rightarrow>
             if cam_enabled (dev_status (cm_composite m))
             then do { (r, d, w) \<leftarrow> composite_open os (cm_composite m) w;
                       Some (r, publishCameraEvent (dev_status d) (result_ok r)
                                  (m\<lparr>cm_composite := d\<rparr>), w) }
             else Some (Success, m, w)) })"

definition startCamera ::
  "'w video_os \<Rightarrow> CameraId \<Rightarrow> CameraManager \<Rightarrow> 'w \<Rightarrow> (unit Result \<times> CameraManager \<times> 'w) option" where
  "startCamera os cid m w =
     (if \<not> cm_initialized m
      then Some (Error NotInitialized ''camera manager is not initialized'', m, w)
      else do { (r, d, w) \<leftarrow> device_start os cid (select_camera cid m) w;
                Some (r, publishCameraEvent (dev_status d) (result_ok r) (put_camera cid d m), w) })"

definition stopCamera ::
  "'w video_os \<Rightarrow> CameraId \<Rightarrow> CameraManager \<Rightarrow> 'w \<Rightarrow> (unit Result \<times> CameraManager \<times> 'w) option" where
  "stopCamera os cid m w =
     do { (r, d, w) \<leftarrow> camera_stop os (select_camera cid m) w;
          Some (r, publishCameraEvent (dev_status d) False (put_camera cid d m), w) }"

definition stopAll :: "'w video_os \<Rightarrow> CameraManager \<Rightarrow> 'w \<Rightarrow> (CameraManager \<times> 'w) option" where
  "stopAll os m w =
     do { (_, d, w) \<leftarrow> camera_stop os (cm_visible m) w;
          (_, c, w) \<leftarrow> camera_stop os (cm_composite m) w;
          Some (m\<lparr>cm_visible := d, cm_composite := c\<rparr>, w) }"

definition closeAll :: "'w video_os \<Rightarrow> CameraManager \<Rightarrow> 'w \<Rightarrow> (CameraManager \<times> 'w) option" where
  "closeAll os m w =
     do { (d, w) \<leftarrow> visible_close os (cm_visible m) w;
          (c, w) \<leftarrow> composite_close os (cm_composite m) w;
          Some (m\<lparr>cm_visible := d, cm_composite := c\<rparr>, w) }"

definition queryStatus :: "CameraManager \<Rightarrow> CameraStatus list" where
  "queryStatus m = [dev_status (cm_visible m), dev_status (cm_composite m)]"

text \<open>Reading through \<open>camera(id)->readFrame\<close>, as the capture nodes do.\<close>

definition readCamera ::
  "'w video_os \<Rightarrow> int \<Rightarrow> int \<Rightarrow> CameraId \<Rightarrow> CameraManager \<Rightarrow> 'w \<Rightarrow>
     (CameraFrame Result \<times> CameraManager \<times> 'w) option" where
  "readCamera os now timeoutMs cid m w =
     do { (r, d, w) \<leftarrow> (case cid of Visible \<Rightarrow> visible_readFrame os | CompositeLowThermal \<Rightarrow> composite_readFrame os)
                          now timeoutMs (select_camera cid m) w;
          Some (r, put_camera cid d m, w) }"


subsection \<open>Runs of the manager\<close>

datatype manager_call =
  CallInit CameraConfig bool | CallOpenAll | CallStart CameraId | CallRead int int CameraId
  | CallStop CameraId | CallStopAll | CallCloseAll

fun perform ::
  "'w video_os \<Rightarrow> manager_call \<Rightarrow> CameraManager \<Rightarrow> 'w \<Rightarrow> (CameraManager \<times> 'w) option" where
  "perform os (CallInit config bus) m w = Some (snd (manager_init config bus m), w)"
| "perform os CallOpenAll m w = map_option snd (openAllEnabled os m w)"
| "perform os (CallStart cid) m w = map_option snd (startCamera os cid m w)"
| "perform os (CallRead now t cid) m w = map_option snd (readCamera os now t cid m w)"
| "perform os (CallStop cid) m w = map_option snd (stopCamera os cid m w)"
| "perform os CallStopAll m w = stopAll os m w"
| "perform os CallCloseAll m w = closeAll os m w"

fun manager_run ::
  "'w video_os \<Rightarrow> manager_call list \<Rightarrow> CameraManager \<Rightarrow> 'w \<Rightarrow> (CameraManager \<times> 'w) option" where
  "manager_run os [] m w = Some (m, w)"
| "manager_run os (c # cs) m w =
     do { (m, w) \<leftarrow> perform os c m w; manager_run os cs m w }"

definition manager_inv :: "CameraManager \<Rightarrow> bool" where
  "manager_inv m \<longleftrightarrow> cam_inv (cm_visible m) \<and> cam_inv (cm_composite m)"

text \<open>Reading keeps everything but the counters, the error fields and the sequence number.\<close>

definition same_camera :: "CameraDevice \<Rightarrow> CameraDevice \<Rightarrow> bool" where
  "same_camera d d' \<longleftrightarrow>
     dev_v4l2 d' = dev_v4l2 d \<and> dev_captureFormat d' = dev_captureFormat d \<and>
     cam_opened (dev_status d') = cam_opened (dev_status d) \<and>
     cam_streaming (dev_status d') = cam_streaming (dev_status d) \<and>
     cam_online (dev_status d') = cam_online (dev_status d) \<and>
     cam_state (dev_status d') = cam_state (dev_status d)"

definition attach_law ::
  "(CameraFrame \<Rightarrow> CameraDevice \<Rightarrow> 'w \<Rightarrow> CameraFrame \<times> CameraDevice \<times> 'w) \<Rightarrow> bool" where
  "attach_law attach \<longleftrightarrow>
     (\<forall>f d w f' d' w'. attach f d w = (f', d', w') \<longrightarrow>
        same_camera d d' \<and> dev_sequence d' = dev_sequence d \<and>
        cam_framesRead (dev_status d') = cam_framesRead (dev_status d) \<and>
        cam_droppedFrames (dev_status d') = cam_droppedFrames (dev_status d) \<and>
        cf_cameraId f' = cf_cameraId f \<and> cf_sequence f' = cf_sequence f \<and>
        cf_fwidth f' = cf_fwidth f \<and> cf_fheight f' = cf_fheight f \<and>
        cf_fpixelformat f' = cf_fpixelformat f \<and> cf_bytes f' = cf_bytes f)"

lemma attach_law_none: "attach_law (\<lambda>f d w. (f, d, w))"
  by (simp add: attach_law_def same_camera_def)

lemma attach_law_metadata: "attach_law (tryAttachMetadata os now)"
  by (auto simp: attach_law_def tryAttachMetadata_def same_camera_def
      split: if_splits sum.split_asm prod.split_asm)

definition read_effect :: "CameraId \<Rightarrow> CameraFrame Result \<Rightarrow> CameraDevice \<Rightarrow> CameraDevice \<Rightarrow> bool" where
  "read_effect cid r d d' \<longleftrightarrow> same_camera d d' \<and>
     (case r of
        Inr f \<Rightarrow> vd_streaming (dev_v4l2 d) \<and>
          cf_cameraId f = cid \<and> cf_sequence f = dev_sequence d + 1 \<and> dev_sequence d' = dev_sequence d + 1 \<and>
          cf_fwidth f = cf_width (dev_captureFormat d) \<and> cf_fheight f = cf_height (dev_captureFormat d) \<and>
          cf_fpixelformat f = cf_pixelformat (dev_captureFormat d) \<and>
          cam_framesRead (dev_status d') = cam_framesRead (dev_status d) + 1 \<and>
          cam_droppedFrames (dev_status d') = cam_droppedFrames (dev_status d) \<and>
          cam_lastErrorCode (dev_status d') = Ok
      | Inl e \<Rightarrow> cam_framesRead (dev_status d') = cam_framesRead (dev_status d) \<and>
          (\<not> vd_streaming (dev_v4l2 d) \<longrightarrow> d' = d \<and> st_code e = NotInitialized) \<and>
          (dev_sequence d' = dev_sequence d + 1 \<or> dev_sequence d' = dev_sequence d))"

lemma length_copy_buffer:
  assumes "\<And>n. length (vo_memory os (bv_data view) n w) = n"
  shows "length (copy_buffer os view w) = unat (bv_bytesUsed view)"
  using assms by (auto simp: copy_buffer_def Let_def)

lemma camera_readFrame_effect:
  assumes "camera_readFrame label cid attach os now t d w = Some (r, d', w')" "attach_law attach"
  shows "read_effect cid r d d'"
proof (cases "vd_streaming (dev_v4l2 d)")
  case False
  with assms(1) show ?thesis
    by (auto simp: camera_readFrame_def read_effect_def same_camera_def)
next
  case True
  obtain dq w1 where dq: "dequeueBuffer os t (dev_v4l2 d) w = (dq, w1)" by fastforce
  show ?thesis
  proof (cases dq)
    case (Inl e)
    with assms(1) True dq show ?thesis
      by (auto simp: camera_readFrame_def read_effect_def same_camera_def rewrap_def)
  next
    case (Inr view)
    let ?f = "\<lparr>cf_cameraId = cid, cf_sequence = dev_sequence d + 1,
        cf_fwidth = cf_width (dev_captureFormat d), cf_fheight = cf_height (dev_captureFormat d),
        cf_fpixelformat = cf_pixelformat (dev_captureFormat d), cf_bytes = copy_buffer os view w1,
        cf_receiveTimestampMs = now, cf_metadata = [], cf_metadataTimestampMs = 0\<rparr>"
    let ?d = "d\<lparr>dev_sequence := dev_sequence d + 1\<rparr>"
    obtain f1 d1 w2 where at: "attach ?f ?d w1 = (f1, d1, w2)"
      by (metis prod_cases3)
    from assms(2)[unfolded attach_law_def, rule_format, OF at]
    have law: "same_camera ?d d1" "dev_sequence d1 = dev_sequence d + 1"
      "cam_framesRead (dev_status d1) = cam_framesRead (dev_status d)"
      "cam_droppedFrames (dev_status d1) = cam_droppedFrames (dev_status d)"
      "cf_cameraId f1 = cid" "cf_sequence f1 = dev_sequence d + 1"
      "cf_fwidth f1 = cf_width (dev_captureFormat d)" "cf_fheight f1 = cf_height (dev_captureFormat d)"
      "cf_fpixelformat f1 = cf_pixelformat (dev_captureFormat d)"
      by simp_all
    from assms(1) True dq Inr at obtain q w3 where
      q: "enqueueBuffer os (bv_index view) (dev_v4l2 d1) w2 = Some (q, w3)" and
      "(case q of Inl e \<Rightarrow> (rewrap e, d1, w3)
         | Inr _ \<Rightarrow> (Inr f1, clearError (set_status d1 (\<lambda>s. s\<lparr>cam_framesRead := cam_framesRead s + 1\<rparr>)), w3))
       = (r, d', w')"
      by (auto simp: camera_readFrame_def Let_def elim!: bind_SomeE)
    with law True show ?thesis
      by (cases q) (auto simp: read_effect_def same_camera_def rewrap_def clearError_def)
  qed
qed

lemma same_camera_inv: "same_camera d d' \<Longrightarrow> cam_inv d \<Longrightarrow> cam_inv d'"
  by (simp add: same_camera_def cam_inv_def)

lemma readCamera_effect:
  assumes "readCamera os now t cid m w = Some (r, m', w')"
  obtains d' where "m' = put_camera cid d' m" "read_effect cid r (select_camera cid m) d'"
proof -
  obtain d' where "(case cid of Visible \<Rightarrow> visible_readFrame os | CompositeLowThermal \<Rightarrow> composite_readFrame os)
       now t (select_camera cid m) w = Some (r, d', w')" and m': "m' = put_camera cid d' m"
    using assms by (auto simp: readCamera_def elim!: bind_SomeE)
  then have "read_effect cid r (select_camera cid m) d'"
    by (cases cid) (auto simp: visible_readFrame_def composite_readFrame_def attach_law_none
        attach_law_metadata dest!: camera_readFrame_effect)
  with m' that show thesis by blast
qed

lemma select_put [simp]: "select_camera cid (put_camera cid d m) = d"
  by (cases cid) (simp_all add: select_camera_def put_camera_def)

lemma manager_inv_put:
  "manager_inv m \<Longrightarrow> cam_inv d \<Longrightarrow> manager_inv (put_camera cid d m)"
  by (cases cid) (simp_all add: manager_inv_def put_camera_def)

lemma manager_inv_select: "manager_inv m \<Longrightarrow> cam_inv (select_camera cid m)"
  by (cases cid) (simp_all add: manager_inv_def select_camera_def)

lemma manager_inv_publish [simp]: "manager_inv (publishCameraEvent st b m) = manager_inv m"
  by (simp add: publishCameraEvent_def manager_inv_def)

lemma publish_cameras [simp]:
  "cm_visible (publishCameraEvent st b m) = cm_visible m"
  "cm_composite (publishCameraEvent st b m) = cm_composite m"
  "select_camera cid (publishCameraEvent st b m) = select_camera cid m"
  by (simp_all add: publishCameraEvent_def select_camera_def split: CameraId.split)

lemma device_start_cases:
  "device_start os cid d w = Some (r, d', w') \<Longrightarrow> cam_inv d \<Longrightarrow>
     cam_inv d' \<and> (result_ok r \<longrightarrow> is_streaming d')"
  using vis.start_cases[of os d w r d' w'] comp.start_cases[of os d w r d' w']
  by (cases cid) (simp_all add: device_start_def visible_start_def composite_start_def)

lemma manager_init_inv: "manager_init config bus m = (r, m') \<Longrightarrow> manager_inv m \<Longrightarrow> manager_inv m'"
  by (auto simp: manager_init_def visible_init_def composite_init_def manager_inv_def Let_def
      split: prod.split_asm sum.split_asm dest!: camera_init_inv)

lemma openAllEnabled_inv:
  "openAllEnabled os m w = Some (r, m', w') \<Longrightarrow> manager_inv m \<Longrightarrow> manager_inv m'"
  by (auto simp: openAllEnabled_def manager_inv_def elim!: bind_SomeE split: if_splits sum.split_asm
      dest!: vis.open_inv comp.open_inv)

lemma closeAll_closes:
  "closeAll os m w = Some (m', w') \<Longrightarrow> manager_inv m \<Longrightarrow>
     manager_inv m' \<and> is_closed (cm_visible m') \<and> is_closed (cm_composite m')"
  by (auto simp: closeAll_def manager_inv_def elim!: bind_SomeE
      dest!: vis.close_closes comp.close_closes)

lemma perform_inv:
  assumes "perform os c m w = Some (m', w')" "manager_inv m"
  shows "manager_inv m'"
proof (cases c)
  case (CallInit config bus)
  with assms manager_init_inv[of config bus m] show ?thesis
    by (cases "manager_init config bus m") auto
next
  case CallOpenAll
  with assms show ?thesis by (auto dest!: openAllEnabled_inv)
next
  case (CallStart cid)
  with assms show ?thesis
    by (auto simp: startCamera_def manager_inv_select elim!: bind_SomeE split: if_splits
        dest!: device_start_cases intro!: manager_inv_put)
next
  case (CallRead now t cid)
  with assms obtain r where "readCamera os now t cid m w = Some (r, m', w')" by auto
  then obtain d' where "m' = put_camera cid d' m" "read_effect cid r (select_camera cid m) d'"
    by (rule readCamera_effect)
  with assms(2) show ?thesis
    by (auto simp: read_effect_def intro: manager_inv_put same_camera_inv manager_inv_select)
next
  case (CallStop cid)
  with assms show ?thesis
    by (auto simp: stopCamera_def manager_inv_select elim!: bind_SomeE
        dest!: camera_stop_cases intro!: manager_inv_put)
next
  case CallStopAll
  with assms show ?thesis
    by (auto simp: stopAll_def manager_inv_def elim!: bind_SomeE dest!: camera_stop_cases)
next
  case CallCloseAll
  with assms show ?thesis by (auto dest: closeAll_closes)
qed

lemma manager_run_inv:
  "manager_run os cs m w = Some (m', w') \<Longrightarrow> manager_inv m \<Longrightarrow> manager_inv m'"
proof (induction cs arbitrary: m w)
  case (Cons c cs)
  then obtain m1 w1 where "perform os c m w = Some (m1, w1)" "manager_run os cs m1 w1 = Some (m', w')"
    by (auto elim!: bind_SomeE)
  with Cons show ?case by (blast intro: perform_inv)
qed simp

subsection \<open>A camera that works, for the witnesses\<close>

definition sim_reply :: "ioctl_request \<Rightarrow> ioctl_reply" where
  "sim_reply req =
     \<lparr>ir_driver = ''uvcvideo'', ir_card = ''cam'', ir_busInfo = ''usb'', ir_capabilities = 1,
      ir_deviceCaps = 0, ir_width = 0, ir_height = 0,
      ir_pixelformat = (case req of SetFmt _ _ p \<Rightarrow> p | _ \<Rightarrow> 0), ir_count = 2, ir_length = 16,
      ir_offset = 0\<rparr>"

text \<open>The world is the number of the calls of open; the node of the metadata does not exist.\<close>

definition sim_os :: "nat video_os" where
  "sim_os =
     \<lparr>vo_open = (\<lambda>path _ w. if path = ''/dev/video41'' then (Inr 3, w + 1) else (Inl ''no such device'', w + 1)),
      vo_close = (\<lambda>_ w. w),
      vo_ioctl = (\<lambda>_ req w. (IoctlDone (sim_reply req), w)),
      vo_enumFormat = (\<lambda>_ _ w. (EnumEnd, w)),
      vo_mmap = (\<lambda>_ _ _ w. (Inr 4096, w)),
      vo_munmap = (\<lambda>_ _ w. w),
      vo_poll = (\<lambda>_ _ w. (PollReady, w)),
      vo_dequeue = (\<lambda>_ w. (Inr \<lparr>dq_index = 1, dq_bytesUsed = 3\<rparr>, w)),
      vo_memory = (\<lambda>_ n _. take n [7, 8, 9, 10]),
      vo_read = (\<lambda>_ _ w. (Inl ''nothing'', w))\<rparr>"

definition sim_endpoint :: CameraEndpointConfig where
  "sim_endpoint =
     \<lparr>ep_enable = True, ep_name = ''visible'', ep_videoNode = ''/dev/video41'', ep_metadataNode = [],
      ep_width = 1920, ep_height = 1080, ep_fps = 25, ep_format = ''MJPEG'', ep_metadataFormat = []\<rparr>"

definition sim_camera_config :: CameraConfig where
  "sim_camera_config =
     \<lparr>cc_visible = sim_endpoint, cc_compositeLowThermal = sim_endpoint\<lparr>ep_videoNode := ''/dev/video99''\<rparr>\<rparr>"

lemma sim_ioctl [simp]: "ioctl_loop sim_os fd req w = Some (Inr (sim_reply req), w)"
  by (subst ioctl_loop.simps) (simp add: sim_os_def)

lemma sim_enum [simp]: "enum_loop sim_os fd i out w = Some (Inr out, w)"
  by (subst enum_loop.simps) (simp add: sim_os_def)

lemma sim_fields [simp]:
  "vo_open sim_os path mode w =
     (if path = ''/dev/video41'' then (Inr 3, w + 1) else (Inl ''no such device'', w + 1))"
  "vo_close sim_os fd w = w"
  "vo_ioctl sim_os fd req w = (IoctlDone (sim_reply req), w)"
  "vo_mmap sim_os fd l k w = (Inr 4096, w)"
  "vo_munmap sim_os b len w = w"
  "vo_poll sim_os fd t w = (PollReady, w)"
  "vo_dequeue sim_os fd w = (Inr \<lparr>dq_index = 1, dq_bytesUsed = 3\<rparr>, w)"
  "vo_memory sim_os a n w = take n [7, 8, 9, 10]"
  by (simp_all add: sim_os_def)

lemma sim_format:
  "makeCaptureFormat (sim_endpoint\<lparr>ep_videoNode := p\<rparr>) =
     Inr \<lparr>cf_width = 1920, cf_height = 1080, cf_pixelformat = V4L2_PIX_FMT_MJPEG, cf_fps = 25\<rparr>"
  "makeCaptureFormat sim_endpoint =
     Inr \<lparr>cf_width = 1920, cf_height = 1080, cf_pixelformat = V4L2_PIX_FMT_MJPEG, cf_fps = 25\<rparr>"
proof -
  have "lower ''MJPEG'' = ''mjpeg''" by code_simp
  then show "makeCaptureFormat (sim_endpoint\<lparr>ep_videoNode := p\<rparr>) =
     Inr \<lparr>cf_width = 1920, cf_height = 1080, cf_pixelformat = V4L2_PIX_FMT_MJPEG, cf_fps = 25\<rparr>"
  "makeCaptureFormat sim_endpoint =
     Inr \<lparr>cf_width = 1920, cf_height = 1080, cf_pixelformat = V4L2_PIX_FMT_MJPEG, cf_fps = 25\<rparr>"
    by (simp_all add: makeCaptureFormat_def sim_endpoint_def)
qed

text \<open>The manager after initialization, and the visible camera after \<open>open()\<close> and \<open>start()\<close>.\<close>

definition sim_manager :: CameraManager where
  "sim_manager = snd (manager_init sim_camera_config True new_camera_manager)"

definition sim_opened :: CameraDevice where
  "sim_opened =
     (let d = cm_visible sim_manager;
          b = \<lparr>mb_start = 4096, mb_length = 16\<rparr>
      in d\<lparr>dev_v4l2 := \<lparr>vd_fd = 3, vd_path = ''/dev/video41'', vd_buffers = [b, b], vd_streaming = False\<rparr>,
           dev_capability := (dev_capability d)\<lparr>cap_driver := ''uvcvideo'', cap_card := ''cam'',
             cap_busInfo := ''usb'', cap_formats := [], cap_hasVideoNode := True\<rparr>,
           dev_status := opened_status (dev_status d)\<rparr>)"

definition sim_started :: CameraDevice where
  "sim_started =
     (let d = sim_opened
      in d\<lparr>dev_v4l2 := (dev_v4l2 d)\<lparr>vd_streaming := True\<rparr>,
           dev_status := (dev_status d)\<lparr>cam_streaming := True, cam_state := Streaming\<rparr>\<rparr>)"

lemma sim_endpoint_simps [simp]:
  "ep_enable sim_endpoint" "ep_videoNode sim_endpoint = ''/dev/video41''"
  "ep_metadataNode sim_endpoint = []"
  by (simp_all add: sim_endpoint_def)

lemma sim_manager_eq:
  "sim_manager =
     \<lparr>cm_config = sim_camera_config, cm_eventBus = True,
      cm_visible = snd (visible_init sim_endpoint new_camera),
      cm_composite = snd (composite_init (sim_endpoint\<lparr>ep_videoNode := ''/dev/video99''\<rparr>) new_camera),
      cm_initialized = True, cm_published = []\<rparr>"
  "manager_init sim_camera_config True new_camera_manager = (Success, sim_manager)"
  by (simp_all add: sim_manager_def manager_init_def visible_init_def composite_init_def camera_init_def
      sim_camera_config_def sim_format Let_def new_camera_manager_def)

lemma two_buffers: "[0..<2] = [0, 1 :: nat]" "replicate 2 x = [x, x]"
  by (simp_all add: upt_rec numeral_2_eq_2)

lemma sim_open: "visible_open sim_os (cm_visible sim_manager) w = Some (Success, sim_opened, w + 2)"
  by (simp add: visible_open_def camera_open_def inspectNode_def openDevice_def setup_opened_def
      queryCapability_def enumFormats_def setFormat_def setFrameRate_def requestBuffers_def xioctl_def
      enqueueBuffer_def resize_buffers_def two_buffers sim_reply_def sim_opened_def sim_manager_eq
      visible_init_def camera_init_def sim_format Let_def new_camera_def new_v4l2_def vd_isOpen_def
      isVideoCaptureNode_def effectiveCaps_def V4L2_CAP_DEVICE_CAPS_def V4L2_CAP_META_CAPTURE_def
      V4L2_CAP_VIDEO_CAPTURE_def noteDriver_def noteFormats_def opened_status_def clearError_def)

lemma sim_start:
  "visible_start sim_os (cm_visible sim_manager) w = Some (Success, sim_started, w + 2)"
  "startCamera sim_os Visible sim_manager w =
     Some (Success, publishCameraEvent (dev_status sim_started) True (sim_manager\<lparr>cm_visible := sim_started\<rparr>),
           w + 2)"
proof -
  have c: "\<not> vd_isOpen (dev_v4l2 (cm_visible sim_manager))"
    by (simp add: sim_manager_eq visible_init_def camera_init_def sim_format Let_def new_camera_def
        new_v4l2_def vd_isOpen_def clearError_def)
  show s: "visible_start sim_os (cm_visible sim_manager) w = Some (Success, sim_started, w + 2)"
    by (simp add: visible_start_def camera_start_def c sim_open startStream_def xioctl_def
        sim_opened_def sim_started_def Let_def clearError_def opened_status_def)
  show "startCamera sim_os Visible sim_manager w =
     Some (Success, publishCameraEvent (dev_status sim_started) True (sim_manager\<lparr>cm_visible := sim_started\<rparr>),
           w + 2)"
    using s by (simp add: startCamera_def device_start_def select_camera_def put_camera_def sim_manager_eq)
qed

subsection \<open>Properties of the cameras\<close>

text \<open>
  Claim C35. Whatever calls the manager has served, the status of a camera claims no more than its device
  gives: a camera that says it is streaming has a streaming device, one that says it is opened or
  online has an open one, and a closed device holds no mapped buffer.
\<close>

theorem status_never_overclaims:
  assumes "manager_run os cs new_camera_manager w = Some (m, w')"
  shows "(cam_state (dev_status (select_camera cid m)) = Streaming \<longrightarrow>
            vd_streaming (dev_v4l2 (select_camera cid m)) \<and> vd_isOpen (dev_v4l2 (select_camera cid m))) \<and>
         (cam_state (dev_status (select_camera cid m)) = Opened \<or> cam_online (dev_status (select_camera cid m)) \<longrightarrow>
            vd_isOpen (dev_v4l2 (select_camera cid m))) \<and>
         (\<not> vd_isOpen (dev_v4l2 (select_camera cid m)) \<longrightarrow> vd_buffers (dev_v4l2 (select_camera cid m)) = [])"
proof -
  have "manager_inv new_camera_manager"
    by (simp add: manager_inv_def new_camera_manager_def cam_inv_new)
  with assms have "manager_inv m" by (blast intro: manager_run_inv)
  then have "cam_inv (select_camera cid m)" by (rule manager_inv_select)
  then show ?thesis by (auto simp: cam_inv_def vd_inv_def)
qed

lemma sim_run:
  "manager_run sim_os [CallInit sim_camera_config True, CallStart Visible] new_camera_manager 0 =
     Some (publishCameraEvent (dev_status sim_started) True (sim_manager\<lparr>cm_visible := sim_started\<rparr>), 2)"
  by (simp add: sim_manager_eq(2) sim_start(2)[of 0])

lemma sim_started_state:
  "cam_state (dev_status sim_started) = Streaming" "vd_streaming (dev_v4l2 sim_started)"
  by (simp_all add: sim_started_def Let_def)

theorem status_never_overclaims_witness:
  "\<exists>m w'. manager_run sim_os [CallInit sim_camera_config True, CallStart Visible] new_camera_manager 0 = Some (m, w')
     \<and> cam_state (dev_status (select_camera Visible m)) = Streaming
     \<and> vd_streaming (dev_v4l2 (select_camera Visible m)) \<and> vd_isOpen (dev_v4l2 (select_camera Visible m))"
proof (intro exI conjI)
  show "manager_run sim_os [CallInit sim_camera_config True, CallStart Visible] new_camera_manager 0 =
     Some (publishCameraEvent (dev_status sim_started) True (sim_manager\<lparr>cm_visible := sim_started\<rparr>), 2)"
    by (rule sim_run)
qed (use status_never_overclaims[OF sim_run, of Visible] sim_started_state(1) in
     \<open>simp_all add: select_camera_def\<close>)

text \<open>
  Reading a camera accounts for what happened: a frame carries the camera's identity, the negotiated
  size and format and the next sequence number, and adds one to the frames read; a read that fails
  adds no frame; a camera that is not streaming is left untouched, and the other camera always is.
\<close>

theorem read_frame_accounts:
  assumes "readCamera os now t cid m w = Some (r, m', w')"
  shows "(case r of
            Inr f \<Rightarrow> vd_streaming (dev_v4l2 (select_camera cid m)) \<and> cf_cameraId f = cid \<and>
              cf_sequence f = dev_sequence (select_camera cid m) + 1 \<and>
              dev_sequence (select_camera cid m') = dev_sequence (select_camera cid m) + 1 \<and>
              cf_fwidth f = cf_width (dev_captureFormat (select_camera cid m)) \<and>
              cf_fheight f = cf_height (dev_captureFormat (select_camera cid m)) \<and>
              cf_fpixelformat f = cf_pixelformat (dev_captureFormat (select_camera cid m)) \<and>
              cam_framesRead (dev_status (select_camera cid m')) =
                cam_framesRead (dev_status (select_camera cid m)) + 1
          | Inl e \<Rightarrow>
              cam_framesRead (dev_status (select_camera cid m')) =
                cam_framesRead (dev_status (select_camera cid m)) \<and>
              (\<not> vd_streaming (dev_v4l2 (select_camera cid m)) \<longrightarrow>
                 st_code e = NotInitialized \<and> select_camera cid m' = select_camera cid m)) \<and>
         (other \<noteq> cid \<longrightarrow> select_camera other m' = select_camera other m)"
  using assms
proof (rule readCamera_effect)
  fix d'
  assume m': "m' = put_camera cid d' m" and "read_effect cid r (select_camera cid m) d'"
  moreover from m' have "other \<noteq> cid \<Longrightarrow> select_camera other m' = select_camera other m"
    by (cases cid; cases other) (simp_all add: select_camera_def put_camera_def)
  ultimately show ?thesis
    by (cases r) (simp_all add: read_effect_def)
qed

text \<open>The frame the working camera delivers first.\<close>

definition sim_frame :: CameraFrame where
  "sim_frame =
     \<lparr>cf_cameraId = Visible, cf_sequence = 1, cf_fwidth = 1920, cf_fheight = 1080,
      cf_fpixelformat = V4L2_PIX_FMT_MJPEG, cf_bytes = [7, 8, 9], cf_receiveTimestampMs = 50,
      cf_metadata = [], cf_metadataTimestampMs = 0\<rparr>"

lemma sim_read:
  "readCamera sim_os 50 100 Visible (sim_manager\<lparr>cm_visible := sim_started\<rparr>) w =
     Some (Inr sim_frame,
       sim_manager\<lparr>cm_visible := sim_started\<lparr>dev_sequence := 1,
          dev_status := (dev_status sim_started)\<lparr>cam_framesRead := 1\<rparr>\<rparr>\<rparr>, w)"
  by (simp add: readCamera_def visible_readFrame_def camera_readFrame_def dequeueBuffer_def
      enqueueBuffer_def xioctl_def copy_buffer_def clearError_def sim_started_def sim_opened_def
      sim_manager_eq(1) visible_init_def camera_init_def sim_format Let_def new_camera_def opened_status_def
      default_status_def sim_frame_def select_camera_def put_camera_def)

theorem read_frame_accounts_witness:
  "\<exists>m'. readCamera sim_os 50 100 Visible (sim_manager\<lparr>cm_visible := sim_started\<rparr>) 0 = Some (Inr sim_frame, m', 0)
     \<and> cf_cameraId sim_frame = Visible \<and> cf_sequence sim_frame = 1
     \<and> cam_framesRead (dev_status (cm_visible m')) = 1 \<and> cm_composite m' = cm_composite sim_manager"
proof (intro exI conjI)
  show "readCamera sim_os 50 100 Visible (sim_manager\<lparr>cm_visible := sim_started\<rparr>) 0 =
     Some (Inr sim_frame,
       sim_manager\<lparr>cm_visible := sim_started\<lparr>dev_sequence := 1,
          dev_status := (dev_status sim_started)\<lparr>cam_framesRead := 1\<rparr>\<rparr>\<rparr>, 0)"
    by (rule sim_read)
qed (use read_frame_accounts[OF sim_read[of 0], of CompositeLowThermal] in
     \<open>simp_all add: select_camera_def sim_frame_def\<close>)

text \<open>
  When \<open>openAllEnabled\<close> of an initialized manager fails, one of the cameras is in the error state
  with the code that is returned, its device is closed unless it was open before, and the last event
  published says that this camera is offline.
\<close>

theorem open_all_failure:
  assumes "openAllEnabled os m w = Some (Inl e, m', w')" and "cm_initialized m" and "manager_inv m"
  shows "\<exists>cid. cam_state (dev_status (select_camera cid m')) = CameraError \<and>
    cam_lastErrorCode (dev_status (select_camera cid m')) = st_code e \<and>
    (vd_isOpen (dev_v4l2 (select_camera cid m)) \<or> \<not> vd_isOpen (dev_v4l2 (select_camera cid m'))) \<and>
    (if cm_eventBus m then last (cm_published m') = camera_event (dev_status (select_camera cid m')) False
     else cm_published m' = cm_published m)"
proof -
  have pub: "last (cm_published (publishCameraEvent st False n)) = camera_event st False"
    if "cm_eventBus n" for st n
    using that by (simp add: publishCameraEvent_def)
  obtain r1 m1 w1 where v:
    "(if cam_enabled (dev_status (cm_visible m))
      then do { (r, d, w) \<leftarrow> visible_open os (cm_visible m) w;
                Some (r, publishCameraEvent (dev_status d) (result_ok r) (m\<lparr>cm_visible := d\<rparr>), w) }
      else Some (Success, m, w)) = Some (r1, m1, w1)"
    and rest: "(case r1 of Inl e \<Rightarrow> Some (Inl e, m1, w1)
         | Inr _ \<Rightarrow>
             if cam_enabled (dev_status (cm_composite m1))
             then do { (r, d, w) \<leftarrow> composite_open os (cm_composite m1) w1;
                       Some (r, publishCameraEvent (dev_status d) (result_ok r)
                                  (m1\<lparr>cm_composite := d\<rparr>), w) }
             else Some (Success, m1, w1)) = Some (Inl e, m', w')"
    using assms(1,2) unfolding openAllEnabled_def by (auto elim!: bind_SomeE)
  show ?thesis
  proof (cases r1)
    case (Inl e1)
    with rest have eq: "e1 = e" "m1 = m'" by simp_all
    with v Inl obtain d where "visible_open os (cm_visible m) w = Some (Inl e, d, w1)"
      and "m' = publishCameraEvent (dev_status d) False (m\<lparr>cm_visible := d\<rparr>)"
      by (auto elim!: bind_SomeE split: if_splits)
    with vis.open_fails[of os "cm_visible m" w e d w1] assms(3) pub show ?thesis
      by (intro exI[of _ Visible]) (auto simp: select_camera_def manager_inv_def publishCameraEvent_def)
  next
    case (Inr u)
    with v have same: "cm_composite m1 = cm_composite m" "cm_eventBus m1 = cm_eventBus m"
      and pm: "cm_eventBus m \<or> cm_published m1 = cm_published m"
      by (auto elim!: bind_SomeE split: if_splits simp: publishCameraEvent_def)
    from rest Inr same obtain d where "composite_open os (cm_composite m) w1 = Some (Inl e, d, w')"
      and "m' = publishCameraEvent (dev_status d) False (m1\<lparr>cm_composite := d\<rparr>)"
      by (auto elim!: bind_SomeE split: if_splits)
    with comp.open_fails[of os "cm_composite m" w1 e d w'] assms(3) same pm show ?thesis
      by (intro exI[of _ CompositeLowThermal])
        (auto simp: select_camera_def manager_inv_def publishCameraEvent_def)
  qed
qed

definition sim_failed :: "Status" where
  "sim_failed = status_error IoError ''open /dev/video99: no such device''"

lemma sim_manager_state:
  "cm_initialized sim_manager" "cm_eventBus sim_manager" "manager_inv sim_manager"
  using manager_init_inv[OF sim_manager_eq(2)]
  by (simp_all add: sim_manager_eq(1) manager_inv_def new_camera_manager_def cam_inv_new)

lemma sim_composite:
  "ep_videoNode (dev_config (cm_composite sim_manager)) = ''/dev/video99''"
  "cam_configured (dev_status (cm_composite sim_manager))"
  "cam_enabled (dev_status (cm_composite sim_manager))"
  "\<not> vd_isOpen (dev_v4l2 (cm_composite sim_manager))"
  "cam_enabled (dev_status (cm_visible sim_manager))"
  by (simp_all add: sim_manager_eq(1) composite_init_def visible_init_def camera_init_def sim_format
      new_camera_def new_v4l2_def clearError_def vd_isOpen_def Let_def)

lemma sim_open_all:
  "\<exists>m'. openAllEnabled sim_os sim_manager 0 = Some (Inl sim_failed, m', 3)"
  by (simp add: openAllEnabled_def sim_open[of 0] composite_open_def camera_open_def inspectNode_def Let_def
      sim_composite sim_manager_state rememberError_def sim_failed_def status_error_def numeral_3_eq_3
      publishCameraEvent_def describe_def)

theorem open_all_failure_witness:
  "\<exists>m' cid. openAllEnabled sim_os sim_manager 0 = Some (Inl sim_failed, m', 3) \<and>
     cam_state (dev_status (select_camera cid m')) = CameraError \<and>
     last (cm_published m') = camera_event (dev_status (select_camera cid m')) False"
  using sim_open_all open_all_failure[OF _ sim_manager_state(1,3)] sim_manager_state(2) by metis

text \<open>
  \<open>startCamera\<close>, when it succeeds, has opened the device if it was not open and leaves it
  streaming, with the state that says so, and announces exactly that; the other camera is untouched.
\<close>

theorem start_camera_streams:
  assumes "startCamera os cid m w = Some (Success, m', w')" and "manager_inv m"
  shows "vd_isOpen (dev_v4l2 (select_camera cid m')) \<and> vd_streaming (dev_v4l2 (select_camera cid m')) \<and>
    cam_state (dev_status (select_camera cid m')) = Streaming \<and>
    cm_published m' = cm_published m @
      (if cm_eventBus m then [camera_event (dev_status (select_camera cid m')) True] else []) \<and>
    ev_fields (camera_event (dev_status (select_camera cid m')) True) ''state'' = Some ''streaming''"
proof -
  from assms(1) obtain d where s: "device_start os cid (select_camera cid m) w = Some (Success, d, w')"
    and m': "m' = publishCameraEvent (dev_status d) True (put_camera cid d m)"
    by (auto simp: startCamera_def elim!: bind_SomeE split: if_splits)
  from device_start_cases[OF s manager_inv_select[OF assms(2)]]
  have "cam_inv d" "is_streaming d" by simp_all
  moreover have "cm_published (put_camera cid d m) = cm_published m"
    "cm_eventBus (put_camera cid d m) = cm_eventBus m"
    by (cases cid; simp add: put_camera_def)+
  ultimately show ?thesis
    using m' by (auto simp: is_streaming_def cam_inv_def vd_inv_def camera_event_def Let_def
        publishCameraEvent_def select_camera_def put_camera_def split: CameraId.split)
qed

theorem start_camera_streams_witness:
  "\<exists>m'. startCamera sim_os Visible sim_manager 0 = Some (Success, m', 2) \<and>
     vd_streaming (dev_v4l2 (select_camera Visible m')) \<and>
     cam_state (dev_status (select_camera Visible m')) = Streaming"
  using start_camera_streams[OF sim_start(2)[of 0] sim_manager_state(3)] sim_start(2)[of 0] by auto

text \<open>
  After any run of the manager \<open>closeAll\<close> leaves both devices closed, with no mapped buffer, and both
  cameras neither opened nor streaming nor online; reading either is then refused.
\<close>

theorem close_all_releases:
  assumes "manager_run os cs new_camera_manager w = Some (m, w1)" and "closeAll os m w1 = Some (m', w2)"
  shows "\<not> vd_isOpen (dev_v4l2 (select_camera cid m')) \<and> vd_buffers (dev_v4l2 (select_camera cid m')) = [] \<and>
    \<not> cam_opened (dev_status (select_camera cid m')) \<and> \<not> cam_streaming (dev_status (select_camera cid m')) \<and>
    \<not> cam_online (dev_status (select_camera cid m')) \<and>
    (\<exists>e. readCamera os now t cid m' w3 = Some (Inl e, m', w3) \<and> st_code e = NotInitialized)"
proof -
  have "manager_inv new_camera_manager"
    by (simp add: manager_inv_def new_camera_manager_def cam_inv_new)
  with assms(1) have "manager_inv m" by (blast intro: manager_run_inv)
  with assms(2) have c: "is_closed (select_camera cid m')"
    by (cases cid) (auto simp: select_camera_def dest: closeAll_closes)
  moreover from c have "\<exists>e. readCamera os now t cid m' w3 = Some (Inl e, m', w3) \<and> st_code e = NotInitialized"
    by (cases cid) (simp_all add: is_closed_def readCamera_def visible_readFrame_def
        composite_readFrame_def camera_readFrame_def select_camera_def put_camera_def)
  ultimately show ?thesis by (simp add: is_closed_def)
qed

lemma sim_close_all:
  "\<exists>m'. closeAll sim_os (publishCameraEvent (dev_status sim_started) True (sim_manager\<lparr>cm_visible := sim_started\<rparr>)) 2
     = Some (m', 2)"
  by (simp add: closeAll_def visible_close_def composite_close_def camera_close_def camera_stop_def closeDevice_def
      stopStream_def xioctl_def closeNode_def unmap_all_def Let_def vd_isOpen_def sim_started_def sim_opened_def
      sim_manager_eq(1) composite_init_def visible_init_def camera_init_def sim_format new_camera_def new_v4l2_def
      new_reader_def clearError_def opened_status_def default_status_def)

theorem close_all_releases_witness:
  "\<exists>m'. closeAll sim_os (publishCameraEvent (dev_status sim_started) True (sim_manager\<lparr>cm_visible := sim_started\<rparr>)) 2
       = Some (m', 2) \<and>
     \<not> vd_isOpen (dev_v4l2 (select_camera Visible m')) \<and> \<not> cam_opened (dev_status (select_camera Visible m'))"
  using sim_close_all close_all_releases[OF sim_run] by blast

end
