(* ===== verification/Tri_Codec.thy ===== *)
theory Tri_Codec
  imports Tri_Queues
begin

text \<open>
  Conversion and coding of frames: the scan for NAL units and the H.264 encoder over the codec
  library (hardware/mpp/MppEncoder.cpp), colour conversion over the blitter library (hardware/rga), and
  the nodes that use them (media/decode, media/encode, media/process). The two libraries are
  parameters: a record of their functions over a state of the outside world.
\<close>

subsection \<open>NAL units (MppEncoder.cpp)\<close>

text \<open>The start code at index \<open>i\<close> of an Annex B stream: its length, or 0 when there is none. The loops
  read up to four bytes past \<open>i\<close>.\<close>

definition start_code :: "bytes \<Rightarrow> nat \<Rightarrow> nat" where
  "start_code d i =
     (if d ! i = 0 \<and> d ! (i + 1) = 0 \<and> d ! (i + 2) = 0 \<and> d ! (i + 3) = 1 then 4
      else if d ! i = 0 \<and> d ! (i + 1) = 0 \<and> d ! (i + 2) = 1 then 3 else 0)"

definition nal_type_at :: "bytes \<Rightarrow> nat \<Rightarrow> u8" where
  "nal_type_at d i = d ! (i + start_code d i) AND 0x1f"

text \<open>The loop of both scans, over the indices still to be visited.\<close>

fun nal_scan :: "bytes \<Rightarrow> u8 \<Rightarrow> nat list \<Rightarrow> bool" where
  "nal_scan d t [] = False"
| "nal_scan d t (i # is) =
     (if start_code d i \<noteq> 0 \<and> nal_type_at d i = t then True else nal_scan d t is)"

definition hasNalType :: "bytes \<Rightarrow> u8 \<Rightarrow> bool" where
  "hasNalType d t = nal_scan d t [0..<length d - 5]"

definition hasH264Sps :: "bytes \<Rightarrow> bool" where
  "hasH264Sps d = hasNalType d 7"

definition hasH264Idr :: "bytes \<Rightarrow> bool" where
  "hasH264Idr d = hasNalType d 5"

definition hasSpsNal :: "bytes \<Rightarrow> bool" where
  "hasSpsNal d = nal_scan d 7 [0..<length d - 4]"

definition startsWithAnnexB :: "bytes \<Rightarrow> bool" where
  "startsWithAnnexB d \<longleftrightarrow>
     (if 4 \<le> length d \<and> d ! 0 = 0 \<and> d ! 1 = 0 \<and> d ! 2 = 0 \<and> d ! 3 = 1 then True
      else if 3 \<le> length d \<and> d ! 0 = 0 \<and> d ! 1 = 0 \<and> d ! 2 = 1 then True else False)"

lemma nal_scan_iff: "nal_scan d t is \<longleftrightarrow> (\<exists>i \<in> set is. start_code d i \<noteq> 0 \<and> nal_type_at d i = t)"
  by (induction d t "is" rule: nal_scan.induct) auto

text \<open>The two scans differ in their last index only.\<close>

lemma hasH264Sps_imp: "hasH264Sps d \<Longrightarrow> hasSpsNal d"
  by (fastforce simp: hasH264Sps_def hasNalType_def hasSpsNal_def nal_scan_iff)

lemma scans_differ: "hasSpsNal [0, 0, 0, 1, 0x67] \<and> \<not> hasH264Sps [0, 0, 0, 1, 0x67]"
  by (simp add: hasSpsNal_def hasH264Sps_def hasNalType_def start_code_def nal_type_at_def)

subsection \<open>MppEncoder\<close>

datatype MppCodingType = CodingAVC | CodingHEVC | CodingUnused

fun toMppCoding :: "MppCodec \<Rightarrow> MppCodingType" where
  "toMppCoding CodecH264 = CodingAVC"
| "toMppCoding CodecH265 = CodingHEVC"
| "toMppCoding _ = CodingUnused"

record MppEncoderConfig =
  me_codec :: MppCodec
  me_inputFormat :: MppPixelFormat
  me_width :: u32
  me_height :: u32
  me_horStride :: u32
  me_verStride :: u32
  me_fps :: u32
  me_gop :: u32
  me_bitrateKbps :: u32
  me_lowLatency :: bool

definition default_encoder_config :: MppEncoderConfig where
  "default_encoder_config =
     \<lparr>me_codec = CodecH264, me_inputFormat = MppNv12, me_width = 800, me_height = 600,
      me_horStride = 800, me_verStride = 600, me_fps = 30, me_gop = 30, me_bitrateKbps = 2000,
      me_lowLatency = True\<rparr>"

record MppEncodedPacket =
  mep_codec :: MppCodec
  mep_data :: bytes
  mep_ptsMs :: u64
  mep_keyFrame :: bool

text \<open>A value written into the encoder configuration: a number or one of the library's constants.\<close>

datatype enc_value = Num int | Coding MppCodingType | Yuv420sp | Cbr

text \<open>The codec library. \<open>ml_getPacket\<close> distinguishes a failed call, a null packet and a packet; a
  frame is handed over with its sizes, its bytes and its time.\<close>

record 'w mpp_lib =
  ml_create :: "'w \<Rightarrow> bool \<times> 'w"
  ml_init :: "MppCodingType \<Rightarrow> 'w \<Rightarrow> bool \<times> 'w"
  ml_cfgInit :: "'w \<Rightarrow> bool \<times> 'w"
  ml_setCfg :: "(string \<times> enc_value) list \<Rightarrow> 'w \<Rightarrow> bool \<times> 'w"
  ml_extraInfo :: "'w \<Rightarrow> bytes option \<times> 'w"
  ml_destroy :: "'w \<Rightarrow> 'w"
  ml_bufferGet :: "nat \<Rightarrow> 'w \<Rightarrow> bool \<times> 'w"
  ml_frameInit :: "'w \<Rightarrow> bool \<times> 'w"
  ml_putFrame :: "u32 \<Rightarrow> u32 \<Rightarrow> u32 \<Rightarrow> u32 \<Rightarrow> bytes \<Rightarrow> u64 \<Rightarrow> 'w \<Rightarrow> bool \<times> 'w"
  ml_getPacket :: "'w \<Rightarrow> bytes option option \<times> 'w"

text \<open>The contexts \<open>ctx_\<close> and \<open>mpi_\<close> are set and cleared together: one flag.\<close>

record MppEncoder =
  en_config :: MppEncoderConfig
  en_ctx :: bool
  en_initialized :: bool
  en_extraInfo :: bytes

definition new_encoder :: MppEncoder where
  "new_encoder =
     \<lparr>en_config = default_encoder_config, en_ctx = False, en_initialized = False, en_extraInfo = []\<rparr>"

definition enc_release :: "'w mpp_lib \<Rightarrow> MppEncoder \<Rightarrow> 'w \<Rightarrow> MppEncoder \<times> 'w" where
  "enc_release lib e w =
     (e\<lparr>en_ctx := False, en_initialized := False\<rparr>, if en_ctx e then ml_destroy lib w else w)"

definition enc_bitrateKbps :: "MppEncoderConfig \<Rightarrow> u32" where
  "enc_bitrateKbps c =
     (let b = (if me_bitrateKbps c \<noteq> 0 then me_bitrateKbps c else 2048);
          b = (if b < 256 then 256 else b)
      in if 8192 < b then 8192 else b)"

definition horStride :: "MppEncoderConfig \<Rightarrow> u32" where
  "horStride c = (if me_horStride c \<noteq> 0 then me_horStride c else me_width c)"

definition verStride :: "MppEncoderConfig \<Rightarrow> u32" where
  "verStride c = (if me_verStride c \<noteq> 0 then me_verStride c else me_height c)"

definition encoder_settings :: "MppEncoderConfig \<Rightarrow> (string \<times> enc_value) list" where
  "encoder_settings c =
     (let fps = (if me_fps c \<noteq> 0 then me_fps c else 30);
          gop = (if me_gop c \<noteq> 0 then me_gop c else fps);
          bitrate = enc_bitrateKbps c * 1000
      in [(''prep:width'', Num (sint (me_width c))), (''prep:height'', Num (sint (me_height c))),
          (''prep:hor_stride'', Num (sint (horStride c))), (''prep:ver_stride'', Num (sint (verStride c))),
          (''prep:format'', Yuv420sp), (''rc:mode'', Cbr),
          (''rc:bps_target'', Num (sint bitrate)),
          (''rc:bps_max'', Num (sint (bitrate * 11 div 10))),
          (''rc:bps_min'', Num (sint (bitrate * 9 div 10))),
          (''rc:fps_in_flex'', Num 0), (''rc:fps_in_num'', Num (sint fps)), (''rc:fps_in_denorm'', Num 1),
          (''rc:fps_out_flex'', Num 0), (''rc:fps_out_num'', Num (sint fps)), (''rc:fps_out_denorm'', Num 1),
          (''rc:gop'', Num (sint gop)), (''codec:type'', Coding (toMppCoding (me_codec c)))] @
         (if me_codec c = CodecH264
          then [(''h264:profile'', Num 100), (''h264:level'', Num 40), (''h264:qp_init'', Num 30),
                (''h264:qp_max'', Num 44), (''h264:qp_min'', Num 24), (''h264:qp_max_i'', Num 42),
                (''h264:qp_min_i'', Num 22)]
          else []))"

definition enc_init :: "'w mpp_lib \<Rightarrow> MppEncoderConfig \<Rightarrow> MppEncoder \<Rightarrow> 'w \<Rightarrow> unit Result \<times> MppEncoder \<times> 'w" where
  "enc_init lib c e w =
     (case enc_release lib e w of (e, w) \<Rightarrow>
      let e = e\<lparr>en_config := c\<rparr> in
      (case ml_create lib w of (ok, w) \<Rightarrow>
       if \<not> ok then (Error IoError ''mpp_create encoder failed'', e, w)
       else (case ml_init lib (toMppCoding (me_codec c)) w of (ok, w) \<Rightarrow>
       if \<not> ok then (Error IoError ''mpp_init encoder failed'', e, ml_destroy lib w)
       else (case ml_cfgInit lib w of (ok, w) \<Rightarrow>
       if \<not> ok then (Error IoError ''mpp_enc_cfg_init failed'', e, ml_destroy lib w)
       else (case ml_setCfg lib (encoder_settings c) w of (ok, w) \<Rightarrow>
       if \<not> ok then (Error IoError ''MPP_ENC_SET_CFG failed'', e, ml_destroy lib w)
       else let e = e\<lparr>en_ctx := True, en_extraInfo := []\<rparr> in
         if me_codec c = CodecH264
         then (case ml_extraInfo lib w of (extra, w) \<Rightarrow>
               (Success, e\<lparr>en_extraInfo := (case extra of Some x \<Rightarrow> x | None \<Rightarrow> []), en_initialized := True\<rparr>, w))
         else (Success, e\<lparr>en_initialized := True\<rparr>, w))))))"

text \<open>The size of an NV12 image, in the 64-bit arithmetic of \<open>size_t\<close>; \<open>None\<close> is a null pointer.\<close>

definition nv12_size :: "u32 \<Rightarrow> u32 \<Rightarrow> nat" where
  "nv12_size w h = unat ((ucast w * ucast h * 3 :: u64) div 2)"

definition prepend_extra :: "MppEncoder \<Rightarrow> bytes \<Rightarrow> bytes" where
  "prepend_extra e d =
     (if me_codec (en_config e) = CodecH264 \<and> hasH264Idr d \<and> en_extraInfo e \<noteq> [] \<and> \<not> hasSpsNal d
      then en_extraInfo e @ d else d)"

definition encodeNv12 ::
  "'w mpp_lib \<Rightarrow> bytes option \<Rightarrow> u64 \<Rightarrow> MppEncoder \<Rightarrow> 'w \<Rightarrow> MppEncodedPacket Result \<times> 'w" where
  "encodeNv12 lib data ptsMs e w =
     (let c = en_config e; expected = nv12_size (horStride c) (verStride c) in
      if \<not> en_initialized e \<or> \<not> en_ctx e then (Error NotInitialized ''MPP encoder not initialized'', w)
      else (case data of
        None \<Rightarrow> (Error InvalidArgument ''NV12 input too small'', w)
      | Some d \<Rightarrow>
          if length d < expected then (Error InvalidArgument ''NV12 input too small'', w)
          else (case ml_bufferGet lib expected w of (ok, w) \<Rightarrow>
          if \<not> ok then (Error IoError ''mpp_buffer_get failed'', w)
          else (case ml_frameInit lib w of (ok, w) \<Rightarrow>
          if \<not> ok then (Error IoError ''mpp_frame_init failed'', w)
          else (case ml_putFrame lib (me_width c) (me_height c) (horStride c) (verStride c)
                       (take expected d) ptsMs w of (ok, w) \<Rightarrow>
          if \<not> ok then (Error IoError ''encode_put_frame failed'', w)
          else (case ml_getPacket lib w of
                  (None, w) \<Rightarrow> (Error IoError ''encode_get_packet failed'', w)
                | (Some None, w) \<Rightarrow> (Error IoError ''encode_get_packet returned null packet'', w)
                | (Some (Some out), w) \<Rightarrow>
                    (Inr \<lparr>mep_codec = me_codec c, mep_data = prepend_extra e out, mep_ptsMs = ptsMs,
                          mep_keyFrame = (me_codec c = CodecH264 \<and> hasH264Idr out)\<rparr>, w)))))))"

subsection \<open>Colour conversion (hardware/rga)\<close>

datatype RgaPixelFormat = RgaUnknown | RgaYuyv422 | RgaNv12 | RgaRgb888 | RgaBgr888 | RgaRgba8888

text \<open>An address is the memory it points to, \<open>None\<close> the null pointer.\<close>

record RgaImageDesc =
  ri_virAddr :: "bytes option"
  ri_width :: u32
  ri_height :: u32
  ri_horStride :: u32
  ri_verStride :: u32
  ri_format :: RgaPixelFormat
  ri_sizeBytes :: nat

text \<open>The blitter library: the codes of its formats, and the conversion of a buffer with its width,
  height, format and strides into another one; it fails with a text or fills the destination.\<close>

record rga_buffer =
  rb_memory :: bytes
  rb_width :: int
  rb_height :: int
  rb_format :: int
  rb_horStride :: int
  rb_verStride :: int

record 'w rga_lib =
  rl_code :: "RgaPixelFormat \<Rightarrow> int"
  rl_cvtcolor :: "rga_buffer \<Rightarrow> rga_buffer \<Rightarrow> 'w \<Rightarrow> (string + bytes) \<times> 'w"

definition toRgaFormat :: "'w rga_lib \<Rightarrow> RgaPixelFormat \<Rightarrow> int" where
  "toRgaFormat lib f = (if f = RgaUnknown then 0 else rl_code lib f)"

definition imageSizeBytes :: "RgaPixelFormat \<Rightarrow> u32 \<Rightarrow> u32 \<Rightarrow> u64" where
  "imageSizeBytes f w h =
     (case f of
        RgaYuyv422 \<Rightarrow> ucast w * ucast h * 2
      | RgaNv12 \<Rightarrow> ucast w * ucast h * 3 div 2
      | RgaRgb888 \<Rightarrow> ucast w * ucast h * 3
      | RgaBgr888 \<Rightarrow> ucast w * ucast h * 3
      | RgaRgba8888 \<Rightarrow> ucast w * ucast h * 4
      | RgaUnknown \<Rightarrow> 0)"

definition wrap_image :: "'w rga_lib \<Rightarrow> RgaImageDesc \<Rightarrow> bytes \<Rightarrow> rga_buffer" where
  "wrap_image lib d memory =
     \<lparr>rb_memory = memory, rb_width = sint (ri_width d), rb_height = sint (ri_height d),
      rb_format = toRgaFormat lib (ri_format d),
      rb_horStride = sint (if ri_horStride d \<noteq> 0 then ri_horStride d else ri_width d),
      rb_verStride = sint (if ri_verStride d \<noteq> 0 then ri_verStride d else ri_height d)\<rparr>"

text \<open>The memory of the destination after a conversion that succeeds.\<close>

definition rga_convert ::
  "'w rga_lib \<Rightarrow> RgaImageDesc \<Rightarrow> RgaImageDesc \<Rightarrow> 'w \<Rightarrow> bytes Result \<times> 'w" where
  "rga_convert lib src dst w =
     (case (ri_virAddr src, ri_virAddr dst) of
        (Some s, Some d) \<Rightarrow>
          if ri_width src = 0 \<or> ri_height src = 0 \<or> ri_width dst = 0 \<or> ri_height dst = 0
          then (Error InvalidArgument ''RGA convert invalid image size'', w)
          else if toRgaFormat lib (ri_format src) = 0 \<or> toRgaFormat lib (ri_format dst) = 0
          then (Error Unsupported ''RGA convert unsupported pixel format'', w)
          else (case rl_cvtcolor lib (wrap_image lib src s) (wrap_image lib dst d) w of
                  (Inl e, w) \<Rightarrow> (Error IoError (''RGA imcvtcolor failed: '' @ e), w)
                | (Inr out, w) \<Rightarrow> (Inr out, w))
      | _ \<Rightarrow> (Error InvalidArgument ''RGA convert requires non-null virtual address'', w))"

subsection \<open>FormatConvertNode.cpp\<close>

definition convertYuyv422ToNv12 :: "'w rga_lib \<Rightarrow> VideoFrame \<Rightarrow> 'w \<Rightarrow> VideoFrame Result \<times> 'w" where
  "convertYuyv422ToNv12 lib frame w =
     (if vf_width frame = 0 \<or> vf_height frame = 0
      then (Error InvalidArgument ''invalid YUYV frame size'', w)
      else if length (vf_data frame) < unat (ucast (vf_width frame) * ucast (vf_height frame) * 2 :: u64)
      then (Error InvalidArgument ''YUYV frame data too small'', w)
      else
        let out = default_video_frame\<lparr>vf_width := vf_width frame, vf_height := vf_height frame,
                    vf_ptsMs := vf_ptsMs frame, vf_sequence := vf_sequence frame, vf_format := Nv12,
                    vf_data := replicate (nv12_size (vf_width frame) (vf_height frame)) 0\<rparr>;
            src = \<lparr>ri_virAddr = Some (vf_data frame), ri_width = vf_width frame,
                   ri_height = vf_height frame, ri_horStride = vf_width frame,
                   ri_verStride = vf_height frame, ri_format = RgaYuyv422,
                   ri_sizeBytes = length (vf_data frame)\<rparr>;
            dst = \<lparr>ri_virAddr = Some (vf_data out), ri_width = vf_width out,
                   ri_height = vf_height out, ri_horStride = vf_width out,
                   ri_verStride = vf_height out, ri_format = RgaNv12,
                   ri_sizeBytes = length (vf_data out)\<rparr>
        in (case rga_convert lib src dst w of
              (Inl e, w) \<Rightarrow> (Error (st_code e) (st_message e), w)
            | (Inr d, w) \<Rightarrow> (Inr (out\<lparr>vf_data := d\<rparr>), w)))"

definition fc_process ::
  "'w rga_lib \<Rightarrow> VideoPixelFormat \<Rightarrow> VideoFrame \<Rightarrow> 'w \<Rightarrow> VideoFrame Result \<times> 'w" where
  "fc_process lib target frame w =
     (if vf_format frame = target then (Inr frame, w)
      else if target = Nv12 \<and> vf_format frame = Yuyv422 then convertYuyv422ToNv12 lib frame w
      else if isEncodedFormat (vf_format frame)
      then (Error Unsupported (''cannot format-convert encoded input '' @
              toString_PixelFormat (vf_format frame) @ ''; decode it before FormatConvertNode''), w)
      else (Error Unsupported (''unsupported format conversion: '' @
              toString_PixelFormat (vf_format frame) @ '' -> '' @ toString_PixelFormat target), w))"

subsection \<open>MppH264Encoder.cpp\<close>

text \<open>\<open>he_bound\<close> says that the pointer to the library's encoder is set; that encoder belongs to
  the caller and is passed beside the node.\<close>

record MppH264Encoder =
  he_bound :: bool
  he_sequence :: u64

definition h264_config :: "StreamProfile \<Rightarrow> MppEncoderConfig" where
  "h264_config p =
     default_encoder_config\<lparr>me_codec := CodecH264, me_inputFormat := MppNv12,
       me_width := pf_width p, me_height := pf_height p,
       me_horStride := pf_width p, me_verStride := pf_height p,
       me_fps := pf_fps p, me_bitrateKbps := pf_bitrateKbps p,
       me_gop := pf_gop p, me_lowLatency := True\<rparr>"

definition h264_init ::
  "'w mpp_lib \<Rightarrow> StreamProfile \<Rightarrow> MppH264Encoder \<Rightarrow> MppEncoder \<Rightarrow> 'w \<Rightarrow> unit Result \<times> MppEncoder \<times> 'w" where
  "h264_init lib p h e w =
     (if \<not> he_bound h then (Error Unsupported ''MppH264Encoder requires hardware::mpp::MppEncoder'', e, w)
      else enc_init lib (h264_config p) e w)"

definition h264_encode ::
  "'w mpp_lib \<Rightarrow> VideoFrame \<Rightarrow> MppEncoder \<Rightarrow> MppH264Encoder \<Rightarrow> 'w \<Rightarrow>
     EncodedFrame Result \<times> MppH264Encoder \<times> 'w" where
  "h264_encode lib frame e h w =
     (if \<not> he_bound h
      then (Error Unsupported ''MppH264Encoder is not bound to hardware::mpp::MppEncoder'', h, w)
      else if vf_format frame \<noteq> Nv12
      then (Error Unsupported (''MppH264Encoder requires NV12 input, got '' @
              toString_PixelFormat (vf_format frame)), h, w)
      else if vf_width frame = 0 \<or> vf_height frame = 0 \<or> vf_data frame = []
      then (Error InvalidArgument ''MppH264Encoder input frame is invalid'', h, w)
      else if length (vf_data frame) < nv12_size (vf_width frame) (vf_height frame)
      then (Error InvalidArgument ''MppH264Encoder NV12 frame data is too small'', h, w)
      else case encodeNv12 lib (Some (vf_data frame)) (word_of_int (vf_ptsMs frame)) e w of
        (Inl st, w) \<Rightarrow> (rewrap st, h, w)
      | (Inr p, w) \<Rightarrow>
          let h = (if vf_sequence frame \<noteq> 0 then h else h\<lparr>he_sequence := he_sequence h + 1\<rparr>)
          in (Inr \<lparr>ef_codec = CodecH264, ef_data = mep_data p, ef_ptsMs = vf_ptsMs frame,
                   ef_keyFrame = mep_keyFrame p,
                   ef_sequence = (if vf_sequence frame \<noteq> 0 then vf_sequence frame else he_sequence h)\<rparr>,
              h, w))"

definition h264_release :: "'w mpp_lib \<Rightarrow> MppH264Encoder \<Rightarrow> MppEncoder \<Rightarrow> 'w \<Rightarrow> MppEncoder \<times> 'w" where
  "h264_release lib h e w = (if he_bound h then enc_release lib e w else (e, w))"

subsection \<open>MjpegDecoder.cpp and MppMjpegDecoder.cpp\<close>

text \<open>The class \<open>hardware::mpp::MppDecoder\<close> is an interface the repository has no implementation of:
  a parameter.\<close>

record 'w decoder_lib =
  dl_init :: "MppCodec \<Rightarrow> 'w \<Rightarrow> unit Result \<times> 'w"
  dl_decode :: "MppPacket \<Rightarrow> 'w \<Rightarrow> MppFrame Result \<times> 'w"
  dl_release :: "'w \<Rightarrow> 'w"

datatype Decoder = PassthroughMjpeg | MppMjpeg bool

definition dec_init :: "'w decoder_lib \<Rightarrow> Decoder \<Rightarrow> 'w \<Rightarrow> unit Result \<times> 'w" where
  "dec_init lib d w =
     (case d of
        PassthroughMjpeg \<Rightarrow> (Success, w)
      | MppMjpeg bound \<Rightarrow>
          if \<not> bound
          then (Error Unsupported ''MppMjpegDecoder requires a concrete hardware::mpp::MppDecoder'', w)
          else dl_init lib CodecMjpeg w)"

definition dec_decode :: "'w decoder_lib \<Rightarrow> Decoder \<Rightarrow> VideoFrame \<Rightarrow> 'w \<Rightarrow> VideoFrame Result \<times> 'w" where
  "dec_decode lib d encoded w =
     (case d of
        PassthroughMjpeg \<Rightarrow> (Inr encoded, w)
      | MppMjpeg bound \<Rightarrow>
          if \<not> bound then (Error Unsupported ''MppMjpegDecoder is not bound'', w)
          else case dl_decode lib \<lparr>mp_codec = CodecMjpeg, mp_data = vf_data encoded,
                      mp_ptsMs = vf_ptsMs encoded, mp_keyFrame = False\<rparr> w of
                 (Inl e, w) \<Rightarrow> (rewrap e, w)
               | (Inr f, w) \<Rightarrow>
                   (Inr ((fromMppFrame f (vf_source encoded) (vf_ptsMs encoded))
                          \<lparr>vf_sequence := vf_sequence encoded, vf_metadata := vf_metadata encoded\<rparr>), w))"

definition dec_release :: "'w decoder_lib \<Rightarrow> Decoder \<Rightarrow> 'w \<Rightarrow> 'w" where
  "dec_release lib d w = (case d of MppMjpeg True \<Rightarrow> dl_release lib w | _ \<Rightarrow> w)"

subsection \<open>The small nodes (media/process, media/mux)\<close>

definition shouldDrop :: bool where "shouldDrop = False"

definition stamp :: "int \<Rightarrow> VideoFrame \<Rightarrow> VideoFrame" where
  "stamp now frame = (if vf_ptsMs frame = 0 then frame\<lparr>vf_ptsMs := now\<rparr> else frame)"

definition scale_process :: "VideoFrame \<Rightarrow> u32 \<Rightarrow> u32 \<Rightarrow> VideoFrame Result" where
  "scale_process frame width height = Inr frame"

record MuxPacket =
  mx_data :: bytes
  mx_ptsMs :: int

definition ps_mux :: "EncodedFrame \<Rightarrow> MuxPacket Result" where
  "ps_mux frame = Inr \<lparr>mx_data = ef_data frame, mx_ptsMs = ef_ptsMs frame\<rparr>"

definition rtp_packetize :: "MuxPacket \<Rightarrow> MuxPacket list" where
  "rtp_packetize packet = [packet]"

subsection \<open>Properties of the encoder\<close>

lemma encodeNv12_Inr:
  assumes "encodeNv12 lib data pts e w = (Inr p, w')"
  obtains d out where "data = Some d" "en_initialized e"
    "nv12_size (horStride (en_config e)) (verStride (en_config e)) \<le> length d"
    "mep_data p = prepend_extra e out"
    "mep_keyFrame p = (me_codec (en_config e) = CodecH264 \<and> hasH264Idr out)"
    "mep_ptsMs p = pts" "mep_codec p = me_codec (en_config e)"
  using assms
  by (auto simp: encodeNv12_def Let_def split: if_splits option.split_asm prod.split_asm)

text \<open>A NAL unit of a type, as ITU-T H.264 has it in Annex B and 7.3.1: the start code 00 00 01 and a byte whose low
  five bits are the type.\<close>

definition contains_nal :: "u8 \<Rightarrow> bytes \<Rightarrow> bool" where
  "contains_nal t d \<longleftrightarrow> (\<exists>pre h post. d = pre @ [0, 0, 1, h] @ post \<and> h AND 0x1f = t)"

lemma contains_nal_at:
  assumes "j + 3 < length d" "d ! j = 0" "d ! (j + 1) = 0" "d ! (j + 2) = 1" "d ! (j + 3) AND 0x1f = t"
  shows "contains_nal t d"
proof -
  from assms(1) have "take 4 (drop j d) = [d ! j, d ! (j + 1), d ! (j + 2), d ! (j + 3)]"
    by (simp add: Cons_nth_drop_Suc[symmetric] take_Suc numeral_eq_Suc)
  with assms(2-4) have "take 4 (drop j d) = [0, 0, 1, d ! (j + 3)]" by simp
  then have "d = take j d @ [0, 0, 1, d ! (j + 3)] @ drop 4 (drop j d)" by (metis append_take_drop_id)
  with assms(5) show ?thesis unfolding contains_nal_def by blast
qed

lemma nal_scan_contains:
  assumes "nal_scan d t [0..<n]" "n \<le> length d - 4"
  shows "contains_nal t d"
proof -
  from assms(1) obtain i where "i < n" and st: "start_code d i \<noteq> 0" "nal_type_at d i = t"
    by (auto simp: nal_scan_iff)
  with assms(2) have i: "i + 4 < length d" "start_code d i \<noteq> 0" "nal_type_at d i = t" by simp_all
  show ?thesis
  proof (cases "start_code d i = 4")
    case True
    with i show ?thesis
      by (intro contains_nal_at[of "i + 1"]) (auto simp: start_code_def nal_type_at_def eval_nat_numeral split: if_splits)
  next
    case False
    with i have "start_code d i = 3" by (auto simp: start_code_def split: if_splits)
    with i show ?thesis by (intro contains_nal_at[of i]) (auto simp: start_code_def nal_type_at_def split: if_splits)
  qed
qed

lemma hasNal_contains:
  "hasSpsNal d \<Longrightarrow> contains_nal 7 d" "hasH264Idr d \<Longrightarrow> contains_nal 5 d"
  by (auto simp: hasSpsNal_def hasH264Idr_def hasNalType_def elim!: nal_scan_contains)

lemma contains_nal_append: "contains_nal t d \<Longrightarrow> contains_nal t (d @ e)"
  unfolding contains_nal_def by (metis append.assoc)

lemma enc_init_Success:
  assumes "enc_init lib c e0 w0 = (Success, e, w1)"
  shows "en_config e = c"
    and "me_codec c = CodecH264 \<Longrightarrow> \<exists>w. en_extraInfo e = (case fst (ml_extraInfo lib w) of Some x \<Rightarrow> x | None \<Rightarrow> [])"
  using assms by (auto simp: enc_init_def Let_def split: prod.split_asm if_splits) (metis fst_conv)

text \<open>
  Claim C38. Every key frame carries its parameter sets: when the header the library gives an H.264 encoder at its
  initialization holds a sequence parameter set, so does every packet that this encoder marks as a key frame; the packet
  is the library's, which holds an IDR slice, with the header before it or as it is, and only H.264 packets are marked.
\<close>

theorem keyframes_carry_sps:
  assumes "enc_init lib c e0 w0 = (Success, e, w1)"
    and "\<And>w. fst (ml_extraInfo lib w) = Some hdr" and "contains_nal 7 hdr"
    and "encodeNv12 lib data pts e w = (Inr p, w')" and "mep_keyFrame p"
  shows "contains_nal 7 (mep_data p) \<and> mep_codec p = CodecH264 \<and>
    (\<exists>out. contains_nal 5 out \<and> (mep_data p = out \<or> mep_data p = hdr @ out))"
  using assms(4)
proof (rule encodeNv12_Inr)
  fix d out
  assume data: "mep_data p = prepend_extra e out"
    and key: "mep_keyFrame p = (me_codec (en_config e) = CodecH264 \<and> hasH264Idr out)"
    and codec: "mep_codec p = me_codec (en_config e)"
  from assms(5) key have k: "me_codec (en_config e) = CodecH264" "hasH264Idr out" by auto
  with enc_init_Success[OF assms(1)] have "en_extraInfo e = hdr" by (auto simp: assms(2))
  moreover have "hdr \<noteq> []" using assms(3) by (auto simp: contains_nal_def)
  ultimately have "mep_data p = (if hasSpsNal out then out else hdr @ out)"
    using data k by (simp add: prepend_extra_def)
  with assms(3) k codec hasNal_contains[of out] contains_nal_append[of 7 hdr out] show ?thesis by auto
qed

definition header_lib :: "'w mpp_lib" where
  "header_lib =
     \<lparr>ml_create = Pair True, ml_init = (\<lambda>_. Pair True), ml_cfgInit = Pair True,
      ml_setCfg = (\<lambda>_. Pair True), ml_extraInfo = Pair (Some [0, 0, 0, 1, 0x67, 0x42]),
      ml_destroy = id, ml_bufferGet = (\<lambda>_. Pair True), ml_frameInit = Pair True,
      ml_putFrame = (\<lambda>_ _ _ _ _ _. Pair True),
      ml_getPacket = Pair (Some (Some [0, 0, 0, 1, 0x65, 0x88]))\<rparr>"

definition small_encoder :: MppEncoder where
  "small_encoder =
     fst (snd (enc_init header_lib (default_encoder_config\<lparr>me_width := 2, me_height := 2,
       me_horStride := 2, me_verStride := 2\<rparr>) new_encoder ()))"

lemma small_encoder_eq:
  "small_encoder =
     \<lparr>en_config = default_encoder_config\<lparr>me_width := 2, me_height := 2, me_horStride := 2, me_verStride := 2\<rparr>,
      en_ctx = True, en_initialized = True, en_extraInfo = [0, 0, 0, 1, 0x67, 0x42]\<rparr>"
  by (simp add: small_encoder_def enc_init_def enc_release_def header_lib_def Let_def new_encoder_def
      default_encoder_config_def)

lemma small_idr:
  "hasH264Idr [0, 0, 0, 1, 0x65, 0x88]" "\<not> hasSpsNal [0, 0, 0, 1, 0x65, 0x88]"
  "hasSpsNal [0, 0, 0, 1, 0x67, 0x42]"
  by (simp_all add: hasSpsNal_def hasH264Idr_def hasNalType_def start_code_def nal_type_at_def upt_rec)

lemma small_encode:
  "encodeNv12 header_lib (Some [1, 2, 3, 4, 5, 6]) 40 small_encoder () =
     (Inr \<lparr>mep_codec = CodecH264, mep_data = [0, 0, 0, 1, 0x67, 0x42, 0, 0, 0, 1, 0x65, 0x88],
           mep_ptsMs = 40, mep_keyFrame = True\<rparr>, ())"
  by (simp add: encodeNv12_def small_encoder_eq header_lib_def Let_def nv12_size_def horStride_def
      verStride_def default_encoder_config_def prepend_extra_def small_idr)

theorem keyframes_carry_sps_witness:
  "contains_nal 7 [0, 0, 0, 1, 0x67, 0x42, 0, 0, 0, 1, 0x65, 0x88]"
proof -
  have "\<exists>e w1. enc_init header_lib (default_encoder_config\<lparr>me_width := 2, me_height := 2,
       me_horStride := 2, me_verStride := 2\<rparr>) new_encoder () = (Success, e, w1)"
    by (simp add: enc_init_def enc_release_def header_lib_def Let_def new_encoder_def default_encoder_config_def)
  then have init: "enc_init header_lib (default_encoder_config\<lparr>me_width := 2, me_height := 2,
       me_horStride := 2, me_verStride := 2\<rparr>) new_encoder () = (Success, small_encoder, ())"
    by (auto simp: small_encoder_def)
  have extra: "fst (ml_extraInfo header_lib w) = Some [0, 0, 0, 1, 0x67, 0x42]" for w
    by (simp add: header_lib_def)
  have "contains_nal 7 [0, 0, 0, 1, 0x67, 0x42]" by (rule hasNal_contains(1)[OF small_idr(3)])
  from keyframes_carry_sps[OF init extra this small_encode] show ?thesis by simp
qed

lemma sint_small:
  fixes x :: u32
  assumes "unat x < 2 ^ 31"
  shows "sint x = int (unat x)"
proof -
  have "int (unat x) < int (2 ^ 31)" using assms by (simp only: of_nat_less_iff)
  then have "uint x < 2 ^ 31" by simp
  moreover have "- (2 ^ 31) \<le> uint x" using order_trans[of _ 0 "uint x"] by simp
  ultimately have "signed_take_bit 31 (uint x) = uint x"
    by (intro signed_take_bit_int_eq_self)
  then show ?thesis by (simp add: sint_uint)
qed

text \<open>
  Whatever the configuration asks for, the bit rate the encoder is set to lies between 256 and 8192
  kilobits per second, and its bounds are ten percent around it, with no wrap-around in the
  32-bit arithmetic.
\<close>

theorem encoder_bitrate_bounds:
  "\<exists>b. map_of (encoder_settings c) ''rc:bps_target'' = Some (Num b) \<and>
     256000 \<le> b \<and> b \<le> 8192000 \<and>
     map_of (encoder_settings c) ''rc:bps_max'' = Some (Num (b * 11 div 10)) \<and>
     map_of (encoder_settings c) ''rc:bps_min'' = Some (Num (b * 9 div 10))"
proof -
  let ?k = "enc_bitrateKbps c"
  have k: "256 \<le> unat ?k \<and> unat ?k \<le> 8192"
    by (auto simp: enc_bitrateKbps_def Let_def word_le_nat_alt word_less_nat_alt)
  have u: "unat (?k * 1000) = unat ?k * 1000" "unat (?k * 1000 * 11) = unat ?k * 11000"
    "unat (?k * 1000 * 9) = unat ?k * 9000"
    using k by (simp_all add: unat_word_ariths)
  have s: "sint (?k * 1000) = int (unat ?k * 1000)"
    "sint (?k * 1000 * 11 div 10) = int (unat ?k * 1000) * 11 div 10"
    "sint (?k * 1000 * 9 div 10) = int (unat ?k * 1000) * 9 div 10"
    using k u by (simp_all add: sint_small unat_div zdiv_int)
  have m: "map_of (encoder_settings c) ''rc:bps_target'' = Some (Num (sint (?k * 1000)))"
    "map_of (encoder_settings c) ''rc:bps_max'' = Some (Num (sint (?k * 1000 * 11 div 10)))"
    "map_of (encoder_settings c) ''rc:bps_min'' = Some (Num (sint (?k * 1000 * 9 div 10)))"
    by (simp_all add: encoder_settings_def Let_def)
  have "256000 \<le> int (unat ?k * 1000) \<and> int (unat ?k * 1000) \<le> 8192000"
    using k by linarith
  then show ?thesis
    unfolding m s by blast
qed

end
