(* ===== verification/Tri_Pipeline.thy ===== *)
theory Tri_Pipeline
  imports Tri_Plan Tri_CameraManager Tri_Codec
begin

text \<open>
  The media pipeline (media/pipeline/MediaPipeline.cpp) with its capture nodes (media/capture): set-up,
  start and stop, the processing of one frame, and the worker thread as steps between the calls of the
  owner. The cameras, the stream and the codecs belong to the caller: they are passed as one
  record and returned updated.
\<close>

subsection \<open>What the pipeline works on\<close>

record 'w media_env =
  env_video :: "'w video_os"
  env_mpp :: "'w mpp_lib"
  env_rga :: "'w rga_lib"
  env_decoder :: "'w decoder_lib"

text \<open>The objects the context points to, with the state of the outside world.\<close>

record 'w rig =
  rg_cameras :: CameraManager
  rg_stream :: MainStream
  rg_encoder :: MppEncoder
  rg_world :: 'w

text \<open>The pointers of the context: whether they are set. The program has one object of each kind, so a pointer that
  is set is the one to the rig's object. Using a null pointer ends the program, which is \<open>None\<close> below.\<close>

record PipelineContext =
  cx_cameraManager :: bool
  cx_mainStream :: bool
  cx_eventBus :: bool
  cx_mjpegDecoder :: bool
  cx_encoder :: bool

definition default_context :: PipelineContext where
  "default_context =
     \<lparr>cx_cameraManager = False, cx_mainStream = False, cx_eventBus = False, cx_mjpegDecoder = False,
      cx_encoder = False\<rparr>"

datatype PipelineState = Created | Initialized | Running | Stopped | PipelineError

fun state_number :: "PipelineState \<Rightarrow> int" where
  "state_number Created = 0"
| "state_number Initialized = 1"
| "state_number Running = 2"
| "state_number Stopped = 3"
| "state_number PipelineError = 4"

record PipelineStats =
  pt_capturedFrames :: u64
  pt_decodedFrames :: u64
  pt_encodedFrames :: u64
  pt_droppedFrames :: u64
  pt_errors :: u64
  pt_lastError :: string

definition zero_pipeline_stats :: PipelineStats where
  "zero_pipeline_stats =
     \<lparr>pt_capturedFrames = 0, pt_decodedFrames = 0, pt_encodedFrames = 0, pt_droppedFrames = 0,
      pt_errors = 0, pt_lastError = []\<rparr>"

subsection \<open>VisibleCaptureNode.cpp and CompositeCaptureNode.cpp\<close>

text \<open>The two nodes differ in the camera they name; \<open>cn_manager\<close> says that \<open>init\<close> stored a manager. The
  manager always has both cameras.\<close>

record CaptureNode =
  cn_manager :: bool

fun capture_label :: "CameraId \<Rightarrow> string" where
  "capture_label Visible = ''visible capture node not initialized''"
| "capture_label CompositeLowThermal = ''composite capture node not initialized''"

definition capture_init :: "bool \<Rightarrow> CaptureNode \<Rightarrow> unit Result \<times> CaptureNode" where
  "capture_init manager n =
     (if \<not> manager then (Error InvalidArgument ''camera manager is null'', n)
      else (Success, n\<lparr>cn_manager := True\<rparr>))"

definition capture_start ::
  "'w media_env \<Rightarrow> CameraId \<Rightarrow> CaptureNode \<Rightarrow> 'w rig \<Rightarrow> (unit Result \<times> 'w rig) option" where
  "capture_start env cid n rig =
     (if \<not> cn_manager n then Some (Error NotInitialized (capture_label cid), rig)
      else do { (r, m, w) \<leftarrow> startCamera (env_video env) cid (rg_cameras rig) (rg_world rig);
                Some (r, rig\<lparr>rg_cameras := m, rg_world := w\<rparr>) })"

definition capture_frame ::
  "'w media_env \<Rightarrow> int \<Rightarrow> int \<Rightarrow> CameraId \<Rightarrow> CaptureNode \<Rightarrow> 'w rig \<Rightarrow>
     (VideoFrame Result \<times> 'w rig) option" where
  "capture_frame env now timeoutMs cid n rig =
     (if \<not> cn_manager n then Some (Error NotInitialized (capture_label cid), rig)
      else do { (r, m, w) \<leftarrow> readCamera (env_video env) now timeoutMs cid (rg_cameras rig) (rg_world rig);
                let rig = rig\<lparr>rg_cameras := m, rg_world := w\<rparr>;
                Some (case r of Inl e \<Rightarrow> (rewrap e, rig)
                              | Inr f \<Rightarrow> (Inr (fromCameraFrame f), rig)) })"

definition capture_stop ::
  "'w media_env \<Rightarrow> CameraId \<Rightarrow> CaptureNode \<Rightarrow> 'w rig \<Rightarrow> (unit Result \<times> 'w rig) option" where
  "capture_stop env cid n rig =
     (if \<not> cn_manager n then Some (Success, rig)
      else do { (r, m, w) \<leftarrow> stopCamera (env_video env) cid (rg_cameras rig) (rg_world rig);
                Some (r, rig\<lparr>rg_cameras := m, rg_world := w\<rparr>) })"

subsection \<open>MediaPipeline.cpp: set-up\<close>

record MediaPipeline =
  pipe_config :: PipelineConfig
  pipe_context :: PipelineContext
  pipe_graph :: "string list"
  pipe_stats :: PipelineStats
  pipe_state :: PipelineState
  pipe_visible :: "CaptureNode option"
  pipe_composite :: "CaptureNode option"
  pipe_decoder :: "Decoder option"
  pipe_encoder :: "MppH264Encoder option"
  pipe_convert :: "VideoPixelFormat option"
  pipe_stopFlag :: bool
  pipe_worker :: bool
  pipe_published :: "Event list"

definition new_pipeline :: MediaPipeline where
  "new_pipeline =
     \<lparr>pipe_config = default_pipeline_config, pipe_context = default_context, pipe_graph = [],
      pipe_stats = zero_pipeline_stats, pipe_state = Created, pipe_visible = None,
      pipe_composite = None, pipe_decoder = None, pipe_encoder = None, pipe_convert = None,
      pipe_stopFlag = False, pipe_worker = False, pipe_published = []\<rparr>"

abbreviation addNode :: "string \<Rightarrow> MediaPipeline \<Rightarrow> MediaPipeline" where
  "addNode name p \<equiv> p\<lparr>pipe_graph := pipe_graph p @ [name]\<rparr>"

definition pipe_validateContext :: "MediaPipeline \<Rightarrow> unit Result" where
  "pipe_validateContext p =
     (if \<not> cx_cameraManager (pipe_context p) then Error InvalidArgument ''pipeline camera manager is null''
      else if \<not> cx_mainStream (pipe_context p) then Error InvalidArgument ''pipeline main stream is null''
      else if pl_useEncoder (pipe_config p) \<and> \<not> cx_encoder (pipe_context p)
      then Error EncoderInitFailed ''encoder is required but not provided''
      else Success)"

text \<open>The successive parts of \<open>init\<close>, each of which may end it.\<close>

definition init_visible :: "MediaPipeline \<Rightarrow> unit Result \<times> MediaPipeline" where
  "init_visible p =
     (if pl_requireVisible (pipe_config p)
      then (case capture_init (cx_cameraManager (pipe_context p)) \<lparr>cn_manager = False\<rparr> of
              (Inl e, n) \<Rightarrow> (Inl e, p\<lparr>pipe_visible := Some n\<rparr>)
            | (Inr _, n) \<Rightarrow> (Success, addNode ''VisibleCaptureNode'' (p\<lparr>pipe_visible := Some n\<rparr>)))
      else (Success, p))"

definition init_composite :: "MediaPipeline \<Rightarrow> unit Result \<times> MediaPipeline" where
  "init_composite p =
     (if pl_requireComposite (pipe_config p)
      then (case capture_init (cx_cameraManager (pipe_context p)) \<lparr>cn_manager = False\<rparr> of
              (Inl e, n) \<Rightarrow> (Inl e, p\<lparr>pipe_composite := Some n\<rparr>)
            | (Inr _, n) \<Rightarrow> (Success, addNode ''CompositeCaptureNode'' (p\<lparr>pipe_composite := Some n\<rparr>)))
      else (Success, p))"

definition init_decoder ::
  "'w media_env \<Rightarrow> MediaPipeline \<Rightarrow> 'w rig \<Rightarrow> unit Result \<times> MediaPipeline \<times> 'w rig" where
  "init_decoder env p rig =
     (if pl_useDecoder (pipe_config p)
      then let hw = cx_mjpegDecoder (pipe_context p);
               d = (if hw then MppMjpeg True else PassthroughMjpeg);
               p = p\<lparr>pipe_decoder := Some d\<rparr>
           in (case dec_init (env_decoder env) d (rg_world rig) of
                 (Inl e, w) \<Rightarrow> (Inl e, p, rig\<lparr>rg_world := w\<rparr>)
               | (Inr _, w) \<Rightarrow>
                   (Success, addNode (if hw then ''MppMjpegDecoder'' else ''MjpegDecoderPassthrough'') p,
                    rig\<lparr>rg_world := w\<rparr>))
      else (Success, p, rig))"

definition init_convert :: "MediaPipeline \<Rightarrow> MediaPipeline" where
  "init_convert p =
     (if pl_useEncoder (pipe_config p) \<and> pl_useFormatConvert (pipe_config p)
      then addNode (''FormatConvertNode('' @ toString_PixelFormat (pl_encoderInputFormat (pipe_config p)) @ '')'')
             (p\<lparr>pipe_convert := Some (pl_encoderInputFormat (pipe_config p))\<rparr>)
      else p)"

definition init_encoder ::
  "'w media_env \<Rightarrow> MediaPipeline \<Rightarrow> 'w rig \<Rightarrow> unit Result \<times> MediaPipeline \<times> 'w rig" where
  "init_encoder env p rig =
     (if pl_useEncoder (pipe_config p)
      then let h = \<lparr>he_bound = cx_encoder (pipe_context p), he_sequence = 0\<rparr>;
               p = p\<lparr>pipe_encoder := Some h\<rparr>
           in (case h264_init (env_mpp env) (ms_profile (rg_stream rig)) h (rg_encoder rig) (rg_world rig) of
                 (Inl e, enc, w) \<Rightarrow> (Inl e, p, rig\<lparr>rg_encoder := enc, rg_world := w\<rparr>)
               | (Inr _, enc, w) \<Rightarrow>
                   (Success, addNode ''MppH264Encoder'' p, rig\<lparr>rg_encoder := enc, rg_world := w\<rparr>))
      else if pl_passthroughEncoded (pipe_config p)
      then (Success, addNode ''EncodedPassthrough'' p, rig)
      else (Success, p, rig))"

definition pipe_init ::
  "'w media_env \<Rightarrow> PipelineConfig \<Rightarrow> PipelineContext \<Rightarrow> MediaPipeline \<Rightarrow> 'w rig \<Rightarrow>
     unit Result \<times> MediaPipeline \<times> 'w rig" where
  "pipe_init env config context p rig =
     (if pipe_state p = Running then (Error Busy ''pipeline is running'', p, rig)
      else
        let p = p\<lparr>pipe_config := config, pipe_context := context, pipe_stats := zero_pipeline_stats,
                  pipe_graph := []\<rparr>
        in (case pipe_validateContext p of
              Inl e \<Rightarrow> (Inl e, p, rig)
            | Inr _ \<Rightarrow>
           (case init_visible p of
              (Inl e, p) \<Rightarrow> (Inl e, p, rig)
            | (Inr _, p) \<Rightarrow>
           (case init_composite p of
              (Inl e, p) \<Rightarrow> (Inl e, p, rig)
            | (Inr _, p) \<Rightarrow>
           (case init_decoder env p rig of
              (Inl e, p, rig) \<Rightarrow> (Inl e, p, rig)
            | (Inr _, p, rig) \<Rightarrow>
           (case init_encoder env (init_convert p) rig of
              (Inl e, p, rig) \<Rightarrow> (Inl e, p, rig)
            | (Inr _, p, rig) \<Rightarrow>
                (Success, (addNode ''MainStream'' p)\<lparr>pipe_state := Initialized\<rparr>, rig)))))))"

subsection \<open>MediaPipeline.cpp: start and stop\<close>

definition pipeline_event :: "EventType \<Rightarrow> string \<Rightarrow> MediaPipeline \<Rightarrow> Event" where
  "pipeline_event type name p =
     \<lparr>ev_type = type, ev_name = name,
      ev_fields = Map.empty(''pipeline_type'' \<mapsto> toString_PipelineType (pl_type (pipe_config p)),
                            ''state'' \<mapsto> show_int (state_number (pipe_state p)))\<rparr>"

definition pipe_publishEvent :: "EventType \<Rightarrow> string \<Rightarrow> MediaPipeline \<Rightarrow> MediaPipeline" where
  "pipe_publishEvent type name p =
     (if cx_eventBus (pipe_context p)
      then p\<lparr>pipe_published := pipe_published p @ [pipeline_event type name p]\<rparr> else p)"

definition stop_node ::
  "'w media_env \<Rightarrow> CameraId \<Rightarrow> CaptureNode option \<Rightarrow> 'w rig \<Rightarrow> 'w rig option" where
  "stop_node env cid n rig =
     (case n of None \<Rightarrow> Some rig | Some n \<Rightarrow> map_option snd (capture_stop env cid n rig))"

definition stopCaptureNodes :: "'w media_env \<Rightarrow> MediaPipeline \<Rightarrow> 'w rig \<Rightarrow> 'w rig option" where
  "stopCaptureNodes env p rig =
     do { rig \<leftarrow> stop_node env Visible (pipe_visible p) rig;
          stop_node env CompositeLowThermal (pipe_composite p) rig }"

definition startCaptureNodes ::
  "'w media_env \<Rightarrow> MediaPipeline \<Rightarrow> 'w rig \<Rightarrow> (unit Result \<times> 'w rig) option" where
  "startCaptureNodes env p rig =
     do { (r, rig) \<leftarrow> (case pipe_visible p of
                         None \<Rightarrow> Some (Success, rig)
                       | Some n \<Rightarrow> capture_start env Visible n rig);
          (case (r, pipe_composite p) of
             (Inl e, _) \<Rightarrow> Some (Inl e, rig)
           | (Inr _, None) \<Rightarrow> Some (Success, rig)
           | (Inr _, Some n) \<Rightarrow>
               do { (r, rig) \<leftarrow> capture_start env CompositeLowThermal n rig;
                    (case r of
                       Inl e \<Rightarrow> do { rig \<leftarrow> stop_node env Visible (pipe_visible p) rig;
                                    Some (Inl e, rig) }
                     | Inr _ \<Rightarrow> Some (Success, rig)) }) }"

text \<open>\<open>start\<close> up to the moment the worker thread runs, and what the caller does after it. The stream's pointer is
  not tested again here: an \<open>init\<close> that was refused for a null stream has kept it.\<close>

definition pipe_launch ::
  "'w media_env \<Rightarrow> MediaPipeline \<Rightarrow> 'w rig \<Rightarrow> (unit Result \<times> MediaPipeline \<times> 'w rig) option" where
  "pipe_launch env p rig =
     (if pipe_state p \<noteq> Initialized \<and> pipe_state p \<noteq> Stopped
      then Some (Error NotInitialized ''pipeline is not initialized'', p, rig)
      else do { (r, rig) \<leftarrow> startCaptureNodes env p rig;
                (case r of
                   Inl e \<Rightarrow> Some (Inl e, p, rig)
                 | Inr _ \<Rightarrow>
                     if \<not> cx_mainStream (pipe_context p) then None
                     else Some (Success, p\<lparr>pipe_stopFlag := False, pipe_worker := True\<rparr>,
                                rig\<lparr>rg_stream := ms_start (rg_stream rig)\<rparr>)) })"

definition pipe_running :: "MediaPipeline \<Rightarrow> MediaPipeline" where
  "pipe_running p = pipe_publishEvent PipelineStarted ''pipeline_started'' (p\<lparr>pipe_state := Running\<rparr>)"

definition pipe_start ::
  "'w media_env \<Rightarrow> MediaPipeline \<Rightarrow> 'w rig \<Rightarrow> (unit Result \<times> MediaPipeline \<times> 'w rig) option" where
  "pipe_start env p rig =
     do { (r, p, rig) \<leftarrow> pipe_launch env p rig;
          Some (case r of Inl e \<Rightarrow> (Inl e, p, rig) | Inr _ \<Rightarrow> (Success, pipe_running p, rig)) }"

text \<open>\<open>stop\<close>: the part before the join, the join, and the part after it. The worker ends when it finds the stop flag
  set between two turns; a join with a worker that does not find it never returns.\<close>

definition pipe_signal_stop :: "MediaPipeline \<Rightarrow> MediaPipeline" where
  "pipe_signal_stop p = p\<lparr>pipe_stopFlag := True\<rparr>"

definition pipe_join :: "MediaPipeline \<Rightarrow> MediaPipeline option" where
  "pipe_join p =
     (if \<not> pipe_worker p then Some p else if pipe_stopFlag p then Some (p\<lparr>pipe_worker := False\<rparr>) else None)"

definition release_codecs :: "'w media_env \<Rightarrow> MediaPipeline \<Rightarrow> 'w rig \<Rightarrow> 'w rig" where
  "release_codecs env p rig =
     (let rig = (case pipe_decoder p of
                   None \<Rightarrow> rig
                 | Some d \<Rightarrow> rig\<lparr>rg_world := dec_release (env_decoder env) d (rg_world rig)\<rparr>)
      in (case pipe_encoder p of
            None \<Rightarrow> rig
          | Some h \<Rightarrow> (case h264_release (env_mpp env) h (rg_encoder rig) (rg_world rig) of
                         (e, w) \<Rightarrow> rig\<lparr>rg_encoder := e, rg_world := w\<rparr>)))"

definition pipe_shutdown ::
  "'w media_env \<Rightarrow> MediaPipeline \<Rightarrow> 'w rig \<Rightarrow> (MediaPipeline \<times> 'w rig) option" where
  "pipe_shutdown env p rig =
     do { rig \<leftarrow> stopCaptureNodes env p rig;
          let rig = release_codecs env p rig;
          let rig = (if cx_mainStream (pipe_context p)
                     then rig\<lparr>rg_stream := ms_stop (rg_stream rig)\<rparr> else rig);
          let p = (if pipe_state p = Running \<or> pipe_state p = Initialized
                   then pipe_publishEvent PipelineStopped ''pipeline_stopped'' p else p);
          Some (p\<lparr>pipe_state := Stopped\<rparr>, rig) }"

definition pipe_stop ::
  "'w media_env \<Rightarrow> MediaPipeline \<Rightarrow> 'w rig \<Rightarrow> (MediaPipeline \<times> 'w rig) option" where
  "pipe_stop env p rig = do { p \<leftarrow> pipe_join (pipe_signal_stop p); pipe_shutdown env p rig }"

lemma pipe_stop_eq: "pipe_stop env p rig = pipe_shutdown env (p\<lparr>pipe_stopFlag := True, pipe_worker := False\<rparr>) rig"
proof (cases "pipe_worker p")
  case False
  then have eq: "p\<lparr>pipe_stopFlag := True, pipe_worker := False\<rparr> = p\<lparr>pipe_stopFlag := True\<rparr>" by (cases p) simp
  from False show ?thesis unfolding eq by (simp add: pipe_stop_def pipe_join_def pipe_signal_stop_def)
qed (simp add: pipe_stop_def pipe_join_def pipe_signal_stop_def)

subsection \<open>MediaPipeline.cpp: one frame\<close>

abbreviation count_stats :: "(PipelineStats \<Rightarrow> PipelineStats) \<Rightarrow> MediaPipeline \<Rightarrow> MediaPipeline" where
  "count_stats f p \<equiv> p\<lparr>pipe_stats := f (pipe_stats p)\<rparr>"

definition prepareFrameForEncoder ::
  "'w media_env \<Rightarrow> MediaPipeline \<Rightarrow> VideoFrame \<Rightarrow> 'w rig \<Rightarrow> VideoFrame Result \<times> 'w rig" where
  "prepareFrameForEncoder env p frame rig =
     (if vf_format frame = pl_encoderInputFormat (pipe_config p) then (Inr frame, rig)
      else case pipe_convert p of
        None \<Rightarrow> (Error Unsupported (''encoder input format mismatch: captured='' @
                   toString_PixelFormat (vf_format frame) @ '', required='' @
                   toString_PixelFormat (pl_encoderInputFormat (pipe_config p))), rig)
      | Some target \<Rightarrow>
          (case fc_process (env_rga env) target frame (rg_world rig) of
             (Inl e, w) \<Rightarrow> (rewrap e, rig\<lparr>rg_world := w\<rparr>)
           | (Inr f, w) \<Rightarrow> (Inr f, rig\<lparr>rg_world := w\<rparr>)))"

definition prepareFrameForPipeline ::
  "'w media_env \<Rightarrow> MediaPipeline \<Rightarrow> VideoFrame \<Rightarrow> 'w rig \<Rightarrow> VideoFrame Result \<times> MediaPipeline \<times> 'w rig" where
  "prepareFrameForPipeline env p frame rig =
     (let encode = (\<lambda>p frame rig.
            if pipe_encoder p \<noteq> None
            then (case prepareFrameForEncoder env p frame rig of (r, rig) \<Rightarrow> (r, p, rig))
            else (Inr frame, p, rig))
      in if vf_format frame = FormatUnknown
         then (Error Unsupported ''captured frame pixel format is unknown'', p, rig)
         else if vf_format frame = Mjpeg
         then (case pipe_decoder p of
                 Some d \<Rightarrow>
                   (case dec_decode (env_decoder env) d frame (rg_world rig) of
                      (Inl e, w) \<Rightarrow> (Error MjpegDecodeFailed (describe e), p, rig\<lparr>rg_world := w\<rparr>)
                    | (Inr f, w) \<Rightarrow>
                        encode (count_stats (\<lambda>s. s\<lparr>pt_decodedFrames := pt_decodedFrames s + 1\<rparr>) p) f
                          (rig\<lparr>rg_world := w\<rparr>))
               | None \<Rightarrow>
                   if pipe_encoder p \<noteq> None
                   then (Error MjpegDecodeFailed ''MJPG input requires decoder before MPP encoder'', p, rig)
                   else (Inr frame, p, rig))
         else encode p frame rig)"

definition count_encoded :: "MediaPipeline \<Rightarrow> MediaPipeline" where
  "count_encoded p = count_stats (\<lambda>s. s\<lparr>pt_encodedFrames := pt_encodedFrames s + 1\<rparr>) p"

definition push_stream ::
  "EncodedFrame \<Rightarrow> MediaPipeline \<Rightarrow> 'w rig \<Rightarrow> (unit Result \<times> MediaPipeline \<times> 'w rig) option" where
  "push_stream f p rig =
     (if \<not> cx_mainStream (pipe_context p) then None
      else case ms_push f (rg_stream rig) of (r, s) \<Rightarrow> Some (r, p, rig\<lparr>rg_stream := s\<rparr>))"

definition passthrough_frame :: "int \<Rightarrow> VideoFrame \<Rightarrow> EncodedFrame" where
  "passthrough_frame now frame =
     default_encoded_frame\<lparr>ef_codec := CodecMjpeg, ef_data := vf_data frame,
       ef_ptsMs := (if vf_ptsMs frame = 0 then now else vf_ptsMs frame),
       ef_sequence := vf_sequence frame\<rparr>"

definition publishFrame ::
  "'w media_env \<Rightarrow> int \<Rightarrow> MediaPipeline \<Rightarrow> VideoFrame \<Rightarrow> 'w rig \<Rightarrow>
     (unit Result \<times> MediaPipeline \<times> 'w rig) option" where
  "publishFrame env now p frame rig =
     (case pipe_encoder p of
        Some h \<Rightarrow>
          (case h264_encode (env_mpp env) frame (rg_encoder rig) h (rg_world rig) of
             (Inl e, h, w) \<Rightarrow> Some (rewrap e, p\<lparr>pipe_encoder := Some h\<rparr>, rig\<lparr>rg_world := w\<rparr>)
           | (Inr f, h, w) \<Rightarrow>
               push_stream f (count_encoded (p\<lparr>pipe_encoder := Some h\<rparr>)) (rig\<lparr>rg_world := w\<rparr>))
      | None \<Rightarrow>
          if \<not> pl_passthroughEncoded (pipe_config p)
          then Some (Error Unsupported ''pipeline has no encoder and passthrough is disabled'', p, rig)
          else if vf_format frame \<noteq> Mjpeg
          then Some (Error Unsupported (''raw frame '' @ toString_PixelFormat (vf_format frame) @
                  '' cannot be published as encoded MainStream''), p, rig)
          else push_stream (passthrough_frame now frame) (count_encoded p) rig)"

text \<open>The camera a frame is taken from: the composite one when both are there.\<close>

definition capture_source :: "MediaPipeline \<Rightarrow> (CameraId \<times> CaptureNode) option" where
  "capture_source p =
     (case (pl_requireComposite (pipe_config p), pipe_composite p) of
        (True, Some n) \<Rightarrow> Some (CompositeLowThermal, n)
      | _ \<Rightarrow> (case (pl_requireVisible (pipe_config p), pipe_visible p) of
                 (True, Some n) \<Rightarrow> Some (Visible, n)
               | _ \<Rightarrow> None))"

text \<open>The times are those of the clock when the frame is read and when it is published.\<close>

definition processOneFrame ::
  "'w media_env \<Rightarrow> int \<Rightarrow> int \<Rightarrow> MediaPipeline \<Rightarrow> 'w rig \<Rightarrow>
     (unit Result \<times> MediaPipeline \<times> 'w rig) option" where
  "processOneFrame env readNow pubNow p rig =
     (case capture_source p of
        None \<Rightarrow> Some (Error PipelineBuildFailed ''pipeline has no capture node'', p, rig)
      | Some (cid, n) \<Rightarrow>
          do { (r, rig) \<leftarrow> capture_frame env readNow (pl_captureTimeoutMs (pipe_config p)) cid n rig;
               (case r of
                       Inl e \<Rightarrow> Some (rewrap e, p, rig)
                     | Inr frame \<Rightarrow>
                         let p = count_stats (\<lambda>s. s\<lparr>pt_capturedFrames := pt_capturedFrames s + 1\<rparr>) p in
                         (case prepareFrameForPipeline env p frame rig of
                            (Inl e, p, rig) \<Rightarrow> Some (Inl e, p, rig)
                          | (Inr frame, p, rig) \<Rightarrow> publishFrame env pubNow p frame rig)) })"

definition pipe_recordError :: "Status \<Rightarrow> MediaPipeline \<Rightarrow> MediaPipeline" where
  "pipe_recordError st p =
     (let p = count_stats (\<lambda>s. s\<lparr>pt_errors := pt_errors s + 1, pt_lastError := describe st\<rparr>) p
      in if st_code st \<noteq> Timeout \<and> st_code st \<noteq> SerialReadTimeout
         then p\<lparr>pipe_state := PipelineError\<rparr> else p)"

text \<open>The body of \<open>runLoop\<close>, and the loop over the iterations the worker makes before it sees the stop
  flag: the clock readings of each.\<close>

definition run_iteration ::
  "'w media_env \<Rightarrow> int \<times> int \<Rightarrow> MediaPipeline \<Rightarrow> 'w rig \<Rightarrow> (MediaPipeline \<times> 'w rig) option" where
  "run_iteration env clock p rig =
     do { (r, p, rig) \<leftarrow> processOneFrame env (fst clock) (snd clock) p rig;
          Some (case r of Inl e \<Rightarrow> (pipe_recordError e p, rig) | Inr _ \<Rightarrow> (p, rig)) }"

fun runLoop ::
  "'w media_env \<Rightarrow> (int \<times> int) list \<Rightarrow> MediaPipeline \<Rightarrow> 'w rig \<Rightarrow> (MediaPipeline \<times> 'w rig) option" where
  "runLoop env [] p rig = Some (p, rig)"
| "runLoop env (c # cs) p rig =
     (if pipe_stopFlag p then Some (p, rig)
      else do { (p, rig) \<leftarrow> run_iteration env c p rig; runLoop env cs p rig })"

subsection \<open>PipelineBuilder.cpp: building a pipeline\<close>

text \<open>A pipeline whose set-up fails is destroyed, and its destructor stops it.\<close>

definition pipeline_build ::
  "'w media_env \<Rightarrow> PipelineConfig \<Rightarrow> PipelineContext \<Rightarrow> 'w rig \<Rightarrow>
     (MediaPipeline Result \<times> Event list \<times> 'w rig) option" where
  "pipeline_build env config context rig =
     (case pipe_init env config context new_pipeline rig of
        (Inl e, p, rig) \<Rightarrow>
          do { (p, rig) \<leftarrow> pipe_stop env p rig;
               Some (rewrap e, pipe_published p, rig) }
      | (Inr _, p, rig) \<Rightarrow> Some (Inr p, [], rig))"

subsection \<open>What one iteration changes\<close>

text \<open>Processing touches the counters and the encoder's own sequence number only.\<close>

definition same_pipeline :: "MediaPipeline \<Rightarrow> MediaPipeline \<Rightarrow> bool" where
  "same_pipeline p p' \<longleftrightarrow>
     pipe_config p' = pipe_config p \<and> pipe_context p' = pipe_context p \<and>
     pipe_graph p' = pipe_graph p \<and> pipe_visible p' = pipe_visible p \<and>
     pipe_composite p' = pipe_composite p \<and> pipe_decoder p' = pipe_decoder p \<and>
     (pipe_encoder p' = None) = (pipe_encoder p = None) \<and> pipe_convert p' = pipe_convert p \<and>
     pipe_stopFlag p' = pipe_stopFlag p \<and> pipe_worker p' = pipe_worker p \<and>
     pipe_published p' = pipe_published p"

lemma same_pipeline_refl [simp]: "same_pipeline p p"
  by (simp add: same_pipeline_def)

lemma same_pipeline_trans: "same_pipeline p q \<Longrightarrow> same_pipeline q r \<Longrightarrow> same_pipeline p r"
  by (simp add: same_pipeline_def)

lemma same_pipeline_stats [simp]: "same_pipeline p (q\<lparr>pipe_stats := s\<rparr>) = same_pipeline p q"
  by (simp add: same_pipeline_def)

lemma same_pipeline_state [simp]: "same_pipeline p (q\<lparr>pipe_state := s\<rparr>) = same_pipeline p q"
  by (simp add: same_pipeline_def)

lemma prepareFrameForEncoder_stream:
  "prepareFrameForEncoder env p f rig = (r, rig') \<Longrightarrow>
     rg_stream rig' = rg_stream rig \<and> rg_cameras rig' = rg_cameras rig \<and> rg_encoder rig' = rg_encoder rig"
  by (auto simp: prepareFrameForEncoder_def split: if_splits option.split_asm prod.split_asm sum.split_asm)

lemma prepareFrame_effect:
  assumes "prepareFrameForPipeline env p f rig = (r, p', rig')"
  shows "same_pipeline p p' \<and> pipe_state p' = pipe_state p \<and> pipe_encoder p' = pipe_encoder p \<and>
    rg_stream rig' = rg_stream rig \<and> rg_cameras rig' = rg_cameras rig \<and>
    pt_capturedFrames (pipe_stats p') = pt_capturedFrames (pipe_stats p) \<and>
    pt_encodedFrames (pipe_stats p') = pt_encodedFrames (pipe_stats p) \<and>
    pt_errors (pipe_stats p') = pt_errors (pipe_stats p)"
  using assms
  by (auto simp: prepareFrameForPipeline_def Let_def same_pipeline_def
      split: if_splits option.split_asm prod.split_asm sum.split_asm dest!: prepareFrameForEncoder_stream)

lemma ms_push_failed: "ms_push f s = (r, s') \<Longrightarrow> r \<noteq> Success \<Longrightarrow> s' = s"
  by (auto simp: ms_push_def Let_def split: if_splits)

text \<open>A frame is published by a push of one encoded frame; nothing is pushed when publishing fails.\<close>

lemma publishFrame_effect:
  assumes "publishFrame env now p f rig = Some (r, p', rig')"
  shows "same_pipeline p p' \<and> pipe_state p' = pipe_state p \<and> rg_cameras rig' = rg_cameras rig \<and>
    pt_capturedFrames (pipe_stats p') = pt_capturedFrames (pipe_stats p) \<and>
    pt_errors (pipe_stats p') = pt_errors (pipe_stats p) \<and>
    (if r = Success
     then pt_encodedFrames (pipe_stats p') = pt_encodedFrames (pipe_stats p) + 1 \<and>
       (\<exists>ef. ms_push ef (rg_stream rig) = (Success, rg_stream rig') \<and>
          (if pipe_encoder p = None
           then ef = passthrough_frame now f \<and> vf_format f = Mjpeg \<and> pl_passthroughEncoded (pipe_config p)
           else ef_codec ef = CodecH264 \<and> ef_ptsMs ef = vf_ptsMs f \<and> vf_format f = Nv12 \<and>
             (vf_sequence f \<noteq> 0 \<longrightarrow> ef_sequence ef = vf_sequence f)))
     else rg_stream rig' = rg_stream rig)"
proof (cases "pipe_encoder p")
  case None
  obtain rr s' where "ms_push (passthrough_frame now f) (rg_stream rig) = (rr, s')" by fastforce
  with None assms ms_push_failed[of "passthrough_frame now f" "rg_stream rig" rr s'] show ?thesis
    by (auto simp: publishFrame_def push_stream_def same_pipeline_def count_encoded_def split: if_splits)
next
  case (Some h)
  have enc: "ef_codec ef = CodecH264 \<and> ef_ptsMs ef = vf_ptsMs f \<and> vf_format f = Nv12 \<and>
      (vf_sequence f \<noteq> 0 \<longrightarrow> ef_sequence ef = vf_sequence f)"
    if "h264_encode (env_mpp env) f (rg_encoder rig) h (rg_world rig) = (Inr ef, h', w')" for ef h' w'
    using that by (auto simp: h264_encode_def Let_def split: if_splits sum.split_asm prod.split_asm)
  obtain re h' w' where he: "h264_encode (env_mpp env) f (rg_encoder rig) h (rg_world rig) = (re, h', w')"
    by (cases "h264_encode (env_mpp env) f (rg_encoder rig) h (rg_world rig)") auto
  show ?thesis
  proof (cases re)
    case (Inl e)
    with assms Some he show ?thesis
      by (auto simp: publishFrame_def push_stream_def same_pipeline_def)
  next
    case (Inr ef)
    obtain rr s' where ps: "ms_push ef (rg_stream rig) = (rr, s')" by fastforce
    with assms Some he Inr have "r = rr" "rg_stream rig' = s'" "rg_cameras rig' = rg_cameras rig"
      "p' = count_encoded (p\<lparr>pipe_encoder := Some h'\<rparr>)"
      by (auto simp: publishFrame_def push_stream_def split: if_splits)
    with Some ps enc[of ef h' w'] he Inr ms_push_failed[OF ps] show ?thesis
      by (auto simp: same_pipeline_def count_encoded_def)
  qed
qed

lemma capture_frame_effect:
  "capture_frame env now t cid n rig = Some (r, rig') \<Longrightarrow>
     rg_stream rig' = rg_stream rig \<and> rg_encoder rig' = rg_encoder rig"
  by (auto simp: capture_frame_def Let_def elim!: bind_SomeE split: if_splits sum.split_asm)

definition iteration_effect ::
  "unit Result \<Rightarrow> MediaPipeline \<Rightarrow> 'w rig \<Rightarrow> MediaPipeline \<Rightarrow> 'w rig \<Rightarrow> bool" where
  "iteration_effect r p rig p' rig' \<longleftrightarrow>
     same_pipeline p p' \<and> pipe_state p' = pipe_state p \<and>
     pt_errors (pipe_stats p') = pt_errors (pipe_stats p) \<and>
     (if r = Success
      then pt_capturedFrames (pipe_stats p') = pt_capturedFrames (pipe_stats p) + 1 \<and>
        pt_encodedFrames (pipe_stats p') = pt_encodedFrames (pipe_stats p) + 1 \<and>
        (\<exists>ef. ms_push ef (rg_stream rig) = (Success, rg_stream rig') \<and>
           ef_codec ef = (if pipe_encoder p = None then CodecMjpeg else CodecH264))
      else rg_stream rig' = rg_stream rig)"

lemma processOneFrame_effect:
  assumes "processOneFrame env t1 t2 p rig = Some (r, p', rig')"
  shows "iteration_effect r p rig p' rig'"
proof (cases "capture_source p")
  case None
  with assms show ?thesis
    by (auto simp: processOneFrame_def iteration_effect_def)
next
  case (Some src)
  then obtain cid n where src: "capture_source p = Some (cid, n)" by (cases src) auto
  with assms obtain c rig1 where c: "capture_frame env t1 (pl_captureTimeoutMs (pipe_config p)) cid n rig = Some (c, rig1)"
    and rest: "(case c of Inl e \<Rightarrow> Some (rewrap e, p, rig1)
       | Inr frame \<Rightarrow>
           let p = count_stats (\<lambda>s. s\<lparr>pt_capturedFrames := pt_capturedFrames s + 1\<rparr>) p in
           (case prepareFrameForPipeline env p frame rig1 of
              (Inl e, p, rig) \<Rightarrow> Some (Inl e, p, rig)
            | (Inr frame, p, rig) \<Rightarrow> publishFrame env t2 p frame rig)) = Some (r, p', rig')"
    by (auto simp: processOneFrame_def elim!: bind_SomeE)
  from capture_frame_effect[OF c] have s1: "rg_stream rig1 = rg_stream rig" by simp
  show ?thesis
  proof (cases c)
    case (Inl e)
    with rest s1 show ?thesis by (auto simp: iteration_effect_def)
  next
    case (Inr frame)
    let ?p = "count_stats (\<lambda>s. s\<lparr>pt_capturedFrames := pt_capturedFrames s + 1\<rparr>) p"
    obtain r2 p2 rig2 where pr: "prepareFrameForPipeline env ?p frame rig1 = (r2, p2, rig2)"
      by (cases "prepareFrameForPipeline env ?p frame rig1") auto
    note pe = prepareFrame_effect[OF pr]
    show ?thesis
    proof (cases r2)
      case (Inl e)
      with rest \<open>c = Inr frame\<close> pr pe s1 show ?thesis
        by (auto simp: iteration_effect_def same_pipeline_def)
    next
      case (Inr f2)
      with rest \<open>c = Inr frame\<close> pr have "publishFrame env t2 p2 f2 rig2 = Some (r, p', rig')" by simp
      note pb = publishFrame_effect[OF this]
      have same: "same_pipeline p p'" and none: "(pipe_encoder p2 = None) = (pipe_encoder p = None)"
        using pb pe by (simp_all add: same_pipeline_def)
      from pb pe have counts: "pipe_state p' = pipe_state p" "pt_errors (pipe_stats p') = pt_errors (pipe_stats p)"
        "pt_capturedFrames (pipe_stats p') = pt_capturedFrames (pipe_stats p) + 1"
        by simp_all
      from pe s1 have s2: "rg_stream rig2 = rg_stream rig" by simp
      show ?thesis
      proof (cases "r = Success")
        case True
        with pb obtain ef where "ms_push ef (rg_stream rig2) = (Success, rg_stream rig')"
          and "ef_codec ef = (if pipe_encoder p2 = None then CodecMjpeg else CodecH264)"
          by (auto simp: passthrough_frame_def split: if_splits)
        moreover from pb True pe have "pt_encodedFrames (pipe_stats p') = pt_encodedFrames (pipe_stats p) + 1"
          by simp
        ultimately show ?thesis
          using True same none counts s2 unfolding iteration_effect_def by auto
      next
        case False
        with pb s2 have "rg_stream rig' = rg_stream rig" by simp
        with False same counts show ?thesis by (simp add: iteration_effect_def)
      qed
    qed
  qed
qed

text \<open>
  Claim C15. Each turn of the worker either delivers exactly one encoded frame to the stream, counted once as captured
  and once as encoded, or delivers none and is counted as an error whose text is kept; the state
  becomes an error exactly when the failure is not a time-out.
\<close>

theorem one_frame_or_error:
  assumes "run_iteration env c p rig = Some (p', rig')"
  shows "(pt_capturedFrames (pipe_stats p') = pt_capturedFrames (pipe_stats p) + 1 \<and>
          pt_encodedFrames (pipe_stats p') = pt_encodedFrames (pipe_stats p) + 1 \<and>
          pt_errors (pipe_stats p') = pt_errors (pipe_stats p) \<and> pipe_state p' = pipe_state p \<and>
          (\<exists>ef. ms_push ef (rg_stream rig) = (Success, rg_stream rig') \<and>
             ef_codec ef = (if pipe_encoder p = None then CodecMjpeg else CodecH264))) \<or>
         (pt_errors (pipe_stats p') = pt_errors (pipe_stats p) + 1 \<and> rg_stream rig' = rg_stream rig \<and>
          (\<exists>e t2 t1 q. processOneFrame env t1 t2 p rig = Some (Inl e, q, rig') \<and>
             pt_lastError (pipe_stats p') = describe e \<and>
             pipe_state p' = (if st_code e = Timeout \<or> st_code e = SerialReadTimeout
                              then pipe_state p else PipelineError)))"
proof -
  obtain r q where pr: "processOneFrame env (fst c) (snd c) p rig = Some (r, q, rig')"
    and p': "p' = (case r of Inl e \<Rightarrow> pipe_recordError e q | Inr _ \<Rightarrow> q)"
    using assms by (auto simp: run_iteration_def elim!: bind_SomeE split: sum.split_asm)
  note eff = processOneFrame_effect[OF pr, unfolded iteration_effect_def]
  show ?thesis
  proof (cases r)
    case (Inl e)
    with p' have "p' = pipe_recordError e q" by simp
    with eff Inl pr show ?thesis
      by (intro disjI2) (auto simp: pipe_recordError_def Let_def)
  next
    case (Inr u)
    with eff p' show ?thesis by auto
  qed
qed

subsection \<open>The pipeline and its worker as a transition system\<close>

text \<open>The owner is idle, inside \<open>start\<close> after the thread was launched, or inside \<open>stop\<close> waiting in the join, which
  goes on once the worker has left its loop. An iteration of the worker is one step: it reads nothing the owner writes while it runs but the stop
  flag, which it tests first. Launching a second thread over a joinable one ends the program, so a
  launch needs none.\<close>

datatype owner_phase = OwnerIdle | OwnerStarting | OwnerStopping

inductive pipe_step ::
  "'w media_env \<Rightarrow> owner_phase \<times> MediaPipeline \<times> 'w rig \<Rightarrow> owner_phase \<times> MediaPipeline \<times> 'w rig \<Rightarrow> bool"
  for env where
  step_init: "pipe_init env config context p rig = (r, p', rig') \<Longrightarrow>
     pipe_step env (OwnerIdle, p, rig) (OwnerIdle, p', rig')"
| step_launch: "\<not> pipe_worker p \<Longrightarrow> pipe_launch env p rig = Some (r, p', rig') \<Longrightarrow>
     pipe_step env (OwnerIdle, p, rig) (if result_ok r then OwnerStarting else OwnerIdle, p', rig')"
| step_running: "pipe_step env (OwnerStarting, p, rig) (OwnerIdle, pipe_running p, rig)"
| step_iterate: "pipe_worker p \<Longrightarrow> \<not> pipe_stopFlag p \<Longrightarrow> run_iteration env c p rig = Some (p', rig') \<Longrightarrow>
     pipe_step env (ph, p, rig) (ph, p', rig')"
| step_signal: "pipe_step env (OwnerIdle, p, rig) (OwnerStopping, pipe_signal_stop p, rig)"
| step_exit: "pipe_worker p \<Longrightarrow> pipe_stopFlag p \<Longrightarrow> pipe_step env (ph, p, rig) (ph, p\<lparr>pipe_worker := False\<rparr>, rig)"
| step_join: "\<not> pipe_worker p \<Longrightarrow> pipe_shutdown env p rig = Some (p', rig') \<Longrightarrow>
     pipe_step env (OwnerStopping, p, rig) (OwnerIdle, p', rig')"

inductive_cases pipe_stepE: "pipe_step env s s'"

abbreviation pipe_reach ::
  "'w media_env \<Rightarrow> owner_phase \<times> MediaPipeline \<times> 'w rig \<Rightarrow> owner_phase \<times> MediaPipeline \<times> 'w rig \<Rightarrow> bool" where
  "pipe_reach env \<equiv> (pipe_step env)\<^sup>*\<^sup>*"

text \<open>The invariant: while the worker runs and no stop was asked for, the stream runs, and a pipeline
  that is stopped and not being started has no worker.\<close>

fun pipe_inv :: "owner_phase \<times> MediaPipeline \<times> 'w rig \<Rightarrow> bool" where
  "pipe_inv (ph, p, rig) \<longleftrightarrow>
     (pipe_worker p \<and> \<not> pipe_stopFlag p \<longrightarrow> ms_state (rg_stream rig) = StreamRunning) \<and>
     (ph \<noteq> OwnerStopping \<and> pipe_worker p \<longrightarrow> \<not> pipe_stopFlag p) \<and>
     (ph = OwnerStopping \<longrightarrow> pipe_stopFlag p) \<and>
     (ph = OwnerStarting \<longrightarrow> pipe_worker p) \<and>
     (ph = OwnerIdle \<and> pipe_state p \<in> {Created, Stopped} \<longrightarrow> \<not> pipe_worker p)"

lemma init_parts:
  "init_visible p = (r, p') \<Longrightarrow> pipe_worker p' = pipe_worker p \<and> pipe_stopFlag p' = pipe_stopFlag p \<and>
     pipe_state p' = pipe_state p"
  "init_composite p = (r, p') \<Longrightarrow> pipe_worker p' = pipe_worker p \<and> pipe_stopFlag p' = pipe_stopFlag p \<and>
     pipe_state p' = pipe_state p"
  "init_decoder env p rig = (r, p', rig') \<Longrightarrow> pipe_worker p' = pipe_worker p \<and>
     pipe_stopFlag p' = pipe_stopFlag p \<and> pipe_state p' = pipe_state p \<and> rg_stream rig' = rg_stream rig"
  "init_encoder env p rig = (r, p', rig') \<Longrightarrow> pipe_worker p' = pipe_worker p \<and>
     pipe_stopFlag p' = pipe_stopFlag p \<and> pipe_state p' = pipe_state p \<and> rg_stream rig' = rg_stream rig"
  by (auto simp: init_visible_def init_composite_def init_decoder_def init_encoder_def Let_def
      split: if_splits prod.split_asm sum.split_asm)

lemma init_convert_parts:
  "pipe_worker (init_convert p) = pipe_worker p" "pipe_stopFlag (init_convert p) = pipe_stopFlag p"
  "pipe_state (init_convert p) = pipe_state p"
  by (simp_all add: init_convert_def)

text \<open>An initialization that gets past the context runs its parts in turn.\<close>

lemma pipe_init_cases:
  assumes "pipe_init env config ctx p rig = (r, p', rig')"
  obtains (busy) "pipe_state p = Running" "r = Error Busy ''pipeline is running''" "p' = p" "rig' = rig"
  | (refused) e q where "pipe_state p \<noteq> Running" "r = Inl e" "p' = q" "rig' = rig"
      "q = p\<lparr>pipe_config := config, pipe_context := ctx, pipe_stats := zero_pipeline_stats, pipe_graph := []\<rparr>"
      "pipe_validateContext q = Inl e"
  | (parts) q r1 p1 r2 p2 r3 p3 rig3 where "pipe_state p \<noteq> Running"
      "q = p\<lparr>pipe_config := config, pipe_context := ctx, pipe_stats := zero_pipeline_stats, pipe_graph := []\<rparr>"
      "pipe_validateContext q = Success"
      "init_visible q = (r1, p1)" "init_composite p1 = (r2, p2)" "init_decoder env p2 rig = (r3, p3, rig3)"
      "(r, p', rig') = (case r1 of Inl e \<Rightarrow> (Inl e, p1, rig) | Inr _ \<Rightarrow>
         (case r2 of Inl e \<Rightarrow> (Inl e, p2, rig) | Inr _ \<Rightarrow>
         (case r3 of Inl e \<Rightarrow> (Inl e, p3, rig3) | Inr _ \<Rightarrow>
         (case init_encoder env (init_convert p3) rig3 of
              (Inl e, p, rig) \<Rightarrow> (Inl e, p, rig)
            | (Inr _, p, rig) \<Rightarrow> (Success, (addNode ''MainStream'' p)\<lparr>pipe_state := Initialized\<rparr>, rig)))))"
proof (cases "pipe_state p = Running")
  case True
  with assms show ?thesis by (intro busy) (simp_all add: pipe_init_def)
next
  case False
  define q where "q = p\<lparr>pipe_config := config, pipe_context := ctx, pipe_stats := zero_pipeline_stats, pipe_graph := []\<rparr>"
  show ?thesis
  proof (cases "pipe_validateContext q")
    case (Inl e)
    with False assms show ?thesis
      by (intro refused[of e q]) (simp_all add: pipe_init_def q_def[symmetric] Let_def)
  next
    case (Inr u)
    obtain r1 p1 where 1: "init_visible q = (r1, p1)" by fastforce
    obtain r2 p2 where 2: "init_composite p1 = (r2, p2)" by fastforce
    obtain r3 p3 rig3 where 3: "init_decoder env p2 rig = (r3, p3, rig3)"
      by (cases "init_decoder env p2 rig") auto
    have "(r, p', rig') = (case r1 of Inl e \<Rightarrow> (Inl e, p1, rig) | Inr _ \<Rightarrow>
         (case r2 of Inl e \<Rightarrow> (Inl e, p2, rig) | Inr _ \<Rightarrow>
         (case r3 of Inl e \<Rightarrow> (Inl e, p3, rig3) | Inr _ \<Rightarrow>
         (case init_encoder env (init_convert p3) rig3 of
              (Inl e, p, rig) \<Rightarrow> (Inl e, p, rig)
            | (Inr _, p, rig) \<Rightarrow> (Success, (addNode ''MainStream'' p)\<lparr>pipe_state := Initialized\<rparr>, rig)))))"
      unfolding assms[symmetric] using False Inr 1 2 3
      by (cases r1; cases r2; cases r3) (simp_all add: pipe_init_def q_def[symmetric] Let_def)
    with False Inr 1 2 3 q_def show ?thesis by (intro parts) simp_all
  qed
qed

lemma pipe_init_effect:
  assumes "pipe_init env config ctx p rig = (r, p', rig')"
  shows "pipe_worker p' = pipe_worker p \<and> pipe_stopFlag p' = pipe_stopFlag p \<and>
     rg_stream rig' = rg_stream rig \<and>
     pipe_state p' = (if result_ok r then Initialized else pipe_state p)"
  using assms
proof (cases rule: pipe_init_cases)
  case (parts q r1 p1 r2 p2 r3 p3 rig3)
  obtain r4 p4 rig4 where 4: "init_encoder env (init_convert p3) rig3 = (r4, p4, rig4)"
    by (cases "init_encoder env (init_convert p3) rig3") auto
  from parts(7) 4 init_parts(1)[OF parts(4)] init_parts(2)[OF parts(5)] init_parts(3)[OF parts(6)]
    init_parts(4)[OF 4] init_convert_parts[of p3] parts(2)
  show ?thesis by (auto split: sum.split_asm)
qed simp_all

lemma capture_start_stream:
  "capture_start env cid n rig = Some (r, rig') \<Longrightarrow> rg_stream rig' = rg_stream rig \<and> rg_encoder rig' = rg_encoder rig"
  by (auto simp: capture_start_def elim!: bind_SomeE split: if_splits)

lemma capture_stop_stream:
  "capture_stop env cid n rig = Some (r, rig') \<Longrightarrow> rg_stream rig' = rg_stream rig \<and> rg_encoder rig' = rg_encoder rig"
  by (auto simp: capture_stop_def elim!: bind_SomeE split: if_splits)

lemma stop_node_stream:
  "stop_node env cid n rig = Some rig' \<Longrightarrow> rg_stream rig' = rg_stream rig \<and> rg_encoder rig' = rg_encoder rig"
  by (auto simp: stop_node_def split: option.split_asm dest!: capture_stop_stream)

lemma startCaptureNodes_stream:
  "startCaptureNodes env p rig = Some (r, rig') \<Longrightarrow> rg_stream rig' = rg_stream rig"
  by (auto simp: startCaptureNodes_def elim!: bind_SomeE split: option.split_asm sum.split_asm
      dest!: capture_start_stream stop_node_stream)

lemma pipe_launch_effect:
  "pipe_launch env p rig = Some (r, p', rig') \<Longrightarrow>
     (if result_ok r then p' = p\<lparr>pipe_stopFlag := False, pipe_worker := True\<rparr> \<and>
        ms_state (rg_stream rig') = StreamRunning \<and> pipe_state p \<in> {Initialized, Stopped}
      else p' = p \<and> rg_stream rig' = rg_stream rig)"
  by (auto simp: pipe_launch_def ms_start_def elim!: bind_SomeE split: if_splits sum.split_asm
      dest!: startCaptureNodes_stream)

lemma release_codecs_keeps:
  "rg_stream (release_codecs env p rig) = rg_stream rig"
  "rg_cameras (release_codecs env p rig) = rg_cameras rig"
  by (simp_all add: release_codecs_def Let_def split: option.split prod.split)

lemma pipe_shutdown_effect:
  "pipe_shutdown env p rig = Some (p', rig') \<Longrightarrow>
     pipe_state p' = Stopped \<and> pipe_worker p' = pipe_worker p \<and> pipe_stopFlag p' = pipe_stopFlag p \<and>
     (cx_mainStream (pipe_context p) \<longrightarrow> ms_state (rg_stream rig') = StreamStopped) \<and>
     (\<exists>rig1. stopCaptureNodes env p rig = Some rig1 \<and> rg_cameras rig' = rg_cameras rig1)
     \<and> pipe_published p' = pipe_published p @
         (if cx_eventBus (pipe_context p) \<and> pipe_state p \<in> {Running, Initialized}
          then [pipeline_event PipelineStopped ''pipeline_stopped'' p] else [])"
  by (auto simp: pipe_shutdown_def pipe_publishEvent_def pipeline_event_def Let_def release_codecs_keeps
      ms_stop_def elim!: bind_SomeE split: if_splits)

lemma run_iteration_effect:
  assumes "run_iteration env c p rig = Some (p', rig')"
  shows "same_pipeline p p' \<and> (ms_state (rg_stream rig) = StreamRunning \<longrightarrow> ms_state (rg_stream rig') = StreamRunning) \<and>
    (pipe_state p' = pipe_state p \<or> pipe_state p' = PipelineError)"
proof -
  obtain r q where pr: "processOneFrame env (fst c) (snd c) p rig = Some (r, q, rig')"
    and p': "p' = (case r of Inl e \<Rightarrow> pipe_recordError e q | Inr _ \<Rightarrow> q)"
    using assms by (auto simp: run_iteration_def elim!: bind_SomeE split: sum.split_asm)
  have drop: "ms_state (drop_full s) = ms_state s" for s
    by (induction s rule: drop_full.induct) (subst drop_full.simps, auto)
  have push: "ms_state s' = ms_state s" if "ms_push f s = (Success, s')" for f s s'
    using that by (auto simp: ms_push_def Let_def drop split: if_splits)
  from processOneFrame_effect[OF pr] p' show ?thesis
    by (auto simp: iteration_effect_def pipe_recordError_def Let_def dest!: push split: sum.split_asm if_splits)
qed

lemma pipe_step_inv:
  assumes "pipe_step env s s'" "pipe_inv s"
  shows "pipe_inv s'"
  using assms
proof cases
  case (step_init config ctx p rig r p' rig')
  with assms(2) pipe_init_effect[OF step_init(3)] show ?thesis by auto
next
  case (step_launch p rig r p' rig')
  with assms(2) pipe_launch_effect[OF step_launch(4)] show ?thesis by (auto split: if_splits)
next
  case (step_running p rig)
  with assms(2) show ?thesis by (auto simp: pipe_running_def pipe_publishEvent_def)
next
  case (step_iterate p c rig p' rig' ph)
  with assms(2) run_iteration_effect[OF step_iterate(5)] show ?thesis
    by (auto simp: same_pipeline_def)
next
  case (step_signal p rig)
  with assms(2) show ?thesis by (auto simp: pipe_signal_stop_def)
next
  case (step_exit p ph rig)
  with assms(2) show ?thesis by auto
next
  case (step_join p rig p' rig')
  with assms(2) pipe_shutdown_effect[OF step_join(4)] show ?thesis by auto
qed

lemma pipe_reach_inv: "pipe_reach env s s' \<Longrightarrow> pipe_inv s \<Longrightarrow> pipe_inv s'"
  by (induction rule: rtranclp_induct) (auto intro: pipe_step_inv)

subsection \<open>Calls that return\<close>

text \<open>The driver answers every request after finitely many interruptions.\<close>

definition driver_answers :: "'w video_os \<Rightarrow> bool" where
  "driver_answers os \<longleftrightarrow> (\<forall>fd req w. ioctl_loop os fd req w \<noteq> None)"

lemma driver_answersD:
  assumes "driver_answers os"
  obtains r w' where "ioctl_loop os fd req w = Some (r, w')"
  using assms unfolding driver_answers_def by (metis not_None_eq surj_pair)

lemma xioctl_returns: "driver_answers os \<Longrightarrow> \<exists>r w'. xioctl os req code d w = Some (r, w')"
  by (erule driver_answersD[of os "vd_fd d" req w]) (auto simp: xioctl_def split: sum.splits)

lemma camera_stop_returns:
  assumes "driver_answers os"
  shows "\<exists>r d' w'. camera_stop os d w = Some (r, d', w')"
proof -
  have "\<exists>r v w'. stopStream os (dev_v4l2 d) w = Some (r, v, w')"
    using xioctl_returns[OF assms, of StreamOff IoError "dev_v4l2 d" w]
    by (cases "vd_streaming (dev_v4l2 d)") (auto simp: stopStream_def)
  then obtain r v w' where "stopStream os (dev_v4l2 d) w = Some (r, v, w')" by blast
  then show ?thesis
    by (cases r) (simp_all add: camera_stop_def rememberError_def Let_def)
qed

lemma camera_readFrame_returns:
  assumes "driver_answers os"
  shows "\<exists>r d' w'. camera_readFrame label cid attach os now t d w = Some (r, d', w')"
proof -
  have enq: "\<exists>r w'. enqueueBuffer os i v w = Some (r, w')" for i v w
    using xioctl_returns[OF assms, of "QBuf i" IoError v w] by (auto simp: enqueueBuffer_def)
  obtain dq w1 where dq: "dequeueBuffer os t (dev_v4l2 d) w = (dq, w1)" by fastforce
  show ?thesis
  proof (cases dq)
    case (Inl e)
    with dq show ?thesis by (simp add: camera_readFrame_def rewrap_def)
  next
    case (Inr view)
    obtain f1 d1 w2 where at: "attach \<lparr>cf_cameraId = cid, cf_sequence = dev_sequence d + 1,
        cf_fwidth = cf_width (dev_captureFormat d), cf_fheight = cf_height (dev_captureFormat d),
        cf_fpixelformat = cf_pixelformat (dev_captureFormat d), cf_bytes = copy_buffer os view w1,
        cf_receiveTimestampMs = now, cf_metadata = [], cf_metadataTimestampMs = 0\<rparr>
        (d\<lparr>dev_sequence := dev_sequence d + 1\<rparr>) w1 = (f1, d1, w2)"
      by (metis prod_cases3)
    obtain q w3 where "enqueueBuffer os (bv_index view) (dev_v4l2 d1) w2 = Some (q, w3)"
      using enq by blast
    with dq Inr at show ?thesis
      by (cases q) (simp_all add: camera_readFrame_def Let_def rewrap_def)
  qed
qed

lemma stop_node_returns:
  assumes "driver_answers (env_video env)"
  shows "\<exists>rig'. stop_node env cid n rig = Some rig'"
proof -
  obtain r d' w' where "camera_stop (env_video env) (select_camera cid (rg_cameras rig)) (rg_world rig) = Some (r, d', w')"
    using camera_stop_returns[OF assms] by blast
  then show ?thesis
    by (auto simp: stop_node_def capture_stop_def stopCamera_def split: option.split)
qed

lemma publishFrame_returns:
  "cx_mainStream (pipe_context p) \<Longrightarrow> \<exists>r p' rig'. publishFrame env now p f rig = Some (r, p', rig')"
  by (auto simp: publishFrame_def push_stream_def count_encoded_def split: option.split prod.split sum.split)

lemma run_iteration_returns:
  assumes "driver_answers (env_video env)" "cx_mainStream (pipe_context p)"
  shows "\<exists>p' rig'. run_iteration env c p rig = Some (p', rig')"
proof -
  have cap: "\<exists>r rig'. capture_frame env t1 t cid n rig = Some (r, rig')" for t1 t cid n rig
  proof -
    obtain r d' w' where "(case cid of Visible \<Rightarrow> visible_readFrame (env_video env)
        | CompositeLowThermal \<Rightarrow> composite_readFrame (env_video env))
       t1 t (select_camera cid (rg_cameras rig)) (rg_world rig) = Some (r, d', w')"
      using camera_readFrame_returns[OF assms(1)]
      by (cases cid) (simp_all add: visible_readFrame_def composite_readFrame_def, blast+)
    then show ?thesis
      by (cases r) (simp_all add: capture_frame_def readCamera_def Let_def)
  qed
  have one: "\<exists>r p' rig'. processOneFrame env (fst c) (snd c) p rig = Some (r, p', rig')"
  proof (cases "capture_source p")
    case (Some src)
    then obtain cid n where "src = (cid, n)" by (cases src) auto
    moreover obtain r rig1 where c:
      "capture_frame env (fst c) (pl_captureTimeoutMs (pipe_config p)) cid n rig = Some (r, rig1)"
      using cap by blast
    moreover have "\<exists>x. processOneFrame env (fst c) (snd c) p rig = Some x" if "src = (cid, n)"
    proof (cases r)
      case (Inl e)
      with Some c that show ?thesis by (simp add: processOneFrame_def)
    next
      case (Inr frame)
      let ?p = "count_stats (\<lambda>s. s\<lparr>pt_capturedFrames := pt_capturedFrames s + 1\<rparr>) p"
      obtain r2 p2 rig2 where pr: "prepareFrameForPipeline env ?p frame rig1 = (r2, p2, rig2)" using prod_cases3 by blast
      from prepareFrame_effect[OF pr] assms(2) have "cx_mainStream (pipe_context p2)" by (simp add: same_pipeline_def)
      note pub = publishFrame_returns[OF this, of env "snd c" _ rig2]
      show ?thesis
      proof (cases r2)
        case (Inr f2)
        from pub[of f2] obtain y1 y2 y3 where "publishFrame env (snd c) p2 f2 rig2 = Some (y1, y2, y3)" by blast
        with Some c that \<open>r = Inr frame\<close> pr Inr show ?thesis by (simp add: processOneFrame_def Let_def)
      qed (use Some c that \<open>r = Inr frame\<close> pr in \<open>simp add: processOneFrame_def Let_def\<close>)
    qed
    ultimately show ?thesis by auto
  qed (simp add: processOneFrame_def)
  obtain r q rig' where "processOneFrame env (fst c) (snd c) p rig = Some (r, q, rig')"
    using one by blast
  then show ?thesis
    by (cases r) (simp_all add: run_iteration_def)
qed

lemma pipe_stop_returns:
  assumes "driver_answers (env_video env)"
  shows "\<exists>p' rig'. pipe_stop env p rig = Some (p', rig') \<and> \<not> pipe_worker p'"
proof -
  let ?p = "p\<lparr>pipe_stopFlag := True, pipe_worker := False\<rparr>"
  obtain rig1 where "stop_node env Visible (pipe_visible ?p) rig = Some rig1"
    using stop_node_returns[OF assms] by blast
  moreover obtain rig2 where "stop_node env CompositeLowThermal (pipe_composite ?p) rig1 = Some rig2"
    using stop_node_returns[OF assms] by blast
  ultimately show ?thesis
    by (auto simp: pipe_stop_eq pipe_shutdown_def stopCaptureNodes_def pipe_publishEvent_def Let_def)
qed


subsection \<open>A working pipeline, for the witnesses\<close>

definition sim_env :: "nat media_env" where
  "sim_env =
     \<lparr>env_video = sim_os, env_mpp = header_lib,
      env_rga = \<lparr>rl_code = (\<lambda>_. 1), rl_cvtcolor = (\<lambda>_ d. Pair (Inr (rb_memory d)))\<rparr>,
      env_decoder = \<lparr>dl_init = (\<lambda>_. Pair Success), dl_decode = (\<lambda>_. Pair (Error Unsupported ''none'')),
                     dl_release = id\<rparr>\<rparr>"

lemma sim_env_video [simp]: "env_video sim_env = sim_os"
  by (simp add: sim_env_def)

lemma sim_answers: "driver_answers (env_video sim_env)"
  by (simp add: driver_answers_def)

definition main_context :: PipelineContext where
  "main_context =
     \<lparr>cx_cameraManager = True, cx_mainStream = True, cx_eventBus = True, cx_mjpegDecoder = False,
      cx_encoder = False\<rparr>"

definition sim_rig :: "nat rig" where
  "sim_rig =
     \<lparr>rg_cameras = sim_manager, rg_stream = snd (ms_init default_media_config new_main_stream),
      rg_encoder = new_encoder, rg_world = 0\<rparr>"


text \<open>The pipeline of the visible mode after \<open>build\<close> and after \<open>start\<close>.\<close>

definition visible_pipeline :: "MediaConfig \<Rightarrow> PipelineContext \<Rightarrow> MediaPipeline" where
  "visible_pipeline media ctx =
     new_pipeline\<lparr>pipe_config := pipeline_visibleOnly media, pipe_context := ctx,
       pipe_graph := [''VisibleCaptureNode'', ''EncodedPassthrough'', ''MainStream''],
       pipe_state := Initialized, pipe_visible := Some \<lparr>cn_manager = True\<rparr>\<rparr>"

lemma build_visible:
  "pipeline_build env (pipeline_visibleOnly media) ctx rig = Some (Inr p, evs, rig') \<Longrightarrow>
     p = visible_pipeline media ctx \<and> rig' = rig \<and> evs = [] \<and> cx_cameraManager ctx \<and> cx_mainStream ctx"
  by (auto simp: pipeline_build_def pipe_init_def new_pipeline_def pipe_validateContext_def
      pipeline_visibleOnly_def default_pipeline_config_def init_visible_def init_composite_def
      init_decoder_def init_convert_def init_encoder_def capture_init_def visible_pipeline_def Let_def
      split: if_splits elim!: bind_SomeE)

lemma sim_build:
  "pipeline_build sim_env (pipeline_visibleOnly media) main_context rig =
     Some (Inr (visible_pipeline media main_context), [], rig)"
  by (simp add: pipeline_build_def pipe_init_def new_pipeline_def pipe_validateContext_def
      pipeline_visibleOnly_def default_pipeline_config_def init_visible_def init_composite_def
      init_decoder_def init_convert_def init_encoder_def capture_init_def visible_pipeline_def Let_def
      main_context_def)

lemma start_visible:
  assumes "pipe_start env (visible_pipeline media ctx) rig = Some (Success, p1, rig1)"
  shows "\<exists>m w. startCamera (env_video env) Visible (rg_cameras rig) (rg_world rig) = Some (Success, m, w) \<and>
    rig1 = rig\<lparr>rg_cameras := m, rg_world := w, rg_stream := ms_start (rg_stream rig)\<rparr> \<and>
    p1 = pipe_running ((visible_pipeline media ctx)\<lparr>pipe_stopFlag := False, pipe_worker := True\<rparr>)"
proof -
  let ?p = "visible_pipeline media ctx"
  have v: "pipe_visible ?p = Some \<lparr>cn_manager = True\<rparr>" "pipe_composite ?p = None" "pipe_state ?p = Initialized"
    by (simp_all add: visible_pipeline_def new_pipeline_def)
  from assms obtain r p2 where l: "pipe_launch env ?p rig = Some (r, p2, rig1)" and "result_ok r"
    and p1: "p1 = pipe_running p2"
    by (auto simp: pipe_start_def elim!: bind_SomeE split: sum.split_asm)
  from l v obtain r1 m w where s: "startCamera (env_video env) Visible (rg_cameras rig) (rg_world rig) = Some (r1, m, w)"
    by (auto simp: pipe_launch_def startCaptureNodes_def capture_start_def elim!: bind_SomeE)
  show ?thesis
  proof (cases r1)
    case (Inl e)
    with l v s \<open>result_ok r\<close> show ?thesis
      by (auto simp: pipe_launch_def startCaptureNodes_def capture_start_def)
  next
    case (Inr u)
    with l v s p1 show ?thesis
      by (auto simp: pipe_launch_def startCaptureNodes_def capture_start_def split: if_splits)
  qed
qed

text \<open>Turns of the worker keep the pipeline and leave a running stream running.\<close>

lemma runLoop_keeps:
  assumes "runLoop env cs p rig = Some (p', rig')"
  shows "same_pipeline p p' \<and> (ms_state (rg_stream rig) = StreamRunning \<longrightarrow> ms_state (rg_stream rig') = StreamRunning)"
  using assms
proof (induction cs arbitrary: p rig)
  case (Cons c cs)
  show ?case
  proof (cases "pipe_stopFlag p")
    case False
    with Cons.prems obtain p1 rig1 where step: "run_iteration env c p rig = Some (p1, rig1)"
      and rest: "runLoop env cs p1 rig1 = Some (p', rig')" by (auto elim!: bind_SomeE)
    from run_iteration_effect[OF step] Cons.IH[OF rest] show ?thesis by (auto intro: same_pipeline_trans)
  qed (use Cons.prems in simp)
qed simp

text \<open>
  Claim C3. The visible mode streams: when its pipeline has been built and started, then after any turns of the worker every MJPEG
  frame the visible camera delivers becomes, in the next turn, the newest frame of the stream, with the camera's bytes and
  sequence number and the time of its reception; the turn is counted and leaves the pipeline's state as it is.
\<close>

theorem visible_mode_streams:
  assumes "pipeline_build env (pipeline_visibleOnly media) ctx rig = Some (Inr p, evs, rig1)"
    and "pipe_start env p rig1 = Some (Success, p1, rig2)" and "runLoop env turns p1 rig2 = Some (p', rig')"
    and "readCamera (env_video env) t1 1000 Visible (rg_cameras rig') (rg_world rig') = Some (Inr f, m, w)"
    and "cf_fpixelformat f = V4L2_PIX_FMT_MJPEG" and "cf_receiveTimestampMs f \<noteq> 0"
  shows "\<exists>p2 rig3. run_iteration env (t1, t2) p' rig' = Some (p2, rig3) \<and> pipe_state p2 = pipe_state p' \<and>
    pt_encodedFrames (pipe_stats p2) = pt_encodedFrames (pipe_stats p') + 1 \<and> ms_frames (rg_stream rig3) \<noteq> [] \<and>
    last (ms_frames (rg_stream rig3)) =
      \<lparr>ef_codec = CodecMjpeg, ef_data = cf_bytes f, ef_ptsMs = cf_receiveTimestampMs f,
       ef_keyFrame = False, ef_sequence = cf_sequence f\<rparr>"
proof -
  from build_visible[OF assms(1)] have p: "p = visible_pipeline media ctx" "rig1 = rig" "cx_mainStream ctx" by simp_all
  from assms(2) p obtain m1 w1 where
    rig2: "rig2 = rig\<lparr>rg_cameras := m1, rg_world := w1, rg_stream := ms_start (rg_stream rig)\<rparr>"
    and p1: "p1 = pipe_running ((visible_pipeline media ctx)\<lparr>pipe_stopFlag := False, pipe_worker := True\<rparr>)"
    using start_visible by blast
  note kept = runLoop_keeps[OF assms(3)]
  have run: "ms_state (rg_stream rig') = StreamRunning" using kept by (simp add: rig2 ms_start_def)
  have src: "capture_source p' = Some (Visible, \<lparr>cn_manager = True\<rparr>)"
    "pl_captureTimeoutMs (pipe_config p') = 1000" "pipe_decoder p' = None" "pipe_encoder p' = None"
    "pl_passthroughEncoded (pipe_config p')" "cx_mainStream (pipe_context p')"
    using kept p(3) by (simp_all add: p1 same_pipeline_def pipe_running_def pipe_publishEvent_def visible_pipeline_def
        new_pipeline_def capture_source_def pipeline_visibleOnly_def default_pipeline_config_def)
  have fmt: "vf_format (fromCameraFrame f) = Mjpeg"
    using assms(5) by (simp add: fromCameraFrame_def fromV4L2PixelFormat_def)
  let ?ef = "passthrough_frame t2 (fromCameraFrame f)"
  obtain s' where push: "ms_push ?ef (rg_stream rig') = (Success, s')"
    and newest: "ms_frames s' = ms_frames (drop_full (rg_stream rig')) @ [?ef]"
    using run by (simp add: ms_push_def Let_def)
  have "\<exists>p2 rig3. run_iteration env (t1, t2) p' rig' = Some (p2, rig3) \<and> pipe_state p2 = pipe_state p' \<and>
      pt_encodedFrames (pipe_stats p2) = pt_encodedFrames (pipe_stats p') + 1 \<and> rg_stream rig3 = s'"
    using assms(4) src fmt push
    by (simp add: run_iteration_def processOneFrame_def capture_frame_def prepareFrameForPipeline_def
        publishFrame_def push_stream_def count_encoded_def Let_def)
  moreover have "?ef = \<lparr>ef_codec = CodecMjpeg, ef_data = cf_bytes f, ef_ptsMs = cf_receiveTimestampMs f,
      ef_keyFrame = False, ef_sequence = cf_sequence f\<rparr>"
    using assms(6) by (simp add: passthrough_frame_def fromCameraFrame_def default_video_frame_def
        default_encoded_frame_def)
  ultimately show ?thesis using newest by force
qed

definition sim_running :: MediaPipeline where
  "sim_running =
     pipe_running ((visible_pipeline default_media_config main_context)\<lparr>pipe_stopFlag := False, pipe_worker := True\<rparr>)"

definition sim_live_rig :: "nat rig" where
  "sim_live_rig =
     sim_rig\<lparr>rg_cameras := publishCameraEvent (dev_status sim_started) True (sim_manager\<lparr>cm_visible := sim_started\<rparr>),
             rg_world := 2, rg_stream := ms_start (rg_stream sim_rig)\<rparr>"

lemma sim_pipe_start:
  "pipe_start sim_env (visible_pipeline default_media_config main_context) sim_rig =
     Some (Success, sim_running, sim_live_rig)"
  using sim_start(2)[of 0]
  by (simp add: pipe_start_def pipe_launch_def visible_pipeline_def new_pipeline_def startCaptureNodes_def
      capture_start_def sim_running_def sim_live_rig_def sim_rig_def main_context_def)

lemma sim_live_read:
  "\<exists>m. readCamera sim_os 50 1000 Visible (rg_cameras sim_live_rig) 2 = Some (Inr sim_frame, m, 2)"
  by (simp add: sim_live_rig_def publishCameraEvent_def readCamera_def visible_readFrame_def
      camera_readFrame_def dequeueBuffer_def
      enqueueBuffer_def xioctl_def copy_buffer_def clearError_def sim_started_def sim_opened_def
      sim_manager_eq(1) visible_init_def camera_init_def sim_format Let_def new_camera_def opened_status_def
      default_status_def sim_frame_def select_camera_def put_camera_def)

theorem visible_mode_streams_witness:
  "\<exists>p2 rig3. run_iteration sim_env (50, 51) sim_running sim_live_rig = Some (p2, rig3) \<and>
     pipe_state p2 = Running \<and> ef_data (last (ms_frames (rg_stream rig3))) = [7, 8, 9]"
proof -
  obtain m where r: "readCamera (env_video sim_env) 50 1000 Visible (rg_cameras sim_live_rig) (rg_world sim_live_rig)
      = Some (Inr sim_frame, m, 2)"
    using sim_live_read by (auto simp: sim_live_rig_def)
  have "runLoop sim_env [] sim_running sim_live_rig = Some (sim_running, sim_live_rig)"
    and run: "pipe_state sim_running = Running"
    by (simp_all add: sim_running_def pipe_running_def pipe_publishEvent_def)
  from visible_mode_streams[OF sim_build sim_pipe_start this(1) r, of 51] run
  show ?thesis by (auto simp: sim_frame_def)
qed

theorem one_frame_or_error_witness:
  "\<exists>p' rig'. run_iteration sim_env (50, 51) sim_running sim_live_rig = Some (p', rig') \<and>
     (pt_capturedFrames (pipe_stats p') = 1 \<or> pt_errors (pipe_stats p') = 1)"
proof -
  have z: "pipe_stats sim_running = zero_pipeline_stats"
    by (simp add: sim_running_def pipe_running_def pipe_publishEvent_def visible_pipeline_def new_pipeline_def)
  have "cx_mainStream (pipe_context sim_running)"
    by (simp add: sim_running_def pipe_running_def pipe_publishEvent_def visible_pipeline_def main_context_def)
  from run_iteration_returns[OF sim_answers this, of "(50, 51)" sim_live_rig] obtain p' rig'
    where r: "run_iteration sim_env (50, 51) sim_running sim_live_rig = Some (p', rig')" by blast
  from one_frame_or_error[OF r] r z show ?thesis by (auto simp: zero_pipeline_stats_def)
qed

subsection \<open>Stopping\<close>

lemma select_put_other: "other \<noteq> cid \<Longrightarrow> select_camera other (put_camera cid d m) = select_camera other m"
  by (cases cid; cases other) (simp_all add: select_camera_def put_camera_def)

lemma stop_node_cameras:
  assumes "stop_node env cid n rig = Some rig'" "manager_inv (rg_cameras rig)"
  shows "manager_inv (rg_cameras rig')"
    and "other \<noteq> cid \<Longrightarrow> select_camera other (rg_cameras rig') = select_camera other (rg_cameras rig)"
    and "n = Some \<lparr>cn_manager = True\<rparr> \<Longrightarrow>
      \<not> vd_streaming (dev_v4l2 (select_camera cid (rg_cameras rig'))) \<and>
      \<not> cam_streaming (dev_status (select_camera cid (rg_cameras rig')))"
proof -
  have "rg_cameras rig' = rg_cameras rig \<and> n \<noteq> Some \<lparr>cn_manager = True\<rparr> \<or>
      (\<exists>r d w. camera_stop (env_video env) (select_camera cid (rg_cameras rig)) (rg_world rig) = Some (r, d, w) \<and>
         rg_cameras rig' = publishCameraEvent (dev_status d) False (put_camera cid d (rg_cameras rig)))"
    using assms(1)
    by (cases n; cases "cn_manager (the n)")
      (auto simp: stop_node_def capture_stop_def stopCamera_def elim!: bind_SomeE)
  then have "manager_inv (rg_cameras rig') \<and>
      (other \<noteq> cid \<longrightarrow> select_camera other (rg_cameras rig') = select_camera other (rg_cameras rig)) \<and>
      (n = Some \<lparr>cn_manager = True\<rparr> \<longrightarrow>
        \<not> vd_streaming (dev_v4l2 (select_camera cid (rg_cameras rig'))) \<and>
        \<not> cam_streaming (dev_status (select_camera cid (rg_cameras rig'))))"
  proof (elim disjE exE conjE)
    fix r d w
    assume s: "camera_stop (env_video env) (select_camera cid (rg_cameras rig)) (rg_world rig) = Some (r, d, w)"
      and c: "rg_cameras rig' = publishCameraEvent (dev_status d) False (put_camera cid d (rg_cameras rig))"
    from camera_stop_cases[OF s manager_inv_select[OF assms(2)]] c assms(2) show ?thesis
      by (simp add: manager_inv_put select_put_other)
  qed (use assms(2) in simp)
  then show "manager_inv (rg_cameras rig')"
    and "other \<noteq> cid \<Longrightarrow> select_camera other (rg_cameras rig') = select_camera other (rg_cameras rig)"
    and "n = Some \<lparr>cn_manager = True\<rparr> \<Longrightarrow>
      \<not> vd_streaming (dev_v4l2 (select_camera cid (rg_cameras rig'))) \<and>
      \<not> cam_streaming (dev_status (select_camera cid (rg_cameras rig')))"
    by blast+
qed

definition node_of :: "CameraId \<Rightarrow> MediaPipeline \<Rightarrow> CaptureNode option" where
  "node_of cid p = (case cid of Visible \<Rightarrow> pipe_visible p | CompositeLowThermal \<Rightarrow> pipe_composite p)"

text \<open>
  Claim C37. After \<open>stop\<close> the pipeline is stopped and has no worker, the stream no longer runs, the cameras of its
  capture nodes no longer stream, and the end is announced exactly when the pipeline was running
  or initialized: a pipeline that had failed ends without an event.
\<close>

theorem stop_releases:
  assumes "pipe_stop env p rig = Some (p', rig')" and "manager_inv (rg_cameras rig)"
    and "cx_mainStream (pipe_context p)" and "cx_eventBus (pipe_context p)"
    and "node_of cid p = Some \<lparr>cn_manager = True\<rparr>"
  shows "pipe_state p' = Stopped \<and> \<not> pipe_worker p' \<and> ms_state (rg_stream rig') = StreamStopped \<and>
    \<not> vd_streaming (dev_v4l2 (select_camera cid (rg_cameras rig'))) \<and>
    \<not> cam_streaming (dev_status (select_camera cid (rg_cameras rig'))) \<and>
    map ev_name (pipe_published p') = map ev_name (pipe_published p) @
      (if pipe_state p = Running \<or> pipe_state p = Initialized then [''pipeline_stopped''] else [])"
proof -
  let ?p = "p\<lparr>pipe_stopFlag := True, pipe_worker := False\<rparr>"
  from pipe_shutdown_effect[OF assms(1)[unfolded pipe_stop_eq]] obtain rig1
    where st: "pipe_state p' = Stopped" "\<not> pipe_worker p'" "ms_state (rg_stream rig') = StreamStopped"
      and nodes: "stopCaptureNodes env ?p rig = Some rig1"
      and cams: "rg_cameras rig' = rg_cameras rig1"
      and pub: "pipe_published p' = pipe_published ?p @
         (if cx_eventBus (pipe_context ?p) \<and> pipe_state ?p \<in> {Running, Initialized}
          then [pipeline_event PipelineStopped ''pipeline_stopped'' ?p] else [])"
    using assms(3) by auto
  from nodes obtain rig0 where n1: "stop_node env Visible (pipe_visible p) rig = Some rig0"
    and n2: "stop_node env CompositeLowThermal (pipe_composite p) rig0 = Some rig1"
    by (auto simp: stopCaptureNodes_def elim!: bind_SomeE)
  note i0 = stop_node_cameras(1)[OF n1 assms(2)]
  have "\<not> vd_streaming (dev_v4l2 (select_camera cid (rg_cameras rig1))) \<and>
      \<not> cam_streaming (dev_status (select_camera cid (rg_cameras rig1)))"
  proof (cases cid)
    case Visible
    with assms(5) stop_node_cameras(3)[OF n1 assms(2)] stop_node_cameras(2)[OF n2 i0, of Visible]
    show ?thesis by (simp add: node_of_def)
  next
    case CompositeLowThermal
    with assms(5) stop_node_cameras(3)[OF n2 i0] show ?thesis by (simp add: node_of_def)
  qed
  with st cams pub assms(4) show ?thesis
    by (simp add: pipeline_event_def)
qed

text \<open>
  Claim C14. In every interleaving of the owner's calls with the worker, from a fresh pipeline: as long as the worker runs
  and no stop was asked for, the stream accepts frames, so a turn of a worker whose context names the stream never fails
  because the stream is not ready; and a pipeline that is stopped has no worker until it is started again.
\<close>

theorem worker_has_a_stream:
  assumes "pipe_reach env (OwnerIdle, new_pipeline, rig0) (ph, p, rig)"
  shows "(pipe_worker p \<and> \<not> pipe_stopFlag p \<and> cx_mainStream (pipe_context p) \<longrightarrow>
           (\<exists>rig'. push_stream f p rig = Some (Success, p, rig'))) \<and>
         (ph = OwnerIdle \<and> pipe_state p = Stopped \<longrightarrow> \<not> pipe_worker p)"
proof -
  have "pipe_inv (OwnerIdle, new_pipeline, rig0)" by (simp add: new_pipeline_def)
  with assms have "pipe_inv (ph, p, rig)" by (rule pipe_reach_inv)
  then show ?thesis by (auto simp: push_stream_def ms_push_def Let_def)
qed

text \<open>The pointer is not always set: an \<open>init\<close> with a null stream is refused, but the context it was given stays, so
  the start of a pipeline that was stopped before uses the null pointer.\<close>

lemma refused_init_keeps_context:
  assumes "pipe_state p \<noteq> Running" "\<not> cx_mainStream context"
  shows "\<exists>e p' rig'. pipe_init env config context p rig = (Inl e, p', rig') \<and> pipe_state p' = pipe_state p \<and>
    \<not> cx_mainStream (pipe_context p')"
    and "pipe_init env config context p rig = (r, p', rig') \<Longrightarrow> pipe_launch env p' rig'' \<noteq> Some (Success, q, rig3)"
proof -
  show refused: "\<exists>e p' rig'. pipe_init env config context p rig = (Inl e, p', rig') \<and> pipe_state p' = pipe_state p \<and>
      \<not> cx_mainStream (pipe_context p')"
    using assms by (simp add: pipe_init_def pipe_validateContext_def Let_def)
  show "pipe_launch env p' rig'' \<noteq> Some (Success, q, rig3)" if "pipe_init env config context p rig = (r, p', rig')"
  proof -
    from that refused have "\<not> cx_mainStream (pipe_context p')" by auto
    then show ?thesis by (auto simp: pipe_launch_def elim!: bind_SomeE split: if_splits sum.split_asm)
  qed
qed

text \<open>
  Every mode but the visible one needs the hardware encoder: without it the pipeline of its plan is refused
  with the encoder's error code whatever the cameras do, and its destructor leaves the stream
  stopped.
\<close>

theorem encoder_required:
  assumes "buildPlan pn m = Inr plan" and "m \<noteq> WorkMode.VisibleOnly"
    and "cx_cameraManager ctx" and "cx_mainStream ctx" and "\<not> cx_encoder ctx"
  shows "\<exists>e rig'. pipeline_build env (mp_pipeline plan) ctx rig = Some (Inl e, [], rig') \<and>
    st_code e = EncoderInitFailed \<and> ms_state (rg_stream rig') = StreamStopped \<and>
    rg_cameras rig' = rg_cameras rig"
proof -
  from assms(1) obtain out where plan: "plan = plan_of (pn_mediaConfig pn) m out"
    and v: "validateModeEnabled (pn_policy pn) m = Success" by (rule buildPlan_Inr)
  from v have "m \<noteq> WorkMode.Unknown" by (auto simp: validateModeEnabled_def split: if_splits)
  with assms(2) plan have "pl_useEncoder (mp_pipeline plan)"
    by (simp add: plan_of_def pipeline_of_def Let_def pipeline_visibleCompositeFusionPlaceholder_def
        pipeline_compositeOnlyAuto_def)
  with assms(3-5) show ?thesis
    by (simp add: pipeline_build_def pipe_init_def new_pipeline_def pipe_validateContext_def Let_def
        pipe_stop_eq pipe_shutdown_def stopCaptureNodes_def stop_node_def
        release_codecs_def ms_stop_def rewrap_def)
qed

text \<open>Witnesses of the last three, on the working pipeline.\<close>

theorem stop_releases_witness:
  "\<exists>p' rig'. pipe_stop sim_env sim_running sim_live_rig = Some (p', rig') \<and> pipe_state p' = Stopped \<and>
     ms_state (rg_stream rig') = StreamStopped \<and>
     \<not> vd_streaming (dev_v4l2 (select_camera Visible (rg_cameras rig')))"
proof -
  obtain p' rig' where r: "pipe_stop sim_env sim_running sim_live_rig = Some (p', rig')"
    using pipe_stop_returns[OF sim_answers] by blast
  have "manager_inv new_camera_manager"
    by (simp add: manager_inv_def new_camera_manager_def cam_inv_new)
  from manager_run_inv[OF sim_run this] have inv: "manager_inv (rg_cameras sim_live_rig)"
    by (simp add: sim_live_rig_def)
  have "cx_mainStream (pipe_context sim_running)" "cx_eventBus (pipe_context sim_running)"
    "node_of Visible sim_running = Some \<lparr>cn_manager = True\<rparr>"
    by (simp_all add: sim_running_def pipe_running_def pipe_publishEvent_def visible_pipeline_def
        new_pipeline_def main_context_def node_of_def)
  from stop_releases[OF r inv this] r show ?thesis by blast
qed

lemma sim_launch:
  "pipe_launch sim_env (visible_pipeline default_media_config main_context) sim_rig =
     Some (Success, (visible_pipeline default_media_config main_context)\<lparr>pipe_stopFlag := False, pipe_worker := True\<rparr>,
           sim_live_rig)"
  using sim_start(2)[of 0]
  by (simp add: pipe_launch_def visible_pipeline_def new_pipeline_def startCaptureNodes_def
      capture_start_def sim_live_rig_def sim_rig_def main_context_def)

lemma sim_reach: "pipe_reach sim_env (OwnerIdle, new_pipeline, sim_rig) (OwnerIdle, sim_running, sim_live_rig)"
proof -
  have 1: "pipe_step sim_env (OwnerIdle, new_pipeline, sim_rig)
      (OwnerIdle, visible_pipeline default_media_config main_context, sim_rig)"
    using sim_build[of default_media_config sim_rig]
    by (intro step_init[where config = "pipeline_visibleOnly default_media_config" and r = Success])
      (auto simp: pipeline_build_def elim!: bind_SomeE split: prod.split_asm sum.split_asm)
  have 2: "pipe_step sim_env (OwnerIdle, visible_pipeline default_media_config main_context, sim_rig)
      (OwnerStarting, (visible_pipeline default_media_config main_context)\<lparr>pipe_stopFlag := False, pipe_worker := True\<rparr>,
       sim_live_rig)"
    using step_launch[OF _ sim_launch] by (simp add: visible_pipeline_def new_pipeline_def)
  have 3: "pipe_step sim_env (OwnerStarting, (visible_pipeline default_media_config main_context)
        \<lparr>pipe_stopFlag := False, pipe_worker := True\<rparr>, sim_live_rig) (OwnerIdle, sim_running, sim_live_rig)"
    unfolding sim_running_def by (rule step_running)
  from 1 2 3 show ?thesis by (meson rtranclp.rtrancl_refl rtranclp.rtrancl_into_rtrancl)
qed

theorem worker_has_a_stream_witness:
  "pipe_worker sim_running \<and> (\<exists>rig'. push_stream default_encoded_frame sim_running sim_live_rig = Some (Success, sim_running, rig'))"
proof -
  have "pipe_worker sim_running \<and> \<not> pipe_stopFlag sim_running \<and> cx_mainStream (pipe_context sim_running)"
    by (simp add: sim_running_def pipe_running_def pipe_publishEvent_def visible_pipeline_def new_pipeline_def main_context_def)
  with worker_has_a_stream[OF sim_reach, of default_encoded_frame] show ?thesis by simp
qed

definition sim_planner :: ModeSwitchPlanner where
  "sim_planner = snd (planner_init default_mode_config default_media_config new_planner)"

theorem encoder_required_witness:
  "\<exists>plan e rig'. buildPlan sim_planner WorkMode.ThermalOnly = Inr plan \<and>
     pipeline_build sim_env (mp_pipeline plan) main_context sim_rig = Some (Inl e, [], rig') \<and>
     st_code e = EncoderInitFailed"
proof -
  have "\<exists>plan. buildPlan sim_planner WorkMode.ThermalOnly = Inr plan"
    by (simp add: sim_planner_def planner_init_def policy_init_def buildPlan_def validateModeEnabled_def
        default_mode_config_def compositeOutputFor_def requiresCompositeSensorSwitch_def
        requiresCompositeCamera_def requiresVisibleCamera_def isFusionMode_def Let_def default_plan_def)
  then obtain plan where p: "buildPlan sim_planner WorkMode.ThermalOnly = Inr plan" by blast
  have "WorkMode.ThermalOnly \<noteq> WorkMode.VisibleOnly" "cx_cameraManager main_context"
    "cx_mainStream main_context" "\<not> cx_encoder main_context"
    by (simp_all add: main_context_def)
  from encoder_required[OF p this, of sim_env sim_rig] p show ?thesis by blast
qed

end
