(* ===== verification/Tri_ModeSwitch.thy ===== *)
theory Tri_ModeSwitch
  imports Tri_Pipeline Tri_SensorController
begin

text \<open>
  Switching the work mode (mode/ModeSwitchExecutor.cpp, ModeManager.cpp): the executor stops the
  pipeline of the old mode, prepares the fusion engine, switches the sensor output and starts the
  pipeline of the new mode; the manager plans, keeps the state of the switch and announces it.
\<close>

subsection \<open>ModeSwitchExecutor.cpp\<close>

record ModeRuntimeContext =
  rc_cameraManager :: bool
  rc_compositeController :: bool
  rc_mainStream :: bool
  rc_eventBus :: bool
  rc_mjpegDecoder :: bool
  rc_encoder :: bool
  rc_fusionEngine :: bool

text \<open>The objects the pointers of the context name.\<close>

record 'w plant =
  plant_rig :: "'w rig"
  plant_controller :: SensorController
  plant_fusion :: FusionEngine

text \<open>The events of pipelines that no longer exist are kept with the executor.\<close>

record ModeSwitchExecutor =
  ex_context :: ModeRuntimeContext
  ex_pipeline :: "MediaPipeline option"
  ex_initialized :: bool
  ex_published :: "Event list"

definition new_executor :: ModeSwitchExecutor where
  "new_executor =
     \<lparr>ex_context = \<lparr>rc_cameraManager = False, rc_compositeController = False, rc_mainStream = False,
        rc_eventBus = False, rc_mjpegDecoder = False, rc_encoder = False, rc_fusionEngine = False\<rparr>,
      ex_pipeline = None, ex_initialized = False, ex_published = []\<rparr>"

definition ex_init :: "ModeRuntimeContext \<Rightarrow> ModeSwitchExecutor \<Rightarrow> unit Result \<times> ModeSwitchExecutor" where
  "ex_init context x = (Success, x\<lparr>ex_context := context, ex_initialized := True\<rparr>)"

text \<open>Destroying a pipeline stops it, also when \<open>stop\<close> was called before.\<close>

definition drop_pipeline ::
  "'w media_env \<Rightarrow> MediaPipeline \<Rightarrow> ModeSwitchExecutor \<Rightarrow> 'w plant \<Rightarrow>
     (ModeSwitchExecutor \<times> 'w plant) option" where
  "drop_pipeline env p x pl =
     do { (p, rig) \<leftarrow> pipe_stop env p (plant_rig pl);
          Some (x\<lparr>ex_pipeline := None, ex_published := ex_published x @ pipe_published p\<rparr>,
                pl\<lparr>plant_rig := rig\<rparr>) }"

definition ex_stop ::
  "'w media_env \<Rightarrow> ModeSwitchExecutor \<Rightarrow> 'w plant \<Rightarrow> (ModeSwitchExecutor \<times> 'w plant) option" where
  "ex_stop env x pl =
     (case ex_pipeline x of
        None \<Rightarrow> Some (x, pl)
      | Some p \<Rightarrow>
          do { (p, rig) \<leftarrow> pipe_stop env p (plant_rig pl);
               drop_pipeline env p x (pl\<lparr>plant_rig := rig\<rparr>) })"

definition ex_validateContext :: "ModeSwitchPlan \<Rightarrow> ModeSwitchExecutor \<Rightarrow> unit Result" where
  "ex_validateContext plan x =
     (if \<not> rc_cameraManager (ex_context x)
      then Error InvalidArgument ''mode runtime camera manager is null''
      else if \<not> rc_mainStream (ex_context x)
      then Error InvalidArgument ''mode runtime main stream is null''
      else if mp_requireCompositeSensorSwitch plan \<and> \<not> rc_compositeController (ex_context x)
      then Error InvalidArgument ''mode runtime composite sensor controller is null''
      else if mp_requireFusion plan \<and> \<not> rc_fusionEngine (ex_context x)
      then Error InvalidArgument ''mode runtime fusion engine is null''
      else Success)"

definition prepareFusion :: "ModeSwitchPlan \<Rightarrow> FusionEngine \<Rightarrow> unit Result \<times> FusionEngine" where
  "prepareFusion plan e =
     (if \<not> mp_requireFusion plan then (Success, e)
      else if fe_initialized e then fe_setMode (mp_fusionMode plan) e
      else (case fe_init default_fusion_config e of
              (Inl s, e) \<Rightarrow> (Inl s, e)
            | (Inr _, e) \<Rightarrow>
                (case registerDefaultAlgorithms e of
                   (Inl s, e) \<Rightarrow> (Inl s, e)
                 | (Inr _, e) \<Rightarrow> fe_setMode (mp_fusionMode plan) e)))"

text \<open>\<open>skip\<close> tells whether the environment variable TRI_FUSION_SKIP_SENSOR_SWITCH starts with 1.\<close>

definition switchCompositeSensor ::
  "'w serial_os \<Rightarrow> bool \<Rightarrow> int \<Rightarrow> ModeSwitchPlan \<Rightarrow> SensorController \<Rightarrow> 'w \<Rightarrow>
     (unit Result \<times> SensorController \<times> 'w) option" where
  "switchCompositeSensor ser skip now plan c w =
     (if \<not> mp_requireCompositeSensorSwitch plan then Some (Success, c, w)
      else if skip then Some (Success, c, w)
      else do { (r, c, w) \<leftarrow> setOutputMode ser now (mp_compositeOutput plan) c w;
                Some (case r of
                        Inl e \<Rightarrow> (Inl e, c, w)
                      | Inr _ \<Rightarrow> (waitStable (mp_stableWaitMs plan) c, c, w)) })"

definition pipeline_context :: "ModeRuntimeContext \<Rightarrow> PipelineContext" where
  "pipeline_context rc =
     \<lparr>cx_cameraManager = rc_cameraManager rc, cx_mainStream = rc_mainStream rc,
      cx_eventBus = rc_eventBus rc, cx_mjpegDecoder = rc_mjpegDecoder rc, cx_encoder = rc_encoder rc\<rparr>"

text \<open>\<open>startPipeline\<close>, in the two steps before and after the cameras are open.\<close>

definition start_built ::
  "'w media_env \<Rightarrow> MediaPipeline \<Rightarrow> ModeSwitchExecutor \<Rightarrow> 'w plant \<Rightarrow>
     (unit Result \<times> ModeSwitchExecutor \<times> 'w plant) option" where
  "start_built env p x pl =
     do { (r, p, rig) \<leftarrow> pipe_start env p (plant_rig pl);
          (case r of
             Inl e \<Rightarrow>
               do { (x, pl) \<leftarrow> drop_pipeline env p x (pl\<lparr>plant_rig := rig\<rparr>); Some (Inl e, x, pl) }
           | Inr _ \<Rightarrow> Some (Success, x\<lparr>ex_pipeline := Some p\<rparr>, pl\<lparr>plant_rig := rig\<rparr>)) }"

definition build_and_start ::
  "'w media_env \<Rightarrow> ModeSwitchPlan \<Rightarrow> ModeSwitchExecutor \<Rightarrow> 'w plant \<Rightarrow>
     (unit Result \<times> ModeSwitchExecutor \<times> 'w plant) option" where
  "build_and_start env plan x pl =
     do { (built, evs, rig) \<leftarrow>
            pipeline_build env (mp_pipeline plan) (pipeline_context (ex_context x)) (plant_rig pl);
          (case built of
             Inl e \<Rightarrow> Some (rewrap e, x\<lparr>ex_published := ex_published x @ evs\<rparr>, pl\<lparr>plant_rig := rig\<rparr>)
           | Inr p \<Rightarrow> start_built env p (x\<lparr>ex_published := ex_published x @ evs\<rparr>) (pl\<lparr>plant_rig := rig\<rparr>)) }"

definition startPipeline ::
  "'w media_env \<Rightarrow> ModeSwitchPlan \<Rightarrow> ModeSwitchExecutor \<Rightarrow> 'w plant \<Rightarrow>
     (unit Result \<times> ModeSwitchExecutor \<times> 'w plant) option" where
  "startPipeline env plan x pl =
     do { (r, m, w) \<leftarrow> openAllEnabled (env_video env) (rg_cameras (plant_rig pl)) (rg_world (plant_rig pl));
          (case r of
             Inl e \<Rightarrow> Some (Inl e, x, pl\<lparr>plant_rig := (plant_rig pl)\<lparr>rg_cameras := m, rg_world := w\<rparr>\<rparr>)
           | Inr _ \<Rightarrow>
               build_and_start env plan x (pl\<lparr>plant_rig := (plant_rig pl)\<lparr>rg_cameras := m, rg_world := w\<rparr>\<rparr>)) }"

definition ex_execute ::
  "'w media_env \<Rightarrow> 'w serial_os \<Rightarrow> bool \<Rightarrow> int \<Rightarrow> ModeSwitchPlan \<Rightarrow> ModeSwitchExecutor \<Rightarrow> 'w plant \<Rightarrow>
     (unit Result \<times> ModeSwitchExecutor \<times> 'w plant) option" where
  "ex_execute env ser skip now plan x pl =
     (if \<not> ex_initialized x
      then Some (Error NotInitialized ''mode switch executor is not initialized'', x, pl)
      else case ex_validateContext plan x of
        Inl e \<Rightarrow> Some (Inl e, x, pl)
      | Inr _ \<Rightarrow>
          do { (x, pl) \<leftarrow> ex_stop env x pl;
               (case prepareFusion plan (plant_fusion pl) of
                  (Inl e, f) \<Rightarrow> Some (Inl e, x, pl\<lparr>plant_fusion := f\<rparr>)
                | (Inr _, f) \<Rightarrow>
                    do { (r, c, w) \<leftarrow> switchCompositeSensor ser skip now plan (plant_controller pl)
                                       (rg_world (plant_rig pl));
                         let pl = pl\<lparr>plant_fusion := f, plant_controller := c,
                                     plant_rig := (plant_rig pl)\<lparr>rg_world := w\<rparr>\<rparr>;
                         (case r of
                            Inl e \<Rightarrow> Some (Inl e, x, pl)
                          | Inr _ \<Rightarrow> startPipeline env plan x pl) }) })"

subsection \<open>ModeManager.cpp\<close>

record ModeState =
  sw_initialized :: bool
  sw_switching :: bool
  sw_currentMode :: WorkMode
  sw_previousMode :: WorkMode
  sw_stage :: ModeSwitchStage
  sw_switchCount :: u64
  sw_errorCount :: u64
  sw_lastSwitchBeginMs :: int
  sw_lastSwitchEndMs :: int
  sw_lastError :: string

definition default_mode_state :: ModeState where
  "default_mode_state =
     \<lparr>sw_initialized = False, sw_switching = False, sw_currentMode = WorkMode.Unknown,
      sw_previousMode = WorkMode.Unknown, sw_stage = Idle, sw_switchCount = 0, sw_errorCount = 0,
      sw_lastSwitchBeginMs = 0, sw_lastSwitchEndMs = 0, sw_lastError = []\<rparr>"

record ModeManager =
  mm_planner :: ModeSwitchPlanner
  mm_executor :: ModeSwitchExecutor
  mm_state :: ModeState
  mm_lastPlan :: ModeSwitchPlan
  mm_published :: "Event list"

definition new_mode_manager :: ModeManager where
  "new_mode_manager =
     \<lparr>mm_planner = new_planner, mm_executor = new_executor, mm_state = default_mode_state,
      mm_lastPlan = default_plan, mm_published = []\<rparr>"

abbreviation set_state :: "(ModeState \<Rightarrow> ModeState) \<Rightarrow> ModeManager \<Rightarrow> ModeManager" where
  "set_state f mm \<equiv> mm\<lparr>mm_state := f (mm_state mm)\<rparr>"

definition markStage :: "ModeSwitchStage \<Rightarrow> ModeManager \<Rightarrow> ModeManager" where
  "markStage stage = set_state (\<lambda>s. s\<lparr>sw_stage := stage\<rparr>)"

definition markError :: "Status \<Rightarrow> ModeManager \<Rightarrow> ModeManager" where
  "markError st = set_state (\<lambda>s. s\<lparr>sw_stage := Failed, sw_lastError := describe st,
                                   sw_errorCount := sw_errorCount s + 1\<rparr>)"

definition mm_init ::
  "ModeConfig \<Rightarrow> MediaConfig \<Rightarrow> ModeRuntimeContext \<Rightarrow> ModeManager \<Rightarrow> unit Result \<times> ModeManager" where
  "mm_init modeConfig mediaConfig runtime mm =
     (if sw_initialized (mm_state mm)
      then (Error AlreadyInitialized ''mode manager already initialized'', mm)
      else case planner_init modeConfig mediaConfig (mm_planner mm) of
        (Inl e, pn) \<Rightarrow> (Inl e, mm\<lparr>mm_planner := pn\<rparr>)
      | (Inr _, pn) \<Rightarrow>
          (case ex_init runtime (mm_executor mm) of
             (Inl e, x) \<Rightarrow> (Inl e, mm\<lparr>mm_planner := pn, mm_executor := x\<rparr>)
           | (Inr _, x) \<Rightarrow>
               (Success, mm\<lparr>mm_planner := pn, mm_executor := x,
                            mm_state := default_mode_state\<lparr>sw_initialized := True, sw_stage := Idle\<rparr>\<rparr>)))"

definition planFor :: "WorkMode \<Rightarrow> ModeManager \<Rightarrow> ModeSwitchPlan Result" where
  "planFor mode mm = buildPlan (mm_planner mm) mode"

definition planForNamed :: "string \<Rightarrow> ModeManager \<Rightarrow> ModeSwitchPlan Result" where
  "planForNamed mode mm = buildPlanNamed (mm_planner mm) mode"

definition work_mode_event :: "WorkMode \<Rightarrow> ModeSwitchPlan \<Rightarrow> Event" where
  "work_mode_event mode plan =
     \<lparr>ev_type = ModeChanged, ev_name = ''work_mode_changed'',
      ev_fields = Map.empty(''work_mode'' \<mapsto> toString_WorkMode mode,
                    ''pipeline_type'' \<mapsto> toString_PipelineType (pl_type (mp_pipeline plan)))\<rparr>"

text \<open>\<open>switchTo\<close> runs under the manager's mutex; the three times are those of the clock when it begins, when the
  sensor is switched and when it ends.\<close>

definition switchTo ::
  "'w media_env \<Rightarrow> 'w serial_os \<Rightarrow> bool \<Rightarrow> int \<Rightarrow> int \<Rightarrow> int \<Rightarrow> WorkMode \<Rightarrow> ModeManager \<Rightarrow> 'w plant \<Rightarrow>
     (unit Result \<times> ModeManager \<times> 'w plant) option" where
  "switchTo env ser skip t0 t1 t2 mode mm pl =
     (if \<not> sw_initialized (mm_state mm)
      then Some (Error NotInitialized ''mode manager is not initialized'', mm, pl)
      else if sw_switching (mm_state mm)
      then Some (Error Busy ''mode manager is switching'', mm, pl)
      else
        let mm = markStage Planning
                   (set_state (\<lambda>s. s\<lparr>sw_switching := True, sw_lastSwitchBeginMs := t0\<rparr>) mm)
        in case buildPlan (mm_planner mm) mode of
             Inl e \<Rightarrow>
               Some (rewrap e, set_state (\<lambda>s. s\<lparr>sw_switching := False\<rparr>) (markError e mm), pl)
           | Inr plan \<Rightarrow>
               let mm = markStage SwitchingCompositeSensor
                          (markStage StoppingPipeline (mm\<lparr>mm_lastPlan := plan\<rparr>))
               in do { (r, x, pl) \<leftarrow> ex_execute env ser skip t1 plan (mm_executor mm) pl;
                       let mm = mm\<lparr>mm_executor := x\<rparr>;
                       Some (case r of
                         Inl e \<Rightarrow>
                           (Inl e, set_state (\<lambda>s. s\<lparr>sw_switching := False\<rparr>) (markError e mm), pl)
                       | Inr _ \<Rightarrow>
                           let mm = set_state (\<lambda>s. s\<lparr>sw_previousMode := sw_currentMode s,
                                      sw_currentMode := mode, sw_switching := False,
                                      sw_lastSwitchEndMs := t2, sw_lastError := [],
                                      sw_switchCount := sw_switchCount s + 1\<rparr>) (markStage ModeSwitchStage.Running mm)
                           in (Success,
                               if rc_eventBus (ex_context (mm_executor mm))
                               then mm\<lparr>mm_published := mm_published mm @
                                        [work_mode_event mode (mm_lastPlan mm)]\<rparr> else mm,
                               pl)) })"

definition switchToNamed where
  "switchToNamed env ser skip t0 t1 t2 mode mm pl =
     switchTo env ser skip t0 t1 t2 (workModeFromString mode) mm pl"

definition mm_stop ::
  "'w media_env \<Rightarrow> ModeManager \<Rightarrow> 'w plant \<Rightarrow> (ModeManager \<times> 'w plant) option" where
  "mm_stop env mm pl =
     do { (x, pl) \<leftarrow> ex_stop env (mm_executor mm) pl;
          Some (set_state (\<lambda>s. s\<lparr>sw_stage := Idle, sw_switching := False\<rparr>) (mm\<lparr>mm_executor := x\<rparr>), pl) }"

subsection \<open>What the parts of a switch guarantee\<close>

text \<open>Every operation of a pipeline keeps the invariant of the cameras.\<close>

lemma stopCaptureNodes_inv:
  "stopCaptureNodes env p rig = Some rig' \<Longrightarrow> manager_inv (rg_cameras rig) \<Longrightarrow> manager_inv (rg_cameras rig')"
  by (auto simp: stopCaptureNodes_def elim!: bind_SomeE dest!: stop_node_cameras(1))

lemma pipe_stop_inv:
  assumes "pipe_stop env p rig = Some (p', rig')" "manager_inv (rg_cameras rig)"
  shows "manager_inv (rg_cameras rig')"
proof -
  from pipe_shutdown_effect[OF assms(1)[unfolded pipe_stop_eq]] obtain rig1
    where "stopCaptureNodes env (p\<lparr>pipe_stopFlag := True, pipe_worker := False\<rparr>) rig = Some rig1"
      and "rg_cameras rig' = rg_cameras rig1" by blast
  with stopCaptureNodes_inv assms(2) show ?thesis by metis
qed

lemma drop_pipeline_effect:
  "drop_pipeline env p x pl = Some (x', pl') \<Longrightarrow> manager_inv (rg_cameras (plant_rig pl)) \<Longrightarrow>
     ex_pipeline x' = None \<and> manager_inv (rg_cameras (plant_rig pl')) \<and> ex_context x' = ex_context x \<and>
     ex_initialized x' = ex_initialized x \<and> plant_controller pl' = plant_controller pl \<and>
     plant_fusion pl' = plant_fusion pl"
  by (auto simp: drop_pipeline_def elim!: bind_SomeE dest!: pipe_stop_inv)

lemma ex_stop_effect:
  "ex_stop env x pl = Some (x', pl') \<Longrightarrow> manager_inv (rg_cameras (plant_rig pl)) \<Longrightarrow>
     ex_pipeline x' = None \<and> manager_inv (rg_cameras (plant_rig pl')) \<and> ex_context x' = ex_context x \<and>
     ex_initialized x' = ex_initialized x \<and> plant_controller pl' = plant_controller pl \<and>
     plant_fusion pl' = plant_fusion pl"
  by (auto simp: ex_stop_def elim!: bind_SomeE split: option.split_asm dest!: drop_pipeline_effect pipe_stop_inv)

lemma capture_start_cameras:
  assumes "capture_start env cid n rig = Some (r, rig')" "manager_inv (rg_cameras rig)"
  shows "manager_inv (rg_cameras rig')"
    and "other \<noteq> cid \<Longrightarrow> select_camera other (rg_cameras rig') = select_camera other (rg_cameras rig)"
    and "result_ok r \<Longrightarrow> is_streaming (select_camera cid (rg_cameras rig'))"
proof -
  have "rg_cameras rig' = rg_cameras rig \<and> \<not> result_ok r \<or>
      (\<exists>d w. device_start (env_video env) cid (select_camera cid (rg_cameras rig)) (rg_world rig) = Some (r, d, w) \<and>
         rg_cameras rig' = publishCameraEvent (dev_status d) (result_ok r) (put_camera cid d (rg_cameras rig)))"
    using assms(1)
    by (cases "cn_manager n") (auto simp: capture_start_def startCamera_def elim!: bind_SomeE split: if_splits)
  then have "manager_inv (rg_cameras rig') \<and>
      (other \<noteq> cid \<longrightarrow> select_camera other (rg_cameras rig') = select_camera other (rg_cameras rig)) \<and>
      (result_ok r \<longrightarrow> is_streaming (select_camera cid (rg_cameras rig')))"
  proof (elim disjE exE conjE)
    fix d w
    assume s: "device_start (env_video env) cid (select_camera cid (rg_cameras rig)) (rg_world rig) = Some (r, d, w)"
      and c: "rg_cameras rig' = publishCameraEvent (dev_status d) (result_ok r) (put_camera cid d (rg_cameras rig))"
    from device_start_cases[OF s manager_inv_select[OF assms(2)]] c assms(2) show ?thesis
      by (simp add: manager_inv_put select_put_other)
  qed (use assms(2) in simp)
  then show "manager_inv (rg_cameras rig')"
    and "other \<noteq> cid \<Longrightarrow> select_camera other (rg_cameras rig') = select_camera other (rg_cameras rig)"
    and "result_ok r \<Longrightarrow> is_streaming (select_camera cid (rg_cameras rig'))"
    by blast+
qed

text \<open>Starting the capture nodes leaves the cameras of the nodes streaming.\<close>

lemma startCaptureNodes_cameras:
  assumes "startCaptureNodes env p rig = Some (r, rig')" "manager_inv (rg_cameras rig)"
  shows "manager_inv (rg_cameras rig') \<and>
    (result_ok r \<longrightarrow> (node_of cid p \<noteq> None \<longrightarrow> is_streaming (select_camera cid (rg_cameras rig'))))"
proof -
  obtain r1 rig1 where v: "(case pipe_visible p of None \<Rightarrow> Some (Success, rig)
        | Some n \<Rightarrow> capture_start env Visible n rig) = Some (r1, rig1)"
    and rest: "(case (r1, pipe_composite p) of
             (Inl e, _) \<Rightarrow> Some (Inl e, rig1)
           | (Inr _, None) \<Rightarrow> Some (Success, rig1)
           | (Inr _, Some n) \<Rightarrow>
               do { (r, rig) \<leftarrow> capture_start env CompositeLowThermal n rig1;
                    (case r of
                       Inl e \<Rightarrow> do { rig \<leftarrow> stop_node env Visible (pipe_visible p) rig; Some (Inl e, rig) }
                     | Inr _ \<Rightarrow> Some (Success, rig)) }) = Some (r, rig')"
    using assms(1) unfolding startCaptureNodes_def by (elim bind_SomeE) auto
  have i1: "manager_inv (rg_cameras rig1)"
    and s1: "pipe_visible p \<noteq> None \<Longrightarrow> result_ok r1 \<Longrightarrow> is_streaming (select_camera Visible (rg_cameras rig1))"
    using v assms(2) capture_start_cameras(1,3) by (auto split: option.split_asm)
  show ?thesis
  proof (cases r1)
    case (Inl e)
    with rest i1 show ?thesis by auto
  next
    case (Inr u)
    show ?thesis
    proof (cases "pipe_composite p")
      case None
      with rest Inr have "rig' = rig1" "r = Success" by simp_all
      with None i1 s1 Inr show ?thesis by (cases cid) (simp_all add: node_of_def)
    next
      case (Some n)
      with rest Inr obtain r2 rig2 where c: "capture_start env CompositeLowThermal n rig1 = Some (r2, rig2)"
        and e: "(case r2 of Inl e \<Rightarrow> do { rig \<leftarrow> stop_node env Visible (pipe_visible p) rig2; Some (Inl e, rig) }
                 | Inr _ \<Rightarrow> Some (Success, rig2)) = Some (r, rig')"
        by (auto elim!: bind_SomeE)
      note cc = capture_start_cameras[OF c i1]
      show ?thesis
      proof (cases r2)
        case (Inl err)
        with e obtain "stop_node env Visible (pipe_visible p) rig2 = Some rig'" "r = Inl err"
          by (auto elim!: bind_SomeE)
        with stop_node_cameras(1) cc(1) show ?thesis by auto
      next
        case (Inr u2)
        with e have "rig' = rig2" "r = Success" by simp_all
        with Inr \<open>r1 = Inr u\<close> cc(1) cc(2)[of Visible] cc(3) s1 show ?thesis
          by (cases cid) (simp_all add: node_of_def)
      qed
    qed
  qed
qed

lemma pipe_start_effect:
  assumes "pipe_start env p rig = Some (r, p', rig')" "manager_inv (rg_cameras rig)"
  shows "manager_inv (rg_cameras rig') \<and>
    (r = Success \<longrightarrow> p' = pipe_running (p\<lparr>pipe_stopFlag := False, pipe_worker := True\<rparr>) \<and>
       ms_state (rg_stream rig') = StreamRunning \<and>
       (node_of cid p \<noteq> None \<longrightarrow> is_streaming (select_camera cid (rg_cameras rig'))))"
proof -
  obtain r1 p1 where l: "pipe_launch env p rig = Some (r1, p1, rig')"
    and e: "r = r1" "p' = (if result_ok r1 then pipe_running p1 else p1)"
    using assms(1) by (auto simp: pipe_start_def elim!: bind_SomeE split: sum.split_asm)
  show ?thesis
  proof (cases "pipe_state p \<noteq> Initialized \<and> pipe_state p \<noteq> Stopped")
    case True
    with l e assms(2) show ?thesis by (auto simp: pipe_launch_def)
  next
    case False
    with l obtain rc rig1 where n: "startCaptureNodes env p rig = Some (rc, rig1)"
      and f: "(case rc of Inl e \<Rightarrow> (Inl e, p, rig1)
         | Inr _ \<Rightarrow> (Success, p\<lparr>pipe_stopFlag := False, pipe_worker := True\<rparr>,
                     rig1\<lparr>rg_stream := ms_start (rg_stream rig1)\<rparr>)) = (r1, p1, rig')"
      by (auto simp: pipe_launch_def elim!: bind_SomeE split: sum.split_asm if_splits)
    from startCaptureNodes_cameras[OF n assms(2), of cid] f e show ?thesis
      by (cases rc) (auto simp: ms_start_def)
  qed
qed

text \<open>A pipeline that was built has the configuration it was asked for and a node for every camera that
  needs one.\<close>

lemma init_parts_nodes:
  "init_visible p = (Success, p') \<Longrightarrow> pipe_config p' = pipe_config p \<and> pipe_context p' = pipe_context p \<and>
     pipe_composite p' = pipe_composite p \<and> (pl_requireVisible (pipe_config p) \<longrightarrow> pipe_visible p' \<noteq> None)"
  "init_composite p = (Success, p') \<Longrightarrow> pipe_config p' = pipe_config p \<and> pipe_context p' = pipe_context p \<and>
     pipe_visible p' = pipe_visible p \<and> (pl_requireComposite (pipe_config p) \<longrightarrow> pipe_composite p' \<noteq> None)"
  "init_decoder env p rig = (Success, p', rig') \<Longrightarrow> pipe_config p' = pipe_config p \<and>
     pipe_context p' = pipe_context p \<and> pipe_visible p' = pipe_visible p \<and> pipe_composite p' = pipe_composite p \<and>
     rg_cameras rig' = rg_cameras rig"
  "init_encoder env p rig = (Success, p', rig') \<Longrightarrow> pipe_config p' = pipe_config p \<and>
     pipe_context p' = pipe_context p \<and> pipe_visible p' = pipe_visible p \<and> pipe_composite p' = pipe_composite p \<and>
     rg_cameras rig' = rg_cameras rig"
  by (auto simp: init_visible_def init_composite_def init_decoder_def init_encoder_def Let_def
      split: if_splits prod.split_asm sum.split_asm)

lemma init_parts_cameras:
  "init_decoder env p rig = (r, p', rig') \<Longrightarrow> rg_cameras rig' = rg_cameras rig"
  "init_encoder env p rig = (r, p', rig') \<Longrightarrow> rg_cameras rig' = rg_cameras rig"
  by (auto simp: init_decoder_def init_encoder_def Let_def split: if_splits prod.split_asm sum.split_asm)

lemma init_convert_nodes:
  "pipe_config (init_convert p) = pipe_config p" "pipe_context (init_convert p) = pipe_context p"
  "pipe_visible (init_convert p) = pipe_visible p" "pipe_composite (init_convert p) = pipe_composite p"
  by (simp_all add: init_convert_def)

lemma pipe_init_ok:
  assumes "pipe_init env config ctx p rig = (r, p', rig')"
  shows "rg_cameras rig' = rg_cameras rig \<and>
    (r = Success \<longrightarrow> pipe_config p' = config \<and> pipe_context p' = ctx \<and>
      (pl_requireVisible config \<longrightarrow> node_of Visible p' \<noteq> None) \<and>
      (pl_requireComposite config \<longrightarrow> node_of CompositeLowThermal p' \<noteq> None))"
  using assms
proof (cases rule: pipe_init_cases)
  case (parts q r1 p1 r2 p2 r3 p3 rig3)
  obtain r4 p4 rig4 where 4: "init_encoder env (init_convert p3) rig3 = (r4, p4, rig4)"
    by (cases "init_encoder env (init_convert p3) rig3") auto
  note cams = init_parts_cameras(1)[OF parts(6)] init_parts_cameras(2)[OF 4]
  show ?thesis
  proof (cases "r1 = Success \<and> r2 = Success \<and> r3 = Success \<and> r4 = Success")
    case True
    with parts(7) 4 have p': "p' = (addNode ''MainStream'' p4)\<lparr>pipe_state := Initialized\<rparr>" "rig' = rig4"
      by auto
    have q: "pipe_config q = config" "pipe_context q = ctx" using parts(2) by simp_all
    from True parts(4-6) 4
    have "init_visible q = (Success, p1)" "init_composite p1 = (Success, p2)"
      "init_decoder env p2 rig = (Success, p3, rig3)" "init_encoder env (init_convert p3) rig3 = (Success, p4, rig4)"
      by simp_all
    from init_parts_nodes(1)[OF this(1)] init_parts_nodes(2)[OF this(2)] init_parts_nodes(3)[OF this(3)]
      init_parts_nodes(4)[OF this(4)] q p' cams
    show ?thesis by (simp add: node_of_def init_convert_nodes)
  next
    case False
    with parts(7) 4 cams show ?thesis by (auto split: sum.split_asm)
  qed
qed simp_all

lemma pipeline_build_effect:
  assumes "pipeline_build env config ctx rig = Some (built, evs, rig')" "manager_inv (rg_cameras rig)"
  shows "manager_inv (rg_cameras rig') \<and>
    (case built of
       Inl _ \<Rightarrow> True
     | Inr p \<Rightarrow> pipe_config p = config \<and> pipe_context p = ctx \<and> pipe_state p = Initialized \<and>
         \<not> pipe_worker p \<and>
         (pl_requireVisible config \<longrightarrow> node_of Visible p \<noteq> None) \<and>
         (pl_requireComposite config \<longrightarrow> node_of CompositeLowThermal p \<noteq> None))"
proof -
  obtain r p1 rig1 where i: "pipe_init env config ctx new_pipeline rig = (r, p1, rig1)"
    by (cases "pipe_init env config ctx new_pipeline rig") auto
  note ok = pipe_init_ok[OF i] and st = pipe_init_effect[OF i]
  show ?thesis
  proof (cases r)
    case (Inl e)
    with assms(1) i obtain p2 where "pipe_stop env p1 rig1 = Some (p2, rig')" and "built = rewrap e"
      by (auto simp: pipeline_build_def elim!: bind_SomeE)
    with pipe_stop_inv[OF this(1)] ok assms(2) show ?thesis by (simp add: rewrap_def)
  next
    case (Inr u)
    with assms i have "built = Inr p1" "rig' = rig1" by (simp_all add: pipeline_build_def)
    with ok st Inr assms(2) show ?thesis by (simp add: new_pipeline_def)
  qed
qed

text \<open>What the executor holds when a plan has been carried out.\<close>

definition runs_plan :: "ModeSwitchPlan \<Rightarrow> ModeSwitchExecutor \<Rightarrow> bool" where
  "runs_plan plan x \<longleftrightarrow>
     (\<exists>p. ex_pipeline x = Some p \<and> pipe_config p = mp_pipeline plan \<and> pipe_worker p \<and> \<not> pipe_stopFlag p \<and>
        pipe_state p \<in> {PipelineState.Running, PipelineError})"

definition cameras_stream :: "PipelineConfig \<Rightarrow> CameraManager \<Rightarrow> bool" where
  "cameras_stream c m \<longleftrightarrow>
     (pl_requireVisible c \<longrightarrow> is_streaming (select_camera Visible m)) \<and>
     (pl_requireComposite c \<longrightarrow> is_streaming (select_camera CompositeLowThermal m))"

lemma start_built_effect:
  assumes "start_built env p x pl = Some (r, x', pl')" "manager_inv (rg_cameras (plant_rig pl))"
    and p: "pipe_config p = mp_pipeline plan" "pipe_state p = Initialized"
      "pl_requireVisible (mp_pipeline plan) \<longrightarrow> node_of Visible p \<noteq> None"
      "pl_requireComposite (mp_pipeline plan) \<longrightarrow> node_of CompositeLowThermal p \<noteq> None"
  shows "manager_inv (rg_cameras (plant_rig pl')) \<and> ex_context x' = ex_context x \<and>
    ex_initialized x' = ex_initialized x \<and> plant_controller pl' = plant_controller pl \<and>
    plant_fusion pl' = plant_fusion pl \<and>
    (if r = Success
     then runs_plan plan x' \<and> cameras_stream (mp_pipeline plan) (rg_cameras (plant_rig pl')) \<and>
       ms_state (rg_stream (plant_rig pl')) = StreamRunning
     else ex_pipeline x' = None)"
proof -
  obtain r2 p2 rig2 where s: "pipe_start env p (plant_rig pl) = Some (r2, p2, rig2)"
    and e: "(case r2 of
               Inl e \<Rightarrow> do { (x, pl) \<leftarrow> drop_pipeline env p2 x (pl\<lparr>plant_rig := rig2\<rparr>); Some (Inl e, x, pl) }
             | Inr _ \<Rightarrow> Some (Success, x\<lparr>ex_pipeline := Some p2\<rparr>, pl\<lparr>plant_rig := rig2\<rparr>)) = Some (r, x', pl')"
    using assms(1) unfolding start_built_def by (elim bind_SomeE) auto
  note se = pipe_start_effect[OF s assms(2)]
  show ?thesis
  proof (cases r2)
    case (Inl err)
    with e have d: "drop_pipeline env p2 x (pl\<lparr>plant_rig := rig2\<rparr>) = Some (x', pl')" and "r = Inl err"
      by (auto elim!: bind_SomeE)
    with drop_pipeline_effect[OF d] se show ?thesis by simp
  next
    case (Inr u2)
    with e have x': "x' = x\<lparr>ex_pipeline := Some p2\<rparr>" and pl': "pl' = pl\<lparr>plant_rig := rig2\<rparr>"
      and r: "r = Success" by simp_all
    from Inr se[of Visible] have p2: "p2 = pipe_running (p\<lparr>pipe_stopFlag := False, pipe_worker := True\<rparr>)"
      and run: "ms_state (rg_stream rig2) = StreamRunning" and inv: "manager_inv (rg_cameras rig2)"
      by simp_all
    have "runs_plan plan x'"
      using p by (simp add: runs_plan_def x' p2 pipe_running_def pipe_publishEvent_def)
    moreover have "cameras_stream (mp_pipeline plan) (rg_cameras rig2)"
      using p se[of Visible] se[of CompositeLowThermal] Inr by (simp add: cameras_stream_def)
    ultimately show ?thesis using x' pl' r run inv by simp
  qed
qed

lemma build_and_start_effect:
  assumes "build_and_start env plan x pl = Some (r, x', pl')" "manager_inv (rg_cameras (plant_rig pl))"
    and "ex_pipeline x = None"
  shows "manager_inv (rg_cameras (plant_rig pl')) \<and> ex_context x' = ex_context x \<and>
    ex_initialized x' = ex_initialized x \<and> plant_controller pl' = plant_controller pl \<and>
    plant_fusion pl' = plant_fusion pl \<and>
    (if r = Success
     then runs_plan plan x' \<and> cameras_stream (mp_pipeline plan) (rg_cameras (plant_rig pl')) \<and>
       ms_state (rg_stream (plant_rig pl')) = StreamRunning
     else ex_pipeline x' = None)"
proof -
  obtain built evs rig where
    b: "pipeline_build env (mp_pipeline plan) (pipeline_context (ex_context x)) (plant_rig pl) = Some (built, evs, rig)"
    and e: "(case built of
         Inl e \<Rightarrow> Some (rewrap e, x\<lparr>ex_published := ex_published x @ evs\<rparr>, pl\<lparr>plant_rig := rig\<rparr>)
       | Inr p \<Rightarrow> start_built env p (x\<lparr>ex_published := ex_published x @ evs\<rparr>) (pl\<lparr>plant_rig := rig\<rparr>))
      = Some (r, x', pl')"
    using assms(1) unfolding build_and_start_def by (elim bind_SomeE) auto
  note be = pipeline_build_effect[OF b assms(2)]
  show ?thesis
  proof (cases built)
    case (Inl err)
    with e be assms(3) show ?thesis by (auto simp: rewrap_def)
  next
    case (Inr p)
    with e have "start_built env p (x\<lparr>ex_published := ex_published x @ evs\<rparr>) (pl\<lparr>plant_rig := rig\<rparr>)
      = Some (r, x', pl')" by simp
    from start_built_effect[OF this, of plan] be Inr show ?thesis by simp
  qed
qed

lemma startPipeline_effect:
  assumes "startPipeline env plan x pl = Some (r, x', pl')" "manager_inv (rg_cameras (plant_rig pl))"
    and "ex_pipeline x = None"
  shows "manager_inv (rg_cameras (plant_rig pl')) \<and> ex_context x' = ex_context x \<and>
    ex_initialized x' = ex_initialized x \<and> plant_controller pl' = plant_controller pl \<and>
    plant_fusion pl' = plant_fusion pl \<and>
    (if r = Success
     then runs_plan plan x' \<and> cameras_stream (mp_pipeline plan) (rg_cameras (plant_rig pl')) \<and>
       ms_state (rg_stream (plant_rig pl')) = StreamRunning
     else ex_pipeline x' = None)"
proof -
  obtain r1 m w where
    o: "openAllEnabled (env_video env) (rg_cameras (plant_rig pl)) (rg_world (plant_rig pl)) = Some (r1, m, w)"
    and e: "(case r1 of
         Inl e \<Rightarrow> Some (Inl e, x, pl\<lparr>plant_rig := (plant_rig pl)\<lparr>rg_cameras := m, rg_world := w\<rparr>\<rparr>)
       | Inr _ \<Rightarrow> build_and_start env plan x (pl\<lparr>plant_rig := (plant_rig pl)\<lparr>rg_cameras := m, rg_world := w\<rparr>\<rparr>))
      = Some (r, x', pl')"
    using assms(1) unfolding startPipeline_def by (elim bind_SomeE) auto
  note i = openAllEnabled_inv[OF o assms(2)]
  show ?thesis
  proof (cases r1)
    case (Inl err)
    with e i assms(3) show ?thesis by auto
  next
    case (Inr u)
    with e have "build_and_start env plan x (pl\<lparr>plant_rig := (plant_rig pl)\<lparr>rg_cameras := m, rg_world := w\<rparr>\<rparr>)
      = Some (r, x', pl')" by simp
    from build_and_start_effect[OF this] i assms(3) show ?thesis by simp
  qed
qed

lemma setOutputMode_ok:
  "setOutputMode ser now mode c w = Some (Success, c', w') \<Longrightarrow> cs_currentMode (ctl_state c') = mode"
  by (auto simp: setOutputMode_def setFusionMode_def Let_def publishModeChanged_def elim!: bind_SomeE
      split: if_splits sum.split_asm)

lemma switchSensor_ok:
  "switchCompositeSensor ser False now plan c w = Some (Success, c', w') \<Longrightarrow>
     mp_requireCompositeSensorSwitch plan \<Longrightarrow> cs_currentMode (ctl_state c') = mp_compositeOutput plan"
  by (auto simp: switchCompositeSensor_def elim!: bind_SomeE split: sum.split_asm dest: setOutputMode_ok)

lemma prepareFusion_ok:
  "prepareFusion plan e = (Success, e') \<Longrightarrow> mp_requireFusion plan \<Longrightarrow> fe_currentMode e' = mp_fusionMode plan"
  by (auto simp: prepareFusion_def fe_setMode_def split: if_splits prod.split_asm sum.split_asm)

text \<open>Carrying out a plan: on success everything the plan asks for holds; a failure either came before the old
  pipeline was touched, or leaves no pipeline.\<close>

lemma ex_execute_effect:
  assumes "ex_execute env ser skip now plan x pl = Some (r, x', pl')"
    and inv: "manager_inv (rg_cameras (plant_rig pl))"
  shows "manager_inv (rg_cameras (plant_rig pl')) \<and> ex_context x' = ex_context x \<and>
    ex_initialized x' = ex_initialized x \<and>
    (if r = Success
     then runs_plan plan x' \<and> cameras_stream (mp_pipeline plan) (rg_cameras (plant_rig pl')) \<and>
       ms_state (rg_stream (plant_rig pl')) = StreamRunning \<and>
       (mp_requireCompositeSensorSwitch plan \<and> \<not> skip \<longrightarrow>
          cs_currentMode (ctl_state (plant_controller pl')) = mp_compositeOutput plan) \<and>
       (mp_requireFusion plan \<longrightarrow> fe_currentMode (plant_fusion pl') = mp_fusionMode plan)
     else if ex_initialized x \<and> ex_validateContext plan x = Success then ex_pipeline x' = None
     else x' = x \<and> pl' = pl)"
proof (cases "ex_initialized x \<and> ex_validateContext plan x = Success")
  case False
  with assms show ?thesis
    by (auto simp: ex_execute_def split: if_splits sum.split_asm)
next
  case True
  with assms(1) obtain x1 pl1 where st: "ex_stop env x pl = Some (x1, pl1)"
    and rest: "(case prepareFusion plan (plant_fusion pl1) of
                  (Inl e, f) \<Rightarrow> Some (Inl e, x1, pl1\<lparr>plant_fusion := f\<rparr>)
                | (Inr _, f) \<Rightarrow>
                    do { (r, c, w) \<leftarrow> switchCompositeSensor ser skip now plan (plant_controller pl1)
                                       (rg_world (plant_rig pl1));
                         let pl = pl1\<lparr>plant_fusion := f, plant_controller := c,
                                     plant_rig := (plant_rig pl1)\<lparr>rg_world := w\<rparr>\<rparr>;
                         (case r of
                            Inl e \<Rightarrow> Some (Inl e, x1, pl)
                          | Inr _ \<Rightarrow> startPipeline env plan x1 pl) }) = Some (r, x', pl')"
    by (auto simp: ex_execute_def elim!: bind_SomeE)
  note s = ex_stop_effect[OF st inv]
  obtain rf f where pf: "prepareFusion plan (plant_fusion pl1) = (rf, f)" by fastforce
  show ?thesis
  proof (cases rf)
    case (Inl e)
    with rest pf s True show ?thesis by auto
  next
    case (Inr u)
    with rest pf obtain r2 c w where
      sw: "switchCompositeSensor ser skip now plan (plant_controller pl1) (rg_world (plant_rig pl1)) = Some (r2, c, w)"
      and fin: "(case r2 of
           Inl e \<Rightarrow> Some (Inl e, x1, pl1\<lparr>plant_fusion := f, plant_controller := c,
                                plant_rig := (plant_rig pl1)\<lparr>rg_world := w\<rparr>\<rparr>)
         | Inr _ \<Rightarrow> startPipeline env plan x1 (pl1\<lparr>plant_fusion := f, plant_controller := c,
                                plant_rig := (plant_rig pl1)\<lparr>rg_world := w\<rparr>\<rparr>)) = Some (r, x', pl')"
      by (auto simp: Let_def elim!: bind_SomeE)
    show ?thesis
    proof (cases r2)
      case (Inl e)
      with fin s True show ?thesis by auto
    next
      case (Inr u2)
      with fin have sp: "startPipeline env plan x1 (pl1\<lparr>plant_fusion := f, plant_controller := c,
                                plant_rig := (plant_rig pl1)\<lparr>rg_world := w\<rparr>\<rparr>) = Some (r, x', pl')"
        by simp
      have sens: "mp_requireCompositeSensorSwitch plan \<and> \<not> skip \<longrightarrow>
          cs_currentMode (ctl_state c) = mp_compositeOutput plan"
        using switchSensor_ok[of ser now plan "plant_controller pl1" "rg_world (plant_rig pl1)" c w] sw Inr
        by auto
      have fus: "mp_requireFusion plan \<longrightarrow> fe_currentMode f = mp_fusionMode plan"
        using prepareFusion_ok[of plan "plant_fusion pl1" f] pf \<open>rf = Inr u\<close> by auto
      from startPipeline_effect[OF sp] s sens fus True show ?thesis by auto
    qed
  qed
qed

subsection \<open>A switch\<close>

lemma switchTo_cases:
  assumes "switchTo env ser skip t0 t1 t2 m mm pl = Some (r, mm', pl')"
  obtains
    (refused) e where "r = Inl e" "mm' = mm" "pl' = pl"
      "\<not> sw_initialized (mm_state mm) \<or> sw_switching (mm_state mm)"
  | (unplanned) e where "sw_initialized (mm_state mm)" "\<not> sw_switching (mm_state mm)"
      "buildPlan (mm_planner mm) m = Inl e" "r = rewrap e" "pl' = pl"
      "mm' = mm\<lparr>mm_state := (mm_state mm)\<lparr>sw_switching := False, sw_lastSwitchBeginMs := t0, sw_stage := Failed,
         sw_lastError := describe e, sw_errorCount := sw_errorCount (mm_state mm) + 1\<rparr>\<rparr>"
  | (failed) plan e x where "sw_initialized (mm_state mm)" "\<not> sw_switching (mm_state mm)"
      "buildPlan (mm_planner mm) m = Inr plan" "r = Inl e"
      "ex_execute env ser skip t1 plan (mm_executor mm) pl = Some (Inl e, x, pl')"
      "mm' = mm\<lparr>mm_executor := x, mm_lastPlan := plan,
         mm_state := (mm_state mm)\<lparr>sw_switching := False, sw_lastSwitchBeginMs := t0, sw_stage := Failed,
         sw_lastError := describe e, sw_errorCount := sw_errorCount (mm_state mm) + 1\<rparr>\<rparr>"
  | (switched) plan x where "sw_initialized (mm_state mm)" "\<not> sw_switching (mm_state mm)"
      "buildPlan (mm_planner mm) m = Inr plan" "r = Success"
      "ex_execute env ser skip t1 plan (mm_executor mm) pl = Some (Success, x, pl')"
      "mm' = mm\<lparr>mm_executor := x, mm_lastPlan := plan,
         mm_state := (mm_state mm)\<lparr>sw_switching := False, sw_lastSwitchBeginMs := t0,
           sw_stage := ModeSwitchStage.Running, sw_previousMode := sw_currentMode (mm_state mm),
           sw_currentMode := m, sw_lastSwitchEndMs := t2, sw_lastError := [],
           sw_switchCount := sw_switchCount (mm_state mm) + 1\<rparr>,
         mm_published := mm_published mm @
           (if rc_eventBus (ex_context x) then [work_mode_event m plan] else [])\<rparr>"
proof (cases "\<not> sw_initialized (mm_state mm) \<or> sw_switching (mm_state mm)")
  case True
  with assms have "\<exists>e. r = Inl e" "mm' = mm" "pl' = pl"
    by (auto simp: switchTo_def split: if_splits)
  with True refused show ?thesis by blast
next
  case False
  show ?thesis
  proof (cases "buildPlan (mm_planner mm) m")
    case (Inl e)
    with False assms show ?thesis
      by (intro unplanned[of e]) (auto simp: switchTo_def markStage_def markError_def Let_def)
  next
    case (Inr plan)
    with False assms obtain r1 x pl1 where
      ex: "ex_execute env ser skip t1 plan (mm_executor mm) pl = Some (r1, x, pl1)"
      by (auto simp: switchTo_def markStage_def Let_def elim!: bind_SomeE)
    show ?thesis
    proof (cases r1)
      case (Inl e)
      with False Inr assms ex show ?thesis
        by (intro failed[of plan e x]) (auto simp: switchTo_def markStage_def markError_def Let_def)
    next
      case (Inr u)
      with False \<open>buildPlan (mm_planner mm) m = Inr plan\<close> assms ex show ?thesis
        by (intro switched[of plan x]) (auto simp: switchTo_def markStage_def Let_def)
    qed
  qed
qed

lemma plan_requires:
  assumes "buildPlan pn m = Inr plan"
  shows "pl_requireVisible (mp_pipeline plan) = requiresVisibleCamera m"
    and "pl_requireComposite (mp_pipeline plan) = requiresCompositeCamera m"
    and "mp_requireFusion plan = isFusionMode m" and "mp_fusionMode plan = fusionModeFor m"
    and "mp_requireCompositeSensorSwitch plan = requiresCompositeCamera m"
    and "requiresCompositeCamera m \<Longrightarrow> compositeOutputFor (pn_policy pn) m = Inr (mp_compositeOutput plan)"
proof -
  from assms obtain out where v: "validateModeEnabled (pn_policy pn) m = Success"
    and o: "requiresCompositeCamera m \<Longrightarrow> compositeOutputFor (pn_policy pn) m = Inr out"
    and plan: "plan = plan_of (pn_mediaConfig pn) m out" by (rule buildPlan_Inr) blast
  from v have "m \<noteq> WorkMode.Unknown" by (auto simp: validateModeEnabled_def split: if_splits)
  with plan show "pl_requireVisible (mp_pipeline plan) = requiresVisibleCamera m"
    and "pl_requireComposite (mp_pipeline plan) = requiresCompositeCamera m"
    by (cases m; simp add: plan_of_def pipeline_of_def Let_def requiresVisibleCamera_def
        requiresCompositeCamera_def isFusionMode_def pipeline_visibleOnly_def default_pipeline_config_def
        pipeline_compositeOnlyAuto_def pipeline_visibleCompositeFusionPlaceholder_def)+
  from plan o show "mp_requireFusion plan = isFusionMode m" and "mp_fusionMode plan = fusionModeFor m"
    and "mp_requireCompositeSensorSwitch plan = requiresCompositeCamera m"
    and "requiresCompositeCamera m \<Longrightarrow> compositeOutputFor (pn_policy pn) m = Inr (mp_compositeOutput plan)"
    by (simp_all add: plan_of_def Let_def)
qed

text \<open>
  Claim C8. A switch that succeeds has established the mode: the manager says so, remembers the old mode, counts the
  switch and announces it when there is a bus; the pipeline of the mode's plan runs and has its
  worker, the cameras the mode needs stream, the stream accepts frames, the sensor shows the output
  the policy gives for the mode (unless switching it is skipped), and the fusion engine is in the
  mode's fusion mode.
\<close>

theorem switch_establishes_mode:
  assumes "switchTo env ser skip t0 t1 t2 m mm pl = Some (Success, mm', pl')"
    and "manager_inv (rg_cameras (plant_rig pl))"
  shows "sw_currentMode (mm_state mm') = m \<and> sw_previousMode (mm_state mm') = sw_currentMode (mm_state mm) \<and>
    sw_stage (mm_state mm') = ModeSwitchStage.Running \<and> \<not> sw_switching (mm_state mm') \<and>
    sw_switchCount (mm_state mm') = sw_switchCount (mm_state mm) + 1 \<and>
    (\<exists>plan. buildPlan (mm_planner mm) m = Inr plan \<and> runs_plan plan (mm_executor mm') \<and>
       mm_published mm' = mm_published mm @
         (if rc_eventBus (ex_context (mm_executor mm)) then [work_mode_event m plan] else [])) \<and>
    (requiresVisibleCamera m \<longrightarrow> is_streaming (select_camera Visible (rg_cameras (plant_rig pl')))) \<and>
    (requiresCompositeCamera m \<longrightarrow>
       is_streaming (select_camera CompositeLowThermal (rg_cameras (plant_rig pl')))) \<and>
    ms_state (rg_stream (plant_rig pl')) = StreamRunning \<and>
    (requiresCompositeCamera m \<and> \<not> skip \<longrightarrow>
       compositeOutputFor (pn_policy (mm_planner mm)) m =
         Inr (cs_currentMode (ctl_state (plant_controller pl')))) \<and>
    (isFusionMode m \<longrightarrow> fe_currentMode (plant_fusion pl') = fusionModeFor m)"
  using assms(1)
proof (cases rule: switchTo_cases)
  case (switched plan x)
  note ex = ex_execute_effect[OF switched(5) assms(2)] and req = plan_requires[OF switched(3)]
  show ?thesis using switched(3,6) ex req by (simp add: cameras_stream_def)
qed simp_all

text \<open>
  Claim C9. A switch that fails leaves the manager in the failed stage with the error counted and its text kept, that of
  the planner when there was no plan and that of the returned error otherwise. It
  still names the old mode as the current one, although a failure after the plan was made and the
  context found complete has stopped the old pipeline: none is left.
\<close>

theorem switch_failure:
  assumes "switchTo env ser skip t0 t1 t2 m mm pl = Some (Inl e, mm', pl')"
    and "manager_inv (rg_cameras (plant_rig pl))"
    and "sw_initialized (mm_state mm)" and "\<not> sw_switching (mm_state mm)" and "ex_initialized (mm_executor mm)"
  shows "sw_stage (mm_state mm') = Failed \<and> \<not> sw_switching (mm_state mm') \<and>
    sw_errorCount (mm_state mm') = sw_errorCount (mm_state mm) + 1 \<and>
    sw_lastError (mm_state mm') =
      (case buildPlan (mm_planner mm) m of Inl refused \<Rightarrow> describe refused | Inr plan \<Rightarrow> describe e) \<and>
    sw_currentMode (mm_state mm') = sw_currentMode (mm_state mm) \<and>
    sw_switchCount (mm_state mm') = sw_switchCount (mm_state mm) \<and> mm_published mm' = mm_published mm \<and>
    (if \<exists>plan. buildPlan (mm_planner mm) m = Inr plan \<and> ex_validateContext plan (mm_executor mm) = Success
     then ex_pipeline (mm_executor mm') = None
     else mm_executor mm' = mm_executor mm \<and> pl' = pl)"
  using assms(1)
proof (cases rule: switchTo_cases)
  case (refused e)
  with assms(3,4) show ?thesis by simp
next
  case (unplanned e1)
  then show ?thesis by simp
next
  case (failed plan e1 x)
  from ex_execute_effect[OF failed(5) assms(2)] failed assms(5) show ?thesis
    by (auto simp: split: if_splits)
qed simp_all

subsection \<open>The mode machine\<close>

text \<open>What a client of the manager relies on: a machine whose state says only which mode, if any, is
  established. A call is accepted or refused.\<close>

datatype mode_spec = NotReady | AtRest | InMode WorkMode | Broken

datatype mode_call = ModeInit | ModeSwitch WorkMode | ModeStop | WorkerTurn

inductive spec_step :: "(WorkMode \<Rightarrow> bool) \<Rightarrow> mode_spec \<Rightarrow> mode_call \<times> bool \<Rightarrow> mode_spec \<Rightarrow> bool"
  for allowed where
  spec_init: "spec_step allowed NotReady (ModeInit, True) AtRest"
| spec_init_again: "s \<noteq> NotReady \<Longrightarrow> spec_step allowed s (ModeInit, False) s"
| spec_too_early: "spec_step allowed NotReady (ModeSwitch m, False) NotReady"
| spec_switch: "s \<noteq> NotReady \<Longrightarrow> allowed m \<Longrightarrow> spec_step allowed s (ModeSwitch m, True) (InMode m)"
| spec_break: "s \<noteq> NotReady \<Longrightarrow> spec_step allowed s (ModeSwitch m, False) Broken"
| spec_stop: "spec_step allowed s (ModeStop, True) (if s = NotReady then NotReady else AtRest)"
| spec_turn: "spec_step allowed s (WorkerTurn, True) s"

inductive spec_run :: "(WorkMode \<Rightarrow> bool) \<Rightarrow> mode_spec \<Rightarrow> (mode_call \<times> bool) list \<Rightarrow> mode_spec \<Rightarrow> bool"
  for allowed where
  spec_run_nil: "spec_run allowed s [] s"
| spec_run_snoc: "spec_run allowed s tr s1 \<Longrightarrow> spec_step allowed s1 l s2 \<Longrightarrow> spec_run allowed s (tr @ [l]) s2"

text \<open>The manager and the machine it drives: calls of the client, and turns of the worker of the
  pipeline the executor holds between them.\<close>

record 'w mode_world =
  mw_env :: "'w media_env"
  mw_serial :: "'w serial_os"
  mw_skip :: bool
  mw_modes :: ModeConfig
  mw_media :: MediaConfig
  mw_runtime :: ModeRuntimeContext

inductive mode_step ::
  "'w mode_world \<Rightarrow> ModeManager \<times> 'w plant \<Rightarrow> mode_call \<times> bool \<Rightarrow> ModeManager \<times> 'w plant \<Rightarrow> bool" for W where
  do_init: "mm_init (mw_modes W) (mw_media W) (mw_runtime W) mm = (r, mm') \<Longrightarrow>
     mode_step W (mm, pl) (ModeInit, result_ok r) (mm', pl)"
| do_switch: "switchTo (mw_env W) (mw_serial W) (mw_skip W) t0 t1 t2 m mm pl = Some (r, mm', pl') \<Longrightarrow>
     mode_step W (mm, pl) (ModeSwitch m, result_ok r) (mm', pl')"
| do_stop: "mm_stop (mw_env W) mm pl = Some (mm', pl') \<Longrightarrow> mode_step W (mm, pl) (ModeStop, True) (mm', pl')"
| do_turn: "ex_pipeline (mm_executor mm) = Some p \<Longrightarrow> pipe_worker p \<Longrightarrow> \<not> pipe_stopFlag p \<Longrightarrow>
     run_iteration (mw_env W) c p (plant_rig pl) = Some (p', rig') \<Longrightarrow>
     mode_step W (mm, pl) (WorkerTurn, True)
       (mm\<lparr>mm_executor := (mm_executor mm)\<lparr>ex_pipeline := Some p'\<rparr>\<rparr>, pl\<lparr>plant_rig := rig'\<rparr>)"

inductive mode_run ::
  "'w mode_world \<Rightarrow> ModeManager \<times> 'w plant \<Rightarrow> (mode_call \<times> bool) list \<Rightarrow> ModeManager \<times> 'w plant \<Rightarrow> bool"
  for W where
  mode_run_nil: "mode_run W s [] s"
| mode_run_snoc: "mode_run W s tr s1 \<Longrightarrow> mode_step W s1 l s2 \<Longrightarrow> mode_run W s (tr @ [l]) s2"

inductive_cases mode_stepE: "mode_step W s l s'"

definition abs_mode :: "ModeManager \<Rightarrow> mode_spec" where
  "abs_mode mm =
     (if \<not> sw_initialized (mm_state mm) then NotReady
      else if sw_stage (mm_state mm) = ModeSwitchStage.Running then InMode (sw_currentMode (mm_state mm))
      else if sw_stage (mm_state mm) = Failed then Broken else AtRest)"

definition configured_planner :: "'w mode_world \<Rightarrow> ModeSwitchPlanner" where
  "configured_planner W = snd (planner_init (mw_modes W) (mw_media W) new_planner)"

definition mode_allowed :: "'w mode_world \<Rightarrow> WorkMode \<Rightarrow> bool" where
  "mode_allowed W m \<longleftrightarrow> (\<exists>plan. buildPlan (configured_planner W) m = Inr plan)"

text \<open>What ties the two: the mode in force is carried out by the executor's pipeline, whose worker
  finds a running stream, and at rest there is no pipeline.\<close>

definition carried_out :: "'w mode_world \<Rightarrow> ModeManager \<Rightarrow> 'w plant \<Rightarrow> bool" where
  "carried_out W mm pl \<longleftrightarrow>
     (case abs_mode mm of
        InMode m \<Rightarrow> \<exists>plan. buildPlan (configured_planner W) m = Inr plan \<and> runs_plan plan (mm_executor mm) \<and>
          ms_state (rg_stream (plant_rig pl)) = StreamRunning
      | Broken \<Rightarrow> True
      | _ \<Rightarrow> ex_pipeline (mm_executor mm) = None)"

definition mode_inv :: "'w mode_world \<Rightarrow> ModeManager \<Rightarrow> 'w plant \<Rightarrow> bool" where
  "mode_inv W mm pl \<longleftrightarrow>
     manager_inv (rg_cameras (plant_rig pl)) \<and> \<not> sw_switching (mm_state mm) \<and> carried_out W mm pl \<and>
     (if sw_initialized (mm_state mm)
      then mm_planner mm = configured_planner W \<and> ex_initialized (mm_executor mm)
      else mm_planner mm = new_planner)"

lemma run_iteration_cameras:
  assumes "run_iteration env c p rig = Some (p', rig')" "manager_inv (rg_cameras rig)"
  shows "manager_inv (rg_cameras rig')"
proof -
  have cap: "manager_inv (rg_cameras rig1)"
    if "capture_frame env now t cid n rig = Some (r, rig1)" for now t cid n r rig1
    using that assms(2) perform_inv[of "env_video env" "CallRead now t cid" "rg_cameras rig" "rg_world rig"]
    by (auto simp: capture_frame_def Let_def elim!: bind_SomeE split: if_splits sum.split_asm)
  from assms show ?thesis
    by (auto simp: run_iteration_def processOneFrame_def Let_def elim!: bind_SomeE
        split: option.split_asm sum.split_asm prod.split_asm
        dest!: cap prepareFrame_effect publishFrame_effect)
qed

lemma mode_step_refines:
  assumes "mode_step W (mm, pl) l (mm', pl')" "mode_inv W mm pl"
  shows "spec_step (mode_allowed W) (abs_mode mm) l (abs_mode mm') \<and> mode_inv W mm' pl'"
  using assms(1)
proof (cases rule: mode_step.cases)
  case (do_init r)
  with assms(2) show ?thesis
    by (cases "sw_initialized (mm_state mm)")
      (auto simp: mm_init_def planner_init_def policy_init_def ex_init_def mode_inv_def abs_mode_def
        carried_out_def configured_planner_def default_mode_state_def Let_def
        intro: spec_init spec_init_again split: prod.split_asm sum.split_asm)
next
  case (do_switch t0 t1 t2 m r)
  note inv = assms(2)[unfolded mode_inv_def]
  from do_switch(2) show ?thesis
  proof (cases rule: switchTo_cases)
    case (refused e)
    with do_switch assms(2) inv show ?thesis
      by (auto simp: abs_mode_def intro: spec_too_early)
  next
    case (unplanned e)
    with do_switch assms(2) inv show ?thesis
      by (auto simp: abs_mode_def mode_inv_def carried_out_def rewrap_def intro!: spec_break)
  next
    case (failed plan e x)
    with ex_execute_effect[OF failed(5)] do_switch inv show ?thesis
      by (auto simp: abs_mode_def mode_inv_def carried_out_def intro!: spec_break)
  next
    case (switched plan x)
    with ex_execute_effect[OF switched(5)] do_switch inv show ?thesis
      by (auto simp: abs_mode_def mode_inv_def carried_out_def mode_allowed_def intro!: spec_switch)
  qed
next
  case do_stop
  then obtain x pl1 where "ex_stop (mw_env W) (mm_executor mm) pl = Some (x, pl1)" and "pl1 = pl'"
    and "mm' = set_state (\<lambda>s. s\<lparr>sw_stage := Idle, sw_switching := False\<rparr>) (mm\<lparr>mm_executor := x\<rparr>)"
    by (auto simp: mm_stop_def elim!: bind_SomeE)
  with ex_stop_effect[of "mw_env W" "mm_executor mm" pl x pl1] assms(2) do_stop(1)
    spec_stop[of "mode_allowed W" "abs_mode mm"]
  show ?thesis by (auto simp: mode_inv_def abs_mode_def carried_out_def)
next
  case (do_turn p c p' rig')
  note eff = run_iteration_effect[OF do_turn(7)]
  have abs: "abs_mode mm' = abs_mode mm" by (simp add: do_turn(2) abs_mode_def)
  have "runs_plan plan (mm_executor mm')" if "runs_plan plan (mm_executor mm)" for plan
    using that eff do_turn(2,4) by (auto simp: runs_plan_def same_pipeline_def)
  with assms(2) eff do_turn(3,4) have "carried_out W mm' pl'"
    by (auto simp: mode_inv_def carried_out_def abs split: mode_spec.split_asm)
  with abs assms(2) run_iteration_cameras[OF do_turn(7)] do_turn(1-3) show ?thesis
    by (auto simp: mode_inv_def intro: spec_turn)
qed

lemma mode_run_refines:
  assumes "mode_run W s tr s'" "mode_inv W (fst s) (snd s)"
  shows "spec_run (mode_allowed W) (abs_mode (fst s)) tr (abs_mode (fst s')) \<and> mode_inv W (fst s') (snd s')"
  using assms
proof (induction rule: mode_run.induct)
  case (mode_run_nil s)
  then show ?case by (simp add: spec_run_nil)
next
  case (mode_run_snoc s tr s1 l s2)
  then have r: "spec_run (mode_allowed W) (abs_mode (fst s)) tr (abs_mode (fst s1))"
    and i: "mode_inv W (fst s1) (snd s1)" by blast+
  from mode_run_snoc.hyps(2) have "mode_step W (fst s1, snd s1) l (fst s2, snd s2)" by simp
  from mode_step_refines[OF this i] spec_run_snoc[OF r] show ?case by blast
qed

text \<open>
  Claim C1. The manager with its executor, pipeline, cameras, sensor and worker implements the mode machine: every
  sequence of calls and worker turns from a new manager, with the answers it gave, is one of the
  machine, ending in the state the manager shows. Whenever that state names a mode, the executor's
  pipeline is that of the mode's plan, its worker runs and the stream accepts frames; before the
  first switch and after a stop there is no pipeline.
\<close>

theorem manager_refines_mode_machine:
  assumes "mode_run W (new_mode_manager, pl0) tr (mm, pl)" and "manager_inv (rg_cameras (plant_rig pl0))"
  shows "spec_run (mode_allowed W) NotReady tr (abs_mode mm) \<and>
    (abs_mode mm = InMode m \<longrightarrow>
       (\<exists>plan. buildPlan (configured_planner W) m = Inr plan \<and> runs_plan plan (mm_executor mm) \<and>
          fst (ms_push f (rg_stream (plant_rig pl))) = Success)) \<and>
    (abs_mode mm = NotReady \<or> abs_mode mm = AtRest \<longrightarrow> ex_pipeline (mm_executor mm) = None)"
proof -
  have "mode_inv W (fst (new_mode_manager, pl0)) (snd (new_mode_manager, pl0))"
    and "abs_mode (fst (new_mode_manager, pl0)) = NotReady"
    using assms(2) by (simp_all add: mode_inv_def carried_out_def abs_mode_def new_mode_manager_def
        default_mode_state_def new_executor_def)
  with mode_run_refines[OF assms(1)] have "spec_run (mode_allowed W) NotReady tr (abs_mode mm)"
    and "carried_out W mm pl" by (simp_all add: mode_inv_def)
  then show ?thesis by (auto simp: carried_out_def ms_push_def Let_def)
qed

subsection \<open>A plant that works, for the witnesses\<close>

definition dead_port :: "nat serial_os" where
  "dead_port =
     \<lparr>so_open = (\<lambda>_. Pair (Inl ''no port'')), so_close = (\<lambda>_. id),
      so_tcgetattr = (\<lambda>_. Pair None), so_tcsetattr = (\<lambda>_ _. Pair None), so_tcflush = (\<lambda>_. id),
      so_write = (\<lambda>_ _. Pair (WriteFailed ''no port'')), so_poll = (\<lambda>_ _. Pair (PollFailed ''no port'')),
      so_read = (\<lambda>_ _. Pair (Inl ''no port''))\<rparr>"

definition sim_runtime :: ModeRuntimeContext where
  "sim_runtime =
     \<lparr>rc_cameraManager = True, rc_compositeController = True, rc_mainStream = True, rc_eventBus = True,
      rc_mjpegDecoder = False, rc_encoder = False, rc_fusionEngine = True\<rparr>"

definition sim_world :: "nat mode_world" where
  "sim_world =
     \<lparr>mw_env = sim_env, mw_serial = dead_port, mw_skip = False, mw_modes = default_mode_config,
      mw_media = default_media_config, mw_runtime = sim_runtime\<rparr>"

text \<open>The plant with the composite camera disabled, and the one where it is enabled but absent.\<close>

definition solo_manager :: CameraManager where
  "solo_manager =
     sim_manager\<lparr>cm_composite := set_status (cm_composite sim_manager) (\<lambda>s. s\<lparr>cam_enabled := False\<rparr>)\<rparr>"

definition sim_plant :: "CameraManager \<Rightarrow> nat plant" where
  "sim_plant m =
     \<lparr>plant_rig = sim_rig\<lparr>rg_cameras := m\<rparr>, plant_controller = new_controller, plant_fusion = new_engine\<rparr>"

definition solo_live :: CameraManager where
  "solo_live = publishCameraEvent (dev_status sim_opened) True (solo_manager\<lparr>cm_visible := sim_opened\<rparr>)"

lemma solo_open: "openAllEnabled sim_os solo_manager 0 = Some (Success, solo_live, 2)"
proof -
  have "cm_visible solo_manager = cm_visible sim_manager" "cm_initialized solo_manager"
    "\<not> cam_enabled (dev_status (cm_composite solo_manager))"
    by (simp_all add: solo_manager_def sim_manager_state)
  with sim_open[of 0] sim_composite(5) show ?thesis
    by (simp add: openAllEnabled_def solo_live_def publishCameraEvent_def)
qed

lemma solo_start:
  "\<exists>m. startCamera sim_os Visible solo_live 2 = Some (Success, m, 2)"
proof -
  have "vd_isOpen (dev_v4l2 sim_opened)" by (simp add: sim_opened_def vd_isOpen_def Let_def)
  then have "visible_start sim_os sim_opened 2 = Some (Success, sim_started, 2)"
    by (simp add: visible_start_def camera_start_def startStream_def xioctl_def sim_opened_def
        sim_started_def Let_def clearError_def opened_status_def)
  moreover have "cm_initialized solo_live" "select_camera Visible solo_live = sim_opened"
    by (simp_all add: solo_live_def publishCameraEvent_def solo_manager_def sim_manager_state select_camera_def)
  ultimately show ?thesis by (simp add: startCamera_def device_start_def)
qed

lemma solo_inv: "manager_inv (rg_cameras (plant_rig (sim_plant solo_manager)))"
  "manager_inv (rg_cameras (plant_rig (sim_plant sim_manager)))"
  using sim_manager_state(3)
  by (simp_all add: sim_plant_def solo_manager_def manager_inv_def cam_inv_def)

definition ready_manager :: ModeManager where
  "ready_manager = snd (mm_init default_mode_config default_media_config sim_runtime new_mode_manager)"

lemma ready_manager_eq:
  "mm_init default_mode_config default_media_config sim_runtime new_mode_manager = (Success, ready_manager)"
  "sw_initialized (mm_state ready_manager)" "\<not> sw_switching (mm_state ready_manager)"
  "mm_planner ready_manager = sim_planner"
  "mm_executor ready_manager = new_executor\<lparr>ex_context := sim_runtime, ex_initialized := True\<rparr>"
  "sw_currentMode (mm_state ready_manager) = WorkMode.Unknown" "sw_errorCount (mm_state ready_manager) = 0"
  by (simp_all add: ready_manager_def mm_init_def planner_init_def policy_init_def ex_init_def
      new_mode_manager_def default_mode_state_def sim_planner_def)

lemma sim_plan_visible:
  "\<exists>plan. buildPlan sim_planner WorkMode.VisibleOnly = Inr plan \<and>
     mp_pipeline plan = pipeline_visibleOnly default_media_config \<and>
     \<not> mp_requireCompositeSensorSwitch plan \<and> \<not> mp_requireFusion plan"
  by (simp add: sim_planner_def planner_init_def policy_init_def buildPlan_def validateModeEnabled_def
      default_mode_config_def requiresCompositeSensorSwitch_def requiresCompositeCamera_def
      requiresVisibleCamera_def isFusionMode_def Let_def default_plan_def)

lemma sim_runtime_context: "pipeline_context sim_runtime = main_context"
  by (simp add: pipeline_context_def sim_runtime_def main_context_def)

lemma solo_switch:
  "\<exists>mm pl. switchTo sim_env dead_port False 10 20 30 WorkMode.VisibleOnly ready_manager (sim_plant solo_manager)
     = Some (Success, mm, pl)"
proof -
  obtain plan where plan: "buildPlan sim_planner WorkMode.VisibleOnly = Inr plan"
    "mp_pipeline plan = pipeline_visibleOnly default_media_config"
    "\<not> mp_requireCompositeSensorSwitch plan" "\<not> mp_requireFusion plan"
    using sim_plan_visible by blast
  obtain m where m: "startCamera sim_os Visible solo_live 2 = Some (Success, m, 2)" using solo_start by blast
  let ?x = "new_executor\<lparr>ex_context := sim_runtime, ex_initialized := True\<rparr>"
  let ?rig = "sim_rig\<lparr>rg_cameras := solo_live, rg_world := 2\<rparr>"
  have "\<exists>p rig. pipe_start sim_env (visible_pipeline default_media_config main_context) ?rig
      = Some (Success, p, rig)"
    using m by (simp add: pipe_start_def pipe_launch_def visible_pipeline_def new_pipeline_def
        startCaptureNodes_def capture_start_def main_context_def)
  then obtain p rig where s: "pipe_start sim_env (visible_pipeline default_media_config main_context) ?rig
      = Some (Success, p, rig)" by blast
  have "\<exists>x pl. ex_execute sim_env dead_port False 20 plan ?x (sim_plant solo_manager) = Some (Success, x, pl)"
    using solo_open s plan(3,4)
    by (simp add: ex_execute_def ex_validateContext_def sim_runtime_def ex_stop_def new_executor_def
        prepareFusion_def switchCompositeSensor_def startPipeline_def build_and_start_def start_built_def
        sim_plant_def sim_rig_def Let_def plan(2) sim_build sim_runtime_context[unfolded sim_runtime_def])
  then show ?thesis
    using plan(1) ready_manager_eq by (auto simp: switchTo_def markStage_def Let_def)
qed

theorem switch_establishes_mode_witness:
  "\<exists>mm pl. switchTo sim_env dead_port False 10 20 30 WorkMode.VisibleOnly ready_manager (sim_plant solo_manager)
       = Some (Success, mm, pl) \<and>
     sw_currentMode (mm_state mm) = WorkMode.VisibleOnly \<and>
     is_streaming (select_camera Visible (rg_cameras (plant_rig pl))) \<and>
     ms_state (rg_stream (plant_rig pl)) = StreamRunning"
proof -
  obtain mm pl where s: "switchTo sim_env dead_port False 10 20 30 WorkMode.VisibleOnly ready_manager
      (sim_plant solo_manager) = Some (Success, mm, pl)" using solo_switch by blast
  have "requiresVisibleCamera WorkMode.VisibleOnly" by (simp add: requiresVisibleCamera_def)
  with switch_establishes_mode[OF s solo_inv(1)] s show ?thesis by blast
qed

lemma absent_switch:
  "\<exists>mm pl. switchTo sim_env dead_port False 10 20 30 WorkMode.VisibleOnly ready_manager (sim_plant sim_manager)
     = Some (Inl sim_failed, mm, pl)"
proof -
  obtain plan where plan: "buildPlan sim_planner WorkMode.VisibleOnly = Inr plan"
    "\<not> mp_requireCompositeSensorSwitch plan" "\<not> mp_requireFusion plan"
    using sim_plan_visible by blast
  obtain m where m: "openAllEnabled sim_os sim_manager 0 = Some (Inl sim_failed, m, 3)"
    using sim_open_all by blast
  let ?x = "new_executor\<lparr>ex_context := sim_runtime, ex_initialized := True\<rparr>"
  have "\<exists>x pl. ex_execute sim_env dead_port False 20 plan ?x (sim_plant sim_manager) = Some (Inl sim_failed, x, pl)"
    using m plan(2,3)
    by (simp add: ex_execute_def ex_validateContext_def sim_runtime_def ex_stop_def new_executor_def
        prepareFusion_def switchCompositeSensor_def startPipeline_def sim_plant_def sim_rig_def Let_def)
  then show ?thesis
    using plan(1) ready_manager_eq by (auto simp: switchTo_def markStage_def markError_def Let_def)
qed

theorem switch_failure_witness:
  "\<exists>mm pl. switchTo sim_env dead_port False 10 20 30 WorkMode.VisibleOnly ready_manager (sim_plant sim_manager)
       = Some (Inl sim_failed, mm, pl) \<and>
     sw_stage (mm_state mm) = Failed \<and> sw_errorCount (mm_state mm) = 1 \<and> sw_lastError (mm_state mm) \<noteq> [] \<and>
     sw_currentMode (mm_state mm) = WorkMode.Unknown"
proof -
  obtain mm pl where s: "switchTo sim_env dead_port False 10 20 30 WorkMode.VisibleOnly ready_manager
      (sim_plant sim_manager) = Some (Inl sim_failed, mm, pl)" using absent_switch by blast
  have "ex_initialized (mm_executor ready_manager)" by (simp add: ready_manager_eq)
  from switch_failure[OF s solo_inv(2) ready_manager_eq(2,3) this] s ready_manager_eq(6,7) show ?thesis
    by (cases "buildPlan (mm_planner ready_manager) WorkMode.VisibleOnly") auto
qed

lemma solo_run:
  "\<exists>mm pl. mode_run sim_world (new_mode_manager, sim_plant solo_manager)
       [(ModeInit, True), (ModeSwitch WorkMode.VisibleOnly, True)] (mm, pl) \<and>
     abs_mode mm = InMode WorkMode.VisibleOnly"
proof -
  obtain mm pl where s: "switchTo sim_env dead_port False 10 20 30 WorkMode.VisibleOnly ready_manager
      (sim_plant solo_manager) = Some (Success, mm, pl)" using solo_switch by blast
  have w: "mw_env sim_world = sim_env" "mw_serial sim_world = dead_port" "\<not> mw_skip sim_world"
    "mw_modes sim_world = default_mode_config" "mw_media sim_world = default_media_config"
    "mw_runtime sim_world = sim_runtime" by (simp_all add: sim_world_def)
  have 1: "mode_step sim_world (new_mode_manager, sim_plant solo_manager) (ModeInit, True)
      (ready_manager, sim_plant solo_manager)"
    using do_init[of sim_world new_mode_manager Success ready_manager] ready_manager_eq(1) by (simp add: w)
  have 2: "mode_step sim_world (ready_manager, sim_plant solo_manager) (ModeSwitch WorkMode.VisibleOnly, True) (mm, pl)"
    using do_switch[of sim_world 10 20 30 WorkMode.VisibleOnly ready_manager _ Success mm pl] s by (simp add: w)
  from mode_run_snoc[OF mode_run_snoc[OF mode_run_nil 1] 2]
  have "mode_run sim_world (new_mode_manager, sim_plant solo_manager)
       [(ModeInit, True), (ModeSwitch WorkMode.VisibleOnly, True)] (mm, pl)" by simp
  moreover from s have "abs_mode mm = InMode WorkMode.VisibleOnly"
    by (cases rule: switchTo_cases) (simp_all add: abs_mode_def)
  ultimately show ?thesis by blast
qed

theorem manager_refines_mode_machine_witness:
  "\<exists>mm (pl :: nat plant). spec_run (mode_allowed sim_world) NotReady
       [(ModeInit, True), (ModeSwitch WorkMode.VisibleOnly, True)] (abs_mode mm) \<and>
     abs_mode mm = InMode WorkMode.VisibleOnly \<and>
     fst (ms_push default_encoded_frame (rg_stream (plant_rig pl))) = Success"
proof -
  obtain mm pl where r: "mode_run sim_world (new_mode_manager, sim_plant solo_manager)
       [(ModeInit, True), (ModeSwitch WorkMode.VisibleOnly, True)] (mm, pl)"
    and a: "abs_mode mm = InMode WorkMode.VisibleOnly" using solo_run by blast
  from manager_refines_mode_machine[OF r solo_inv(1), of WorkMode.VisibleOnly default_encoded_frame] a
  have "spec_run (mode_allowed sim_world) NotReady
       [(ModeInit, True), (ModeSwitch WorkMode.VisibleOnly, True)] (abs_mode mm)"
    and "fst (ms_push default_encoded_frame (rg_stream (plant_rig pl))) = Success" by auto
  with a show ?thesis by blast
qed

end
