(* ===== verification/Tri_Services.thy ===== *)
theory Tri_Services
  imports Tri_ModeSwitch
begin

text \<open>
  The vocabulary of commands (command/CommandTypes.cpp, Command.cpp) and the services that stand
  between the commands and the parts they act on (service/): mode, stream, media, device, status and
  protocol service.
\<close>

subsection \<open>CommandTypes.cpp\<close>

datatype CommandType =
  Unknown | SetWorkMode | GetWorkMode | StartStream | StopStream | QueryStatus | SetVideoParam | SetFusionParam

datatype CommandSource = Unknown | Gb28181 | Onvif | PrivateApi | Rtsp | LocalCli | Internal

fun toString_CommandType :: "CommandType \<Rightarrow> string" where
  "toString_CommandType SetWorkMode = ''SET_WORK_MODE''"
| "toString_CommandType GetWorkMode = ''GET_WORK_MODE''"
| "toString_CommandType StartStream = ''START_STREAM''"
| "toString_CommandType StopStream = ''STOP_STREAM''"
| "toString_CommandType QueryStatus = ''QUERY_STATUS''"
| "toString_CommandType SetVideoParam = ''SET_VIDEO_PARAM''"
| "toString_CommandType SetFusionParam = ''SET_FUSION_PARAM''"
| "toString_CommandType CommandType.Unknown = ''UNKNOWN''"

fun toString_CommandSource :: "CommandSource \<Rightarrow> string" where
  "toString_CommandSource CommandSource.Gb28181 = ''GB28181''"
| "toString_CommandSource CommandSource.Onvif = ''ONVIF''"
| "toString_CommandSource CommandSource.PrivateApi = ''PRIVATE_API''"
| "toString_CommandSource CommandSource.Rtsp = ''RTSP''"
| "toString_CommandSource CommandSource.LocalCli = ''LOCAL_CLI''"
| "toString_CommandSource CommandSource.Internal = ''INTERNAL''"
| "toString_CommandSource CommandSource.Unknown = ''UNKNOWN''"

definition commandTypeFromString :: "string \<Rightarrow> CommandType" where
  "commandTypeFromString text =
     (let s = normalize text in
      if s = ''SETWORKMODE'' \<or> s = ''SWITCHMODE'' then SetWorkMode
      else if s = ''GETWORKMODE'' \<or> s = ''CURRENTMODE'' then GetWorkMode
      else if s = ''STARTSTREAM'' \<or> s = ''STARTMAINSTREAM'' then StartStream
      else if s = ''STOPSTREAM'' \<or> s = ''STOPMAINSTREAM'' then StopStream
      else if s = ''QUERYSTATUS'' \<or> s = ''STATUS'' then QueryStatus
      else if s = ''SETVIDEOPARAM'' then SetVideoParam
      else if s = ''SETFUSIONPARAM'' then SetFusionParam
      else CommandType.Unknown)"

definition commandSourceFromString :: "string \<Rightarrow> CommandSource" where
  "commandSourceFromString text =
     (let s = normalize text in
      if s = ''GB28181'' \<or> s = ''GB'' then CommandSource.Gb28181
      else if s = ''ONVIF'' then CommandSource.Onvif
      else if s = ''PRIVATEAPI'' \<or> s = ''PRIVATE'' then CommandSource.PrivateApi
      else if s = ''RTSP'' then CommandSource.Rtsp
      else if s = ''LOCALCLI'' \<or> s = ''CLI'' then CommandSource.LocalCli
      else if s = ''INTERNAL'' then CommandSource.Internal
      else CommandSource.Unknown)"

interpretation command_type_text: enum_text toString_CommandType commandTypeFromString
proof
  fix t show "commandTypeFromString (toString_CommandType t) = t"
    by (cases t) (simp_all add: commandTypeFromString_def normalize_eval)
next
  fix s show "commandTypeFromString (normalize s) = commandTypeFromString s"
    by (simp add: commandTypeFromString_def)
qed

interpretation command_source_text: enum_text toString_CommandSource commandSourceFromString
proof
  fix t show "commandSourceFromString (toString_CommandSource t) = t"
    by (cases t) (simp_all add: commandSourceFromString_def normalize_eval)
next
  fix s show "commandSourceFromString (normalize s) = commandSourceFromString s"
    by (simp add: commandSourceFromString_def)
qed

subsection \<open>Command.cpp\<close>

record Command =
  cmd_id :: u64
  cmd_type :: CommandType
  cmd_source :: CommandSource
  cmd_sourceName :: string
  cmd_params :: "string \<rightharpoonup> string"
  cmd_timestamp :: int

definition param :: "Command \<Rightarrow> string \<Rightarrow> string \<Rightarrow> string" where
  "param cmd key fallback = (case cmd_params cmd key of None \<Rightarrow> fallback | Some v \<Rightarrow> v)"

definition hasParam :: "Command \<Rightarrow> string \<Rightarrow> bool" where
  "hasParam cmd key \<longleftrightarrow> cmd_params cmd key \<noteq> None"

text \<open>The atomic counter \<open>g_commandId\<close> is the last argument.\<close>

definition nextCommandId :: "u64 \<Rightarrow> u64 \<times> u64" where
  "nextCommandId counter = (counter, counter + 1)"

definition makeCommand ::
  "int \<Rightarrow> CommandType \<Rightarrow> CommandSource \<Rightarrow> (string \<rightharpoonup> string) \<Rightarrow> string \<Rightarrow> u64 \<Rightarrow> Command \<times> u64" where
  "makeCommand now type source params sourceName counter =
     (let (i, counter) = nextCommandId counter
      in (\<lparr>cmd_id = i, cmd_type = type, cmd_source = source, cmd_sourceName = sourceName,
           cmd_params = params, cmd_timestamp = now\<rparr>, counter))"

subsection \<open>ProtocolService.cpp\<close>

record ProtocolService =
  pv_config :: ProtocolConfig
  pv_activeOwner :: string
  pv_initialized :: bool

definition new_protocol_service :: ProtocolService where
  "new_protocol_service =
     \<lparr>pv_config = default_protocol_config, pv_activeOwner = [], pv_initialized = False\<rparr>"

fun protocolName :: "CommandSource \<Rightarrow> string" where
  "protocolName CommandSource.Gb28181 = ''gb28181''"
| "protocolName CommandSource.Onvif = ''onvif''"
| "protocolName CommandSource.PrivateApi = ''private''"
| "protocolName CommandSource.Rtsp = ''rtsp''"
| "protocolName CommandSource.LocalCli = ''local''"
| "protocolName CommandSource.Internal = ''internal''"
| "protocolName CommandSource.Unknown = []"

definition pv_init :: "ProtocolConfig \<Rightarrow> ProtocolService \<Rightarrow> unit Result \<times> ProtocolService" where
  "pv_init config pv = (Success, \<lparr>pv_config = config, pv_activeOwner = [], pv_initialized = True\<rparr>)"

definition pv_acquire :: "CommandSource \<Rightarrow> ProtocolService \<Rightarrow> unit Result \<times> ProtocolService" where
  "pv_acquire source pv =
     (if \<not> pv_initialized pv then (Error NotInitialized ''protocol service is not initialized'', pv)
      else
        let name = protocolName source; owner = pv_activeOwner pv; active = pc_active (pv_config pv) in
        if name = [] then (Error InvalidArgument ''invalid protocol source'', pv)
        else if \<not> pc_allowMultiOnline (pv_config pv) \<and> owner \<noteq> [] \<and> owner \<noteq> name
        then (Error ProtocolBusy (''active protocol is '' @ owner @ '', reject '' @ name), pv)
        else if active \<noteq> [] \<and> active \<noteq> name
        then (Error ProtocolNotActive (''protocol is not active: '' @ name), pv)
        else (Success, pv\<lparr>pv_activeOwner := name\<rparr>))"

definition pv_release :: "CommandSource \<Rightarrow> ProtocolService \<Rightarrow> ProtocolService" where
  "pv_release source pv =
     (if pv_activeOwner pv = protocolName source then pv\<lparr>pv_activeOwner := []\<rparr> else pv)"

definition pv_isActive :: "CommandSource \<Rightarrow> ProtocolService \<Rightarrow> bool" where
  "pv_isActive source pv =
     (let name = protocolName source; owner = pv_activeOwner pv; active = pc_active (pv_config pv) in
      if \<not> pv_initialized pv \<or> name = [] then False
      else if active \<noteq> [] \<and> active \<noteq> name then False
      else if \<not> pc_allowMultiOnline (pv_config pv) \<and> owner \<noteq> [] \<and> owner \<noteq> name then False
      else True)"

definition flat_bool :: "bool \<Rightarrow> string" where
  "flat_bool b = (if b then ''true'' else ''false'')"

definition pv_status :: "ProtocolService \<Rightarrow> (string \<rightharpoonup> string)" where
  "pv_status pv = map_entries
     [(''active'', pc_active (pv_config pv)), (''owner'', pv_activeOwner pv),
      (''allow_multi_online'', flat_bool (pc_allowMultiOnline (pv_config pv))),
      (''reserve_multi_online_architecture'', flat_bool (pc_reserveMultiOnlineArchitecture (pv_config pv)))]"

lemma protocolName_inject: "protocolName a = protocolName b \<longleftrightarrow> a = b"
  by (cases a; cases b) simp_all

lemma protocolName_empty: "protocolName a = [] \<longleftrightarrow> a = CommandSource.Unknown"
  by (cases a) simp_all

text \<open>A source may acquire the service exactly when it is active for it.\<close>

lemma pv_acquire_active: "fst (pv_acquire source pv) = Success \<longleftrightarrow> pv_isActive source pv"
  by (auto simp: pv_acquire_def pv_isActive_def Let_def)

subsection \<open>The system the services act on\<close>

text \<open>Each service holds a pointer to the part it serves, set by its \<open>init\<close>.\<close>

record ModeService =
  msv_modeManager :: bool

record StreamService =
  ssv_mainStream :: bool

record MediaService =
  dsv_modeManager :: bool

record DeviceService =
  cv_cameraManager :: bool

record ServiceRuntime =
  sr_modeManager :: bool
  sr_cameraManager :: bool
  sr_compositeController :: bool
  sr_mainStream :: bool

record StatusService =
  qs_runtime :: ServiceRuntime
  qs_protocolService :: bool
  qs_initialized :: bool

record 'w system =
  sy_modes :: ModeManager
  sy_plant :: "'w plant"
  sy_modeService :: ModeService
  sy_streamService :: StreamService
  sy_mediaService :: MediaService
  sy_deviceService :: DeviceService
  sy_statusService :: StatusService
  sy_protocolService :: ProtocolService

abbreviation sy_rig :: "'w system \<Rightarrow> 'w rig" where
  "sy_rig sy \<equiv> plant_rig (sy_plant sy)"

abbreviation set_rig :: "('w rig \<Rightarrow> 'w rig) \<Rightarrow> 'w system \<Rightarrow> 'w system" where
  "set_rig f sy \<equiv> sy\<lparr>sy_plant := (sy_plant sy)\<lparr>plant_rig := f (sy_rig sy)\<rparr>\<rparr>"

text \<open>The clock readings of a call: when a switch begins, switches the sensor and ends.\<close>

type_synonym clock = "int \<times> int \<times> int"

subsection \<open>ModeService.cpp\<close>

definition msv_init :: "bool \<Rightarrow> ModeService \<Rightarrow> unit Result \<times> ModeService" where
  "msv_init modeManager s =
     (if \<not> modeManager then (Error InvalidArgument ''mode manager is null'', s)
      else (Success, s\<lparr>msv_modeManager := True\<rparr>))"

definition setWorkMode ::
  "'w mode_world \<Rightarrow> clock \<Rightarrow> WorkMode \<Rightarrow> 'w system \<Rightarrow> (unit Result \<times> 'w system) option" where
  "setWorkMode W clk mode sy =
     (if \<not> msv_modeManager (sy_modeService sy)
      then Some (Error NotInitialized ''mode service is not initialized'', sy)
      else if mode = WorkMode.Unknown
      then Some (Error UnsupportedWorkMode ''unknown work mode'', sy)
      else case clk of (t0, t1, t2) \<Rightarrow>
        do { (r, mm, pl) \<leftarrow> switchTo (mw_env W) (mw_serial W) (mw_skip W) t0 t1 t2 mode (sy_modes sy) (sy_plant sy);
             Some (r, sy\<lparr>sy_modes := mm, sy_plant := pl\<rparr>) })"

definition setWorkModeNamed where
  "setWorkModeNamed W clk mode sy = setWorkMode W clk (workModeFromString mode) sy"

definition getWorkMode :: "'w system \<Rightarrow> WorkMode Result" where
  "getWorkMode sy =
     (if \<not> msv_modeManager (sy_modeService sy)
      then Error NotInitialized ''mode service is not initialized''
      else Inr (sw_currentMode (mm_state (sy_modes sy))))"

definition getSupportedModes :: "WorkMode list Result" where
  "getSupportedModes =
     Inr [WorkMode.VisibleOnly, WorkMode.LowlightOnly, WorkMode.ThermalOnly,
          WorkMode.LowlightThermalComposite, WorkMode.VisibleLowlightFusion,
          WorkMode.VisibleThermalFusion, WorkMode.VisibleCompositeFusion]"

definition msv_planFor :: "WorkMode \<Rightarrow> 'w system \<Rightarrow> ModeSwitchPlan Result" where
  "msv_planFor mode sy =
     (if \<not> msv_modeManager (sy_modeService sy)
      then Error NotInitialized ''mode service is not initialized''
      else planFor mode (sy_modes sy))"

definition msv_planForNamed :: "string \<Rightarrow> 'w system \<Rightarrow> ModeSwitchPlan Result" where
  "msv_planForNamed mode sy =
     (if \<not> msv_modeManager (sy_modeService sy)
      then Error NotInitialized ''mode service is not initialized''
      else planForNamed mode (sy_modes sy))"

subsection \<open>MediaService.cpp\<close>

definition dsv_init :: "bool \<Rightarrow> MediaService \<Rightarrow> unit Result \<times> MediaService" where
  "dsv_init modeManager s =
     (if \<not> modeManager then (Error InvalidArgument ''mode manager is null'', s)
      else (Success, s\<lparr>dsv_modeManager := True\<rparr>))"

definition stopCurrentPipeline ::
  "'w mode_world \<Rightarrow> 'w system \<Rightarrow> (unit Result \<times> 'w system) option" where
  "stopCurrentPipeline W sy =
     (if \<not> dsv_modeManager (sy_mediaService sy)
      then Some (Error NotInitialized ''media service is not initialized'', sy)
      else do { (mm, pl) \<leftarrow> mm_stop (mw_env W) (sy_modes sy) (sy_plant sy);
                Some (Success, sy\<lparr>sy_modes := mm, sy_plant := pl\<rparr>) })"

subsection \<open>StreamService.cpp\<close>

definition ssv_init :: "bool \<Rightarrow> StreamService \<Rightarrow> unit Result \<times> StreamService" where
  "ssv_init mainStream s =
     (if \<not> mainStream then (Error InvalidArgument ''main stream is null'', s)
      else (Success, s\<lparr>ssv_mainStream := True\<rparr>))"

abbreviation ssv_missing :: "'a Result" where
  "ssv_missing \<equiv> Error NotInitialized ''stream service is not initialized''"

definition stream_call :: "(MainStream \<Rightarrow> MainStream) \<Rightarrow> 'w system \<Rightarrow> unit Result \<times> 'w system" where
  "stream_call f sy =
     (if \<not> ssv_mainStream (sy_streamService sy) then (ssv_missing, sy)
      else (Success, set_rig (\<lambda>r. r\<lparr>rg_stream := f (rg_stream r)\<rparr>) sy))"

definition startMainStream :: "'w system \<Rightarrow> unit Result \<times> 'w system" where
  "startMainStream = stream_call ms_start"

definition stopMainStream :: "'w system \<Rightarrow> unit Result \<times> 'w system" where
  "stopMainStream = stream_call ms_stop"

definition clearMainStream :: "'w system \<Rightarrow> unit Result \<times> 'w system" where
  "clearMainStream = stream_call ms_clear"

definition ssv_state :: "'w system \<Rightarrow> StreamState Result" where
  "ssv_state sy =
     (if \<not> ssv_mainStream (sy_streamService sy) then ssv_missing
      else Inr (ms_state (rg_stream (sy_rig sy))))"

definition ssv_profile :: "'w system \<Rightarrow> StreamProfile Result" where
  "ssv_profile sy =
     (if \<not> ssv_mainStream (sy_streamService sy) then ssv_missing
      else Inr (ms_profile (rg_stream (sy_rig sy))))"

definition ssv_stats :: "'w system \<Rightarrow> StreamStats Result" where
  "ssv_stats sy =
     (if \<not> ssv_mainStream (sy_streamService sy) then ssv_missing
      else Inr (ms_stats (rg_stream (sy_rig sy))))"

definition ssv_latestFrame :: "'w system \<Rightarrow> EncodedFrame Result" where
  "ssv_latestFrame sy =
     (if \<not> ssv_mainStream (sy_streamService sy) then ssv_missing
      else case ms_latestFrame (rg_stream (sy_rig sy)) of
        None \<Rightarrow> Error MainStreamNotReady ''main stream has no frame''
      | Some f \<Rightarrow> Inr f)"

text \<open>\<open>waitFrame\<close> blocks (\<open>None\<close>) until the stream has a frame, stops, or the time is over.\<close>

definition ssv_waitFrame ::
  "int \<Rightarrow> bool \<Rightarrow> 'w system \<Rightarrow> (EncodedFrame Result \<times> 'w system) option" where
  "ssv_waitFrame timeoutMs expired sy =
     (if \<not> ssv_mainStream (sy_streamService sy) then Some (ssv_missing, sy)
      else do { (f, s) \<leftarrow> ms_waitFrame timeoutMs expired (rg_stream (sy_rig sy));
                Some (case f of
                        None \<Rightarrow> Error Timeout ''wait main stream frame timeout''
                      | Some f \<Rightarrow> Inr f,
                      set_rig (\<lambda>r. r\<lparr>rg_stream := s\<rparr>) sy) })"

subsection \<open>DeviceService.cpp\<close>

definition cv_init :: "bool \<Rightarrow> DeviceService \<Rightarrow> unit Result \<times> DeviceService" where
  "cv_init cameraManager s =
     (if \<not> cameraManager then (Error InvalidArgument ''camera manager is null'', s)
      else (Success, s\<lparr>cv_cameraManager := True\<rparr>))"

abbreviation cv_missing :: "'a Result" where
  "cv_missing \<equiv> Error NotInitialized ''device service is not initialized''"

definition queryCameraStatus :: "'w system \<Rightarrow> CameraStatus list Result" where
  "queryCameraStatus sy =
     (if \<not> cv_cameraManager (sy_deviceService sy) then cv_missing
      else Inr (queryStatus (rg_cameras (sy_rig sy))))"

definition cv_openAllEnabled :: "'w mode_world \<Rightarrow> 'w system \<Rightarrow> (unit Result \<times> 'w system) option" where
  "cv_openAllEnabled W sy =
     (if \<not> cv_cameraManager (sy_deviceService sy) then Some (cv_missing, sy)
      else do { (r, m, w) \<leftarrow> openAllEnabled (env_video (mw_env W)) (rg_cameras (sy_rig sy)) (rg_world (sy_rig sy));
                Some (r, set_rig (\<lambda>r. r\<lparr>rg_cameras := m, rg_world := w\<rparr>) sy) })"

definition cv_stopAll :: "'w mode_world \<Rightarrow> 'w system \<Rightarrow> (unit Result \<times> 'w system) option" where
  "cv_stopAll W sy =
     (if \<not> cv_cameraManager (sy_deviceService sy) then Some (cv_missing, sy)
      else do { (m, w) \<leftarrow> stopAll (env_video (mw_env W)) (rg_cameras (sy_rig sy)) (rg_world (sy_rig sy));
                Some (Success, set_rig (\<lambda>r. r\<lparr>rg_cameras := m, rg_world := w\<rparr>) sy) })"

subsection \<open>ServiceTypes.cpp and StatusService.cpp\<close>

record SystemStatus =
  ys_mode :: ModeState
  ys_cameras :: "CameraStatus list"
  ys_compositeSensor :: CompositeSensorState
  ys_mainStreamState :: StreamState
  ys_mainStreamStats :: StreamStats
  ys_protocol :: "string \<rightharpoonup> string"

definition default_system_status :: SystemStatus where
  "default_system_status =
     \<lparr>ys_mode = default_mode_state, ys_cameras = [], ys_compositeSensor = default_sensor_state,
      ys_mainStreamState = StreamStopped, ys_mainStreamStats = zero_stats, ys_protocol = Map.empty\<rparr>"

fun toString_StreamState :: "StreamState \<Rightarrow> string" where
  "toString_StreamState StreamStopped = ''STOPPED''"
| "toString_StreamState StreamRunning = ''RUNNING''"
| "toString_StreamState StreamError = ''ERROR''"

definition flat_mode :: "ModeState \<Rightarrow> (string \<times> string) list" where
  "flat_mode m =
     [(''mode.current'', toString_WorkMode (sw_currentMode m)),
      (''mode.previous'', toString_WorkMode (sw_previousMode m)),
      (''mode.stage'', toString_Stage (sw_stage m)),
      (''mode.switching'', flat_bool (sw_switching m)),
      (''mode.switch_count'', show_nat (unat (sw_switchCount m))),
      (''mode.error_count'', show_nat (unat (sw_errorCount m))),
      (''mode.last_error'', sw_lastError m)]"

definition flat_sensor :: "CompositeSensorState \<Rightarrow> (string \<times> string) list" where
  "flat_sensor c =
     [(''composite_sensor.initialized'', flat_bool (cs_initialized c)),
      (''composite_sensor.serial_online'', flat_bool (cs_serialOnline c)),
      (''composite_sensor.current_mode'', toString_OutputMode (cs_currentMode c)),
      (''composite_sensor.error_count'', show_nat (unat (cs_errorCount c))),
      (''composite_sensor.last_error'', cs_lastError c)]"

definition flat_stream :: "StreamState \<Rightarrow> StreamStats \<Rightarrow> (string \<times> string) list" where
  "flat_stream st s =
     [(''stream.main.state'', toString_StreamState st),
      (''stream.main.frames_in'', show_nat (unat (ss_framesIn s))),
      (''stream.main.frames_dropped'', show_nat (unat (ss_framesDropped s))),
      (''stream.main.last_pts_ms'', show_int (ss_lastPtsMs s))]"

definition flat_camera :: "nat \<Rightarrow> CameraStatus \<Rightarrow> (string \<times> string) list" where
  "flat_camera i c =
     (let prefix = ''camera.'' @ show_nat i @ ''.'' in
      [(prefix @ ''id'', toString_CameraId (cam_id c)),
       (prefix @ ''kind'', toString_CameraKind (cam_kind c)),
       (prefix @ ''state'', toString_CameraState (cam_state c)),
       (prefix @ ''enabled'', flat_bool (cam_enabled c)),
       (prefix @ ''opened'', flat_bool (cam_opened c)),
       (prefix @ ''streaming'', flat_bool (cam_streaming c)),
       (prefix @ ''online'', flat_bool (cam_online c)),
       (prefix @ ''frames_read'', show_nat (unat (cam_framesRead c))),
       (prefix @ ''dropped_frames'', show_nat (unat (cam_droppedFrames c))),
       (prefix @ ''last_error'', cam_lastErrorMessage c)])"

text \<open>The keys of the parts are distinct; those of the protocol service are copied under a prefix.\<close>

definition flattenStatus :: "SystemStatus \<Rightarrow> (string \<rightharpoonup> string)" where
  "flattenStatus st =
     (\<lambda>k. case (if startsWith k ''protocol.'' then ys_protocol st (drop 9 k) else None) of
            Some v \<Rightarrow> Some v
          | None \<Rightarrow>
              map_entries
                (flat_mode (ys_mode st) @ flat_sensor (ys_compositeSensor st) @
                 flat_stream (ys_mainStreamState st) (ys_mainStreamStats st) @
                 (''camera.count'', show_nat (length (ys_cameras st))) #
                 concat (map (\<lambda>(i, c). flat_camera i c) (enumerate 0 (ys_cameras st)))) k)"

definition qs_init :: "ServiceRuntime \<Rightarrow> bool \<Rightarrow> StatusService \<Rightarrow> unit Result \<times> StatusService" where
  "qs_init runtime protocolService q =
     (if \<not> sr_modeManager runtime then (Error InvalidArgument ''mode manager is null'', q)
      else (Success, \<lparr>qs_runtime = runtime, qs_protocolService = protocolService, qs_initialized = True\<rparr>))"

definition querySystemStatus :: "'w system \<Rightarrow> SystemStatus Result" where
  "querySystemStatus sy =
     (let q = sy_statusService sy; rt = qs_runtime q; d = default_system_status in
      if \<not> qs_initialized q then Error NotInitialized ''status service is not initialized''
      else Inr
        \<lparr>ys_mode = (if sr_modeManager rt then mm_state (sy_modes sy) else ys_mode d),
         ys_cameras = (if sr_cameraManager rt then queryStatus (rg_cameras (sy_rig sy)) else ys_cameras d),
         ys_compositeSensor = (if sr_compositeController rt then ctl_state (plant_controller (sy_plant sy))
                               else ys_compositeSensor d),
         ys_mainStreamState = (if sr_mainStream rt then ms_state (rg_stream (sy_rig sy))
                               else ys_mainStreamState d),
         ys_mainStreamStats = (if sr_mainStream rt then ms_stats (rg_stream (sy_rig sy))
                               else ys_mainStreamStats d),
         ys_protocol = (if qs_protocolService q then pv_status (sy_protocolService sy) else ys_protocol d)\<rparr>)"

definition queryFlatStatus :: "'w system \<Rightarrow> (string \<rightharpoonup> string) Result" where
  "queryFlatStatus sy =
     (case querySystemStatus sy of Inl e \<Rightarrow> rewrap e | Inr st \<Rightarrow> Inr (flattenStatus st))"

end
