(* ===== verification/Tri_Commands.thy ===== *)
theory Tri_Commands
  imports Tri_Services
begin

text \<open>
  The command plane (command/): results, the five handlers, the router that finds the handler of a
  command and the bus that submits commands and announces the failures.
\<close>

subsection \<open>CommandResult.h\<close>

record CommandResult =
  cr_accepted :: bool
  cr_status :: Status
  cr_fields :: "string \<rightharpoonup> string"

definition cr_ok :: "(string \<rightharpoonup> string) \<Rightarrow> CommandResult" where
  "cr_ok out = \<lparr>cr_accepted = True, cr_status = status_success, cr_fields = out\<rparr>"

definition cr_error :: "ErrorCode \<Rightarrow> string \<Rightarrow> CommandResult" where
  "cr_error code message =
     \<lparr>cr_accepted = False, cr_status = status_error code message, cr_fields = Map.empty\<rparr>"

subsection \<open>The handlers\<close>

text \<open>A handler holds pointers to its services: whether they are set.\<close>

datatype CommandHandler =
  SetWorkModeHandler bool | GetWorkModeHandler bool | StartStreamHandler bool
  | StopStreamHandler bool bool | QueryStatusHandler bool

fun handler_type :: "CommandHandler \<Rightarrow> CommandType" where
  "handler_type (SetWorkModeHandler _) = SetWorkMode"
| "handler_type (GetWorkModeHandler _) = GetWorkMode"
| "handler_type (StartStreamHandler _) = StartStream"
| "handler_type (StopStreamHandler _ _) = StopStream"
| "handler_type (QueryStatusHandler _) = QueryStatus"

definition handle_set_mode ::
  "'w mode_world \<Rightarrow> clock \<Rightarrow> bool \<Rightarrow> Command \<Rightarrow> 'w system \<Rightarrow> (CommandResult Result \<times> 'w system) option" where
  "handle_set_mode W clk service cmd sy =
     (if \<not> service then Some (Error NotInitialized ''set-work-mode handler service is null'', sy)
      else
        let modeText = (if param cmd ''mode'' [] = [] then param cmd ''work_mode'' []
                        else param cmd ''mode'' []);
            mode = workModeFromString modeText
        in if modeText = [] then Some (Error InvalidCommand ''SET_WORK_MODE requires param: mode'', sy)
           else if mode = WorkMode.Unknown
           then Some (Error UnsupportedWorkMode (''unsupported work mode: '' @ modeText), sy)
           else do { (r, sy) \<leftarrow> setWorkMode W clk mode sy;
                     Some (case r of
                             Inl e \<Rightarrow> (rewrap e, sy)
                           | Inr _ \<Rightarrow> (Inr (cr_ok (map_entries [(''work_mode'', toString_WorkMode mode),
                                                   (''command'', ''SET_WORK_MODE'')])), sy)) })"

definition handle_get_mode :: "bool \<Rightarrow> 'w system \<Rightarrow> CommandResult Result" where
  "handle_get_mode service sy =
     (if \<not> service then Error NotInitialized ''get-work-mode handler service is null''
      else case getWorkMode sy of
        Inl e \<Rightarrow> rewrap e
      | Inr mode \<Rightarrow> Inr (cr_ok (map_entries [(''work_mode'', toString_WorkMode mode),
                                            (''command'', ''GET_WORK_MODE'')])))"

definition state_text :: "'w system \<Rightarrow> string" where
  "state_text sy = (case ssv_state sy of Inl _ \<Rightarrow> ''UNKNOWN'' | Inr st \<Rightarrow> toString_StreamState st)"

definition handle_start_stream :: "bool \<Rightarrow> 'w system \<Rightarrow> CommandResult Result \<times> 'w system" where
  "handle_start_stream service sy =
     (if \<not> service then (Error NotInitialized ''start-stream handler service is null'', sy)
      else case startMainStream sy of
        (Inl e, sy) \<Rightarrow> (rewrap e, sy)
      | (Inr _, sy) \<Rightarrow> (Inr (cr_ok (map_entries [(''stream'', ''main''), (''state'', state_text sy),
                                                 (''command'', ''START_STREAM'')])), sy))"

definition handle_stop_stream ::
  "'w mode_world \<Rightarrow> bool \<Rightarrow> bool \<Rightarrow> 'w system \<Rightarrow> (CommandResult Result \<times> 'w system) option" where
  "handle_stop_stream W streamService mediaService sy =
     (if \<not> streamService
      then Some (Error NotInitialized ''stop-stream handler stream service is null'', sy)
      else do {
        (r, sy) \<leftarrow> (if mediaService then stopCurrentPipeline W sy else Some (Success, sy));
        Some (case r of
                Inl e \<Rightarrow> (rewrap e, sy)
              | Inr _ \<Rightarrow>
                  (case stopMainStream sy of
                     (Inl e, sy) \<Rightarrow> (rewrap e, sy)
                   | (Inr _, sy) \<Rightarrow>
                       (Inr (cr_ok (map_entries [(''stream'', ''main''), (''state'', state_text sy),
                                                 (''command'', ''STOP_STREAM'')])), sy))) })"

definition handle_query_status :: "bool \<Rightarrow> 'w system \<Rightarrow> CommandResult Result" where
  "handle_query_status service sy =
     (if \<not> service then Error NotInitialized ''query-status handler service is null''
      else case queryFlatStatus sy of
        Inl e \<Rightarrow> rewrap e
      | Inr flat \<Rightarrow> Inr (cr_ok (flat(''command'' \<mapsto> ''QUERY_STATUS''))))"

fun handle_command ::
  "'w mode_world \<Rightarrow> clock \<Rightarrow> CommandHandler \<Rightarrow> Command \<Rightarrow> 'w system \<Rightarrow>
     (CommandResult Result \<times> 'w system) option" where
  "handle_command W clk (SetWorkModeHandler s) cmd sy = handle_set_mode W clk s cmd sy"
| "handle_command W clk (GetWorkModeHandler s) cmd sy = Some (handle_get_mode s sy, sy)"
| "handle_command W clk (StartStreamHandler s) cmd sy = Some (handle_start_stream s sy)"
| "handle_command W clk (StopStreamHandler s m) cmd sy = handle_stop_stream W s m sy"
| "handle_command W clk (QueryStatusHandler s) cmd sy = Some (handle_query_status s sy, sy)"

subsection \<open>CommandRouter.cpp\<close>

record CommandRouter =
  ro_handlers :: "CommandType \<rightharpoonup> CommandHandler"

definition new_router :: CommandRouter where
  "new_router = \<lparr>ro_handlers = Map.empty\<rparr>"

definition registerHandler :: "CommandHandler option \<Rightarrow> CommandRouter \<Rightarrow> unit Result \<times> CommandRouter" where
  "registerHandler handler ro =
     (case handler of
        None \<Rightarrow> (Error InvalidArgument ''command handler is null'', ro)
      | Some h \<Rightarrow>
          if handler_type h = CommandType.Unknown
          then (Error InvalidArgument ''cannot register unknown command handler'', ro)
          else (Success, ro\<lparr>ro_handlers := (ro_handlers ro)(handler_type h \<mapsto> h)\<rparr>))"

definition hasHandler :: "CommandType \<Rightarrow> CommandRouter \<Rightarrow> bool" where
  "hasHandler type ro \<longleftrightarrow> ro_handlers ro type \<noteq> None"

definition route ::
  "'w mode_world \<Rightarrow> clock \<Rightarrow> Command \<Rightarrow> CommandRouter \<Rightarrow> 'w system \<Rightarrow>
     (CommandResult Result \<times> 'w system) option" where
  "route W clk cmd ro sy =
     (if cmd_type cmd = CommandType.Unknown then Some (Error InvalidCommand ''unknown command type'', sy)
      else case ro_handlers ro (cmd_type cmd) of
        None \<Rightarrow> Some (Error Unsupported
                  (''no command handler registered: '' @ toString_CommandType (cmd_type cmd)), sy)
      | Some h \<Rightarrow> handle_command W clk h cmd sy)"

subsection \<open>DefaultCommandRegistry.cpp\<close>

record DefaultCommandServices =
  dc_modeService :: bool
  dc_streamService :: bool
  dc_mediaService :: bool
  dc_statusService :: bool

fun register_all :: "CommandHandler list \<Rightarrow> CommandRouter \<Rightarrow> unit Result \<times> CommandRouter" where
  "register_all [] ro = (Success, ro)"
| "register_all (h # hs) ro =
     (case registerHandler (Some h) ro of
        (Inl e, ro) \<Rightarrow> (Inl e, ro)
      | (Inr _, ro) \<Rightarrow> register_all hs ro)"

definition registerDefaultCommandHandlers ::
  "DefaultCommandServices \<Rightarrow> CommandRouter \<Rightarrow> unit Result \<times> CommandRouter" where
  "registerDefaultCommandHandlers services ro =
     (if \<not> dc_modeService services \<or> \<not> dc_streamService services \<or> \<not> dc_statusService services
      then (Error InvalidArgument ''default command services require mode, stream and status services'', ro)
      else register_all
        [SetWorkModeHandler (dc_modeService services), GetWorkModeHandler (dc_modeService services),
         StartStreamHandler (dc_streamService services),
         StopStreamHandler (dc_streamService services) (dc_mediaService services),
         QueryStatusHandler (dc_statusService services)] ro)"

subsection \<open>CommandBus.cpp\<close>

text \<open>The bus holds pointers to the router and, optionally, to the event bus.\<close>

record CommandBus =
  cb_router :: bool
  cb_eventBus :: bool
  cb_initialized :: bool
  cb_published :: "Event list"

definition new_command_bus :: CommandBus where
  "new_command_bus = \<lparr>cb_router = False, cb_eventBus = False, cb_initialized = False, cb_published = []\<rparr>"

definition cb_init :: "bool \<Rightarrow> bool \<Rightarrow> CommandBus \<Rightarrow> unit Result \<times> CommandBus" where
  "cb_init router eventBus cb =
     (if \<not> router then (Error InvalidArgument ''command router is null'', cb)
      else (Success, cb\<lparr>cb_router := router, cb_eventBus := eventBus, cb_initialized := True\<rparr>))"

definition command_error_event :: "Command \<Rightarrow> Status \<Rightarrow> Event" where
  "command_error_event cmd st =
     \<lparr>ev_type = ProtocolError, ev_name = ''command_error'',
      ev_fields = map_entries
        [(''command_id'', show_nat (unat (cmd_id cmd))),
         (''command_type'', toString_CommandType (cmd_type cmd)),
         (''source'', toString_CommandSource (cmd_source cmd)),
         (''error'', describe st)]\<rparr>"

definition publishProtocolError :: "Command \<Rightarrow> Status \<Rightarrow> CommandBus \<Rightarrow> CommandBus" where
  "publishProtocolError cmd st cb =
     (if \<not> cb_eventBus cb \<or> status_ok st then cb
      else cb\<lparr>cb_published := cb_published cb @ [command_error_event cmd st]\<rparr>)"

definition cb_submit ::
  "'w mode_world \<Rightarrow> clock \<Rightarrow> Command \<Rightarrow> CommandBus \<Rightarrow> CommandRouter \<Rightarrow> 'w system \<Rightarrow>
     (CommandResult Result \<times> CommandBus \<times> 'w system) option" where
  "cb_submit W clk cmd cb ro sy =
     (if \<not> cb_initialized cb \<or> \<not> cb_router cb
      then Some (Error NotInitialized ''command bus is not initialized'', cb, sy)
      else do { (ret, sy) \<leftarrow> route W clk cmd ro sy;
                Some (ret,
                      case ret of
                        Inl e \<Rightarrow> publishProtocolError cmd e cb
                      | Inr r \<Rightarrow> if \<not> status_ok (cr_status r) then publishProtocolError cmd (cr_status r) cb
                                 else cb,
                      sy) })"

subsection \<open>What the command plane guarantees\<close>

lemma default_handlers:
  "registerDefaultCommandHandlers services new_router = (Success, ro) \<Longrightarrow>
     ro_handlers ro = [QueryStatus \<mapsto> QueryStatusHandler True,
       StopStream \<mapsto> StopStreamHandler True (dc_mediaService services),
       StartStream \<mapsto> StartStreamHandler True, GetWorkMode \<mapsto> GetWorkModeHandler True,
       SetWorkMode \<mapsto> SetWorkModeHandler True]"
  by (auto simp: registerDefaultCommandHandlers_def registerHandler_def new_router_def split: if_splits)

lemma route_default:
  assumes "registerDefaultCommandHandlers services new_router = (Success, ro)"
  shows "route W clk cmd ro sy =
    (case cmd_type cmd of
       SetWorkMode \<Rightarrow> handle_set_mode W clk True cmd sy
     | GetWorkMode \<Rightarrow> Some (handle_get_mode True sy, sy)
     | StartStream \<Rightarrow> Some (handle_start_stream True sy)
     | StopStream \<Rightarrow> handle_stop_stream W True (dc_mediaService services) sy
     | QueryStatus \<Rightarrow> Some (handle_query_status True sy, sy)
     | CommandType.Unknown \<Rightarrow> Some (Error InvalidCommand ''unknown command type'', sy)
     | t \<Rightarrow> Some (Error Unsupported (''no command handler registered: '' @ toString_CommandType t), sy))"
  by (cases "cmd_type cmd") (simp_all add: route_def default_handlers[OF assms])

text \<open>A result that is not an error has been accepted, is in order and names the command.\<close>

definition good_answer :: "Command \<Rightarrow> CommandResult Result \<Rightarrow> bool" where
  "good_answer cmd ret \<longleftrightarrow>
     (case ret of
        Inl _ \<Rightarrow> True
      | Inr r \<Rightarrow> cr_accepted r \<and> status_ok (cr_status r) \<and>
          cr_fields r ''command'' = Some (toString_CommandType (cmd_type cmd)))"

lemma route_answer:
  assumes "registerDefaultCommandHandlers services new_router = (Success, ro)"
    and "route W clk cmd ro sy = Some (ret, sy')"
  shows "good_answer cmd ret"
  using assms(2)[unfolded route_default[OF assms(1)]]
  by (cases "cmd_type cmd")
    (auto simp: good_answer_def handle_set_mode_def handle_get_mode_def handle_start_stream_def
      handle_stop_stream_def handle_query_status_def cr_ok_def status_ok_def status_success_def rewrap_def Let_def
      elim!: bind_SomeE split: if_splits sum.split_asm prod.split_asm)

text \<open>
  Claim C12. A bus over the default handlers answers every command that returns: an answer that is no error has been
  accepted and names the command it answers; every error is announced exactly once, with the
  command's number, type and source and the text of the error; commands without a handler change
  nothing.
\<close>

theorem bus_answers:
  assumes "registerDefaultCommandHandlers services new_router = (Success, ro)"
    and "cb_submit W clk cmd cb ro sy = Some (ret, cb', sy')"
    and "cb_initialized cb" and "cb_router cb"
  shows "good_answer cmd ret \<and>
    cb_published cb' = cb_published cb @
      (case ret of
         Inl e \<Rightarrow> if cb_eventBus cb \<and> st_code e \<noteq> Ok then [command_error_event cmd e] else []
       | Inr _ \<Rightarrow> []) \<and>
    (cmd_type cmd = CommandType.Unknown \<or> cmd_type cmd = SetVideoParam \<or> cmd_type cmd = SetFusionParam \<longrightarrow>
       sy' = sy \<and> \<not> result_ok ret)"
proof -
  from assms(2-4) obtain "route W clk cmd ro sy = Some (ret, sy')"
    and cb': "cb' = (case ret of Inl e \<Rightarrow> publishProtocolError cmd e cb
       | Inr r \<Rightarrow> if \<not> status_ok (cr_status r) then publishProtocolError cmd (cr_status r) cb else cb)"
    by (auto simp: cb_submit_def elim!: bind_SomeE)
  note r = this(1) and good = route_answer[OF assms(1) this(1)]
  have "cb_published cb' = cb_published cb @
      (case ret of
         Inl e \<Rightarrow> if cb_eventBus cb \<and> st_code e \<noteq> Ok then [command_error_event cmd e] else []
       | Inr _ \<Rightarrow> [])"
    using good by (cases ret) (auto simp: cb' publishProtocolError_def status_ok_def good_answer_def)
  with good r show ?thesis by (auto simp: route_default[OF assms(1)])
qed

text \<open>
  Claim C11. A mode that was set is the mode that is read: when SET_WORK_MODE is accepted, with the mode under
  \<open>mode\<close> or \<open>work_mode\<close> in any spelling, the next GET_WORK_MODE answers the same mode's name, and
  the manager is in that mode.
\<close>

theorem set_mode_then_get:
  assumes "registerDefaultCommandHandlers services new_router = (Success, ro)"
    and "route W clk cmd ro sy = Some (Inr r, sy')" and "cmd_type cmd = SetWorkMode"
    and "cmd_type ask = GetWorkMode"
  shows "\<exists>m r2. route W clk2 ask ro sy' = Some (Inr r2, sy') \<and>
    m \<noteq> WorkMode.Unknown \<and> workModeFromString (the (cr_fields r2 ''work_mode'')) = m \<and>
    cr_fields r2 ''work_mode'' = cr_fields r ''work_mode'' \<and>
    (\<exists>text. (cmd_params cmd ''mode'' = Some text \<or> cmd_params cmd ''work_mode'' = Some text) \<and>
       workModeFromString text = m) \<and>
    abs_mode (sy_modes sy') = InMode m"
proof -
  let ?text = "if param cmd ''mode'' [] = [] then param cmd ''work_mode'' [] else param cmd ''mode'' []"
  define m where "m = workModeFromString ?text"
  from assms(2)[unfolded route_default[OF assms(1)]] assms(3)
  have nonempty: "?text \<noteq> []" and m: "m \<noteq> WorkMode.Unknown"
    and set: "setWorkMode W clk m sy = Some (Success, sy')"
    and r: "r = cr_ok (map_entries [(''work_mode'', toString_WorkMode m), (''command'', ''SET_WORK_MODE'')])"
    by (auto simp: handle_set_mode_def Let_def m_def rewrap_def elim!: bind_SomeE split: if_splits sum.split_asm)
  have spelled: "\<exists>text. (cmd_params cmd ''mode'' = Some text \<or> cmd_params cmd ''work_mode'' = Some text) \<and>
       workModeFromString text = m"
    using nonempty by (auto simp: m_def param_def split: option.splits if_splits)
  from set m obtain mm pl t0 t1 t2 where
    sw: "switchTo (mw_env W) (mw_serial W) (mw_skip W) t0 t1 t2 m (sy_modes sy) (sy_plant sy) = Some (Success, mm, pl)"
    and sy': "sy' = sy\<lparr>sy_modes := mm, sy_plant := pl\<rparr>" and ready: "msv_modeManager (sy_modeService sy)"
    by (auto simp: setWorkMode_def elim!: bind_SomeE split: if_splits prod.split_asm)
  from sw have mode: "sw_currentMode (mm_state mm) = m" "abs_mode mm = InMode m"
    by (cases rule: switchTo_cases; simp add: abs_mode_def)+
  have "route W clk2 ask ro sy' = Some (Inr (cr_ok (map_entries
      [(''work_mode'', toString_WorkMode m), (''command'', ''GET_WORK_MODE'')])), sy')"
    using ready assms(4) mode(1) by (simp add: route_default[OF assms(1)] handle_get_mode_def getWorkMode_def sy')
  with m r spelled mode(2) sy' show ?thesis
    by (auto simp: cr_ok_def work_mode_text.of_to)
qed

lemma ex_stop_none: "ex_stop env x pl = Some (x', pl') \<Longrightarrow> ex_pipeline x' = None"
  by (auto simp: ex_stop_def drop_pipeline_def elim!: bind_SomeE split: option.split_asm)

lemma start_stream_Inr:
  "handle_start_stream True sy = (Inr r, sy') \<Longrightarrow>
     sy' = set_rig (\<lambda>r. r\<lparr>rg_stream := ms_start (rg_stream r)\<rparr>) sy \<and>
     r = cr_ok (map_entries [(''stream'', ''main''), (''state'', ''RUNNING''), (''command'', ''START_STREAM'')])"
  by (auto simp: handle_start_stream_def startMainStream_def stream_call_def state_text_def ssv_state_def
      ms_start_def rewrap_def split: if_splits)

text \<open>
  Claim C13. STOP_STREAM followed by START_STREAM does not bring the video back: the answer says the stream is
  running, and it accepts frames, but the pipeline that filled it was destroyed by the first command
  and no pipeline is left, while the manager still names the old mode as the current one.
\<close>

theorem start_after_stop_has_no_source:
  assumes "registerDefaultCommandHandlers services new_router = (Success, ro)" and "dc_mediaService services"
    and "cmd_type stop = StopStream" and "route W clk stop ro sy = Some (Inr r1, sy1)"
    and "cmd_type start = StartStream" and "route W clk2 start ro sy1 = Some (Inr r2, sy2)"
  shows "cr_fields r2 ''state'' = Some ''RUNNING'' \<and> fst (ms_push f (rg_stream (sy_rig sy2))) = Success \<and>
    ex_pipeline (mm_executor (sy_modes sy2)) = None \<and>
    sw_currentMode (mm_state (sy_modes sy2)) = sw_currentMode (mm_state (sy_modes sy))"
proof -
  from assms(1-4) obtain sy0 where "stopCurrentPipeline W sy = Some (Success, sy0)"
    and s1: "sy_modes sy1 = sy_modes sy0"
    by (auto simp: route_default[OF assms(1)] handle_stop_stream_def stopCurrentPipeline_def stopMainStream_def
        stream_call_def rewrap_def elim!: bind_SomeE split: if_splits prod.split_asm sum.split_asm)
  then obtain mm pl where "mm_stop (mw_env W) (sy_modes sy) (sy_plant sy) = Some (mm, pl)" and "sy_modes sy1 = mm"
    by (auto simp: stopCurrentPipeline_def elim!: bind_SomeE split: if_splits)
  then obtain x where "ex_pipeline x = None" and "sy_modes sy1 =
      set_state (\<lambda>s. s\<lparr>sw_stage := Idle, sw_switching := False\<rparr>) ((sy_modes sy)\<lparr>mm_executor := x\<rparr>)"
    by (fastforce simp: mm_stop_def elim!: bind_SomeE dest: ex_stop_none)
  then have stopped: "ex_pipeline (mm_executor (sy_modes sy1)) = None"
    "sw_currentMode (mm_state (sy_modes sy1)) = sw_currentMode (mm_state (sy_modes sy))"
    by simp_all
  from assms(5,6) have "handle_start_stream True sy1 = (Inr r2, sy2)"
    by (simp add: route_default[OF assms(1)])
  from start_stream_Inr[OF this] stopped show ?thesis
    by (simp add: cr_ok_def ms_push_def ms_start_def Let_def)
qed

subsection \<open>A working system, for the witnesses\<close>

definition sim_services :: DefaultCommandServices where
  "sim_services =
     \<lparr>dc_modeService = True, dc_streamService = True, dc_mediaService = True, dc_statusService = True\<rparr>"

definition sim_router :: CommandRouter where
  "sim_router = snd (registerDefaultCommandHandlers sim_services new_router)"

definition sim_system :: "nat system" where
  "sim_system =
     \<lparr>sy_modes = ready_manager, sy_plant = sim_plant solo_manager,
      sy_modeService = \<lparr>msv_modeManager = True\<rparr>, sy_streamService = \<lparr>ssv_mainStream = True\<rparr>,
      sy_mediaService = \<lparr>dsv_modeManager = True\<rparr>, sy_deviceService = \<lparr>cv_cameraManager = True\<rparr>,
      sy_statusService = \<lparr>qs_runtime = \<lparr>sr_modeManager = True, sr_cameraManager = True,
        sr_compositeController = True, sr_mainStream = True\<rparr>, qs_protocolService = True, qs_initialized = True\<rparr>,
      sy_protocolService = new_protocol_service\<rparr>"

definition sim_bus :: CommandBus where
  "sim_bus = snd (cb_init True True new_command_bus)"

definition sim_command :: "CommandType \<Rightarrow> (string \<rightharpoonup> string) \<Rightarrow> Command" where
  "sim_command t ps = fst (makeCommand 0 t CommandSource.Internal ps [] 1)"

lemma sim_router_ok: "registerDefaultCommandHandlers sim_services new_router = (Success, sim_router)"
  by (simp add: sim_router_def registerDefaultCommandHandlers_def sim_services_def registerHandler_def new_router_def)

lemma sim_command_simps [simp]:
  "cmd_type (sim_command t ps) = t" "cmd_params (sim_command t ps) = ps"
  by (simp_all add: sim_command_def makeCommand_def nextCommandId_def)

lemma sim_bus_simps [simp]: "cb_initialized sim_bus" "cb_router sim_bus" "cb_eventBus sim_bus" "cb_published sim_bus = []"
  by (simp_all add: sim_bus_def cb_init_def new_command_bus_def)

theorem bus_answers_witness:
  "\<exists>e. cb_submit sim_world (0, 0, 0) (sim_command SetVideoParam Map.empty) sim_bus sim_router sim_system
       = Some (Inl e, sim_bus\<lparr>cb_published := [command_error_event (sim_command SetVideoParam Map.empty) e]\<rparr>, sim_system)
     \<and> st_code e = Unsupported"
proof -
  let ?cmd = "sim_command SetVideoParam Map.empty"
  obtain ret cb sy where s: "cb_submit sim_world (0, 0, 0) ?cmd sim_bus sim_router sim_system = Some (ret, cb, sy)"
    and ret: "ret = Error Unsupported (''no command handler registered: '' @ toString_CommandType SetVideoParam)"
    and cb: "cb = sim_bus\<lparr>cb_published := cb_published cb\<rparr>"
    by (simp add: cb_submit_def route_default[OF sim_router_ok] publishProtocolError_def status_ok_def)
  from bus_answers[OF sim_router_ok s] ret
  have "cb_published cb = [command_error_event ?cmd (status_error Unsupported
      (''no command handler registered: '' @ toString_CommandType SetVideoParam))]" "sy = sim_system"
    by simp_all
  with s ret cb show ?thesis by (metis st_status_error(1))
qed

lemma sim_spelling: "workModeFromString ''visible-only'' = WorkMode.VisibleOnly"
  by code_simp

lemma solo_set_mode:
  "\<exists>r sy. route sim_world (10, 20, 30) (sim_command SetWorkMode (Map.empty(''mode'' \<mapsto> ''visible-only''))) sim_router
     sim_system = Some (Inr r, sy)"
proof -
  obtain mm pl where "switchTo sim_env dead_port False 10 20 30 WorkMode.VisibleOnly ready_manager
      (sim_plant solo_manager) = Some (Success, mm, pl)" using solo_switch by blast
  then show ?thesis
    by (simp add: sim_spelling route_default[OF sim_router_ok] handle_set_mode_def param_def setWorkMode_def sim_world_def
        sim_system_def)
qed

theorem set_mode_then_get_witness:
  "\<exists>sy r. route sim_world (40, 50, 60) (sim_command GetWorkMode Map.empty) sim_router (sy :: nat system) = Some (Inr r, sy) \<and>
     abs_mode (sy_modes sy) = InMode WorkMode.VisibleOnly"
proof -
  obtain r sy where s: "route sim_world (10, 20, 30)
      (sim_command SetWorkMode (Map.empty(''mode'' \<mapsto> ''visible-only''))) sim_router sim_system = Some (Inr r, sy)"
    using solo_set_mode by blast
  from set_mode_then_get[OF sim_router_ok s, of "sim_command GetWorkMode Map.empty" "(40, 50, 60)"]
  show ?thesis by (auto simp: sim_spelling split: if_splits)
qed

lemma sim_stop:
  "\<exists>r sy. route sim_world (0, 0, 0) (sim_command StopStream Map.empty) sim_router sim_system = Some (Inr r, sy) \<and>
     ssv_mainStream (sy_streamService sy)"
  by (simp add: route_default[OF sim_router_ok] handle_stop_stream_def stopCurrentPipeline_def stopMainStream_def
      stream_call_def sim_services_def sim_system_def mm_stop_def ex_stop_def ready_manager_eq new_executor_def)

theorem start_after_stop_has_no_source_witness:
  "\<exists>r sy. route sim_world (0, 0, 0) (sim_command StartStream Map.empty) sim_router (sy :: nat system) = Some r \<and>
     ex_pipeline (mm_executor (sy_modes (snd r))) = None \<and>
     ms_state (rg_stream (sy_rig (snd r))) = StreamRunning"
proof -
  obtain r sy where s: "route sim_world (0, 0, 0) (sim_command StopStream Map.empty) sim_router sim_system = Some (Inr r, sy)"
    and ready: "ssv_mainStream (sy_streamService sy)" using sim_stop by blast
  obtain r2 sy2 where t: "route sim_world (0, 0, 0) (sim_command StartStream Map.empty) sim_router sy = Some (Inr r2, sy2)"
    using ready by (simp add: route_default[OF sim_router_ok] handle_start_stream_def startMainStream_def stream_call_def)
  have "dc_mediaService sim_services" by (simp add: sim_services_def)
  from start_after_stop_has_no_source[OF sim_router_ok this _ s _ t, of default_encoded_frame] t
  show ?thesis by (intro exI[of _ "(Inr r2, sy2)"] exI[of _ sy]) (auto simp: ms_push_def split: if_splits)
qed

end
