(* ===== verification/Tri_Sockets.thy ===== *)
theory Tri_Sockets
  imports Tri_Utils
begin

text \<open>
  The TCP sockets of the protocol servers: the system calls they make, a parameter of the model; the
  loop that sends a whole buffer, which both servers have (RtspServer::sendAll and the loop at the
  end of PrivateControlServer::handleClient) and which the MPEG-TS publisher uses on its pipe; and what
  it puts on the wire when the sockets are faithful.
\<close>

text \<open>A failed call carries \<open>strerror(errno)\<close>. A receive delivers at most the characters asked for and
  none when it fails or the peer is gone; a send accepts some of the bytes, none when it fails.\<close>

record 'w sockets =
  sk_socket :: "'w \<Rightarrow> (string + int) \<times> 'w"
  sk_reuse :: "int \<Rightarrow> 'w \<Rightarrow> 'w"
  sk_aton :: "string \<Rightarrow> bool"
  sk_bind :: "int \<Rightarrow> string option \<Rightarrow> u16 \<Rightarrow> 'w \<Rightarrow> string option \<times> 'w"
  sk_listen :: "int \<Rightarrow> int \<Rightarrow> 'w \<Rightarrow> string option \<times> 'w"
  sk_accept :: "int \<Rightarrow> 'w \<Rightarrow> (string + int) \<times> 'w"
  sk_close :: "int \<Rightarrow> 'w \<Rightarrow> 'w"
  sk_shutdown :: "int \<Rightarrow> 'w \<Rightarrow> 'w"
  sk_recv :: "int \<Rightarrow> nat \<Rightarrow> 'w \<Rightarrow> string \<times> 'w"
  sk_send :: "int \<Rightarrow> bytes \<Rightarrow> 'w \<Rightarrow> nat \<times> 'w"

definition CRLF :: string where
  "CRLF = [CHR 0x0D, CHR 0x0A]"

definition text_bytes :: "string \<Rightarrow> bytes" where
  "text_bytes s = map (\<lambda>c. of_nat (chr_code c)) s"

text \<open>Writing a whole buffer with a call that takes some of it and returns how much, none when it fails.\<close>

function send_loop :: "(bytes \<Rightarrow> 'w \<Rightarrow> nat \<times> 'w) \<Rightarrow> bytes \<Rightarrow> 'w \<Rightarrow> bool \<times> 'w" where
  "send_loop send data w =
     (if data = [] then (True, w)
      else case send data w of
        (n, w) \<Rightarrow> if n = 0 then (False, w) else send_loop send (drop n data) w)"
  by pat_completeness auto
termination
  by (relation "measure (\<lambda>(send, data, w). length data)") auto

declare send_loop.simps [simp del]

definition sendAll :: "'w sockets \<Rightarrow> int \<Rightarrow> bytes \<Rightarrow> 'w \<Rightarrow> bool \<times> 'w" where
  "sendAll sk fd data w = send_loop (sk_send sk fd) data w"

definition sendText :: "'w sockets \<Rightarrow> int \<Rightarrow> string \<Rightarrow> 'w \<Rightarrow> bool \<times> 'w" where
  "sendText sk fd s w = sendAll sk fd (text_bytes s) w"

subsection \<open>Faithful links\<close>

text \<open>What has been written to a link, \<open>wire w\<close>, grows by exactly the bytes a call accepts.\<close>

definition faithful_send :: "(bytes \<Rightarrow> 'w \<Rightarrow> nat \<times> 'w) \<Rightarrow> ('w \<Rightarrow> bytes) \<Rightarrow> bool" where
  "faithful_send send wire \<longleftrightarrow>
     (\<forall>data w n w'. send data w = (n, w') \<longrightarrow> n \<le> length data \<and> wire w' = wire w @ take n data)"

definition faithful_link :: "'w sockets \<Rightarrow> int \<Rightarrow> ('w \<Rightarrow> bytes) \<Rightarrow> bool" where
  "faithful_link sk fd wire \<longleftrightarrow> faithful_send (sk_send sk fd) wire"

text \<open>A complete send puts the buffer on the wire, a failed one a prefix of it.\<close>

lemma send_loop_wire:
  assumes "faithful_send send wire" "send_loop send data w = (ok, w')"
  shows "\<exists>sent rest. data = sent @ rest \<and> wire w' = wire w @ sent \<and> (ok \<longrightarrow> rest = [])"
  using assms
proof (induction send data w rule: send_loop.induct)
  case (1 send data w)
  obtain n w1 where send: "send data w = (n, w1)" by fastforce
  from 1(2) send have n: "wire w1 = wire w @ take n data" by (auto simp: faithful_send_def)
  show ?case
  proof (cases "data = [] \<or> n = 0")
    case True
    with 1(3) send n show ?thesis by (subst (asm) send_loop.simps) (auto split: if_splits)
  next
    case False
    with 1(3) send have rest: "send_loop send (drop n data) w1 = (ok, w')"
      by (subst (asm) send_loop.simps) simp
    from 1(1)[OF _ send[symmetric] _ 1(2) rest] False obtain sent rest
      where "drop n data = sent @ rest" "wire w' = wire w1 @ sent" "ok \<longrightarrow> rest = []" by auto
    with n have "data = (take n data @ sent) @ rest \<and> wire w' = wire w @ (take n data @ sent) \<and> (ok \<longrightarrow> rest = [])"
      by (metis append.assoc append_take_drop_id)
    then show ?thesis by blast
  qed
qed

lemma sendAll_complete:
  assumes "faithful_link sk fd wire" "sendAll sk fd data w = (True, w')"
  shows "wire w' = wire w @ data"
  using send_loop_wire[OF assms[unfolded faithful_link_def sendAll_def]] by auto

end
