(* ===== verification/Tri_RtpJpeg.thy ===== *)
theory Tri_RtpJpeg
  imports Tri_Frames Tri_Sockets
begin

text \<open>
  The delivery of an MJPEG frame by the RTSP server (protocol/rtsp/RtspServer.cpp): the parser that
  takes a JPEG image apart, the RTP packets of RFC 2435 and their framing on the RTSP connection; and
  the receiver of that RFC, with which the round trip is stated.
\<close>

subsection \<open>Taking a JPEG image apart\<close>

text \<open>The parser reads the buffer through \<open>rd\<close> and \<open>sub_bytes\<close>, which are \<open>None\<close> beyond its end: an outer
  \<open>None\<close> is an access out of bounds. Its verdict is the inner option.\<close>

record JpegRtpInfo =
  jr_width :: u16
  jr_height :: u16
  jr_type :: u8
  jr_quantTables :: bytes
  jr_scanData :: bytes

definition default_jpeg_info :: JpegRtpInfo where
  "default_jpeg_info =
     \<lparr>jr_width = 800, jr_height = 600, jr_type = 1, jr_quantTables = [], jr_scanData = []\<rparr>"

definition rd :: "bytes \<Rightarrow> nat \<Rightarrow> u8 option" where
  "rd b i = (if i < length b then Some (b ! i) else None)"

definition sub_bytes :: "bytes \<Rightarrow> nat \<Rightarrow> nat \<Rightarrow> bytes option" where
  "sub_bytes b i n = (if i + n \<le> length b then Some (take n (drop i b)) else None)"

text \<open>The tables of a DQT segment; only 8-bit tables are taken.\<close>

function dqt_loop :: "bytes \<Rightarrow> nat \<Rightarrow> nat \<Rightarrow> bytes \<Rightarrow> bytes option option" where
  "dqt_loop b qpos qend tables =
     (if qend \<le> qpos then Some (Some tables)
      else do {
        pqTq \<leftarrow> rd b qpos;
        if (drop_bit 4 pqTq AND 0x0f) \<noteq> 0 then Some None
        else if qend < qpos + 1 + 64 then Some None
        else do { t \<leftarrow> sub_bytes b (qpos + 1) 64; dqt_loop b (qpos + 65) qend (tables @ t) } })"
  by pat_completeness auto
termination
  by (relation "measure (\<lambda>(b, qpos, qend, tables). qend - qpos)") auto

declare dqt_loop.simps [simp del]

text \<open>The size and sampling of a baseline frame header.\<close>

definition read_sof0 :: "bytes \<Rightarrow> nat \<Rightarrow> nat \<Rightarrow> JpegRtpInfo \<Rightarrow> JpegRtpInfo option option" where
  "read_sof0 b segData segDataLen info =
     (if segDataLen < 8 then Some None
      else do {
        precision \<leftarrow> rd b segData;
        if precision \<noteq> 8 then Some None
        else do {
          h1 \<leftarrow> rd b (segData + 1); h0 \<leftarrow> rd b (segData + 2);
          w1 \<leftarrow> rd b (segData + 3); w0 \<leftarrow> rd b (segData + 4);
          components \<leftarrow> rd b (segData + 5);
          let info = info\<lparr>jr_height := be16 h1 h0, jr_width := be16 w1 w0\<rparr>;
          if 3 \<le> components \<and> 15 \<le> segDataLen
          then do {
            ySampling \<leftarrow> rd b (segData + 7);
            Some (Some (info\<lparr>jr_type := (if (drop_bit 4 ySampling AND 0x0f) = 2 \<and> (ySampling AND 0x0f) = 2
                                         then 0 else 1)\<rparr>)) }
          else Some (Some info) } })"

definition read_segment :: "bytes \<Rightarrow> u8 \<Rightarrow> nat \<Rightarrow> nat \<Rightarrow> JpegRtpInfo \<Rightarrow> JpegRtpInfo option option" where
  "read_segment b marker segData segDataLen info =
     (if marker = 0xdb
      then do { t \<leftarrow> dqt_loop b segData (segData + segDataLen) (jr_quantTables info);
                Some (case t of None \<Rightarrow> None | Some ts \<Rightarrow> Some (info\<lparr>jr_quantTables := ts\<rparr>)) }
      else if marker = 0xc0 then read_sof0 b segData segDataLen info
      else Some (Some info))"

text \<open>The end of the scan: the first EOI marker, or the end of the buffer. Both scans read through
  rd, so that an index past the end would make them, and the parser, None.\<close>

function find_eoi :: "bytes \<Rightarrow> nat \<Rightarrow> nat option" where
  "find_eoi b i =
     (if i + 1 < length b
      then do {
        x \<leftarrow> rd b i;
        if x = 0xff
        then do { y \<leftarrow> rd b (i + 1); if y = 0xd9 then Some i else find_eoi b (i + 1) }
        else find_eoi b (i + 1) }
      else Some (length b))"
  by pat_completeness auto
termination
  by (relation "measure (\<lambda>(b, i). length b - i)") auto

declare find_eoi.simps [simp del]

function skip_ff :: "bytes \<Rightarrow> nat \<Rightarrow> nat option" where
  "skip_ff b pos =
     (if pos < length b
      then do { x \<leftarrow> rd b pos; if x = 0xff then skip_ff b (pos + 1) else Some pos }
      else Some pos)"
  by pat_completeness auto
termination
  by (relation "measure (\<lambda>(b, pos). length b - pos)") auto

declare skip_ff.simps [simp del]

lemma skip_ff_ge: "skip_ff b pos = Some p \<Longrightarrow> pos \<le> p"
proof (induction b pos rule: skip_ff.induct)
  case (1 b pos)
  from 1(2) show ?case
    by (subst (asm) skip_ff.simps)
      (auto split: if_splits bind_splits dest!: 1(1))
qed

text \<open>What the code knows when it leaves the loop: where the scan starts (0 when none was found) and
  ends, and the header fields.\<close>

type_synonym jpeg_scan = "nat \<times> nat \<times> JpegRtpInfo"

function jpeg_loop :: "bytes \<Rightarrow> nat \<Rightarrow> JpegRtpInfo \<Rightarrow> jpeg_scan option option" where
  "jpeg_loop b pos info =
     (if length b < pos + 4 then Some (Some (0, length b, info))
      else do {
        x \<leftarrow> rd b pos;
        if x \<noteq> 0xff then jpeg_loop b (pos + 1) info
        else do {
          p \<leftarrow> skip_ff b pos;
          if length b \<le> p then Some (Some (0, length b, info))
          else do {
            marker \<leftarrow> rd b p;
            if marker = 0xd9 then Some (Some (0, length b, info))
            else if marker = 0x01 \<or> (0xd0 \<le> marker \<and> marker \<le> 0xd7) then jpeg_loop b (p + 1) info
            else if length b < p + 1 + 2 then Some None
            else do {
              s1 \<leftarrow> rd b (p + 1); s0 \<leftarrow> rd b (p + 2);
              let segLen = unat (be16 s1 s0);
              if segLen < 2 \<or> length b < p + 1 + segLen then Some None
              else do {
                r \<leftarrow> read_segment b marker (p + 1 + 2) (segLen - 2) info;
                (case r of
                   None \<Rightarrow> Some None
                 | Some info \<Rightarrow>
                     if marker = 0xda
                     then do { e \<leftarrow> find_eoi b (p + 1 + segLen);
                               Some (Some (p + 1 + segLen, e, info)) }
                     else jpeg_loop b (p + 1 + segLen) info) } } } } })"
  by pat_completeness auto
termination
proof (relation "measure (\<lambda>(b, pos, info). length b - pos)", goal_cases)
  case (3 b pos info x p xa)
  with skip_ff_ge[of b pos] show ?case by auto
next
  case (4 b pos info x p xa xb xc xd xe xf)
  with skip_ff_ge[of b pos] show ?case by auto
qed auto

declare jpeg_loop.simps [simp del]

definition parseJpegForRtp :: "bytes \<Rightarrow> JpegRtpInfo option option" where
  "parseJpegForRtp jpeg =
     (if length jpeg < 16 then Some None
      else do {
        b0 \<leftarrow> rd jpeg 0; b1 \<leftarrow> rd jpeg 1;
        if b0 \<noteq> 0xff \<or> b1 \<noteq> 0xd8 then Some None
        else do {
          r \<leftarrow> jpeg_loop jpeg 2 default_jpeg_info;
          (case r of
             None \<Rightarrow> Some None
           | Some (scanStart, scanEnd, info) \<Rightarrow>
               if scanStart = 0 \<or> length jpeg \<le> scanStart \<or> scanEnd \<le> scanStart then Some None
               else if jr_width info = 0 \<or> jr_height info = 0 then Some None
               else do { scan \<leftarrow> sub_bytes jpeg scanStart (scanEnd - scanStart);
                         Some (Some (info\<lparr>jr_scanData := scan\<rparr>)) }) } })"

subsection \<open>The parser stays within the buffer\<close>

lemma rd_inside [simp]: "i < length b \<Longrightarrow> rd b i = Some (b ! i)"
  by (simp add: rd_def)

lemma sub_bytes_inside [simp]: "i + n \<le> length b \<Longrightarrow> sub_bytes b i n = Some (take n (drop i b))"
  by (simp add: sub_bytes_def)

text \<open>The two scans return, and what they find: the first byte that is not 0xff, and the least place of an
  EOI marker.\<close>

lemma skip_ff_returns: "\<exists>p. skip_ff b pos = Some p"
proof (induction b pos rule: skip_ff.induct)
  case (1 b pos)
  show ?case
  proof (cases "pos < length b")
    case True
    then have "rd b pos = Some (b ! pos)" by simp
    with True 1[OF True] show ?thesis by (subst skip_ff.simps) auto
  next
    case False
    then show ?thesis by (subst skip_ff.simps) simp
  qed
qed

lemma find_eoi_least:
  assumes "i \<le> length b"
  shows "\<exists>e. find_eoi b i = Some e \<and> i \<le> e \<and> e \<le> length b \<and>
    (\<forall>j. i \<le> j \<and> j + 1 < e \<longrightarrow> \<not> (b ! j = 0xff \<and> b ! (j + 1) = 0xd9)) \<and>
    (e < length b \<longrightarrow> take 2 (drop e b) = [0xff, 0xd9])"
  using assms
proof (induction "length b - i" arbitrary: i)
  case 0
  then have "find_eoi b i = Some (length b)" by (subst find_eoi.simps) simp
  with 0 show ?case by auto
next
  case (Suc n)
  show ?case
  proof (cases "i + 1 < length b")
    case False
    then have "find_eoi b i = Some (length b)" by (subst find_eoi.simps) simp
    with False Suc.prems show ?thesis by auto
  next
    case inside: True
    show ?thesis
    proof (cases "b ! i = 0xff \<and> b ! (i + 1) = 0xd9")
      case True
      with inside have eq: "find_eoi b i = Some i" by (subst find_eoi.simps) simp
      have "take 2 (drop i b) = [b ! i, b ! (i + 1)]"
        using inside by (simp add: Cons_nth_drop_Suc[symmetric] numeral_2_eq_2)
      with True inside eq show ?thesis by auto
    next
      case False
      with inside have eq: "find_eoi b i = find_eoi b (i + 1)" by (subst find_eoi.simps) auto
      from Suc(2) have "n = length b - (i + 1)" by simp
      from Suc(1)[OF this] inside obtain e where e: "find_eoi b (i + 1) = Some e" "i + 1 \<le> e" "e \<le> length b"
        and none: "\<And>j. i + 1 \<le> j \<Longrightarrow> j + 1 < e \<Longrightarrow> \<not> (b ! j = 0xff \<and> b ! (j + 1) = 0xd9)"
        and eoi: "e < length b \<Longrightarrow> take 2 (drop e b) = [0xff, 0xd9]" by auto
      have "\<not> (b ! j = 0xff \<and> b ! (j + 1) = 0xd9)" if "i \<le> j" "j + 1 < e" for j
        using that none[of j] False by (cases "j = i") auto
      with e eoi eq show ?thesis by auto
    qed
  qed
qed

text \<open>The tables come in pieces of 64 bytes.\<close>

lemma dqt_loop_safe:
  assumes "qend \<le> length b" "64 dvd length tables"
  shows "\<exists>r. dqt_loop b qpos qend tables = Some r \<and> (\<forall>ts. r = Some ts \<longrightarrow> 64 dvd length ts)"
  using assms
proof (induction b qpos qend tables rule: dqt_loop.induct)
  case (1 b qpos qend tables)
  show ?case
  proof (cases "qpos < qend \<and> (drop_bit 4 (b ! qpos) AND 0x0f) = 0 \<and> \<not> qend < qpos + 1 + 64")
    case False
    with 1 show ?thesis by (subst dqt_loop.simps) auto
  next
    case True
    with 1(2) have "qpos < length b" "qpos + 1 + 64 \<le> length b" by simp_all
    with 1(1)[of "b ! qpos" "take 64 (drop (qpos + 1) b)"] 1(2,3) True
    show ?thesis by (subst dqt_loop.simps) simp
  qed
qed

definition tables_ok :: "JpegRtpInfo \<Rightarrow> bool" where
  "tables_ok info \<longleftrightarrow> 64 dvd length (jr_quantTables info)"

lemma read_sof0_safe:
  assumes "segData + segDataLen \<le> length b"
  shows "\<exists>r. read_sof0 b segData segDataLen info = Some r \<and>
    (\<forall>i. r = Some i \<longrightarrow> jr_quantTables i = jr_quantTables info)"
  using assms by (simp add: read_sof0_def Let_def)

lemma read_segment_safe:
  assumes "segData + segDataLen \<le> length b" "tables_ok info"
  shows "\<exists>r. read_segment b marker segData segDataLen info = Some r \<and> (\<forall>i. r = Some i \<longrightarrow> tables_ok i)"
proof (cases "marker = 0xdb")
  case True
  from dqt_loop_safe[OF assms(1), of "jr_quantTables info" segData] assms(2) obtain t
    where "dqt_loop b segData (segData + segDataLen) (jr_quantTables info) = Some t"
      and "\<forall>ts. t = Some ts \<longrightarrow> 64 dvd length ts" by (auto simp: tables_ok_def)
  with True show ?thesis by (cases t) (simp_all add: read_segment_def tables_ok_def)
next
  case False
  from read_sof0_safe[OF assms(1), of info] assms(2) False show ?thesis
    by (auto simp: read_segment_def tables_ok_def)
qed

lemma jpeg_loop_safe:
  assumes "tables_ok info"
  shows "\<exists>r. jpeg_loop b pos info = Some r \<and>
    (\<forall>s e i. r = Some (s, e, i) \<longrightarrow> tables_ok i \<and> s \<le> length b \<and> (s = 0 \<or> find_eoi b s = Some e))"
  using assms
proof (induction b pos info rule: jpeg_loop.induct)
  case (1 b pos info)
  show ?case
  proof (cases "length b < pos + 4")
    case True
    with 1 show ?thesis by (subst jpeg_loop.simps) simp
  next
    case inside: False
    then have pos: "rd b pos = Some (b ! pos)" by simp
    show ?thesis
    proof (cases "b ! pos = 0xff")
      case False
      with inside pos 1(1)[OF inside pos False 1(4)] show ?thesis by (subst jpeg_loop.simps) simp
    next
      case ff: True
      from skip_ff_returns obtain p where p: "skip_ff b pos = Some p" by blast
      define m where "m = b ! p"
      define n where "n = unat (be16 (b ! (p + 1)) (b ! (p + 2)))"
      show ?thesis
      proof (cases "length b \<le> p \<or> m = 0xd9")
        case True
        with inside ff pos 1(4) show ?thesis
          by (subst jpeg_loop.simps) (auto simp: p m_def Let_def)
      next
        case more: False
        then have rm: "rd b p = Some m" by (simp add: m_def)
        show ?thesis
        proof (cases "m = 0x01 \<or> (0xd0 \<le> m \<and> m \<le> 0xd7)")
          case True
          with 1(2)[OF inside pos _ p _ rm _ _ 1(4)] ff more
          show ?thesis by (subst jpeg_loop.simps) (simp add: inside pos ff p rm)
        next
          case seg: False
          show ?thesis
          proof (cases "length b < p + 1 + 2 \<or> n < 2 \<or> length b < p + 1 + n")
            case True
            then show ?thesis using more seg
              by (subst jpeg_loop.simps) (auto simp: inside pos ff p rm n_def Let_def)
          next
            case fits: False
            then have r1: "rd b (p + 1) = Some (b ! (p + 1))" and r2: "rd b (p + 2) = Some (b ! (p + 2))"
              by simp_all
            from fits have "p + 1 + 2 + (n - 2) \<le> length b" by arith
            from read_segment_safe[OF this 1(4), of m] obtain r
              where r: "read_segment b m (p + 1 + 2) (n - 2) info = Some r"
                and ok: "\<forall>i. r = Some i \<longrightarrow> tables_ok i" by blast
            from find_eoi_least[of "p + 1 + n" b] fits obtain e where e: "find_eoi b (p + 1 + n) = Some e" by auto
            have n: "unat (be16 (b ! Suc p) (b ! Suc (Suc p))) = n" by (simp add: n_def)
            have step: "jpeg_loop b pos info =
                (case r of None \<Rightarrow> Some None
                 | Some i \<Rightarrow> if m = 0xda then Some (Some (p + 1 + n, e, i))
                             else jpeg_loop b (p + 1 + n) i)"
              using more seg fits r r1 r2 e
              by (subst jpeg_loop.simps)
                (auto simp: inside pos ff p rm n Let_def split: option.split)
            show ?thesis
            proof (cases r)
              case None
              with step show ?thesis by simp
            next
              case (Some i)
              show ?thesis
              proof (cases "m = 0xda")
                case True
                with step Some ok fits e show ?thesis by simp
              next
                case False
                have "\<exists>r. jpeg_loop b (p + 1 + n) i = Some r \<and>
                  (\<forall>s e i. r = Some (s, e, i) \<longrightarrow> tables_ok i \<and> s \<le> length b \<and> (s = 0 \<or> find_eoi b s = Some e))"
                  using 1(3)[OF inside pos _ p _ rm _ _ _ r1 r2 n_def _ r _ False] ff more seg fits ok Some
                  by auto
                with step Some False show ?thesis by simp
              qed
            qed
          qed
        qed
      qed
    qed
  qed
qed

text \<open>
  Claim C30. Taking a JPEG image apart never reads outside of the buffer, whatever the buffer holds.
  When it succeeds, the quantisation tables come in pieces of 64 bytes, the width and the height are
  not zero, and the scan is a non-empty piece of the image that ends before its first EOI marker or at
  its end.\<close>

theorem jpeg_parse_safe:
  "\<exists>r. parseJpegForRtp jpeg = Some r \<and>
     (r = None \<or>
      (\<exists>info pre post. r = Some info \<and> jpeg = pre @ jr_scanData info @ post \<and>
         jr_scanData info \<noteq> [] \<and> 64 dvd length (jr_quantTables info) \<and>
         jr_width info \<noteq> 0 \<and> jr_height info \<noteq> 0 \<and>
         (post = [] \<or> take 2 post = [0xff, 0xd9]) \<and>
         \<not> (\<exists>j. j + 1 < length (jr_scanData info) \<and>
              jr_scanData info ! j = 0xff \<and> jr_scanData info ! (j + 1) = 0xd9)))"
proof (cases "length jpeg < 16 \<or> jpeg ! 0 \<noteq> 0xff \<or> jpeg ! 1 \<noteq> 0xd8")
  case True
  have "parseJpegForRtp jpeg = Some None"
  proof (cases "length jpeg < 16")
    case False
    then have "rd jpeg 0 = Some (jpeg ! 0)" "rd jpeg 1 = Some (jpeg ! 1)" by (auto simp: rd_def)
    with True False show ?thesis by (simp add: parseJpegForRtp_def)
  qed (simp add: parseJpegForRtp_def)
  then show ?thesis by simp
next
  case False
  then have len: "\<not> length jpeg < 16" and soi: "rd jpeg 0 = Some 0xff" "rd jpeg 1 = Some 0xd8"
    by (auto simp: rd_def)
  have "tables_ok default_jpeg_info" by (simp add: tables_ok_def default_jpeg_info_def)
  from jpeg_loop_safe[OF this, of jpeg 2] obtain r where r: "jpeg_loop jpeg 2 default_jpeg_info = Some r"
    and ok: "\<forall>s e i. r = Some (s, e, i) \<longrightarrow> tables_ok i \<and> s \<le> length jpeg \<and> (s = 0 \<or> find_eoi jpeg s = Some e)"
    by blast
  show ?thesis
  proof (cases r)
    case None
    with len soi r show ?thesis by (simp add: parseJpegForRtp_def)
  next
    case (Some t)
    obtain s e i where t: "t = (s, e, i)" by (cases t)
    show ?thesis
    proof (cases "s = 0 \<or> length jpeg \<le> s \<or> e \<le> s \<or> jr_width i = 0 \<or> jr_height i = 0")
      case True
      with len soi r Some t show ?thesis by (auto simp: parseJpegForRtp_def)
    next
      case good: False
      with ok Some t have e: "find_eoi jpeg s = Some e" and tables: "tables_ok i" by auto
      from good have "s \<le> length jpeg" by simp
      from find_eoi_least[OF this] e have bounds: "s \<le> e" "e \<le> length jpeg"
        and none: "\<And>j. s \<le> j \<Longrightarrow> j + 1 < e \<Longrightarrow> \<not> (jpeg ! j = 0xff \<and> jpeg ! (j + 1) = 0xd9)"
        and eoi: "e < length jpeg \<Longrightarrow> take 2 (drop e jpeg) = [0xff, 0xd9]"
        by auto
      define scan where "scan = take (e - s) (drop s jpeg)"
      have parse: "parseJpegForRtp jpeg = Some (Some (i\<lparr>jr_scanData := scan\<rparr>))"
        using len soi r Some t good bounds by (simp add: parseJpegForRtp_def scan_def)
      have "jpeg = take s jpeg @ scan @ drop e jpeg"
        using bounds append_take_drop_id[of s jpeg] append_take_drop_id[of "e - s" "drop s jpeg"]
        by (simp add: scan_def)
      moreover have "scan \<noteq> []" using good bounds by (simp add: scan_def)
      moreover have "drop e jpeg = [] \<or> take 2 (drop e jpeg) = [0xff, 0xd9]"
        using eoi by fastforce
      moreover have "\<not> (\<exists>j. j + 1 < length scan \<and> scan ! j = 0xff \<and> scan ! (j + 1) = 0xd9)"
        using none bounds by (auto simp: scan_def add.commute)
      ultimately have parts: "jpeg = take s jpeg @ jr_scanData (i\<lparr>jr_scanData := scan\<rparr>) @ drop e jpeg"
        and "scan \<noteq> []" "drop e jpeg = [] \<or> take 2 (drop e jpeg) = [0xff, 0xd9]"
        and "\<not> (\<exists>j. j + 1 < length scan \<and> scan ! j = 0xff \<and> scan ! (j + 1) = 0xd9)" by simp_all
      with parts good tables show ?thesis
        by (rule_tac x = "Some (i\<lparr>jr_scanData := scan\<rparr>)" in exI, intro conjI [OF parse] disjI2,
            rule_tac x = "i\<lparr>jr_scanData := scan\<rparr>" in exI, rule_tac x = "take s jpeg" in exI,
            rule_tac x = "drop e jpeg" in exI) (simp add: tables_ok_def)
    qed
  qed
qed

subsection \<open>The packets of a frame\<close>

text \<open>Milliseconds to the 90 kHz clock of RTP: 64-bit arithmetic, cut to 32 bits.\<close>

definition rtpTimestampFromPtsMs :: "int \<Rightarrow> u32" where
  "rtpTimestampFromPtsMs ptsMs =
     ucast ((word_of_int (max ptsMs 0) :: u64) * 90000 div 1000)"

definition writeBe16 :: "u16 \<Rightarrow> bytes" where
  "writeBe16 v = [ucast (drop_bit 8 v AND 0xff), ucast (v AND 0xff)]"

definition writeBe24 :: "u32 \<Rightarrow> bytes" where
  "writeBe24 v = [ucast (drop_bit 16 v AND 0xff), ucast (drop_bit 8 v AND 0xff), ucast (v AND 0xff)]"

definition writeBe32 :: "u32 \<Rightarrow> bytes" where
  "writeBe32 v =
     [ucast (drop_bit 24 v AND 0xff), ucast (drop_bit 16 v AND 0xff), ucast (drop_bit 8 v AND 0xff),
      ucast (v AND 0xff)]"

definition kRtpVersion :: u8 where
  "kRtpVersion = 2"

definition kRtpPayloadJpeg :: u8 where
  "kRtpPayloadJpeg = 26"

definition kMaxPacket :: nat where
  "kMaxPacket = 1400"

definition rtp_header :: "bool \<Rightarrow> u16 \<Rightarrow> u32 \<Rightarrow> u32 \<Rightarrow> bytes" where
  "rtp_header marker seq ts ssrc =
     [push_bit 6 kRtpVersion, (if marker then 0x80 else 0x00) OR kRtpPayloadJpeg] @
     writeBe16 seq @ writeBe32 ts @ writeBe32 ssrc"

definition jpeg_header :: "JpegRtpInfo \<Rightarrow> bool \<Rightarrow> nat \<Rightarrow> bytes" where
  "jpeg_header info withQtable offset =
     [0x00] @ writeBe24 (of_nat offset) @
     [jr_type info, (if withQtable then 128 else 75), ucast (jr_width info div 8), ucast (jr_height info div 8)]"

definition qtable_header :: "JpegRtpInfo \<Rightarrow> bool \<Rightarrow> bytes" where
  "qtable_header info withQtable =
     (if withQtable
      then [0x00, 0x00] @ writeBe16 (of_nat (length (jr_quantTables info))) @ jr_quantTables info
      else [])"

definition fixed_len :: "JpegRtpInfo \<Rightarrow> bool \<Rightarrow> nat" where
  "fixed_len info withQtable = 12 + 8 + (if withQtable then 4 + length (jr_quantTables info) else 0)"

definition tcp_header :: "nat \<Rightarrow> bytes" where
  "tcp_header n = [0x24, 0] @ writeBe16 (of_nat n)"

definition scan_chunk :: "JpegRtpInfo \<Rightarrow> bool \<Rightarrow> nat \<Rightarrow> nat" where
  "scan_chunk info withQtable offset =
     (let maxScanPayload = kMaxPacket - fixed_len info withQtable;
          remain = length (jr_scanData info) - offset
      in if maxScanPayload < remain then maxScanPayload else remain)"

definition rtp_packet :: "JpegRtpInfo \<Rightarrow> u32 \<Rightarrow> u32 \<Rightarrow> nat \<Rightarrow> bool \<Rightarrow> u16 \<Rightarrow> bytes" where
  "rtp_packet info ts ssrc offset withQtable seq =
     (let chunk = scan_chunk info withQtable offset in
      rtp_header (length (jr_scanData info) \<le> offset + chunk) seq ts ssrc @
      jpeg_header info withQtable offset @ qtable_header info withQtable @
      take chunk (drop offset (jr_scanData info)))"

text \<open>The loop over the scan. The sequence number is incremented where the packet is built, so it
  advances for a packet whose sending fails, too.\<close>

function send_packets ::
  "'w sockets \<Rightarrow> int \<Rightarrow> JpegRtpInfo \<Rightarrow> u32 \<Rightarrow> u32 \<Rightarrow> nat \<Rightarrow> bool \<Rightarrow> u16 \<Rightarrow> 'w \<Rightarrow> (bool \<times> u16) \<times> 'w" where
  "send_packets sk fd info ts ssrc offset firstPacket seq w =
     (if offset < length (jr_scanData info)
      then let withQtable = firstPacket \<and> jr_quantTables info \<noteq> [] in
        if kMaxPacket \<le> fixed_len info withQtable then ((False, seq), w)
        else let pkt = rtp_packet info ts ssrc offset withQtable seq in
          case sendAll sk fd (tcp_header (length pkt)) w of
            (False, w) \<Rightarrow> ((False, seq + 1), w)
          | (True, w) \<Rightarrow>
              (case sendAll sk fd pkt w of
                 (False, w) \<Rightarrow> ((False, seq + 1), w)
               | (True, w) \<Rightarrow>
                   send_packets sk fd info ts ssrc (offset + scan_chunk info withQtable offset) False
                     (seq + 1) w)
      else ((True, seq), w))"
  by pat_completeness auto
termination
  by (relation "measure (\<lambda>(sk, fd, info, ts, ssrc, offset, first, seq, w). length (jr_scanData info) - offset)")
    (auto simp: scan_chunk_def Let_def)

declare send_packets.simps [simp del]

text \<open>An image that cannot be taken apart is skipped. The outer option is that of the parser.\<close>

definition sendMjpegRtpFrame ::
  "'w sockets \<Rightarrow> int \<Rightarrow> EncodedFrame \<Rightarrow> u16 \<Rightarrow> u32 \<Rightarrow> 'w \<Rightarrow> ((bool \<times> u16) \<times> 'w) option" where
  "sendMjpegRtpFrame sk fd frame seq ssrc w =
     do {
       parsed \<leftarrow> parseJpegForRtp (ef_data frame);
       Some (case parsed of
         None \<Rightarrow> ((True, seq), w)
       | Some info \<Rightarrow> send_packets sk fd info (rtpTimestampFromPtsMs (ef_ptsMs frame)) ssrc 0 True seq w) }"

subsection \<open>A receiver\<close>

text \<open>The framing of RTP on the connection of RTSP (RFC 2326, 10.12): a dollar sign, the channel and the
  length come before each packet.\<close>

fun deinterleave :: "bytes \<Rightarrow> bytes list option" where
  "deinterleave [] = Some []"
| "deinterleave (dollar # channel # hi # lo # rest) =
     (let len = unat (be16 hi lo) in
      if dollar = 0x24 \<and> channel = 0 \<and> len \<le> length rest
      then map_option ((#) (take len rest)) (deinterleave (drop len rest)) else None)"
| "deinterleave _ = None"

text \<open>The fields of a packet that a receiver of RFC 2435 uses.\<close>

definition pkt_marker :: "bytes \<Rightarrow> bool" where
  "pkt_marker p \<longleftrightarrow> bit (p ! 1) 7"

definition pkt_seq :: "bytes \<Rightarrow> u16" where
  "pkt_seq p = be16 (p ! 2) (p ! 3)"

definition pkt_offset :: "bytes \<Rightarrow> nat" where
  "pkt_offset p = unat (p ! 13) * 65536 + unat (p ! 14) * 256 + unat (p ! 15)"

definition pkt_q :: "bytes \<Rightarrow> u8" where
  "pkt_q p = p ! 17"

text \<open>The tables are there when the offset is 0 and the Q value at least 128.\<close>

definition pkt_has_tables :: "bytes \<Rightarrow> bool" where
  "pkt_has_tables p \<longleftrightarrow> pkt_offset p = 0 \<and> 128 \<le> pkt_q p"

definition pkt_tables :: "bytes \<Rightarrow> bytes" where
  "pkt_tables p =
     (if pkt_has_tables p then take (unat (be16 (p ! 22) (p ! 23))) (drop 24 p) else [])"

definition pkt_payload :: "bytes \<Rightarrow> bytes" where
  "pkt_payload p = drop (20 + (if pkt_has_tables p then 4 + length (pkt_tables p) else 0)) p"

text \<open>Packets that follow each other without a gap, the last and only the last with the marker, give the
  scan of a frame.\<close>

fun reassemble :: "u16 \<Rightarrow> bytes \<Rightarrow> bytes list \<Rightarrow> bytes option" where
  "reassemble seq scan [] = Some scan"
| "reassemble seq scan (p # ps) =
     (if length p \<le> kMaxPacket \<and> pkt_seq p = seq \<and> pkt_offset p = length scan \<and>
         (pkt_marker p \<longleftrightarrow> ps = [])
      then reassemble (seq + 1) (scan @ pkt_payload p) ps else None)"

subsection \<open>What is sent is what is received\<close>

lemma low_byte_mask [simp]: "ucast (v AND 0xff) = (ucast v :: u8)" for v :: "'a::len word"
proof -
  have "v AND 0xff = take_bit 8 v" by (simp add: take_bit_eq_mask mask_eq_exp_minus_1)
  then show ?thesis by (intro bit_word_eqI) (simp add: bit_simps)
qed

lemma low_byte_value: "unat (ucast (v :: u32) :: u8) = unat v mod 256"
  by (simp add: unsigned_ucast_eq take_bit_eq_mod)

text \<open>The 20 bytes before the tables and the payload.\<close>

lemma rtp_packet_bytes:
  "rtp_packet info ts ssrc offset q seq =
     [0x80, (if length (jr_scanData info) \<le> offset + scan_chunk info q offset then 0x80 else 0) OR 26,
      ucast (drop_bit 8 seq), ucast seq,
      ucast (drop_bit 24 ts), ucast (drop_bit 16 ts), ucast (drop_bit 8 ts), ucast ts,
      ucast (drop_bit 24 ssrc), ucast (drop_bit 16 ssrc), ucast (drop_bit 8 ssrc), ucast ssrc,
      0, ucast (drop_bit 16 (of_nat offset :: u32)), ucast (drop_bit 8 (of_nat offset :: u32)),
      ucast (of_nat offset :: u32),
      jr_type info, (if q then 128 else 75), ucast (jr_width info div 8), ucast (jr_height info div 8)] @
     qtable_header info q @ take (scan_chunk info q offset) (drop offset (jr_scanData info))"
  by (simp add: rtp_packet_def Let_def rtp_header_def jpeg_header_def writeBe16_def writeBe24_def
      writeBe32_def kRtpVersion_def kRtpPayloadJpeg_def)

lemma length_rtp_packet:
  assumes "offset < length (jr_scanData info)" "fixed_len info q < kMaxPacket"
  shows "length (rtp_packet info ts ssrc offset q seq) = fixed_len info q + scan_chunk info q offset"
    and "0 < scan_chunk info q offset" "offset + scan_chunk info q offset \<le> length (jr_scanData info)"
    and "fixed_len info q + scan_chunk info q offset \<le> kMaxPacket"
proof -
  show "0 < scan_chunk info q offset" and le: "offset + scan_chunk info q offset \<le> length (jr_scanData info)"
    and "fixed_len info q + scan_chunk info q offset \<le> kMaxPacket"
    using assms by (auto simp: scan_chunk_def Let_def)
  have "length (qtable_header info q) = fixed_len info q - 20"
    by (simp add: qtable_header_def fixed_len_def writeBe16_def)
  with le show "length (rtp_packet info ts ssrc offset q seq) = fixed_len info q + scan_chunk info q offset"
    unfolding rtp_packet_bytes by (simp add: fixed_len_def)
qed

lemma pkt_offset_packet:
  assumes "offset < 2 ^ 24"
  shows "pkt_offset (rtp_packet info ts ssrc offset q seq) = offset"
proof -
  have o: "unat (of_nat offset :: u32) = offset" using assms by (simp add: unat_of_nat)
  have hi: "unat (drop_bit 16 (of_nat offset :: u32)) = offset div 65536"
    and mid: "unat (drop_bit 8 (of_nat offset :: u32)) = offset div 256"
    unfolding unat_drop_bit_eq o by (simp_all add: drop_bit_eq_div)
  have "offset div 65536 mod 256 * 65536 + offset div 256 mod 256 * 256 + offset mod 256 = offset"
  proof -
    have "offset div 65536 mod 256 = offset div 65536" using assms by simp
    moreover have "offset div 256 div 256 = offset div 65536" by (simp flip: div_mult2_eq)
    ultimately show ?thesis
      using mult_div_mod_eq[of 256 offset] mult_div_mod_eq[of 256 "offset div 256"] by arith
  qed
  then have "unat (ucast (drop_bit 16 (of_nat offset :: u32)) :: u8) * 65536 +
      unat (ucast (drop_bit 8 (of_nat offset :: u32)) :: u8) * 256 +
      unat (ucast (of_nat offset :: u32) :: u8) = offset"
    unfolding low_byte_value hi mid o .
  then show ?thesis by (simp add: pkt_offset_def rtp_packet_bytes)
qed

lemma pkt_fields_packet:
  shows "pkt_seq (rtp_packet info ts ssrc offset q seq) = seq"
    and "pkt_q (rtp_packet info ts ssrc offset q seq) = (if q then 128 else 75)"
    and "pkt_marker (rtp_packet info ts ssrc offset q seq) \<longleftrightarrow>
      length (jr_scanData info) \<le> offset + scan_chunk info q offset"
  by (simp_all add: pkt_seq_def pkt_q_def pkt_marker_def rtp_packet_bytes bit_simps)

lemma pkt_tables_packet:
  assumes "fixed_len info q < kMaxPacket" "offset < 2 ^ 24" "q \<longrightarrow> offset = 0"
  shows "pkt_has_tables (rtp_packet info ts ssrc offset q seq) \<longleftrightarrow> q"
    and "pkt_tables (rtp_packet info ts ssrc offset q seq) = (if q then jr_quantTables info else [])"
    and "pkt_payload (rtp_packet info ts ssrc offset q seq) =
      take (scan_chunk info q offset) (drop offset (jr_scanData info))"
proof -
  show has: "pkt_has_tables (rtp_packet info ts ssrc offset q seq) \<longleftrightarrow> q"
    using assms by (simp add: pkt_has_tables_def pkt_offset_packet pkt_fields_packet)
  have len: "unat (of_nat (length (jr_quantTables info)) :: u16) = length (jr_quantTables info)" if q
    using assms(1) that by (simp add: fixed_len_def kMaxPacket_def unat_of_nat)
  show tables: "pkt_tables (rtp_packet info ts ssrc offset q seq) = (if q then jr_quantTables info else [])"
    using len by (simp add: pkt_tables_def has) (simp add: rtp_packet_bytes qtable_header_def writeBe16_def)
  show "pkt_payload (rtp_packet info ts ssrc offset q seq) =
      take (scan_chunk info q offset) (drop offset (jr_scanData info))"
  proof -
    obtain h where "rtp_packet info ts ssrc offset q seq =
        h @ qtable_header info q @ take (scan_chunk info q offset) (drop offset (jr_scanData info))"
      and "length h = 20"
      using rtp_packet_bytes by fastforce
    moreover have "length (qtable_header info q) = (if q then 4 + length (jr_quantTables info) else 0)"
      by (simp add: qtable_header_def writeBe16_def)
    ultimately show ?thesis unfolding pkt_payload_def has tables by simp
  qed
qed

text \<open>The packets of a frame from an offset on.\<close>

function frame_packets :: "JpegRtpInfo \<Rightarrow> u32 \<Rightarrow> u32 \<Rightarrow> nat \<Rightarrow> bool \<Rightarrow> u16 \<Rightarrow> bytes list" where
  "frame_packets info ts ssrc offset firstPacket seq =
     (let q = firstPacket \<and> jr_quantTables info \<noteq> [] in
      if offset < length (jr_scanData info) \<and> fixed_len info q < kMaxPacket
      then rtp_packet info ts ssrc offset q seq #
           frame_packets info ts ssrc (offset + scan_chunk info q offset) False (seq + 1)
      else [])"
  by pat_completeness auto
termination
  by (relation "measure (\<lambda>(info, ts, ssrc, offset, first, seq). length (jr_scanData info) - offset)")
    (auto simp: scan_chunk_def Let_def)

declare frame_packets.simps [simp del]

definition on_wire :: "bytes list \<Rightarrow> bytes" where
  "on_wire ps = concat (map (\<lambda>p. tcp_header (length p) @ p) ps)"

lemma on_wire_simps [simp]:
  "on_wire [] = []" "on_wire (p # ps) = tcp_header (length p) @ p @ on_wire ps"
  by (simp_all add: on_wire_def)

lemma send_packets_wire:
  assumes "faithful_link sk fd wire"
    and "send_packets sk fd info ts ssrc offset firstPacket seq w = ((True, seq'), w')"
  shows "let ps = frame_packets info ts ssrc offset firstPacket seq in
    wire w' = wire w @ on_wire ps \<and> seq' = seq + of_nat (length ps)"
  using assms
proof (induction sk fd info ts ssrc offset firstPacket seq w rule: send_packets.induct)
  case (1 sk fd info ts ssrc offset firstPacket seq w)
  define q where "q \<longleftrightarrow> firstPacket \<and> jr_quantTables info \<noteq> []"
  show ?case
  proof (cases "offset < length (jr_scanData info)")
    case False
    with 1(3) show ?thesis
      by (subst (asm) send_packets.simps, subst frame_packets.simps) simp
  next
    case True
    let ?pkt = "rtp_packet info ts ssrc offset q seq"
    from 1(3) True have fixed: "\<not> kMaxPacket \<le> fixed_len info q"
      by (subst (asm) send_packets.simps) (simp add: q_def[symmetric] Let_def split: if_splits)
    obtain ok1 w1 where s1: "sendAll sk fd (tcp_header (length ?pkt)) w = (ok1, w1)" by fastforce
    obtain ok2 w2 where s2: "sendAll sk fd ?pkt w1 = (ok2, w2)" by fastforce
    from 1(3) True fixed s1 s2 have ok: "ok1" "ok2" and rest:
      "send_packets sk fd info ts ssrc (offset + scan_chunk info q offset) False (seq + 1) w2 = ((True, seq'), w')"
      by (subst (asm) send_packets.simps, simp add: q_def[symmetric] Let_def split: bool.splits)+
    from sendAll_complete[OF 1(2)] s1 s2 ok
    have wire: "wire w2 = wire w @ tcp_header (length ?pkt) @ ?pkt" by simp
    from 1(1)[OF True q_def fixed refl s1[symmetric, unfolded ok] _ s2[symmetric, unfolded ok] _ 1(2) rest]
    show ?thesis
      using True fixed wire ok
      by (subst frame_packets.simps) (simp add: q_def[symmetric] Let_def algebra_simps)
  qed
qed

lemma reassemble_packets:
  assumes "length (jr_scanData info) \<le> 2 ^ 24"
    and "fixed_len info (firstPacket \<and> jr_quantTables info \<noteq> []) < kMaxPacket"
    and "firstPacket \<longrightarrow> offset = 0" "offset \<le> length (jr_scanData info)"
  shows "reassemble seq (take offset (jr_scanData info)) (frame_packets info ts ssrc offset firstPacket seq) =
      Some (jr_scanData info)"
  using assms
proof (induction info ts ssrc offset firstPacket seq rule: frame_packets.induct)
  case (1 info ts ssrc offset firstPacket seq)
  define q where "q \<longleftrightarrow> firstPacket \<and> jr_quantTables info \<noteq> []"
  show ?case
  proof (cases "offset < length (jr_scanData info)")
    case False
    with 1(5) show ?thesis by (subst frame_packets.simps) simp
  next
    case True
    let ?c = "scan_chunk info q offset"
    let ?pkt = "rtp_packet info ts ssrc offset q seq"
    from 1(3) have fixed: "fixed_len info q < kMaxPacket" by (simp add: q_def)
    note len = length_rtp_packet[OF True fixed]
    from True 1(2) have o: "offset < 2 ^ 24" by simp
    from 1(4) have q: "q \<longrightarrow> offset = 0" by (simp add: q_def)
    have "reassemble (seq + 1) (take (offset + ?c) (jr_scanData info))
        (frame_packets info ts ssrc (offset + ?c) False (seq + 1)) = Some (jr_scanData info)"
      using 1(1)[OF q_def _ 1(2)] True fixed len(3)
      by (simp add: fixed_len_def kMaxPacket_def)
    moreover have "frame_packets info ts ssrc (offset + ?c) False (seq + 1) = [] \<longleftrightarrow>
        length (jr_scanData info) \<le> offset + ?c"
      by (subst frame_packets.simps) (simp add: fixed_len_def kMaxPacket_def)
    moreover have "frame_packets info ts ssrc offset firstPacket seq =
        ?pkt # frame_packets info ts ssrc (offset + ?c) False (seq + 1)"
      using True fixed by (subst frame_packets.simps) (simp add: q_def Let_def)
    ultimately show ?thesis
      using len True
      by (simp add: pkt_fields_packet pkt_offset_packet[OF o] pkt_tables_packet[OF fixed o q] take_add)
  qed
qed

lemma deinterleave_on_wire:
  assumes "\<And>p. p \<in> set ps \<Longrightarrow> length p \<le> kMaxPacket"
  shows "deinterleave (on_wire ps) = Some ps"
  using assms
proof (induction ps)
  case (Cons p ps)
  from Cons.prems[of p] have "length p < 65536" by (simp add: kMaxPacket_def)
  then have "unat (of_nat (length p) :: u16) = length p" by (simp add: unat_of_nat)
  with Cons show ?case by (simp add: tcp_header_def writeBe16_def)
qed simp

lemma reassembled_short: "reassemble seq scan ps = Some x \<Longrightarrow> p \<in> set ps \<Longrightarrow> length p \<le> kMaxPacket"
  by (induction seq scan ps rule: reassemble.induct) (auto split: if_splits)

lemma q_of_frame_packets:
  "map pkt_q (frame_packets info ts ssrc offset False seq) =
     replicate (length (frame_packets info ts ssrc offset False seq)) 75"
proof (induction info ts ssrc offset "False" seq rule: frame_packets.induct)
  case (1 info ts ssrc offset seq)
  then show ?case
    by (subst (1 2) frame_packets.simps) (auto simp: pkt_fields_packet fixed_len_def)
qed

text \<open>RFC 2435 (3.1) asks that the packets of a frame agree in their Q value. The first packet of an
  image with tables says 128 and the ones after it 75.\<close>

lemma q_changes_within_frame:
  assumes "jr_quantTables info \<noteq> []" "fixed_len info True < kMaxPacket"
    and "kMaxPacket - fixed_len info True < length (jr_scanData info)"
  shows "\<exists>qs. map pkt_q (frame_packets info ts ssrc 0 True seq) = 128 # 75 # qs"
proof -
  let ?c = "scan_chunk info True 0"
  have "?c < length (jr_scanData info)" using assms(3) by (simp add: scan_chunk_def Let_def)
  then have "frame_packets info ts ssrc ?c False (seq + 1) \<noteq> []"
    by (subst frame_packets.simps) (simp add: fixed_len_def kMaxPacket_def)
  then obtain qs where "map pkt_q (frame_packets info ts ssrc ?c False (seq + 1)) = 75 # qs"
    by (metis length_0_conv gr0_conv_Suc replicate_Suc neq0_conv q_of_frame_packets)
  moreover have "frame_packets info ts ssrc 0 True seq =
      rtp_packet info ts ssrc 0 True seq # frame_packets info ts ssrc ?c False (seq + 1)"
    using assms by (subst frame_packets.simps) (auto simp: Let_def)
  ultimately show ?thesis by (simp add: pkt_fields_packet)
qed

lemma jpeg_parse_facts:
  "parseJpegForRtp jpeg = Some (Some info) \<Longrightarrow> jr_scanData info \<noteq> []"
  by (auto simp: parseJpegForRtp_def sub_bytes_def elim!: bind_SomeE split: if_splits option.splits)

text \<open>
  Claim C29. A frame that was sent reaches the client: on sockets that put on the wire exactly the
  bytes they accept, in whatever pieces, what a successful \<open>sendMjpegRtpFrame\<close> wrote splits into RTP
  packets of at most 1400 bytes, with sequence numbers that go up by one from the one the session had
  and end at the one it goes on with, the marker on the last packet alone, the tables of the image in
  the first, and payloads that give the scan of the image, if that has at most 2^24 bytes.\<close>

theorem frame_reaches_client:
  assumes "faithful_link sk fd wire"
    and "parseJpegForRtp (ef_data frame) = Some (Some info)"
    and "length (jr_scanData info) \<le> 2 ^ 24"
    and "sendMjpegRtpFrame sk fd frame seq ssrc w = Some ((True, seq'), w')"
  shows "\<exists>sent p ps. wire w' = wire w @ sent \<and> deinterleave sent = Some (p # ps) \<and>
     reassemble seq [] (p # ps) = Some (jr_scanData info) \<and>
     pkt_tables p = jr_quantTables info \<and> seq' = seq + of_nat (length (p # ps))"
proof -
  define ts where "ts = rtpTimestampFromPtsMs (ef_ptsMs frame)"
  define ps where "ps = frame_packets info ts ssrc 0 True seq"
  from assms(2,4) have send: "send_packets sk fd info ts ssrc 0 True seq w = ((True, seq'), w')"
    by (simp add: sendMjpegRtpFrame_def ts_def)
  from jpeg_parse_facts[OF assms(2)] have scan: "jr_scanData info \<noteq> []" by simp
  with send have fixed: "fixed_len info (True \<and> jr_quantTables info \<noteq> []) < kMaxPacket"
    by (subst (asm) send_packets.simps) (simp add: Let_def split: if_splits)
  have first: "ps = rtp_packet info ts ssrc 0 (jr_quantTables info \<noteq> []) seq # tl ps"
    unfolding ps_def using scan fixed by (subst (1 2) frame_packets.simps) (simp add: Let_def)
  from reassemble_packets[OF assms(3) fixed, of 0 seq ts ssrc]
  have whole: "reassemble seq [] ps = Some (jr_scanData info)" by (simp add: ps_def)
  from send_packets_wire[OF assms(1) send]
  have "wire w' = wire w @ on_wire ps" "seq' = seq + of_nat (length ps)" by (simp_all add: ps_def Let_def)
  moreover from reassembled_short[OF whole] have "deinterleave (on_wire ps) = Some ps"
    by (rule deinterleave_on_wire)
  moreover from fixed have "pkt_tables (hd ps) = jr_quantTables info"
    by (subst first) (simp add: pkt_tables_packet)
  ultimately show ?thesis using whole first by (metis list.sel(1))
qed

text \<open>A small image with one table and a scan of three bytes, on a connection that takes five bytes at
  a time.\<close>

definition tiny_jpeg :: bytes where
  "tiny_jpeg = [0xff, 0xd8, 0xff, 0xdb, 0, 67, 0] @ replicate 64 16 @ [0xff, 0xda, 0, 2, 1, 2, 3, 0xff, 0xd9]"

definition tiny_info :: JpegRtpInfo where
  "tiny_info = default_jpeg_info\<lparr>jr_quantTables := replicate 64 16, jr_scanData := [1, 2, 3]\<rparr>"

definition five_at_a_time :: "bytes sockets" where
  "five_at_a_time =
     \<lparr>sk_socket = (\<lambda>w. (Inr 3, w)), sk_reuse = (\<lambda>fd w. w), sk_aton = (\<lambda>host. True),
      sk_bind = (\<lambda>fd host port w. (None, w)), sk_listen = (\<lambda>fd n w. (None, w)),
      sk_accept = (\<lambda>fd w. (Inr 4, w)), sk_close = (\<lambda>fd w. w), sk_shutdown = (\<lambda>fd w. w),
      sk_recv = (\<lambda>fd n w. ([], w)),
      sk_send = (\<lambda>fd data w. (min 5 (length data), w @ take 5 data))\<rparr>"

lemma five_at_a_time_faithful: "faithful_link five_at_a_time fd id"
  by (auto simp: faithful_link_def faithful_send_def five_at_a_time_def min_def)

lemma five_at_a_time_send [simp]:
  "sk_send five_at_a_time fd data w = (min 5 (length data), w @ take 5 data)"
  by (simp add: five_at_a_time_def)

lemma five_at_a_time_sends: "sendAll five_at_a_time fd data w = (True, w @ data)"
proof (induction "length data" arbitrary: data w rule: less_induct)
  case less
  show ?case
  proof (cases "data = []")
    case False
    then have "sendAll five_at_a_time fd data w = sendAll five_at_a_time fd (drop 5 data) (w @ take 5 data)"
      unfolding sendAll_def by (subst send_loop.simps) (auto simp: min_def)
    also have "\<dots> = (True, (w @ take 5 data) @ drop 5 data)" using less False by simp
    finally show ?thesis by simp
  qed (simp add: sendAll_def send_loop.simps)
qed

lemma tiny_sent: "fst (send_packets five_at_a_time fd tiny_info ts ssrc 0 True 7 w) = (True, 8)"
  by (subst send_packets.simps, simp add: Let_def five_at_a_time_sends tiny_info_def
        default_jpeg_info_def fixed_len_def scan_chunk_def kMaxPacket_def)
     (subst send_packets.simps, simp)

lemma tiny_parsed: "parseJpegForRtp tiny_jpeg = Some (Some tiny_info)"
  by code_simp

theorem frame_reaches_client_witness:
  "\<exists>sent p ps. deinterleave sent = Some (p # ps) \<and> reassemble 7 [] (p # ps) = Some [1, 2, 3] \<and>
     pkt_tables p = replicate 64 16"
proof -
  let ?frame = "default_encoded_frame\<lparr>ef_data := tiny_jpeg\<rparr>"
  have parsed: "parseJpegForRtp (ef_data ?frame) = Some (Some tiny_info)" by (simp add: tiny_parsed)
  obtain w' where w': "send_packets five_at_a_time 4 tiny_info
      (rtpTimestampFromPtsMs (ef_ptsMs ?frame)) 0x54524653 0 True 7 [] = ((True, 8), w')"
    by (metis tiny_sent prod.collapse)
  have send: "sendMjpegRtpFrame five_at_a_time 4 ?frame 7 0x54524653 [] = Some ((True, 8), w')"
    unfolding sendMjpegRtpFrame_def parsed using w' by (simp only: bind.bind_lunit option.case)
  have "length (jr_scanData tiny_info) \<le> 2 ^ 24" by (simp add: tiny_info_def)
  from frame_reaches_client[OF five_at_a_time_faithful parsed this send] obtain sent p ps
    where "deinterleave sent = Some (p # ps)" "reassemble 7 [] (p # ps) = Some (jr_scanData tiny_info)"
      and "pkt_tables p = jr_quantTables tiny_info" by blast
  moreover have "jr_scanData tiny_info = [1, 2, 3]" "jr_quantTables tiny_info = replicate 64 16"
    by (simp_all add: tiny_info_def)
  ultimately show ?thesis by metis
qed

end
