(* ===== verification/Tri_Rtsp.thy ===== *)
theory Tri_Rtsp
  imports Tri_Services Tri_RtpJpeg
begin

text \<open>
  The RTSP server (protocol/rtsp/RtspServer.cpp): its requests and replies, the session of a client,
  the stream of MJPEG frames that a session delivers (Tri_RtpJpeg has the packets of a frame), and the
  start and stop of the server.
\<close>

subsection \<open>Text helpers\<close>

definition is_blank :: "char \<Rightarrow> bool" where
  "is_blank c \<longleftrightarrow> c = CHR '' '' \<or> c = CHR 0x09"

definition rtsp_trim :: "string \<Rightarrow> string" where
  "rtsp_trim s =
     dropWhile is_blank (rev (dropWhile (\<lambda>c. c = CHR 0x0D \<or> c = CHR 0x0A \<or> is_blank c) (rev s)))"

definition rtsp_lower :: "string \<Rightarrow> string" where
  "rtsp_lower s = map tolower s"

subsection \<open>Reading a request\<close>

definition kRtspMaxRequest :: nat where
  "kRtspMaxRequest = 8192"

text \<open>Characters are read until the blank line that ends a request, at most \<open>kRtspMaxRequest\<close>.\<close>

fun read_request :: "'w sockets \<Rightarrow> int \<Rightarrow> nat \<Rightarrow> string \<Rightarrow> 'w \<Rightarrow> string option \<times> 'w" where
  "read_request sk fd 0 request w = (None, w)"
| "read_request sk fd (Suc n) request w =
     (case sk_recv sk fd 1 w of
        ([], w) \<Rightarrow> (None, w)
      | (ch # _, w) \<Rightarrow>
          if endsWith (request @ [ch]) (CRLF @ CRLF) then (Some (request @ [ch]), w)
          else read_request sk fd n (request @ [ch]) w)"

definition readRtspRequest :: "'w sockets \<Rightarrow> int \<Rightarrow> 'w \<Rightarrow> string option \<times> 'w" where
  "readRtspRequest sk fd w = read_request sk fd kRtspMaxRequest [] w"

subsection \<open>Requests\<close>

text \<open>The part before and after the first colon of a line.\<close>

fun cut_colon :: "string \<Rightarrow> (string \<times> string) option" where
  "cut_colon [] = None"
| "cut_colon (c # cs) =
     (if c = CHR '':'' then Some ([], cs)
      else case cut_colon cs of None \<Rightarrow> None | Some (a, b) \<Rightarrow> Some (c # a, b))"

fun find_header :: "string list \<Rightarrow> string \<Rightarrow> string" where
  "find_header [] wanted = []"
| "find_header (l # ls) wanted =
     (case cut_colon l of
        None \<Rightarrow> find_header ls wanted
      | Some (key, v) \<Rightarrow>
          if rtsp_lower (rtsp_trim key) = wanted then rtsp_trim v else find_header ls wanted)"

definition getHeader :: "string \<Rightarrow> string \<Rightarrow> string" where
  "getHeader request name = find_header (split request (CHR 0x0A)) (rtsp_lower name)"

definition getCSeq :: "string \<Rightarrow> string" where
  "getCSeq request = (let cseq = getHeader request ''CSeq'' in if cseq = [] then ''1'' else cseq)"

definition getMethod :: "string \<Rightarrow> string" where
  "getMethod request =
     (if CHR '' '' \<in> set request then takeWhile (\<lambda>c. c \<noteq> CHR '' '') request else [])"

subsection \<open>Replies\<close>

record RtspServerConfig =
  rtc_host :: string
  rtc_port :: u16
  rtc_path :: string

definition default_rtsp_config :: RtspServerConfig where
  "default_rtsp_config = \<lparr>rtc_host = ''0.0.0.0'', rtc_port = 8554, rtc_path = ''/live/main''\<rparr>"

definition reply_head :: "string \<Rightarrow> string \<Rightarrow> string" where
  "reply_head line cseq = ''RTSP/1.0 '' @ line @ CRLF @ ''CSeq: '' @ cseq @ CRLF"

definition makeOptionsResponse :: "string \<Rightarrow> string" where
  "makeOptionsResponse cseq =
     reply_head ''200 OK'' cseq @ ''Public: OPTIONS, DESCRIBE, SETUP, PLAY, TEARDOWN'' @ CRLF @ CRLF"

definition sdp_body :: string where
  "sdp_body =
     ''v=0'' @ CRLF @ ''o=- 0 0 IN IP4 127.0.0.1'' @ CRLF @ ''s=TriFusion MainStream'' @ CRLF @
     ''c=IN IP4 0.0.0.0'' @ CRLF @ ''t=0 0'' @ CRLF @ ''a=control:*'' @ CRLF @
     ''m=video 0 RTP/AVP/TCP 26'' @ CRLF @ ''a=control:trackID=0'' @ CRLF @ ''a=framerate:25'' @ CRLF"

definition makeDescribeResponse :: "string \<Rightarrow> string \<Rightarrow> string" where
  "makeDescribeResponse cseq baseUrl =
     reply_head ''200 OK'' cseq @ ''Content-Base: '' @ baseUrl @ ''/'' @ CRLF @
     ''Content-Type: application/sdp'' @ CRLF @
     ''Content-Length: '' @ show_nat (length sdp_body) @ CRLF @ CRLF @ sdp_body"

definition makeSetupResponse :: "string \<Rightarrow> string" where
  "makeSetupResponse cseq =
     reply_head ''200 OK'' cseq @ ''Transport: RTP/AVP/TCP;unicast;interleaved=0-1'' @ CRLF @
     ''Session: tri-fusion-rtsp'' @ CRLF @ CRLF"

definition makePlayResponse :: "RtspServerConfig \<Rightarrow> string \<Rightarrow> string" where
  "makePlayResponse config cseq =
     reply_head ''200 OK'' cseq @ ''Session: tri-fusion-rtsp'' @ CRLF @
     ''RTP-Info: url='' @ rtc_path config @ ''/trackID=0;seq=0;rtptime=0'' @ CRLF @ CRLF"

definition makeTeardownResponse :: "string \<Rightarrow> string" where
  "makeTeardownResponse cseq = reply_head ''200 OK'' cseq @ ''Session: tri-fusion-rtsp'' @ CRLF @ CRLF"

definition makeErrorResponse :: "string \<Rightarrow> int \<Rightarrow> string \<Rightarrow> string" where
  "makeErrorResponse cseq code reason = reply_head (show_int code @ '' '' @ reason) cseq @ CRLF"

subsection \<open>The session of a client\<close>

datatype reply_action = GoOn | StartPlaying | CloseNow

definition base_url :: "RtspServerConfig \<Rightarrow> string \<Rightarrow> string" where
  "base_url config req =
     (let host = getHeader req ''Host'' in
      ''rtsp://'' @ (if host \<noteq> [] then host else ''127.0.0.1:'' @ show_nat (unat (rtc_port config))) @
      rtc_path config)"

definition rtsp_reply :: "RtspServerConfig \<Rightarrow> string \<Rightarrow> string \<times> reply_action" where
  "rtsp_reply config req =
     (let method = getMethod req; cseq = getCSeq req in
      if method = ''OPTIONS'' then (makeOptionsResponse cseq, GoOn)
      else if method = ''DESCRIBE'' then (makeDescribeResponse cseq (base_url config req), GoOn)
      else if method = ''SETUP'' then (makeSetupResponse cseq, GoOn)
      else if method = ''PLAY'' then (makePlayResponse config cseq, StartPlaying)
      else if method = ''TEARDOWN'' then (makeTeardownResponse cseq, CloseNow)
      else (makeErrorResponse cseq 405 ''Method Not Allowed'', GoOn))"

text \<open>What the threads of the server share: the flag \<open>running_\<close>, which \<open>stop\<close> clears at any time, and
  the main stream, \<open>StreamService::waitFrame\<close> with its timeout.\<close>

record 'w rtsp_env =
  re_sockets :: "'w sockets"
  re_running :: "'w \<Rightarrow> bool"
  re_waitFrame :: "int \<Rightarrow> 'w \<Rightarrow> EncodedFrame Result \<times> 'w"

datatype session_end = Disconnected | Playing | TornDown

text \<open>The request loop, which a client can keep up for ever; \<open>None\<close> when it does.\<close>

partial_function (option) request_loop ::
  "'w rtsp_env \<Rightarrow> RtspServerConfig \<Rightarrow> int \<Rightarrow> 'w \<Rightarrow> (session_end \<times> 'w) option" where
  "request_loop env config fd w =
     (if \<not> re_running env w then Some (Disconnected, w)
      else case readRtspRequest (re_sockets env) fd w of
        (None, w) \<Rightarrow> Some (Disconnected, w)
      | (Some req, w) \<Rightarrow>
          (case rtsp_reply config req of
             (reply, action) \<Rightarrow>
               (case sendText (re_sockets env) fd reply w of
                  (sent, w) \<Rightarrow>
                    if action = CloseNow then Some (TornDown, sk_close (re_sockets env) fd w)
                    else if \<not> sent then Some (Disconnected, w)
                    else if action = StartPlaying then Some (Playing, w)
                    else request_loop env config fd w)))"

text \<open>The stream of a session, until a frame cannot be sent or the server stops.\<close>

partial_function (option) stream_loop ::
  "'w rtsp_env \<Rightarrow> int \<Rightarrow> u16 \<Rightarrow> u32 \<Rightarrow> 'w \<Rightarrow> (bool \<times> 'w) option" where
  "stream_loop env fd rtpSeq ssrc w =
     (if \<not> re_running env w then Some (True, w)
      else case re_waitFrame env 1000 w of
        (Inl e, w) \<Rightarrow> stream_loop env fd rtpSeq ssrc w
      | (Inr frame, w) \<Rightarrow>
          if ef_data frame = [] then stream_loop env fd rtpSeq ssrc w
          else do {
            ((sent, rtpSeq), w) \<leftarrow> sendMjpegRtpFrame (re_sockets env) fd frame rtpSeq ssrc w;
            if sent then stream_loop env fd rtpSeq ssrc w else Some (False, w) })"

definition streamMjpegOverTcp :: "'w rtsp_env \<Rightarrow> int \<Rightarrow> 'w \<Rightarrow> (bool \<times> 'w) option" where
  "streamMjpegOverTcp env fd w = stream_loop env fd 0 0x54524653 w"

definition hang_up :: "'w sockets \<Rightarrow> int \<Rightarrow> 'w \<Rightarrow> 'w" where
  "hang_up sk fd w = sk_close sk fd (sk_shutdown sk fd w)"

definition clientLoop :: "'w rtsp_env \<Rightarrow> RtspServerConfig \<Rightarrow> int \<Rightarrow> 'w \<Rightarrow> 'w option" where
  "clientLoop env config fd w =
     do {
       (ended, w) \<leftarrow> request_loop env config fd w;
       if ended = TornDown then Some w
       else if ended = Playing \<and> re_running env w
       then do { (ok, w) \<leftarrow> streamMjpegOverTcp env fd w; Some (hang_up (re_sockets env) fd w) }
       else Some (hang_up (re_sockets env) fd w) }"

subsection \<open>The server\<close>

text \<open>The server keeps the connections its client threads serve; the flag \<open>running_\<close> is here the
  server's own view of it. A thread is present from its creation to its join.\<close>

record RtspServer =
  rs_config :: RtspServerConfig
  rs_hasStream :: bool
  rs_running :: bool
  rs_listenFd :: int
  rs_acceptThread :: bool
  rs_clients :: "int list"

definition initial_rtsp_server :: RtspServer where
  "initial_rtsp_server =
     \<lparr>rs_config = default_rtsp_config, rs_hasStream = False, rs_running = False, rs_listenFd = -1,
      rs_acceptThread = False, rs_clients = []\<rparr>"

definition rs_init :: "RtspServerConfig \<Rightarrow> bool \<Rightarrow> RtspServer \<Rightarrow> unit Result \<times> RtspServer" where
  "rs_init config hasStream s =
     (if \<not> hasStream then (Error InvalidArgument ''RTSP server stream service is null'', s)
      else (Inr (), s\<lparr>rs_config := config, rs_hasStream := True\<rparr>))"

definition kBacklog :: int where
  "kBacklog = 8"

definition bind_address :: "string \<Rightarrow> string option" where
  "bind_address host = (if host = [] \<or> host = ''0.0.0.0'' then None else Some host)"

text \<open>The part of \<open>start\<close> after the socket is there. Each of its errors closes the socket.\<close>

definition rs_bound :: "'w sockets \<Rightarrow> RtspServerConfig \<Rightarrow> int \<Rightarrow> string option \<Rightarrow> 'w \<Rightarrow> unit Result \<times> 'w" where
  "rs_bound sk config fd address w =
     (case sk_bind sk fd address (rtc_port config) w of
        (Some e, w) \<Rightarrow> (Error IoError (''bind failed: '' @ e), sk_close sk fd w)
      | (None, w) \<Rightarrow>
          (case sk_listen sk fd kBacklog w of
             (Some e, w) \<Rightarrow> (Error IoError (''listen failed: '' @ e), sk_close sk fd w)
           | (None, w) \<Rightarrow> (Inr (), w)))"

definition rs_listen :: "'w sockets \<Rightarrow> RtspServerConfig \<Rightarrow> int \<Rightarrow> 'w \<Rightarrow> unit Result \<times> 'w" where
  "rs_listen sk config fd w =
     (if rtc_host config = [] \<or> rtc_host config = ''0.0.0.0'' then rs_bound sk config fd None w
      else if \<not> sk_aton sk (rtc_host config)
      then (Error InvalidArgument (''invalid RTSP bind host: '' @ rtc_host config), sk_close sk fd w)
      else rs_bound sk config fd (Some (rtc_host config)) w)"

definition rs_start :: "'w sockets \<Rightarrow> RtspServer \<Rightarrow> 'w \<Rightarrow> unit Result \<times> RtspServer \<times> 'w" where
  "rs_start sk s w =
     (if \<not> rs_hasStream s then (Error NotInitialized ''RTSP server is not initialized'', s, w)
      else if rs_running s then (Inr (), s, w)
      else case sk_socket sk w of
        (Inl e, w) \<Rightarrow> (Error IoError (''socket failed: '' @ e), s\<lparr>rs_listenFd := -1\<rparr>, w)
      | (Inr fd, w) \<Rightarrow>
          (case rs_listen sk (rs_config s) fd (sk_reuse sk fd w) of
             (Inl e, w) \<Rightarrow> (Inl e, s\<lparr>rs_listenFd := -1\<rparr>, w)
           | (Inr _, w) \<Rightarrow>
               (Inr (), s\<lparr>rs_listenFd := fd, rs_running := True, rs_acceptThread := True\<rparr>, w)))"

text \<open>One turn of the accept loop: a connection gets a thread, an error is only logged.\<close>

definition accept_turn :: "'w sockets \<Rightarrow> RtspServer \<Rightarrow> 'w \<Rightarrow> RtspServer \<times> 'w" where
  "accept_turn sk s w =
     (if \<not> rs_running s then (s, w)
      else case sk_accept sk (rs_listenFd s) w of
        (Inl e, w) \<Rightarrow> (s, w)
      | (Inr fd, w) \<Rightarrow> (s\<lparr>rs_clients := rs_clients s @ [fd]\<rparr>, w))"

text \<open>\<open>stop\<close> joins the accept thread and every client thread. A join is a parameter: \<open>None\<close> when the
  thread does not come to its end.\<close>

fun join_all :: "(int \<Rightarrow> 'w \<Rightarrow> 'w option) \<Rightarrow> int list \<Rightarrow> 'w \<Rightarrow> 'w option" where
  "join_all join [] w = Some w"
| "join_all join (fd # fds) w = do { w \<leftarrow> join fd w; join_all join fds w }"

definition rs_stop ::
  "'w sockets \<Rightarrow> ('w \<Rightarrow> 'w option) \<Rightarrow> (int \<Rightarrow> 'w \<Rightarrow> 'w option) \<Rightarrow> RtspServer \<Rightarrow> 'w \<Rightarrow> (RtspServer \<times> 'w) option" where
  "rs_stop sk joinAccept joinClient s w =
     (if \<not> rs_running s \<and> rs_listenFd s < 0 then Some (s, w)
      else
        let w = (if 0 \<le> rs_listenFd s then hang_up sk (rs_listenFd s) w else w) in
        do {
          w \<leftarrow> (if rs_acceptThread s then joinAccept w else Some w);
          w \<leftarrow> join_all joinClient (rs_clients s) w;
          Some (s\<lparr>rs_running := False, rs_listenFd := -1, rs_acceptThread := False, rs_clients := []\<rparr>, w) })"

definition rs_waitFrame ::
  "(int \<Rightarrow> 'w \<Rightarrow> EncodedFrame Result \<times> 'w) \<Rightarrow> RtspServer \<Rightarrow> int \<Rightarrow> 'w \<Rightarrow> EncodedFrame Result \<times> 'w" where
  "rs_waitFrame waitFrame s timeoutMs w =
     (if \<not> rs_running s then (Error MainStreamNotReady ''RTSP server is not running'', w)
      else waitFrame timeoutMs w)"

text \<open>A request that was read ends with the first blank line and is at most \<open>kRtspMaxRequest\<close> long.\<close>

lemma read_request_framed:
  assumes "read_request sk fd n request w = (Some req, w')"
  shows "endsWith req (CRLF @ CRLF) \<and> length req \<le> length request + n \<and>
    (\<exists>more. req = request @ more \<and> more \<noteq> [] \<and>
      (\<forall>k. 0 < k \<and> k < length more \<longrightarrow> \<not> endsWith (request @ take k more) (CRLF @ CRLF)))"
  using assms
proof (induction sk fd n request w rule: read_request.induct)
  case (2 sk fd n request w)
  obtain cs w1 where r: "sk_recv sk fd 1 w = (cs, w1)" by fastforce
  with 2(2) obtain ch rest where cs: "cs = ch # rest" by (cases cs) auto
  show ?case
  proof (cases "endsWith (request @ [ch]) (CRLF @ CRLF)")
    case True
    with 2(2) r cs have "req = request @ [ch]" by simp
    with True show ?thesis by auto
  next
    case False
    with 2(2) r cs have rest: "read_request sk fd n (request @ [ch]) w1 = (Some req, w')" by simp
    from 2(1)[OF r[symmetric] cs False rest] obtain more
      where end_len: "endsWith req (CRLF @ CRLF)" "length req \<le> length (request @ [ch]) + n"
        and req: "req = (request @ [ch]) @ more" "more \<noteq> []"
        and least: "\<forall>k. 0 < k \<and> k < length more \<longrightarrow> \<not> endsWith ((request @ [ch]) @ take k more) (CRLF @ CRLF)"
      by blast
    have "\<not> endsWith (request @ take k (ch # more)) (CRLF @ CRLF)" if "0 < k" "k < length (ch # more)" for k
      using that least False by (cases "k = 1") (auto simp: take_Cons' gr0_conv_Suc)
    with end_len req show ?thesis by (intro conjI exI[of _ "ch # more"]) auto
  qed
qed simp

text \<open>A start that fails leaves the server without a socket; a stop that returns leaves nothing.\<close>

lemma rs_start_error:
  "rs_start sk s w = (Inl e, s', w') \<Longrightarrow> s' = s \<or> s' = s\<lparr>rs_listenFd := -1\<rparr>"
  by (auto simp: rs_start_def split: if_splits prod.splits sum.splits)

lemma rs_stop_result:
  "rs_stop sk joinAccept joinClient s w = Some (s', w') \<Longrightarrow> 0 \<le> rs_listenFd s \<Longrightarrow>
     \<not> rs_running s' \<and> rs_listenFd s' = -1 \<and> rs_clients s' = []"
  by (auto simp: rs_stop_def Let_def elim!: bind_SomeE split: if_splits)

subsection \<open>Replies carry the number of their request\<close>

lemma cut_colon_append: "CHR '':'' \<notin> set k \<Longrightarrow> cut_colon (k @ CHR '':'' # v) = Some (k, v)"
  by (induction k) auto

lemma cut_colon_None: "CHR '':'' \<notin> set l \<Longrightarrow> cut_colon l = None"
  by (induction l) auto

lemma cut_colon_after:
  "CHR '':'' \<notin> set m \<Longrightarrow> c \<noteq> CHR '':'' \<Longrightarrow> cut_colon (m @ c # x) = Some (k, v) \<Longrightarrow> \<exists>k'. k = m @ c # k'"
  by (induction m arbitrary: k) (auto split: option.split_asm)

definition is_edge :: "char \<Rightarrow> bool" where
  "is_edge c \<longleftrightarrow> c = CHR 0x0D \<or> c = CHR 0x0A \<or> is_blank c"

lemma rtsp_trim_edge: "rtsp_trim s = dropWhile is_blank (rev (dropWhile is_edge (rev s)))"
  by (simp add: rtsp_trim_def is_edge_def[abs_def])

lemma dropWhile_hd: "v = [] \<or> \<not> P (hd v) \<Longrightarrow> dropWhile P v = v"
  by (cases v) auto

text \<open>A text without blanks at its edges comes back from a header line.\<close>

lemma rtsp_trim_core:
  assumes "v \<noteq> []" "\<not> is_blank (hd v)" "\<not> is_edge (last v)"
  shows "rtsp_trim v = v" "rtsp_trim (CHR '' '' # v @ [CHR 0x0D]) = v"
proof -
  have v: "dropWhile is_edge (rev v) = rev v" "dropWhile is_blank v = v"
    using assms by (simp_all add: dropWhile_hd hd_rev)
  then show "rtsp_trim v = v" by (simp add: rtsp_trim_edge)
  have "dropWhile is_edge (rev v @ [CHR '' '']) = rev v @ [CHR '' '']"
    using assms by (simp add: dropWhile_hd hd_append hd_rev)
  then have "rtsp_trim (CHR '' '' # v @ [CHR 0x0D]) = dropWhile is_blank (CHR '' '' # v)"
    by (simp add: rtsp_trim_edge is_edge_def)
  with v show "rtsp_trim (CHR '' '' # v @ [CHR 0x0D]) = v" by (simp add: is_blank_def)
qed

text \<open>A request as RFC 2326 has it: the method and the rest of the first line, then a line for each header, whose name
  is a token, and an empty line; a CSeq is a number. Names are compared without regard to case, and the first header of
  a name counts.\<close>

definition token_char :: "char \<Rightarrow> bool" where
  "token_char c \<longleftrightarrow> c \<noteq> CHR '':'' \<and> \<not> is_edge c"

definition header_ok :: "string \<times> string \<Rightarrow> bool" where
  "header_ok h \<longleftrightarrow> fst h \<noteq> [] \<and> list_all token_char (fst h) \<and> list_all (\<lambda>c. c \<noteq> CHR 0x0D \<and> c \<noteq> CHR 0x0A) (snd h) \<and>
     (map tolower (fst h) = ''cseq'' \<longrightarrow> snd h \<noteq> [] \<and> list_all isdigit (snd h))"

definition rtsp_request :: "string \<Rightarrow> string \<Rightarrow> (string \<times> string) list \<Rightarrow> string" where
  "rtsp_request m uri hs =
     m @ '' '' @ uri @ CRLF @ concat (map (\<lambda>(name, v). name @ '': '' @ v @ CRLF) hs) @ CRLF"

definition request_ok :: "string \<Rightarrow> string \<Rightarrow> (string \<times> string) list \<Rightarrow> bool" where
  "request_ok m uri hs \<longleftrightarrow> m \<noteq> [] \<and> list_all token_char m \<and> map tolower m \<noteq> ''cseq'' \<and>
     list_all (\<lambda>c. c \<noteq> CHR 0x0D \<and> c \<noteq> CHR 0x0A) uri \<and> list_all header_ok hs"

definition cseq_of :: "(string \<times> string) list \<Rightarrow> string" where
  "cseq_of hs = (case find (\<lambda>h. map tolower (fst h) = ''cseq'') hs of None \<Rightarrow> ''1'' | Some (name, v) \<Rightarrow> v)"

lemma token_trim:
  assumes "k \<noteq> []" "list_all token_char k"
  shows "rtsp_trim k = k" "CHR '':'' \<notin> set k" "CHR 0x0A \<notin> set k"
proof -
  from assms have "token_char (hd k)" "token_char (last k)" by (auto simp: list_all_iff)
  then show "rtsp_trim k = k" using assms(1) by (intro rtsp_trim_core(1)) (auto simp: token_char_def is_edge_def)
  show "CHR '':'' \<notin> set k" "CHR 0x0A \<notin> set k" using assms(2) by (auto simp: list_all_iff token_char_def is_edge_def)
qed

text \<open>The first line is no CSeq header, whatever colons it has.\<close>

lemma first_line_key:
  assumes "m \<noteq> []" "list_all token_char m" "map tolower m \<noteq> ''cseq''"
  shows "rtsp_lower (rtsp_trim (m @ CHR '' '' # k)) \<noteq> ''cseq''"
proof -
  from assms have ends: "\<not> is_blank (hd m)" "\<not> is_edge (last m)" by (auto simp: list_all_iff token_char_def is_edge_def)
  have m: "dropWhile is_edge (rev m) = rev m" "dropWhile is_blank m = m" using ends assms(1)
    by (simp_all add: dropWhile_hd hd_rev)
  obtain z where z: "dropWhile is_edge (rev k) = rev z" by (metis rev_rev_ident)
  have "rtsp_trim (m @ CHR '' '' # k) = (if z = [] then m else m @ CHR '' '' # z)"
  proof (cases "z = []")
    case True
    with z have "dropWhile is_edge (rev k @ CHR '' '' # rev m) = dropWhile is_edge (CHR '' '' # rev m)"
      by (intro dropWhile_append2) (simp add: dropWhile_eq_Nil_conv)
    with True m show ?thesis by (simp add: rtsp_trim_edge is_edge_def is_blank_def)
  next
    case False
    with z obtain x where "x \<in> set (rev k)" "\<not> is_edge x" by (metis dropWhile_eq_Nil_conv rev_is_Nil_conv)
    from dropWhile_append1[of x _ is_edge, OF this] z
    have "dropWhile is_edge (rev k @ CHR '' '' # rev m) = rev z @ CHR '' '' # rev m" by simp
    with False assms(1) ends show ?thesis by (simp add: rtsp_trim_edge dropWhile_hd)
  qed
  moreover have "map tolower (m @ CHR '' '' # z) \<noteq> ''cseq''"
  proof
    assume "map tolower (m @ CHR '' '' # z) = ''cseq''"
    then have "tolower (CHR '' '') \<in> set ''cseq''" by (metis in_set_conv_decomp list.simps(9) map_append)
    moreover have "tolower (CHR '' '') \<notin> set ''cseq''" by code_simp
    ultimately show False by contradiction
  qed
  ultimately show ?thesis using assms(3) by (simp add: rtsp_lower_def)
qed

lemma digit_inside: "isdigit c \<Longrightarrow> \<not> is_blank c" "isdigit c \<Longrightarrow> \<not> is_edge c"
  by (auto simp: is_edge_def is_blank_def isdigit_def chr_code_def)

lemma header_number: "header_ok (name, v) \<Longrightarrow> map tolower name = ''cseq'' \<Longrightarrow> v \<noteq> [] \<and> list_all isdigit v"
  by (simp only: header_ok_def fst_conv snd_conv simp_thms)

lemma find_header_headers:
  assumes "list_all header_ok hs"
  shows "find_header (split (concat (map (\<lambda>(name, v). name @ '': '' @ v @ CRLF) hs) @ CRLF) (CHR 0x0A)) ''cseq'' =
    (case find (\<lambda>h. map tolower (fst h) = ''cseq'') hs of None \<Rightarrow> [] | Some (name, v) \<Rightarrow> v)"
  using assms
proof (induction hs)
  case Nil
  show ?case by code_simp
next
  case (Cons h hs)
  obtain name v where h: "h = (name, v)" by (cases h)
  from Cons.prems h have hv: "header_ok (name, v)" by simp
  then have ok: "name \<noteq> []" "list_all token_char name" "list_all (\<lambda>c. c \<noteq> CHR 0x0D \<and> c \<noteq> CHR 0x0A) v"
    unfolding header_ok_def fst_conv snd_conv by blast+
  from ok(3) have nl: "CHR 0x0A \<notin> set v" by (auto simp: list_all_iff)
  note tok = token_trim[OF ok(1,2)]
  let ?l = "name @ CHR '':'' # CHR '' '' # v @ [CHR 0x0D]" and
    ?rest = "concat (map (\<lambda>(name, v). name @ '': '' @ v @ CRLF) hs) @ CRLF"
  have "concat (map (\<lambda>(name, v). name @ '': '' @ v @ CRLF) (h # hs)) @ CRLF = ?l @ CHR 0x0A # ?rest"
    by (simp add: h CRLF_def)
  moreover have line: "CHR 0x0A \<notin> set ?l" using tok(3) nl by auto
  moreover have number: "rtsp_trim (CHR '' '' # v @ [CHR 0x0D]) = v" if "map tolower name = ''cseq''"
  proof -
    from header_number[OF hv that] have "v \<noteq> []" "isdigit (hd v)" "isdigit (last v)" by (auto simp: list_all_iff)
    then show ?thesis by (intro rtsp_trim_core(2)) (auto dest: digit_inside)
  qed
  moreover have "find_header (split (?l @ CHR 0x0A # ?rest) (CHR 0x0A)) ''cseq'' =
      (if map tolower name = ''cseq'' then v else find_header (split ?rest (CHR 0x0A)) ''cseq'')"
    unfolding split_line[OF line] find_header.simps cut_colon_append[OF tok(2)] option.case prod.case tok(1) rtsp_lower_def
    using number by (cases "map tolower name = ''cseq''") (simp_all only: if_True if_False refl)
  moreover have "list_all header_ok hs" using Cons.prems by simp
  ultimately show ?case using Cons.IH
    by (cases "map tolower name = ''cseq''") (simp_all only: h find.simps fst_conv simp_thms if_True if_False option.case prod.case)
qed

lemma getCSeq_request: "request_ok m uri hs \<Longrightarrow> getCSeq (rtsp_request m uri hs) = cseq_of hs"
proof -
  assume ok: "request_ok m uri hs"
  let ?l = "m @ CHR '' '' # uri @ [CHR 0x0D]" and
    ?rest = "concat (map (\<lambda>(name, v). name @ '': '' @ v @ CRLF) hs) @ CRLF"
  from ok have m: "m \<noteq> []" "list_all token_char m" "map tolower m \<noteq> ''cseq''" and hs: "list_all header_ok hs"
    by (simp_all add: request_ok_def)
  have eq: "rtsp_request m uri hs = ?l @ CHR 0x0A # ?rest" by (simp add: rtsp_request_def CRLF_def)
  from ok have "list_all (\<lambda>c. c \<noteq> CHR 0x0D \<and> c \<noteq> CHR 0x0A) uri" by (simp only: request_ok_def)
  then have "CHR 0x0A \<notin> set uri" by (auto simp: list_all_iff)
  with token_trim(3)[OF m(1,2)] have line: "CHR 0x0A \<notin> set ?l" by auto
  have "find_header (?l # ls) ''cseq'' = find_header ls ''cseq''" for ls
  proof (cases "cut_colon ?l")
    case (Some kv)
    obtain k v where kv: "kv = (k, v)" by (cases kv)
    with Some have "cut_colon ?l = Some (k, v)" by simp
    from cut_colon_after[OF token_trim(2)[OF m(1,2)] _ this] obtain k' where "k = m @ CHR '' '' # k'" by auto
    with first_line_key[OF m] have "rtsp_lower (rtsp_trim k) \<noteq> ''cseq''" by simp
    with Some kv show ?thesis unfolding find_header.simps by (simp only: option.case prod.case if_False)
  qed (simp only: find_header.simps option.case)
  moreover have "rtsp_lower ''CSeq'' = ''cseq''" by code_simp
  ultimately have "getHeader (rtsp_request m uri hs) ''CSeq'' =
      (case find (\<lambda>h. map tolower (fst h) = ''cseq'') hs of None \<Rightarrow> [] | Some (name, v) \<Rightarrow> v)"
    unfolding getHeader_def eq split_line[OF line] by (simp only: find_header_headers[OF hs])
  moreover have "v \<noteq> []" if "find (\<lambda>h. map tolower (fst h) = ''cseq'') hs = Some (name, v)" for name v
  proof -
    from that obtain i where "i < length hs" "hs ! i = (name, v)" "map tolower (fst (name, v)) = ''cseq''"
      unfolding find_Some_iff by metis
    with hs have "header_ok (name, v)" "map tolower name = ''cseq''" by (metis list_all_length, simp only: fst_conv)
    from header_number[OF this] show ?thesis by simp
  qed
  ultimately show ?thesis by (auto simp: getCSeq_def cseq_of_def Let_def split: option.split)
qed

text \<open>
  Claim C31. Every reply of the RTSP server carries the CSeq of the request it answers: its second line is the header
  with the number of the request's first CSeq header, or with 1 when the request has none, whatever the
  method, known or not.\<close>

theorem reply_carries_cseq:
  assumes "request_ok m uri hs"
  shows "\<exists>status rest. fst (rtsp_reply config (rtsp_request m uri hs)) =
      ''RTSP/1.0 '' @ status @ CRLF @ ''CSeq: '' @ cseq_of hs @ CRLF @ rest \<and> CHR 0x0A \<notin> set status"
proof -
  have show_405: "show_int 405 = ''405''" by code_simp
  have "\<exists>status rest. fst (rtsp_reply config (rtsp_request m uri hs)) = reply_head status (cseq_of hs) @ rest \<and>
      CHR 0x0A \<notin> set status"
    unfolding rtsp_reply_def getCSeq_request[OF assms] Let_def
    using show_405
    by (auto simp: makeOptionsResponse_def makeDescribeResponse_def makeSetupResponse_def
        makePlayResponse_def makeTeardownResponse_def makeErrorResponse_def)
  then obtain status rest where "fst (rtsp_reply config (rtsp_request m uri hs)) = reply_head status (cseq_of hs) @ rest"
    "CHR 0x0A \<notin> set status" by blast
  then show ?thesis by (intro exI[of _ status] exI[of _ rest]) (simp add: reply_head_def)
qed

theorem reply_carries_cseq_witness:
  "cseq_of [(''User-Agent'', ''a:b''), (''cseq'', ''42''), (''CSeq'', ''7'')] = ''42'' \<and>
   (\<exists>status rest. fst (rtsp_reply default_rtsp_config
        (rtsp_request ''OPTIONS'' ''rtsp://10.0.0.2:8554/live RTSP/1.0'' [(''User-Agent'', ''a:b''), (''cseq'', ''42''), (''CSeq'', ''7'')])) =
      ''RTSP/1.0 '' @ status @ CRLF @ ''CSeq: 42'' @ CRLF @ rest)"
proof -
  let ?hs = "[(''User-Agent'', ''a:b''), (''cseq'', ''42''), (''CSeq'', ''7'')]"
  have "request_ok ''OPTIONS'' ''rtsp://10.0.0.2:8554/live RTSP/1.0'' ?hs" by code_simp
  moreover have c: "cseq_of ?hs = ''42''" by code_simp
  ultimately show ?thesis using reply_carries_cseq[of "''OPTIONS''" _ ?hs default_rtsp_config] by fastforce
qed

end
