(* ===== verification/Tri_PrivateControl.thy ===== *)
theory Tri_PrivateControl
  imports Tri_Sockets
begin

text \<open>
  The private HTTP control server (protocol/private/PrivateControlServer.cpp): its mode and
  composite-control vocabulary, the parsing of paths, the JSON answers, the request handlers with the
  state they report, and the start, the turns and the stop of the server. The callbacks that carry
  out a request are parameters that act on the world.
\<close>

subsection \<open>Vocabulary\<close>

datatype PrivateWorkMode =
    VisibleOnly | LowlightOnly | ThermalOnly | LowlightThermalComposite | VisibleLowlightFusion
  | VisibleThermalFusion | VisibleCompositeFusion

datatype PrivateCompositeControlKind = Unknown | FusionColor | ContourMode | InfraredPolarity

fun toString_PrivateWorkMode :: "PrivateWorkMode \<Rightarrow> string" where
  "toString_PrivateWorkMode VisibleOnly = ''VISIBLE_ONLY''"
| "toString_PrivateWorkMode LowlightOnly = ''LOWLIGHT_ONLY''"
| "toString_PrivateWorkMode ThermalOnly = ''THERMAL_ONLY''"
| "toString_PrivateWorkMode LowlightThermalComposite = ''LOWLIGHT_THERMAL_COMPOSITE''"
| "toString_PrivateWorkMode VisibleLowlightFusion = ''VISIBLE_LOWLIGHT_FUSION''"
| "toString_PrivateWorkMode VisibleThermalFusion = ''VISIBLE_THERMAL_FUSION''"
| "toString_PrivateWorkMode VisibleCompositeFusion = ''VISIBLE_COMPOSITE_FUSION''"

fun toCommandName :: "PrivateWorkMode \<Rightarrow> string" where
  "toCommandName VisibleOnly = ''visible''"
| "toCommandName LowlightOnly = ''lowlight''"
| "toCommandName ThermalOnly = ''thermal''"
| "toCommandName LowlightThermalComposite = ''lowlight_thermal''"
| "toCommandName VisibleLowlightFusion = ''visible_lowlight''"
| "toCommandName VisibleThermalFusion = ''visible_thermal''"
| "toCommandName VisibleCompositeFusion = ''visible_composite''"

definition privateWorkModeFromCommandName :: "string \<Rightarrow> PrivateWorkMode option" where
  "privateWorkModeFromCommandName name =
     (if name = ''visible'' \<or> name = ''1'' \<or> name = ''VISIBLE_ONLY'' then Some VisibleOnly
      else if name = ''lowlight'' \<or> name = ''2'' \<or> name = ''LOWLIGHT_ONLY'' then Some LowlightOnly
      else if name = ''thermal'' \<or> name = ''3'' \<or> name = ''THERMAL_ONLY'' then Some ThermalOnly
      else if name = ''lowlight_thermal'' \<or> name = ''4'' \<or> name = ''LOWLIGHT_THERMAL_COMPOSITE''
      then Some LowlightThermalComposite
      else if name = ''visible_lowlight'' \<or> name = ''5'' \<or> name = ''VISIBLE_LOWLIGHT_FUSION''
      then Some VisibleLowlightFusion
      else if name = ''visible_thermal'' \<or> name = ''6'' \<or> name = ''VISIBLE_THERMAL_FUSION''
      then Some VisibleThermalFusion
      else if name = ''visible_composite'' \<or> name = ''7'' \<or> name = ''VISIBLE_COMPOSITE_FUSION''
      then Some VisibleCompositeFusion
      else None)"

fun toString_ControlKind :: "PrivateCompositeControlKind \<Rightarrow> string" where
  "toString_ControlKind FusionColor = ''fusion_color''"
| "toString_ControlKind ContourMode = ''contour_mode''"
| "toString_ControlKind InfraredPolarity = ''infrared_polarity''"
| "toString_ControlKind Unknown = ''unknown''"

record PrivateCompositeControlRequest =
  pq_kind :: PrivateCompositeControlKind
  pq_name :: string
  pq_valueName :: string
  pq_value :: u16

record PrivateControlServerConfig =
  pf_bindAddress :: string
  pf_port :: u16
  pf_backlog :: int

definition default_private_config :: PrivateControlServerConfig where
  "default_private_config = \<lparr>pf_bindAddress = ''0.0.0.0'', pf_port = 18080, pf_backlog = 8\<rparr>"

record PrivateControlResult =
  pr_ok :: bool
  pr_message :: string
  pr_currentMode :: string

record PrivateCompositeRegisterValue =
  pg_index :: int
  pg_name :: string
  pg_displayName :: string
  pg_address :: u16
  pg_rawValue :: u16
  pg_value :: int
  pg_valueName :: string

record PrivateCompositeConfigSnapshot =
  ps_ok :: bool
  ps_message :: string
  ps_registers :: "PrivateCompositeRegisterValue list"

text \<open>\<open>splitTwo\<close>: the two parts of a path with exactly one slash, neither of them empty.\<close>

definition splitTwo :: "string \<Rightarrow> (string \<times> string) option" where
  "splitTwo path =
     (let a = takeWhile (\<lambda>c. c \<noteq> CHR ''/'') path; b = drop (length a + 1) path in
      if CHR ''/'' \<notin> set path \<or> a = [] \<or> b = [] \<or> CHR ''/'' \<in> set b then None else Some (a, b))"

definition parseFusionColor :: "string \<Rightarrow> (u16 \<times> string) option" where
  "parseFusionColor text =
     (let s = normalize_lower text in
      if s \<in> {''1'', ''blackwhite'', ''bw'', ''mono'', ''monochrome''} then Some (1, ''black_white'')
      else if s \<in> {''2'', ''forest''} then Some (2, ''forest'')
      else if s \<in> {''3'', ''snow''} then Some (3, ''snow'')
      else if s \<in> {''4'', ''ocean'', ''sea''} then Some (4, ''ocean'')
      else if s \<in> {''5'', ''city'', ''urban''} then Some (5, ''city'')
      else if s \<in> {''6'', ''desert''} then Some (6, ''desert'')
      else if s \<in> {''7'', ''default'', ''normal''} then Some (7, ''default'')
      else None)"

definition parseContourMode :: "string \<Rightarrow> (u16 \<times> string) option" where
  "parseContourMode text =
     (let s = normalize_lower text in
      if s \<in> {''0'', ''off'', ''close'', ''none'', ''disable'', ''disabled''} then Some (0, ''off'')
      else if s \<in> {''1'', ''red''} then Some (1, ''red'')
      else if s \<in> {''2'', ''green''} then Some (2, ''green'')
      else if s \<in> {''3'', ''blue''} then Some (3, ''blue'')
      else if s \<in> {''4'', ''purple'', ''violet''} then Some (4, ''purple'')
      else None)"

definition parseInfraredPolarity :: "string \<Rightarrow> (u16 \<times> string) option" where
  "parseInfraredPolarity text =
     (let s = normalize_lower text in
      if s \<in> {''0'', ''whitehot'', ''white''} then Some (0, ''white_hot'')
      else if s \<in> {''1'', ''blackhot'', ''black''} then Some (1, ''black_hot'')
      else None)"

definition control_request ::
  "PrivateCompositeControlKind \<Rightarrow> string \<Rightarrow> (u16 \<times> string) option \<Rightarrow> PrivateCompositeControlRequest option" where
  "control_request kind name parsed =
     map_option (\<lambda>(v, canonical). \<lparr>pq_kind = kind, pq_name = name, pq_valueName = canonical, pq_value = v\<rparr>) parsed"

definition parseCompositeControlPath :: "string \<Rightarrow> PrivateCompositeControlRequest option" where
  "parseCompositeControlPath subPath =
     (case splitTwo subPath of
        None \<Rightarrow> None
      | Some (name, valueText) \<Rightarrow>
          let key = normalize_lower name in
          if key \<in> {''fusioncolor'', ''color''}
          then control_request FusionColor ''fusion_color'' (parseFusionColor valueText)
          else if key \<in> {''contour'', ''contourmode'', ''outline'', ''outlinemode''}
          then control_request ContourMode ''contour'' (parseContourMode valueText)
          else if key \<in> {''infraredpolarity'', ''irpolarity'', ''polarity''}
          then control_request InfraredPolarity ''infrared_polarity'' (parseInfraredPolarity valueText)
          else None)"

subsection \<open>Answers\<close>

fun jsonEscape :: "string \<Rightarrow> string" where
  "jsonEscape [] = []"
| "jsonEscape (c # cs) =
     (if c = CHR 0x5C then [CHR 0x5C, CHR 0x5C]
      else if c = CHR 0x22 then [CHR 0x5C, CHR 0x22]
      else if c = CHR 0x0A then [CHR 0x5C, CHR ''n'']
      else if c = CHR 0x0D then [CHR 0x5C, CHR ''r'']
      else if c = CHR 0x09 then [CHR 0x5C, CHR ''t'']
      else [c]) @ jsonEscape cs"

definition http_head :: "int \<Rightarrow> string \<Rightarrow> nat \<Rightarrow> string" where
  "http_head statusCode statusText len =
     ''HTTP/1.1 '' @ show_int statusCode @ '' '' @ statusText @ CRLF @
     ''Content-Type: application/json'' @ CRLF @
     ''Content-Length: '' @ show_nat len @ CRLF @
     ''Connection: close'' @ CRLF @
     ''Access-Control-Allow-Origin: *'' @ CRLF @ CRLF"

definition httpJson :: "int \<Rightarrow> string \<Rightarrow> string \<Rightarrow> string" where
  "httpJson statusCode statusText jsonBody = http_head statusCode statusText (length jsonBody) @ jsonBody"

text \<open>A quoted text, and a member of an object with a text or a literal value.\<close>

definition quoted :: "string \<Rightarrow> string" where
  "quoted s = CHR 0x22 # s @ [CHR 0x22]"

definition member_text :: "string \<Rightarrow> string \<Rightarrow> string" where
  "member_text key s = quoted key @ '':'' @ quoted (jsonEscape s)"

definition member_lit :: "string \<Rightarrow> string \<Rightarrow> string" where
  "member_lit key s = quoted key @ '':'' @ s"

definition ok_members :: "bool \<Rightarrow> string" where
  "ok_members ok =
     member_lit ''ok'' (if ok then ''true'' else ''false'') @ '','' @
     member_lit ''result'' (quoted (if ok then ''succeeded'' else ''failed''))"

definition mode_body :: "PrivateControlResult \<Rightarrow> PrivateWorkMode \<Rightarrow> string" where
  "mode_body r target =
     ''{'' @ ok_members (pr_ok r) @ '','' @
     member_text ''mode'' (toString_PrivateWorkMode target) @ '','' @
     member_text ''command'' (toCommandName target) @ '','' @
     member_text ''message'' (pr_message r) @ ''}''"

definition control_body :: "PrivateControlResult \<Rightarrow> PrivateCompositeControlRequest \<Rightarrow> string" where
  "control_body r req =
     ''{'' @ ok_members (pr_ok r) @ '','' @
     member_text ''control'' (pq_name req) @ '','' @
     member_text ''value_name'' (pq_valueName req) @ '','' @
     member_lit ''value'' (show_nat (unat (pq_value req))) @ '','' @
     member_text ''message'' (pr_message r) @ ''}''"

definition register_body :: "PrivateCompositeRegisterValue \<Rightarrow> string" where
  "register_body item =
     ''{'' @ member_lit ''index'' (show_int (pg_index item)) @ '','' @
     member_text ''name'' (pg_name item) @ '','' @
     member_text ''display_name'' (pg_displayName item) @ '','' @
     member_lit ''address'' (quoted (''0x'' @ show_hex (unat (pg_address item)))) @ '','' @
     member_lit ''raw_value'' (show_nat (unat (pg_rawValue item))) @ '','' @
     member_lit ''value'' (show_int (pg_value item)) @ '','' @
     member_text ''value_name'' (pg_valueName item) @ ''}''"

fun comma_separated :: "string list \<Rightarrow> string" where
  "comma_separated [] = []"
| "comma_separated [x] = x"
| "comma_separated (x # xs) = x @ '','' @ comma_separated xs"

definition config_body :: "PrivateCompositeConfigSnapshot \<Rightarrow> string" where
  "config_body snapshot =
     ''{'' @ ok_members (ps_ok snapshot) @ '','' @
     member_text ''message'' (ps_message snapshot) @ '','' @
     quoted ''registers'' @ '':['' @ comma_separated (map register_body (ps_registers snapshot)) @ '']}''"

definition error_body :: "string \<Rightarrow> string \<Rightarrow> string" where
  "error_body message extra =
     ''{'' @ member_lit ''ok'' ''false'' @ '','' @ member_lit ''error'' (quoted message) @ extra @ ''}''"

definition failed_body :: "string \<Rightarrow> string" where
  "failed_body message =
     ''{'' @ member_lit ''ok'' ''false'' @ '','' @ member_lit ''result'' (quoted ''failed'') @ '','' @
     member_lit ''error'' (quoted message) @ ''}''"

definition quoted_list :: "string list \<Rightarrow> string" where
  "quoted_list xs = ''['' @ comma_separated (map quoted xs) @ '']''"

definition unknown_api_body :: string where
  "unknown_api_body =
     error_body ''unknown api'' ('','' @ member_lit ''usage''
       (quoted (''POST /api/v1/mode/{mode}, POST /api/v1/composite/{fusion_color|contour|infrared_polarity}/{value}, '' @
         ''or GET /api/v1/composite/config'')))"

definition unsupported_mode_body :: string where
  "unsupported_mode_body =
     error_body ''unsupported mode'' ('','' @ member_lit ''supported''
       (quoted_list [''visible'', ''lowlight'', ''thermal'', ''lowlight_thermal'', ''visible_lowlight'',
         ''visible_thermal'', ''visible_composite'']))"

definition unsupported_control_body :: string where
  "unsupported_control_body =
     error_body ''unsupported composite control'' ('','' @ member_lit ''supported''
       (''{'' @ member_lit ''fusion_color''
          (quoted_list [''black_white'', ''forest'', ''snow'', ''ocean'', ''city'', ''desert'', ''default'']) @ '','' @
        member_lit ''contour'' (quoted_list [''off'', ''red'', ''green'', ''blue'', ''purple'']) @ '','' @
        member_lit ''infrared_polarity'' (quoted_list [''white_hot'', ''black_hot'']) @ ''}''))"

subsection \<open>The server and its requests\<close>

text \<open>The callbacks may be absent. They act on the world, which holds the pipeline and the sensor, and may not
  return, which is \<open>None\<close>.\<close>

record 'w PrivateControlServer =
  pc_config :: PrivateControlServerConfig
  pc_modeCallback :: "(PrivateWorkMode \<Rightarrow> 'w \<Rightarrow> (PrivateControlResult \<times> 'w) option) option"
  pc_compositeCallback :: "(PrivateCompositeControlRequest \<Rightarrow> 'w \<Rightarrow> (PrivateControlResult \<times> 'w) option) option"
  pc_configQueryCallback :: "('w \<Rightarrow> (PrivateCompositeConfigSnapshot \<times> 'w) option) option"
  pc_running :: bool
  pc_serverThread :: bool
  pc_listenFd :: int
  pc_lastError :: string
  pc_currentMode :: PrivateWorkMode
  pc_fusionColor :: string
  pc_contourMode :: string
  pc_infraredPolarity :: string

definition new_private_server :: "'w PrivateControlServer" where
  "new_private_server =
     \<lparr>pc_config = default_private_config, pc_modeCallback = None, pc_compositeCallback = None,
      pc_configQueryCallback = None, pc_running = False, pc_serverThread = False, pc_listenFd = -1,
      pc_lastError = [], pc_currentMode = LowlightThermalComposite, pc_fusionColor = ''forest'',
      pc_contourMode = ''off'', pc_infraredPolarity = ''white_hot''\<rparr>"

definition answered :: "bool \<Rightarrow> string \<Rightarrow> string" where
  "answered ok body = httpJson (if ok then 200 else 500) (if ok then ''OK'' else ''Internal Server Error'') body"

definition no_callback :: "string \<Rightarrow> PrivateControlResult" where
  "no_callback message = \<lparr>pr_ok = False, pr_message = message, pr_currentMode = []\<rparr>"

definition handleModeRequest ::
  "string \<Rightarrow> string \<Rightarrow> 'w PrivateControlServer \<Rightarrow> 'w \<Rightarrow> (string \<times> 'w PrivateControlServer \<times> 'w) option" where
  "handleModeRequest httpMethod modeName s w =
     (if httpMethod \<noteq> ''POST'' \<and> httpMethod \<noteq> ''GET''
      then Some (httpJson 405 ''Method Not Allowed'' (failed_body ''method must be POST or GET''), s, w)
      else case privateWorkModeFromCommandName modeName of
        None \<Rightarrow> Some (httpJson 400 ''Bad Request'' unsupported_mode_body, s, w)
      | Some target \<Rightarrow>
          do { (result, w) \<leftarrow> (case pc_modeCallback s of
                   Some callback \<Rightarrow> callback target w
                 | None \<Rightarrow> Some (no_callback ''mode switch callback is not installed'', w));
               Some (answered (pr_ok result) (mode_body result target),
                     if pr_ok result then s\<lparr>pc_currentMode := target\<rparr> else s, w) })"

definition record_control ::
  "PrivateCompositeControlRequest \<Rightarrow> 'w PrivateControlServer \<Rightarrow> 'w PrivateControlServer" where
  "record_control req s =
     (case pq_kind req of
        FusionColor \<Rightarrow> s\<lparr>pc_fusionColor := pq_valueName req\<rparr>
      | ContourMode \<Rightarrow> s\<lparr>pc_contourMode := pq_valueName req\<rparr>
      | InfraredPolarity \<Rightarrow> s\<lparr>pc_infraredPolarity := pq_valueName req\<rparr>
      | Unknown \<Rightarrow> s)"

definition handleCompositeRequest ::
  "string \<Rightarrow> string \<Rightarrow> 'w PrivateControlServer \<Rightarrow> 'w \<Rightarrow> (string \<times> 'w PrivateControlServer \<times> 'w) option" where
  "handleCompositeRequest httpMethod subPath s w =
     (if httpMethod \<noteq> ''POST'' \<and> httpMethod \<noteq> ''GET''
      then Some (httpJson 405 ''Method Not Allowed'' (failed_body ''method must be POST or GET''), s, w)
      else case parseCompositeControlPath subPath of
        None \<Rightarrow> Some (httpJson 400 ''Bad Request'' unsupported_control_body, s, w)
      | Some req \<Rightarrow>
          do { (result, w) \<leftarrow> (case pc_compositeCallback s of
                   Some callback \<Rightarrow> callback req w
                 | None \<Rightarrow> Some (no_callback ''composite control callback is not installed'', w));
               Some (answered (pr_ok result) (control_body result req),
                     if pr_ok result then record_control req s else s, w) })"

definition handleCompositeConfigRequest ::
  "string \<Rightarrow> 'w PrivateControlServer \<Rightarrow> 'w \<Rightarrow> (string \<times> 'w PrivateControlServer \<times> 'w) option" where
  "handleCompositeConfigRequest httpMethod s w =
     (if httpMethod \<noteq> ''GET'' \<and> httpMethod \<noteq> ''POST''
      then Some (httpJson 405 ''Method Not Allowed'' (failed_body ''method must be GET or POST''), s, w)
      else
        do { (snapshot, w) \<leftarrow> (case pc_configQueryCallback s of
                 Some callback \<Rightarrow> callback w
               | None \<Rightarrow>
                   Some (\<lparr>ps_ok = False, ps_message = ''composite config query callback is not installed'',
                          ps_registers = []\<rparr>, w));
             Some (answered (ps_ok snapshot) (config_body snapshot), s, w) })"

definition status_commands :: string where
  "status_commands =
     quoted ''commands'' @ '':{'' @
     member_lit ''1'' (quoted ''/api/v1/mode/visible'') @ '','' @
     member_lit ''2'' (quoted ''/api/v1/mode/lowlight'') @ '','' @
     member_lit ''3'' (quoted ''/api/v1/mode/thermal'') @ '','' @
     member_lit ''4'' (quoted ''/api/v1/mode/lowlight_thermal'') @ '','' @
     member_lit ''5'' (quoted ''/api/v1/mode/visible_lowlight'') @ '','' @
     member_lit ''6'' (quoted ''/api/v1/mode/visible_thermal'') @ '','' @
     member_lit ''7'' (quoted ''/api/v1/mode/visible_composite'') @ ''}''"

definition status_controls :: string where
  "status_controls =
     quoted ''composite_controls'' @ '':{'' @
     member_lit ''fusion_color''
       (quoted ''/api/v1/composite/fusion_color/{black_white|forest|snow|ocean|city|desert|default}'') @ '','' @
     member_lit ''contour'' (quoted ''/api/v1/composite/contour/{off|red|green|blue|purple}'') @ '','' @
     member_lit ''infrared_polarity''
       (quoted ''/api/v1/composite/infrared_polarity/{white_hot|black_hot}'') @ '','' @
     member_lit ''query_config'' (quoted ''/api/v1/composite/config'') @ ''}''"

definition status_body :: "'w PrivateControlServer \<Rightarrow> string" where
  "status_body s =
     ''{'' @ member_lit ''ok'' ''true'' @ '','' @
     member_lit ''server'' (quoted ''private_control'') @ '','' @
     member_lit ''control_port'' (show_nat (unat (pf_port (pc_config s)))) @ '','' @
     member_text ''current_mode'' (toString_PrivateWorkMode (pc_currentMode s)) @ '','' @
     quoted ''current_composite'' @ '':{'' @
     member_text ''fusion_color'' (pc_fusionColor s) @ '','' @
     member_text ''contour'' (pc_contourMode s) @ '','' @
     member_text ''infrared_polarity'' (pc_infraredPolarity s) @ ''},'' @
     status_commands @ '','' @ status_controls @ ''}''"

definition handleStatusRequest :: "'w PrivateControlServer \<Rightarrow> string" where
  "handleStatusRequest s = httpJson 200 ''OK'' (status_body s)"

definition http_method :: "string \<Rightarrow> string" where
  "http_method request =
     (if CHR '' '' \<in> set request then takeWhile (\<lambda>c. c \<noteq> CHR '' '') request else [])"

definition parsePath :: "string \<Rightarrow> string" where
  "parsePath request =
     (let rest = drop 1 (dropWhile (\<lambda>c. c \<noteq> CHR '' '') request) in
      if CHR '' '' \<in> set request \<and> CHR '' '' \<in> set rest then takeWhile (\<lambda>c. c \<noteq> CHR '' '') rest else [])"

definition handleHttpRequest ::
  "string \<Rightarrow> 'w PrivateControlServer \<Rightarrow> 'w \<Rightarrow> (string \<times> 'w PrivateControlServer \<times> 'w) option" where
  "handleHttpRequest request s w =
     (let httpMethod = http_method request; path = parsePath request in
      if path = ''/api/v1/status'' then Some (handleStatusRequest s, s, w)
      else if startsWith path ''/api/v1/mode/''
      then handleModeRequest httpMethod (drop (length ''/api/v1/mode/'') path) s w
      else if path = ''/api/v1/composite/config'' \<or> path = ''/api/v1/composite/configuration''
      then handleCompositeConfigRequest httpMethod s w
      else if startsWith path ''/api/v1/composite/''
      then handleCompositeRequest httpMethod (drop (length ''/api/v1/composite/'') path) s w
      else Some (httpJson 404 ''Not Found'' unknown_api_body, s, w))"

definition kRecvBufferSize :: nat where
  "kRecvBufferSize = 4096"

text \<open>One receive gives the request. The bytes of the answer go through the loop of \<open>sendAll\<close>.\<close>

definition handleClient ::
  "'w sockets \<Rightarrow> int \<Rightarrow> 'w PrivateControlServer \<Rightarrow> 'w \<Rightarrow> ('w PrivateControlServer \<times> 'w) option" where
  "handleClient sk clientFd s w =
     (case sk_recv sk clientFd (kRecvBufferSize - 1) w of
        ([], w) \<Rightarrow> Some (s, w)
      | (request, w) \<Rightarrow>
          do { (response, s, w) \<leftarrow> handleHttpRequest request s w;
               Some (s, snd (sendAll sk clientFd (text_bytes response) w)) })"

text \<open>One turn of \<open>runLoop\<close>.\<close>

definition private_turn ::
  "'w sockets \<Rightarrow> 'w PrivateControlServer \<Rightarrow> 'w \<Rightarrow> ('w PrivateControlServer \<times> 'w) option" where
  "private_turn sk s w =
     (if \<not> pc_running s then Some (s, w)
      else case sk_accept sk (pc_listenFd s) w of
        (Inl e, w) \<Rightarrow> Some (s\<lparr>pc_lastError := ''accept failed: '' @ e\<rparr>, w)
      | (Inr clientFd, w) \<Rightarrow>
          do { (s, w) \<leftarrow> handleClient sk clientFd s w; Some (s, sk_close sk clientFd w) })"

definition pc_fail :: "string \<Rightarrow> 'w PrivateControlServer \<Rightarrow> 'w \<Rightarrow> bool \<times> 'w PrivateControlServer \<times> 'w" where
  "pc_fail e s w = (False, s\<lparr>pc_lastError := e, pc_listenFd := -1\<rparr>, w)"

definition pc_bound ::
  "'w sockets \<Rightarrow> int \<Rightarrow> string option \<Rightarrow> 'w PrivateControlServer \<Rightarrow> 'w \<Rightarrow> bool \<times> 'w PrivateControlServer \<times> 'w" where
  "pc_bound sk fd address s w =
     (case sk_bind sk fd address (pf_port (pc_config s)) w of
        (Some e, w) \<Rightarrow> pc_fail (''bind failed: '' @ e) s (sk_close sk fd w)
      | (None, w) \<Rightarrow>
          (case sk_listen sk fd (pf_backlog (pc_config s)) w of
             (Some e, w) \<Rightarrow> pc_fail (''listen failed: '' @ e) s (sk_close sk fd w)
           | (None, w) \<Rightarrow>
               (True, s\<lparr>pc_listenFd := fd, pc_running := True, pc_serverThread := True, pc_lastError := []\<rparr>, w)))"

definition pc_opened ::
  "'w sockets \<Rightarrow> int \<Rightarrow> 'w PrivateControlServer \<Rightarrow> 'w \<Rightarrow> bool \<times> 'w PrivateControlServer \<times> 'w" where
  "pc_opened sk fd s w =
     (let host = pf_bindAddress (pc_config s) in
      if host = [] \<or> host = ''0.0.0.0'' then pc_bound sk fd None s w
      else if \<not> sk_aton sk host then pc_fail (''invalid bind address: '' @ host) s (sk_close sk fd w)
      else pc_bound sk fd (Some host) s w)"

definition pc_start ::
  "'w sockets \<Rightarrow> PrivateControlServerConfig \<Rightarrow>
   (PrivateWorkMode \<Rightarrow> 'w \<Rightarrow> (PrivateControlResult \<times> 'w) option) option \<Rightarrow>
   (PrivateCompositeControlRequest \<Rightarrow> 'w \<Rightarrow> (PrivateControlResult \<times> 'w) option) option \<Rightarrow>
   ('w \<Rightarrow> (PrivateCompositeConfigSnapshot \<times> 'w) option) option \<Rightarrow>
   'w PrivateControlServer \<Rightarrow> 'w \<Rightarrow> bool \<times> 'w PrivateControlServer \<times> 'w" where
  "pc_start sk config modeCallback compositeCallback configQueryCallback s w =
     (if pc_running s then (False, s\<lparr>pc_lastError := ''private control server already running''\<rparr>, w)
      else if modeCallback = None
      then (False, s\<lparr>pc_lastError := ''private control server mode callback is empty''\<rparr>, w)
      else
        let s = s\<lparr>pc_config := config, pc_modeCallback := modeCallback,
                  pc_compositeCallback := compositeCallback, pc_configQueryCallback := configQueryCallback\<rparr> in
        case sk_socket sk w of
          (Inl e, w) \<Rightarrow> pc_fail (''socket failed: '' @ e) s w
        | (Inr fd, w) \<Rightarrow> pc_opened sk fd s (sk_reuse sk fd w))"

text \<open>\<open>stop\<close> closes the listening socket and joins the thread; \<open>None\<close> when the thread does not end.\<close>

definition pc_stop ::
  "'w sockets \<Rightarrow> ('w \<Rightarrow> 'w option) \<Rightarrow> 'w PrivateControlServer \<Rightarrow> 'w \<Rightarrow> ('w PrivateControlServer \<times> 'w) option" where
  "pc_stop sk join s w =
     (if \<not> pc_running s then Some (s, w)
      else
        let w = (if 0 \<le> pc_listenFd s then sk_close sk (pc_listenFd s) w else w) in
        do {
          w \<leftarrow> (if pc_serverThread s then join w else Some w);
          Some (s\<lparr>pc_running := False, pc_listenFd := -1, pc_serverThread := False\<rparr>, w) })"

subsection \<open>Escaped text is read back\<close>

text \<open>A reader of JSON strings (RFC 8259, 7) after the opening quote: it stops at the closing quote,
  undoes the escapes and refuses raw control characters.\<close>

definition json_unescape :: "char \<Rightarrow> char option" where
  "json_unescape c =
     (if c = CHR 0x22 \<or> c = CHR 0x5C \<or> c = CHR ''/'' then Some c
      else if c = CHR ''b'' then Some (CHR 0x08)
      else if c = CHR ''f'' then Some (CHR 0x0C)
      else if c = CHR ''n'' then Some (CHR 0x0A)
      else if c = CHR ''r'' then Some (CHR 0x0D)
      else if c = CHR ''t'' then Some (CHR 0x09)
      else None)"

fun json_string :: "string \<Rightarrow> (string \<times> string) option" where
  "json_string [] = None"
| "json_string (c # cs) =
     (if c = CHR 0x22 then Some ([], cs)
      else if c = CHR 0x5C
      then (case cs of
              [] \<Rightarrow> None
            | d # ds \<Rightarrow> do { x \<leftarrow> json_unescape d; (s, rest) \<leftarrow> json_string ds; Some (x # s, rest) })
      else if chr_code c < 32 then None
      else do { (s, rest) \<leftarrow> json_string cs; Some (c # s, rest) })"

definition json_printable :: "char \<Rightarrow> bool" where
  "json_printable c \<longleftrightarrow> 32 \<le> chr_code c \<or> c = CHR 0x0A \<or> c = CHR 0x0D \<or> c = CHR 0x09"

text \<open>
  Claim C28. The JSON texts of the answers are read back: a JSON reader gives the text that
  \<open>jsonEscape\<close> was applied to and stops at the closing quote, whatever follows, unless the text has a
  control character other than newline, carriage return and tab, which makes the answer malformed.\<close>

theorem json_escape_read_back:
  "json_string (jsonEscape s @ CHR 0x22 # rest) =
     (if list_all json_printable s then Some (s, rest) else None)"
proof (induction s)
  case (Cons c s)
  have "chr_code c < 32 \<longleftrightarrow> \<not> 32 \<le> chr_code c" by arith
  with Cons show ?case
    by (auto simp: json_unescape_def json_printable_def chr_code_def)
qed simp

subsection \<open>Composite controls\<close>

text \<open>The register values a control may carry.\<close>

definition control_values :: "PrivateCompositeControlKind \<Rightarrow> u16 set" where
  "control_values kind =
     (case kind of FusionColor \<Rightarrow> {1..7} | ContourMode \<Rightarrow> {0..4} | InfraredPolarity \<Rightarrow> {0, 1} | Unknown \<Rightarrow> {})"

definition canonical_path :: "PrivateCompositeControlRequest \<Rightarrow> string" where
  "canonical_path req = pq_name req @ ''/'' @ pq_valueName req"

definition canonical_values :: "PrivateCompositeControlKind \<Rightarrow> (u16 \<times> string) list" where
  "canonical_values kind =
     (case kind of
        FusionColor \<Rightarrow>
          [(1, ''black_white''), (2, ''forest''), (3, ''snow''), (4, ''ocean''), (5, ''city''), (6, ''desert''),
           (7, ''default'')]
      | ContourMode \<Rightarrow> [(0, ''off''), (1, ''red''), (2, ''green''), (3, ''blue''), (4, ''purple'')]
      | InfraredPolarity \<Rightarrow> [(0, ''white_hot''), (1, ''black_hot'')]
      | Unknown \<Rightarrow> [])"

definition canonical_of :: "PrivateCompositeControlKind \<Rightarrow> string \<Rightarrow> PrivateCompositeControlRequest list" where
  "canonical_of kind name =
     map (\<lambda>(v, n). \<lparr>pq_kind = kind, pq_name = name, pq_valueName = n, pq_value = v\<rparr>) (canonical_values kind)"

definition canonical_requests :: "PrivateCompositeControlRequest list" where
  "canonical_requests =
     canonical_of FusionColor ''fusion_color'' @ canonical_of ContourMode ''contour'' @
     canonical_of InfraredPolarity ''infrared_polarity''"

lemma canonical_requests_parse:
  "list_all (\<lambda>r. parseCompositeControlPath (canonical_path r) = Some r) canonical_requests"
  by code_simp

lemma canonical_requests_values: "list_all (\<lambda>r. pq_value r \<in> control_values (pq_kind r)) canonical_requests"
  by (simp add: canonical_requests_def canonical_of_def canonical_values_def control_values_def)

lemma if_SomeE:
  assumes "(if c then Some x else r) = Some y"
  obtains "y = x" | "r = Some y"
  using assms that by (cases c) simp_all

lemma parse_value_cases:
  "parseFusionColor t = Some vn \<Longrightarrow> vn \<in> set (canonical_values FusionColor)"
  "parseContourMode t = Some vn \<Longrightarrow> vn \<in> set (canonical_values ContourMode)"
  "parseInfraredPolarity t = Some vn \<Longrightarrow> vn \<in> set (canonical_values InfraredPolarity)"
  unfolding parseFusionColor_def parseContourMode_def parseInfraredPolarity_def Let_def
  by (elim if_SomeE; simp add: canonical_values_def)+

lemma control_request_canonical:
  assumes "control_request kind name parsed = Some req"
    and "\<And>vn. parsed = Some vn \<Longrightarrow> vn \<in> set (canonical_values kind)"
  shows "req \<in> set (canonical_of kind name)"
  using assms by (auto simp: control_request_def canonical_of_def split: prod.splits)

lemma if_chain_Some:
  "(if a then x else if b then y else if c then z else None) = Some r \<Longrightarrow> x = Some r \<or> y = Some r \<or> z = Some r"
  by (auto split: if_splits)

lemma parsed_control_canonical:
  assumes "parseCompositeControlPath path = Some req"
  shows "req \<in> set canonical_requests"
proof -
  from assms obtain a b where ab: "splitTwo path = Some (a, b)"
    by (cases "splitTwo path") (auto simp: parseCompositeControlPath_def)
  note chain = if_chain_Some[OF assms[unfolded parseCompositeControlPath_def ab option.case prod.case Let_def]]
  from chain consider
      "control_request FusionColor ''fusion_color'' (parseFusionColor b) = Some req"
    | "control_request ContourMode ''contour'' (parseContourMode b) = Some req"
    | "control_request InfraredPolarity ''infrared_polarity'' (parseInfraredPolarity b) = Some req"
    by blast
  then show ?thesis
    by cases (auto simp only: canonical_requests_def set_append Un_iff
        dest!: control_request_canonical[OF _ parse_value_cases(1)] control_request_canonical[OF _ parse_value_cases(2)]
          control_request_canonical[OF _ parse_value_cases(3)])
qed

text \<open>
  Every composite-control path the server accepts, in any of its spellings, means one
  canonical request: its register value is one the sensor's register has for that control, and the
  path made of the request's own name and value name is accepted as the same request.\<close>

theorem control_path_canonical:
  assumes "parseCompositeControlPath path = Some req"
  shows "parseCompositeControlPath (canonical_path req) = Some req \<and>
     pq_value req \<in> control_values (pq_kind req)"
  using parsed_control_canonical[OF assms] canonical_requests_parse canonical_requests_values
  by (simp add: list_all_iff)

theorem control_path_canonical_witness:
  "\<exists>req. parseCompositeControlPath ''IR-Polarity/Black Hot'' = Some req \<and>
     canonical_path req = ''infrared_polarity/black_hot'' \<and>
     parseCompositeControlPath (canonical_path req) = Some req \<and> pq_value req \<in> control_values (pq_kind req)"
proof -
  let ?req = "\<lparr>pq_kind = InfraredPolarity, pq_name = ''infrared_polarity'', pq_valueName = ''black_hot'',
    pq_value = 1\<rparr>"
  have parsed: "parseCompositeControlPath ''IR-Polarity/Black Hot'' = Some ?req" by code_simp
  have "canonical_path ?req = ''infrared_polarity/black_hot''" by (simp add: canonical_path_def)
  with parsed control_path_canonical[OF parsed] show ?thesis by blast
qed

subsection \<open>Runs of requests\<close>

fun serve :: "string list \<Rightarrow> 'w PrivateControlServer \<Rightarrow> 'w \<Rightarrow> ('w PrivateControlServer \<times> 'w) option" where
  "serve [] s w = Some (s, w)"
| "serve (r # rs) s w = do { (response, s, w) \<leftarrow> handleHttpRequest r s w; serve rs s w }"

subsection \<open>What the callbacks keep\<close>

text \<open>The contract between the server and the program behind it: what every callback keeps, every run of
  requests keeps; when the callbacks return, so does the server.\<close>

definition installed ::
  "(PrivateWorkMode \<Rightarrow> 'w \<Rightarrow> (PrivateControlResult \<times> 'w) option) \<Rightarrow>
   (PrivateCompositeControlRequest \<Rightarrow> 'w \<Rightarrow> (PrivateControlResult \<times> 'w) option) \<Rightarrow>
   ('w \<Rightarrow> (PrivateCompositeConfigSnapshot \<times> 'w) option) \<Rightarrow> 'w PrivateControlServer \<Rightarrow> bool" where
  "installed modeCb controlCb queryCb s \<longleftrightarrow>
     pc_modeCallback s = Some modeCb \<and> pc_compositeCallback s = Some controlCb \<and> pc_configQueryCallback s = Some queryCb"

lemma record_control_callbacks [simp]:
  "pc_modeCallback (record_control req s) = pc_modeCallback s"
  "pc_compositeCallback (record_control req s) = pc_compositeCallback s"
  "pc_configQueryCallback (record_control req s) = pc_configQueryCallback s"
  by (simp_all add: record_control_def split: PrivateCompositeControlKind.split)

locale keeping_callbacks =
  fixes modeCb :: "PrivateWorkMode \<Rightarrow> 'w \<Rightarrow> (PrivateControlResult \<times> 'w) option"
    and controlCb :: "PrivateCompositeControlRequest \<Rightarrow> 'w \<Rightarrow> (PrivateControlResult \<times> 'w) option"
    and queryCb :: "'w \<Rightarrow> (PrivateCompositeConfigSnapshot \<times> 'w) option"
    and keeps :: "'w \<Rightarrow> bool"
  assumes mode_keeps: "keeps w \<Longrightarrow> modeCb m w = Some (r, w') \<Longrightarrow> keeps w'"
    and control_keeps: "keeps w \<Longrightarrow> controlCb req w = Some (r, w') \<Longrightarrow> keeps w'"
    and query_keeps: "keeps w \<Longrightarrow> queryCb w = Some (snapshot, w') \<Longrightarrow> keeps w'"
begin

lemma request_keeps:
  assumes "installed modeCb controlCb queryCb s" "keeps w" "handleHttpRequest r s w = Some (resp, s', w')"
  shows "installed modeCb controlCb queryCb s' \<and> keeps w'"
  using assms
  by (auto simp: handleHttpRequest_def handleModeRequest_def handleCompositeRequest_def handleCompositeConfigRequest_def
      Let_def installed_def elim!: bind_SomeE split: if_splits option.split_asm dest: mode_keeps control_keeps query_keeps)

lemma serve_keeps:
  "installed modeCb controlCb queryCb s \<Longrightarrow> keeps w \<Longrightarrow> serve rs s w = Some (s', w') \<Longrightarrow>
     installed modeCb controlCb queryCb s' \<and> keeps w'"
proof (induction rs arbitrary: s w)
  case (Cons r rs)
  then obtain resp s1 w1 where step: "handleHttpRequest r s w = Some (resp, s1, w1)"
    and rest: "serve rs s1 w1 = Some (s', w')" by (auto elim!: bind_SomeE)
  from request_keeps[OF Cons(2,3) step] Cons(1)[OF _ _ rest] show ?case by simp
qed simp

end

locale answering_callbacks = keeping_callbacks +
  assumes mode_returns: "keeps w \<Longrightarrow> modeCb m w \<noteq> None"
    and control_returns: "keeps w \<Longrightarrow> controlCb req w \<noteq> None"
    and query_returns: "keeps w \<Longrightarrow> queryCb w \<noteq> None"
begin

lemma request_returns:
  assumes "installed modeCb controlCb queryCb s" "keeps w"
  shows "\<exists>resp s' w'. handleHttpRequest r s w = Some (resp, s', w')"
proof -
  from assms(1) have cbs: "pc_modeCallback s = Some modeCb" "pc_compositeCallback s = Some controlCb"
    "pc_configQueryCallback s = Some queryCb" by (simp_all add: installed_def)
  have "\<exists>resp s' w'. handleModeRequest m name s w = Some (resp, s', w')" for m name
  proof (cases "privateWorkModeFromCommandName name")
    case (Some target)
    from mode_returns[OF assms(2)] obtain a v where "modeCb target w = Some (a, v)" by fastforce
    with Some cbs show ?thesis by (simp add: handleModeRequest_def)
  qed (simp add: handleModeRequest_def)
  moreover have "\<exists>resp s' w'. handleCompositeRequest m path s w = Some (resp, s', w')" for m path
  proof (cases "parseCompositeControlPath path")
    case (Some req)
    from control_returns[OF assms(2)] obtain a v where "controlCb req w = Some (a, v)" by fastforce
    with Some cbs show ?thesis by (simp add: handleCompositeRequest_def)
  qed (simp add: handleCompositeRequest_def)
  moreover have "\<exists>resp s' w'. handleCompositeConfigRequest m s w = Some (resp, s', w')" for m
  proof -
    from query_returns[OF assms(2)] obtain a v where "queryCb w = Some (a, v)" by fastforce
    with cbs show ?thesis by (simp add: handleCompositeConfigRequest_def)
  qed
  ultimately show ?thesis unfolding handleHttpRequest_def Let_def by simp
qed

lemma serve_returns:
  "installed modeCb controlCb queryCb s \<Longrightarrow> keeps w \<Longrightarrow>
     \<exists>s' w'. serve rs s w = Some (s', w') \<and> installed modeCb controlCb queryCb s' \<and> keeps w'"
proof (induction rs arbitrary: s w)
  case (Cons r rs)
  from request_returns[OF Cons(2,3)] obtain resp s1 w1 where step: "handleHttpRequest r s w = Some (resp, s1, w1)" by blast
  from request_keeps[OF Cons(2,3) step] Cons(1)[of s1 w1] step show ?case by auto
qed simp

end

subsection \<open>The reported mode\<close>

text \<open>A mode callback that keeps a log of its calls with their outcome.\<close>

type_synonym mode_log = "(PrivateWorkMode \<times> bool) list"

definition logging ::
  "(PrivateWorkMode \<Rightarrow> 'v \<Rightarrow> (PrivateControlResult \<times> 'v) option) \<Rightarrow> PrivateWorkMode \<Rightarrow> 'v \<times> mode_log \<Rightarrow>
   (PrivateControlResult \<times> 'v \<times> mode_log) option" where
  "logging cb m w = do { (r, v) \<leftarrow> cb m (fst w); Some (r, v, snd w @ [(m, pr_ok r)]) }"

text \<open>Callbacks that leave the log alone.\<close>

definition keeps_log :: "('a \<Rightarrow> 'v \<times> mode_log \<Rightarrow> ('b \<times> 'v \<times> mode_log) option) \<Rightarrow> bool" where
  "keeps_log cb \<longleftrightarrow> (\<forall>a v l r v' l'. cb a (v, l) = Some (r, v', l') \<longrightarrow> l' = l)"

definition last_accepted :: "PrivateWorkMode \<Rightarrow> mode_log \<Rightarrow> PrivateWorkMode" where
  "last_accepted m l = foldl (\<lambda>m (m', ok). if ok then m' else m) m l"

definition log_server :: "('v \<times> mode_log) PrivateControlServer \<Rightarrow> bool" where
  "log_server s \<longleftrightarrow>
     (\<exists>cb. pc_modeCallback s = Some (logging cb)) \<and>
     (\<forall>c. pc_compositeCallback s = Some c \<longrightarrow> keeps_log c) \<and>
     (\<forall>c. pc_configQueryCallback s = Some c \<longrightarrow> keeps_log (\<lambda>u::unit. c))"

lemma record_control_simps [simp]:
  "pc_currentMode (record_control req s) = pc_currentMode s"
  "log_server (record_control req s) = log_server s"
  by (simp_all add: record_control_def log_server_def split: PrivateCompositeControlKind.split)

definition logs ::
  "('v \<times> mode_log) PrivateControlServer \<Rightarrow> mode_log \<Rightarrow> ('v \<times> mode_log) PrivateControlServer \<Rightarrow> mode_log \<Rightarrow> bool" where
  "logs s l s' l' \<longleftrightarrow> log_server s' \<and>
     (\<exists>new. l' = l @ new \<and> pc_currentMode s' = last_accepted (pc_currentMode s) new)"

lemma logs_nothing: "log_server s' \<Longrightarrow> pc_currentMode s' = pc_currentMode s \<Longrightarrow> logs s l s' l"
  by (simp add: logs_def last_accepted_def)

lemma mode_request_logged:
  assumes "log_server s" "handleModeRequest m name s (v, l) = Some (resp, s', v', l')"
  shows "logs s l s' l'"
  using assms
  by (auto simp: handleModeRequest_def log_server_def logging_def last_accepted_def logs_def
      elim!: bind_SomeE split: if_splits option.split_asm)

lemma composite_request_logged:
  assumes "log_server s" "handleCompositeRequest m path s (v, l) = Some (resp, s', v', l')"
  shows "logs s l s' l'"
proof (cases "parseCompositeControlPath path")
  case (Some req)
  from assms(1) have "\<forall>c r v1 l1. pc_compositeCallback s = Some c \<longrightarrow> c req (v, l) = Some (r, v1, l1) \<longrightarrow> l1 = l"
    by (auto simp: log_server_def keeps_log_def)
  with assms Some show ?thesis
    by (auto simp: handleCompositeRequest_def intro!: logs_nothing elim!: bind_SomeE split: if_splits option.split_asm)
qed (use assms in \<open>auto simp: handleCompositeRequest_def intro: logs_nothing split: if_splits\<close>)

lemma config_request_logged:
  assumes "log_server s" "handleCompositeConfigRequest m s (v, l) = Some (resp, s', v', l')"
  shows "logs s l s' l'"
proof -
  from assms(1) have "\<forall>c r v1 l1. pc_configQueryCallback s = Some c \<longrightarrow> c (v, l) = Some (r, v1, l1) \<longrightarrow> l1 = l"
    by (auto simp: log_server_def keeps_log_def)
  with assms show ?thesis
    by (auto simp: handleCompositeConfigRequest_def intro!: logs_nothing elim!: bind_SomeE split: if_splits option.split_asm)
qed

lemma request_logged:
  assumes "log_server s" "handleHttpRequest r s (v, l) = Some (resp, s', v', l')"
  shows "logs s l s' l'"
proof -
  have "logs s l s l" using assms(1) by (simp add: logs_nothing)
  with assms(2) mode_request_logged[OF assms(1)] composite_request_logged[OF assms(1)]
    config_request_logged[OF assms(1)] show ?thesis
    unfolding handleHttpRequest_def Let_def by (metis option.inject prod.inject)
qed

lemma serve_logged:
  assumes "log_server s" "serve rs s (v, l) = Some (s', v', l')"
  shows "\<exists>new. l' = l @ new \<and> pc_currentMode s' = last_accepted (pc_currentMode s) new"
  using assms
proof (induction rs arbitrary: s v l)
  case (Cons r rs)
  from Cons(3) obtain resp s1 v1 l1 where step: "handleHttpRequest r s (v, l) = Some (resp, s1, v1, l1)"
    and rest: "serve rs s1 (v1, l1) = Some (s', v', l')" by (auto elim!: bind_SomeE)
  from request_logged[OF Cons(2) step] obtain new1 where s1: "log_server s1" "l1 = l @ new1"
    and m1: "pc_currentMode s1 = last_accepted (pc_currentMode s) new1" by (auto simp: logs_def)
  from Cons(1)[OF s1(1) rest] s1 m1 show ?case
    by (auto simp: last_accepted_def)
qed (simp add: last_accepted_def)

text \<open>
  After any run of requests the status page reports the mode of the last mode request that
  the mode callback accepted, and the mode the server started with when it accepted none: requests
  that are refused, that fail, or that are not about the mode change nothing in it.\<close>

theorem status_reports_last_accepted:
  assumes "log_server s" "serve rs s (v, []) = Some (s', v', l)"
  shows "handleHttpRequest ''GET /api/v1/status HTTP/1.1'' s' (v', l) =
     Some (httpJson 200 ''OK'' (status_body (s'\<lparr>pc_currentMode := last_accepted (pc_currentMode s) l\<rparr>)), s', v', l)"
proof -
  have "parsePath ''GET /api/v1/status HTTP/1.1'' = ''/api/v1/status''" by code_simp
  moreover from serve_logged[OF assms] have "pc_currentMode s' = last_accepted (pc_currentMode s) l" by simp
  then have "s'\<lparr>pc_currentMode := last_accepted (pc_currentMode s) l\<rparr> = s'" by simp
  ultimately show ?thesis by (simp only: handleHttpRequest_def Let_def refl if_True handleStatusRequest_def)
qed

text \<open>Two accepted mode requests with a refused one between them.\<close>

definition sample_server :: "(nat \<times> mode_log) PrivateControlServer" where
  "sample_server = new_private_server
     \<lparr>pc_modeCallback := Some (logging (\<lambda>m n. Some (\<lparr>pr_ok = n \<noteq> 1, pr_message = [], pr_currentMode = []\<rparr>, n + 1)))\<rparr>"

theorem status_reports_last_accepted_witness:
  "\<exists>s' v' l. serve [''POST /api/v1/mode/visible HTTP/1.1'', ''POST /api/v1/mode/thermal HTTP/1.1'',
       ''POST /api/v1/mode/fog HTTP/1.1''] sample_server (0, []) = Some (s', v', l) \<and>
     last_accepted LowlightThermalComposite l = VisibleOnly \<and>
     map_option fst (handleHttpRequest ''GET /api/v1/status HTTP/1.1'' s' (v', l)) =
       Some (httpJson 200 ''OK'' (status_body (s'\<lparr>pc_currentMode := VisibleOnly\<rparr>)))"
proof -
  have ls: "log_server sample_server"
    by (simp add: log_server_def sample_server_def new_private_server_def) (rule exI, rule refl)
  have m: "pc_currentMode sample_server = LowlightThermalComposite"
    by (simp add: sample_server_def new_private_server_def)
  let ?rs = "[''POST /api/v1/mode/visible HTTP/1.1'', ''POST /api/v1/mode/thermal HTTP/1.1'',
    ''POST /api/v1/mode/fog HTTP/1.1'']"
  have log: "map_option (snd \<circ> snd) (serve ?rs sample_server (0, [])) =
      Some [(VisibleOnly, True), (ThermalOnly, False)]" by code_simp
  then obtain s' v' l where run: "serve ?rs sample_server (0, []) = Some (s', v', l)"
    and "l = [(VisibleOnly, True), (ThermalOnly, False)]" by auto
  then have "last_accepted LowlightThermalComposite l = VisibleOnly" by (simp add: last_accepted_def)
  with run status_reports_last_accepted[OF ls run] m show ?thesis by auto
qed

end
