(* ===== verification/Tri_ConfigFile.thy ===== *)
theory Tri_ConfigFile
  imports Tri_Config Tri_Result
begin

text \<open>
  The configuration reader: the flat view of the simple YAML files, the manager that loads the five
  configuration files of the system and the validation of what it loaded
  (foundation/config/ConfigManager.cpp, ConfigValidator.cpp, the file functions of
  foundation/utils/FileUtils.cpp). The file system is a parameter.
\<close>

subsection \<open>FileUtils.cpp\<close>

text \<open>Opening a file may fail. What is written to an opened file is not checked by the code, so the
  outcome of \<open>fl_write\<close> is only whether the file could be opened.\<close>

record 'w files =
  fl_read :: "string \<Rightarrow> 'w \<Rightarrow> string option"
  fl_write :: "string \<Rightarrow> string \<Rightarrow> 'w \<Rightarrow> bool \<times> 'w"

definition readText :: "'w files \<Rightarrow> string \<Rightarrow> 'w \<Rightarrow> string Result" where
  "readText fl path w =
     (case fl_read fl path w of
        None \<Rightarrow> Error IoError (''failed to open file: '' @ path)
      | Some text \<Rightarrow> Inr text)"

definition writeText :: "'w files \<Rightarrow> string \<Rightarrow> string \<Rightarrow> 'w \<Rightarrow> unit Result \<times> 'w" where
  "writeText fl path text w =
     (case fl_write fl path text w of
        (False, w) \<Rightarrow> (Error IoError (''failed to write file: '' @ path), w)
      | (True, w) \<Rightarrow> (Success, w))"

subsection \<open>parseSimpleYaml\<close>

text \<open>The flat map of a file as an association list: a later value of a key comes first and hides the
  earlier ones.\<close>

type_synonym FlatConfig = "(string \<times> string) list"

text \<open>The state of the line loop: the stack of open sections, innermost first, each with its
  indentation; the index of the next list item; and the values so far.\<close>

type_synonym yaml_state = "(nat \<times> string) list \<times> nat \<times> FlatConfig"

fun dotted :: "string list \<Rightarrow> string" where
  "dotted [] = []"
| "dotted [x] = x"
| "dotted (x # xs) = x @ ''.'' @ dotted xs"

definition yaml_entry :: "string \<Rightarrow> nat \<Rightarrow> string \<Rightarrow> yaml_state \<Rightarrow> yaml_state" where
  "yaml_entry t indent prefix st =
     (case st of (stack, _, out) \<Rightarrow>
        let k = takeWhile (\<lambda>c. c \<noteq> CHR '':'') t in
        if CHR '':'' \<notin> set t then (stack, 0, out)
        else
          let key = trim k; v = trim (drop (length k + 1) t) in
          if v = [] then ((indent, key) # stack, 0, out)
          else (stack, 0, ((if prefix = [] then key else prefix @ ''.'' @ key), v) # out))"

definition yaml_line :: "string \<Rightarrow> yaml_state \<Rightarrow> yaml_state" where
  "yaml_line raw st =
     (let line = takeWhile (\<lambda>c. c \<noteq> CHR ''#'') raw in
      if trim line = [] then st
      else case st of (stack, listIndex, out) \<Rightarrow>
        let indent = length (takeWhile (\<lambda>c. c = CHR '' '') line);
            t = trim line;
            stack = dropWhile (\<lambda>(i, _). indent \<le> i) stack;
            prefix = dotted (map snd (rev stack)) in
        if startsWith t ''- ''
        then (stack, listIndex + 1, (prefix @ ''.'' @ show_nat listIndex, trim (drop 2 t)) # out)
        else yaml_entry t indent prefix (stack, listIndex, out))"

definition parse_yaml :: "string \<Rightarrow> FlatConfig" where
  "parse_yaml text = snd (snd (fold yaml_line (split text (CHR 0x0A)) ([], 0, [])))"

definition parseSimpleYaml :: "'w files \<Rightarrow> string \<Rightarrow> 'w \<Rightarrow> FlatConfig Result" where
  "parseSimpleYaml fl path w =
     (case readText fl path w of Inl e \<Rightarrow> rewrap e | Inr text \<Rightarrow> Inr (parse_yaml text))"

subsection \<open>Values\<close>

definition int_min :: int where "int_min = -2147483648"

definition int_max :: int where "int_max = 2147483647"

text \<open>\<open>std::stoi\<close>: leading white space, a sign, digits; \<open>None\<close> when it throws.\<close>

definition stoi_digits :: "int \<Rightarrow> string \<Rightarrow> int option" where
  "stoi_digits sign s =
     (let ds = takeWhile isdigit s; v = sign * int (digits_value ds) in
      if ds = [] \<or> v < int_min \<or> int_max < v then None else Some v)"

definition stoi :: "string \<Rightarrow> int option" where
  "stoi s =
     (case dropWhile isspace s of
        [] \<Rightarrow> None
      | c # cs \<Rightarrow>
          if c = CHR ''-'' then stoi_digits (-1) cs
          else if c = CHR ''+'' then stoi_digits 1 cs
          else stoi_digits 1 (c # cs))"

definition cfg_toInt :: "FlatConfig \<Rightarrow> string \<Rightarrow> int \<Rightarrow> int" where
  "cfg_toInt cfg key fallback =
     (case map_of cfg key of
        None \<Rightarrow> fallback
      | Some v \<Rightarrow> if v = [] then fallback else case stoi v of None \<Rightarrow> fallback | Some i \<Rightarrow> i)"

definition cfg_get :: "FlatConfig \<Rightarrow> string \<Rightarrow> string \<Rightarrow> string" where
  "cfg_get cfg key fallback = (case map_of cfg key of None \<Rightarrow> fallback | Some v \<Rightarrow> unquote v)"

definition cfg_getBool :: "FlatConfig \<Rightarrow> string \<Rightarrow> bool \<Rightarrow> bool" where
  "cfg_getBool cfg key fallback = (case map_of cfg key of None \<Rightarrow> fallback | Some v \<Rightarrow> toBool v fallback)"

subsection \<open>ConfigManager.cpp\<close>

record ConfigManager =
  cfm_config :: SystemConfig
  cfm_loaded :: bool

definition new_config_manager :: ConfigManager where
  "new_config_manager = \<lparr>cfm_config = default_system_config, cfm_loaded = False\<rparr>"

definition visible_of :: "FlatConfig \<Rightarrow> CameraEndpointConfig \<Rightarrow> CameraEndpointConfig" where
  "visible_of m c =
     c\<lparr>ep_enable := cfg_getBool m ''camera.visible.enable'' True,
       ep_name := cfg_get m ''camera.visible.name'' ''visible_camera'',
       ep_videoNode := cfg_get m ''camera.visible.video_node'' ''/dev/tri_visible_video'',
       ep_width := cfg_toInt m ''camera.visible.width'' 1920,
       ep_height := cfg_toInt m ''camera.visible.height'' 1080,
       ep_fps := cfg_toInt m ''camera.visible.fps'' 30,
       ep_format := cfg_get m ''camera.visible.format'' ''mjpeg''\<rparr>"

definition composite_of :: "FlatConfig \<Rightarrow> CameraEndpointConfig" where
  "composite_of m =
     \<lparr>ep_enable = cfg_getBool m ''camera.composite_low_thermal.enable'' True,
      ep_name = cfg_get m ''camera.composite_low_thermal.name'' ''composite_low_thermal_camera'',
      ep_videoNode = cfg_get m ''camera.composite_low_thermal.video_node'' ''/dev/tri_composite_video'',
      ep_metadataNode = cfg_get m ''camera.composite_low_thermal.metadata_node'' ''/dev/tri_composite_meta'',
      ep_width = cfg_toInt m ''camera.composite_low_thermal.width'' 800,
      ep_height = cfg_toInt m ''camera.composite_low_thermal.height'' 600,
      ep_fps = cfg_toInt m ''camera.composite_low_thermal.fps'' 30,
      ep_format = cfg_get m ''camera.composite_low_thermal.format'' ''yuyv422'',
      ep_metadataFormat = cfg_get m ''camera.composite_low_thermal.metadata_format'' ''uvch''\<rparr>"

definition camera_of :: "FlatConfig \<Rightarrow> CameraConfig \<Rightarrow> CameraConfig" where
  "camera_of m c = \<lparr>cc_visible = visible_of m (cc_visible c), cc_compositeLowThermal = composite_of m\<rparr>"

text \<open>The commands of a file are added to those already known.\<close>

definition commands_of :: "FlatConfig \<Rightarrow> (string \<rightharpoonup> string) \<Rightarrow> (string \<rightharpoonup> string)" where
  "commands_of m old k =
     (case map_of m (''serial.composite_sensor.commands.'' @ k) of None \<Rightarrow> old k | Some v \<Rightarrow> Some (unquote v))"

definition serial_of :: "FlatConfig \<Rightarrow> SerialConfig \<Rightarrow> SerialConfig" where
  "serial_of m s =
     \<lparr>sc_enable = cfg_getBool m ''serial.composite_sensor.enable'' True,
      sc_dev = cfg_get m ''serial.composite_sensor.dev'' ''/dev/tri_composite_serial'',
      sc_baudrate = cfg_toInt m ''serial.composite_sensor.baudrate'' 115200,
      sc_databits = cfg_toInt m ''serial.composite_sensor.databits'' 8,
      sc_stopbits = cfg_toInt m ''serial.composite_sensor.stopbits'' 1,
      sc_parity = cfg_get m ''serial.composite_sensor.parity'' ''none'',
      sc_timeoutMs = cfg_toInt m ''serial.composite_sensor.timeout_ms'' 500,
      sc_retryCount = cfg_toInt m ''serial.composite_sensor.retry_count'' 3,
      sc_commands = commands_of m (sc_commands s)\<rparr>"

text \<open>A key \<open>mode.modes.NAME.FIELD\<close>, with no dot in the name, sets a field of a mode.\<close>

definition mode_field :: "FlatConfig \<Rightarrow> string \<Rightarrow> string \<Rightarrow> string option" where
  "mode_field m name field =
     (if CHR ''.'' \<in> set name then None else map_of m (''mode.modes.'' @ name @ ''.'' @ field))"

definition mode_of :: "FlatConfig \<Rightarrow> ModeConfig \<Rightarrow> ModeConfig" where
  "mode_of m c =
     \<lparr>mc_defaultMode = cfg_get m ''mode.default'' ''LOWLIGHT_THERMAL_COMPOSITE'',
      mc_enabledModes = (\<lambda>name. case mode_field m name ''enable'' of
        None \<Rightarrow> mc_enabledModes c name | Some v \<Rightarrow> Some (toBool v True)),
      mc_compositeOutputs = (\<lambda>name. case mode_field m name ''composite_output'' of
        None \<Rightarrow> mc_compositeOutputs c name | Some v \<Rightarrow> Some (unquote v))\<rparr>"

definition media_of :: "FlatConfig \<Rightarrow> MediaConfig" where
  "media_of m =
     \<lparr>md_codec = cfg_get m ''media.main_stream.codec'' ''h264'',
      md_encoder = cfg_get m ''media.main_stream.encoder'' ''mpp'',
      md_width = cfg_toInt m ''media.main_stream.width'' 1920,
      md_height = cfg_toInt m ''media.main_stream.height'' 1080,
      md_fps = cfg_toInt m ''media.main_stream.fps'' 25,
      md_bitrate = cfg_toInt m ''media.main_stream.bitrate'' 4096,
      md_gop = cfg_toInt m ''media.main_stream.gop'' 25,
      md_lowLatency = cfg_getBool m ''media.main_stream.low_latency'' True,
      md_dropFrame = cfg_getBool m ''media.main_stream.drop_frame'' True,
      md_rtspEnable = cfg_getBool m ''media.rtsp.enable'' True,
      md_rtspPort = cfg_toInt m ''media.rtsp.port'' 8554,
      md_rtspPath = cfg_get m ''media.rtsp.path'' ''/live/main''\<rparr>"

text \<open>The loop over \<open>protocol.priority.0\<close>, \<open>protocol.priority.1\<close>, ... ends at the first number that is
  missing; there are no more of them than values in the map, which is the fuel.\<close>

fun priority_from :: "FlatConfig \<Rightarrow> nat \<Rightarrow> nat \<Rightarrow> string list" where
  "priority_from m 0 i = []"
| "priority_from m (Suc n) i =
     (case map_of m (''protocol.priority.'' @ show_nat i) of
        None \<Rightarrow> []
      | Some v \<Rightarrow> unquote v # priority_from m n (i + 1))"

definition priority_of :: "FlatConfig \<Rightarrow> string list" where
  "priority_of m =
     (let ps = priority_from m (length m) 0 in
      if ps = [] then [''gb28181'', ''onvif'', ''private''] else ps)"

definition protocol_of :: "FlatConfig \<Rightarrow> ProtocolConfig" where
  "protocol_of m =
     \<lparr>pc_active = cfg_get m ''protocol.active'' ''gb28181'',
      pc_allowMultiOnline = cfg_getBool m ''protocol.allow_multi_online'' False,
      pc_priority = priority_of m,
      pc_reserveMultiOnlineArchitecture = cfg_getBool m ''protocol.reserve_multi_online_architecture'' True\<rparr>"

definition cm_parse ::
  "'w files \<Rightarrow> string \<Rightarrow> (FlatConfig \<Rightarrow> SystemConfig \<Rightarrow> SystemConfig) \<Rightarrow> ConfigManager \<Rightarrow> 'w \<Rightarrow>
   unit Result \<times> ConfigManager" where
  "cm_parse fl path update c w =
     (case parseSimpleYaml fl path w of
        Inl e \<Rightarrow> (rewrap e, c)
      | Inr m \<Rightarrow> (Success, c\<lparr>cfm_config := update m (cfm_config c)\<rparr>))"

definition loadCamera :: "'w files \<Rightarrow> string \<Rightarrow> ConfigManager \<Rightarrow> 'w \<Rightarrow> unit Result \<times> ConfigManager" where
  "loadCamera fl path = cm_parse fl path (\<lambda>m s. s\<lparr>sys_camera := camera_of m (sys_camera s)\<rparr>)"

definition loadSerial :: "'w files \<Rightarrow> string \<Rightarrow> ConfigManager \<Rightarrow> 'w \<Rightarrow> unit Result \<times> ConfigManager" where
  "loadSerial fl path = cm_parse fl path (\<lambda>m s. s\<lparr>sys_serial := serial_of m (sys_serial s)\<rparr>)"

definition loadMode :: "'w files \<Rightarrow> string \<Rightarrow> ConfigManager \<Rightarrow> 'w \<Rightarrow> unit Result \<times> ConfigManager" where
  "loadMode fl path = cm_parse fl path (\<lambda>m s. s\<lparr>sys_mode := mode_of m (sys_mode s)\<rparr>)"

definition loadMedia :: "'w files \<Rightarrow> string \<Rightarrow> ConfigManager \<Rightarrow> 'w \<Rightarrow> unit Result \<times> ConfigManager" where
  "loadMedia fl path = cm_parse fl path (\<lambda>m s. s\<lparr>sys_media := media_of m\<rparr>)"

definition loadProtocol :: "'w files \<Rightarrow> string \<Rightarrow> ConfigManager \<Rightarrow> 'w \<Rightarrow> unit Result \<times> ConfigManager" where
  "loadProtocol fl path = cm_parse fl path (\<lambda>m s. s\<lparr>sys_protocol := protocol_of m\<rparr>)"

subsection \<open>ConfigValidator.cpp\<close>

definition validateCamera :: "CameraConfig \<Rightarrow> unit Result" where
  "validateCamera config =
     (let c = cc_compositeLowThermal config in
      if ep_enable c \<and> ep_videoNode c = [] then Error ConfigError ''composite camera video_node is empty''
      else if ep_videoNode c = ep_metadataNode c
      then Error ConfigError ''composite video_node and metadata_node must be different''
      else if ep_width c \<le> 0 \<or> ep_height c \<le> 0 \<or> ep_fps c \<le> 0
      then Error ConfigError ''invalid composite camera resolution or fps''
      else Success)"

definition validateSerial :: "SerialConfig \<Rightarrow> unit Result" where
  "validateSerial config =
     (if sc_enable config \<and> sc_dev config = [] then Error ConfigError ''serial dev is empty''
      else if sc_baudrate config \<le> 0 then Error ConfigError ''invalid baudrate''
      else if sc_timeoutMs config \<le> 0 then Error ConfigError ''invalid serial timeout_ms''
      else Success)"

definition validateMedia :: "MediaConfig \<Rightarrow> unit Result" where
  "validateMedia config =
     (if md_width config \<le> 0 \<or> md_height config \<le> 0 \<or> md_fps config \<le> 0
      then Error ConfigError ''invalid main stream resolution or fps''
      else if md_rtspEnable config \<and> \<not> isValidPort (md_rtspPort config)
      then Error ConfigError ''invalid rtsp port''
      else Success)"

definition validateProtocol :: "ProtocolConfig \<Rightarrow> unit Result" where
  "validateProtocol config =
     (if pc_active config = [] then Error ConfigError ''active protocol is empty''
      else if \<not> pc_allowMultiOnline config \<and> pc_priority config = []
      then Error ConfigError ''protocol priority is empty''
      else Success)"

text \<open>A chain of checks and loads, each carried out only when the ones before succeeded.\<close>

fun first_error :: "unit Result list \<Rightarrow> unit Result" where
  "first_error [] = Success"
| "first_error (Inl e # rs) = Inl e"
| "first_error (Inr u # rs) = first_error rs"

definition validate_system :: "SystemConfig \<Rightarrow> unit Result" where
  "validate_system config =
     first_error [validateCamera (sys_camera config), validateSerial (sys_serial config),
       validateMedia (sys_media config), validateProtocol (sys_protocol config)]"

fun load_steps :: "(ConfigManager \<Rightarrow> unit Result \<times> ConfigManager) list \<Rightarrow> ConfigManager \<Rightarrow> unit Result \<times> ConfigManager" where
  "load_steps [] c = (Success, c)"
| "load_steps (f # fs) c = (case f c of (Inl e, c) \<Rightarrow> (Inl e, c) | (Inr _, c) \<Rightarrow> load_steps fs c)"

definition loadAll :: "'w files \<Rightarrow> string \<Rightarrow> ConfigManager \<Rightarrow> 'w \<Rightarrow> unit Result \<times> ConfigManager" where
  "loadAll fl configDir c w =
     load_steps
       [\<lambda>c. loadCamera fl (configDir @ ''/camera.yaml'') c w,
        \<lambda>c. loadSerial fl (configDir @ ''/serial.yaml'') c w,
        \<lambda>c. loadMode fl (configDir @ ''/mode.yaml'') c w,
        \<lambda>c. loadMedia fl (configDir @ ''/media.yaml'') c w,
        \<lambda>c. loadProtocol fl (configDir @ ''/protocol.yaml'') c w,
        \<lambda>c. (validate_system (cfm_config c), c),
        \<lambda>c. (Success, c\<lparr>cfm_loaded := True\<rparr>)] c"

subsection \<open>Reading back what was written\<close>

text \<open>Documents of sections and values, the lines they are written as with two blanks for each level,
  and the flat map they stand for.\<close>

datatype yaml = Item string string | Sect string "yaml list"

fun yaml_lines :: "nat \<Rightarrow> yaml \<Rightarrow> string list" where
  "yaml_lines n (Item k v) = [replicate n (CHR '' '') @ k @ '': '' @ v]"
| "yaml_lines n (Sect k ys) = (replicate n (CHR '' '') @ k @ '':'') # concat (map (yaml_lines (n + 2)) ys)"

definition extend_prefix :: "string \<Rightarrow> string \<Rightarrow> string" where
  "extend_prefix prefix key = (if prefix = [] then key else prefix @ ''.'' @ key)"

fun yaml_flat :: "string \<Rightarrow> yaml \<Rightarrow> (string \<times> string) list" where
  "yaml_flat prefix (Item k v) = [(extend_prefix prefix k, v)]"
| "yaml_flat prefix (Sect k ys) = concat (map (yaml_flat (extend_prefix prefix k)) ys)"

definition plain_key :: "string \<Rightarrow> bool" where
  "plain_key k \<longleftrightarrow> k \<noteq> [] \<and> list_all (\<lambda>c. isalnum c \<or> c = CHR ''_'') k"

definition plain_value :: "string \<Rightarrow> bool" where
  "plain_value v \<longleftrightarrow> v \<noteq> [] \<and> \<not> isspace (hd v) \<and> \<not> isspace (last v) \<and>
     CHR ''#'' \<notin> set v \<and> CHR 0x0A \<notin> set v"

fun yaml_ok :: "yaml \<Rightarrow> bool" where
  "yaml_ok (Item k v) \<longleftrightarrow> plain_key k \<and> plain_value v"
| "yaml_ok (Sect k ys) \<longleftrightarrow> plain_key k \<and> list_all yaml_ok ys"

definition unlines :: "string list \<Rightarrow> string" where
  "unlines ls = concat (map (\<lambda>l. l @ [CHR 0x0A]) ls)"

lemma split_unlines:
  "list_all (\<lambda>l. CHR 0x0A \<notin> set l) ls \<Longrightarrow> split (unlines ls) (CHR 0x0A) = ls"
proof (induction ls)
  case (Cons l ls)
  then have "split (l @ CHR 0x0A # unlines ls) (CHR 0x0A) = l # split (unlines ls) (CHR 0x0A)"
    by (intro split_line) simp
  with Cons show ?case by (simp add: unlines_def)
qed (simp add: unlines_def split_def)

lemma key_char:
  assumes "isalnum c \<or> c = CHR ''_''"
  shows "\<not> isspace c" "c \<noteq> CHR '':''" "c \<noteq> CHR ''#''" "c \<noteq> CHR '' ''" "c \<noteq> CHR ''-''" "c \<noteq> CHR 0x0A"
proof -
  have codes: "chr_code (CHR ''_'') = 95" "chr_code (CHR '':'') = 58" "chr_code (CHR ''#'') = 35"
    "chr_code (CHR '' '') = 32" "chr_code (CHR ''-'') = 45" "chr_code (CHR 0x0A) = 10"
    by (simp_all add: chr_code_def)
  have code: "48 \<le> chr_code c \<and> chr_code c \<le> 57 \<or> 65 \<le> chr_code c \<and> chr_code c \<le> 90 \<or>
      97 \<le> chr_code c \<and> chr_code c \<le> 122 \<or> chr_code c = 95"
    using assms codes(1) unfolding isalnum_def isdigit_def isupper_def islower_def by blast
  show "\<not> isspace c" using code unfolding isspace_def by presburger
  have "chr_code c \<noteq> 58 \<and> chr_code c \<noteq> 35 \<and> chr_code c \<noteq> 32 \<and> chr_code c \<noteq> 45 \<and> chr_code c \<noteq> 10"
    using code by presburger
  then show "c \<noteq> CHR '':''" "c \<noteq> CHR ''#''" "c \<noteq> CHR '' ''" "c \<noteq> CHR ''-''" "c \<noteq> CHR 0x0A"
    using codes by metis+
qed

lemma plain_key_facts:
  assumes "plain_key k"
  shows "k \<noteq> []" "\<not> isspace (hd k)" "\<not> isspace (last k)" "CHR '':'' \<notin> set k" "CHR ''#'' \<notin> set k"
    "CHR 0x0A \<notin> set k" "hd k \<noteq> CHR '' ''" "hd k \<noteq> CHR ''-''"
proof -
  from assms show k: "k \<noteq> []" by (simp add: plain_key_def)
  from assms have c: "isalnum c \<or> c = CHR ''_''" if "c \<in> set k" for c
    using that unfolding plain_key_def list_all_iff by blast
  show "\<not> isspace (hd k)" "\<not> isspace (last k)" "hd k \<noteq> CHR '' ''" "hd k \<noteq> CHR ''-''"
    using key_char[OF c[OF hd_in_set[OF k]]] key_char(1)[OF c[OF last_in_set[OF k]]] by blast+
  show "CHR '':'' \<notin> set k" "CHR ''#'' \<notin> set k" "CHR 0x0A \<notin> set k"
    using key_char(2,3,6)[OF c] by blast+
qed

lemma trim_inner:
  assumes "\<forall>c\<in>set p. isspace c" "x \<noteq> []" "\<not> isspace (hd x)" "\<not> isspace (last x)"
  shows "trim (p @ x) = x"
proof -
  have "dropWhile isspace (p @ x) = x" using assms by (cases x) (auto simp: dropWhile_append2)
  moreover have "dropWhile isspace (rev x) = rev x" using assms by (intro dropWhile_ends)
  ultimately show ?thesis by (simp add: trim_def)
qed

lemma isspace_blank [simp]: "isspace (CHR '' '')"
  by (simp add: isspace_def chr_code_def)

lemma takeWhile_blanks: "x \<noteq> [] \<Longrightarrow> hd x \<noteq> b \<Longrightarrow> takeWhile (\<lambda>c. c = b) (replicate n b @ x) = replicate n b"
  by (induction n) (cases x, auto)

text \<open>A line with its indentation, and what the parser makes of it.\<close>

lemma yaml_line_indented:
  assumes "t \<noteq> []" "\<not> isspace (hd t)" "\<not> isspace (last t)" "CHR ''#'' \<notin> set t" "hd t \<noteq> CHR ''-''"
  shows "yaml_line (replicate n (CHR '' '') @ t) (stack, i, out) =
    yaml_entry t n (dotted (map snd (rev (dropWhile (\<lambda>(i, _). n \<le> i) stack))))
      (dropWhile (\<lambda>(i, _). n \<le> i) stack, i, out)"
proof -
  have line: "takeWhile (\<lambda>c. c \<noteq> CHR ''#'') (replicate n (CHR '' '') @ t) = replicate n (CHR '' '') @ t"
    using assms(4) by (auto simp: takeWhile_eq_all_conv)
  have t: "trim (replicate n (CHR '' '') @ t) = t" using assms by (intro trim_inner) auto
  have "hd t \<noteq> CHR '' ''" using assms(2) by auto
  then have indent: "takeWhile (\<lambda>c. c = CHR '' '') (replicate n (CHR '' '') @ t) = replicate n (CHR '' '')"
    using assms(1) by (intro takeWhile_blanks)
  have "\<not> startsWith t ''- ''" using assms(1,5) by (cases t) (auto simp: startsWith_def)
  with assms(1) show ?thesis by (simp add: yaml_line_def Let_def line t indent)
qed

lemma yaml_entry_item:
  assumes "plain_key k" "plain_value v"
  shows "yaml_entry (k @ '': '' @ v) n prefix (stack, i, out) = (stack, 0, (extend_prefix prefix k, v) # out)"
proof -
  note k = plain_key_facts[OF assms(1)]
  have "takeWhile (\<lambda>c. c \<noteq> CHR '':'') (k @ '': '' @ v) = k" using k(4) by (auto simp: takeWhile_append)
  moreover have "trim ('' '' @ v) = v" using assms(2) by (intro trim_inner) (auto simp: plain_value_def)
  moreover have "trim ([] @ k) = k" using k by (intro trim_inner) auto
  ultimately show ?thesis using assms(2) by (simp add: yaml_entry_def Let_def plain_value_def extend_prefix_def)
qed

lemma yaml_entry_section:
  assumes "plain_key k"
  shows "yaml_entry (k @ '':'') n prefix (stack, i, out) = ((n, k) # stack, 0, out)"
proof -
  note k = plain_key_facts[OF assms]
  have "takeWhile (\<lambda>c. c \<noteq> CHR '':'') (k @ '':'') = k" using k(4) by (auto simp: takeWhile_append)
  moreover have "trim ([] @ k) = k" using k by (intro trim_inner) auto
  moreover have "trim [] = []" by (simp add: trim_def)
  ultimately show ?thesis by (simp add: yaml_entry_def Let_def)
qed

lemma yaml_line_item:
  assumes "plain_key k" "plain_value v" "dropWhile (\<lambda>(i, _). n \<le> i) stack = base"
  shows "yaml_line (replicate n (CHR '' '') @ k @ '': '' @ v) (stack, i, out) =
    (base, 0, (extend_prefix (dotted (map snd (rev base))) k, v) # out)"
proof -
  note k = plain_key_facts[OF assms(1)]
  have "\<not> isspace (last (k @ '': '' @ v))" "CHR ''#'' \<notin> set (k @ '': '' @ v)"
    using k assms(2) by (auto simp: plain_value_def)
  with k show ?thesis
    by (subst yaml_line_indented) (simp_all only: hd_append2 yaml_entry_item[OF assms(1,2)] assms(3), simp_all)
qed

lemma yaml_line_section:
  assumes "plain_key k" "dropWhile (\<lambda>(i, _). n \<le> i) stack = base"
  shows "yaml_line (replicate n (CHR '' '') @ k @ '':'') (stack, i, out) = ((n, k) # base, 0, out)"
proof -
  note k = plain_key_facts[OF assms(1)]
  have "\<not> isspace (CHR '':'')" by (simp add: isspace_def chr_code_def)
  then have "\<not> isspace (last (k @ '':''))" "CHR ''#'' \<notin> set (k @ '':'')" using k by auto
  with k show ?thesis
    by (subst yaml_line_indented) (simp_all only: hd_append2 yaml_entry_section[OF assms(1)] assms(2), simp_all)
qed

text \<open>The parser reads a document back. At the start of a level \<open>n\<close> the stack holds the enclosing
  sections, all of smaller indentation, below leftovers of the level that the next line removes.\<close>

definition at_level :: "nat \<Rightarrow> (nat \<times> string) list \<Rightarrow> (nat \<times> string) list \<Rightarrow> bool" where
  "at_level n base stack \<longleftrightarrow>
     list_all (\<lambda>(i, _). i < n) base \<and> (\<exists>junk. stack = junk @ base \<and> list_all (\<lambda>(i, _). n \<le> i) junk)"

lemma at_level_drop: "at_level n base stack \<Longrightarrow> dropWhile (\<lambda>(i, _). n \<le> i) stack = base"
  by (auto simp: at_level_def list_all_iff dropWhile_append2) (cases base, auto)

lemma extend_prefix_dotted:
  "extend_prefix (dotted (map snd (rev base))) k = dotted (map snd (rev base) @ [k])"
  if "list_all (\<lambda>(_, k). k \<noteq> []) base"
proof -
  have "dotted (ks @ [k]) = (if ks = [] then k else dotted ks @ ''.'' @ k)" for ks
    by (induction ks rule: dotted.induct) auto
  moreover have "dotted ks = [] \<longleftrightarrow> ks = []" if "list_all (\<lambda>k. k \<noteq> []) ks" for ks
    using that by (induction ks rule: dotted.induct) auto
  moreover have "list_all (\<lambda>k. k \<noteq> []) (map snd (rev base))"
    using that by (auto simp: list_all_iff)
  ultimately show ?thesis by (simp add: extend_prefix_def)
qed

text \<open>Keys are not empty, on the stack neither.\<close>

definition level_ok :: "nat \<Rightarrow> (nat \<times> string) list \<Rightarrow> (nat \<times> string) list \<Rightarrow> bool" where
  "level_ok n base stack \<longleftrightarrow> at_level n base stack \<and> list_all (\<lambda>(_, k). k \<noteq> []) base"

lemma level_ok_after:
  "level_ok n base base" if "level_ok n base stack"
  using that by (auto simp: level_ok_def at_level_def)

lemma level_ok_inside:
  assumes "level_ok n base stack" "plain_key k"
  shows "level_ok (n + 2) ((n, k) # base) ((n, k) # base)"
  using assms plain_key_facts(1)[OF assms(2)]
  by (auto simp: level_ok_def at_level_def list_all_iff)

lemma level_ok_outside:
  assumes "level_ok n base stack" "level_ok (n + 2) ((n, k) # base) stack'"
  shows "level_ok n base stack'"
proof -
  from assms(2) obtain junk where "stack' = (junk @ [(n, k)]) @ base" "list_all (\<lambda>(i, _). n + 2 \<le> i) junk"
    by (auto simp: level_ok_def at_level_def)
  moreover from this have "list_all (\<lambda>(i, _). n \<le> i) (junk @ [(n, k)])" by (auto simp: list_all_iff)
  ultimately show ?thesis using assms(1) unfolding level_ok_def at_level_def by blast
qed

lemma fold_yaml_lines:
  shows "yaml_ok y \<Longrightarrow> level_ok n base stack \<Longrightarrow>
      \<exists>stack'. level_ok n base stack' \<and>
        fold yaml_line (yaml_lines n y) (stack, i, out) =
          (stack', 0, rev (yaml_flat (dotted (map snd (rev base))) y) @ out)"
proof (induction y arbitrary: n base stack i out)
  case (Item k v)
  then have "dropWhile (\<lambda>(i, _). n \<le> i) stack = base" by (simp add: level_ok_def at_level_drop)
  with Item show ?case by (auto simp: yaml_line_item[simplified] intro: level_ok_after)
next
  case (Sect k ys)
  let ?inner = "(n, k) # base"
  let ?prefix = "dotted (map snd (rev ?inner))"
  from Sect.prems have k: "plain_key k" and drop: "dropWhile (\<lambda>(i, _). n \<le> i) stack = base"
    by (simp_all add: level_ok_def at_level_drop)
  have list: "\<exists>stack'. level_ok (n + 2) ?inner stack' \<and>
      fold yaml_line (concat (map (yaml_lines (n + 2)) zs)) (stack, 0, out) =
        (stack', 0, rev (concat (map (yaml_flat ?prefix) zs)) @ out)"
    if "level_ok (n + 2) ?inner stack" "set zs \<subseteq> set ys" for zs stack out
    using that
  proof (induction zs arbitrary: stack out)
    case (Cons z zs)
    then have "yaml_ok z" "z \<in> set ys" using Sect.prems(1) by (auto simp: list_all_iff)
    from Sect.IH[OF this(2) this(1) Cons.prems(1), of 0 out] obtain st1
      where "level_ok (n + 2) ?inner st1" "fold yaml_line (yaml_lines (n + 2) z) (stack, 0, out) =
        (st1, 0, rev (yaml_flat ?prefix z) @ out)" by blast
    with Cons.IH[of st1 "rev (yaml_flat ?prefix z) @ out"] Cons.prems show ?case by auto
  qed auto
  from list[OF level_ok_inside[OF Sect.prems(2) k], of ys out] obtain st
    where st: "level_ok (n + 2) ?inner st" "fold yaml_line (concat (map (yaml_lines (n + 2)) ys)) (?inner, 0, out) =
        (st, 0, rev (concat (map (yaml_flat ?prefix) ys)) @ out)" by blast
  have "?prefix = extend_prefix (dotted (map snd (rev base))) k"
    using Sect.prems(2) by (simp add: level_ok_def extend_prefix_dotted)
  with st yaml_line_section[OF k drop, of i out] level_ok_outside[OF Sect.prems(2) st(1)]
  show ?case by auto
qed

lemma yaml_lines_no_newline: "yaml_ok y \<Longrightarrow> l \<in> set (yaml_lines n y) \<Longrightarrow> CHR 0x0A \<notin> set l"
  by (induction n y rule: yaml_lines.induct) (auto simp: list_all_iff plain_value_def dest: plain_key_facts(6))

lemma fold_blank_lines: "fold yaml_line ls st = fold yaml_line (filter (\<lambda>l. l \<noteq> []) ls) st"
proof (induction ls arbitrary: st)
  case (Cons l ls)
  have "yaml_line [] st = st" by (simp add: yaml_line_def trim_def)
  with Cons show ?case by simp
qed simp

lemma fold_yaml_documents:
  assumes "list_all yaml_ok docs" "level_ok 0 [] stack"
  shows "\<exists>stack'. level_ok 0 [] stack' \<and>
    fold yaml_line (concat (map (yaml_lines 0) docs)) (stack, 0, out) =
      (stack', 0, rev (concat (map (yaml_flat []) docs)) @ out)"
  using assms
proof (induction docs arbitrary: stack out)
  case (Cons doc docs)
  from fold_yaml_lines[of doc 0 "[]" stack 0 out] Cons.prems obtain st where st: "level_ok 0 [] st"
    "fold yaml_line (yaml_lines 0 doc) (stack, 0, out) = (st, 0, rev (yaml_flat [] doc) @ out)" by auto
  with Cons.IH[of st "rev (yaml_flat [] doc) @ out"] Cons.prems(1) show ?case by auto
qed auto

lemma yaml_read_back_lines:
  assumes "list_all yaml_ok docs" "filter (\<lambda>l. l \<noteq> []) ls = concat (map (yaml_lines 0) docs)"
  shows "parse_yaml (unlines ls) = rev (concat (map (yaml_flat []) docs))"
proof -
  have "CHR 0x0A \<notin> set l" if "l \<in> set ls" for l
  proof (cases "l = []")
    case False
    with that have "l \<in> set (concat (map (yaml_lines 0) docs))" unfolding assms(2)[symmetric] by simp
    with assms(1) yaml_lines_no_newline[of _ l 0] show ?thesis by (auto simp: list_all_iff)
  qed simp
  then have "split (unlines ls) (CHR 0x0A) = ls" by (intro split_unlines) (simp add: list_all_iff)
  moreover have "level_ok 0 [] []" by (simp add: level_ok_def at_level_def)
  from fold_yaml_documents[OF assms(1) this, of "[]"] obtain st
    where "fold yaml_line (concat (map (yaml_lines 0) docs)) ([], 0, []) = (st, 0, rev (concat (map (yaml_flat []) docs)))"
    by auto
  ultimately show ?thesis by (simp add: parse_yaml_def fold_blank_lines[of ls] assms(2))
qed

text \<open>
  Claim C27. The configuration reader inverts writing for the documents of \<open>yaml_ok\<close>: one or more nested sections or
  values without lists, with two more blanks of indentation for each level and one line for each value, whose keys are
  made of letters, digits and underscores and whose values are not empty and have no hash sign, no line break and no
  white space at their ends. The flat map made of the text of such a document, with blank lines anywhere, holds
  exactly its values under their dotted paths. (Values that are excluded here are lost, see \<open>hash_password_lost\<close>.)\<close>

theorem yaml_read_back:
  assumes "list_all yaml_ok docs" "filter (\<lambda>l. l \<noteq> []) ls = concat (map (yaml_lines 0) docs)"
  shows "parse_yaml (unlines ls) = rev (concat (map (yaml_flat []) docs))"
  by (rule yaml_read_back_lines[OF assms])

theorem yaml_read_back_witness:
  "map_of (parse_yaml (unlines [''rtsp:'', ''  enable: true'', [], ''  auth:'', ''    username: \"a b\"'', ''port: 80'']))
     ''rtsp.auth.username'' = Some ''\"a b\"''"
proof -
  let ?docs = "[Sect ''rtsp'' [Item ''enable'' ''true'', Sect ''auth'' [Item ''username'' ''\"a b\"'']], Item ''port'' ''80'']"
  have ok: "list_all yaml_ok ?docs" by code_simp
  have "filter (\<lambda>l. l \<noteq> []) [''rtsp:'', ''  enable: true'', [], ''  auth:'', ''    username: \"a b\"'', ''port: 80''] =
      concat (map (yaml_lines 0) ?docs)" by code_simp
  from yaml_read_back[OF ok this] show ?thesis by (simp add: extend_prefix_def)
qed

subsection \<open>Numbers and quoted texts\<close>

lemma isdigit_digit: "d < 10 \<Longrightarrow> isdigit (char_of (48 + d :: nat))"
  by (simp add: isdigit_def chr_code_char_of)

lemma show_nat_digits: "list_all isdigit (show_nat n)"
proof (induction n rule: show_nat.induct)
  case (1 n)
  then show ?case
    by (subst show_nat.simps) (auto simp: isdigit_digit)
qed

lemma stoi_digits_show:
  "int_min \<le> sign * int n \<Longrightarrow> sign * int n \<le> int_max \<Longrightarrow> stoi_digits sign (show_nat n) = Some (sign * int n)"
proof -
  have tw: "takeWhile isdigit (show_nat n) = show_nat n"
    using show_nat_digits[of n] by (simp add: takeWhile_eq_all_conv list_all_iff)
  show "int_min \<le> sign * int n \<Longrightarrow> sign * int n \<le> int_max \<Longrightarrow> ?thesis"
    by (simp add: stoi_digits_def Let_def tw)
qed

lemma digit_start: "isdigit c \<Longrightarrow> \<not> isspace c \<and> c \<noteq> CHR ''-'' \<and> c \<noteq> CHR ''+''"
proof -
  have codes: "chr_code (CHR ''-'') = 45" "chr_code (CHR ''+'') = 43" by (simp_all add: chr_code_def)
  assume "isdigit c"
  then have "chr_code c \<noteq> 45 \<and> chr_code c \<noteq> 43 \<and> \<not> isspace c"
    unfolding isdigit_def isspace_def by presburger
  with codes show ?thesis by metis
qed

lemma stoi_show_int:
  assumes "int_min \<le> i" "i \<le> int_max"
  shows "stoi (show_int i) = Some i"
proof (cases "i < 0")
  case True
  moreover have "dropWhile isspace (CHR ''-'' # show_nat (nat (- i))) = CHR ''-'' # show_nat (nat (- i))"
    by (simp add: isspace_def chr_code_def)
  ultimately show ?thesis
    using assms stoi_digits_show[of "-1" "nat (- i)"] by (simp add: stoi_def show_int_def)
next
  case False
  obtain c cs where c: "show_nat (nat i) = c # cs" by (cases "show_nat (nat i)") auto
  with show_nat_digits[of "nat i"] have "isdigit c" by simp
  then have "\<not> isspace c" "c \<noteq> CHR ''-''" "c \<noteq> CHR ''+''" by (simp_all add: digit_start)
  with False assms c stoi_digits_show[of 1 "nat i"] show ?thesis
    by (simp add: stoi_def show_int_def)
qed

definition yaml_quote :: "string \<Rightarrow> string" where
  "yaml_quote s = CHR 0x22 # s @ [CHR 0x22]"

lemma trim_quoted: "trim (yaml_quote s) = yaml_quote s"
proof -
  have "\<not> isspace (CHR 0x22)" by (simp add: isspace_def chr_code_def)
  then show ?thesis using trim_inner[of "[]" "yaml_quote s"] by (simp add: yaml_quote_def)
qed

lemma unquote_quoted [simp]: "unquote (yaml_quote s) = s"
  by (simp add: unquote_def trim_quoted) (simp add: yaml_quote_def)

lemma plain_quoted: "CHR ''#'' \<notin> set s \<Longrightarrow> CHR 0x0A \<notin> set s \<Longrightarrow> plain_value (yaml_quote s)"
  by (auto simp: plain_value_def yaml_quote_def isspace_def chr_code_def)

lemma plain_digits:
  assumes "list_all isdigit d" "d \<noteq> []"
  shows "plain_value d" "plain_value (CHR ''-'' # d)"
proof -
  have d: "isdigit c" if "c \<in> set d" for c using that assms(1) by (auto simp: list_all_iff)
  have "\<not> isdigit (CHR ''#'')" "\<not> isdigit (CHR 0x0A)" by (simp_all add: isdigit_def chr_code_def)
  with d have "CHR ''#'' \<notin> set d" "CHR 0x0A \<notin> set d" by blast+
  moreover have "\<not> isspace (hd d)" "\<not> isspace (last d)" using d digit_start assms(2) by auto
  moreover have "\<not> isspace (CHR ''-'')" by (simp add: isspace_def chr_code_def)
  ultimately show "plain_value d" "plain_value (CHR ''-'' # d)"
    using assms(2) by (simp_all add: plain_value_def)
qed

lemma plain_show_int: "plain_value (show_int i)"
  by (simp add: show_int_def plain_digits show_nat_digits)

lemma cfg_get_quoted: "map_of m k = Some (yaml_quote s) \<Longrightarrow> cfg_get m k fb = s"
  by (simp add: cfg_get_def)

subsection \<open>What a loaded configuration satisfies\<close>

definition is_c_int :: "int \<Rightarrow> bool" where
  "is_c_int i \<longleftrightarrow> int_min \<le> i \<and> i \<le> int_max"

lemma stoi_range: "stoi s = Some i \<Longrightarrow> is_c_int i"
  by (auto simp: stoi_def stoi_digits_def is_c_int_def Let_def split: list.splits if_splits)

lemma cfg_toInt_range: "is_c_int fallback \<Longrightarrow> is_c_int (cfg_toInt m key fallback)"
  by (auto simp: cfg_toInt_def split: option.split dest: stoi_range)

definition config_typed :: "SystemConfig \<Rightarrow> bool" where
  "config_typed s \<longleftrightarrow>
     (let c = cc_compositeLowThermal (sys_camera s); v = cc_visible (sys_camera s);
          l = sys_serial s; d = sys_media s; p = sys_protocol s in
      is_c_int (ep_width v) \<and> is_c_int (ep_height v) \<and> is_c_int (ep_fps v) \<and>
      0 < ep_width c \<and> ep_width c \<le> int_max \<and> 0 < ep_height c \<and> ep_height c \<le> int_max \<and>
      0 < ep_fps c \<and> ep_fps c \<le> int_max \<and>
      (ep_enable c \<longrightarrow> ep_videoNode c \<noteq> []) \<and> ep_videoNode c \<noteq> ep_metadataNode c \<and>
      (sc_enable l \<longrightarrow> sc_dev l \<noteq> []) \<and> 0 < sc_baudrate l \<and> sc_baudrate l \<le> int_max \<and>
      0 < sc_timeoutMs l \<and> sc_timeoutMs l \<le> int_max \<and>
      is_c_int (sc_databits l) \<and> is_c_int (sc_stopbits l) \<and> is_c_int (sc_retryCount l) \<and>
      0 < md_width d \<and> md_width d \<le> int_max \<and> 0 < md_height d \<and> md_height d \<le> int_max \<and>
      0 < md_fps d \<and> md_fps d \<le> int_max \<and> is_c_int (md_bitrate d) \<and> is_c_int (md_gop d) \<and>
      (md_rtspEnable d \<longrightarrow> 0 < md_rtspPort d \<and> md_rtspPort d \<le> 65535) \<and>
      pc_active p \<noteq> [] \<and> pc_priority p \<noteq> [])"

lemma loadAll_success:
  assumes "loadAll fl dir c w = (Success, c')"
  shows "\<exists>m1 m2 m3 m4 m5. cfm_loaded c' \<and> validate_system (cfm_config c') = Success \<and>
    cfm_config c' = (cfm_config c)\<lparr>sys_camera := camera_of m1 (sys_camera (cfm_config c)),
      sys_serial := serial_of m2 (sys_serial (cfm_config c)),
      sys_mode := mode_of m3 (sys_mode (cfm_config c)), sys_media := media_of m4, sys_protocol := protocol_of m5\<rparr>"
  using assms
  by (auto simp: loadAll_def loadCamera_def loadSerial_def loadMode_def loadMedia_def loadProtocol_def cm_parse_def
      rewrap_def split: sum.splits prod.splits) (intro exI, rule refl)

lemma first_error_Success: "first_error rs = Success \<longleftrightarrow> (\<forall>r \<in> set rs. r = Success)"
  by (induction rs rule: first_error.induct) auto

lemma priority_nonempty: "priority_of m \<noteq> []"
  by (simp add: priority_of_def Let_def)

text \<open>
  Claim C26. A configuration that \<open>loadAll\<close> accepts is well formed, whatever the files say and
  whatever was loaded before: the numbers of cameras, serial line and media fit a C int; the composite camera and the
  main stream have positive sizes and frame rates (those of the visible camera may be any C int); the serial line has a
  positive rate and timeout, and a device if it is enabled; the composite camera has a video node if it is enabled, and
  its two nodes differ in any case; the RTSP port of the media section lies between 1 and 65535 if RTSP is enabled; the
  active protocol and the priority list are not empty.\<close>

theorem loaded_config_typed:
  assumes "loadAll fl dir c w = (Success, c')"
  shows "cfm_loaded c' \<and> config_typed (cfm_config c')"
proof -
  from loadAll_success[OF assms] obtain m1 m2 m3 m4 m5 where loaded: "cfm_loaded c'"
    and valid: "validate_system (cfm_config c') = Success"
    and config: "cfm_config c' = (cfm_config c)\<lparr>sys_camera := camera_of m1 (sys_camera (cfm_config c)),
      sys_serial := serial_of m2 (sys_serial (cfm_config c)),
      sys_mode := mode_of m3 (sys_mode (cfm_config c)), sys_media := media_of m4, sys_protocol := protocol_of m5\<rparr>"
    by blast
  let ?s = "cfm_config c'"
  have ints: "is_c_int (cfg_toInt m k i)" if "i \<in> {30, 1080, 1920, 800, 600, 115200, 8, 1, 500, 3, 25, 4096, 8554}" for m k i
    using that by (intro cfg_toInt_range) (auto simp: is_c_int_def int_min_def int_max_def)
  have cam: "is_c_int (ep_width (cc_visible (sys_camera ?s)))" "is_c_int (ep_height (cc_visible (sys_camera ?s)))"
    "is_c_int (ep_fps (cc_visible (sys_camera ?s)))" "is_c_int (ep_width (cc_compositeLowThermal (sys_camera ?s)))"
    "is_c_int (ep_height (cc_compositeLowThermal (sys_camera ?s)))" "is_c_int (ep_fps (cc_compositeLowThermal (sys_camera ?s)))"
    by (simp_all add: config camera_of_def visible_of_def composite_of_def ints)
  have ser: "is_c_int (sc_baudrate (sys_serial ?s))" "is_c_int (sc_timeoutMs (sys_serial ?s))"
    "is_c_int (sc_databits (sys_serial ?s))" "is_c_int (sc_stopbits (sys_serial ?s))" "is_c_int (sc_retryCount (sys_serial ?s))"
    by (simp_all add: config serial_of_def ints)
  have med: "is_c_int (md_width (sys_media ?s))" "is_c_int (md_height (sys_media ?s))" "is_c_int (md_fps (sys_media ?s))"
    "is_c_int (md_bitrate (sys_media ?s))" "is_c_int (md_gop (sys_media ?s))"
    by (simp_all add: config media_of_def ints)
  have prio: "pc_priority (sys_protocol ?s) \<noteq> []" by (simp add: config protocol_of_def priority_nonempty)
  from valid have checks: "validateCamera (sys_camera ?s) = Success" "validateSerial (sys_serial ?s) = Success"
    "validateMedia (sys_media ?s) = Success" "validateProtocol (sys_protocol ?s) = Success"
    by (simp_all add: validate_system_def first_error_Success)
  have "config_typed ?s"
    using cam ser med prio checks
    by (auto simp: config_typed_def is_c_int_def validateCamera_def validateSerial_def validateMedia_def
        validateProtocol_def isValidPort_def Let_def split: if_splits)
  with loaded show ?thesis by simp
qed

text \<open>With empty files everything is at its default.\<close>

definition map_files :: "(string \<rightharpoonup> string) files" where
  "map_files = \<lparr>fl_read = (\<lambda>path w. w path), fl_write = (\<lambda>path text w. (True, w(path \<mapsto> text)))\<rparr>"

theorem loaded_config_typed_witness:
  "\<exists>c'. loadAll map_files ''config'' new_config_manager (\<lambda>path. Some []) = (Success, c') \<and>
     md_width (sys_media (cfm_config c')) = 1920 \<and> config_typed (cfm_config c')"
proof -
  have "parse_yaml [] = []" by (simp add: parse_yaml_def split_def)
  then obtain c' where c': "loadAll map_files ''config'' new_config_manager (\<lambda>path. Some []) = (Success, c')"
    and "md_width (sys_media (cfm_config c')) = 1920"
    by (simp add: loadAll_def loadCamera_def loadSerial_def loadMode_def loadMedia_def loadProtocol_def cm_parse_def
        parseSimpleYaml_def readText_def map_files_def new_config_manager_def default_system_config_def
        camera_of_def visible_of_def composite_of_def serial_of_def media_of_def protocol_of_def priority_of_def
        validate_system_def validateCamera_def validateSerial_def validateMedia_def validateProtocol_def
        cfg_get_def cfg_toInt_def cfg_getBool_def Let_def isValidPort_def)
  with loaded_config_typed[OF c'] show ?thesis by blast
qed

end
