(* ===== verification/Tri_ProtocolConfig.thy ===== *)
theory Tri_ProtocolConfig
  imports Tri_ConfigFile
begin

text \<open>
  The configuration of the protocol endpoints (protocol/ProtocolConfigTypes.h), its loading,
  validation and saving (ProtocolConfigLoader.cpp) and the store that keeps it
  (ProtocolConfigStore.cpp). The lock of the store is not modelled: each operation is one step.
\<close>

subsection \<open>ProtocolConfigTypes.h\<close>

record Gb28181LocalConfig =
  gl_deviceId :: string
  gl_domain :: string
  gl_ip :: string
  gl_port :: u16
  gl_password :: string
  gl_manufacturer :: string
  gl_model :: string
  gl_firmware :: string

record Gb28181ChannelConfig =
  gh_id :: string
  gh_name :: string

record Gb28181ServerConfig =
  gv_id :: string
  gv_domain :: string
  gv_ip :: string
  gv_port :: u16
  gv_password :: string

record Gb28181RegisterConfig =
  gr_expiresSec :: int
  gr_retryIntervalSec :: int

record Gb28181KeepaliveConfig =
  gk_intervalSec :: int
  gk_timeoutSec :: int

record Gb28181MediaConfig =
  gm_rtpLocalPort :: u16
  gm_ssrc :: string
  gm_transport :: string

record Gb28181Config =
  gb_enable :: bool
  gb_local :: Gb28181LocalConfig
  gb_channel :: Gb28181ChannelConfig
  gb_server :: Gb28181ServerConfig
  gb_reg :: Gb28181RegisterConfig
  gb_keepalive :: Gb28181KeepaliveConfig
  gb_media :: Gb28181MediaConfig

definition default_gb28181 :: Gb28181Config where
  "default_gb28181 =
     \<lparr>gb_enable = True,
      gb_local = \<lparr>gl_deviceId = ''34020000001320000001'', gl_domain = ''3402000000'', gl_ip = ''0.0.0.0'',
        gl_port = 5060, gl_password = ''12345678'', gl_manufacturer = ''TriFusion'',
        gl_model = ''TriFusion-Camera'', gl_firmware = ''1.0.0''\<rparr>,
      gb_channel = \<lparr>gh_id = ''34020000001320000001'', gh_name = ''Tri-Fusion MainStream''\<rparr>,
      gb_server = \<lparr>gv_id = ''41010500002000000001'', gv_domain = ''4101050000'', gv_ip = ''192.168.1.153'',
        gv_port = 8118, gv_password = ''12345678''\<rparr>,
      gb_reg = \<lparr>gr_expiresSec = 3600, gr_retryIntervalSec = 5\<rparr>,
      gb_keepalive = \<lparr>gk_intervalSec = 60, gk_timeoutSec = 3\<rparr>,
      gb_media = \<lparr>gm_rtpLocalPort = 30000, gm_ssrc = ''0000000001'', gm_transport = ''udp''\<rparr>\<rparr>"

record OnvifConfig =
  ov_enable :: bool
  ov_listenIp :: string
  ov_listenPort :: u16
  ov_authEnable :: bool
  ov_username :: string
  ov_password :: string
  ov_rtspAdvertiseIp :: string
  ov_rtspPort :: u16
  ov_rtspPath :: string

definition default_onvif :: OnvifConfig where
  "default_onvif =
     \<lparr>ov_enable = True, ov_listenIp = ''0.0.0.0'', ov_listenPort = 8080, ov_authEnable = False,
      ov_username = ''admin'', ov_password = ''admin'', ov_rtspAdvertiseIp = ''0.0.0.0'', ov_rtspPort = 8554,
      ov_rtspPath = ''/live/main''\<rparr>"

record PrivateApiConfig =
  pa_enable :: bool
  pa_listenIp :: string
  pa_listenPort :: u16
  pa_authEnable :: bool
  pa_username :: string
  pa_password :: string

definition default_private_api :: PrivateApiConfig where
  "default_private_api =
     \<lparr>pa_enable = True, pa_listenIp = ''0.0.0.0'', pa_listenPort = 18080, pa_authEnable = False,
      pa_username = ''admin'', pa_password = ''admin''\<rparr>"

record RtspConfig =
  rt_enable :: bool
  rt_bindIp :: string
  rt_advertiseIp :: string
  rt_port :: u16
  rt_path :: string
  rt_authEnable :: bool
  rt_username :: string
  rt_password :: string

definition default_rtsp :: RtspConfig where
  "default_rtsp =
     \<lparr>rt_enable = True, rt_bindIp = ''0.0.0.0'', rt_advertiseIp = ''0.0.0.0'', rt_port = 8554,
      rt_path = ''/live/main'', rt_authEnable = False, rt_username = ''admin'', rt_password = ''admin''\<rparr>"

record ProtocolEndpointConfigSet =
  pe_gb28181 :: Gb28181Config
  pe_onvif :: OnvifConfig
  pe_privateApi :: PrivateApiConfig
  pe_rtsp :: RtspConfig

definition default_endpoints :: ProtocolEndpointConfigSet where
  "default_endpoints =
     \<lparr>pe_gb28181 = default_gb28181, pe_onvif = default_onvif, pe_privateApi = default_private_api,
      pe_rtsp = default_rtsp\<rparr>"

subsection \<open>Validation\<close>

definition checkPort :: "u16 \<Rightarrow> string \<Rightarrow> unit Result" where
  "checkPort port name =
     (if \<not> isValidPort (uint port) then Error ConfigError (name @ '' is invalid'') else Success)"

definition checkNotEmpty :: "string \<Rightarrow> string \<Rightarrow> unit Result" where
  "checkNotEmpty v name = (if trim v = [] then Error ConfigError (name @ '' is empty'') else Success)"

definition checkThat :: "bool \<Rightarrow> string \<Rightarrow> unit Result" where
  "checkThat ok message = (if ok then Success else Error ConfigError message)"

definition validateGb28181 :: "Gb28181Config \<Rightarrow> unit Result" where
  "validateGb28181 c =
     (if \<not> gb_enable c then Success
      else first_error
        [checkNotEmpty (gl_deviceId (gb_local c)) ''gb28181.local.device_id'',
         checkNotEmpty (gl_domain (gb_local c)) ''gb28181.local.domain'',
         checkNotEmpty (gl_ip (gb_local c)) ''gb28181.local.ip'',
         checkPort (gl_port (gb_local c)) ''gb28181.local.port'',
         checkNotEmpty (gv_id (gb_server c)) ''gb28181.server.id'',
         checkNotEmpty (gv_domain (gb_server c)) ''gb28181.server.domain'',
         checkNotEmpty (gv_ip (gb_server c)) ''gb28181.server.ip'',
         checkPort (gv_port (gb_server c)) ''gb28181.server.port'',
         checkThat (0 < gr_expiresSec (gb_reg c)) ''gb28181.register.expires_sec must be positive'',
         checkThat (0 < gk_intervalSec (gb_keepalive c)) ''gb28181.keepalive.interval_sec must be positive'',
         checkThat (gm_transport (gb_media c) = ''udp'' \<or> gm_transport (gb_media c) = ''tcp'')
           ''gb28181.media.transport must be udp or tcp''])"

definition validateOnvif :: "OnvifConfig \<Rightarrow> unit Result" where
  "validateOnvif c =
     (if \<not> ov_enable c then Success
      else first_error
        [checkNotEmpty (ov_listenIp c) ''onvif.listen.ip'', checkPort (ov_listenPort c) ''onvif.listen.port'',
         checkNotEmpty (ov_rtspPath c) ''onvif.rtsp.path'', checkPort (ov_rtspPort c) ''onvif.rtsp.port''])"

definition validatePrivateApi :: "PrivateApiConfig \<Rightarrow> unit Result" where
  "validatePrivateApi c =
     (if \<not> pa_enable c then Success
      else first_error
        [checkNotEmpty (pa_listenIp c) ''private_api.listen.ip'',
         checkPort (pa_listenPort c) ''private_api.listen.port''])"

definition validateRtsp :: "RtspConfig \<Rightarrow> unit Result" where
  "validateRtsp c =
     (if \<not> rt_enable c then Success
      else first_error
        [checkNotEmpty (rt_bindIp c) ''rtsp.bind_ip'', checkNotEmpty (rt_path c) ''rtsp.path'',
         checkPort (rt_port c) ''rtsp.port''])"

definition validate_endpoints :: "ProtocolEndpointConfigSet \<Rightarrow> unit Result" where
  "validate_endpoints c =
     first_error [validateGb28181 (pe_gb28181 c), validateOnvif (pe_onvif c),
       validatePrivateApi (pe_privateApi c), validateRtsp (pe_rtsp c)]"

subsection \<open>Loading\<close>

definition joinPath :: "string \<Rightarrow> string \<Rightarrow> string" where
  "joinPath dir file =
     (if dir = [] \<or> dir = ''.'' then ''./'' @ file
      else if last dir = CHR ''/'' then dir @ file
      else dir @ ''/'' @ file)"

definition pcl_toInt :: "FlatConfig \<Rightarrow> string \<Rightarrow> int \<Rightarrow> int" where
  "pcl_toInt cfg key fallback =
     (case map_of cfg key of
        None \<Rightarrow> fallback
      | Some v \<Rightarrow> case stoi (unquote v) of None \<Rightarrow> fallback | Some i \<Rightarrow> i)"

definition pcl_toBool :: "FlatConfig \<Rightarrow> string \<Rightarrow> bool \<Rightarrow> bool" where
  "pcl_toBool cfg key fallback =
     (let text = lower (cfg_get cfg key (if fallback then ''true'' else ''false'')) in
      if text \<in> {''true'', ''1'', ''yes'', ''on''} then True
      else if text \<in> {''false'', ''0'', ''no'', ''off''} then False
      else fallback)"

definition toPort :: "FlatConfig \<Rightarrow> string \<Rightarrow> u16 \<Rightarrow> u16" where
  "toPort cfg key fallback =
     (let v = pcl_toInt cfg key (uint fallback) in if isValidPort v then word_of_int v else fallback)"

definition parseOptionalYaml :: "'w files \<Rightarrow> string \<Rightarrow> 'w \<Rightarrow> FlatConfig Result" where
  "parseOptionalYaml fl path w =
     (case parseSimpleYaml fl path w of
        Inr m \<Rightarrow> Inr m
      | Inl e \<Rightarrow> if st_code e = NotFound \<or> st_code e = IoError then Inr [] else Inl e)"

text \<open>A configuration from a flat map, over the values \<open>d\<close> it has before.\<close>

definition gb28181_of :: "FlatConfig \<Rightarrow> Gb28181Config \<Rightarrow> Gb28181Config" where
  "gb28181_of m d =
     \<lparr>gb_enable = pcl_toBool m ''gb28181.enable'' (gb_enable d),
      gb_local =
        \<lparr>gl_deviceId = cfg_get m ''gb28181.local.device_id'' (gl_deviceId (gb_local d)),
         gl_domain = cfg_get m ''gb28181.local.domain'' (gl_domain (gb_local d)),
         gl_ip = cfg_get m ''gb28181.local.ip'' (gl_ip (gb_local d)),
         gl_port = toPort m ''gb28181.local.port'' (gl_port (gb_local d)),
         gl_password = cfg_get m ''gb28181.local.password'' (gl_password (gb_local d)),
         gl_manufacturer = cfg_get m ''gb28181.local.manufacturer'' (gl_manufacturer (gb_local d)),
         gl_model = cfg_get m ''gb28181.local.model'' (gl_model (gb_local d)),
         gl_firmware = cfg_get m ''gb28181.local.firmware'' (gl_firmware (gb_local d))\<rparr>,
      gb_channel =
        \<lparr>gh_id = cfg_get m ''gb28181.channel.id'' (gh_id (gb_channel d)),
         gh_name = cfg_get m ''gb28181.channel.name'' (gh_name (gb_channel d))\<rparr>,
      gb_server =
        \<lparr>gv_id = cfg_get m ''gb28181.server.id'' (gv_id (gb_server d)),
         gv_domain = cfg_get m ''gb28181.server.domain'' (gv_domain (gb_server d)),
         gv_ip = cfg_get m ''gb28181.server.ip'' (gv_ip (gb_server d)),
         gv_port = toPort m ''gb28181.server.port'' (gv_port (gb_server d)),
         gv_password = cfg_get m ''gb28181.server.password'' (gv_password (gb_server d))\<rparr>,
      gb_reg =
        \<lparr>gr_expiresSec = pcl_toInt m ''gb28181.register.expires_sec'' (gr_expiresSec (gb_reg d)),
         gr_retryIntervalSec = pcl_toInt m ''gb28181.register.retry_interval_sec'' (gr_retryIntervalSec (gb_reg d))\<rparr>,
      gb_keepalive =
        \<lparr>gk_intervalSec = pcl_toInt m ''gb28181.keepalive.interval_sec'' (gk_intervalSec (gb_keepalive d)),
         gk_timeoutSec = pcl_toInt m ''gb28181.keepalive.timeout_sec'' (gk_timeoutSec (gb_keepalive d))\<rparr>,
      gb_media =
        \<lparr>gm_rtpLocalPort = toPort m ''gb28181.media.rtp_local_port'' (gm_rtpLocalPort (gb_media d)),
         gm_ssrc = cfg_get m ''gb28181.media.ssrc'' (gm_ssrc (gb_media d)),
         gm_transport = lower (cfg_get m ''gb28181.media.transport'' (gm_transport (gb_media d)))\<rparr>\<rparr>"

definition onvif_of :: "FlatConfig \<Rightarrow> OnvifConfig \<Rightarrow> OnvifConfig" where
  "onvif_of m d =
     \<lparr>ov_enable = pcl_toBool m ''onvif.enable'' (ov_enable d),
      ov_listenIp = cfg_get m ''onvif.listen.ip'' (ov_listenIp d),
      ov_listenPort = toPort m ''onvif.listen.port'' (ov_listenPort d),
      ov_authEnable = pcl_toBool m ''onvif.auth.enable'' (ov_authEnable d),
      ov_username = cfg_get m ''onvif.auth.username'' (ov_username d),
      ov_password = cfg_get m ''onvif.auth.password'' (ov_password d),
      ov_rtspAdvertiseIp = cfg_get m ''onvif.rtsp.advertise_ip'' (ov_rtspAdvertiseIp d),
      ov_rtspPort = toPort m ''onvif.rtsp.port'' (ov_rtspPort d),
      ov_rtspPath = cfg_get m ''onvif.rtsp.path'' (ov_rtspPath d)\<rparr>"

definition private_api_of :: "FlatConfig \<Rightarrow> PrivateApiConfig \<Rightarrow> PrivateApiConfig" where
  "private_api_of m d =
     \<lparr>pa_enable = pcl_toBool m ''private_api.enable'' (pa_enable d),
      pa_listenIp = cfg_get m ''private_api.listen.ip'' (pa_listenIp d),
      pa_listenPort = toPort m ''private_api.listen.port'' (pa_listenPort d),
      pa_authEnable = pcl_toBool m ''private_api.auth.enable'' (pa_authEnable d),
      pa_username = cfg_get m ''private_api.auth.username'' (pa_username d),
      pa_password = cfg_get m ''private_api.auth.password'' (pa_password d)\<rparr>"

definition rtsp_of :: "FlatConfig \<Rightarrow> RtspConfig \<Rightarrow> RtspConfig" where
  "rtsp_of m d =
     \<lparr>rt_enable = pcl_toBool m ''rtsp.enable'' (rt_enable d),
      rt_bindIp = cfg_get m ''rtsp.bind_ip'' (rt_bindIp d),
      rt_advertiseIp = cfg_get m ''rtsp.advertise_ip'' (rt_advertiseIp d),
      rt_port = toPort m ''rtsp.port'' (rt_port d),
      rt_path = cfg_get m ''rtsp.path'' (rt_path d),
      rt_authEnable = pcl_toBool m ''rtsp.auth.enable'' (rt_authEnable d),
      rt_username = cfg_get m ''rtsp.auth.username'' (rt_username d),
      rt_password = cfg_get m ''rtsp.auth.password'' (rt_password d)\<rparr>"

text \<open>What the four loading functions share: parse, convert, validate, with the errors wrapped again.\<close>

definition load_endpoint ::
  "'w files \<Rightarrow> string \<Rightarrow> (FlatConfig \<Rightarrow> 'c) \<Rightarrow> ('c \<Rightarrow> unit Result) \<Rightarrow> 'w \<Rightarrow> 'c Result" where
  "load_endpoint fl path convert check w =
     (case parseOptionalYaml fl path w of
        Inl e \<Rightarrow> rewrap e
      | Inr m \<Rightarrow> (case check (convert m) of Inl e \<Rightarrow> rewrap e | Inr _ \<Rightarrow> Inr (convert m)))"

definition loadGb28181 :: "'w files \<Rightarrow> string \<Rightarrow> 'w \<Rightarrow> Gb28181Config Result" where
  "loadGb28181 fl path w = load_endpoint fl path (\<lambda>m. gb28181_of m default_gb28181) validateGb28181 w"

definition loadOnvif :: "'w files \<Rightarrow> string \<Rightarrow> 'w \<Rightarrow> OnvifConfig Result" where
  "loadOnvif fl path w = load_endpoint fl path (\<lambda>m. onvif_of m default_onvif) validateOnvif w"

definition loadPrivateApi :: "'w files \<Rightarrow> string \<Rightarrow> 'w \<Rightarrow> PrivateApiConfig Result" where
  "loadPrivateApi fl path w = load_endpoint fl path (\<lambda>m. private_api_of m default_private_api) validatePrivateApi w"

definition loadRtsp :: "'w files \<Rightarrow> string \<Rightarrow> 'w \<Rightarrow> RtspConfig Result" where
  "loadRtsp fl path w = load_endpoint fl path (\<lambda>m. rtsp_of m default_rtsp) validateRtsp w"

definition load_endpoints :: "'w files \<Rightarrow> string \<Rightarrow> 'w \<Rightarrow> ProtocolEndpointConfigSet Result" where
  "load_endpoints fl dir w =
     (case loadGb28181 fl (joinPath dir ''gb28181.yaml'') w of
        Inl e \<Rightarrow> rewrap e
      | Inr gb \<Rightarrow>
     (case loadOnvif fl (joinPath dir ''onvif.yaml'') w of
        Inl e \<Rightarrow> rewrap e
      | Inr onvif \<Rightarrow>
     (case loadPrivateApi fl (joinPath dir ''private_api.yaml'') w of
        Inl e \<Rightarrow> rewrap e
      | Inr privateApi \<Rightarrow>
     (case loadRtsp fl (joinPath dir ''rtsp.yaml'') w of
        Inl e \<Rightarrow> rewrap e
      | Inr rtsp \<Rightarrow>
          let out = \<lparr>pe_gb28181 = gb, pe_onvif = onvif, pe_privateApi = privateApi, pe_rtsp = rtsp\<rparr> in
          (case validate_endpoints out of Inl e \<Rightarrow> rewrap e | Inr _ \<Rightarrow> Inr out)))))"

subsection \<open>Saving\<close>

definition yaml_bool :: "bool \<Rightarrow> string" where
  "yaml_bool b = (if b then ''true'' else ''false'')"

definition show_port :: "u16 \<Rightarrow> string" where
  "show_port p = show_int (uint p)"

definition gb28181_lines :: "Gb28181Config \<Rightarrow> string list" where
  "gb28181_lines c =
     [''gb28181:'',
      ''  enable: '' @ yaml_bool (gb_enable c), [],
      ''  local:'',
      ''    device_id: '' @ yaml_quote (gl_deviceId (gb_local c)),
      ''    domain: '' @ yaml_quote (gl_domain (gb_local c)),
      ''    ip: '' @ yaml_quote (gl_ip (gb_local c)),
      ''    port: '' @ show_port (gl_port (gb_local c)),
      ''    password: '' @ yaml_quote (gl_password (gb_local c)),
      ''    manufacturer: '' @ yaml_quote (gl_manufacturer (gb_local c)),
      ''    model: '' @ yaml_quote (gl_model (gb_local c)),
      ''    firmware: '' @ yaml_quote (gl_firmware (gb_local c)), [],
      ''  channel:'',
      ''    id: '' @ yaml_quote (gh_id (gb_channel c)),
      ''    name: '' @ yaml_quote (gh_name (gb_channel c)), [],
      ''  server:'',
      ''    id: '' @ yaml_quote (gv_id (gb_server c)),
      ''    domain: '' @ yaml_quote (gv_domain (gb_server c)),
      ''    ip: '' @ yaml_quote (gv_ip (gb_server c)),
      ''    port: '' @ show_port (gv_port (gb_server c)),
      ''    password: '' @ yaml_quote (gv_password (gb_server c)), [],
      ''  register:'',
      ''    expires_sec: '' @ show_int (gr_expiresSec (gb_reg c)),
      ''    retry_interval_sec: '' @ show_int (gr_retryIntervalSec (gb_reg c)), [],
      ''  keepalive:'',
      ''    interval_sec: '' @ show_int (gk_intervalSec (gb_keepalive c)),
      ''    timeout_sec: '' @ show_int (gk_timeoutSec (gb_keepalive c)), [],
      ''  media:'',
      ''    rtp_local_port: '' @ show_port (gm_rtpLocalPort (gb_media c)),
      ''    ssrc: '' @ yaml_quote (gm_ssrc (gb_media c)),
      ''    transport: '' @ yaml_quote (gm_transport (gb_media c))]"

definition onvif_lines :: "OnvifConfig \<Rightarrow> string list" where
  "onvif_lines c =
     [''onvif:'',
      ''  enable: '' @ yaml_bool (ov_enable c),
      ''  listen:'',
      ''    ip: '' @ yaml_quote (ov_listenIp c),
      ''    port: '' @ show_port (ov_listenPort c),
      ''  auth:'',
      ''    enable: '' @ yaml_bool (ov_authEnable c),
      ''    username: '' @ yaml_quote (ov_username c),
      ''    password: '' @ yaml_quote (ov_password c),
      ''  rtsp:'',
      ''    advertise_ip: '' @ yaml_quote (ov_rtspAdvertiseIp c),
      ''    port: '' @ show_port (ov_rtspPort c),
      ''    path: '' @ yaml_quote (ov_rtspPath c)]"

definition private_api_lines :: "PrivateApiConfig \<Rightarrow> string list" where
  "private_api_lines c =
     [''private_api:'',
      ''  enable: '' @ yaml_bool (pa_enable c),
      ''  listen:'',
      ''    ip: '' @ yaml_quote (pa_listenIp c),
      ''    port: '' @ show_port (pa_listenPort c),
      ''  auth:'',
      ''    enable: '' @ yaml_bool (pa_authEnable c),
      ''    username: '' @ yaml_quote (pa_username c),
      ''    password: '' @ yaml_quote (pa_password c)]"

definition rtsp_lines :: "RtspConfig \<Rightarrow> string list" where
  "rtsp_lines c =
     [''rtsp:'',
      ''  enable: '' @ yaml_bool (rt_enable c),
      ''  bind_ip: '' @ yaml_quote (rt_bindIp c),
      ''  advertise_ip: '' @ yaml_quote (rt_advertiseIp c),
      ''  port: '' @ show_port (rt_port c),
      ''  path: '' @ yaml_quote (rt_path c),
      ''  auth:'',
      ''    enable: '' @ yaml_bool (rt_authEnable c),
      ''    username: '' @ yaml_quote (rt_username c),
      ''    password: '' @ yaml_quote (rt_password c)]"

definition save_endpoint ::
  "'w files \<Rightarrow> string \<Rightarrow> unit Result \<Rightarrow> string list \<Rightarrow> 'w \<Rightarrow> unit Result \<times> 'w" where
  "save_endpoint fl path valid ls w =
     (case valid of Inl e \<Rightarrow> (Inl e, w) | Inr _ \<Rightarrow> writeText fl path (unlines ls) w)"

definition saveGb28181 :: "'w files \<Rightarrow> string \<Rightarrow> Gb28181Config \<Rightarrow> 'w \<Rightarrow> unit Result \<times> 'w" where
  "saveGb28181 fl path c = save_endpoint fl path (validateGb28181 c) (gb28181_lines c)"

definition saveOnvif :: "'w files \<Rightarrow> string \<Rightarrow> OnvifConfig \<Rightarrow> 'w \<Rightarrow> unit Result \<times> 'w" where
  "saveOnvif fl path c = save_endpoint fl path (validateOnvif c) (onvif_lines c)"

definition savePrivateApi :: "'w files \<Rightarrow> string \<Rightarrow> PrivateApiConfig \<Rightarrow> 'w \<Rightarrow> unit Result \<times> 'w" where
  "savePrivateApi fl path c = save_endpoint fl path (validatePrivateApi c) (private_api_lines c)"

definition saveRtsp :: "'w files \<Rightarrow> string \<Rightarrow> RtspConfig \<Rightarrow> 'w \<Rightarrow> unit Result \<times> 'w" where
  "saveRtsp fl path c = save_endpoint fl path (validateRtsp c) (rtsp_lines c)"

subsection \<open>ProtocolConfigStore.cpp\<close>

record ProtocolConfigStore =
  ys_configDir :: string
  ys_endpoints :: ProtocolEndpointConfigSet
  ys_loaded :: bool

definition new_config_store :: ProtocolConfigStore where
  "new_config_store = \<lparr>ys_configDir = [], ys_endpoints = default_endpoints, ys_loaded = False\<rparr>"

definition pathOf :: "ProtocolConfigStore \<Rightarrow> string \<Rightarrow> string" where
  "pathOf s filename = joinPath (ys_configDir s) filename"

definition store_load :: "'w files \<Rightarrow> string \<Rightarrow> ProtocolConfigStore \<Rightarrow> 'w \<Rightarrow> unit Result \<times> ProtocolConfigStore" where
  "store_load fl configDir s w =
     (case load_endpoints fl configDir w of
        Inl e \<Rightarrow> (rewrap e, s)
      | Inr cfg \<Rightarrow> (Success, \<lparr>ys_configDir = configDir, ys_endpoints = cfg, ys_loaded = True\<rparr>))"

fun save_steps :: "('w \<Rightarrow> unit Result \<times> 'w) list \<Rightarrow> 'w \<Rightarrow> unit Result \<times> 'w" where
  "save_steps [] w = (Success, w)"
| "save_steps (f # fs) w = (case f w of (Inl e, w) \<Rightarrow> (Inl e, w) | (Inr _, w) \<Rightarrow> save_steps fs w)"

definition store_save :: "'w files \<Rightarrow> ProtocolConfigStore \<Rightarrow> 'w \<Rightarrow> unit Result \<times> 'w" where
  "store_save fl s w =
     (if \<not> ys_loaded s then (Error NotInitialized ''protocol config store is not loaded'', w)
      else save_steps
        [saveGb28181 fl (pathOf s ''gb28181.yaml'') (pe_gb28181 (ys_endpoints s)),
         saveOnvif fl (pathOf s ''onvif.yaml'') (pe_onvif (ys_endpoints s)),
         savePrivateApi fl (pathOf s ''private_api.yaml'') (pe_privateApi (ys_endpoints s)),
         saveRtsp fl (pathOf s ''rtsp.yaml'') (pe_rtsp (ys_endpoints s))] w)"

text \<open>The four updates: a valid configuration is kept in memory and then, if asked for, written.\<close>

definition store_update ::
  "unit Result \<Rightarrow> (ProtocolEndpointConfigSet \<Rightarrow> ProtocolEndpointConfigSet) \<Rightarrow> ('w \<Rightarrow> unit Result \<times> 'w) \<Rightarrow>
   bool \<Rightarrow> ProtocolConfigStore \<Rightarrow> 'w \<Rightarrow> unit Result \<times> ProtocolConfigStore \<times> 'w" where
  "store_update valid change save persist s w =
     (case valid of
        Inl e \<Rightarrow> (Inl e, s, w)
      | Inr _ \<Rightarrow>
          let s = s\<lparr>ys_endpoints := change (ys_endpoints s)\<rparr> in
          if persist then (case save w of (r, w) \<Rightarrow> (r, s, w)) else (Success, s, w))"

definition updateGb28181 ::
  "'w files \<Rightarrow> Gb28181Config \<Rightarrow> bool \<Rightarrow> ProtocolConfigStore \<Rightarrow> 'w \<Rightarrow> unit Result \<times> ProtocolConfigStore \<times> 'w" where
  "updateGb28181 fl c persist s w =
     store_update (validateGb28181 c) (\<lambda>e. e\<lparr>pe_gb28181 := c\<rparr>) (saveGb28181 fl (pathOf s ''gb28181.yaml'') c)
       persist s w"

definition updateGb28181Server ::
  "'w files \<Rightarrow> Gb28181ServerConfig \<Rightarrow> bool \<Rightarrow> ProtocolConfigStore \<Rightarrow> 'w \<Rightarrow>
   unit Result \<times> ProtocolConfigStore \<times> 'w" where
  "updateGb28181Server fl server persist s w =
     updateGb28181 fl ((pe_gb28181 (ys_endpoints s))\<lparr>gb_server := server\<rparr>) persist s w"

definition updateOnvif ::
  "'w files \<Rightarrow> OnvifConfig \<Rightarrow> bool \<Rightarrow> ProtocolConfigStore \<Rightarrow> 'w \<Rightarrow> unit Result \<times> ProtocolConfigStore \<times> 'w" where
  "updateOnvif fl c persist s w =
     store_update (validateOnvif c) (\<lambda>e. e\<lparr>pe_onvif := c\<rparr>) (saveOnvif fl (pathOf s ''onvif.yaml'') c) persist s w"

definition updatePrivateApi ::
  "'w files \<Rightarrow> PrivateApiConfig \<Rightarrow> bool \<Rightarrow> ProtocolConfigStore \<Rightarrow> 'w \<Rightarrow>
   unit Result \<times> ProtocolConfigStore \<times> 'w" where
  "updatePrivateApi fl c persist s w =
     store_update (validatePrivateApi c) (\<lambda>e. e\<lparr>pe_privateApi := c\<rparr>)
       (savePrivateApi fl (pathOf s ''private_api.yaml'') c) persist s w"

definition updateRtsp ::
  "'w files \<Rightarrow> RtspConfig \<Rightarrow> bool \<Rightarrow> ProtocolConfigStore \<Rightarrow> 'w \<Rightarrow> unit Result \<times> ProtocolConfigStore \<times> 'w" where
  "updateRtsp fl c persist s w =
     store_update (validateRtsp c) (\<lambda>e. e\<lparr>pe_rtsp := c\<rparr>) (saveRtsp fl (pathOf s ''rtsp.yaml'') c) persist s w"

definition flattenGb28181 :: "ProtocolConfigStore \<Rightarrow> (string \<times> string) list" where
  "flattenGb28181 s =
     (let c = pe_gb28181 (ys_endpoints s) in
      [(''gb28181.enable'', yaml_bool (gb_enable c)),
       (''gb28181.local.device_id'', gl_deviceId (gb_local c)),
       (''gb28181.local.domain'', gl_domain (gb_local c)),
       (''gb28181.local.ip'', gl_ip (gb_local c)),
       (''gb28181.local.port'', show_port (gl_port (gb_local c))),
       (''gb28181.local.password'', gl_password (gb_local c)),
       (''gb28181.server.id'', gv_id (gb_server c)),
       (''gb28181.server.domain'', gv_domain (gb_server c)),
       (''gb28181.server.ip'', gv_ip (gb_server c)),
       (''gb28181.server.port'', show_port (gv_port (gb_server c))),
       (''gb28181.server.password'', gv_password (gb_server c)),
       (''gb28181.channel.id'', gh_id (gb_channel c)),
       (''gb28181.channel.name'', gh_name (gb_channel c)),
       (''gb28181.register.expires_sec'', show_int (gr_expiresSec (gb_reg c))),
       (''gb28181.keepalive.interval_sec'', show_int (gk_intervalSec (gb_keepalive c)))])"

subsection \<open>Saved configurations load again\<close>

text \<open>The saved files as documents.\<close>

definition gb28181_doc :: "Gb28181Config \<Rightarrow> yaml" where
  "gb28181_doc c =
     Sect ''gb28181''
       [Item ''enable'' (yaml_bool (gb_enable c)),
        Sect ''local''
          [Item ''device_id'' (yaml_quote (gl_deviceId (gb_local c))),
           Item ''domain'' (yaml_quote (gl_domain (gb_local c))),
           Item ''ip'' (yaml_quote (gl_ip (gb_local c))),
           Item ''port'' (show_port (gl_port (gb_local c))),
           Item ''password'' (yaml_quote (gl_password (gb_local c))),
           Item ''manufacturer'' (yaml_quote (gl_manufacturer (gb_local c))),
           Item ''model'' (yaml_quote (gl_model (gb_local c))),
           Item ''firmware'' (yaml_quote (gl_firmware (gb_local c)))],
        Sect ''channel''
          [Item ''id'' (yaml_quote (gh_id (gb_channel c))), Item ''name'' (yaml_quote (gh_name (gb_channel c)))],
        Sect ''server''
          [Item ''id'' (yaml_quote (gv_id (gb_server c))),
           Item ''domain'' (yaml_quote (gv_domain (gb_server c))),
           Item ''ip'' (yaml_quote (gv_ip (gb_server c))),
           Item ''port'' (show_port (gv_port (gb_server c))),
           Item ''password'' (yaml_quote (gv_password (gb_server c)))],
        Sect ''register''
          [Item ''expires_sec'' (show_int (gr_expiresSec (gb_reg c))),
           Item ''retry_interval_sec'' (show_int (gr_retryIntervalSec (gb_reg c)))],
        Sect ''keepalive''
          [Item ''interval_sec'' (show_int (gk_intervalSec (gb_keepalive c))),
           Item ''timeout_sec'' (show_int (gk_timeoutSec (gb_keepalive c)))],
        Sect ''media''
          [Item ''rtp_local_port'' (show_port (gm_rtpLocalPort (gb_media c))),
           Item ''ssrc'' (yaml_quote (gm_ssrc (gb_media c))),
           Item ''transport'' (yaml_quote (gm_transport (gb_media c)))]]"

definition onvif_doc :: "OnvifConfig \<Rightarrow> yaml" where
  "onvif_doc c =
     Sect ''onvif''
       [Item ''enable'' (yaml_bool (ov_enable c)),
        Sect ''listen''
          [Item ''ip'' (yaml_quote (ov_listenIp c)), Item ''port'' (show_port (ov_listenPort c))],
        Sect ''auth''
          [Item ''enable'' (yaml_bool (ov_authEnable c)), Item ''username'' (yaml_quote (ov_username c)),
           Item ''password'' (yaml_quote (ov_password c))],
        Sect ''rtsp''
          [Item ''advertise_ip'' (yaml_quote (ov_rtspAdvertiseIp c)), Item ''port'' (show_port (ov_rtspPort c)),
           Item ''path'' (yaml_quote (ov_rtspPath c))]]"

definition private_api_doc :: "PrivateApiConfig \<Rightarrow> yaml" where
  "private_api_doc c =
     Sect ''private_api''
       [Item ''enable'' (yaml_bool (pa_enable c)),
        Sect ''listen''
          [Item ''ip'' (yaml_quote (pa_listenIp c)), Item ''port'' (show_port (pa_listenPort c))],
        Sect ''auth''
          [Item ''enable'' (yaml_bool (pa_authEnable c)), Item ''username'' (yaml_quote (pa_username c)),
           Item ''password'' (yaml_quote (pa_password c))]]"

definition rtsp_doc :: "RtspConfig \<Rightarrow> yaml" where
  "rtsp_doc c =
     Sect ''rtsp''
       [Item ''enable'' (yaml_bool (rt_enable c)), Item ''bind_ip'' (yaml_quote (rt_bindIp c)),
        Item ''advertise_ip'' (yaml_quote (rt_advertiseIp c)), Item ''port'' (show_port (rt_port c)),
        Item ''path'' (yaml_quote (rt_path c)),
        Sect ''auth''
          [Item ''enable'' (yaml_bool (rt_authEnable c)), Item ''username'' (yaml_quote (rt_username c)),
           Item ''password'' (yaml_quote (rt_password c))]]"

lemma saved_lines:
  "filter (\<lambda>l. l \<noteq> []) (gb28181_lines c) = yaml_lines 0 (gb28181_doc c)"
  "filter (\<lambda>l. l \<noteq> []) (onvif_lines ov) = yaml_lines 0 (onvif_doc ov)"
  "filter (\<lambda>l. l \<noteq> []) (private_api_lines pa) = yaml_lines 0 (private_api_doc pa)"
  "filter (\<lambda>l. l \<noteq> []) (rtsp_lines rt) = yaml_lines 0 (rtsp_doc rt)"
  by (simp_all add: gb28181_lines_def gb28181_doc_def onvif_lines_def onvif_doc_def private_api_lines_def
      private_api_doc_def rtsp_lines_def rtsp_doc_def numeral_eq_Suc)

text \<open>What a configuration must be like for its text to be read back: no hash sign or line break in
  a text, no port 0, numbers of the size of a C int and a transport in lower case.\<close>

definition clean_text :: "string \<Rightarrow> bool" where
  "clean_text s \<longleftrightarrow> CHR ''#'' \<notin> set s \<and> CHR 0x0A \<notin> set s"

definition gb28181_saveable :: "Gb28181Config \<Rightarrow> bool" where
  "gb28181_saveable c \<longleftrightarrow>
     list_all clean_text [gl_deviceId (gb_local c), gl_domain (gb_local c), gl_ip (gb_local c), gl_password (gb_local c),
       gl_manufacturer (gb_local c), gl_model (gb_local c), gl_firmware (gb_local c), gh_id (gb_channel c),
       gh_name (gb_channel c), gv_id (gb_server c), gv_domain (gb_server c), gv_ip (gb_server c),
       gv_password (gb_server c), gm_ssrc (gb_media c), gm_transport (gb_media c)] \<and>
     list_all (\<lambda>p. p \<noteq> 0) [gl_port (gb_local c), gv_port (gb_server c), gm_rtpLocalPort (gb_media c)] \<and>
     list_all is_c_int [gr_expiresSec (gb_reg c), gr_retryIntervalSec (gb_reg c), gk_intervalSec (gb_keepalive c),
       gk_timeoutSec (gb_keepalive c)] \<and>
     lower (gm_transport (gb_media c)) = gm_transport (gb_media c)"

definition onvif_saveable :: "OnvifConfig \<Rightarrow> bool" where
  "onvif_saveable c \<longleftrightarrow>
     list_all clean_text [ov_listenIp c, ov_username c, ov_password c, ov_rtspAdvertiseIp c, ov_rtspPath c] \<and>
     ov_listenPort c \<noteq> 0 \<and> ov_rtspPort c \<noteq> 0"

definition private_api_saveable :: "PrivateApiConfig \<Rightarrow> bool" where
  "private_api_saveable c \<longleftrightarrow>
     list_all clean_text [pa_listenIp c, pa_username c, pa_password c] \<and> pa_listenPort c \<noteq> 0"

definition rtsp_saveable :: "RtspConfig \<Rightarrow> bool" where
  "rtsp_saveable c \<longleftrightarrow>
     list_all clean_text [rt_bindIp c, rt_advertiseIp c, rt_path c, rt_username c, rt_password c] \<and> rt_port c \<noteq> 0"

definition endpoints_saveable :: "ProtocolEndpointConfigSet \<Rightarrow> bool" where
  "endpoints_saveable c \<longleftrightarrow> gb28181_saveable (pe_gb28181 c) \<and> onvif_saveable (pe_onvif c) \<and>
     private_api_saveable (pe_privateApi c) \<and> rtsp_saveable (pe_rtsp c)"

lemma saved_values [simp]:
  "plain_value (yaml_bool b)" "plain_value (show_port p)" "plain_value (show_int i)"
  "clean_text t \<Longrightarrow> plain_value (yaml_quote t)"
proof -
  have "plain_value ''true''" "plain_value ''false''" by code_simp+
  then show "plain_value (yaml_bool b)" by (simp add: yaml_bool_def)
qed (simp_all add: show_port_def plain_show_int plain_quoted clean_text_def)

lemma saved_keys [simp]:
  "list_all plain_key
     [''gb28181'', ''enable'', ''local'', ''device_id'', ''domain'', ''ip'', ''port'', ''password'', ''manufacturer'',
      ''model'', ''firmware'', ''channel'', ''id'', ''name'', ''server'', ''register'', ''expires_sec'',
      ''retry_interval_sec'', ''keepalive'', ''interval_sec'', ''timeout_sec'', ''media'', ''rtp_local_port'', ''ssrc'',
      ''transport'', ''onvif'', ''listen'', ''auth'', ''username'', ''rtsp'', ''advertise_ip'', ''path'',
      ''private_api'', ''bind_ip'']"
  by code_simp

lemma saved_docs_ok:
  "gb28181_saveable c \<Longrightarrow> yaml_ok (gb28181_doc c)"
  "onvif_saveable ov \<Longrightarrow> yaml_ok (onvif_doc ov)"
  "private_api_saveable pa \<Longrightarrow> yaml_ok (private_api_doc pa)"
  "rtsp_saveable rt \<Longrightarrow> yaml_ok (rtsp_doc rt)"
  using saved_keys
  by (simp_all only: gb28181_doc_def onvif_doc_def private_api_doc_def rtsp_doc_def gb28181_saveable_def
      onvif_saveable_def private_api_saveable_def rtsp_saveable_def yaml_ok.simps list.pred_inject saved_values simp_thms)

lemma unquote_show_int [simp]: "unquote (show_int i) = show_int i"
proof -
  have plain: "plain_value (show_int i)" by (rule plain_show_int)
  then have t: "trim (show_int i) = show_int i"
    using trim_inner[of "[]" "show_int i"] by (simp add: plain_value_def)
  have "\<not> isdigit (CHR 0x22)" "\<not> isdigit (CHR 0x27)" by (simp_all add: isdigit_def chr_code_def)
  moreover have "isdigit (hd (show_nat n))" for n
    using show_nat_digits[of n] by (cases "show_nat n") auto
  ultimately have "hd (show_int i) \<noteq> CHR 0x22 \<and> hd (show_int i) \<noteq> CHR 0x27"
    by (auto simp: show_int_def) metis+
  then show ?thesis by (simp add: unquote_def t)
qed

lemma pcl_toInt_shown: "map_of m k = Some (show_int i) \<Longrightarrow> is_c_int i \<Longrightarrow> pcl_toInt m k fb = i"
  by (simp add: pcl_toInt_def stoi_show_int is_c_int_def)

lemma toPort_shown:
  assumes "map_of m k = Some (show_port p)" "p \<noteq> 0"
  shows "toPort m k fb = p"
proof -
  have "uint p < 2 ^ 16" using uint_lt2p[of p] by simp
  moreover have "0 < uint p" using assms(2) by (metis uint_0_iff uint_ge_0 order_le_less)
  ultimately have "isValidPort (uint p)" "is_c_int (uint p)"
    by (simp_all add: isValidPort_def is_c_int_def int_min_def int_max_def)
  with assms(1) show ?thesis by (simp add: toPort_def show_port_def pcl_toInt_shown Let_def)
qed

lemma pcl_toBool_shown: "map_of m k = Some (yaml_bool b) \<Longrightarrow> pcl_toBool m k fb = b"
proof -
  have "lower (unquote ''true'') = ''true''" "lower (unquote ''false'') = ''false''" by code_simp+
  then show "map_of m k = Some (yaml_bool b) \<Longrightarrow> ?thesis"
    by (simp add: pcl_toBool_def cfg_get_def yaml_bool_def)
qed

lemmas shown = cfg_get_quoted pcl_toInt_shown toPort_shown pcl_toBool_shown

lemma onvif_back: "onvif_saveable c \<Longrightarrow> onvif_of (rev (yaml_flat [] (onvif_doc c))) d = c"
  by (simp add: onvif_of_def onvif_doc_def onvif_saveable_def extend_prefix_def shown)

lemma private_api_back:
  "private_api_saveable c \<Longrightarrow> private_api_of (rev (yaml_flat [] (private_api_doc c))) d = c"
  by (simp add: private_api_of_def private_api_doc_def private_api_saveable_def extend_prefix_def shown)

lemma gb28181_back: "gb28181_saveable c \<Longrightarrow> gb28181_of (rev (yaml_flat [] (gb28181_doc c))) d = c"
  by (simp add: gb28181_of_def gb28181_doc_def gb28181_saveable_def extend_prefix_def shown)

lemma rtsp_back: "rtsp_saveable c \<Longrightarrow> rtsp_of (rev (yaml_flat [] (rtsp_doc c))) d = c"
  by (simp add: rtsp_of_def rtsp_doc_def rtsp_saveable_def extend_prefix_def shown)

text \<open>A file system keeps what was written to a file that could be opened, and the other files.\<close>

definition faithful_files :: "'w files \<Rightarrow> bool" where
  "faithful_files fl \<longleftrightarrow>
     (\<forall>path text w w'. fl_write fl path text w = (True, w') \<longrightarrow>
        fl_read fl path w' = Some text \<and> (\<forall>q. q \<noteq> path \<longrightarrow> fl_read fl q w' = fl_read fl q w))"

lemma load_saved:
  assumes "fl_read fl path w = Some (unlines ls)" "filter (\<lambda>l. l \<noteq> []) ls = yaml_lines 0 doc" "yaml_ok doc"
    and "convert (rev (yaml_flat [] doc)) = c" "check c = Success"
  shows "load_endpoint fl path convert check w = Inr c"
  using assms yaml_read_back_lines[of "[doc]" ls]
  by (simp add: load_endpoint_def parseOptionalYaml_def parseSimpleYaml_def readText_def)

lemma save_endpoint_success:
  assumes "faithful_files fl" "save_endpoint fl path valid ls w = (Success, w')"
  shows "valid = Success \<and> fl_read fl path w' = Some (unlines ls) \<and>
    (\<forall>q. q \<noteq> path \<longrightarrow> fl_read fl q w' = fl_read fl q w)"
proof -
  obtain opened w1 where "fl_write fl path (unlines ls) w = (opened, w1)" by fastforce
  with assms show ?thesis
    by (auto simp: save_endpoint_def writeText_def faithful_files_def split: sum.splits bool.splits)
qed

lemma joinPath_inject: "joinPath dir a = joinPath dir b \<longleftrightarrow> a = b"
  by (simp add: joinPath_def)

text \<open>
  Claim C23. Saving the protocol configuration and loading it from the same directory gives it back,
  for every configuration that is valid - a save that succeeds - and whose texts have no hash sign or
  line break, whose ports are not 0 and whose transport is in lower case.\<close>

theorem store_save_load:
  assumes "faithful_files fl" "ys_loaded s" "endpoints_saveable (ys_endpoints s)"
    and "store_save fl s w = (Success, w')"
  shows "store_load fl (ys_configDir s) s0 w' = (Success, s)"
proof -
  let ?e = "ys_endpoints s"
  from assms(2,4) obtain w1 w2 w3 where
    s1: "saveGb28181 fl (pathOf s ''gb28181.yaml'') (pe_gb28181 ?e) w = (Success, w1)" and
    s2: "saveOnvif fl (pathOf s ''onvif.yaml'') (pe_onvif ?e) w1 = (Success, w2)" and
    s3: "savePrivateApi fl (pathOf s ''private_api.yaml'') (pe_privateApi ?e) w2 = (Success, w3)" and
    s4: "saveRtsp fl (pathOf s ''rtsp.yaml'') (pe_rtsp ?e) w3 = (Success, w')"
    by (auto simp: store_save_def split: prod.splits sum.splits)
  note saved = s1[unfolded saveGb28181_def] s2[unfolded saveOnvif_def] s3[unfolded savePrivateApi_def]
    s4[unfolded saveRtsp_def]
  note r = saved[THEN save_endpoint_success[OF assms(1)]]
  have paths: "pathOf s a = pathOf s b \<longleftrightarrow> a = b" for a b by (simp add: pathOf_def joinPath_inject)
  have read: "fl_read fl (pathOf s ''gb28181.yaml'') w' = Some (unlines (gb28181_lines (pe_gb28181 ?e)))"
    "fl_read fl (pathOf s ''onvif.yaml'') w' = Some (unlines (onvif_lines (pe_onvif ?e)))"
    "fl_read fl (pathOf s ''private_api.yaml'') w' = Some (unlines (private_api_lines (pe_privateApi ?e)))"
    "fl_read fl (pathOf s ''rtsp.yaml'') w' = Some (unlines (rtsp_lines (pe_rtsp ?e)))"
    using r by (simp_all add: paths)
  from assms(3) have ok: "gb28181_saveable (pe_gb28181 ?e)" "onvif_saveable (pe_onvif ?e)"
    "private_api_saveable (pe_privateApi ?e)" "rtsp_saveable (pe_rtsp ?e)" by (simp_all add: endpoints_saveable_def)
  have valid: "validateGb28181 (pe_gb28181 ?e) = Success" "validateOnvif (pe_onvif ?e) = Success"
    "validatePrivateApi (pe_privateApi ?e) = Success" "validateRtsp (pe_rtsp ?e) = Success" using r by simp_all
  note read' = read[unfolded pathOf_def]
  have "loadGb28181 fl (joinPath (ys_configDir s) ''gb28181.yaml'') w' = Inr (pe_gb28181 ?e)"
    unfolding loadGb28181_def
    by (rule load_saved) (rule read' saved_lines saved_docs_ok(1)[OF ok(1)] gb28181_back[OF ok(1)] valid)+
  moreover have "loadOnvif fl (joinPath (ys_configDir s) ''onvif.yaml'') w' = Inr (pe_onvif ?e)"
    unfolding loadOnvif_def
    by (rule load_saved) (rule read' saved_lines saved_docs_ok(2)[OF ok(2)] onvif_back[OF ok(2)] valid)+
  moreover have "loadPrivateApi fl (joinPath (ys_configDir s) ''private_api.yaml'') w' = Inr (pe_privateApi ?e)"
    unfolding loadPrivateApi_def
    by (rule load_saved) (rule read' saved_lines saved_docs_ok(3)[OF ok(3)] private_api_back[OF ok(3)] valid)+
  moreover have "loadRtsp fl (joinPath (ys_configDir s) ''rtsp.yaml'') w' = Inr (pe_rtsp ?e)"
    unfolding loadRtsp_def
    by (rule load_saved) (rule read' saved_lines saved_docs_ok(4)[OF ok(4)] rtsp_back[OF ok(4)] valid)+
  ultimately have "load_endpoints fl (ys_configDir s) w' = Inr ?e"
    by (simp add: load_endpoints_def validate_endpoints_def valid)
  with assms(2) show ?thesis by (simp add: store_load_def)
qed

lemma map_files_faithful: "faithful_files map_files"
  by (simp add: faithful_files_def map_files_def)

lemma map_files_save: "save_endpoint map_files path Success ls w = (Success, w(path \<mapsto> unlines ls))"
  by (simp add: save_endpoint_def writeText_def map_files_def)

definition sample_store :: ProtocolConfigStore where
  "sample_store = new_config_store\<lparr>ys_configDir := ''config'', ys_loaded := True,
     ys_endpoints := default_endpoints\<lparr>pe_rtsp := default_rtsp\<lparr>rt_password := ''it's \"ok\"''\<rparr>\<rparr>\<rparr>"

theorem store_save_load_witness:
  "\<exists>w'. store_save map_files sample_store Map.empty = (Success, w') \<and>
     store_load map_files ''config'' new_config_store w' = (Success, sample_store)"
proof -
  have ok: "endpoints_saveable (ys_endpoints sample_store)" by code_simp
  have valid: "validateGb28181 (pe_gb28181 (ys_endpoints sample_store)) = Success"
    "validateOnvif (pe_onvif (ys_endpoints sample_store)) = Success"
    "validatePrivateApi (pe_privateApi (ys_endpoints sample_store)) = Success"
    "validateRtsp (pe_rtsp (ys_endpoints sample_store)) = Success" by code_simp+
  have loaded: "ys_loaded sample_store" by (simp add: sample_store_def)
  obtain w' where saved: "store_save map_files sample_store Map.empty = (Success, w')"
    using loaded by (simp only: store_save_def saveGb28181_def saveOnvif_def savePrivateApi_def saveRtsp_def valid
        map_files_save save_steps.simps prod.case sum.case if_False simp_thms)
  from store_save_load[OF map_files_faithful loaded ok saved, of new_config_store] saved show ?thesis
    by (simp add: sample_store_def)
qed

text \<open>A hash sign in a saved password does not survive: the loader takes it for a comment and keeps
  the opening quote.\<close>

lemma hash_password_lost:
  "map_of (parse_yaml (unlines [''rtsp:'', ''  auth:'', ''    password: '' @ yaml_quote ''pass#1'']))
     ''rtsp.auth.password'' = Some (CHR 0x22 # ''pass'')"
  by code_simp

end
