(* ===== verification/Tri_Protocols.thy ===== *)
theory Tri_Protocols
  imports Tri_Commands Tri_ProtocolConfig
begin

text \<open>
  The protocol layer (protocol/): the protocol kinds, the guard that lets only the active protocol
  through, the adapter that turns protocol requests into commands, the manager, and the three front
  ends over the adapter - the private API, ONVIF and GB28181 - with the GB28181 device service.
  Objects are held by pointer in the code: a record says whether the pointer is set, and the object
  itself is an argument.
\<close>

subsection \<open>ProtocolTypes.cpp\<close>

datatype ProtocolKind = Unknown | Gb28181 | Onvif | PrivateApi | Rtsp

datatype ProtocolEndpointState = EndpointStopped | EndpointRunning | EndpointError

record ProtocolRuntimeContext =
  rx_commandBus :: bool
  rx_protocolService :: bool
  rx_streamService :: bool

record ProtocolRequest =
  rq_method :: string
  rq_path :: string
  rq_body :: string
  rq_params :: "string \<rightharpoonup> string"

record ProtocolResponse =
  rp_code :: int
  rp_message :: string
  rp_fields :: "string \<rightharpoonup> string"

definition response_ok :: "(string \<rightharpoonup> string) \<Rightarrow> ProtocolResponse" where
  "response_ok out = \<lparr>rp_code = 200, rp_message = ''OK'', rp_fields = out\<rparr>"

definition response_error :: "int \<Rightarrow> string \<Rightarrow> ProtocolResponse" where
  "response_error code message = \<lparr>rp_code = code, rp_message = message, rp_fields = Map.empty\<rparr>"

fun toString_ProtocolKind :: "ProtocolKind \<Rightarrow> string" where
  "toString_ProtocolKind ProtocolKind.Gb28181 = ''gb28181''"
| "toString_ProtocolKind ProtocolKind.Onvif = ''onvif''"
| "toString_ProtocolKind ProtocolKind.PrivateApi = ''private''"
| "toString_ProtocolKind ProtocolKind.Rtsp = ''rtsp''"
| "toString_ProtocolKind ProtocolKind.Unknown = ''unknown''"

fun toString_ProtocolEndpointState :: "ProtocolEndpointState \<Rightarrow> string" where
  "toString_ProtocolEndpointState EndpointStopped = ''STOPPED''"
| "toString_ProtocolEndpointState EndpointRunning = ''RUNNING''"
| "toString_ProtocolEndpointState EndpointError = ''ERROR''"

definition protocolKindFromString :: "string \<Rightarrow> ProtocolKind" where
  "protocolKindFromString text =
     (let s = normalize text in
      if s = ''GB28181'' \<or> s = ''GB'' then ProtocolKind.Gb28181
      else if s = ''ONVIF'' then ProtocolKind.Onvif
      else if s = ''PRIVATE'' \<or> s = ''PRIVATEAPI'' \<or> s = ''HTTP'' then ProtocolKind.PrivateApi
      else if s = ''RTSP'' then ProtocolKind.Rtsp
      else ProtocolKind.Unknown)"

fun commandSourceOf :: "ProtocolKind \<Rightarrow> CommandSource" where
  "commandSourceOf ProtocolKind.Gb28181 = CommandSource.Gb28181"
| "commandSourceOf ProtocolKind.Onvif = CommandSource.Onvif"
| "commandSourceOf ProtocolKind.PrivateApi = CommandSource.PrivateApi"
| "commandSourceOf ProtocolKind.Rtsp = CommandSource.Rtsp"
| "commandSourceOf ProtocolKind.Unknown = CommandSource.Unknown"

fun protocolKindOf :: "CommandSource \<Rightarrow> ProtocolKind" where
  "protocolKindOf CommandSource.Gb28181 = ProtocolKind.Gb28181"
| "protocolKindOf CommandSource.Onvif = ProtocolKind.Onvif"
| "protocolKindOf CommandSource.PrivateApi = ProtocolKind.PrivateApi"
| "protocolKindOf CommandSource.Rtsp = ProtocolKind.Rtsp"
| "protocolKindOf CommandSource.LocalCli = ProtocolKind.Unknown"
| "protocolKindOf CommandSource.Internal = ProtocolKind.Unknown"
| "protocolKindOf CommandSource.Unknown = ProtocolKind.Unknown"

definition protocolCodeFromError :: "ErrorCode \<Rightarrow> int" where
  "protocolCodeFromError code =
     (if code = Ok then 200
      else if code = InvalidArgument \<or> code = InvalidCommand \<or> code = UnsupportedWorkMode then 400
      else if code = ProtocolNotActive then 403
      else if code = NotFound then 404
      else if code = ProtocolBusy \<or> code = Busy then 409
      else if code = Timeout \<or> code = SerialReadTimeout then 504
      else if code = Unsupported then 501
      else 500)"

definition fromCommandResult :: "CommandResult \<Rightarrow> ProtocolResponse" where
  "fromCommandResult result =
     (if cr_accepted result \<and> status_ok (cr_status result) then response_ok (cr_fields result)
      else response_error (protocolCodeFromError (st_code (cr_status result))) (describe (cr_status result)))"

interpretation protocol_kind_text: enum_text toString_ProtocolKind protocolKindFromString
proof unfold_locales
  show "protocolKindFromString (toString_ProtocolKind k) = k" for k
    by (cases k; simp only: toString_ProtocolKind.simps; code_simp)
  show "protocolKindFromString (normalize s) = protocolKindFromString s" for s
    by (simp add: protocolKindFromString_def)
qed

lemma protocolKindOf_source [simp]: "protocolKindOf (commandSourceOf k) = k"
  by (cases k) simp_all

lemma commandSourceOf_Unknown [simp]: "commandSourceOf k = CommandSource.Unknown \<longleftrightarrow> k = ProtocolKind.Unknown"
  by (cases k) simp_all

lemma protocolName_kind:
  "k \<noteq> ProtocolKind.Unknown \<Longrightarrow> protocolName (commandSourceOf k) = toString_ProtocolKind k"
  by (cases k) simp_all

subsection \<open>ActiveProtocolGuard.cpp\<close>

record ActiveProtocolGuard =
  ag_service :: bool

definition new_guard :: ActiveProtocolGuard where
  "new_guard = \<lparr>ag_service = False\<rparr>"

definition ag_init :: "bool \<Rightarrow> ActiveProtocolGuard \<Rightarrow> unit Result \<times> ActiveProtocolGuard" where
  "ag_init service ag =
     (if \<not> service then (Error InvalidArgument ''protocol service is null'', ag)
      else (Success, ag\<lparr>ag_service := service\<rparr>))"

definition ag_acquire ::
  "ActiveProtocolGuard \<Rightarrow> CommandSource \<Rightarrow> 'w system \<Rightarrow> unit Result \<times> 'w system" where
  "ag_acquire ag source sy =
     (if \<not> ag_service ag then (Error NotInitialized ''active protocol guard is not initialized'', sy)
      else case pv_acquire source (sy_protocolService sy) of
        (r, pv) \<Rightarrow> (r, sy\<lparr>sy_protocolService := pv\<rparr>))"

definition ag_release :: "ActiveProtocolGuard \<Rightarrow> CommandSource \<Rightarrow> 'w system \<Rightarrow> 'w system" where
  "ag_release ag source sy =
     (if ag_service ag then sy\<lparr>sy_protocolService := pv_release source (sy_protocolService sy)\<rparr> else sy)"

definition ag_isActive :: "ActiveProtocolGuard \<Rightarrow> CommandSource \<Rightarrow> 'w system \<Rightarrow> bool" where
  "ag_isActive ag source sy \<longleftrightarrow> ag_service ag \<and> pv_isActive source (sy_protocolService sy)"

text \<open>\<open>ScopedProtocolOwner\<close>: its construction acquires, its destruction releases what it acquired.\<close>

definition owner_begin ::
  "ActiveProtocolGuard option \<Rightarrow> CommandSource \<Rightarrow> 'w system \<Rightarrow> unit Result \<times> 'w system" where
  "owner_begin guard source sy =
     (case guard of
        None \<Rightarrow> (Error InvalidArgument ''active protocol guard is null'', sy)
      | Some ag \<Rightarrow> ag_acquire ag source sy)"

definition owner_end ::
  "ActiveProtocolGuard option \<Rightarrow> CommandSource \<Rightarrow> unit Result \<Rightarrow> 'w system \<Rightarrow> 'w system" where
  "owner_end guard source status sy =
     (case guard of
        None \<Rightarrow> sy
      | Some ag \<Rightarrow> if result_ok status then ag_release ag source sy else sy)"

lemma owner_simps [simp]:
  "owner_begin (Some ag) source sy = ag_acquire ag source sy"
  "owner_end (Some ag) source (Inr u) sy = ag_release ag source sy"
  "owner_end guard source (Inl e) sy = sy"
  by (simp_all add: owner_begin_def owner_end_def split: option.split)

subsection \<open>ProtocolCommandAdapter.cpp\<close>

record ProtocolCommandAdapter =
  ad_kind :: ProtocolKind
  ad_source :: CommandSource
  ad_bus :: bool
  ad_guard :: bool

definition new_adapter :: ProtocolCommandAdapter where
  "new_adapter = \<lparr>ad_kind = ProtocolKind.Unknown, ad_source = CommandSource.Unknown, ad_bus = False, ad_guard = False\<rparr>"

definition ad_init ::
  "ProtocolKind \<Rightarrow> bool \<Rightarrow> bool \<Rightarrow> ProtocolCommandAdapter \<Rightarrow> unit Result \<times> ProtocolCommandAdapter" where
  "ad_init kind bus guard ad =
     (if kind = ProtocolKind.Unknown then (Error InvalidArgument ''invalid protocol kind'', ad)
      else if \<not> bus then (Error InvalidArgument ''command bus is null'', ad)
      else (Success, ad\<lparr>ad_kind := kind, ad_source := commandSourceOf kind, ad_bus := bus, ad_guard := guard\<rparr>))"

text \<open>What an adapter reaches: the bus with its router, the system, and the counter of command ids.\<close>

record 'w front =
  fr_bus :: CommandBus
  fr_router :: CommandRouter
  fr_system :: "'w system"
  fr_commandId :: u64

text \<open>Making a command and submitting it, which both branches of \<open>submit\<close> do.\<close>

definition bus_submit ::
  "'w mode_world \<Rightarrow> clock \<Rightarrow> int \<Rightarrow> CommandType \<Rightarrow> (string \<rightharpoonup> string) \<Rightarrow> ProtocolCommandAdapter \<Rightarrow> 'w front \<Rightarrow>
     (ProtocolResponse Result \<times> 'w front) option" where
  "bus_submit W clk now type params ad fr =
     (let (cmd, counter) = makeCommand now type (ad_source ad) params (toString_ProtocolKind (ad_kind ad)) (fr_commandId fr)
      in do { (ret, cb, sy) \<leftarrow> cb_submit W clk cmd (fr_bus fr) (fr_router fr) (fr_system fr);
              Some (case ret of Inl e \<Rightarrow> rewrap e | Inr result \<Rightarrow> Inr (fromCommandResult result),
                    fr\<lparr>fr_bus := cb, fr_system := sy, fr_commandId := counter\<rparr>) })"

text \<open>With a guard the whole submission runs inside a \<open>ScopedProtocolOwner\<close>, which ends on both ways out.\<close>

definition ad_submit ::
  "'w mode_world \<Rightarrow> clock \<Rightarrow> int \<Rightarrow> CommandType \<Rightarrow> (string \<rightharpoonup> string) \<Rightarrow> ActiveProtocolGuard \<Rightarrow> ProtocolCommandAdapter \<Rightarrow>
     'w front \<Rightarrow> (ProtocolResponse Result \<times> 'w front) option" where
  "ad_submit W clk now type params ag ad fr =
     (if \<not> ad_bus ad then Some (Error NotInitialized ''protocol command adapter is not initialized'', fr)
      else if ad_source ad = CommandSource.Unknown
      then Some (Error InvalidArgument ''invalid protocol command source'', fr)
      else if ad_guard ad
      then (case owner_begin (Some ag) (ad_source ad) (fr_system fr) of
              (Inl e, sy) \<Rightarrow> Some (rewrap e, fr\<lparr>fr_system := owner_end (Some ag) (ad_source ad) (Inl e) sy\<rparr>)
            | (Inr u, sy) \<Rightarrow>
                do { (ret, fr) \<leftarrow> bus_submit W clk now type params ad (fr\<lparr>fr_system := sy\<rparr>);
                     Some (ret, fr\<lparr>fr_system := owner_end (Some ag) (ad_source ad) (Inr u) (fr_system fr)\<rparr>) })
      else bus_submit W clk now type params ad fr)"

text \<open>The five calls of the front ends.\<close>

datatype adapter_call = SetMode string | GetMode | Start | Stop | Status

fun call_type :: "adapter_call \<Rightarrow> CommandType" where
  "call_type (SetMode _) = SetWorkMode"
| "call_type GetMode = GetWorkMode"
| "call_type Start = StartStream"
| "call_type Stop = StopStream"
| "call_type Status = QueryStatus"

fun call_params :: "adapter_call \<Rightarrow> (string \<rightharpoonup> string)" where
  "call_params (SetMode mode) = [''mode'' \<mapsto> mode]"
| "call_params _ = Map.empty"

definition ad_call ::
  "'w mode_world \<Rightarrow> clock \<Rightarrow> int \<Rightarrow> adapter_call \<Rightarrow> ActiveProtocolGuard \<Rightarrow> ProtocolCommandAdapter \<Rightarrow> 'w front \<Rightarrow>
     (ProtocolResponse Result \<times> 'w front) option" where
  "ad_call W clk now call ag ad fr = ad_submit W clk now (call_type call) (call_params call) ag ad fr"

subsection \<open>ProtocolManager.cpp\<close>

record ProtocolManager =
  pm_config :: ProtocolConfig
  pm_endpoints :: ProtocolEndpointConfigSet
  pm_runtime :: ProtocolRuntimeContext
  pm_guard :: ActiveProtocolGuard
  pm_activeKind :: ProtocolKind
  pm_states :: "ProtocolKind \<rightharpoonup> ProtocolEndpointState"
  pm_initialized :: bool

definition new_protocol_manager :: ProtocolManager where
  "new_protocol_manager =
     \<lparr>pm_config = default_protocol_config, pm_endpoints = default_endpoints,
      pm_runtime = \<lparr>rx_commandBus = False, rx_protocolService = False, rx_streamService = False\<rparr>,
      pm_guard = new_guard, pm_activeKind = ProtocolKind.Unknown, pm_states = Map.empty, pm_initialized = False\<rparr>"

definition validateActiveEndpoint :: "ProtocolManager \<Rightarrow> unit Result" where
  "validateActiveEndpoint pm =
     (case pm_activeKind pm of
        ProtocolKind.Gb28181 \<Rightarrow>
          if \<not> gb_enable (pe_gb28181 (pm_endpoints pm)) then Error ConfigError ''gb28181 endpoint is disabled''
          else validateGb28181 (pe_gb28181 (pm_endpoints pm))
      | ProtocolKind.Onvif \<Rightarrow>
          if \<not> ov_enable (pe_onvif (pm_endpoints pm)) then Error ConfigError ''onvif endpoint is disabled''
          else validateOnvif (pe_onvif (pm_endpoints pm))
      | ProtocolKind.PrivateApi \<Rightarrow>
          if \<not> pa_enable (pe_privateApi (pm_endpoints pm))
          then Error ConfigError ''private api endpoint is disabled''
          else validatePrivateApi (pe_privateApi (pm_endpoints pm))
      | ProtocolKind.Rtsp \<Rightarrow>
          if \<not> rt_enable (pe_rtsp (pm_endpoints pm)) then Error ConfigError ''rtsp endpoint is disabled''
          else validateRtsp (pe_rtsp (pm_endpoints pm))
      | ProtocolKind.Unknown \<Rightarrow> Error ConfigError ''active protocol is unknown'')"

definition pm_init ::
  "ProtocolConfig \<Rightarrow> ProtocolEndpointConfigSet \<Rightarrow> ProtocolRuntimeContext \<Rightarrow> ProtocolManager \<Rightarrow> unit Result \<times> ProtocolManager" where
  "pm_init config endpoints runtime pm =
     (if \<not> rx_commandBus runtime then (Error InvalidArgument ''command bus is null'', pm)
      else if \<not> rx_protocolService runtime then (Error InvalidArgument ''protocol service is null'', pm)
      else if \<not> rx_streamService runtime then (Error InvalidArgument ''stream service is null'', pm)
      else
        let pm = pm\<lparr>pm_config := config, pm_endpoints := endpoints, pm_runtime := runtime\<rparr>;
            (g, guard) = ag_init (rx_protocolService runtime) (pm_guard pm);
            pm = pm\<lparr>pm_guard := guard\<rparr>
        in case g of Inl e \<Rightarrow> (Inl e, pm) | Inr _ \<Rightarrow>
          let pm = pm\<lparr>pm_activeKind := protocolKindFromString (pc_active config)\<rparr>
          in if pm_activeKind pm = ProtocolKind.Unknown
             then (Error ConfigError (''unknown active protocol: '' @ pc_active config), pm)
             else case validateActiveEndpoint pm of
               Inl e \<Rightarrow> (Inl e, pm)
             | Inr _ \<Rightarrow>
                 (Success, pm\<lparr>pm_states := [ProtocolKind.Gb28181 \<mapsto> EndpointStopped, ProtocolKind.Onvif \<mapsto> EndpointStopped,
                                ProtocolKind.PrivateApi \<mapsto> EndpointStopped, ProtocolKind.Rtsp \<mapsto> EndpointStopped],
                              pm_initialized := True\<rparr>))"

definition loadEndpointConfig ::
  "'f files \<Rightarrow> string \<Rightarrow> ProtocolManager \<Rightarrow> 'f \<Rightarrow> unit Result \<times> ProtocolManager" where
  "loadEndpointConfig fl dir pm w =
     (case load_endpoints fl dir w of
        Inl e \<Rightarrow> (rewrap e, pm)
      | Inr cfg \<Rightarrow> let pm = pm\<lparr>pm_endpoints := cfg\<rparr> in (validateActiveEndpoint pm, pm))"

definition pm_ready :: "ProtocolManager \<Rightarrow> unit Result" where
  "pm_ready pm =
     (if \<not> pm_initialized pm then Error NotInitialized ''protocol manager is not initialized'' else Success)"

definition startActiveProtocol ::
  "ProtocolManager \<Rightarrow> 'w system \<Rightarrow> unit Result \<times> ProtocolManager \<times> 'w system" where
  "startActiveProtocol pm sy =
     (case pm_ready pm of
        Inl e \<Rightarrow> (Inl e, pm, sy)
      | Inr _ \<Rightarrow>
          (case ag_acquire (pm_guard pm) (commandSourceOf (pm_activeKind pm)) sy of
             (Inl e, sy) \<Rightarrow>
               (Inl e, pm\<lparr>pm_states := (pm_states pm)(pm_activeKind pm \<mapsto> EndpointError)\<rparr>, sy)
           | (Inr _, sy) \<Rightarrow>
               (Success, pm\<lparr>pm_states := (pm_states pm)(pm_activeKind pm \<mapsto> EndpointRunning)\<rparr>, sy)))"

definition pm_stopAll :: "ProtocolManager \<Rightarrow> 'w system \<Rightarrow> ProtocolManager \<times> 'w system" where
  "pm_stopAll pm sy =
     (if \<not> pm_initialized pm then (pm, sy)
      else (pm\<lparr>pm_states := map_option (\<lambda>_. EndpointStopped) \<circ> pm_states pm\<rparr>,
            if pm_activeKind pm \<noteq> ProtocolKind.Unknown
            then ag_release (pm_guard pm) (commandSourceOf (pm_activeKind pm)) sy else sy))"

definition pm_submit ::
  "'w mode_world \<Rightarrow> clock \<Rightarrow> int \<Rightarrow> ProtocolKind \<Rightarrow> CommandType \<Rightarrow> (string \<rightharpoonup> string) \<Rightarrow> ProtocolManager \<Rightarrow> 'w front \<Rightarrow>
     (ProtocolResponse Result \<times> 'w front) option" where
  "pm_submit W clk now kind type params pm fr =
     (case pm_ready pm of
        Inl e \<Rightarrow> Some (rewrap e, fr)
      | Inr _ \<Rightarrow>
          (case ad_init kind (rx_commandBus (pm_runtime pm)) True new_adapter of
             (Inl e, _) \<Rightarrow> Some (rewrap e, fr)
           | (Inr _, adapter) \<Rightarrow> ad_submit W clk now type params (pm_guard pm) adapter fr))"

definition endpoint_state :: "ProtocolKind \<Rightarrow> ProtocolManager \<Rightarrow> ProtocolEndpointState" where
  "endpoint_state kind pm =
     (case pm_states pm kind of None \<Rightarrow> EndpointStopped | Some st \<Rightarrow> st)"

subsection \<open>The private API: PrivateProtocolParser.cpp, PrivateCommandAdapter.cpp\<close>

text \<open>The words a stream extraction reads: maximal runs of characters that are no white space.\<close>

fun words_from :: "string \<Rightarrow> string \<Rightarrow> string list" where
  "words_from w [] = (if w = [] then [] else [w])"
| "words_from w (c # s) =
     (if isspace c then (if w = [] then words_from [] s else w # words_from [] s)
      else words_from (w @ [c]) s)"

definition stream_words :: "string \<Rightarrow> string list" where
  "stream_words s = words_from [] s"

definition add_param :: "string \<Rightarrow> (string \<rightharpoonup> string) \<Rightarrow> (string \<rightharpoonup> string)" where
  "add_param kv params =
     (if CHR ''='' \<notin> set kv then params
      else params(takeWhile (\<lambda>c. c \<noteq> CHR ''='') kv \<mapsto> tl (dropWhile (\<lambda>c. c \<noteq> CHR ''='') kv)))"

definition parseLine :: "string \<Rightarrow> ProtocolRequest" where
  "parseLine line =
     (let ws = stream_words line in
      \<lparr>rq_method = (case ws of [] \<Rightarrow> [] | m # _ \<Rightarrow> m),
       rq_path = (case ws of _ # p # _ \<Rightarrow> p | _ \<Rightarrow> []),
       rq_body = [],
       rq_params = fold add_param (drop 2 ws) Map.empty\<rparr>)"

definition getParam :: "ProtocolRequest \<Rightarrow> string \<Rightarrow> string \<Rightarrow> string" where
  "getParam req key fallback = (case rq_params req key of None \<Rightarrow> fallback | Some v \<Rightarrow> v)"

definition private_init :: "bool \<Rightarrow> bool \<Rightarrow> ProtocolCommandAdapter \<Rightarrow> unit Result \<times> ProtocolCommandAdapter" where
  "private_init bus guard ad = ad_init ProtocolKind.PrivateApi bus guard ad"

definition private_handle ::
  "'w mode_world \<Rightarrow> clock \<Rightarrow> int \<Rightarrow> ProtocolRequest \<Rightarrow> ActiveProtocolGuard \<Rightarrow> ProtocolCommandAdapter \<Rightarrow> 'w front \<Rightarrow>
     (ProtocolResponse Result \<times> 'w front) option" where
  "private_handle W clk now req ag ad fr =
     (if rq_method req = ''GET'' \<and> rq_path req = ''/api/v1/status'' then ad_call W clk now Status ag ad fr
      else if rq_method req = ''GET'' \<and> rq_path req = ''/api/v1/mode'' then ad_call W clk now GetMode ag ad fr
      else if rq_method req = ''POST'' \<and> rq_path req = ''/api/v1/mode''
      then (let mode = getParam req ''mode'' []; mode = (if mode = [] then rq_body req else mode) in
            if mode = [] then Some (Error InvalidCommand ''POST /api/v1/mode requires mode'', fr)
            else ad_call W clk now (SetMode mode) ag ad fr)
      else if rq_method req = ''POST'' \<and> rq_path req = ''/api/v1/stream/start'' then ad_call W clk now Start ag ad fr
      else if rq_method req = ''POST'' \<and> rq_path req = ''/api/v1/stream/stop'' then ad_call W clk now Stop ag ad fr
      else Some (Error NotFound (''unknown private API path: '' @ rq_method req @ '' '' @ rq_path req), fr))"

definition handleLine ::
  "'w mode_world \<Rightarrow> clock \<Rightarrow> int \<Rightarrow> string \<Rightarrow> ActiveProtocolGuard \<Rightarrow> ProtocolCommandAdapter \<Rightarrow> 'w front \<Rightarrow>
     (ProtocolResponse Result \<times> 'w front) option" where
  "handleLine W clk now line ag ad fr = private_handle W clk now (parseLine line) ag ad fr"

subsection \<open>ONVIF\<close>

record OnvifRequest =
  oq_action :: string
  oq_fields :: "string \<rightharpoonup> string"

record OnvifStreamUri =
  ou_uri :: string
  ou_transport :: string

definition onvif_init :: "bool \<Rightarrow> bool \<Rightarrow> ProtocolCommandAdapter \<Rightarrow> unit Result \<times> ProtocolCommandAdapter" where
  "onvif_init bus guard ad = ad_init ProtocolKind.Onvif bus guard ad"

text \<open>The field \<open>mode\<close>, unless it is missing or empty.\<close>

definition mode_of_fields :: "(string \<rightharpoonup> string) \<Rightarrow> string option" where
  "mode_of_fields kvs =
     (case kvs ''mode'' of None \<Rightarrow> None | Some v \<Rightarrow> if v = [] then None else Some v)"

definition onvif_handle ::
  "'w mode_world \<Rightarrow> clock \<Rightarrow> int \<Rightarrow> OnvifRequest \<Rightarrow> ActiveProtocolGuard \<Rightarrow> ProtocolCommandAdapter \<Rightarrow> 'w front \<Rightarrow>
     (ProtocolResponse Result \<times> 'w front) option" where
  "onvif_handle W clk now req ag ad fr =
     (if oq_action req = ''GetStatus'' then ad_call W clk now Status ag ad fr
      else if oq_action req = ''GetWorkMode'' then ad_call W clk now GetMode ag ad fr
      else if oq_action req = ''SetWorkMode''
      then (case mode_of_fields (oq_fields req) of
              None \<Rightarrow> Some (Error InvalidCommand ''SetWorkMode requires field: mode'', fr)
            | Some mode \<Rightarrow> ad_call W clk now (SetMode mode) ag ad fr)
      else if oq_action req = ''StartStream'' then ad_call W clk now Start ag ad fr
      else if oq_action req = ''StopStream'' then ad_call W clk now Stop ag ad fr
      else Some (Error Unsupported (''unsupported ONVIF action: '' @ oq_action req), fr))"

record OnvifMediaService =
  om_mediaConfig :: MediaConfig
  om_host :: string
  om_initialized :: bool

definition om_init :: "MediaConfig \<Rightarrow> string \<Rightarrow> OnvifMediaService \<Rightarrow> unit Result \<times> OnvifMediaService" where
  "om_init config host om =
     (if host = [] then (Error InvalidArgument ''ONVIF host is empty'', om)
      else (Success, om\<lparr>om_mediaConfig := config, om_host := host, om_initialized := True\<rparr>))"

definition getStreamUri :: "OnvifMediaService \<Rightarrow> OnvifStreamUri Result" where
  "getStreamUri om =
     (if \<not> om_initialized om then Error NotInitialized ''ONVIF media service is not initialized''
      else Inr \<lparr>ou_uri = ''rtsp://'' @ om_host om @ '':'' @ show_int (md_rtspPort (om_mediaConfig om))
                           @ md_rtspPath (om_mediaConfig om),
                ou_transport = ''RTSP''\<rparr>)"

record OnvifDiscovery =
  oi_running :: bool
  oi_endpoint :: string

definition oi_start :: "string \<Rightarrow> OnvifDiscovery \<Rightarrow> unit Result \<times> OnvifDiscovery" where
  "oi_start endpoint oi =
     (if endpoint = [] then (Error InvalidArgument ''ONVIF discovery endpoint is empty'', oi)
      else (Success, oi\<lparr>oi_endpoint := endpoint, oi_running := True\<rparr>))"

definition oi_stop :: "OnvifDiscovery \<Rightarrow> OnvifDiscovery" where
  "oi_stop oi = oi\<lparr>oi_running := False\<rparr>"

subsection \<open>GB28181: control\<close>

record GbControlRequest =
  gc_action :: string
  gc_fields :: "string \<rightharpoonup> string"

definition gbc_init :: "bool \<Rightarrow> bool \<Rightarrow> ProtocolCommandAdapter \<Rightarrow> unit Result \<times> ProtocolCommandAdapter" where
  "gbc_init bus guard ad = ad_init ProtocolKind.Gb28181 bus guard ad"

definition gbc_handle ::
  "'w mode_world \<Rightarrow> clock \<Rightarrow> int \<Rightarrow> GbControlRequest \<Rightarrow> ActiveProtocolGuard \<Rightarrow> ProtocolCommandAdapter \<Rightarrow> 'w front \<Rightarrow>
     (ProtocolResponse Result \<times> 'w front) option" where
  "gbc_handle W clk now req ag ad fr =
     (if gc_action req = ''DeviceStatus'' \<or> gc_action req = ''QueryStatus'' then ad_call W clk now Status ag ad fr
      else if gc_action req = ''GetWorkMode'' then ad_call W clk now GetMode ag ad fr
      else if gc_action req = ''SetWorkMode'' \<or> gc_action req = ''DeviceControl''
      then (case mode_of_fields (gc_fields req) of
              None \<Rightarrow> Some (Error InvalidCommand ''GB28181 control requires field: mode'', fr)
            | Some mode \<Rightarrow> ad_call W clk now (SetMode mode) ag ad fr)
      else if gc_action req = ''StartStream'' then ad_call W clk now Start ag ad fr
      else if gc_action req = ''StopStream'' then ad_call W clk now Stop ag ad fr
      else Some (Error Unsupported (''unsupported GB28181 control action: '' @ gc_action req), fr))"

subsection \<open>GB28181: the device service\<close>

record GbDeviceProfile =
  gp_deviceId :: string
  gp_domain :: string
  gp_ip :: string
  gp_port :: u16
  gp_password :: string
  gp_name :: string
  gp_manufacturer :: string
  gp_model :: string
  gp_firmware :: string
  gp_channelId :: string
  gp_channelName :: string
  gp_serverId :: string
  gp_serverDomain :: string
  gp_serverIp :: string
  gp_serverPort :: u16
  gp_serverPassword :: string
  gp_registerExpiresSec :: int
  gp_registerRetryIntervalSec :: int
  gp_keepaliveIntervalSec :: int
  gp_keepaliveTimeoutSec :: int
  gp_rtpLocalPort :: u16
  gp_ssrc :: string
  gp_transport :: string

definition default_gb_profile :: GbDeviceProfile where
  "default_gb_profile =
     \<lparr>gp_deviceId = ''34020000001320000001'', gp_domain = ''3402000000'', gp_ip = ''0.0.0.0'', gp_port = 5060,
      gp_password = ''12345678'', gp_name = ''Tri-Fusion Camera'', gp_manufacturer = ''TriFusion'',
      gp_model = ''TriFusion-Camera'', gp_firmware = ''1.0.0'', gp_channelId = ''34020000001320000001'',
      gp_channelName = ''Tri-Fusion MainStream'', gp_serverId = ''41010500002000000001'',
      gp_serverDomain = ''4101050000'', gp_serverIp = ''192.168.1.153'', gp_serverPort = 8118,
      gp_serverPassword = ''12345678'', gp_registerExpiresSec = 3600, gp_registerRetryIntervalSec = 5,
      gp_keepaliveIntervalSec = 60, gp_keepaliveTimeoutSec = 3, gp_rtpLocalPort = 30000,
      gp_ssrc = ''0000000001'', gp_transport = ''udp''\<rparr>"

definition makeGbDeviceProfile :: "Gb28181Config \<Rightarrow> GbDeviceProfile" where
  "makeGbDeviceProfile c =
     \<lparr>gp_deviceId = gl_deviceId (gb_local c), gp_domain = gl_domain (gb_local c), gp_ip = gl_ip (gb_local c),
      gp_port = gl_port (gb_local c), gp_password = gl_password (gb_local c), gp_name = gh_name (gb_channel c),
      gp_manufacturer = gl_manufacturer (gb_local c), gp_model = gl_model (gb_local c),
      gp_firmware = gl_firmware (gb_local c), gp_channelId = gh_id (gb_channel c),
      gp_channelName = gh_name (gb_channel c), gp_serverId = gv_id (gb_server c),
      gp_serverDomain = gv_domain (gb_server c), gp_serverIp = gv_ip (gb_server c),
      gp_serverPort = gv_port (gb_server c), gp_serverPassword = gv_password (gb_server c),
      gp_registerExpiresSec = gr_expiresSec (gb_reg c), gp_registerRetryIntervalSec = gr_retryIntervalSec (gb_reg c),
      gp_keepaliveIntervalSec = gk_intervalSec (gb_keepalive c),
      gp_keepaliveTimeoutSec = gk_timeoutSec (gb_keepalive c), gp_rtpLocalPort = gm_rtpLocalPort (gb_media c),
      gp_ssrc = gm_ssrc (gb_media c), gp_transport = gm_transport (gb_media c)\<rparr>"

record SipClient =
  si_profile :: GbDeviceProfile
  si_configured :: bool
  si_running :: bool

definition si_init :: "GbDeviceProfile \<Rightarrow> SipClient \<Rightarrow> unit Result \<times> SipClient" where
  "si_init p si =
     (if gp_deviceId p = [] then (Error InvalidArgument ''SIP local device id is empty'', si)
      else if gp_domain p = [] then (Error InvalidArgument ''SIP local domain is empty'', si)
      else if gp_ip p = [] then (Error InvalidArgument ''SIP local ip is empty'', si)
      else if gp_port p = 0 then (Error InvalidArgument ''SIP local port is invalid'', si)
      else if gp_serverId p = [] then (Error InvalidArgument ''SIP server id is empty'', si)
      else if gp_serverIp p = [] then (Error InvalidArgument ''SIP server ip is empty'', si)
      else if gp_serverPort p = 0 then (Error InvalidArgument ''SIP server port is invalid'', si)
      else (Success, si\<lparr>si_profile := p, si_configured := True\<rparr>))"

definition si_init_id :: "string \<Rightarrow> SipClient \<Rightarrow> unit Result \<times> SipClient" where
  "si_init_id localId si = si_init (default_gb_profile\<lparr>gp_deviceId := localId\<rparr>) si"

definition si_start :: "SipClient \<Rightarrow> unit Result \<times> SipClient" where
  "si_start si =
     (if \<not> si_configured si then (Error NotInitialized ''SIP client is not initialized'', si)
      else (Success, si\<lparr>si_running := True\<rparr>))"

definition si_stop :: "SipClient \<Rightarrow> SipClient" where
  "si_stop si = si\<lparr>si_running := False\<rparr>"

record GbRegister =
  ge_profile :: GbDeviceProfile
  ge_registered :: bool

definition ge_init :: "GbDeviceProfile \<Rightarrow> GbRegister \<Rightarrow> unit Result \<times> GbRegister" where
  "ge_init p ge =
     (if gp_deviceId p = [] then (Error InvalidArgument ''GB device id is empty'', ge)
      else if gp_serverId p = [] then (Error InvalidArgument ''GB server id is empty'', ge)
      else if gp_serverIp p = [] then (Error InvalidArgument ''GB server ip is empty'', ge)
      else (Success, ge\<lparr>ge_profile := p\<rparr>))"

definition registerDevice :: "GbRegister \<Rightarrow> unit Result \<times> GbRegister" where
  "registerDevice ge =
     (if gp_deviceId (ge_profile ge) = [] then (Error NotInitialized ''GB register is not initialized'', ge)
      else (Success, ge\<lparr>ge_registered := True\<rparr>))"

record GbKeepalive =
  gn_intervalSeconds :: int
  gn_running :: bool

definition gn_start :: "int \<Rightarrow> GbKeepalive \<Rightarrow> unit Result \<times> GbKeepalive" where
  "gn_start seconds gn =
     (if seconds \<le> 0 then (Error InvalidArgument ''keepalive interval must be positive'', gn)
      else (Success, gn\<lparr>gn_intervalSeconds := seconds, gn_running := True\<rparr>))"

definition gn_stop :: "GbKeepalive \<Rightarrow> GbKeepalive" where
  "gn_stop gn = gn\<lparr>gn_running := False\<rparr>"

record GbInviteContext =
  gi_callId :: string
  gi_remoteIp :: string
  gi_remotePort :: u16
  gi_ssrc :: string

definition default_invite :: GbInviteContext where
  "default_invite = \<lparr>gi_callId = [], gi_remoteIp = [], gi_remotePort = 0, gi_ssrc = []\<rparr>"

record GbRtpSender =
  gs_streamService :: bool
  gs_context :: GbInviteContext
  gs_running :: bool

definition gs_init :: "bool \<Rightarrow> GbRtpSender \<Rightarrow> unit Result \<times> GbRtpSender" where
  "gs_init streamService gs =
     (if \<not> streamService then (Error InvalidArgument ''stream service is null'', gs)
      else (Success, gs\<lparr>gs_streamService := streamService\<rparr>))"

definition gs_start :: "GbInviteContext \<Rightarrow> GbRtpSender \<Rightarrow> unit Result \<times> GbRtpSender" where
  "gs_start context gs =
     (if \<not> gs_streamService gs then (Error NotInitialized ''GB RTP sender is not initialized'', gs)
      else if gi_remoteIp context = [] \<or> gi_remotePort context = 0
      then (Error InvalidArgument ''invalid GB RTP destination'', gs)
      else (Success, gs\<lparr>gs_context := context, gs_running := True\<rparr>))"

definition gs_stop :: "GbRtpSender \<Rightarrow> GbRtpSender" where
  "gs_stop gs = gs\<lparr>gs_running := False\<rparr>"

definition gs_waitFrame ::
  "int \<Rightarrow> bool \<Rightarrow> GbRtpSender \<Rightarrow> 'w system \<Rightarrow> (EncodedFrame Result \<times> 'w system) option" where
  "gs_waitFrame timeoutMs expired gs sy =
     (if \<not> gs_running gs then Some (Error MainStreamNotReady ''GB RTP sender is not running'', sy)
      else ssv_waitFrame timeoutMs expired sy)"

text \<open>\<open>GbInviteHandler\<close>: its one field is the pointer to the sender.\<close>

definition gi_init :: "bool \<Rightarrow> bool \<Rightarrow> unit Result \<times> bool" where
  "gi_init sender old =
     (if \<not> sender then (Error InvalidArgument ''GB RTP sender is null'', old) else (Success, sender))"

definition gi_handleInvite :: "GbInviteContext \<Rightarrow> bool \<Rightarrow> GbRtpSender \<Rightarrow> unit Result \<times> GbRtpSender" where
  "gi_handleInvite context sender gs =
     (if \<not> sender then (Error NotInitialized ''GB invite handler is not initialized'', gs)
      else gs_start context gs)"

definition gi_bye :: "bool \<Rightarrow> GbRtpSender \<Rightarrow> GbRtpSender" where
  "gi_bye sender gs = (if sender then gs_stop gs else gs)"

record Gb28181Service =
  gd_profile :: GbDeviceProfile
  gd_sip :: SipClient
  gd_reg :: GbRegister
  gd_keepalive :: GbKeepalive
  gd_control :: ProtocolCommandAdapter
  gd_sender :: GbRtpSender
  gd_invite :: bool
  gd_initialized :: bool

definition new_gb_service :: Gb28181Service where
  "new_gb_service =
     \<lparr>gd_profile = default_gb_profile,
      gd_sip = \<lparr>si_profile = default_gb_profile, si_configured = False, si_running = False\<rparr>,
      gd_reg = \<lparr>ge_profile = default_gb_profile, ge_registered = False\<rparr>,
      gd_keepalive = \<lparr>gn_intervalSeconds = 60, gn_running = False\<rparr>, gd_control = new_adapter,
      gd_sender = \<lparr>gs_streamService = False, gs_context = default_invite, gs_running = False\<rparr>,
      gd_invite = False, gd_initialized = False\<rparr>"

definition gd_init :: "GbDeviceProfile \<Rightarrow> bool \<Rightarrow> bool \<Rightarrow> bool \<Rightarrow> Gb28181Service \<Rightarrow> unit Result \<times> Gb28181Service" where
  "gd_init profile bus streamService guard gd =
     (if \<not> bus then (Error InvalidArgument ''command bus is null'', gd)
      else if \<not> streamService then (Error InvalidArgument ''stream service is null'', gd)
      else
        let gd = gd\<lparr>gd_profile := profile\<rparr>; (s, sip) = si_init profile (gd_sip gd); gd = gd\<lparr>gd_sip := sip\<rparr>
        in case s of Inl e \<Rightarrow> (Inl e, gd) | Inr _ \<Rightarrow>
        let (r, reg) = ge_init profile (gd_reg gd); gd = gd\<lparr>gd_reg := reg\<rparr>
        in case r of Inl e \<Rightarrow> (Inl e, gd) | Inr _ \<Rightarrow>
        let (c, control) = gbc_init bus guard (gd_control gd); gd = gd\<lparr>gd_control := control\<rparr>
        in case c of Inl e \<Rightarrow> (Inl e, gd) | Inr _ \<Rightarrow>
        let (t, sender) = gs_init streamService (gd_sender gd); gd = gd\<lparr>gd_sender := sender\<rparr>
        in case t of Inl e \<Rightarrow> (Inl e, gd) | Inr _ \<Rightarrow>
        let (i, invite) = gi_init True (gd_invite gd); gd = gd\<lparr>gd_invite := invite\<rparr>
        in case i of Inl e \<Rightarrow> (Inl e, gd) | Inr _ \<Rightarrow> (Success, gd\<lparr>gd_initialized := True\<rparr>))"

definition gd_init_config ::
  "Gb28181Config \<Rightarrow> bool \<Rightarrow> bool \<Rightarrow> bool \<Rightarrow> Gb28181Service \<Rightarrow> unit Result \<times> Gb28181Service" where
  "gd_init_config config bus streamService guard gd =
     gd_init (makeGbDeviceProfile config) bus streamService guard gd"

definition gd_start :: "Gb28181Service \<Rightarrow> unit Result \<times> Gb28181Service" where
  "gd_start gd =
     (if \<not> gd_initialized gd then (Error NotInitialized ''GB28181 service is not initialized'', gd)
      else
        let (s, sip) = si_start (gd_sip gd); gd = gd\<lparr>gd_sip := sip\<rparr>
        in case s of Inl e \<Rightarrow> (Inl e, gd) | Inr _ \<Rightarrow>
        let (r, reg) = registerDevice (gd_reg gd); gd = gd\<lparr>gd_reg := reg\<rparr>
        in case r of Inl e \<Rightarrow> (Inl e, gd) | Inr _ \<Rightarrow>
        let (k, keepalive) = gn_start (gp_keepaliveIntervalSec (gd_profile gd)) (gd_keepalive gd)
        in (k, gd\<lparr>gd_keepalive := keepalive\<rparr>))"

definition gd_stop :: "Gb28181Service \<Rightarrow> Gb28181Service" where
  "gd_stop gd =
     gd\<lparr>gd_keepalive := gn_stop (gd_keepalive gd), gd_sender := gi_bye (gd_invite gd) (gd_sender gd),
        gd_sip := si_stop (gd_sip gd)\<rparr>"

definition gd_handleInvite :: "GbInviteContext \<Rightarrow> Gb28181Service \<Rightarrow> unit Result \<times> Gb28181Service" where
  "gd_handleInvite context gd =
     (let context = (if gi_ssrc context = [] then context\<lparr>gi_ssrc := gp_ssrc (gd_profile gd)\<rparr> else context);
          (r, sender) = gi_handleInvite context (gd_invite gd) (gd_sender gd)
      in (r, gd\<lparr>gd_sender := sender\<rparr>))"

definition gd_handleControl ::
  "'w mode_world \<Rightarrow> clock \<Rightarrow> int \<Rightarrow> GbControlRequest \<Rightarrow> ActiveProtocolGuard \<Rightarrow> Gb28181Service \<Rightarrow> 'w front \<Rightarrow>
     (ProtocolResponse Result \<times> 'w front) option" where
  "gd_handleControl W clk now req ag gd fr = gbc_handle W clk now req ag (gd_control gd) fr"

subsection \<open>Only the active protocol reaches the bus\<close>

lemma same_protocol_service [simp]: "sy\<lparr>sy_protocolService := sy_protocolService sy\<rparr> = sy"
  by (cases sy) simp

lemma same_system [simp]: "fr\<lparr>fr_system := fr_system fr\<rparr> = fr"
  by (cases fr) simp

lemma route_keeps_protocols:
  assumes "route W clk cmd ro sy = Some (ret, sy')"
  shows "sy_protocolService sy' = sy_protocolService sy"
proof -
  have "sy_protocolService sy' = sy_protocolService sy" if "handle_command W clk h cmd sy = Some (ret, sy')" for h
    using that
    by (cases h)
      (auto simp: handle_set_mode_def handle_start_stream_def handle_stop_stream_def setWorkMode_def
        stopCurrentPipeline_def startMainStream_def stopMainStream_def stream_call_def Let_def
        elim!: bind_SomeE split: if_splits sum.split_asm prod.split_asm)
  with assms show ?thesis by (auto simp: route_def split: if_splits option.split_asm)
qed

lemma bus_submit_keeps_protocols:
  "bus_submit W clk now type params ad fr = Some (ret, fr') \<Longrightarrow>
     sy_protocolService (fr_system fr') = sy_protocolService (fr_system fr)"
  by (auto simp: bus_submit_def cb_submit_def makeCommand_def nextCommandId_def route_keeps_protocols
      elim!: bind_SomeE split: if_splits)

lemma pv_acquire_refused: "pv_acquire source pv = (Inl e, pv') \<Longrightarrow> pv' = pv"
  by (auto simp: pv_acquire_def Let_def split: if_splits)

lemma pv_acquire_Success:
  "pv_acquire source pv = (Inr u, pv') \<Longrightarrow>
     pv_isActive source pv \<and> pv' = pv\<lparr>pv_activeOwner := protocolName source\<rparr>"
  using pv_acquire_active[of source pv] by (auto simp: pv_acquire_def Let_def split: if_splits)

lemma ag_acquire_refused: "ag_acquire ag source sy = (Inl e, sy') \<Longrightarrow> sy' = sy"
  by (auto simp: ag_acquire_def dest: pv_acquire_refused split: if_splits prod.split_asm)

lemma ag_acquire_Success:
  "ag_acquire ag source sy = (Inr u, sy') \<Longrightarrow>
     ag_isActive ag source sy \<and>
     sy' = sy\<lparr>sy_protocolService := (sy_protocolService sy)\<lparr>pv_activeOwner := protocolName source\<rparr>\<rparr>"
  by (auto simp: ag_acquire_def ag_isActive_def dest: pv_acquire_Success split: if_splits prod.split_asm)

lemma ag_acquire_ok: "result_ok (fst (ag_acquire ag source sy)) \<longleftrightarrow> ag_isActive ag source sy"
  using pv_acquire_active[of source "sy_protocolService sy"]
  by (cases "pv_acquire source (sy_protocolService sy)"; cases "fst (pv_acquire source (sy_protocolService sy))")
    (auto simp: ag_acquire_def ag_isActive_def)

text \<open>What a guarded submission does when it is let in: the command runs while the protocol owns the
  service, and the service has no owner afterwards.\<close>

lemma ad_submit_guarded:
  assumes "ad_bus ad" "ad_source ad \<noteq> CommandSource.Unknown" "ad_guard ad"
    and "ad_submit W clk now type params ag ad fr = Some (ret, fr')"
  shows "if ag_isActive ag (ad_source ad) (fr_system fr)
    then (\<exists>fr1 fr2. bus_submit W clk now type params ad fr1 = Some (ret, fr2) \<and>
            fr1 = fr\<lparr>fr_system := (fr_system fr)\<lparr>sy_protocolService :=
              (sy_protocolService (fr_system fr))\<lparr>pv_activeOwner := protocolName (ad_source ad)\<rparr>\<rparr>\<rparr> \<and>
            fr' = fr2\<lparr>fr_system := (fr_system fr2)\<lparr>sy_protocolService :=
              (sy_protocolService (fr_system fr))\<lparr>pv_activeOwner := []\<rparr>\<rparr>\<rparr>)
    else fr' = fr \<and> \<not> result_ok ret"
proof (cases "ag_acquire ag (ad_source ad) (fr_system fr)")
  case (Pair r sy)
  show ?thesis
  proof (cases r)
    case (Inl e)
    with Pair have "sy = fr_system fr" by (auto dest: ag_acquire_refused)
    with Inl Pair assms ag_acquire_ok[of ag "ad_source ad" "fr_system fr"]
    show ?thesis by (auto simp: ad_submit_def rewrap_def)
  next
    case (Inr u)
    with Pair have act: "ag_isActive ag (ad_source ad) (fr_system fr)"
      and sy: "sy = (fr_system fr)\<lparr>sy_protocolService :=
        (sy_protocolService (fr_system fr))\<lparr>pv_activeOwner := protocolName (ad_source ad)\<rparr>\<rparr>"
      by (auto dest: ag_acquire_Success)
    from Pair Inr assms obtain fr2 where run: "bus_submit W clk now type params ad (fr\<lparr>fr_system := sy\<rparr>) = Some (ret, fr2)"
      and fr': "fr' = fr2\<lparr>fr_system := ag_release ag (ad_source ad) (fr_system fr2)\<rparr>"
      by (auto simp: ad_submit_def elim!: bind_SomeE)
    from bus_submit_keeps_protocols[OF run] act
    have "ag_release ag (ad_source ad) (fr_system fr2) = (fr_system fr2)\<lparr>sy_protocolService :=
              (sy_protocolService (fr_system fr))\<lparr>pv_activeOwner := []\<rparr>\<rparr>"
      by (simp add: ag_release_def pv_release_def sy ag_isActive_def)
    with act run fr' show ?thesis by (auto simp: sy)
  qed
qed

lemma pm_submit_ready:
  assumes "pm_submit W clk now kind type params pm fr = Some (ret, fr')"
  shows "if pm_initialized pm \<and> kind \<noteq> ProtocolKind.Unknown \<and> rx_commandBus (pm_runtime pm)
    then ad_submit W clk now type params (pm_guard pm)
           \<lparr>ad_kind = kind, ad_source = commandSourceOf kind, ad_bus = True, ad_guard = True\<rparr> fr = Some (ret, fr')
    else fr' = fr \<and> \<not> result_ok ret"
  using assms
  by (auto simp: pm_submit_def pm_ready_def ad_init_def new_adapter_def rewrap_def split: if_splits)

text \<open>
  Claim C17. The manager lets a command of a protocol through exactly when the protocol service is active for
  that protocol - so, when an active protocol is configured, only for that one. It then reaches the bus exactly once, as a
  command of that protocol with the next number, and runs on the system as it is, except that the protocol owns the
  service meanwhile; the answer and the system afterwards are those of that run, and the service has
  no owner, also when \<open>startActiveProtocol\<close> had made the protocol its owner. Otherwise the answer is an error and the
  bus, the system and the command counter are untouched.
\<close>

theorem only_active_reaches_bus:
  fixes fr fr' :: "'w front"
  assumes "pm_submit W clk now kind type params pm fr = Some (ret, fr')"
  defines "pv \<equiv> sy_protocolService (fr_system fr)"
  shows "if pm_initialized pm \<and> kind \<noteq> ProtocolKind.Unknown \<and> rx_commandBus (pm_runtime pm) \<and>
            ag_service (pm_guard pm) \<and> pv_isActive (commandSourceOf kind) pv
    then pc_active (pv_config pv) \<in> {[], toString_ProtocolKind kind} \<and>
         (\<exists>r cb sy. cb_submit W clk
              \<lparr>cmd_id = fr_commandId fr, cmd_type = type, cmd_source = commandSourceOf kind,
               cmd_sourceName = toString_ProtocolKind kind, cmd_params = params, cmd_timestamp = now\<rparr>
              (fr_bus fr) (fr_router fr)
              ((fr_system fr)\<lparr>sy_protocolService := pv\<lparr>pv_activeOwner := toString_ProtocolKind kind\<rparr>\<rparr>) = Some (r, cb, sy) \<and>
            ret = (case r of Inl e \<Rightarrow> rewrap e | Inr result \<Rightarrow> Inr (fromCommandResult result)) \<and>
            fr' = fr\<lparr>fr_bus := cb, fr_system := sy\<lparr>sy_protocolService := pv\<lparr>pv_activeOwner := []\<rparr>\<rparr>,
                     fr_commandId := fr_commandId fr + 1\<rparr>)
    else fr' = fr \<and> \<not> result_ok ret"
proof -
  let ?ad = "\<lparr>ad_kind = kind, ad_source = commandSourceOf kind, ad_bus = True, ad_guard = True\<rparr>"
  show ?thesis
  proof (cases "pm_initialized pm \<and> kind \<noteq> ProtocolKind.Unknown \<and> rx_commandBus (pm_runtime pm)")
    case False
    with pm_submit_ready[OF assms(1)] show ?thesis by auto
  next
    case True
    with pm_submit_ready[OF assms(1)]
    have sub: "ad_submit W clk now type params (pm_guard pm) ?ad fr = Some (ret, fr')" by simp
    note guarded = ad_submit_guarded[OF _ _ _ sub, simplified]
    show ?thesis
    proof (cases "ag_isActive (pm_guard pm) (commandSourceOf kind) (fr_system fr)")
      case False
      with guarded True show ?thesis by (cases kind) (auto simp: ag_isActive_def pv_def)
    next
      case act: True
      with guarded True protocolName_kind[of kind] obtain fr2 where
        run: "bus_submit W clk now type params ?ad (fr\<lparr>fr_system := (fr_system fr)\<lparr>sy_protocolService :=
              pv\<lparr>pv_activeOwner := toString_ProtocolKind kind\<rparr>\<rparr>\<rparr>) = Some (ret, fr2)"
        and fr': "fr' = fr2\<lparr>fr_system := (fr_system fr2)\<lparr>sy_protocolService := pv\<lparr>pv_activeOwner := []\<rparr>\<rparr>\<rparr>"
        by (cases kind) (auto simp: pv_def)
      from act protocolName_kind[of kind] True have "pc_active (pv_config pv) \<in> {[], toString_ProtocolKind kind}"
        by (auto simp: ag_isActive_def pv_def pv_isActive_def Let_def split: if_splits)
      moreover from run fr' have "\<exists>r cb sy. cb_submit W clk
              \<lparr>cmd_id = fr_commandId fr, cmd_type = type, cmd_source = commandSourceOf kind,
               cmd_sourceName = toString_ProtocolKind kind, cmd_params = params, cmd_timestamp = now\<rparr>
              (fr_bus fr) (fr_router fr)
              ((fr_system fr)\<lparr>sy_protocolService := pv\<lparr>pv_activeOwner := toString_ProtocolKind kind\<rparr>\<rparr>) = Some (r, cb, sy) \<and>
            ret = (case r of Inl e \<Rightarrow> rewrap e | Inr result \<Rightarrow> Inr (fromCommandResult result)) \<and>
            fr' = fr\<lparr>fr_bus := cb, fr_system := sy\<lparr>sy_protocolService := pv\<lparr>pv_activeOwner := []\<rparr>\<rparr>,
                     fr_commandId := fr_commandId fr + 1\<rparr>"
        by (auto simp: bus_submit_def makeCommand_def nextCommandId_def elim!: bind_SomeE)
      ultimately show ?thesis using True act by (simp add: ag_isActive_def pv_def)
    qed
  qed
qed

lemma bus_submit_Inr:
  assumes "bus_submit W clk now type params ad fr = Some (Inr response, fr')"
  shows "\<exists>cmd result sy. cmd_type cmd = type \<and> fromCommandResult result = response \<and>
    route W clk cmd (fr_router fr) (fr_system fr) = Some (Inr result, sy)"
proof -
  define cmd where "cmd = fst (makeCommand now type (ad_source ad) params (toString_ProtocolKind (ad_kind ad)) (fr_commandId fr))"
  have "cmd_type cmd = type" by (simp add: cmd_def makeCommand_def nextCommandId_def)
  moreover from assms obtain result cb sy where "cb_submit W clk cmd (fr_bus fr) (fr_router fr) (fr_system fr) = Some (Inr result, cb, sy)"
    and "fromCommandResult result = response"
    by (auto simp: bus_submit_def cmd_def makeCommand_def nextCommandId_def rewrap_def elim!: bind_SomeE
        split: sum.split_asm)
  moreover from this(1) have "route W clk cmd (fr_router fr) (fr_system fr) = Some (Inr result, sy)"
    by (auto simp: cb_submit_def elim!: bind_SomeE split: if_splits)
  ultimately show ?thesis by blast
qed

text \<open>
  Over the default handlers every answer of the manager that is no error is 200 OK with the fields of
  the command's result, which name the command: the error codes that \<open>fromCommandResult\<close> can produce
  never reach a protocol.
\<close>

theorem answers_are_ok:
  assumes "registerDefaultCommandHandlers services new_router = (Success, fr_router fr)"
    and "pm_submit W clk now kind type params pm fr = Some (Inr response, fr')"
  shows "rp_code response = 200 \<and> rp_message response = ''OK'' \<and>
    rp_fields response ''command'' = Some (toString_CommandType type)"
proof -
  let ?ad = "\<lparr>ad_kind = kind, ad_source = commandSourceOf kind, ad_bus = True, ad_guard = True\<rparr>"
  from pm_submit_ready[OF assms(2)]
  have kind: "commandSourceOf kind \<noteq> CommandSource.Unknown"
    and sub: "ad_submit W clk now type params (pm_guard pm) ?ad fr = Some (Inr response, fr')" by (auto split: if_splits)
  from ad_submit_guarded[OF _ _ _ sub] kind obtain fr1 fr2 where
    run: "bus_submit W clk now type params ?ad fr1 = Some (Inr response, fr2)" and "fr_router fr1 = fr_router fr"
    by (auto split: if_splits)
  with bus_submit_Inr[OF run] obtain cmd result sy where "cmd_type cmd = type" "fromCommandResult result = response"
    and "route W clk cmd (fr_router fr) (fr_system fr1) = Some (Inr result, sy)" by auto
  with route_answer[OF assms(1) this(3)] show ?thesis
    by (auto simp: good_answer_def fromCommandResult_def response_ok_def)
qed

subsection \<open>The front ends mean the same\<close>

lemma route_source:
  assumes "cmd_type a = cmd_type b" "cmd_params a = cmd_params b"
  shows "route W clk a ro sy = route W clk b ro sy"
proof -
  have "handle_command W clk h a sy = handle_command W clk h b sy" for h
    using assms(2) by (cases h) (simp_all add: handle_set_mode_def param_def)
  with assms(1) show ?thesis by (simp add: route_def split: option.split)
qed

lemma publishProtocolError_length:
  "length (cb_published (publishProtocolError a st cb)) = length (cb_published (publishProtocolError b st cb))"
  by (simp add: publishProtocolError_def)

text \<open>Two fronts that differ at most in the texts of the events on the bus.\<close>

definition same_outcome :: "'r \<times> 'w front \<Rightarrow> 'r \<times> 'w front \<Rightarrow> bool" where
  "same_outcome x y \<longleftrightarrow>
     fst x = fst y \<and> fr_system (snd x) = fr_system (snd y) \<and> fr_commandId (snd x) = fr_commandId (snd y) \<and>
     length (cb_published (fr_bus (snd x))) = length (cb_published (fr_bus (snd y)))"

lemma bus_submit_source:
  "rel_option same_outcome (bus_submit W clk now type params a fr) (bus_submit W clk now type params b fr)"
proof -
  define cmd where "cmd ad = fst (makeCommand now type (ad_source ad) params (toString_ProtocolKind (ad_kind ad)) (fr_commandId fr))"
    for ad :: ProtocolCommandAdapter
  have same: "route W clk (cmd a) (fr_router fr) (fr_system fr) = route W clk (cmd b) (fr_router fr) (fr_system fr)"
    by (rule route_source) (simp_all add: cmd_def makeCommand_def nextCommandId_def)
  have make: "makeCommand now type (ad_source ad) params (toString_ProtocolKind (ad_kind ad)) (fr_commandId fr) =
      (cmd ad, fr_commandId fr + 1)" for ad :: ProtocolCommandAdapter
    by (simp add: cmd_def makeCommand_def nextCommandId_def)
  show ?thesis
  proof (cases "route W clk (cmd b) (fr_router fr) (fr_system fr)")
    case None
    with same show ?thesis by (simp add: bus_submit_def make cb_submit_def same_outcome_def)
  next
    case (Some x)
    obtain ret sy where "x = (ret, sy)" by (cases x)
    with Some same show ?thesis
      by (auto simp: bus_submit_def make cb_submit_def same_outcome_def publishProtocolError_length split: sum.split)
  qed
qed

datatype front_request = PrivateFront ProtocolRequest | OnvifFront OnvifRequest | GbFront GbControlRequest

fun front_handle ::
  "'w mode_world \<Rightarrow> clock \<Rightarrow> int \<Rightarrow> front_request \<Rightarrow> ActiveProtocolGuard \<Rightarrow> ProtocolCommandAdapter \<Rightarrow> 'w front \<Rightarrow>
     (ProtocolResponse Result \<times> 'w front) option" where
  "front_handle W clk now (PrivateFront req) ag ad fr = private_handle W clk now req ag ad fr"
| "front_handle W clk now (OnvifFront req) ag ad fr = onvif_handle W clk now req ag ad fr"
| "front_handle W clk now (GbFront req) ag ad fr = gbc_handle W clk now req ag ad fr"

fun front_init :: "front_request \<Rightarrow> bool \<Rightarrow> bool \<Rightarrow> ProtocolCommandAdapter \<Rightarrow> unit Result \<times> ProtocolCommandAdapter" where
  "front_init (PrivateFront _) = private_init"
| "front_init (OnvifFront _) = onvif_init"
| "front_init (GbFront _) = gbc_init"

text \<open>The request for a call in each of the front ends' languages.\<close>

fun asks_for :: "adapter_call \<Rightarrow> front_request \<Rightarrow> bool" where
  "asks_for (SetMode m) (PrivateFront req) \<longleftrightarrow> m \<noteq> [] \<and> rq_method req = ''POST'' \<and> rq_path req = ''/api/v1/mode'' \<and>
     (rq_params req ''mode'' = Some m \<or> rq_params req ''mode'' \<in> {None, Some []} \<and> rq_body req = m)"
| "asks_for (SetMode m) (OnvifFront req) \<longleftrightarrow> m \<noteq> [] \<and> oq_action req = ''SetWorkMode'' \<and> oq_fields req ''mode'' = Some m"
| "asks_for (SetMode m) (GbFront req) \<longleftrightarrow> m \<noteq> [] \<and> gc_action req \<in> {''SetWorkMode'', ''DeviceControl''} \<and>
     gc_fields req ''mode'' = Some m"
| "asks_for GetMode (PrivateFront req) \<longleftrightarrow> rq_method req = ''GET'' \<and> rq_path req = ''/api/v1/mode''"
| "asks_for GetMode (OnvifFront req) \<longleftrightarrow> oq_action req = ''GetWorkMode''"
| "asks_for GetMode (GbFront req) \<longleftrightarrow> gc_action req = ''GetWorkMode''"
| "asks_for Start (PrivateFront req) \<longleftrightarrow> rq_method req = ''POST'' \<and> rq_path req = ''/api/v1/stream/start''"
| "asks_for Start (OnvifFront req) \<longleftrightarrow> oq_action req = ''StartStream''"
| "asks_for Start (GbFront req) \<longleftrightarrow> gc_action req = ''StartStream''"
| "asks_for Stop (PrivateFront req) \<longleftrightarrow> rq_method req = ''POST'' \<and> rq_path req = ''/api/v1/stream/stop''"
| "asks_for Stop (OnvifFront req) \<longleftrightarrow> oq_action req = ''StopStream''"
| "asks_for Stop (GbFront req) \<longleftrightarrow> gc_action req = ''StopStream''"
| "asks_for Status (PrivateFront req) \<longleftrightarrow> rq_method req = ''GET'' \<and> rq_path req = ''/api/v1/status''"
| "asks_for Status (OnvifFront req) \<longleftrightarrow> oq_action req = ''GetStatus''"
| "asks_for Status (GbFront req) \<longleftrightarrow> gc_action req \<in> {''DeviceStatus'', ''QueryStatus''}"

lemma front_handle_call:
  "asks_for c q \<Longrightarrow> front_handle W clk now q ag ad fr = ad_call W clk now c ag ad fr"
  by (cases c; cases q)
    (auto simp: private_handle_def onvif_handle_def gbc_handle_def getParam_def mode_of_fields_def Let_def)

lemma front_init_adapter:
  "front_init q bus guard ad = (Success, ad') \<Longrightarrow>
     ad_bus ad' \<and> ad_source ad' \<noteq> CommandSource.Unknown \<and> ad_guard ad' = guard"
  by (cases q) (auto simp: private_init_def onvif_init_def gbc_init_def ad_init_def split: if_splits)

definition owned_by :: "CommandSource \<Rightarrow> 'w front \<Rightarrow> 'w front" where
  "owned_by source fr = fr\<lparr>fr_system := (fr_system fr)\<lparr>sy_protocolService :=
     (sy_protocolService (fr_system fr))\<lparr>pv_activeOwner := protocolName source\<rparr>\<rparr>\<rparr>"

text \<open>
  Claim C22. The three front ends agree: a request for the same call - in the private API's path language, as an
  ONVIF action or as a GB28181 control action - gives the same answer, the same change of the system
  and the same number of announced errors, when the adapters are initialized without a guard. An adapter with a guard
  refuses every request while its protocol is not active; when it is active, the answer and the system are those that the
  other front end, without a guard, gives while that protocol owns the service, and the ownership ends.
\<close>

theorem front_ends_agree:
  assumes "asks_for c p" "asks_for c q"
    and "front_init p bus False ad0 = (Success, a)" "front_init q bus False ad1 = (Success, b)"
    and "front_init q bus True ad2 = (Success, g)"
  shows "rel_option same_outcome (front_handle W clk now p ag a fr) (front_handle W clk now q ag b fr) \<and>
    (\<forall>ret fr'. front_handle W clk now q ag g fr = Some (ret, fr') \<longrightarrow>
       (if ag_isActive ag (ad_source g) (fr_system fr)
        then (\<exists>fr1. front_handle W clk now p ag a (owned_by (ad_source g) fr) = Some (ret, fr1) \<and>
                fr_system fr' = (fr_system fr1)\<lparr>sy_protocolService :=
                  (sy_protocolService (fr_system fr))\<lparr>pv_activeOwner := []\<rparr>\<rparr>)
        else fr' = fr \<and> \<not> result_ok ret))"
proof (intro conjI allI impI)
  note init = front_init_adapter[OF assms(3)] front_init_adapter[OF assms(4)] front_init_adapter[OF assms(5)]
  show "rel_option same_outcome (front_handle W clk now p ag a fr) (front_handle W clk now q ag b fr)"
    using bus_submit_source[of W clk now "call_type c" "call_params c" a fr b] init
    by (simp add: front_handle_call[OF assms(1)] front_handle_call[OF assms(2)] ad_call_def ad_submit_def)
  fix ret fr' assume "front_handle W clk now q ag g fr = Some (ret, fr')"
  then have sub: "ad_submit W clk now (call_type c) (call_params c) ag g fr = Some (ret, fr')"
    by (simp add: front_handle_call[OF assms(2)] ad_call_def)
  note guarded = ad_submit_guarded[OF _ _ _ sub] and
    other = bus_submit_source[of W clk now "call_type c" "call_params c" a "owned_by (ad_source g) fr" g]
  show "if ag_isActive ag (ad_source g) (fr_system fr)
        then (\<exists>fr1. front_handle W clk now p ag a (owned_by (ad_source g) fr) = Some (ret, fr1) \<and>
                fr_system fr' = (fr_system fr1)\<lparr>sy_protocolService :=
                  (sy_protocolService (fr_system fr))\<lparr>pv_activeOwner := []\<rparr>\<rparr>)
        else fr' = fr \<and> \<not> result_ok ret"
    using guarded other init
    by (auto simp: front_handle_call[OF assms(1)] ad_call_def ad_submit_def owned_by_def same_outcome_def option_rel_Some2)
qed

text \<open>A request line of the private API is read back.\<close>

definition request_line :: "string \<Rightarrow> string \<Rightarrow> (string \<times> string) list \<Rightarrow> string" where
  "request_line m path ps = m @ '' '' @ path @ concat (map (\<lambda>(k, v). '' '' @ k @ ''='' @ v) ps)"

definition solid :: "string \<Rightarrow> bool" where
  "solid s \<longleftrightarrow> list_all (\<lambda>c. \<not> isspace c) s"

lemma words_from_solid: "solid u \<Longrightarrow> words_from w (u @ s) = words_from (w @ u) s"
  by (induction u arbitrary: w) (auto simp: solid_def)

lemma words_from_next: "w \<noteq> [] \<Longrightarrow> solid u \<Longrightarrow> words_from w ('' '' @ u @ s) = w # words_from u s"
  by (simp add: words_from_solid isspace_def chr_code_def)

lemma words_from_params:
  assumes "w \<noteq> []" "list_all (\<lambda>(k, v). solid k \<and> solid v) ps"
  shows "words_from w (concat (map (\<lambda>(k, v). '' '' @ k @ ''='' @ v) ps)) = w # map (\<lambda>(k, v). k @ ''='' @ v) ps"
  using assms
proof (induction ps arbitrary: w)
  case (Cons kv ps)
  obtain k v where [simp]: "kv = (k, v)" by (cases kv)
  from Cons.prems have "solid (k @ ''='' @ v)" by (simp add: solid_def isspace_def chr_code_def)
  from words_from_next[OF Cons.prems(1) this, of "concat (map (\<lambda>(k, v). '' '' @ k @ ''='' @ v) ps)"]
    Cons.IH[of "k @ ''='' @ v"] Cons.prems(2)
  show ?case by simp
qed simp

lemma add_param_entry: "CHR ''='' \<notin> set k \<Longrightarrow> add_param (k @ ''='' @ v) m = m(k \<mapsto> v)"
proof -
  assume "CHR ''='' \<notin> set k"
  then have "takeWhile (\<lambda>c. c \<noteq> CHR ''='') (k @ ''='' @ v) = k" "dropWhile (\<lambda>c. c \<noteq> CHR ''='') (k @ ''='' @ v) = ''='' @ v"
    by (induction k) auto
  then show ?thesis by (simp add: add_param_def)
qed

lemma fold_add_param:
  "list_all (\<lambda>(k, v). CHR ''='' \<notin> set k) ps \<Longrightarrow>
     fold add_param (map (\<lambda>(k, v). k @ ''='' @ v) ps) m = m ++ map_of (rev ps)"
  by (induction ps arbitrary: m) (auto simp: add_param_entry[simplified] split: prod.splits)

text \<open>
  A request line of the private API is parsed back: method, path and every parameter, the last one
  winning where a key is repeated, if method and path are not empty, nothing has white space in it and
  no key has an equals sign.
\<close>

theorem parse_request_line:
  assumes "m \<noteq> []" "path \<noteq> []" "solid m" "solid path"
    and "list_all (\<lambda>(k, v). solid k \<and> solid v \<and> CHR ''='' \<notin> set k) ps"
  shows "parseLine (request_line m path ps) = \<lparr>rq_method = m, rq_path = path, rq_body = [], rq_params = map_of (rev ps)\<rparr>"
proof -
  from assms(5) have ps: "list_all (\<lambda>(k, v). solid k \<and> solid v) ps" "list_all (\<lambda>(k, v). CHR ''='' \<notin> set k) ps"
    by (auto simp: list_all_iff)
  have "stream_words (request_line m path ps) = m # path # map (\<lambda>(k, v). k @ ''='' @ v) ps"
    using words_from_solid[OF assms(3), of "[]"] words_from_next[OF assms(1,4)] words_from_params[OF assms(2) ps(1)]
    by (simp add: stream_words_def request_line_def)
  with fold_add_param[OF ps(2), of Map.empty] show ?thesis by (simp add: parseLine_def)
qed

subsection \<open>The GB28181 service\<close>

text \<open>The operations that change the service, in any order; control requests and frames leave it alone.\<close>

inductive gd_step :: "Gb28181Service \<Rightarrow> Gb28181Service \<Rightarrow> bool" where
  step_init: "gd_step gd (snd (gd_init profile bus streamService guard gd))"
| step_start: "gd_step gd (snd (gd_start gd))"
| step_stop: "gd_step gd (gd_stop gd)"
| step_invite: "gd_step gd (snd (gd_handleInvite context gd))"

definition gd_inv :: "Gb28181Service \<Rightarrow> bool" where
  "gd_inv gd \<longleftrightarrow>
     (gs_running (gd_sender gd) \<longrightarrow> gd_invite gd \<and> gs_streamService (gd_sender gd) \<and>
        gi_remoteIp (gs_context (gd_sender gd)) \<noteq> [] \<and> gi_remotePort (gs_context (gd_sender gd)) \<noteq> 0) \<and>
     (gn_running (gd_keepalive gd) \<longrightarrow>
        0 < gn_intervalSeconds (gd_keepalive gd) \<and> si_running (gd_sip gd) \<and> ge_registered (gd_reg gd)) \<and>
     (si_running (gd_sip gd) \<longrightarrow> si_configured (gd_sip gd)) \<and>
     (si_configured (gd_sip gd) \<longrightarrow> gp_deviceId (si_profile (gd_sip gd)) \<noteq> [] \<and>
        gp_serverIp (si_profile (gd_sip gd)) \<noteq> [] \<and> gp_serverPort (si_profile (gd_sip gd)) \<noteq> 0) \<and>
     (gd_initialized gd \<longrightarrow> si_configured (gd_sip gd) \<and> gp_deviceId (ge_profile (gd_reg gd)) \<noteq> [] \<and> gd_invite gd \<and>
        gs_streamService (gd_sender gd) \<and> ad_bus (gd_control gd) \<and> ad_kind (gd_control gd) = ProtocolKind.Gb28181)"

lemmas gd_defs = gd_init_def gd_start_def gd_stop_def gd_handleInvite_def si_init_def si_start_def si_stop_def
  ge_init_def registerDevice_def gn_start_def gn_stop_def gs_init_def gs_start_def gs_stop_def gi_init_def
  gi_handleInvite_def gi_bye_def gbc_init_def ad_init_def

lemma gd_inv_new: "gd_inv new_gb_service"
  by (simp add: gd_inv_def new_gb_service_def default_gb_profile_def)

lemma gd_inv_init: "gd_inv gd \<Longrightarrow> gd_inv (snd (gd_init profile bus streamService guard gd))"
  by (simp add: gd_defs gd_inv_def Let_def)

lemma gd_inv_start: "gd_inv gd \<Longrightarrow> gd_inv (snd (gd_start gd))"
  by (simp add: gd_defs gd_inv_def Let_def)

lemma gd_inv_stop: "gd_inv gd \<Longrightarrow> gd_inv (gd_stop gd)"
  by (auto simp: gd_stop_def gi_bye_def gs_stop_def gn_stop_def si_stop_def gd_inv_def)

lemma gd_inv_invite: "gd_inv gd \<Longrightarrow> gd_inv (snd (gd_handleInvite context gd))"
  by (auto simp: gd_handleInvite_def gi_handleInvite_def gs_start_def gd_inv_def Let_def)

lemma gd_reach_inv: "gd_step\<^sup>*\<^sup>* new_gb_service gd \<Longrightarrow> gd_inv gd"
  by (induction rule: rtranclp_induct)
    (auto simp: gd_inv_new elim!: gd_step.cases intro: gd_inv_init gd_inv_start gd_inv_stop gd_inv_invite)

text \<open>
  Claim C24. In every reachable state of the GB28181 service a running RTP sender has a stream service, an address
  and a port to send to; running keepalives have a positive interval, a running and configured SIP
  client with a server address, and a registered device; and \<open>stop\<close> leaves nothing running.
\<close>

theorem gb_service_safe:
  assumes "gd_step\<^sup>*\<^sup>* new_gb_service gd"
  shows "(gs_running (gd_sender gd) \<longrightarrow> gs_streamService (gd_sender gd) \<and>
        gi_remoteIp (gs_context (gd_sender gd)) \<noteq> [] \<and> gi_remotePort (gs_context (gd_sender gd)) \<noteq> 0) \<and>
    (gn_running (gd_keepalive gd) \<longrightarrow> 0 < gn_intervalSeconds (gd_keepalive gd) \<and> ge_registered (gd_reg gd) \<and>
        si_running (gd_sip gd) \<and> gp_serverIp (si_profile (gd_sip gd)) \<noteq> [] \<and> gp_serverPort (si_profile (gd_sip gd)) \<noteq> 0) \<and>
    \<not> gs_running (gd_sender (gd_stop gd)) \<and> \<not> gn_running (gd_keepalive (gd_stop gd)) \<and> \<not> si_running (gd_sip (gd_stop gd))"
  using gd_reach_inv[OF assms] by (auto simp: gd_inv_def gd_stop_def gi_bye_def gs_stop_def gn_stop_def si_stop_def)

lemma checkNotEmpty_Success: "checkNotEmpty v name = Success \<Longrightarrow> v \<noteq> []"
  by (auto simp: checkNotEmpty_def trim_def)

lemma checkPort_Success: "checkPort p name = Success \<Longrightarrow> p \<noteq> 0"
  by (auto simp: checkPort_def isValidPort_def split: if_splits)

text \<open>
  A GB28181 configuration that is enabled and valid makes a service that works: it initializes, starts
  - the SIP client runs, the device is registered, keepalives run at the configured interval - and
  accepts an invitation to any address, with the configured SSRC if the invitation names none.
\<close>

theorem valid_config_starts:
  assumes "validateGb28181 c = Success" "gb_enable c" "gi_remoteIp context \<noteq> []" "gi_remotePort context \<noteq> 0"
  shows "\<exists>g1 g2 g3. gd_init_config c True True guard gd = (Success, g1) \<and> gd_start g1 = (Success, g2) \<and>
    si_running (gd_sip g2) \<and> ge_registered (gd_reg g2) \<and> gn_running (gd_keepalive g2) \<and>
    gn_intervalSeconds (gd_keepalive g2) = gk_intervalSec (gb_keepalive c) \<and>
    gd_handleInvite context g2 = (Success, g3) \<and> gs_running (gd_sender g3) \<and>
    gs_context (gd_sender g3) =
      (if gi_ssrc context = [] then context\<lparr>gi_ssrc := gm_ssrc (gb_media c)\<rparr> else context)"
proof -
  from assms(1,2) have "gl_deviceId (gb_local c) \<noteq> []" "gl_domain (gb_local c) \<noteq> []" "gl_ip (gb_local c) \<noteq> []"
    "gl_port (gb_local c) \<noteq> 0" "gv_id (gb_server c) \<noteq> []" "gv_ip (gb_server c) \<noteq> []" "gv_port (gb_server c) \<noteq> 0"
    "0 < gk_intervalSec (gb_keepalive c)"
    by (auto simp: validateGb28181_def first_error_Success checkThat_def dest!: checkNotEmpty_Success checkPort_Success
        split: if_splits)
  with assms(3,4) show ?thesis
    by (simp add: gd_init_config_def gd_defs makeGbDeviceProfile_def Let_def)
qed

subsection \<open>Concrete fronts, for the witnesses\<close>

definition sim_front :: "nat front" where
  "sim_front =
     \<lparr>fr_bus = sim_bus, fr_router = sim_router,
      fr_system = sim_system\<lparr>sy_protocolService :=
        \<lparr>pv_config = default_protocol_config\<lparr>pc_active := ''onvif''\<rparr>, pv_activeOwner = ''onvif'', pv_initialized = True\<rparr>\<rparr>,
      fr_commandId = 1\<rparr>"

definition sim_protocols :: ProtocolManager where
  "sim_protocols = new_protocol_manager\<lparr>pm_runtime := \<lparr>rx_commandBus = True, rx_protocolService = True, rx_streamService = True\<rparr>,
     pm_guard := \<lparr>ag_service = True\<rparr>, pm_activeKind := ProtocolKind.Onvif, pm_initialized := True\<rparr>"

lemma sim_front_router [simp]: "fr_router sim_front = sim_router"
  by (simp add: sim_front_def)

lemma sim_bus_submit:
  "ad_source ad = commandSourceOf k \<Longrightarrow> fr_bus fr = sim_bus \<Longrightarrow> fr_router fr = sim_router \<Longrightarrow>
     sy_modes (fr_system fr) = ready_manager \<Longrightarrow> msv_modeManager (sy_modeService (fr_system fr)) \<Longrightarrow>
     \<exists>response fr'. bus_submit W clk now GetWorkMode params ad fr = Some (Inr response, fr')"
  by (simp add: bus_submit_def makeCommand_def nextCommandId_def cb_submit_def route_default[OF sim_router_ok]
      handle_get_mode_def getWorkMode_def)

lemma sim_submit:
  "\<exists>response fr'. pm_submit sim_world (0, 0, 0) 0 ProtocolKind.Onvif GetWorkMode Map.empty sim_protocols sim_front =
     Some (Inr response, fr')"
proof -
  let ?ad = "\<lparr>ad_kind = ProtocolKind.Onvif, ad_source = CommandSource.Onvif, ad_bus = True, ad_guard = True\<rparr>"
  have "ag_acquire \<lparr>ag_service = True\<rparr> CommandSource.Onvif (fr_system sim_front) = (Success, fr_system sim_front)"
    by (simp add: ag_acquire_def pv_acquire_def sim_front_def default_protocol_config_def Let_def)
  moreover obtain response fr' where "bus_submit sim_world (0, 0, 0) 0 GetWorkMode Map.empty ?ad sim_front = Some (Inr response, fr')"
    using sim_bus_submit[of ?ad ProtocolKind.Onvif sim_front sim_world "(0, 0, 0)" 0 Map.empty]
    by (auto simp: sim_front_def sim_system_def)
  ultimately show ?thesis
    by (simp add: pm_submit_def pm_ready_def sim_protocols_def ad_init_def new_adapter_def ad_submit_def)
qed

theorem only_active_reaches_bus_witness:
  "\<exists>response fr' e. pm_submit sim_world (0, 0, 0) 0 ProtocolKind.Onvif GetWorkMode Map.empty sim_protocols (sim_front :: nat front) =
       Some (Inr response, fr') \<and> pv_activeOwner (sy_protocolService (fr_system fr')) = [] \<and>
     pm_submit sim_world (0, 0, 0) 0 ProtocolKind.Gb28181 GetWorkMode Map.empty sim_protocols sim_front = Some (Inl e, sim_front)"
proof -
  have act: "pv_isActive CommandSource.Onvif (sy_protocolService (fr_system sim_front))"
    "\<not> pv_isActive CommandSource.Gb28181 (sy_protocolService (fr_system sim_front))"
    by (simp_all add: sim_front_def pv_isActive_def default_protocol_config_def)
  obtain response fr' where ok: "pm_submit sim_world (0, 0, 0) 0 ProtocolKind.Onvif GetWorkMode Map.empty sim_protocols sim_front =
     Some (Inr response, fr')" using sim_submit by blast
  from only_active_reaches_bus[OF ok] act
  have owner: "pv_activeOwner (sy_protocolService (fr_system fr')) = []" by (auto simp: sim_protocols_def)
  obtain ret fr2 where no: "pm_submit sim_world (0, 0, 0) 0 ProtocolKind.Gb28181 GetWorkMode Map.empty sim_protocols sim_front =
     Some (ret, fr2)"
    by (simp add: pm_submit_def pm_ready_def sim_protocols_def ad_init_def new_adapter_def ad_submit_def ag_acquire_def
        pv_acquire_def sim_front_def default_protocol_config_def Let_def)
  from only_active_reaches_bus[OF no] act have "fr2 = sim_front" "\<not> result_ok ret" by simp_all
  with ok owner no show ?thesis by (cases ret) auto
qed

theorem answers_are_ok_witness:
  "\<exists>response fr'. pm_submit sim_world (0, 0, 0) 0 ProtocolKind.Onvif GetWorkMode Map.empty sim_protocols (sim_front :: nat front) =
       Some (Inr response, fr') \<and> rp_code response = 200"
proof -
  obtain response fr' where ok: "pm_submit sim_world (0, 0, 0) 0 ProtocolKind.Onvif GetWorkMode Map.empty sim_protocols sim_front =
     Some (Inr response, fr')" using sim_submit by blast
  from answers_are_ok[OF _ ok] sim_router_ok ok show ?thesis by auto
qed

theorem front_ends_agree_witness:
  "\<exists>x y. front_handle sim_world (0, 0, 0) 0 (PrivateFront (parseLine ''GET /api/v1/mode'')) new_guard
       (snd (front_init (PrivateFront (parseLine [])) True False new_adapter)) (sim_front :: nat front) = Some x \<and>
     front_handle sim_world (0, 0, 0) 0 (GbFront \<lparr>gc_action = ''GetWorkMode'', gc_fields = Map.empty\<rparr>) new_guard
       (snd (gbc_init True False new_adapter)) sim_front = Some y \<and> fst x = fst y"
proof -
  let ?p = "PrivateFront (parseLine ''GET /api/v1/mode'')"
  let ?q = "GbFront \<lparr>gc_action = ''GetWorkMode'', gc_fields = Map.empty\<rparr>"
  let ?a = "snd (front_init (PrivateFront (parseLine [])) True False new_adapter)"
  let ?b = "snd (gbc_init True False new_adapter)"
  have p: "asks_for GetMode ?p" by (simp add: parseLine_def stream_words_def isspace_def chr_code_def)
  have q: "asks_for GetMode ?q" by simp
  have ia: "front_init ?p True False new_adapter = (Success, ?a)" by (simp add: private_init_def ad_init_def)
  have ib: "front_init ?q True False new_adapter = (Success, ?b)" by (simp add: gbc_init_def ad_init_def)
  obtain response fr' where
    "bus_submit sim_world (0, 0, 0) 0 GetWorkMode Map.empty ?a sim_front = Some (Inr response, fr')"
    using sim_bus_submit[of ?a ProtocolKind.PrivateApi sim_front sim_world "(0, 0, 0)" 0 Map.empty]
    by (auto simp: private_init_def ad_init_def sim_front_def sim_system_def)
  then have "front_handle sim_world (0, 0, 0) 0 ?p new_guard ?a sim_front = Some (Inr response, fr')"
    unfolding front_handle_call[OF p] by (simp add: ad_call_def ad_submit_def private_init_def ad_init_def new_adapter_def)
  moreover have "front_init ?q True True new_adapter = (Success, snd (gbc_init True True new_adapter))"
    by (simp add: gbc_init_def ad_init_def)
  ultimately show ?thesis using front_ends_agree[OF p q ia ib, of new_adapter "snd (gbc_init True True new_adapter)" sim_world "(0, 0, 0)" 0 new_guard sim_front]
    by (auto simp: same_outcome_def option_rel_Some1)
qed

theorem parse_request_line_witness:
  "rq_params (parseLine (request_line ''POST'' ''/api/v1/mode'' [(''mode'', ''visible-only'')])) ''mode'' = Some ''visible-only''"
proof -
  have ok: "solid ''POST''" "solid ''/api/v1/mode''" "solid ''mode''" "solid ''visible-only''" by code_simp+
  then have "list_all (\<lambda>(k, v). solid k \<and> solid v \<and> CHR ''='' \<notin> set k) [(''mode'', ''visible-only'')]" by simp
  from parse_request_line[OF _ _ ok(1,2) this] show ?thesis by simp
qed

theorem gb_service_safe_witness:
  "gn_running (gd_keepalive (snd (gd_start (snd (gd_init default_gb_profile True True False new_gb_service))))) \<and>
   0 < gn_intervalSeconds (gd_keepalive (snd (gd_start (snd (gd_init default_gb_profile True True False new_gb_service)))))"
proof -
  let ?g1 = "snd (gd_init default_gb_profile True True False new_gb_service)"
  have "gd_step\<^sup>*\<^sup>* new_gb_service (snd (gd_start ?g1))"
    using step_init[of new_gb_service default_gb_profile True True False] step_start[of ?g1]
    by (meson r_into_rtranclp rtranclp.rtrancl_into_rtrancl)
  from gb_service_safe[OF this] show ?thesis
    by (simp add: gd_defs new_gb_service_def default_gb_profile_def new_adapter_def Let_def)
qed

theorem valid_config_starts_witness:
  "\<exists>g1 g2. gd_init_config default_gb28181 True True False new_gb_service = (Success, g1) \<and>
     gd_start g1 = (Success, g2) \<and> si_running (gd_sip g2)"
proof -
  have "validateGb28181 default_gb28181 = Success" "gb_enable default_gb28181" by code_simp+
  from valid_config_starts[OF this, of "default_invite\<lparr>gi_remoteIp := ''10.0.0.1'', gi_remotePort := 9\<rparr>" False new_gb_service]
  show ?thesis by auto
qed

end
