(* ===== verification/Tri_MpegTs.thy ===== *)
theory Tri_MpegTs
  imports Tri_Commands Tri_Sockets
begin

text \<open>
  The publisher that pipes the main stream into an ffmpeg process which sends it as MPEG-TS over UDP
  (protocol/udp/UdpMpegTsPublisher.cpp): the command line, starting and watching the process, the
  thread that writes the frames, and stopping. The system calls are a parameter record.
\<close>

datatype FfmpegPipeInputFormat = H264AnnexB | Mjpeg | RawYuyv422

record UdpMpegTsPublisherConfig =
  uc_udpUrl :: string
  uc_inputFormat :: FfmpegPipeInputFormat
  uc_width :: u32
  uc_height :: u32
  uc_fps :: u32
  uc_encoder :: string
  uc_preset :: string
  uc_tune :: string
  uc_ffmpegPath :: string
  uc_logLevel :: string

definition default_publisher_config :: UdpMpegTsPublisherConfig where
  "default_publisher_config =
     \<lparr>uc_udpUrl = ''udp://192.168.1.35:5004?pkt_size=1316'', uc_inputFormat = H264AnnexB, uc_width = 800,
      uc_height = 600, uc_fps = 30, uc_encoder = ''copy'', uc_preset = ''ultrafast'', uc_tune = ''zerolatency'',
      uc_ffmpegPath = ''ffmpeg'', uc_logLevel = ''info''\<rparr>"

record UdpMpegTsPublisherStats =
  ut_framesPulled :: u64
  ut_framesWritten :: u64
  ut_bytesWritten :: u64
  ut_writeErrors :: u64

definition default_publisher_stats :: UdpMpegTsPublisherStats where
  "default_publisher_stats =
     \<lparr>ut_framesPulled = 0, ut_framesWritten = 0, ut_bytesWritten = 0, ut_writeErrors = 0\<rparr>"

text \<open>\<open>uu_thread\<close> says whether \<open>senderThread_\<close> is joinable, \<open>uu_loop\<close> whether it is still in its loop.\<close>

record UdpMpegTsPublisher =
  uu_config :: UdpMpegTsPublisherConfig
  uu_streamService :: bool
  uu_running :: bool
  uu_thread :: bool
  uu_loop :: bool
  uu_writeFd :: int
  uu_childPid :: int
  uu_stats :: UdpMpegTsPublisherStats

definition new_publisher :: UdpMpegTsPublisher where
  "new_publisher =
     \<lparr>uu_config = default_publisher_config, uu_streamService = False, uu_running = False, uu_thread = False,
      uu_loop = False, uu_writeFd = -1, uu_childPid = -1, uu_stats = default_publisher_stats\<rparr>"

text \<open>
  The system calls. A failed \<open>pipe\<close> or \<open>fork\<close> carries \<open>strerror(errno)\<close>; \<open>ps_fork\<close> starts the program
  with the given arguments, its standard input the first descriptor; \<open>ps_exited\<close> is \<open>waitpid\<close> with
  \<open>WNOHANG\<close>: the status of a child that has exited and is collected by the call; \<open>ps_write\<close> says how
  many bytes were taken, none when it fails.
\<close>

record 'w processes =
  ps_pipe :: "'w \<Rightarrow> (string + int \<times> int) \<times> 'w"
  ps_fork :: "string list \<Rightarrow> int \<Rightarrow> 'w \<Rightarrow> (string + int) \<times> 'w"
  ps_close :: "int \<Rightarrow> 'w \<Rightarrow> 'w"
  ps_exited :: "int \<Rightarrow> 'w \<Rightarrow> int option \<times> 'w"
  ps_write :: "int \<Rightarrow> bytes \<Rightarrow> 'w \<Rightarrow> nat \<times> 'w"

subsection \<open>The command line\<close>

definition ffmpeg_gop :: "u32 \<Rightarrow> nat" where
  "ffmpeg_gop fps = (if unat fps div 2 > 0 then unat fps div 2 else 15)"

definition encoder_args :: "UdpMpegTsPublisherConfig \<Rightarrow> string list" where
  "encoder_args c =
     [''-c:v'', uc_encoder c, ''-preset'', uc_preset c, ''-tune'', uc_tune c,
      ''-g'', show_nat (ffmpeg_gop (uc_fps c)), ''-bf'', ''0'']"

definition input_args :: "UdpMpegTsPublisherConfig \<Rightarrow> string list" where
  "input_args c =
     (case uc_inputFormat c of
        H264AnnexB \<Rightarrow>
          [''-r'', show_nat (unat (uc_fps c)), ''-f'', ''h264'', ''-i'', ''pipe:0'', ''-an'', ''-c:v'', ''copy'']
      | RawYuyv422 \<Rightarrow>
          [''-f'', ''rawvideo'', ''-pixel_format'', ''yuyv422'',
           ''-video_size'', show_nat (unat (uc_width c)) @ ''x'' @ show_nat (unat (uc_height c)),
           ''-framerate'', show_nat (unat (uc_fps c)), ''-i'', ''pipe:0'', ''-vf'', ''format=yuv420p''] @ encoder_args c
      | Mjpeg \<Rightarrow>
          [''-f'', ''mjpeg'', ''-r'', show_nat (unat (uc_fps c)), ''-i'', ''pipe:0'', ''-vf'', ''format=yuv420p'']
            @ encoder_args c)"

definition buildFfmpegArgs :: "UdpMpegTsPublisherConfig \<Rightarrow> string list" where
  "buildFfmpegArgs c =
     [uc_ffmpegPath c, ''-hide_banner'', ''-loglevel'', uc_logLevel c, ''-fflags'', ''+genpts+nobuffer'',
      ''-flags'', ''low_delay'', ''-use_wallclock_as_timestamps'', ''1'', ''-probesize'', ''32'',
      ''-analyzeduration'', ''0''] @ input_args c @
     [''-muxdelay'', ''0'', ''-muxpreload'', ''0'', ''-flush_packets'', ''1'', ''-f'', ''mpegts'', uc_udpUrl c]"

subsection \<open>The process\<close>

definition closeWritePipe :: "'w processes \<Rightarrow> UdpMpegTsPublisher \<Rightarrow> 'w \<Rightarrow> UdpMpegTsPublisher \<times> 'w" where
  "closeWritePipe ps p w =
     (if 0 \<le> uu_writeFd p then (p\<lparr>uu_writeFd := -1\<rparr>, ps_close ps (uu_writeFd p) w) else (p, w))"

definition waitChildIfExited :: "'w processes \<Rightarrow> UdpMpegTsPublisher \<Rightarrow> 'w \<Rightarrow> UdpMpegTsPublisher \<times> 'w" where
  "waitChildIfExited ps p w =
     (if uu_childPid p < 0 then (p, w)
      else case ps_exited ps (uu_childPid p) w of
        (None, w) \<Rightarrow> (p, w)
      | (Some _, w) \<Rightarrow> closeWritePipe ps (p\<lparr>uu_childPid := -1\<rparr>) w)"

definition startFfmpeg ::
  "'w processes \<Rightarrow> UdpMpegTsPublisher \<Rightarrow> 'w \<Rightarrow> unit Result \<times> UdpMpegTsPublisher \<times> 'w" where
  "startFfmpeg ps p w =
     (case ps_pipe ps w of
        (Inl err, w) \<Rightarrow> (Error IoError (''pipe failed: '' @ err), p, w)
      | (Inr (rd, wr), w) \<Rightarrow>
          (case ps_fork ps (buildFfmpegArgs (uu_config p)) rd w of
             (Inl err, w) \<Rightarrow>
               (Error IoError (''fork ffmpeg failed: '' @ err), p, ps_close ps wr (ps_close ps rd w))
           | (Inr pid, w) \<Rightarrow>
               let w = ps_close ps rd w; p = p\<lparr>uu_childPid := pid, uu_writeFd := wr\<rparr>
               in case ps_exited ps pid w of
                    (Some status, w) \<Rightarrow>
                      (case closeWritePipe ps p w of (p, w) \<Rightarrow>
                         (Error IoError (''ffmpeg exited immediately, status='' @ show_int status @
                            '', see /tmp/tri_fusion_ffmpeg_stderr.log''), p\<lparr>uu_childPid := -1\<rparr>, w))
                  | (None, w) \<Rightarrow> (Success, p, w)))"

text \<open>Assigning a new thread to a joinable \<open>std::thread\<close> ends the program, here \<open>None\<close>.\<close>

definition publisher_start ::
  "'w processes \<Rightarrow> UdpMpegTsPublisherConfig \<Rightarrow> bool \<Rightarrow> UdpMpegTsPublisher \<Rightarrow> 'w \<Rightarrow>
     (unit Result \<times> UdpMpegTsPublisher \<times> 'w) option" where
  "publisher_start ps config streamService p w =
     (if uu_running p then Some (Success, p, w)
      else if \<not> streamService
      then Some (Error InvalidArgument ''UdpMpegTsPublisher streamService is null'', p, w)
      else if uc_udpUrl config = [] then Some (Error InvalidArgument ''UdpMpegTsPublisher udpUrl is empty'', p, w)
      else
        case startFfmpeg ps (p\<lparr>uu_config := config, uu_streamService := True, uu_stats := default_publisher_stats\<rparr>) w of
          (Inl e, p, w) \<Rightarrow> Some (Inl e, p, w)
        | (Inr _, p, w) \<Rightarrow>
            if uu_thread p then None
            else Some (Success, p\<lparr>uu_running := True, uu_thread := True, uu_loop := True\<rparr>, w))"

subsection \<open>The sender thread\<close>

definition writeFrameToFfmpeg :: "'w processes \<Rightarrow> bytes \<Rightarrow> UdpMpegTsPublisher \<Rightarrow> 'w \<Rightarrow> bool \<times> 'w" where
  "writeFrameToFfmpeg ps data p w =
     (if uu_writeFd p < 0 then (False, w) else send_loop (ps_write ps (uu_writeFd p)) data w)"

definition set_stats :: "(UdpMpegTsPublisherStats \<Rightarrow> UdpMpegTsPublisherStats) \<Rightarrow> UdpMpegTsPublisher \<Rightarrow> UdpMpegTsPublisher" where
  "set_stats f p = p\<lparr>uu_stats := f (uu_stats p)\<rparr>"

text \<open>Leaving the loop of \<open>senderLoop\<close>, after a write error or because \<open>running_\<close> is false.\<close>

definition loop_end :: "UdpMpegTsPublisher \<Rightarrow> UdpMpegTsPublisher" where
  "loop_end p = p\<lparr>uu_running := False, uu_loop := False\<rparr>"

definition count_error :: "UdpMpegTsPublisher \<Rightarrow> UdpMpegTsPublisher" where
  "count_error = set_stats (\<lambda>s. s\<lparr>ut_writeErrors := ut_writeErrors s + 1\<rparr>)"

lemma write_set_stats [simp]:
  "writeFrameToFfmpeg ps data (set_stats f p) w = writeFrameToFfmpeg ps data p w"
  "writeFrameToFfmpeg ps data (p\<lparr>uu_stats := st\<rparr>) w = writeFrameToFfmpeg ps data p w"
  by (simp_all add: writeFrameToFfmpeg_def set_stats_def)

text \<open>One turn of the loop; \<open>None\<close> while \<open>waitFrame\<close> waits.\<close>

definition sender_turn ::
  "'p processes \<Rightarrow> bool \<Rightarrow> UdpMpegTsPublisher \<Rightarrow> 'w system \<Rightarrow> 'p \<Rightarrow> (UdpMpegTsPublisher \<times> 'w system \<times> 'p) option" where
  "sender_turn ps expired p sy w =
     (if \<not> uu_running p \<or> \<not> uu_streamService p then Some (loop_end p, sy, w)
      else case waitChildIfExited ps p w of (p, w) \<Rightarrow>
        if uu_childPid p < 0 then Some (loop_end (count_error p), sy, w)
        else do {
          (frame, sy) \<leftarrow> ssv_waitFrame 1000 expired sy;
          Some (case frame of
              Inl _ \<Rightarrow> (p, sy, w)
            | Inr frame \<Rightarrow>
                let p = set_stats (\<lambda>s. s\<lparr>ut_framesPulled := ut_framesPulled s + 1\<rparr>) p
                in if ef_data frame = [] then (p, sy, w)
                   else case writeFrameToFfmpeg ps (ef_data frame) p w of
                     (False, w) \<Rightarrow> (loop_end (count_error p), sy, w)
                   | (True, w) \<Rightarrow>
                       (set_stats (\<lambda>s. s\<lparr>ut_framesWritten := ut_framesWritten s + 1,
                          ut_bytesWritten := ut_bytesWritten s + of_nat (length (ef_data frame))\<rparr>) p, sy, w)) })"

text \<open>\<open>stop\<close> clears \<open>running_\<close>, waits for the thread to leave its loop, and then cleans up.\<close>

definition publisher_stop_begin :: "UdpMpegTsPublisher \<Rightarrow> UdpMpegTsPublisher" where
  "publisher_stop_begin p = p\<lparr>uu_running := False\<rparr>"

definition publisher_stop_end ::
  "'w processes \<Rightarrow> UdpMpegTsPublisher \<Rightarrow> 'w \<Rightarrow> (UdpMpegTsPublisher \<times> 'w) option" where
  "publisher_stop_end ps p w =
     (if uu_thread p \<and> uu_loop p then None
      else case closeWritePipe ps (p\<lparr>uu_thread := False\<rparr>) w of (p, w) \<Rightarrow>
           case waitChildIfExited ps p w of (p, w) \<Rightarrow> Some (p\<lparr>uu_streamService := False\<rparr>, w))"

subsection \<open>What the child reads\<close>

text \<open>Turns of the thread with the stream as it stands at each, together with the frames taken from it: where the
  stream holds other frames after the turn than before, the frame that it hands out.\<close>

abbreviation stream_frames :: "'w system \<Rightarrow> EncodedFrame list" where
  "stream_frames sy \<equiv> ms_frames (rg_stream (sy_rig sy))"

definition turn_frames :: "bool \<Rightarrow> 'w system \<Rightarrow> 'w system \<Rightarrow> EncodedFrame list" where
  "turn_frames expired sy sy' =
     (if stream_frames sy' = stream_frames sy then []
      else case ssv_waitFrame 1000 expired sy of Some (Inr f, _) \<Rightarrow> [f] | _ \<Rightarrow> [])"

lemma waitFrame_takes:
  "ssv_waitFrame t expired sy = Some (Inr f, sy') \<Longrightarrow> stream_frames sy' \<noteq> stream_frames sy"
  "ssv_waitFrame t expired sy = Some (Inl e, sy') \<Longrightarrow> stream_frames sy' = stream_frames sy"
proof -
  assume "ssv_waitFrame t expired sy = Some (Inr f, sy')"
  then have "length (stream_frames sy') < length (stream_frames sy)"
    by (auto simp: ssv_waitFrame_def ms_waitFrame_def Let_def elim!: bind_SomeE
        split: if_splits option.split_asm)
  then show "stream_frames sy' \<noteq> stream_frames sy" by auto
next
  assume "ssv_waitFrame t expired sy = Some (Inl e, sy')"
  then show "stream_frames sy' = stream_frames sy"
    by (auto simp: ssv_waitFrame_def ms_waitFrame_def Let_def elim!: bind_SomeE
        split: if_splits option.split_asm)
qed

lemma turn_frames_same [simp]: "turn_frames expired sy sy = []"
  by (simp add: turn_frames_def)

lemma turn_frames_waited:
  assumes "ssv_waitFrame 1000 expired sy = Some (frame, sy')"
  shows "turn_frames expired sy sy' = (case frame of Inr f \<Rightarrow> [f] | Inl e \<Rightarrow> [])"
  using assms waitFrame_takes[of 1000 expired sy _ sy'] by (cases frame) (auto simp: turn_frames_def)

fun sender_run ::
  "'p processes \<Rightarrow> (bool \<times> 'w system) list \<Rightarrow> UdpMpegTsPublisher \<Rightarrow> 'p \<Rightarrow> (UdpMpegTsPublisher \<times> 'p \<times> EncodedFrame list) option" where
  "sender_run ps [] p w = Some (p, w, [])"
| "sender_run ps ((expired, sy) # env) p w =
     (if \<not> uu_loop p then Some (p, w, [])
      else do { (p', sy', w') \<leftarrow> sender_turn ps expired p sy w;
                (p'', w'', fs) \<leftarrow> sender_run ps env p' w';
                Some (p'', w'', turn_frames expired sy sy' @ fs) })"

definition pipe_law :: "'p processes \<Rightarrow> int \<Rightarrow> ('p \<Rightarrow> bytes) \<Rightarrow> bool" where
  "pipe_law ps fd wire \<longleftrightarrow>
     0 \<le> fd \<and> faithful_send (ps_write ps fd) wire \<and>
     (\<forall>pid w. wire (snd (ps_exited ps pid w)) = wire w) \<and> (\<forall>fd' w. wire (ps_close ps fd' w) = wire w)"

abbreviation frames_bytes :: "EncodedFrame list \<Rightarrow> bytes" where
  "frames_bytes fs \<equiv> concat (map ef_data fs)"

lemma waitChild_cases:
  assumes "waitChildIfExited ps p w = (p', w')"
  obtains "p' = p" "w' = w" "uu_childPid p < 0"
    | "p' = p" "w' = snd (ps_exited ps (uu_childPid p) w)" "0 \<le> uu_childPid p"
    | "p' = p\<lparr>uu_childPid := -1, uu_writeFd := -1\<rparr>"
      "w' = ps_close ps (uu_writeFd p) (snd (ps_exited ps (uu_childPid p) w))" "0 \<le> uu_writeFd p" "0 \<le> uu_childPid p"
    | "p' = p\<lparr>uu_childPid := -1\<rparr>" "w' = snd (ps_exited ps (uu_childPid p) w)" "uu_writeFd p < 0" "0 \<le> uu_childPid p"
  using assms
  by (auto simp: waitChildIfExited_def closeWritePipe_def split: if_splits prod.split_asm option.split_asm)

lemma sender_turn_effect:
  assumes law: "pipe_law ps fd wire" and fd: "uu_writeFd p = fd"
    and turn: "sender_turn ps expired p sy w = Some (p', sy', w')" and loop: "uu_loop p"
  defines "fs \<equiv> turn_frames expired sy sy'"
  shows "length fs \<le> 1 \<and>
    (if uu_loop p'
     then uu_writeFd p' = fd \<and> wire w' = wire w @ frames_bytes fs \<and>
       ut_bytesWritten (uu_stats p') = ut_bytesWritten (uu_stats p) + of_nat (length (frames_bytes fs)) \<and>
       ut_framesPulled (uu_stats p') = ut_framesPulled (uu_stats p) + of_nat (length fs)
     else (\<exists>sent rest. frames_bytes fs = sent @ rest \<and> wire w' = wire w @ sent) \<and>
       ut_bytesWritten (uu_stats p') = ut_bytesWritten (uu_stats p) \<and>
       ut_framesPulled (uu_stats p') = ut_framesPulled (uu_stats p) + of_nat (length fs))"
proof (cases "\<not> uu_running p \<or> \<not> uu_streamService p")
  case True
  with turn show ?thesis by (auto simp: sender_turn_def loop_end_def fs_def)
next
  case False
  obtain p1 w1 where wait: "waitChildIfExited ps p w = (p1, w1)" by fastforce
  from law have keep: "wire (snd (ps_exited ps pid w)) = wire w" "wire (ps_close ps fd' w) = wire w"
    and send: "faithful_send (ps_write ps fd) wire" and "0 \<le> fd" for pid fd' w by (auto simp: pipe_law_def)
  from wait have w1: "wire w1 = wire w" and same: "uu_stats p1 = uu_stats p" "uu_loop p1 = uu_loop p"
    and p1: "0 \<le> uu_childPid p1 \<Longrightarrow> p1 = p"
    by (cases rule: waitChild_cases; simp add: keep)+
  show ?thesis
  proof (cases "uu_childPid p1 < 0")
    case True
    with turn False wait w1 same show ?thesis
      by (auto simp: sender_turn_def loop_end_def count_error_def set_stats_def fs_def)
  next
    case alive: False
    with p1 have p1: "p1 = p" by simp
    from turn False wait alive p1 obtain frame sy1 where wf: "ssv_waitFrame 1000 expired sy = Some (frame, sy1)"
      by (auto simp: sender_turn_def elim!: bind_SomeE)
    note took = turn_frames_waited[OF wf]
    show ?thesis
    proof (cases frame)
      case (Inl e)
      with turn False wait alive p1 wf took w1 loop fd show ?thesis
        by (auto simp: sender_turn_def fs_def)
    next
      case (Inr f)
      show ?thesis
      proof (cases "ef_data f = []")
        case True
        with turn False wait alive p1 wf took w1 loop fd Inr show ?thesis
          by (auto simp: sender_turn_def fs_def set_stats_def Let_def)
      next
        case data: False
        obtain ok w2 where wr: "send_loop (ps_write ps fd) (ef_data f) w1 = (ok, w2)" by fastforce
        from send_loop_wire[OF send wr] obtain sent rest
          where "ef_data f = sent @ rest" "wire w2 = wire w1 @ sent" "ok \<longrightarrow> rest = []" by auto
        with turn False wait alive p1 wf took w1 loop fd Inr data wr \<open>0 \<le> fd\<close> show ?thesis
          by (cases ok) (auto simp: sender_turn_def writeFrameToFfmpeg_def fs_def set_stats_def
              loop_end_def count_error_def Let_def)
      qed
    qed
  qed
qed

text \<open>
  Claim C20. The encoder process reads the frames taken from the stream whole and in order: after any turns of the
  sender thread every frame that the stream handed out has been written to the pipe but possibly the last, of which the pipe
  may have received a part only when the thread has given up; the counters say how many frames were taken
  and how many bytes of whole frames were written.
\<close>

theorem child_reads_frames:
  assumes "pipe_law ps fd wire" "uu_writeFd p = fd" "uu_loop p"
    and "sender_run ps env p w = Some (p', w', fs)"
  shows "\<exists>whole cut sent rest. fs = whole @ cut \<and> length cut \<le> 1 \<and> (uu_loop p' \<longrightarrow> cut = []) \<and>
    frames_bytes cut = sent @ rest \<and> wire w' = wire w @ frames_bytes whole @ sent \<and>
    ut_bytesWritten (uu_stats p') = ut_bytesWritten (uu_stats p) + of_nat (length (frames_bytes whole)) \<and>
    ut_framesPulled (uu_stats p') = ut_framesPulled (uu_stats p) + of_nat (length fs)"
  using assms(2-)
proof (induction env arbitrary: p w fs)
  case (Cons e env)
  obtain expired sy where [simp]: "e = (expired, sy)" by (cases e)
  from Cons.prems(2,3) obtain p1 sy1 w1 gs where turn: "sender_turn ps expired p sy w = Some (p1, sy1, w1)"
    and run: "sender_run ps env p1 w1 = Some (p', w', gs)" and fs: "fs = turn_frames expired sy sy1 @ gs"
    by (auto elim!: bind_SomeE)
  note eff = sender_turn_effect[OF assms(1) Cons.prems(1) turn Cons.prems(2)]
  show ?case
  proof (cases "uu_loop p1")
    case True
    with eff have "uu_writeFd p1 = fd" by simp
    from Cons.IH[OF this True run] obtain whole cut sent rest where ih: "gs = whole @ cut" "length cut \<le> 1"
      "uu_loop p' \<longrightarrow> cut = []" "frames_bytes cut = sent @ rest" "wire w' = wire w1 @ frames_bytes whole @ sent"
      "ut_bytesWritten (uu_stats p') = ut_bytesWritten (uu_stats p1) + of_nat (length (frames_bytes whole))"
      "ut_framesPulled (uu_stats p') = ut_framesPulled (uu_stats p1) + of_nat (length gs)" by blast
    show ?thesis
      by (rule exI[of _ "turn_frames expired sy sy1 @ whole"], rule exI[of _ cut], rule exI[of _ sent], rule exI[of _ rest])
        (use ih eff True fs in simp)
  next
    case False
    with run have over: "p' = p1" "w' = w1" "gs = []" by (cases env; auto)+
    from eff False obtain sent rest where "frames_bytes (turn_frames expired sy sy1) = sent @ rest" "wire w1 = wire w @ sent"
      by auto
    with eff False fs over show ?thesis
      by (intro exI[of _ "[]"] exI[of _ "turn_frames expired sy sy1"] exI[of _ sent] exI[of _ rest]) simp
  qed
qed simp

subsection \<open>Descriptors\<close>

text \<open>The system keeps the set of open descriptors: a pipe opens two new ones, a close closes one, and
  nothing else changes the set.\<close>

definition fd_law :: "'p processes \<Rightarrow> ('p \<Rightarrow> int set) \<Rightarrow> bool" where
  "fd_law ps opn \<longleftrightarrow>
     (\<forall>w rd wr w'. ps_pipe ps w = (Inr (rd, wr), w') \<longrightarrow>
        0 \<le> rd \<and> 0 \<le> wr \<and> rd \<noteq> wr \<and> rd \<notin> opn w \<and> wr \<notin> opn w \<and> opn w' = {rd, wr} \<union> opn w) \<and>
     (\<forall>w e w'. ps_pipe ps w = (Inl e, w') \<longrightarrow> opn w' = opn w) \<and>
     (\<forall>args fd w. opn (snd (ps_fork ps args fd w)) = opn w) \<and> (\<forall>fd w. opn (ps_close ps fd w) = opn w - {fd}) \<and>
     (\<forall>pid w. opn (snd (ps_exited ps pid w)) = opn w) \<and> (\<forall>fd data w. opn (snd (ps_write ps fd data w)) = opn w)"

definition owns :: "('p \<Rightarrow> int set) \<Rightarrow> int set \<Rightarrow> UdpMpegTsPublisher \<Rightarrow> 'p \<Rightarrow> bool" where
  "owns opn others p w \<longleftrightarrow>
     (0 \<le> uu_writeFd p \<longrightarrow> uu_writeFd p \<notin> others) \<and>
     opn w = others \<union> (if 0 \<le> uu_writeFd p then {uu_writeFd p} else {})"

definition holds_one :: "('p \<Rightarrow> int set) \<Rightarrow> int set \<Rightarrow> UdpMpegTsPublisher \<Rightarrow> 'p \<Rightarrow> bool" where
  "holds_one opn others p w \<longleftrightarrow>
     owns opn others p w \<and> (\<not> uu_thread p \<longrightarrow> uu_writeFd p < 0) \<and> (uu_running p \<longrightarrow> uu_thread p)"

lemma fd_lawD:
  assumes "fd_law ps opn"
  shows "ps_pipe ps w = (Inr (rd, wr), w') \<Longrightarrow>
      0 \<le> rd \<and> 0 \<le> wr \<and> rd \<noteq> wr \<and> rd \<notin> opn w \<and> wr \<notin> opn w \<and> opn w' = {rd, wr} \<union> opn w"
    and "ps_pipe ps w = (Inl e, w') \<Longrightarrow> opn w' = opn w"
    and "ps_fork ps args fd w = (r, w') \<Longrightarrow> opn w' = opn w"
    and "opn (ps_close ps fd w) = opn w - {fd}"
    and "ps_exited ps pid w = (st, w') \<Longrightarrow> opn w' = opn w"
    and "ps_write ps fd data w = (n, w') \<Longrightarrow> opn w' = opn w"
  using assms by (auto simp: fd_law_def) (metis snd_conv)+

lemma send_loop_fds:
  assumes "fd_law ps opn" "send_loop (ps_write ps fd) data w = (ok, w')"
  shows "opn w' = opn w"
  using assms(2)
proof (induction "ps_write ps fd" data w rule: send_loop.induct)
  case (1 data w)
  obtain n w1 where wr: "ps_write ps fd data w = (n, w1)" by fastforce
  from fd_lawD(6)[OF assms(1) wr] have w1: "opn w1 = opn w" .
  show ?case
  proof (cases "data = [] \<or> n = 0")
    case True
    with 1(2) wr w1 show ?thesis by (auto simp: send_loop.simps[of _ data] split: if_splits)
  next
    case False
    with 1(2) wr have "send_loop (ps_write ps fd) (drop n data) w1 = (ok, w')" by (simp add: send_loop.simps[of _ data])
    from 1(1)[OF _ wr[symmetric] _ this] False w1 show ?thesis by simp
  qed
qed

lemma closeWritePipe_fds:
  assumes "fd_law ps opn" "closeWritePipe ps p w = (p', w')" "owns opn others p w"
  shows "uu_writeFd p' < 0 \<and> opn w' = others \<and> uu_thread p' = uu_thread p \<and> uu_running p' = uu_running p"
  using assms(2-) fd_lawD(4)[OF assms(1)] by (auto simp: closeWritePipe_def owns_def split: if_splits)

lemma startFfmpeg_fds:
  assumes law: "fd_law ps opn" and start: "startFfmpeg ps p w = (r, p', w')" and "uu_writeFd p < 0"
  shows "uu_thread p' = uu_thread p \<and> uu_running p' = uu_running p \<and>
    (if r = Success then 0 \<le> uu_writeFd p' \<and> uu_writeFd p' \<notin> opn w \<and> opn w' = {uu_writeFd p'} \<union> opn w
     else uu_writeFd p' < 0 \<and> opn w' = opn w)"
proof (cases "ps_pipe ps w")
  case (Pair a w1)
  show ?thesis
  proof (cases a)
    case (Inl e)
    with Pair start assms(3) fd_lawD(2)[OF law] show ?thesis by (auto simp: startFfmpeg_def)
  next
    case (Inr ends)
    obtain rd wr where ends: "ends = (rd, wr)" by (cases ends)
    with Pair Inr have pipe: "ps_pipe ps w = (Inr (rd, wr), w1)" by simp
    note fds = fd_lawD(1)[OF law pipe]
    obtain f w2 where fork: "ps_fork ps (buildFfmpegArgs (uu_config p)) rd w1 = (f, w2)" by fastforce
    note w2 = fd_lawD(3)[OF law fork]
    show ?thesis
    proof (cases f)
      case (Inl e)
      with start pipe fork fds w2 assms(3) show ?thesis
        by (auto simp: startFfmpeg_def fd_lawD(4)[OF law])
    next
      case (Inr pid)
      obtain st w3 where ex: "ps_exited ps pid (ps_close ps rd w2) = (st, w3)" by fastforce
      from fd_lawD(5)[OF law ex] fds w2 have w3: "opn w3 = {wr} \<union> opn w" by (auto simp: fd_lawD(4)[OF law])
      from start pipe fork Inr ex fds w3 show ?thesis
        by (cases st) (auto simp: startFfmpeg_def closeWritePipe_def fd_lawD(4)[OF law] Let_def)
    qed
  qed
qed

lemma start_fds:
  assumes law: "fd_law ps opn" and one: "holds_one opn others p w" and "uu_running p \<or> \<not> uu_thread p"
    and start: "publisher_start ps config service p w = Some (r, p', w')"
  shows "holds_one opn others p' w'"
proof (cases "uu_running p \<or> \<not> service \<or> uc_udpUrl config = []")
  case True
  with start one show ?thesis by (auto simp: publisher_start_def split: if_splits)
next
  case False
  let ?p = "p\<lparr>uu_config := config, uu_streamService := True, uu_stats := default_publisher_stats\<rparr>"
  obtain r1 p1 w1 where run: "startFfmpeg ps ?p w = (r1, p1, w1)" by (cases "startFfmpeg ps ?p w") auto
  from False one assms(3) have fd: "uu_writeFd ?p < 0" "\<not> uu_thread p" by (auto simp: holds_one_def)
  note eff = startFfmpeg_fds[OF law run fd(1)]
  from one fd have others: "opn w = others" by (simp add: holds_one_def owns_def)
  show ?thesis
  proof (cases r1)
    case (Inl e)
    with start run False have "p' = p1" "w' = w1" by (simp_all add: publisher_start_def)
    with eff Inl others False fd show ?thesis by (simp add: holds_one_def owns_def)
  next
    case (Inr u)
    with start run False fd eff
    have p': "p' = p1\<lparr>uu_running := True, uu_thread := True, uu_loop := True\<rparr>" and w': "w' = w1"
      by (auto simp: publisher_start_def split: if_splits)
    from eff Inr others show ?thesis unfolding p' w' by (simp add: holds_one_def owns_def)
  qed
qed

lemma waitChild_fds:
  assumes law: "fd_law ps opn" and wait: "waitChildIfExited ps p w = (p', w')" and own: "owns opn others p w"
  shows "owns opn others p' w' \<and> uu_thread p' = uu_thread p \<and> uu_running p' = uu_running p \<and>
    uu_streamService p' = uu_streamService p \<and> (uu_writeFd p < 0 \<longrightarrow> uu_writeFd p' < 0)"
proof (cases "uu_childPid p < 0")
  case True
  with wait own show ?thesis by (simp add: waitChildIfExited_def)
next
  case False
  obtain st w1 where ex: "ps_exited ps (uu_childPid p) w = (st, w1)" by fastforce
  from fd_lawD(5)[OF law ex] own have own1: "owns opn others (p\<lparr>uu_childPid := -1\<rparr>) w1" "owns opn others p w1"
    by (simp_all add: owns_def)
  obtain p2 w2 where cl: "closeWritePipe ps (p\<lparr>uu_childPid := -1\<rparr>) w1 = (p2, w2)" by fastforce
  then have "uu_streamService p2 = uu_streamService p" by (auto simp: closeWritePipe_def split: if_splits)
  with closeWritePipe_fds[OF law cl own1(1)] own1 wait False ex cl show ?thesis
    by (cases st) (auto simp: waitChildIfExited_def owns_def)
qed

lemma turn_fds:
  assumes law: "fd_law ps opn" and own: "owns opn others p w"
    and turn: "sender_turn ps expired p sy w = Some (p', sy', w')"
  shows "owns opn others p' w' \<and> uu_thread p' = uu_thread p \<and> (uu_running p' \<longrightarrow> uu_running p) \<and>
    (uu_writeFd p < 0 \<longrightarrow> uu_writeFd p' < 0)"
proof (cases "\<not> uu_running p \<or> \<not> uu_streamService p")
  case True
  with turn own show ?thesis by (auto simp: sender_turn_def loop_end_def owns_def)
next
  case False
  obtain p1 w1 where wait: "waitChildIfExited ps p w = (p1, w1)" by fastforce
  note one = waitChild_fds[OF law wait own]
  show ?thesis
  proof (cases "uu_childPid p1 < 0")
    case True
    with turn False wait one show ?thesis
      by (auto simp: sender_turn_def loop_end_def count_error_def set_stats_def owns_def)
  next
    case alive: False
    from turn False wait alive obtain frame sy1 where wf: "ssv_waitFrame 1000 expired sy = Some (frame, sy1)"
      by (auto simp: sender_turn_def elim!: bind_SomeE)
    show ?thesis
    proof (cases "\<exists>f. frame = Inr f \<and> ef_data f \<noteq> []")
      case False
      with turn \<open>\<not> (\<not> uu_running p \<or> \<not> uu_streamService p)\<close> wait alive wf
      have "w' = w1 \<and> (\<exists>f. p' = set_stats f p1)"
        by (cases frame) (auto simp: sender_turn_def Let_def set_stats_def intro: exI[of _ id])
      with one show ?thesis by (auto simp: set_stats_def owns_def)
    next
      case True
      then obtain f where f: "frame = Inr f" "ef_data f \<noteq> []" by blast
      obtain ok w2 where wr: "writeFrameToFfmpeg ps (ef_data f) p1 w1 = (ok, w2)" by fastforce
      then have w2: "opn w2 = opn w1"
        by (auto simp: writeFrameToFfmpeg_def dest: send_loop_fds[OF law] split: if_splits)
      from turn \<open>\<not> (\<not> uu_running p \<or> \<not> uu_streamService p)\<close> wait alive wf f wr
      have "w' = w2 \<and> uu_writeFd p' = uu_writeFd p1 \<and> uu_thread p' = uu_thread p1 \<and> (uu_running p' \<longrightarrow> uu_running p1)"
        by (cases ok) (auto simp: sender_turn_def Let_def set_stats_def count_error_def loop_end_def)
      with one w2 show ?thesis by (auto simp: owns_def)
    qed
  qed
qed

lemma stop_end_fds:
  assumes law: "fd_law ps opn" and own: "owns opn others p w" and stop: "publisher_stop_end ps p w = Some (p', w')"
  shows "owns opn others p' w' \<and> uu_writeFd p' < 0 \<and> \<not> uu_thread p' \<and> uu_running p' = uu_running p"
proof -
  obtain p1 w1 where cl: "closeWritePipe ps (p\<lparr>uu_thread := False\<rparr>) w = (p1, w1)" by fastforce
  obtain p2 w2 where wait: "waitChildIfExited ps p1 w1 = (p2, w2)" by fastforce
  from own have "owns opn others (p\<lparr>uu_thread := False\<rparr>) w" by (simp add: owns_def)
  from closeWritePipe_fds[OF law cl this] have one: "uu_writeFd p1 < 0" "opn w1 = others" "\<not> uu_thread p1"
    "uu_running p1 = uu_running p" by simp_all
  then have "owns opn others p1 w1" by (simp add: owns_def)
  from waitChild_fds[OF law wait this] one stop cl wait show ?thesis
    by (auto simp: publisher_stop_end_def owns_def split: if_splits)
qed

text \<open>The descriptor a start loses: that of a publisher whose thread has ended, or is ending, without a stop, when
  \<open>startFfmpeg\<close> writes another number over it.\<close>

definition forgotten :: "UdpMpegTsPublisher \<Rightarrow> UdpMpegTsPublisher \<Rightarrow> int set" where
  "forgotten p p' =
     (if uu_thread p \<and> \<not> uu_running p \<and> 0 \<le> uu_writeFd p \<and> uu_writeFd p' \<noteq> uu_writeFd p
      then {uu_writeFd p} else {})"

lemma failed_startFfmpeg_fds:
  assumes law: "fd_law ps opn" and start: "startFfmpeg ps p w = (Inl e, p', w')"
  shows "uu_thread p' = uu_thread p \<and> uu_running p' = uu_running p \<and> opn w' = opn w \<and>
    (uu_writeFd p' = uu_writeFd p \<or> uu_writeFd p' = -1)"
proof (cases "ps_pipe ps w")
  case (Pair a w1)
  show ?thesis
  proof (cases a)
    case (Inl e)
    with Pair start fd_lawD(2)[OF law] show ?thesis by (auto simp: startFfmpeg_def)
  next
    case (Inr ends)
    obtain rd wr where ends: "ends = (rd, wr)" by (cases ends)
    with Pair Inr have pipe: "ps_pipe ps w = (Inr (rd, wr), w1)" by simp
    note fds = fd_lawD(1)[OF law pipe]
    obtain f w2 where fork: "ps_fork ps (buildFfmpegArgs (uu_config p)) rd w1 = (f, w2)" by fastforce
    note w2 = fd_lawD(3)[OF law fork]
    show ?thesis
    proof (cases f)
      case (Inl e)
      with start pipe fork fds w2 show ?thesis by (auto simp: startFfmpeg_def fd_lawD(4)[OF law])
    next
      case (Inr pid)
      obtain st w3 where ex: "ps_exited ps pid (ps_close ps rd w2) = (st, w3)" by fastforce
      from fd_lawD(5)[OF law ex] fds w2 have "opn w3 = {wr} \<union> opn w" by (auto simp: fd_lawD(4)[OF law])
      with start pipe fork Inr ex fds show ?thesis
        by (cases st) (auto simp: startFfmpeg_def closeWritePipe_def fd_lawD(4)[OF law] Let_def)
    qed
  qed
qed

lemma restart_fds:
  assumes law: "fd_law ps opn" and one: "holds_one opn others p w" and old: "uu_thread p" "\<not> uu_running p"
    and start: "publisher_start ps config service p w = Some (r, p', w')"
  shows "holds_one opn (others \<union> forgotten p p') p' w'"
proof (cases "\<not> service \<or> uc_udpUrl config = []")
  case True
  with start old one show ?thesis by (auto simp: publisher_start_def forgotten_def split: if_splits)
next
  case False
  let ?p = "p\<lparr>uu_config := config, uu_streamService := True, uu_stats := default_publisher_stats\<rparr>"
  obtain r1 p1 w1 where run: "startFfmpeg ps ?p w = (r1, p1, w1)" by (cases "startFfmpeg ps ?p w") auto
  show ?thesis
  proof (cases r1)
    case (Inl e)
    with run have "startFfmpeg ps ?p w = (Inl e, p1, w1)" by simp
    from failed_startFfmpeg_fds[OF law this]
    have eff: "uu_thread p1 = uu_thread p" "uu_running p1 = uu_running p" "opn w1 = opn w"
      "uu_writeFd p1 = uu_writeFd p \<or> uu_writeFd p1 = -1" by simp_all
    from start run False old Inl have same: "p' = p1" "w' = w1" by (simp_all add: publisher_start_def)
    from one have fresh: "0 \<le> uu_writeFd p \<Longrightarrow> uu_writeFd p \<notin> others"
      and open_w: "opn w = others \<union> (if 0 \<le> uu_writeFd p then {uu_writeFd p} else {})" by (simp_all add: holds_one_def owns_def)
    from eff(4) show ?thesis
    proof
      assume fd: "uu_writeFd p1 = uu_writeFd p"
      then have "forgotten p p1 = {}" by (simp add: forgotten_def)
      then show ?thesis unfolding same holds_one_def owns_def eff(1-3) fd using old fresh open_w by simp
    next
      assume fd: "uu_writeFd p1 = -1"
      then have "forgotten p p1 = (if 0 \<le> uu_writeFd p then {uu_writeFd p} else {})" using old by (auto simp: forgotten_def)
      then show ?thesis unfolding same holds_one_def owns_def eff(1-3) fd using old open_w by simp
    qed
  next
    case (Inr u)
    from run Inr have "uu_thread p1 = uu_thread p"
      by (auto simp: startFfmpeg_def closeWritePipe_def Let_def split: sum.split_asm prod.split_asm option.split_asm if_splits)
    with start run False old Inr show ?thesis by (simp add: publisher_start_def)
  qed
qed

text \<open>A publisher that is started, turned and stopped in any order, with the descriptors its starts lose, while the rest
  of the system does anything. Without a successful start no thread is made; one that would replace a joinable thread
  ends the program and is no step.\<close>

inductive pub_run ::
  "'p processes \<Rightarrow> UdpMpegTsPublisher \<times> 'w system \<times> 'p \<Rightarrow> int set \<Rightarrow> UdpMpegTsPublisher \<times> 'w system \<times> 'p \<Rightarrow> bool"
  for ps a where
  pub_begin: "pub_run ps a {} a"
| pub_start: "pub_run ps a lost (p, sy, w) \<Longrightarrow> publisher_start ps config service p w = Some (r, p', w') \<Longrightarrow>
    pub_run ps a (lost \<union> forgotten p p') (p', sy, w')"
| pub_turn: "pub_run ps a lost (p, sy, w) \<Longrightarrow> uu_loop p \<Longrightarrow> sender_turn ps expired p sy w = Some (p', sy', w') \<Longrightarrow>
    pub_run ps a lost (p', sy', w')"
| pub_stop_begin: "pub_run ps a lost (p, sy, w) \<Longrightarrow> pub_run ps a lost (publisher_stop_begin p, sy, w)"
| pub_stop_end: "pub_run ps a lost (p, sy, w) \<Longrightarrow> \<not> uu_running p \<Longrightarrow> publisher_stop_end ps p w = Some (p', w') \<Longrightarrow>
    pub_run ps a lost (p', sy, w')"
| pub_others: "pub_run ps a lost (p, sy, w) \<Longrightarrow> pub_run ps a lost (p, sy', w)"

lemma pub_run_holds:
  assumes law: "fd_law ps opn" and run: "pub_run ps (new_publisher, sy, w) lost b"
  shows "holds_one opn (opn w \<union> lost) (fst b) (snd (snd b)) \<and> lost \<inter> opn w = {}"
  using run
proof induction
  case pub_begin
  then show ?case by (simp add: holds_one_def owns_def new_publisher_def)
next
  case (pub_start lost p sy w1 config service r p' w')
  then have one: "holds_one opn (opn w \<union> lost) p w1" "lost \<inter> opn w = {}" by simp_all
  then have "forgotten p p' \<inter> opn w = {}" by (auto simp: forgotten_def holds_one_def owns_def split: if_splits)
  moreover have "holds_one opn (opn w \<union> lost \<union> forgotten p p') p' w'"
  proof (cases "uu_running p \<or> \<not> uu_thread p")
    case True
    then have "forgotten p p' = {}" by (auto simp: forgotten_def)
    with start_fds[OF law one(1) True pub_start(2)] show ?thesis by simp
  next
    case False
    with restart_fds[OF law one(1) _ _ pub_start(2)] show ?thesis by simp
  qed
  ultimately show ?case using one(2) by (auto simp: Un_assoc)
next
  case (pub_turn lost p sy w1 expired p' sy' w')
  with turn_fds[OF law _ pub_turn(3), of "opn w \<union> lost"] show ?case by (auto simp: holds_one_def)
next
  case (pub_stop_begin lost p sy w1)
  then show ?case by (simp add: holds_one_def owns_def publisher_stop_begin_def)
next
  case (pub_stop_end lost p sy w1 p' w')
  with stop_end_fds[OF law _ pub_stop_end(3), of "opn w \<union> lost"] show ?case by (auto simp: holds_one_def)
qed simp

text \<open>
  Claim C21. In whatever order a publisher is started, turns and is stopped, the open descriptors are those of the rest of
  the program, the one the publisher writes to, and the ones its starts have lost: a start loses the descriptor of a
  sender thread that ended without being stopped, when the new process ends at once. A publisher whose thread was
  joined, or that never had one, holds none.
\<close>

theorem descriptors_balanced:
  assumes law: "fd_law ps opn" and run: "pub_run ps (new_publisher, sy, w) lost (p, sy', w')"
  shows "opn w' = opn w \<union> lost \<union> (if 0 \<le> uu_writeFd p then {uu_writeFd p} else {}) \<and> lost \<inter> opn w = {} \<and>
    (0 \<le> uu_writeFd p \<longrightarrow> uu_writeFd p \<notin> opn w \<union> lost) \<and> (\<not> uu_thread p \<longrightarrow> opn w' = opn w \<union> lost)"
  using pub_run_holds[OF law run] by (auto simp: holds_one_def owns_def)

text \<open>
  A sender thread that has ended by itself stays joinable, so that starting the publisher again, when
  the new process comes up, ends the program.
\<close>

lemma restart_ends_program:
  assumes "sender_turn ps expired p sy w = Some (p1, sy1, w1)" "uu_thread p" "\<not> uu_loop p1" "\<not> uu_running p1"
    and "startFfmpeg ps (p1\<lparr>uu_config := config, uu_streamService := True, uu_stats := default_publisher_stats\<rparr>) w1
      = (Success, p2, w2)" and "uc_udpUrl config \<noteq> []"
    and "fd_law ps opn" "owns opn others p w"
  shows "publisher_start ps config True p1 w1 = None"
proof -
  have "uu_thread p2"
    using assms(2,5) turn_fds[OF assms(7,8,1)]
    by (auto simp: startFfmpeg_def closeWritePipe_def Let_def split: sum.split_asm prod.split_asm option.split_asm if_splits)
  with assms show ?thesis by (simp add: publisher_start_def)
qed

text \<open>Stopping closes the pipe but neither signals the process nor waits for it: one that has not ended at
  that moment is left behind, with its number still in the publisher.\<close>

lemma stop_leaves_child:
  assumes "0 \<le> uu_childPid p" "\<And>v. fst (ps_exited ps (uu_childPid p) v) = None"
    and "publisher_stop_end ps p w = Some (p', w')"
  shows "uu_childPid p' = uu_childPid p"
  using assms
  by (auto simp: publisher_stop_end_def closeWritePipe_def waitChildIfExited_def
      split: if_splits prod.split_asm option.split_asm) (metis fst_conv option.distinct(1))+

subsection \<open>A small system, for the witnesses\<close>

definition tiny_processes :: "(bytes \<times> int set) processes" where
  "tiny_processes =
     \<lparr>ps_pipe = (\<lambda>(d, fds). if 3 \<notin> fds \<and> 4 \<notin> fds then (Inr (3, 4), (d, {3, 4} \<union> fds)) else (Inl ''full'', (d, fds))),
      ps_fork = (\<lambda>args fd w. (Inr 100, w)), ps_close = (\<lambda>fd (d, fds). (d, fds - {fd})),
      ps_exited = (\<lambda>pid w. (None, w)),
      ps_write = (\<lambda>fd data (d, fds). (min 5 (length data), (d @ take 5 data, fds)))\<rparr>"

lemma tiny_pipe_law: "pipe_law tiny_processes 4 fst"
  by (auto simp: pipe_law_def faithful_send_def tiny_processes_def min_def)

lemma tiny_fd_law: "fd_law tiny_processes snd"
  by (auto simp: fd_law_def tiny_processes_def split: if_splits)

definition tiny_publisher :: UdpMpegTsPublisher where
  "tiny_publisher = new_publisher\<lparr>uu_streamService := True, uu_childPid := 100, uu_writeFd := 4, uu_running := True,
     uu_thread := True, uu_loop := True\<rparr>"

lemma tiny_start:
  "publisher_start tiny_processes default_publisher_config True new_publisher ([], {}) =
     Some (Success, tiny_publisher, ([], {4}))"
  by (simp add: publisher_start_def startFfmpeg_def tiny_processes_def new_publisher_def default_publisher_config_def
      tiny_publisher_def)

definition tiny_stream :: "nat system" where
  "tiny_stream = set_rig (\<lambda>r. r\<lparr>rg_stream := (rg_stream r)\<lparr>ms_state := StreamRunning,
     ms_frames := [default_encoded_frame\<lparr>ef_data := [1, 2, 3, 4, 5, 6, 7]\<rparr>]\<rparr>\<rparr>) sim_system"

lemma tiny_wait:
  "\<exists>sy. ssv_waitFrame 1000 False tiny_stream = Some (Inr (default_encoded_frame\<lparr>ef_data := [1, 2, 3, 4, 5, 6, 7]\<rparr>), sy)"
  by (simp add: ssv_waitFrame_def tiny_stream_def sim_system_def ms_waitFrame_def Let_def)

lemma tiny_sends: "send_loop (ps_write tiny_processes fd) [1, 2, 3, 4, 5, 6, 7] ([], fds) = (True, ([1, 2, 3, 4, 5, 6, 7], fds))"
  by (simp add: send_loop.simps tiny_processes_def)

theorem child_reads_frames_witness:
  "\<exists>p' w' fs. sender_run tiny_processes [(False, tiny_stream)] tiny_publisher ([], {4}) = Some (p', w', fs) \<and>
     fst w' = [1, 2, 3, 4, 5, 6, 7] \<and> length fs = 1"
proof -
  let ?f = "default_encoded_frame\<lparr>ef_data := [1, 2, 3, 4, 5, 6, 7]\<rparr>"
  obtain sy where wait: "ssv_waitFrame 1000 False tiny_stream = Some (Inr ?f, sy)" using tiny_wait by blast
  have child: "waitChildIfExited tiny_processes tiny_publisher w = (tiny_publisher, w)" for w
    by (simp add: waitChildIfExited_def tiny_publisher_def new_publisher_def tiny_processes_def)
  have "sender_turn tiny_processes False tiny_publisher tiny_stream ([], {4}) =
      Some (set_stats (\<lambda>s. \<lparr>ut_framesPulled = 1, ut_framesWritten = 1, ut_bytesWritten = 7, ut_writeErrors = 0\<rparr>) tiny_publisher,
        sy, ([1, 2, 3, 4, 5, 6, 7], {4}))"
    unfolding sender_turn_def child
    by (simp add: wait tiny_sends tiny_publisher_def new_publisher_def writeFrameToFfmpeg_def set_stats_def Let_def
        default_publisher_stats_def)
  then have run: "sender_run tiny_processes [(False, tiny_stream)] tiny_publisher ([], {4}) =
      Some (set_stats (\<lambda>s. \<lparr>ut_framesPulled = 1, ut_framesWritten = 1, ut_bytesWritten = 7, ut_writeErrors = 0\<rparr>) tiny_publisher,
        ([1, 2, 3, 4, 5, 6, 7], {4}), [?f])"
    using turn_frames_waited[OF wait] by (simp add: set_stats_def tiny_publisher_def new_publisher_def default_publisher_stats_def)
  have "uu_writeFd tiny_publisher = 4" "uu_loop tiny_publisher"
    by (simp_all add: tiny_publisher_def new_publisher_def)
  from child_reads_frames[OF tiny_pipe_law this run] run show ?thesis
    by (auto simp: set_stats_def tiny_publisher_def)
qed

text \<open>A process that ends at once, for a publisher whose sender thread has ended after a write error: its descriptor 6 is
  lost.\<close>

definition dying_processes :: "(bytes \<times> int set) processes" where
  "dying_processes =
     \<lparr>ps_pipe = (\<lambda>(d, fds).
        let ends = (if d = [] then (5, 6) else (7, 8)) in
        if fst ends \<notin> fds \<and> snd ends \<notin> fds then (Inr ends, (d, {fst ends, snd ends} \<union> fds)) else (Inl ''full'', (d, fds))),
      ps_fork = (\<lambda>args fd w. (Inr 101, w)), ps_close = (\<lambda>fd (d, fds). (d, fds - {fd})),
      ps_exited = (\<lambda>pid w. (if pid = 101 \<and> fst w = [1] then Some 1 else None, w)),
      ps_write = (\<lambda>fd data (d, fds). (0, ([1], fds)))\<rparr>"

lemma dying_fd_law: "fd_law dying_processes snd"
  by (auto simp: fd_law_def dying_processes_def Let_def split: if_splits)

theorem descriptors_balanced_witness:
  "\<exists>p sy' w p' w'. pub_run dying_processes (new_publisher, tiny_stream, ([], {})) {} (p, sy', w) \<and> \<not> uu_running p \<and>
     snd w = {6} \<and>
     pub_run dying_processes (new_publisher, tiny_stream, ([], {})) {6} (p', sy', w') \<and> uu_writeFd p' < 0 \<and> snd w' = {6}"
proof -
  let ?ps = dying_processes and ?f = "default_encoded_frame\<lparr>ef_data := [1, 2, 3, 4, 5, 6, 7]\<rparr>"
  let ?p = "new_publisher\<lparr>uu_streamService := True, uu_childPid := 101, uu_writeFd := 6, uu_running := True,
     uu_thread := True, uu_loop := True\<rparr>"
  have "publisher_start ?ps default_publisher_config True new_publisher ([], {}) = Some (Success, ?p, ([], {6}))"
    by (simp add: publisher_start_def startFfmpeg_def dying_processes_def new_publisher_def default_publisher_config_def)
  from pub_start[OF pub_begin this, of tiny_stream]
  have 1: "pub_run ?ps (new_publisher, tiny_stream, ([], {})) {} (?p, tiny_stream, ([], {6}))"
    by (simp add: forgotten_def new_publisher_def)
  obtain sy where wait: "ssv_waitFrame 1000 False tiny_stream = Some (Inr ?f, sy)" using tiny_wait by blast
  let ?q = "loop_end (count_error (set_stats (\<lambda>s. s\<lparr>ut_framesPulled := ut_framesPulled s + 1\<rparr>) ?p))"
  have "sender_turn ?ps False ?p tiny_stream ([], {6}) = Some (?q, sy, ([1], {6}))"
    by (simp add: sender_turn_def waitChildIfExited_def wait writeFrameToFfmpeg_def send_loop.simps dying_processes_def
        new_publisher_def Let_def set_stats_def)
  from pub_turn[OF 1 _ this] have 2: "pub_run ?ps (new_publisher, tiny_stream, ([], {})) {} (?q, sy, ([1], {6}))"
    by simp
  have q: "uu_thread ?q" "\<not> uu_running ?q" "uu_writeFd ?q = 6"
    by (simp_all add: loop_end_def count_error_def set_stats_def)
  have "\<exists>e p'. publisher_start ?ps default_publisher_config True ?q ([1], {6}) = Some (Inl e, p', ([1], {6})) \<and>
      uu_writeFd p' = -1"
    by (simp add: publisher_start_def startFfmpeg_def closeWritePipe_def dying_processes_def loop_end_def count_error_def
        set_stats_def default_publisher_config_def Let_def insert_Diff_if)
  then obtain e p' where st: "publisher_start ?ps default_publisher_config True ?q ([1], {6}) = Some (Inl e, p', ([1], {6}))"
    and p': "uu_writeFd p' = -1" by blast
  from pub_start[OF 2 st] p' q have 3: "pub_run ?ps (new_publisher, tiny_stream, ([], {})) {6} (p', sy, ([1], {6}))"
    by (simp add: forgotten_def)
  from descriptors_balanced[OF dying_fd_law 3] p' 2 3 q(2)
  show ?thesis by (intro exI conjI) (assumption | simp)+
qed

end
