(* ===== verification/Tri_GStreamer.thy ===== *)
theory Tri_GStreamer
  imports Tri_ConfigFile Tri_WorkMode
begin

text \<open>
  Pipelines run by gst-launch (media/gstreamer/): the configuration of a pipeline, the arguments and
  the shell command made of it, the process that runs it, and the choice of the configuration for a
  mode command. The system calls are a parameter record.
\<close>

subsection \<open>GStreamerPipelineConfig.h\<close>

record GStreamerPipelineConfig =
  gx_gstLaunchPath :: string
  gx_eosOnStop :: bool
  gx_verbose :: bool
  gx_stopTimeoutMs :: int
  gx_sourceName :: string
  gx_device :: string
  gx_ioMode :: string
  gx_inputCodec :: string
  gx_rawFormat :: string
  gx_width :: int
  gx_height :: int
  gx_fps :: int
  gx_encoder :: string
  gx_h264ConfigInterval :: int
  gx_muxer :: string
  gx_udpHost :: string
  gx_udpPort :: int
  gx_udpSync :: bool
  gx_udpAsync :: bool

definition default_gst_config :: GStreamerPipelineConfig where
  "default_gst_config =
     \<lparr>gx_gstLaunchPath = ''gst-launch-1.0'', gx_eosOnStop = True, gx_verbose = True, gx_stopTimeoutMs = 2000,
      gx_sourceName = ''composite'', gx_device = ''/dev/video1'', gx_ioMode = ''mmap'', gx_inputCodec = ''raw'',
      gx_rawFormat = ''YUY2'', gx_width = 800, gx_height = 600, gx_fps = 30, gx_encoder = ''mpph264enc'',
      gx_h264ConfigInterval = 1, gx_muxer = ''mpegtsmux'', gx_udpHost = ''192.168.1.153'', gx_udpPort = 5004,
      gx_udpSync = False, gx_udpAsync = False\<rparr>"

subsection \<open>GStreamerPipelineBuilder.cpp\<close>

definition jpeg_names :: "string list" where
  "jpeg_names = [''mjpeg'', ''mjpg'', ''jpeg'', ''image/jpeg'']"

definition isMjpegInput :: "GStreamerPipelineConfig \<Rightarrow> bool" where
  "isMjpegInput c \<longleftrightarrow>
     lower (gx_inputCodec c) \<in> set jpeg_names \<or> lower (gx_rawFormat c) \<in> set jpeg_names"

definition builder_rawFormat :: "string \<Rightarrow> string" where
  "builder_rawFormat format =
     (let l = lower format in
      if l \<in> {''yuyv'', ''yuyv422'', ''yuy2'', ''yuyv 4:2:2''} then ''YUY2''
      else if l \<in> {''uyvy'', ''uyvy422''} then ''UYVY''
      else if l = ''nv12'' then ''NV12''
      else if format = [] then ''YUY2'' else format)"

definition boolToGst :: "bool \<Rightarrow> string" where
  "boolToGst b = (if b then ''true'' else ''false'')"

definition caps_size :: "GStreamerPipelineConfig \<Rightarrow> string" where
  "caps_size c = '',width='' @ show_int (gx_width c) @ '',height='' @ show_int (gx_height c) @
     '',framerate='' @ show_int (gx_fps c) @ ''/1''"

definition buildUdpMpegTsH264Args :: "GStreamerPipelineConfig \<Rightarrow> string list" where
  "buildUdpMpegTsH264Args c =
     [gx_gstLaunchPath c] @ (if gx_eosOnStop c then [''-e''] else []) @ (if gx_verbose c then [''-v''] else []) @
     [''v4l2src'', ''device='' @ gx_device c, ''io-mode='' @ gx_ioMode c, ''!''] @
     (if isMjpegInput c then [''image/jpeg'' @ caps_size c, ''!'', ''mppjpegdec'']
      else [''video/x-raw'' @ '',format='' @ builder_rawFormat (gx_rawFormat c) @ caps_size c]) @
     [''!'', gx_encoder c, ''!'', ''h264parse'', ''config-interval='' @ show_int (gx_h264ConfigInterval c),
      ''!'', gx_muxer c, ''!'', ''udpsink'', ''host='' @ gx_udpHost c, ''port='' @ show_int (gx_udpPort c),
      ''sync='' @ boolToGst (gx_udpSync c), ''async='' @ boolToGst (gx_udpAsync c)]"

definition shell_plain :: "char \<Rightarrow> bool" where
  "shell_plain c \<longleftrightarrow> isalnum c \<or> c \<in> set ''_-/.=''"

definition quote_char :: "char \<Rightarrow> string" where
  "quote_char c = (if c = CHR 0x27 then [CHR 0x27, CHR 0x5C, CHR 0x27, CHR 0x27] else [c])"

definition shellQuote :: "string \<Rightarrow> string" where
  "shellQuote v =
     (if v = [] then [CHR 0x27, CHR 0x27]
      else if list_all shell_plain v then v
      else CHR 0x27 # concat (map quote_char v) @ [CHR 0x27])"

fun toShellCommand :: "string list \<Rightarrow> string" where
  "toShellCommand [] = []"
| "toShellCommand [a] = shellQuote a"
| "toShellCommand (a # b # args) = shellQuote a @ '' '' @ toShellCommand (b # args)"

subsection \<open>GStreamerProcess.cpp\<close>

text \<open>
  The system calls: \<open>fork\<close> with the arguments of the program the child runs, or \<open>strerror(errno)\<close>;
  \<open>waitpid\<close> with \<open>WNOHANG\<close>; a signal to the process group; sleeping; the steady clock in milliseconds.
\<close>

datatype wait_status = WaitRunning | WaitExited int | WaitSignaled int | WaitOther | WaitNoChild | WaitError

record 'w gst_system =
  gw_fork :: "string list \<Rightarrow> 'w \<Rightarrow> (string + int) \<times> 'w"
  gw_wait :: "int \<Rightarrow> 'w \<Rightarrow> wait_status \<times> 'w"
  gw_kill :: "int \<Rightarrow> nat \<Rightarrow> 'w \<Rightarrow> 'w"
  gw_sleep :: "int \<Rightarrow> 'w \<Rightarrow> 'w"
  gw_now :: "'w \<Rightarrow> int"

record GStreamerProcess =
  gq_pid :: int
  gq_exitCode :: int
  gq_lastError :: string

definition new_gst_process :: GStreamerProcess where
  "new_gst_process = \<lparr>gq_pid = -1, gq_exitCode = -1, gq_lastError = []\<rparr>"

definition gq_isRunning :: "'w gst_system \<Rightarrow> GStreamerProcess \<Rightarrow> 'w \<Rightarrow> bool \<times> GStreamerProcess \<times> 'w" where
  "gq_isRunning sys q w =
     (if gq_pid q \<le> 0 then (False, q, w)
      else case gw_wait sys (gq_pid q) w of (st, w) \<Rightarrow>
        (case st of
           WaitRunning \<Rightarrow> (True, q, w)
         | WaitExited code \<Rightarrow> (False, q\<lparr>gq_exitCode := code, gq_pid := -1\<rparr>, w)
         | WaitSignaled sig \<Rightarrow> (False, q\<lparr>gq_exitCode := 128 + sig, gq_pid := -1\<rparr>, w)
         | WaitOther \<Rightarrow> (False, q\<lparr>gq_pid := -1\<rparr>, w)
         | WaitNoChild \<Rightarrow> (False, q\<lparr>gq_pid := -1\<rparr>, w)
         | WaitError \<Rightarrow> (True, q, w)))"

definition gq_start :: "'w gst_system \<Rightarrow> string list \<Rightarrow> GStreamerProcess \<Rightarrow> 'w \<Rightarrow> bool \<times> GStreamerProcess \<times> 'w" where
  "gq_start sys args q w =
     (if args = [] then (False, q\<lparr>gq_lastError := ''empty gstreamer argument list''\<rparr>, w)
      else case gq_isRunning sys q w of (run, q, w) \<Rightarrow>
        if run then (False, q\<lparr>gq_lastError := ''gstreamer process already running''\<rparr>, w)
        else case gw_fork sys args w of
          (Inl err, w) \<Rightarrow> (False, q\<lparr>gq_lastError := ''fork failed: '' @ err\<rparr>, w)
        | (Inr child, w) \<Rightarrow>
            case gq_isRunning sys (q\<lparr>gq_pid := child, gq_exitCode := -1, gq_lastError := []\<rparr>) (gw_sleep sys 100 w) of
              (run, q, w) \<Rightarrow>
                if \<not> run then (False, q\<lparr>gq_lastError := ''gst-launch exited immediately''\<rparr>, w)
                else (True, q, w))"

partial_function (option) poll_exit ::
  "'w gst_system \<Rightarrow> int \<Rightarrow> GStreamerProcess \<Rightarrow> 'w \<Rightarrow> (bool \<times> GStreamerProcess \<times> 'w) option" where
  "poll_exit sys deadline q w =
     (if gw_now sys w < deadline
      then (case gq_isRunning sys q w of (run, q, w) \<Rightarrow>
              if \<not> run then Some (True, q, w) else poll_exit sys deadline q (gw_sleep sys 50 w))
      else (case gq_isRunning sys q w of (run, q, w) \<Rightarrow> Some (\<not> run, q, w)))"

definition waitForExit ::
  "'w gst_system \<Rightarrow> int \<Rightarrow> GStreamerProcess \<Rightarrow> 'w \<Rightarrow> (bool \<times> GStreamerProcess \<times> 'w) option" where
  "waitForExit sys timeoutMs q w = poll_exit sys (gw_now sys w + timeoutMs) q w"

text \<open>The signals \<open>stop\<close> sends one after the other (2, 15 and 9 are SIGINT, SIGTERM and SIGKILL), each with
  the time it gives the process to end.\<close>

fun escalate ::
  "'w gst_system \<Rightarrow> (nat \<times> int) list \<Rightarrow> GStreamerProcess \<Rightarrow> 'w \<Rightarrow> (bool \<times> GStreamerProcess \<times> 'w) option" where
  "escalate sys [] q w = Some (False, q\<lparr>gq_lastError := ''failed to stop gst-launch process''\<rparr>, w)"
| "escalate sys ((sig, ms) # later) q w =
     do { (ended, q, w) \<leftarrow> waitForExit sys ms q (gw_kill sys (gq_pid q) sig w);
          if ended then Some (True, q\<lparr>gq_pid := -1\<rparr>, w) else escalate sys later q w }"

definition gq_stop :: "'w gst_system \<Rightarrow> int \<Rightarrow> GStreamerProcess \<Rightarrow> 'w \<Rightarrow> (bool \<times> GStreamerProcess \<times> 'w) option" where
  "gq_stop sys timeoutMs q w =
     (if gq_pid q \<le> 0 then Some (True, q, w)
      else case gq_isRunning sys q w of (run, q, w) \<Rightarrow>
        if \<not> run then Some (True, q\<lparr>gq_pid := -1\<rparr>, w)
        else escalate sys [(2, timeoutMs), (15, 500), (9, 500)] q w)"

subsection \<open>GStreamerPipeline.cpp\<close>

record GStreamerPipeline =
  gz_config :: GStreamerPipelineConfig
  gz_process :: GStreamerProcess
  gz_lastError :: string

definition new_gst_pipeline :: "GStreamerPipelineConfig \<Rightarrow> GStreamerPipeline" where
  "new_gst_pipeline config = \<lparr>gz_config = config, gz_process = new_gst_process, gz_lastError = []\<rparr>"

definition gz_setConfig :: "GStreamerPipelineConfig \<Rightarrow> GStreamerPipeline \<Rightarrow> GStreamerPipeline" where
  "gz_setConfig config g = g\<lparr>gz_config := config\<rparr>"

definition gz_isRunning :: "'w gst_system \<Rightarrow> GStreamerPipeline \<Rightarrow> 'w \<Rightarrow> bool \<times> GStreamerPipeline \<times> 'w" where
  "gz_isRunning sys g w = (case gq_isRunning sys (gz_process g) w of (run, q, w) \<Rightarrow> (run, g\<lparr>gz_process := q\<rparr>, w))"

definition gz_start :: "'w gst_system \<Rightarrow> GStreamerPipeline \<Rightarrow> 'w \<Rightarrow> bool \<times> GStreamerPipeline \<times> 'w" where
  "gz_start sys g w =
     (case gq_start sys (buildUdpMpegTsH264Args (gz_config g)) (gz_process g) w of (ok, q, w) \<Rightarrow>
        (ok, g\<lparr>gz_process := q, gz_lastError := (if ok then [] else gq_lastError q)\<rparr>, w))"

definition gz_stop :: "'w gst_system \<Rightarrow> GStreamerPipeline \<Rightarrow> 'w \<Rightarrow> (bool \<times> GStreamerPipeline \<times> 'w) option" where
  "gz_stop sys g w =
     do { (ok, q, w) \<leftarrow> gq_stop sys (gx_stopTimeoutMs (gz_config g)) (gz_process g) w;
          Some (ok, g\<lparr>gz_process := q, gz_lastError := (if ok then [] else gq_lastError q)\<rparr>, w) }"

definition gz_restart :: "'w gst_system \<Rightarrow> GStreamerPipeline \<Rightarrow> 'w \<Rightarrow> (bool \<times> GStreamerPipeline \<times> 'w) option" where
  "gz_restart sys g w =
     do { (ok, g, w) \<leftarrow> gz_stop sys g w;
          Some (if \<not> ok then (False, g, w) else gz_start sys g w) }"

definition commandLine :: "GStreamerPipeline \<Rightarrow> string" where
  "commandLine g = toShellCommand (buildUdpMpegTsH264Args (gz_config g))"

subsection \<open>GStreamerPipelineConfigManager.cpp\<close>

record GStreamerConfigManagerOptions =
  gf_configDir :: string
  gf_gstLaunchPath :: string
  gf_udpHost :: string
  gf_udpPort :: int
  gf_verbose :: bool
  gf_eosOnStop :: bool
  gf_visibleDeviceOverride :: string
  gf_compositeDeviceOverride :: string

definition default_gst_options :: GStreamerConfigManagerOptions where
  "default_gst_options =
     \<lparr>gf_configDir = ''./configs'', gf_gstLaunchPath = ''gst-launch-1.0'', gf_udpHost = ''192.168.1.153'', gf_udpPort = 5004,
      gf_verbose = True, gf_eosOnStop = True, gf_visibleDeviceOverride = [], gf_compositeDeviceOverride = []\<rparr>"

record GStreamerPipelineConfigManager =
  gy_options :: GStreamerConfigManagerOptions
  gy_camera :: CameraConfig
  gy_modeSourceMap :: "string \<rightharpoonup> string"
  gy_lastMessage :: string

definition new_gst_manager :: GStreamerPipelineConfigManager where
  "new_gst_manager =
     \<lparr>gy_options = default_gst_options, gy_camera = default_camera_config, gy_modeSourceMap = Map.empty,
      gy_lastMessage = []\<rparr>"

definition normalizeModeCommand :: "string \<Rightarrow> string" where
  "normalizeModeCommand text =
     (let name = lower (unquote (trim text)) in
      if name = ''1'' \<or> name = ''visible_only'' then ''visible''
      else if name = ''2'' \<or> name = ''lowlight_only'' then ''lowlight''
      else if name = ''3'' \<or> name = ''thermal_only'' then ''thermal''
      else if name = ''4'' \<or> name = ''lowlight_thermal_composite'' then ''lowlight_thermal''
      else if name = ''5'' \<or> name = ''visible_lowlight_fusion'' then ''visible_lowlight''
      else if name = ''6'' \<or> name = ''visible_thermal_fusion'' then ''visible_thermal''
      else if name = ''7'' \<or> name = ''visible_composite_fusion'' then ''visible_composite''
      else name)"

definition normalizeSourceName :: "string \<Rightarrow> string" where
  "normalizeSourceName text =
     (let name = lower (unquote (trim text)) in
      if name = ''visible_camera'' \<or> name = ''visible_only'' then ''visible''
      else if name = ''composite_low_thermal'' \<or> name = ''low_thermal'' \<or> name = ''compound'' then ''composite''
      else if name = ''visible'' then ''visible'' else ''composite'')"

definition normalizeInputCodec :: "string \<Rightarrow> string" where
  "normalizeInputCodec format = (if lower (unquote format) \<in> set jpeg_names then ''mjpeg'' else ''raw'')"

definition manager_rawFormat :: "string \<Rightarrow> string" where
  "manager_rawFormat format =
     (let f = lower (unquote format) in
      if f \<in> set jpeg_names then ''MJPG''
      else if f \<in> {''yuyv'', ''yuyv422'', ''yuy2'', ''yuyv 4:2:2''} then ''YUY2''
      else if f \<in> {''uyvy'', ''uyvy422''} then ''UYVY''
      else if f = ''nv12'' then ''NV12''
      else if format = [] then ''YUY2'' else format)"

definition builtin_sources :: "string \<rightharpoonup> string" where
  "builtin_sources =
     [''visible'' \<mapsto> ''visible'', ''lowlight'' \<mapsto> ''composite'', ''thermal'' \<mapsto> ''composite'',
      ''lowlight_thermal'' \<mapsto> ''composite'', ''visible_lowlight'' \<mapsto> ''composite'',
      ''visible_thermal'' \<mapsto> ''composite'', ''visible_composite'' \<mapsto> ''composite'']"

text \<open>The sources of the camera file. \<open>order\<close> lists the entries of the parsed map, a hash map, in the
  order the loop meets them.\<close>

definition add_source :: "string \<times> string \<Rightarrow> (string \<rightharpoonup> string) \<Rightarrow> (string \<rightharpoonup> string)" where
  "add_source kv sources =
     (if \<not> startsWith (fst kv) ''camera.mode_source.'' then sources
      else
        let mode = normalizeModeCommand (drop (length ''camera.mode_source.'') (fst kv));
            source = normalizeSourceName (snd kv)
        in if mode = [] then sources else sources(mode \<mapsto> source))"

definition loadModeSourceMap ::
  "'w files \<Rightarrow> (FlatConfig \<Rightarrow> (string \<times> string) list) \<Rightarrow> string \<Rightarrow> (string \<rightharpoonup> string) \<Rightarrow> 'w \<Rightarrow> (string \<rightharpoonup> string)" where
  "loadModeSourceMap fl order path sources w =
     (case parseSimpleYaml fl path w of Inl _ \<Rightarrow> sources | Inr m \<Rightarrow> fold add_source (order m) sources)"

definition fallback_camera :: "CameraConfig \<Rightarrow> CameraConfig" where
  "fallback_camera c =
     \<lparr>cc_visible = (cc_visible c)\<lparr>ep_enable := True, ep_name := ''visible_camera'', ep_videoNode := ''/dev/video3'',
        ep_width := 1920, ep_height := 1080, ep_fps := 30, ep_format := ''mjpeg''\<rparr>,
      cc_compositeLowThermal = (cc_compositeLowThermal c)\<lparr>ep_enable := True, ep_name := ''composite_low_thermal_camera'',
        ep_videoNode := ''/dev/video1'', ep_width := 800, ep_height := 600, ep_fps := 30, ep_format := ''yuy2''\<rparr>\<rparr>"

definition override_devices :: "GStreamerConfigManagerOptions \<Rightarrow> CameraConfig \<Rightarrow> CameraConfig" where
  "override_devices options c =
     \<lparr>cc_visible = (if gf_visibleDeviceOverride options = [] then cc_visible c
                     else (cc_visible c)\<lparr>ep_videoNode := gf_visibleDeviceOverride options\<rparr>),
      cc_compositeLowThermal = (if gf_compositeDeviceOverride options = [] then cc_compositeLowThermal c
                     else (cc_compositeLowThermal c)\<lparr>ep_videoNode := gf_compositeDeviceOverride options\<rparr>)\<rparr>"

definition gy_load ::
  "'w files \<Rightarrow> (FlatConfig \<Rightarrow> (string \<times> string) list) \<Rightarrow> GStreamerConfigManagerOptions \<Rightarrow>
     GStreamerPipelineConfigManager \<Rightarrow> ConfigManager \<Rightarrow> 'w \<Rightarrow>
     unit Result \<times> GStreamerPipelineConfigManager \<times> ConfigManager" where
  "gy_load fl order options gy cm w =
     (case loadAll fl (gf_configDir options) cm w of (loaded, cm) \<Rightarrow>
        let (camera, message) =
              (case loaded of
                 Inr _ \<Rightarrow> (sys_camera (cfm_config cm), ''loaded camera/media configuration from '' @ gf_configDir options)
               | Inl e \<Rightarrow> (fallback_camera (gy_camera gy), ''config load failed, using built-in fallback: '' @ describe e))
        in (Success,
            gy\<lparr>gy_options := options, gy_camera := override_devices options camera, gy_lastMessage := message,
               gy_modeSourceMap :=
                 loadModeSourceMap fl order (gf_configDir options @ ''/camera.yaml'') builtin_sources w\<rparr>,
            cm))"

definition sourceNameForModeCommand :: "string \<Rightarrow> GStreamerPipelineConfigManager \<Rightarrow> string" where
  "sourceNameForModeCommand command gy =
     (case gy_modeSourceMap gy (normalizeModeCommand command) of
        None \<Rightarrow> ''composite''
      | Some source \<Rightarrow> normalizeSourceName source)"

definition buildFromEndpoint ::
  "string \<Rightarrow> CameraEndpointConfig \<Rightarrow> GStreamerPipelineConfigManager \<Rightarrow> GStreamerPipelineConfig" where
  "buildFromEndpoint sourceName endpoint gy =
     default_gst_config\<lparr>
       gx_sourceName := sourceName,
       gx_gstLaunchPath := gf_gstLaunchPath (gy_options gy),
       gx_eosOnStop := gf_eosOnStop (gy_options gy),
       gx_verbose := gf_verbose (gy_options gy),
       gx_device := ep_videoNode endpoint,
       gx_width := (if ep_width endpoint > 0 then ep_width endpoint
                    else if sourceName = ''visible'' then 1920 else 800),
       gx_height := (if ep_height endpoint > 0 then ep_height endpoint
                     else if sourceName = ''visible'' then 1080 else 600),
       gx_fps := (if ep_fps endpoint > 0 then ep_fps endpoint else 30),
       gx_inputCodec := normalizeInputCodec (ep_format endpoint),
       gx_rawFormat := manager_rawFormat (ep_format endpoint),
       gx_udpHost := gf_udpHost (gy_options gy),
       gx_udpPort := gf_udpPort (gy_options gy)\<rparr>"

definition configForModeCommand :: "string \<Rightarrow> GStreamerPipelineConfigManager \<Rightarrow> GStreamerPipelineConfig" where
  "configForModeCommand command gy =
     (if sourceNameForModeCommand command gy = ''visible''
      then buildFromEndpoint ''visible'' (cc_visible (gy_camera gy)) gy
      else buildFromEndpoint ''composite'' (cc_compositeLowThermal (gy_camera gy)) gy)"

subsection \<open>The shell command\<close>

text \<open>The characters that mean something to a POSIX shell when they are not quoted (Shell Command Language, 2.2, with
  the braces, the exclamation mark and the caret that shells treat specially, and the control characters): operators,
  expansions, quotes, blanks, patterns and comments. The equals sign is left out: it matters only in a first word, where it makes an assignment.\<close>

definition shell_special :: "char \<Rightarrow> bool" where
  "shell_special c \<longleftrightarrow> of_char c < (32 :: nat) \<or>
     c \<in> set ''|&;<>()$`*?[]#~%!{}^ '' \<or> c = CHR 0x22 \<or> c = CHR 0x27 \<or> c = CHR 0x5C \<or> c = CHR 0x7F"

text \<open>
  How a shell splits a line made of blanks, single-quoted parts, backslash-quoted characters and
  characters without a special meaning; anything else, an open quote too, is refused. \<open>cur\<close> is the
  word being read.
\<close>

fun shell_words :: "string option \<Rightarrow> bool \<Rightarrow> string \<Rightarrow> string list option" where
  "shell_words cur True [] = None"
| "shell_words cur False [] = Some (case cur of None \<Rightarrow> [] | Some v \<Rightarrow> [v])"
| "shell_words cur True (c # s) =
     (if c = CHR 0x27 then shell_words cur False s
      else shell_words (Some ((case cur of None \<Rightarrow> [] | Some v \<Rightarrow> v) @ [c])) True s)"
| "shell_words cur False (c # s) =
     (let word = (case cur of None \<Rightarrow> [] | Some v \<Rightarrow> v) in
      if c = CHR '' '' then (case cur of
          None \<Rightarrow> shell_words None False s
        | Some v \<Rightarrow> map_option (\<lambda>vs. v # vs) (shell_words None False s))
      else if c = CHR 0x27 then shell_words (Some word) True s
      else if c = CHR 0x5C then (case s of [] \<Rightarrow> None | d # s \<Rightarrow> shell_words (Some (word @ [d])) False s)
      else if shell_special c then None
      else shell_words (Some (word @ [c])) False s)"

lemma shell_plain_not:
  "\<not> shell_plain (CHR '' '')" "\<not> shell_plain (CHR 0x27)" "\<not> shell_plain (CHR 0x5C)"
  by (simp_all add: shell_plain_def isalnum_def isdigit_def isupper_def islower_def chr_code_def)

lemma shell_plain_ordinary: "shell_plain c \<Longrightarrow> \<not> shell_special c"
  by (auto simp: shell_plain_def shell_special_def isalnum_def isdigit_def isupper_def islower_def chr_code_def)

lemma shell_plain_run:
  "list_all shell_plain v \<Longrightarrow> shell_words (Some u) False (v @ s) = shell_words (Some (u @ v)) False s"
proof (induction v arbitrary: u)
  case (Cons c v)
  with shell_plain_not have "c \<noteq> CHR '' ''" "c \<noteq> CHR 0x27" "c \<noteq> CHR 0x5C" by auto
  with Cons shell_plain_ordinary[of c] show ?case by simp
qed simp

lemma shell_quoted_run:
  "shell_words (Some u) True (concat (map quote_char v) @ CHR 0x27 # s) = shell_words (Some (u @ v)) False s"
  by (induction v arbitrary: u) (auto simp: quote_char_def)

lemma shell_quote_word: "shell_words None False (shellQuote v @ s) = shell_words (Some v) False s"
proof (cases "v = [] \<or> \<not> list_all shell_plain v")
  case True
  then show ?thesis using shell_quoted_run[of "[]" v s] by (auto simp: shellQuote_def)
next
  case False
  then obtain c u where v: "v = c # u" "shell_plain c" "list_all shell_plain u" by (cases v) auto
  with shell_plain_not have "c \<noteq> CHR '' ''" "c \<noteq> CHR 0x27" "c \<noteq> CHR 0x5C" by auto
  with v shell_plain_run[of u "[c]" s] shell_plain_ordinary[of c] show ?thesis by (simp add: shellQuote_def)
qed

text \<open>
  Claim C25. The command line of a pipeline can be given to a shell: split the way a POSIX shell does it, it is
  the list of arguments, whatever characters they contain, and no character that is special to the shell is
  left outside quotes. (What a shell then makes of the first word is not part of this.)
\<close>

theorem shell_command_read_back: "shell_words None False (toShellCommand args) = Some args"
proof (induction args rule: toShellCommand.induct)
  case (2 a)
  then show ?case using shell_quote_word[of a "[]"] by simp
next
  case (3 a b args)
  then show ?case by (simp add: shell_quote_word)
qed simp

subsection \<open>Stopping returns\<close>

text \<open>The steady clock moves when the program sleeps and never goes back.\<close>

definition clock_law :: "'w gst_system \<Rightarrow> bool" where
  "clock_law sys \<longleftrightarrow>
     (\<forall>ms w. 0 < ms \<longrightarrow> gw_now sys w < gw_now sys (gw_sleep sys ms w)) \<and>
     (\<forall>pid w. gw_now sys w \<le> gw_now sys (snd (gw_wait sys pid w)))"

lemma gq_isRunning_effect:
  assumes "clock_law sys" "gq_isRunning sys q w = (run, q', w')"
  shows "(if run then q' = q \<and> 0 < gq_pid q else gq_pid q' \<le> 0) \<and> gw_now sys w \<le> gw_now sys w'"
proof (cases "gq_pid q \<le> 0")
  case True
  with assms(2) show ?thesis by (simp add: gq_isRunning_def)
next
  case False
  obtain st v where "gw_wait sys (gq_pid q) w = (st, v)" by fastforce
  moreover from assms(1) this have "gw_now sys w \<le> gw_now sys v" by (metis clock_law_def snd_conv)
  ultimately show ?thesis using assms(2) False by (cases st) (auto simp: gq_isRunning_def)
qed

lemma poll_exit_returns:
  assumes "clock_law sys"
  shows "\<exists>ended q' w'. poll_exit sys deadline q w = Some (ended, q', w') \<and>
    (if ended then gq_pid q' \<le> 0 else q' = q \<and> 0 < gq_pid q)"
proof (induction "nat (deadline - gw_now sys w)" arbitrary: q w rule: less_induct)
  case less
  obtain run q1 w1 where r: "gq_isRunning sys q w = (run, q1, w1)" by (cases "gq_isRunning sys q w") auto
  note eff = gq_isRunning_effect[OF assms r]
  show ?case
  proof (cases "gw_now sys w < deadline \<and> run")
    case True
    with eff have "q1 = q" "gw_now sys w \<le> gw_now sys w1" by simp_all
    moreover from assms have "gw_now sys w1 < gw_now sys (gw_sleep sys 50 w1)" by (auto simp: clock_law_def)
    ultimately have "nat (deadline - gw_now sys (gw_sleep sys 50 w1)) < nat (deadline - gw_now sys w)" using True by simp
    from less[OF this, of q] True r \<open>q1 = q\<close> show ?thesis by (subst poll_exit.simps) simp
  next
    case False
    with r eff show ?thesis by (subst poll_exit.simps) auto
  qed
qed

lemma escalate_returns:
  assumes "clock_law sys" "0 < gq_pid q"
  shows "\<exists>ok q' w'. escalate sys signals q w = Some (ok, q', w') \<and>
    (if ok then gq_pid q' = -1 else q' = q\<lparr>gq_lastError := ''failed to stop gst-launch process''\<rparr>)"
  using assms(2)
proof (induction signals arbitrary: w)
  case (Cons sig signals)
  obtain s ms where [simp]: "sig = (s, ms)" by (cases sig)
  from poll_exit_returns[OF assms(1)] obtain ended q1 w1
    where p: "waitForExit sys ms q (gw_kill sys (gq_pid q) s w) = Some (ended, q1, w1)"
      and e: "if ended then gq_pid q1 \<le> 0 else q1 = q \<and> 0 < gq_pid q"
    unfolding waitForExit_def by blast
  with Cons show ?case by (cases ended) auto
qed (auto intro: exI[of _ False])

lemma gq_stop_returns:
  assumes "clock_law sys"
  shows "\<exists>ok q' w'. gq_stop sys timeoutMs q w = Some (ok, q', w') \<and>
    (if ok then gq_pid q' \<le> 0
     else 0 < gq_pid q' \<and> q' = q\<lparr>gq_lastError := ''failed to stop gst-launch process''\<rparr>)"
proof (cases "gq_pid q \<le> 0")
  case True
  then show ?thesis by (auto simp: gq_stop_def intro: exI[of _ True])
next
  case False
  obtain run q1 w1 where r: "gq_isRunning sys q w = (run, q1, w1)" by (cases "gq_isRunning sys q w") auto
  note eff = gq_isRunning_effect[OF assms r]
  show ?thesis
  proof (cases run)
    case True
    with eff have "q1 = q" "0 < gq_pid q" by simp_all
    with escalate_returns[OF assms this(2), of "[(2, timeoutMs), (15, 500), (9, 500)]" w1] r True False show ?thesis
      by (auto simp: gq_stop_def split: if_splits)
  next
    case run: False
    with r False show ?thesis by (auto simp: gq_stop_def intro: exI[of _ True])
  qed
qed

text \<open>
  Stopping a pipeline process returns, over any system whose clock moves while the program sleeps: either
  the process is gone and its number forgotten, or three signals did not end it in their time, the
  number is kept for another attempt and the error says so.
\<close>

theorem gst_stop_returns:
  assumes "clock_law sys"
  shows "\<exists>ok q' w'. gq_stop sys timeoutMs q w = Some (ok, q', w') \<and>
    (if ok then gq_pid q' \<le> 0
     else 0 < gq_pid q' \<and> q' = q\<lparr>gq_lastError := ''failed to stop gst-launch process''\<rparr>)"
  by (rule gq_stop_returns[OF assms])

text \<open>A process that ends when it gets the second signal.\<close>

definition tiny_gst :: "(int \<times> bool) gst_system" where
  "tiny_gst =
     \<lparr>gw_fork = (\<lambda>args w. (Inr 7, w)), gw_wait = (\<lambda>pid (t, alive). (if alive then WaitRunning else WaitExited 0, (t, alive))),
      gw_kill = (\<lambda>pid sig (t, alive). (t, alive \<and> sig \<noteq> 15)), gw_sleep = (\<lambda>ms (t, alive). (t + ms, alive)), gw_now = fst\<rparr>"

theorem gst_stop_returns_witness:
  "\<exists>ok q' w'. gq_stop tiny_gst 2000 (new_gst_process\<lparr>gq_pid := 7\<rparr>) (0, True) = Some (ok, q', w') \<and> (ok \<longleftrightarrow> gq_pid q' \<le> 0)"
proof -
  have "clock_law tiny_gst" by (simp add: clock_law_def tiny_gst_def)
  from gst_stop_returns[OF this, of 2000 "new_gst_process\<lparr>gq_pid := 7\<rparr>" "(0, True)"] show ?thesis
    by (auto split: if_splits)
qed

subsection \<open>The configuration for a mode\<close>

text \<open>Whatever the files say, the configuration for a command has positive sizes and rate, a known source,
  and the device the options ask for.\<close>

lemma gst_config_usable:
  fixes command :: string
  assumes "gy_load fl order options gy0 cm w = (r, gy, cm')"
  defines "c \<equiv> configForModeCommand command gy"
  shows "r = Success" and "0 < gx_width c" and "0 < gx_height c" and "0 < gx_fps c"
    and "gx_sourceName c = sourceNameForModeCommand command gy" and "gx_sourceName c \<in> {''visible'', ''composite''}"
    and "gx_sourceName c = ''visible'' \<Longrightarrow> gf_visibleDeviceOverride options \<noteq> [] \<Longrightarrow> gx_device c = gf_visibleDeviceOverride options"
    and "gx_sourceName c = ''composite'' \<Longrightarrow> gf_compositeDeviceOverride options \<noteq> [] \<Longrightarrow>
      gx_device c = gf_compositeDeviceOverride options"
proof -
  have source: "sourceNameForModeCommand command gy \<in> {''visible'', ''composite''}"
    by (auto simp: sourceNameForModeCommand_def normalizeSourceName_def Let_def split: option.split)
  from assms(1) have gy: "r = Success" "gy_options gy = options" "\<exists>camera. gy_camera gy = override_devices options camera"
    by (auto simp: gy_load_def Let_def split: prod.split_asm sum.split_asm)
  show "r = Success" by fact
  show "0 < gx_width c" "0 < gx_height c" "0 < gx_fps c"
    by (simp_all add: c_def configForModeCommand_def buildFromEndpoint_def)
  show "gx_sourceName c = sourceNameForModeCommand command gy" "gx_sourceName c \<in> {''visible'', ''composite''}"
    using source by (auto simp: c_def configForModeCommand_def buildFromEndpoint_def)
  show "gx_device c = gf_visibleDeviceOverride options"
    if "gx_sourceName c = ''visible''" "gf_visibleDeviceOverride options \<noteq> []"
    using that gy source by (auto simp: c_def configForModeCommand_def buildFromEndpoint_def override_devices_def split: if_splits)
  show "gx_device c = gf_compositeDeviceOverride options"
    if "gx_sourceName c = ''composite''" "gf_compositeDeviceOverride options \<noteq> []"
    using that gy source by (auto simp: c_def configForModeCommand_def buildFromEndpoint_def override_devices_def split: if_splits)
qed

text \<open>Without sources in the camera file only the visible-only mode runs on the visible camera; the fusion
  modes of this path run on the composite camera alone.\<close>

lemma builtin_source_of_mode:
  "gy_modeSourceMap gy = builtin_sources \<Longrightarrow>
     sourceNameForModeCommand (configKey m) gy = (if m = WorkMode.VisibleOnly then ''visible'' else ''composite'')"
proof -
  assume "gy_modeSourceMap gy = builtin_sources"
  moreover have "builtin_sources (normalizeModeCommand (configKey m)) =
      (if m = WorkMode.Unknown then None else Some (if m = WorkMode.VisibleOnly then ''visible'' else ''composite''))"
    by (cases m; simp only: configKey.simps; code_simp)
  moreover have "normalizeSourceName ''visible'' = ''visible''" "normalizeSourceName ''composite'' = ''composite''"
    by code_simp+
  ultimately show ?thesis by (simp add: sourceNameForModeCommand_def)
qed

end
