(* ===== verification/Tri_ControlProgram.thy ===== *)
theory Tri_ControlProgram
  imports Tri_PrivateControl Tri_GStreamer Tri_SensorLine
begin

text \<open>
  The program that is controlled over HTTP (tests/l8_private_gstreamer_control_probe.cpp, the program of
  README_GSTREAMER_MODE_CONFIG.md): it joins the private control server, the GStreamer pipeline with its
  configuration for a mode, and the composite sensor's controller. Its three callbacks are those the
  server calls; they run one at a time under the program's mutex. The console output is left out.
\<close>

subsection \<open>Command line\<close>

record control_options =
  co_gst :: GStreamerConfigManagerOptions
  co_server :: PrivateControlServerConfig
  co_serial :: SerialConfig
  co_hasSerial :: bool
  co_serialEnabled :: bool
  co_ackRequired :: bool
  co_stableMs :: int

definition default_control_options :: control_options where
  "default_control_options =
     \<lparr>co_gst = default_gst_options, co_server = default_private_config, co_serial = default_serial_config,
      co_hasSerial = False, co_serialEnabled = True, co_ackRequired = True, co_stableMs = 500\<rparr>"

abbreviation in_gst ::
  "(GStreamerConfigManagerOptions \<Rightarrow> GStreamerConfigManagerOptions) \<Rightarrow> control_options \<Rightarrow> control_options" where
  "in_gst f opts \<equiv> opts\<lparr>co_gst := f (co_gst opts)\<rparr>"

abbreviation in_serial :: "(SerialConfig \<Rightarrow> SerialConfig) \<Rightarrow> control_options \<Rightarrow> control_options" where
  "in_serial f opts \<equiv> opts\<lparr>co_hasSerial := True, co_serial := f (co_serial opts)\<rparr>"

text \<open>The options without a value, with a text and with a number.\<close>

definition flag_option :: "string \<Rightarrow> (control_options \<Rightarrow> control_options) option" where
  "flag_option arg =
     (if arg = ''--no-serial'' then Some (\<lambda>opts. opts\<lparr>co_serialEnabled := False\<rparr>)
      else if arg = ''--no-ack'' then Some (\<lambda>opts. opts\<lparr>co_ackRequired := False\<rparr>)
      else if arg = ''--no-verbose'' then Some (in_gst (\<lambda>g. g\<lparr>gf_verbose := False\<rparr>))
      else if arg = ''--no-eos'' then Some (in_gst (\<lambda>g. g\<lparr>gf_eosOnStop := False\<rparr>))
      else None)"

definition text_option :: "string \<Rightarrow> (string \<Rightarrow> control_options \<Rightarrow> control_options) option" where
  "text_option arg =
     (if arg = ''--config-dir'' then Some (\<lambda>v. in_gst (\<lambda>g. g\<lparr>gf_configDir := v\<rparr>))
      else if arg = ''--visible-device'' then Some (\<lambda>v. in_gst (\<lambda>g. g\<lparr>gf_visibleDeviceOverride := v\<rparr>))
      else if arg = ''--composite-device'' \<or> arg = ''--device''
      then Some (\<lambda>v. in_gst (\<lambda>g. g\<lparr>gf_compositeDeviceOverride := v\<rparr>))
      else if arg = ''--host'' then Some (\<lambda>v. in_gst (\<lambda>g. g\<lparr>gf_udpHost := v\<rparr>))
      else if arg = ''--gst-launch'' then Some (\<lambda>v. in_gst (\<lambda>g. g\<lparr>gf_gstLaunchPath := v\<rparr>))
      else if arg = ''--control-bind'' then Some (\<lambda>v opts. opts\<lparr>co_server := (co_server opts)\<lparr>pf_bindAddress := v\<rparr>\<rparr>)
      else if arg = ''--serial-dev'' then Some (\<lambda>v. in_serial (\<lambda>c. c\<lparr>sc_dev := v\<rparr>))
      else if arg \<in> {''--width'', ''--height'', ''--fps'', ''--format'', ''--io-mode'', ''--encoder''} then Some (\<lambda>v opts. opts)
      else None)"

definition number_option :: "string \<Rightarrow> (int \<Rightarrow> control_options \<Rightarrow> control_options option) option" where
  "number_option arg =
     (if arg = ''--port'' then Some (\<lambda>n opts. Some (in_gst (\<lambda>g. g\<lparr>gf_udpPort := n\<rparr>) opts))
      else if arg = ''--control-port''
      then Some (\<lambda>n opts. if n \<le> 0 \<or> 65535 < n then None
                          else Some (opts\<lparr>co_server := (co_server opts)\<lparr>pf_port := word_of_int n\<rparr>\<rparr>))
      else if arg = ''--serial-baud'' then Some (\<lambda>n opts. Some (in_serial (\<lambda>c. c\<lparr>sc_baudrate := n\<rparr>) opts))
      else if arg = ''--serial-timeout-ms'' then Some (\<lambda>n opts. Some (in_serial (\<lambda>c. c\<lparr>sc_timeoutMs := n\<rparr>) opts))
      else if arg = ''--serial-retry'' then Some (\<lambda>n opts. Some (in_serial (\<lambda>c. c\<lparr>sc_retryCount := n\<rparr>) opts))
      else if arg = ''--stable-ms'' then Some (\<lambda>n opts. Some (opts\<lparr>co_stableMs := n\<rparr>))
      else None)"

datatype parsed_arguments = HelpShown | Refused | Accepted control_options

fun parseArgs :: "string list \<Rightarrow> control_options \<Rightarrow> parsed_arguments" where
  "parseArgs [] opts = Accepted opts"
| "parseArgs (arg # rest) opts =
     (if arg = ''--help'' \<or> arg = ''-h'' then HelpShown
      else case flag_option arg of
        Some f \<Rightarrow> parseArgs rest (f opts)
      | None \<Rightarrow>
          (case rest of
             [] \<Rightarrow> Refused
           | v # later \<Rightarrow>
               (case text_option arg of
                  Some f \<Rightarrow> parseArgs later (f v opts)
                | None \<Rightarrow>
                    (case number_option arg of
                       None \<Rightarrow> Refused
                     | Some f \<Rightarrow>
                         (case stoi v of
                            None \<Rightarrow> Refused
                          | Some n \<Rightarrow> (case f n opts of None \<Rightarrow> Refused | Some opts \<Rightarrow> parseArgs later opts))))))"

text \<open>The serial settings: those of the file, or built-in ones when it names no device, with what the
  command line overrides.\<close>

definition builtin_serial :: "SerialConfig \<Rightarrow> SerialConfig" where
  "builtin_serial c =
     (if sc_dev c = []
      then c\<lparr>sc_enable := True, sc_dev := ''/dev/ttyACM0'', sc_baudrate := 115200, sc_databits := 8, sc_stopbits := 1,
             sc_parity := ''none'', sc_timeoutMs := 500, sc_retryCount := 3\<rparr>
      else c)"

definition override_serial :: "SerialConfig \<Rightarrow> SerialConfig \<Rightarrow> SerialConfig" where
  "override_serial over c =
     c\<lparr>sc_dev := (if sc_dev over = [] then sc_dev c else sc_dev over),
       sc_baudrate := (if sc_baudrate over > 0 then sc_baudrate over else sc_baudrate c),
       sc_timeoutMs := (if sc_timeoutMs over > 0 then sc_timeoutMs over else sc_timeoutMs c),
       sc_retryCount := (if sc_retryCount over > 0 then sc_retryCount over else sc_retryCount c)\<rparr>"

definition serial_settings :: "control_options \<Rightarrow> SerialConfig \<Rightarrow> SerialConfig" where
  "serial_settings opts c =
     (let c = builtin_serial c in if co_hasSerial opts then override_serial (co_serial opts) c else c)"

subsection \<open>The state the callbacks share\<close>

text \<open>\<open>cp_mutex\<close> says that another thread holds \<open>pipelineMutex\<close>: a callback, which takes the mutex for the
  time of its call, then waits, and does not return (\<open>None\<close>) unless it is released. Two callbacks never meet, the
  server has one thread.\<close>

record 'w control_program =
  cp_gst :: GStreamerPipelineConfigManager
  cp_serialEnabled :: bool
  cp_stableMs :: int
  cp_currentMode :: PrivateWorkMode
  cp_pipeline :: GStreamerPipeline
  cp_controller :: SensorController
  cp_world :: 'w
  cp_mutex :: bool

definition mode_config :: "PrivateWorkMode \<Rightarrow> 'w control_program \<Rightarrow> GStreamerPipelineConfig" where
  "mode_config m p = configForModeCommand (toCommandName m) (cp_gst p)"

definition cp_start :: "'w gst_system \<Rightarrow> 'w control_program \<Rightarrow> bool \<times> 'w control_program" where
  "cp_start gs p =
     (case gz_start gs (cp_pipeline p) (cp_world p) of (ok, g, w) \<Rightarrow> (ok, p\<lparr>cp_pipeline := g, cp_world := w\<rparr>))"

definition cp_stop :: "'w gst_system \<Rightarrow> 'w control_program \<Rightarrow> (bool \<times> 'w control_program) option" where
  "cp_stop gs p =
     do { (ok, g, w) \<leftarrow> gz_stop gs (cp_pipeline p) (cp_world p); Some (ok, p\<lparr>cp_pipeline := g, cp_world := w\<rparr>) }"

subsection \<open>Switching the mode\<close>

text \<open>The output mode of the sensor for a mode, and whether the sensor has to be switched.\<close>

fun mapPrivateModeToCompositeOutput :: "PrivateWorkMode \<Rightarrow> CompositeSensorOutputMode \<times> bool" where
  "mapPrivateModeToCompositeOutput PrivateWorkMode.VisibleOnly = (CompositeSensorOutputMode.Unknown, False)"
| "mapPrivateModeToCompositeOutput PrivateWorkMode.LowlightOnly = (CompositeSensorOutputMode.LowlightOnly, True)"
| "mapPrivateModeToCompositeOutput PrivateWorkMode.VisibleLowlightFusion = (CompositeSensorOutputMode.LowlightOnly, True)"
| "mapPrivateModeToCompositeOutput PrivateWorkMode.ThermalOnly = (CompositeSensorOutputMode.ThermalOnly, True)"
| "mapPrivateModeToCompositeOutput PrivateWorkMode.VisibleThermalFusion = (CompositeSensorOutputMode.ThermalOnly, True)"
| "mapPrivateModeToCompositeOutput PrivateWorkMode.LowlightThermalComposite =
     (CompositeSensorOutputMode.LowlightThermalComposite, True)"
| "mapPrivateModeToCompositeOutput PrivateWorkMode.VisibleCompositeFusion =
     (CompositeSensorOutputMode.LowlightThermalComposite, True)"

definition mode_refused :: "string \<Rightarrow> PrivateWorkMode \<Rightarrow> PrivateControlResult" where
  "mode_refused message m = \<lparr>pr_ok = False, pr_message = message, pr_currentMode = toString_PrivateWorkMode m\<rparr>"

text \<open>The second half of the callback: the pipeline gets the new configuration and starts. The mode is
  recorded before it is known whether it starts.\<close>

definition switch_video ::
  "'w gst_system \<Rightarrow> PrivateWorkMode \<Rightarrow> 'w control_program \<Rightarrow> PrivateControlResult \<times> 'w control_program" where
  "switch_video gs target p =
     (let old = cp_currentMode p; config = mode_config target p;
          p = p\<lparr>cp_pipeline := gz_setConfig config (cp_pipeline p), cp_currentMode := target\<rparr>
      in case cp_start gs p of
           (False, p) \<Rightarrow>
             (mode_refused (''failed to restart gstreamer pipeline after mode switch: '' @ gz_lastError (cp_pipeline p)) old, p)
         | (True, p) \<Rightarrow>
             (\<lparr>pr_ok = True,
               pr_message = ''mode accepted, source='' @ gx_sourceName config @ '', device='' @ gx_device config @
                 '', video pipeline restarted'',
               pr_currentMode = toString_PrivateWorkMode target\<rparr>, p))"

text \<open>When the sensor refuses, the pipeline is started as it was; whether it starts is not looked at.\<close>

definition switch_back ::
  "'w gst_system \<Rightarrow> string \<Rightarrow> 'w control_program \<Rightarrow> PrivateControlResult \<times> 'w control_program" where
  "switch_back gs message p = (mode_refused message (cp_currentMode p), snd (cp_start gs p))"

definition switch_sensor ::
  "'w gst_system \<Rightarrow> 'w serial_os \<Rightarrow> ('w \<Rightarrow> int) \<Rightarrow> PrivateWorkMode \<Rightarrow> CompositeSensorOutputMode \<Rightarrow> 'w control_program \<Rightarrow>
     (PrivateControlResult \<times> 'w control_program) option" where
  "switch_sensor gs ser now target output p =
     do { (r, c, w) \<leftarrow> setOutputMode ser (now (cp_world p)) output (cp_controller p) (cp_world p);
          let p = p\<lparr>cp_controller := c, cp_world := w\<rparr>;
          Some (case r of
            Inl e \<Rightarrow> switch_back gs (''serial setOutputMode failed: '' @ describe e) p
          | Inr _ \<Rightarrow>
              (case waitStable (cp_stableMs p) c of
                 Inl e \<Rightarrow> switch_back gs (''serial waitStable failed: '' @ describe e) p
               | Inr _ \<Rightarrow> switch_video gs target p)) }"

definition switchCallback ::
  "'w gst_system \<Rightarrow> 'w serial_os \<Rightarrow> ('w \<Rightarrow> int) \<Rightarrow> PrivateWorkMode \<Rightarrow> 'w control_program \<Rightarrow>
     (PrivateControlResult \<times> 'w control_program) option" where
  "switchCallback gs ser now target p =
     (if cp_mutex p then None else
     do { (stopped, p) \<leftarrow> cp_stop gs p;
          (if \<not> stopped
           then Some (mode_refused (''failed to stop gstreamer pipeline: '' @ gz_lastError (cp_pipeline p)) (cp_currentMode p), p)
           else case mapPrivateModeToCompositeOutput target of (output, needed) \<Rightarrow>
             if cp_serialEnabled p \<and> needed then switch_sensor gs ser now target output p
             else Some (switch_video gs target p)) })"

subsection \<open>Setting a register\<close>

text \<open>The value of a request is cast to the enumeration whose values are the register's values, and the
  setter writes it back as a number, so any value passes through.\<close>

fun control_register :: "PrivateCompositeControlKind \<Rightarrow> CompositeSensorRegister option" where
  "control_register PrivateCompositeControlKind.FusionColor = Some CompositeSensorRegister.FusionColor"
| "control_register PrivateCompositeControlKind.ContourMode = Some CompositeSensorRegister.ContourMode"
| "control_register PrivateCompositeControlKind.InfraredPolarity = Some CompositeSensorRegister.InfraredPolarity"
| "control_register PrivateCompositeControlKind.Unknown = None"

definition apply_control ::
  "'w serial_os \<Rightarrow> PrivateCompositeControlRequest \<Rightarrow> SensorController \<Rightarrow> 'w \<Rightarrow>
     (unit Result \<times> SensorController \<times> 'w) option" where
  "apply_control ser req c w =
     (case control_register (pq_kind req) of
        None \<Rightarrow> Some (Error InvalidArgument ''unsupported composite control request'', c, w)
      | Some reg \<Rightarrow> writeRegisterNamed ser reg (pq_value req) c w)"

definition compositeControlCallback ::
  "'w serial_os \<Rightarrow> PrivateCompositeControlRequest \<Rightarrow> 'w control_program \<Rightarrow>
     (PrivateControlResult \<times> 'w control_program) option" where
  "compositeControlCallback ser req p =
     (if cp_mutex p then None
      else if \<not> cp_serialEnabled p
      then Some (mode_refused ''serial control is disabled; composite parameter cannot be written'' (cp_currentMode p), p)
      else
        do { (r, c, w) \<leftarrow> apply_control ser req (cp_controller p) (cp_world p);
             Some (case r of
                 Inl e \<Rightarrow> mode_refused (''serial write register failed: '' @ describe e) (cp_currentMode p)
               | Inr _ \<Rightarrow>
                   \<lparr>pr_ok = True,
                    pr_message = ''succeeded: composite parameter applied: '' @ pq_name req @ ''='' @ pq_valueName req,
                    pr_currentMode = toString_PrivateWorkMode (cp_currentMode p)\<rparr>,
               p\<lparr>cp_controller := c, cp_world := w\<rparr>) })"

subsection \<open>Reading the configuration\<close>

definition fusionModeValueName :: "u16 \<Rightarrow> string" where
  "fusionModeValueName v =
     (if v = 1 then ''infrared'' else if v = 2 then ''lowlight'' else if v = 3 then ''fusion'' else ''unknown'')"

definition fusionColorValueName :: "u16 \<Rightarrow> string" where
  "fusionColorValueName v =
     (if v = 1 then ''black_white'' else if v = 2 then ''forest'' else if v = 3 then ''snow'' else if v = 4 then ''ocean''
      else if v = 5 then ''city'' else if v = 6 then ''desert'' else if v = 7 then ''default'' else ''unknown'')"

definition contourModeValueName :: "u16 \<Rightarrow> string" where
  "contourModeValueName v =
     (if v = 0 then ''off'' else if v = 1 then ''red'' else if v = 2 then ''green'' else if v = 3 then ''blue''
      else if v = 4 then ''purple'' else ''unknown'')"

definition infraredPolarityValueName :: "u16 \<Rightarrow> string" where
  "infraredPolarityValueName v = (if v = 0 then ''white_hot'' else if v = 1 then ''black_hot'' else ''unknown'')"

definition correctionValueName :: "u16 \<Rightarrow> string" where
  "correctionValueName v = (if v = 0 then ''idle'' else if v = 1 then ''correction'' else ''unknown'')"

definition signed16 :: "u16 \<Rightarrow> int" where
  "signed16 v = sint v"

record CompositeRegisterSpec =
  cg_index :: int
  cg_name :: string
  cg_displayName :: string
  cg_reg :: CompositeSensorRegister
  cg_signed :: bool
  cg_valueName :: "(u16 \<Rightarrow> string) option"

text \<open>The displayed names are Chinese texts, given here by their UTF-8 bytes.\<close>

definition register_spec ::
  "int \<Rightarrow> string \<Rightarrow> nat list \<Rightarrow> CompositeSensorRegister \<Rightarrow> bool \<Rightarrow> (u16 \<Rightarrow> string) option \<Rightarrow> CompositeRegisterSpec" where
  "register_spec i name display reg isSigned valueName =
     \<lparr>cg_index = i, cg_name = name, cg_displayName = map char_of display, cg_reg = reg, cg_signed = isSigned,
      cg_valueName = valueName\<rparr>"

definition compositeConfigRegisterSpecs :: "CompositeRegisterSpec list" where
  "compositeConfigRegisterSpecs =
     [
      register_spec 1 ''fusion_mode''
        [0xE8, 0x9E, 0x8D, 0xE5, 0x90, 0x88, 0xE6, 0xA8, 0xA1, 0xE5, 0xBC, 0x8F]
        CompositeSensorRegister.FusionMode False (Some fusionModeValueName),
      register_spec 2 ''fusion_color''
        [0xE8, 0x9E, 0x8D, 0xE5, 0x90, 0x88, 0xE9, 0xA2, 0x9C, 0xE8, 0x89, 0xB2]
        CompositeSensorRegister.FusionColor False (Some fusionColorValueName),
      register_spec 3 ''contour_mode''
        [0xE8, 0xBD, 0xAE, 0xE5, 0xBB, 0x93, 0xE6, 0xA8, 0xA1, 0xE5, 0xBC, 0x8F]
        CompositeSensorRegister.ContourMode False (Some contourModeValueName),
      register_spec 4 ''infrared_polarity''
        [0xE7, 0xBA, 0xA2, 0xE5, 0xA4, 0x96, 0xE6, 0x9E, 0x81, 0xE6, 0x80, 0xA7]
        CompositeSensorRegister.InfraredPolarity False (Some infraredPolarityValueName),
      register_spec 5 ''infrared_correction''
        [0xE7, 0xBA, 0xA2, 0xE5, 0xA4, 0x96, 0xE6, 0xA0, 0xA1, 0xE6, 0xAD, 0xA3]
        CompositeSensorRegister.InfraredCorrection False (Some correctionValueName),
      register_spec 6 ''infrared_brightness''
        [0xE7, 0xBA, 0xA2, 0xE5, 0xA4, 0x96, 0xE4, 0xBA, 0xAE, 0xE5, 0xBA, 0xA6]
        CompositeSensorRegister.InfraredBrightness False None,
      register_spec 7 ''infrared_contrast''
        [0xE7, 0xBA, 0xA2, 0xE5, 0xA4, 0x96, 0xE5, 0xAF, 0xB9, 0xE6, 0xAF, 0x94, 0xE5, 0xBA, 0xA6]
        CompositeSensorRegister.InfraredContrast False None,
      register_spec 8 ''lowlight_brightness''
        [0xE5, 0xBE, 0xAE, 0xE5, 0x85, 0x89, 0xE4, 0xBA, 0xAE, 0xE5, 0xBA, 0xA6]
        CompositeSensorRegister.LowlightBrightness False None,
      register_spec 9 ''lowlight_contrast''
        [0xE5, 0xBE, 0xAE, 0xE5, 0x85, 0x89, 0xE5, 0xAF, 0xB9, 0xE6, 0xAF, 0x94, 0xE5, 0xBA, 0xA6]
        CompositeSensorRegister.LowlightContrast False None,
      register_spec 10 ''infrared_registration_zoom''
        [0xE7, 0xBA, 0xA2, 0xE5, 0xA4, 0x96, 0xE9, 0x85, 0x8D, 0xE5, 0x87, 0x86, 0xE6, 0x8C, 0xA1, 0xE4, 0xBD, 0x8D]
        CompositeSensorRegister.InfraredRegistrationZoom False None,
      register_spec 11 ''infrared_registration_offset_x''
        [0xE7, 0xBA, 0xA2, 0xE5, 0xA4, 0x96, 0xE9, 0x85, 0x8D, 0xE5, 0x87, 0x86, 0x20, 0x78, 0x20, 0xE5, 0x81, 0x8F, 0xE7, 0xA7, 0xBB]
        CompositeSensorRegister.InfraredRegistrationOffsetX True None,
      register_spec 12 ''infrared_registration_offset_y''
        [0xE7, 0xBA, 0xA2, 0xE5, 0xA4, 0x96, 0xE9, 0x85, 0x8D, 0xE5, 0x87, 0x86, 0x20, 0x79, 0x20, 0xE5, 0x81, 0x8F, 0xE7, 0xA7, 0xBB]
        CompositeSensorRegister.InfraredRegistrationOffsetY True None,
      register_spec 13 ''lowlight_registration_zoom''
        [0xE5, 0xBE, 0xAE, 0xE5, 0x85, 0x89, 0xE9, 0x85, 0x8D, 0xE5, 0x87, 0x86, 0xE6, 0x8C, 0xA1, 0xE4, 0xBD, 0x8D]
        CompositeSensorRegister.LowlightRegistrationZoom False None,
      register_spec 14 ''lowlight_registration_offset_x''
        [0xE5, 0xBE, 0xAE, 0xE5, 0x85, 0x89, 0xE9, 0x85, 0x8D, 0xE5, 0x87, 0x86, 0x20, 0x78, 0x20, 0xE5, 0x81, 0x8F, 0xE7, 0xA7, 0xBB]
        CompositeSensorRegister.LowlightRegistrationOffsetX True None,
      register_spec 15 ''lowlight_registration_offset_y''
        [0xE5, 0xBE, 0xAE, 0xE5, 0x85, 0x89, 0xE9, 0x85, 0x8D, 0xE5, 0x87, 0x86, 0x20, 0x79, 0x20, 0xE5, 0x81, 0x8F, 0xE7, 0xA7, 0xBB]
        CompositeSensorRegister.LowlightRegistrationOffsetY True None]"

definition register_value :: "CompositeRegisterSpec \<Rightarrow> u16 \<Rightarrow> PrivateCompositeRegisterValue" where
  "register_value spec raw =
     \<lparr>pg_index = cg_index spec, pg_name = cg_name spec, pg_displayName = cg_displayName spec,
      pg_address = register_address (cg_reg spec), pg_rawValue = raw,
      pg_value = (if cg_signed spec then signed16 raw else int (unat raw)),
      pg_valueName = (case cg_valueName spec of None \<Rightarrow> [] | Some f \<Rightarrow> f raw)\<rparr>"

fun query_loop ::
  "'w serial_os \<Rightarrow> CompositeRegisterSpec list \<Rightarrow> PrivateCompositeRegisterValue list \<Rightarrow> SensorController \<Rightarrow> 'w \<Rightarrow>
     (PrivateCompositeConfigSnapshot \<times> SensorController \<times> 'w) option" where
  "query_loop ser [] out c w =
     Some (\<lparr>ps_ok = True, ps_message = ''succeeded: composite config read successfully'', ps_registers = out\<rparr>, c, w)"
| "query_loop ser (spec # specs) out c w =
     do { (r, c, w) \<leftarrow> readRegisterNamed ser (cg_reg spec) c w;
          (case r of
             Inl e \<Rightarrow>
               Some (\<lparr>ps_ok = False,
                      ps_message = ''failed: read register '' @ cg_name spec @ '' at 0x'' @
                        show_hex (unat (register_address (cg_reg spec))) @ '' failed: '' @ describe e,
                      ps_registers = out\<rparr>, c, w)
           | Inr raw \<Rightarrow> query_loop ser specs (out @ [register_value spec raw]) c w) }"

definition compositeConfigQueryCallback ::
  "'w serial_os \<Rightarrow> 'w control_program \<Rightarrow> (PrivateCompositeConfigSnapshot \<times> 'w control_program) option" where
  "compositeConfigQueryCallback ser p =
     (if cp_mutex p then None
      else if \<not> cp_serialEnabled p
      then Some (\<lparr>ps_ok = False, ps_message = ''failed: serial control is disabled; composite config cannot be read'',
                  ps_registers = []\<rparr>, p)
      else
        do { (snapshot, c, w) \<leftarrow> query_loop ser compositeConfigRegisterSpecs [] (cp_controller p) (cp_world p);
             Some (snapshot, p\<lparr>cp_controller := c, cp_world := w\<rparr>) })"

subsection \<open>Starting, watching and ending\<close>

text \<open>The sockets of the server act on the world inside the program's state.\<close>

definition on_world :: "('w \<Rightarrow> 'a \<times> 'w) \<Rightarrow> 'w control_program \<Rightarrow> 'a \<times> 'w control_program" where
  "on_world f p = (case f (cp_world p) of (a, w) \<Rightarrow> (a, p\<lparr>cp_world := w\<rparr>))"

definition program_sockets :: "'w sockets \<Rightarrow> 'w control_program sockets" where
  "program_sockets sk =
     \<lparr>sk_socket = on_world (sk_socket sk), sk_reuse = (\<lambda>fd p. p\<lparr>cp_world := sk_reuse sk fd (cp_world p)\<rparr>),
      sk_aton = sk_aton sk, sk_bind = (\<lambda>fd host port. on_world (sk_bind sk fd host port)),
      sk_listen = (\<lambda>fd n. on_world (sk_listen sk fd n)), sk_accept = (\<lambda>fd. on_world (sk_accept sk fd)),
      sk_close = (\<lambda>fd p. p\<lparr>cp_world := sk_close sk fd (cp_world p)\<rparr>),
      sk_shutdown = (\<lambda>fd p. p\<lparr>cp_world := sk_shutdown sk fd (cp_world p)\<rparr>),
      sk_recv = (\<lambda>fd n. on_world (sk_recv sk fd n)), sk_send = (\<lambda>fd data. on_world (sk_send sk fd data))\<rparr>"

text \<open>The program ends with an exit code, or serves. Before the options are read there is no state.\<close>

datatype 'w control_outcome =
    Quit int "'w control_program option"
  | Serving "'w control_program PrivateControlServer" "'w control_program"

definition cp_shutdown :: "'w serial_os \<Rightarrow> 'w control_program \<Rightarrow> 'w control_program" where
  "cp_shutdown ser p =
     (case ctl_shutdown ser (cp_controller p) (cp_world p) of (c, w) \<Rightarrow> p\<lparr>cp_controller := c, cp_world := w\<rparr>)"

definition start_server ::
  "'w gst_system \<Rightarrow> 'w serial_os \<Rightarrow> ('w \<Rightarrow> int) \<Rightarrow> 'w sockets \<Rightarrow> PrivateControlServerConfig \<Rightarrow> 'w control_program \<Rightarrow>
     'w control_outcome option" where
  "start_server gs ser now sk config p =
     (case pc_start (program_sockets sk) config (Some (switchCallback gs ser now)) (Some (compositeControlCallback ser))
             (Some (compositeConfigQueryCallback ser)) new_private_server p of
        (False, s, p) \<Rightarrow> do { (ok, p) \<leftarrow> cp_stop gs p; Some (Quit 1 (Some (cp_shutdown ser p))) }
      | (True, s, p) \<Rightarrow> Some (Serving s p))"

definition start_video ::
  "'w gst_system \<Rightarrow> 'w serial_os \<Rightarrow> ('w \<Rightarrow> int) \<Rightarrow> 'w sockets \<Rightarrow> PrivateControlServerConfig \<Rightarrow> 'w control_program \<Rightarrow>
     'w control_outcome option" where
  "start_video gs ser now sk config p =
     (case cp_start gs p of
        (False, p) \<Rightarrow> Some (Quit 1 (Some (cp_shutdown ser p)))
      | (True, p) \<Rightarrow> start_server gs ser now sk config p)"

definition start_serial ::
  "'w serial_os \<Rightarrow> control_options \<Rightarrow> SerialConfig \<Rightarrow> 'w control_program \<Rightarrow> unit Result \<times> 'w control_program" where
  "start_serial ser opts serial p =
     (if \<not> cp_serialEnabled p then (Success, p)
      else case ctl_init ser serial False (setAckRequired (co_ackRequired opts) (cp_controller p)) (cp_world p) of
        (r, c, w) \<Rightarrow> (r, p\<lparr>cp_controller := c, cp_world := w\<rparr>))"

definition initial_program :: "control_options \<Rightarrow> GStreamerPipelineConfigManager \<Rightarrow> 'w \<Rightarrow> 'w control_program" where
  "initial_program opts gy w =
     (let initial = PrivateWorkMode.LowlightThermalComposite in
      \<lparr>cp_gst = gy, cp_serialEnabled = co_serialEnabled opts, cp_stableMs = co_stableMs opts, cp_currentMode = initial,
       cp_pipeline = new_gst_pipeline (configForModeCommand (toCommandName initial) gy), cp_controller = new_controller,
       cp_world = w, cp_mutex = False\<rparr>)"

definition control_main ::
  "'w files \<Rightarrow> (FlatConfig \<Rightarrow> (string \<times> string) list) \<Rightarrow> 'w gst_system \<Rightarrow> 'w serial_os \<Rightarrow> ('w \<Rightarrow> int) \<Rightarrow> 'w sockets \<Rightarrow>
     string list \<Rightarrow> 'w \<Rightarrow> 'w control_outcome option" where
  "control_main fl order gs ser now sk args w =
     (case parseArgs args default_control_options of
        HelpShown \<Rightarrow> Some (Quit 0 None)
      | Refused \<Rightarrow> Some (Quit 2 None)
      | Accepted opts \<Rightarrow>
          (case gy_load fl order (co_gst opts) new_gst_manager new_config_manager w of
             (Inl e, gy, cm) \<Rightarrow> Some (Quit 1 None)
           | (Inr _, gy, cm) \<Rightarrow>
               (case start_serial ser opts (serial_settings opts (sys_serial (cfm_config cm))) (initial_program opts gy w) of
                  (Inl e, p) \<Rightarrow> Some (Quit 1 (Some p))
                | (Inr _, p) \<Rightarrow> start_video gs ser now sk (co_server opts) p)))"

text \<open>One turn of the waiting loop: whether the program goes on. It looks under the mutex, and when no process is
  there it keeps the mutex for what it does then.\<close>

definition control_watch :: "'w gst_system \<Rightarrow> 'w control_program \<Rightarrow> bool \<times> 'w control_program" where
  "control_watch gs p =
     (case gz_isRunning gs (cp_pipeline p) (cp_world p) of
        (True, g, w) \<Rightarrow> (True, p\<lparr>cp_pipeline := g, cp_world := w\<rparr>)
      | (False, g, w) \<Rightarrow> (False, p\<lparr>cp_pipeline := g, cp_world := w, cp_mutex := True\<rparr>))"

text \<open>The two ends of a program that serves, after the watch found no process and on a signal.\<close>

definition control_lost ::
  "'w serial_os \<Rightarrow> 'w sockets \<Rightarrow> ('w control_program \<Rightarrow> 'w control_program option) \<Rightarrow>
     'w control_program PrivateControlServer \<Rightarrow> 'w control_program \<Rightarrow> 'w control_outcome option" where
  "control_lost ser sk join s p =
     do { (s, p) \<leftarrow> pc_stop (program_sockets sk) join s p; Some (Quit 1 (Some (cp_shutdown ser p))) }"

definition control_end ::
  "'w gst_system \<Rightarrow> 'w serial_os \<Rightarrow> 'w sockets \<Rightarrow> ('w control_program \<Rightarrow> 'w control_program option) \<Rightarrow>
     'w control_program PrivateControlServer \<Rightarrow> 'w control_program \<Rightarrow> 'w control_outcome option" where
  "control_end gs ser sk join s p =
     do { (s, p) \<leftarrow> pc_stop (program_sockets sk) join s p;
          (ok, p) \<leftarrow> cp_stop gs p;
          Some (Quit 0 (Some (if cp_serialEnabled p then cp_shutdown ser p else p))) }"

subsection \<open>What starting and stopping do\<close>

text \<open>The pipeline runs a configuration: the process it knows was made with that configuration's command.\<close>

definition launched :: "'w gst_system \<Rightarrow> GStreamerPipelineConfig \<Rightarrow> GStreamerPipeline \<Rightarrow> bool" where
  "launched gs config g \<longleftrightarrow> gz_config g = config \<and> 0 < gq_pid (gz_process g) \<and>
     (\<exists>w w'. gw_fork gs (buildUdpMpegTsH264Args config) w = (Inr (gq_pid (gz_process g)), w'))"

text \<open>The processes have nothing to do with the sensor that \<open>view\<close> sees.\<close>

definition apart :: "'w gst_system \<Rightarrow> ('w \<Rightarrow> 'v) \<Rightarrow> bool" where
  "apart gs view \<longleftrightarrow>
     (\<forall>args w. view (snd (gw_fork gs args w)) = view w) \<and> (\<forall>pid w. view (snd (gw_wait gs pid w)) = view w) \<and>
     (\<forall>pid sig w. view (gw_kill gs pid sig w) = view w) \<and> (\<forall>ms w. view (gw_sleep gs ms w) = view w)"

lemma isRunning_apart: "apart gs view \<Longrightarrow> gq_isRunning gs q w = (run, q', w') \<Longrightarrow> view w' = view w"
proof -
  assume a: "apart gs view" "gq_isRunning gs q w = (run, q', w')"
  obtain st v where "gw_wait gs (gq_pid q) w = (st, v)" by fastforce
  moreover from a(1) this have "view v = view w" unfolding apart_def by (metis snd_conv)
  ultimately show ?thesis using a(2) by (auto simp: gq_isRunning_def split: if_splits wait_status.split_asm)
qed

lemma gq_start_effect:
  assumes "gq_start gs args q w = (ok, q', w')"
  shows "apart gs view \<Longrightarrow> view w' = view w"
    and "ok \<Longrightarrow> 0 < gq_pid q' \<and> (\<exists>v v'. gw_fork gs args v = (Inr (gq_pid q'), v'))"
    and "\<not> ok \<Longrightarrow> gq_pid q \<le> 0 \<Longrightarrow> gq_pid q' \<le> 0"
proof -
  have running: "run \<Longrightarrow> q2 = q1 \<and> 0 < gq_pid q1" "\<not> run \<Longrightarrow> gq_pid q2 \<le> 0" "gq_pid q1 \<le> 0 \<Longrightarrow> q2 = q1 \<and> \<not> run"
    if "gq_isRunning gs q1 v = (run, q2, v')" for q1 v run q2 v'
    using that by (auto simp: gq_isRunning_def split: if_splits prod.split_asm wait_status.split_asm)
  obtain run q1 w1 where r: "gq_isRunning gs q w = (run, q1, w1)" by (cases "gq_isRunning gs q w") auto
  obtain f w2 where f: "gw_fork gs args w1 = (f, w2)" by fastforce
  note cases = assms[unfolded gq_start_def]
  show "view w' = view w" if a: "apart gs view"
  proof -
    from a f have "view w2 = view w1" unfolding apart_def by (metis snd_conv)
    moreover from a have "view (gw_sleep gs 100 v) = view v" for v by (simp add: apart_def)
    moreover note isRunning_apart[OF a r]
    ultimately show ?thesis using cases r f
      by (auto split: if_splits sum.split_asm prod.split_asm dest: isRunning_apart[OF a])
  qed
  show "0 < gq_pid q' \<and> (\<exists>v v'. gw_fork gs args v = (Inr (gq_pid q'), v'))" if ok
  proof (cases f)
    case (Inl e) with cases r f that show ?thesis by (simp split: if_splits)
  next
    case (Inr child)
    with cases r f that obtain run' v' where
      "gq_isRunning gs (q1\<lparr>gq_pid := child, gq_exitCode := -1, gq_lastError := []\<rparr>) (gw_sleep gs 100 w2) = (True, q', v')"
      by (auto split: if_splits prod.split_asm)
    from running(1)[OF this] f Inr show ?thesis by auto
  qed
  show "gq_pid q' \<le> 0" if "\<not> ok" "gq_pid q \<le> 0"
  proof -
    from running(3)[OF r that(2)] that(2) have "gq_pid q1 \<le> 0" "\<not> run" by simp_all
    with cases r f that show ?thesis by (auto split: if_splits sum.split_asm prod.split_asm dest: running(2))
  qed
qed

lemma cp_start_effect:
  assumes "cp_start gs p = (ok, p')"
  shows "p' = p\<lparr>cp_pipeline := cp_pipeline p', cp_world := cp_world p'\<rparr>"
    and "gz_config (cp_pipeline p') = gz_config (cp_pipeline p)"
    and "apart gs view \<Longrightarrow> view (cp_world p') = view (cp_world p)"
    and "ok \<Longrightarrow> launched gs (gz_config (cp_pipeline p)) (cp_pipeline p')"
    and "\<not> ok \<Longrightarrow> gq_pid (gz_process (cp_pipeline p)) \<le> 0 \<Longrightarrow> gq_pid (gz_process (cp_pipeline p')) \<le> 0"
proof -
  obtain q w where q: "gq_start gs (buildUdpMpegTsH264Args (gz_config (cp_pipeline p))) (gz_process (cp_pipeline p)) (cp_world p)
      = (ok, q, w)" and p': "cp_world p' = w" "gz_process (cp_pipeline p') = q" "gz_config (cp_pipeline p') = gz_config (cp_pipeline p)"
    and eq: "p' = p\<lparr>cp_pipeline := cp_pipeline p', cp_world := cp_world p'\<rparr>"
    using assms by (auto simp: cp_start_def gz_start_def split: prod.split_asm)
  show "p' = p\<lparr>cp_pipeline := cp_pipeline p', cp_world := cp_world p'\<rparr>" by (rule eq)
  show "gz_config (cp_pipeline p') = gz_config (cp_pipeline p)" by (rule p')
  show "apart gs view \<Longrightarrow> view (cp_world p') = view (cp_world p)" using gq_start_effect(1)[OF q] p' by simp
  show "ok \<Longrightarrow> launched gs (gz_config (cp_pipeline p)) (cp_pipeline p')"
    using gq_start_effect(2)[OF q] p' by (simp add: launched_def)
  show "\<not> ok \<Longrightarrow> gq_pid (gz_process (cp_pipeline p)) \<le> 0 \<Longrightarrow> gq_pid (gz_process (cp_pipeline p')) \<le> 0"
    using gq_start_effect(3)[OF q] p' by simp
qed

lemma poll_exit_apart:
  assumes "clock_law gs" "apart gs view" "poll_exit gs deadline q w = Some (ended, q', w')"
  shows "view w' = view w"
  using assms(3)
proof (induction "nat (deadline - gw_now gs w)" arbitrary: q w rule: less_induct)
  case less
  obtain run q1 w1 where r: "gq_isRunning gs q w = (run, q1, w1)" by (cases "gq_isRunning gs q w") auto
  note v = isRunning_apart[OF assms(2) r]
  show ?case
  proof (cases "gw_now gs w < deadline \<and> run")
    case True
    from gq_isRunning_effect[OF assms(1) r] assms(1)
    have "gw_now gs w < gw_now gs (gw_sleep gs 50 w1)" unfolding clock_law_def by (metis le_less_trans zero_less_numeral)
    then have "nat (deadline - gw_now gs (gw_sleep gs 50 w1)) < nat (deadline - gw_now gs w)" using True by simp
    moreover from less(2) True r have "poll_exit gs deadline q1 (gw_sleep gs 50 w1) = Some (ended, q', w')"
      by (subst (asm) poll_exit.simps) simp
    moreover have "view (gw_sleep gs 50 w1) = view w1" using assms(2) by (simp add: apart_def)
    ultimately show ?thesis using less(1) v by metis
  next
    case False
    with less(2) r v show ?thesis by (subst (asm) poll_exit.simps) (auto split: if_splits)
  qed
qed

lemma gq_stop_apart:
  assumes "clock_law gs" "apart gs view" "gq_stop gs ms q w = Some (ok, q', w')"
  shows "view w' = view w"
proof -
  have escalate: "view v' = view v" if "escalate gs signals q1 v = Some (ended, q2, v')" for signals q1 v ended q2 v'
    using that
  proof (induction signals arbitrary: q1 v)
    case (Cons sig signals)
    obtain n t where sig: "sig = (n, t)" by (cases sig)
    with Cons(2) obtain e q3 v3 where wait: "waitForExit gs t q1 (gw_kill gs (gq_pid q1) n v) = Some (e, q3, v3)"
      and rest: "(if e then Some (True, q3\<lparr>gq_pid := -1\<rparr>, v3) else escalate gs signals q3 v3) = Some (ended, q2, v')"
      by (auto elim!: bind_SomeE)
    from poll_exit_apart[OF assms(1,2) wait[unfolded waitForExit_def]] assms(2) have "view v3 = view v"
      by (simp add: apart_def)
    with rest Cons(1) show ?case by (auto split: if_splits)
  qed simp
  obtain run q1 w1 where r: "gq_isRunning gs q w = (run, q1, w1)" by (cases "gq_isRunning gs q w") auto
  with assms(3) isRunning_apart[OF assms(2) r] show ?thesis
    by (auto simp: gq_stop_def simp del: escalate.simps split: if_splits dest: escalate)
qed

abbreviation cp_pid :: "'w control_program \<Rightarrow> int" where
  "cp_pid p \<equiv> gq_pid (gz_process (cp_pipeline p))"

lemma cp_stop_returns:
  assumes "clock_law gs"
  shows "\<exists>ok p'. cp_stop gs p = Some (ok, p') \<and> p' = p\<lparr>cp_pipeline := cp_pipeline p', cp_world := cp_world p'\<rparr> \<and>
    gz_config (cp_pipeline p') = gz_config (cp_pipeline p) \<and> (if ok then cp_pid p' \<le> 0 else cp_pid p' = cp_pid p)"
proof -
  from gq_stop_returns[OF assms, of "gx_stopTimeoutMs (gz_config (cp_pipeline p))" "gz_process (cp_pipeline p)" "cp_world p"]
  obtain ok q' w' where
    "gq_stop gs (gx_stopTimeoutMs (gz_config (cp_pipeline p))) (gz_process (cp_pipeline p)) (cp_world p) = Some (ok, q', w')"
    and e: "if ok then gq_pid q' \<le> 0 else 0 < gq_pid q' \<and>
      q' = (gz_process (cp_pipeline p))\<lparr>gq_lastError := ''failed to stop gst-launch process''\<rparr>" by blast
  moreover from e have "if ok then gq_pid q' \<le> 0 else gq_pid q' = cp_pid p" by (cases ok) simp_all
  ultimately show ?thesis by (cases ok) (auto simp add: cp_stop_def gz_stop_def)
qed

lemma cp_stop_frame:
  assumes "cp_stop gs p = Some (ok, p')"
  shows "p' = p\<lparr>cp_pipeline := cp_pipeline p', cp_world := cp_world p'\<rparr>"
    and "gz_config (cp_pipeline p') = gz_config (cp_pipeline p)"
    and "clock_law gs \<Longrightarrow> apart gs view \<Longrightarrow> view (cp_world p') = view (cp_world p)"
  using assms by (auto simp: cp_stop_def gz_stop_def elim!: bind_SomeE dest: gq_stop_apart)

subsection \<open>The switch\<close>

text \<open>How a switch can end, on any line and with any processes.\<close>

lemma switch_video_cases:
  assumes "switch_video gs target p = (r, p')"
  shows "cp_currentMode p' = target" "gz_config (cp_pipeline p') = mode_config target p" "cp_gst p' = cp_gst p"
    and "cp_serialEnabled p' = cp_serialEnabled p" "cp_stableMs p' = cp_stableMs p" "cp_controller p' = cp_controller p"
    and "apart gs view \<Longrightarrow> view (cp_world p') = view (cp_world p)"
    and "pr_ok r \<Longrightarrow> launched gs (mode_config target p) (cp_pipeline p')"
    and "\<not> pr_ok r \<Longrightarrow> gq_pid (gz_process (cp_pipeline p)) \<le> 0 \<Longrightarrow> gq_pid (gz_process (cp_pipeline p')) \<le> 0"
    and "cp_mutex p' = cp_mutex p"
proof -
  let ?q = "p\<lparr>cp_pipeline := gz_setConfig (mode_config target p) (cp_pipeline p), cp_currentMode := target\<rparr>"
  obtain ok p1 where st: "cp_start gs ?q = (ok, p1)" by fastforce
  with assms have p': "p' = p1" "pr_ok r = ok"
    by (auto simp: switch_video_def Let_def mode_refused_def split: bool.split_asm)
  note eff = cp_start_effect[OF st]
  from eff(1) have f: "cp_currentMode p1 = target" "cp_gst p1 = cp_gst p" "cp_serialEnabled p1 = cp_serialEnabled p"
    "cp_stableMs p1 = cp_stableMs p" "cp_controller p1 = cp_controller p" "cp_mutex p1 = cp_mutex p" by (cases p1; simp)+
  show "cp_currentMode p' = target" "cp_gst p' = cp_gst p" "cp_serialEnabled p' = cp_serialEnabled p"
    "cp_stableMs p' = cp_stableMs p" "cp_controller p' = cp_controller p" "cp_mutex p' = cp_mutex p" using f p' by simp_all
  show "gz_config (cp_pipeline p') = mode_config target p" using eff(2) p' by (simp add: gz_setConfig_def)
  show "apart gs view \<Longrightarrow> view (cp_world p') = view (cp_world p)" using eff(3)[of view] p' by simp
  show "pr_ok r \<Longrightarrow> launched gs (mode_config target p) (cp_pipeline p')" using eff(4) p' by (simp add: gz_setConfig_def)
  show "\<not> pr_ok r \<Longrightarrow> gq_pid (gz_process (cp_pipeline p)) \<le> 0 \<Longrightarrow> gq_pid (gz_process (cp_pipeline p')) \<le> 0"
    using eff(5) p' by (simp add: gz_setConfig_def)
qed

lemma switch_video_started:
  "switch_video gs target p = (r, p') \<Longrightarrow> \<exists>q. gz_config (cp_pipeline q) = mode_config target p \<and>
     gq_pid (gz_process (cp_pipeline q)) = gq_pid (gz_process (cp_pipeline p)) \<and> cp_start gs q = (pr_ok r, p')"
  by (rule exI[of _ "p\<lparr>cp_pipeline := gz_setConfig (mode_config target p) (cp_pipeline p), cp_currentMode := target\<rparr>"])
    (auto simp: switch_video_def Let_def mode_refused_def gz_setConfig_def split: prod.split_asm bool.split_asm)

lemma switch_back_cases:
  assumes "switch_back gs message p = (r, p')"
  shows "\<not> pr_ok r" "p' = p\<lparr>cp_pipeline := cp_pipeline p', cp_world := cp_world p'\<rparr>"
    and "gz_config (cp_pipeline p') = gz_config (cp_pipeline p)"
    and "apart gs view \<Longrightarrow> view (cp_world p') = view (cp_world p)"
proof -
  obtain ok p1 where st: "cp_start gs p = (ok, p1)" by fastforce
  with assms have "p' = p1" "\<not> pr_ok r" by (auto simp: switch_back_def mode_refused_def)
  with cp_start_effect[OF st] show "\<not> pr_ok r" "p' = p\<lparr>cp_pipeline := cp_pipeline p', cp_world := cp_world p'\<rparr>"
    "gz_config (cp_pipeline p') = gz_config (cp_pipeline p)"
    "apart gs view \<Longrightarrow> view (cp_world p') = view (cp_world p)" by blast+
qed

text \<open>The pipeline always has the configuration of the current mode.\<close>

definition configured :: "'w control_program \<Rightarrow> bool" where
  "configured p \<longleftrightarrow> gz_config (cp_pipeline p) = mode_config (cp_currentMode p) p"

lemma configured_frame:
  "configured p \<Longrightarrow> p' = p\<lparr>cp_pipeline := cp_pipeline p', cp_world := cp_world p'\<rparr> \<Longrightarrow>
     gz_config (cp_pipeline p') = gz_config (cp_pipeline p) \<Longrightarrow> configured p' \<and> cp_gst p' = cp_gst p"
  unfolding configured_def mode_config_def by (metis (no_types, lifting) control_program.ext_inject control_program.surjective control_program.update_convs(5,7))

end
