(* ===== verification/Tri_ControlRuns.thy ===== *)
theory Tri_ControlRuns
  imports Tri_ControlProgram
begin

text \<open>
  Runs of the program that is controlled over HTTP: what a mode switch does over a line that works, what every
  run of requests keeps on any line, that the requests are answered, and that a register set over HTTP is the
  one read back.
\<close>

subsection \<open>A mode switch\<close>

text \<open>The registers of the sensor after a switch, and a sensor that is in the mode.\<close>

definition switched_registers :: "PrivateWorkMode \<Rightarrow> 'w control_program \<Rightarrow> (u16 \<Rightarrow> u16) \<Rightarrow> u16 \<Rightarrow> u16" where
  "switched_registers m p regs =
     (if cp_serialEnabled p \<and> snd (mapPrivateModeToCompositeOutput m)
      then regs(register_address CompositeSensorRegister.FusionMode :=
             outputModeRegisterValue (fst (mapPrivateModeToCompositeOutput m)))
      else regs)"

text \<open>The clock moves, the video processes leave the sensor alone, the mutex is free, and the controller stands at a
  faithful line that is idle, unless serial control is off.\<close>

definition orderly :: "'w gst_system \<Rightarrow> 'w serial_os \<Rightarrow> ('w \<Rightarrow> sensor_device) \<Rightarrow> 'w control_program \<Rightarrow> bool" where
  "orderly gs ser view p \<longleftrightarrow> clock_law gs \<and> apart gs view \<and> 0 \<le> cp_stableMs p \<and> \<not> cp_mutex p \<and>
     (cp_serialEnabled p \<longrightarrow> connected ser view (cp_controller p) \<and> idle (view (cp_world p)))"

lemma needed_mode: "mapPrivateModeToCompositeOutput m = (outm, True) \<Longrightarrow> outm \<noteq> CompositeSensorOutputMode.Unknown"
  by (cases m) auto

lemma waitStable_ready: "isReady c \<Longrightarrow> 0 \<le> ms \<Longrightarrow> waitStable ms c = Success"
  by (simp add: waitStable_def ensureReady_def)

text \<open>What the second half of a switch leaves when no process is there before it: the pipeline was started with the
  configuration of the mode, and the answer is whether it did start.\<close>

definition switched ::
  "'w gst_system \<Rightarrow> ('w \<Rightarrow> sensor_device) \<Rightarrow> PrivateWorkMode \<Rightarrow> 'w control_program \<Rightarrow> PrivateControlResult \<Rightarrow>
     'w control_program \<Rightarrow> bool" where
  "switched gs view m p r p' \<longleftrightarrow>
     cp_currentMode p' = m \<and> gz_config (cp_pipeline p') = mode_config m p \<and>
     dv_regs (view (cp_world p')) = switched_registers m p (dv_regs (view (cp_world p))) \<and>
     (if pr_ok r then launched gs (mode_config m p) (cp_pipeline p') else cp_pid p' \<le> 0) \<and>
     (\<exists>q. gz_config (cp_pipeline q) = mode_config m p \<and> cp_pid q \<le> 0 \<and> cp_start gs q = (pr_ok r, p'))"

text \<open>A switch that could not stop the process changes nothing but the error text of the process.\<close>

definition stop_refused ::
  "('w \<Rightarrow> sensor_device) \<Rightarrow> 'w control_program \<Rightarrow> 'w control_program \<Rightarrow> PrivateControlResult \<Rightarrow> 'w control_program \<Rightarrow> bool" where
  "stop_refused view p p1 r p' \<longleftrightarrow>
     p' = p1 \<and> r = mode_refused (''failed to stop gstreamer pipeline: '' @ gz_lastError (cp_pipeline p1)) (cp_currentMode p) \<and>
     cp_currentMode p' = cp_currentMode p \<and> cp_pid p' = cp_pid p \<and>
     gz_config (cp_pipeline p') = gz_config (cp_pipeline p) \<and> view (cp_world p') = view (cp_world p)"

lemma switch_orderly:
  assumes "orderly gs ser view p"
  shows "\<exists>stopped p1 r p'. cp_stop gs p = Some (stopped, p1) \<and> switchCallback gs ser now m p = Some (r, p') \<and>
    orderly gs ser view p' \<and> cp_gst p' = cp_gst p \<and> cp_serialEnabled p' = cp_serialEnabled p \<and>
    (if stopped then switched gs view m p r p' else stop_refused view p p1 r p')"
proof -
  from assms have law: "clock_law gs" and ap: "apart gs view" and free: "\<not> cp_mutex p" by (simp_all add: orderly_def)
  from cp_stop_returns[OF law] obtain ok p1 where stop: "cp_stop gs p = Some (ok, p1)"
    and p1: "p1 = p\<lparr>cp_pipeline := cp_pipeline p1, cp_world := cp_world p1\<rparr>"
    and cfg: "gz_config (cp_pipeline p1) = gz_config (cp_pipeline p)"
    and pid: "if ok then cp_pid p1 \<le> 0 else cp_pid p1 = cp_pid p" by blast
  have v1: "view (cp_world p1) = view (cp_world p)" using cp_stop_frame(3)[OF stop law ap] .
  from p1 have f1: "cp_gst p1 = cp_gst p" "cp_serialEnabled p1 = cp_serialEnabled p" "cp_stableMs p1 = cp_stableMs p"
    "cp_currentMode p1 = cp_currentMode p" "cp_controller p1 = cp_controller p" "cp_mutex p1 = cp_mutex p" by (cases p1; simp)+
  have o1: "orderly gs ser view p1" using assms f1 v1 by (simp add: orderly_def)
  have finish: "orderly gs ser view p' \<and> cp_gst p' = cp_gst p \<and> cp_serialEnabled p' = cp_serialEnabled p \<and>
      switched gs view m p r p'"
    if sw: "switch_video gs m q = (r, p')" and q: "orderly gs ser view q" "cp_gst q = cp_gst p" "cp_pid q \<le> 0"
      "cp_serialEnabled q = cp_serialEnabled p"
      "dv_regs (view (cp_world q)) = switched_registers m p (dv_regs (view (cp_world p)))" for q r p'
  proof -
    from switch_video_started[OF sw] q(3) q(2,4) have st: "\<exists>q. gz_config (cp_pipeline q) = mode_config m p \<and> cp_pid q \<le> 0 \<and>
        cp_start gs q = (pr_ok r, p')" by (auto simp: mode_config_def)
    from switch_video_cases(1-6,8,9,10)[OF sw] switch_video_cases(7)[OF sw ap] q have f:
      "cp_currentMode p' = m" "gz_config (cp_pipeline p') = mode_config m p" "cp_gst p' = cp_gst p"
      "cp_serialEnabled p' = cp_serialEnabled p" "cp_serialEnabled q = cp_serialEnabled p" "cp_stableMs p' = cp_stableMs q"
      "cp_controller p' = cp_controller q" "view (cp_world p') = view (cp_world q)"
      "if pr_ok r then launched gs (mode_config m p) (cp_pipeline p') else cp_pid p' \<le> 0" "cp_mutex p' = cp_mutex q"
      by (simp_all add: mode_config_def)
    from q(1) f(4-8,10) have "orderly gs ser view p'" unfolding orderly_def by simp
    with f st q(5) show ?thesis unfolding switched_def by simp
  qed
  show ?thesis
  proof (cases ok)
    case False
    with stop f1 v1 cfg pid o1 free show ?thesis by (auto simp: switchCallback_def stop_refused_def)
  next
    case True
    obtain outm needed where map: "mapPrivateModeToCompositeOutput m = (outm, needed)" by fastforce
    show ?thesis
    proof (cases "cp_serialEnabled p1 \<and> needed")
      case False
      obtain r p' where sw: "switch_video gs m p1 = (r, p')" by fastforce
      have "dv_regs (view (cp_world p1)) = switched_registers m p (dv_regs (view (cp_world p)))"
        using False f1 v1 map by (auto simp: switched_registers_def)
      from finish[OF sw o1 f1(1) _ f1(2) this] True pid stop map False sw free show ?thesis
        by (auto simp: switchCallback_def)
    next
      case ser: True
      with o1 have con: "connected ser view (cp_controller p1)" "idle (view (cp_world p1))" by (simp_all add: orderly_def)
      from map ser have "mapPrivateModeToCompositeOutput m = (outm, True)" by simp
      then have known: "outm \<noteq> CompositeSensorOutputMode.Unknown" by (rule needed_mode)
      from setOutputMode_faithful[OF con known, of "now (cp_world p1)"] obtain c2 w2 where
        set: "setOutputMode ser (now (cp_world p1)) outm (cp_controller p1) (cp_world p1) = Some (Success, c2, w2)"
        and c2: "connected ser view c2" "idle (view w2)"
        and regs: "dv_regs (view w2) =
          (dv_regs (view (cp_world p1)))(register_address CompositeSensorRegister.FusionMode := outputModeRegisterValue outm)"
        by blast
      let ?q = "p1\<lparr>cp_controller := c2, cp_world := w2\<rparr>"
      have "isReady c2" "0 \<le> cp_stableMs p1" using c2 o1 by (simp_all add: connected_def orderly_def)
      then have stable: "waitStable (cp_stableMs p1) c2 = Success" by (rule waitStable_ready)
      obtain r p' where sw: "switch_video gs m ?q = (r, p')" by fastforce
      have "orderly gs ser view ?q" "cp_gst ?q = cp_gst p" "cp_pid ?q \<le> 0" "cp_serialEnabled ?q = cp_serialEnabled p"
        "dv_regs (view (cp_world ?q)) = switched_registers m p (dv_regs (view (cp_world p)))"
        using o1 c2 f1 pid True regs v1 map ser by (simp_all add: orderly_def switched_registers_def)
      from finish[OF sw this] True stop map ser set stable sw free show ?thesis
        by (auto simp: switchCallback_def switch_sensor_def)
    qed
  qed
qed

subsection \<open>Registers over a faithful line\<close>

lemma connected_clear: "connected ser view c \<Longrightarrow> connected ser view (clearLastError c)"
  by (simp add: connected_def isReady_def clearLastError_def)

text \<open>Only the controller and the world differ.\<close>

definition same_video :: "'w control_program \<Rightarrow> 'w control_program \<Rightarrow> bool" where
  "same_video p p' \<longleftrightarrow> p' = p\<lparr>cp_controller := cp_controller p', cp_world := cp_world p'\<rparr>"

lemma same_videoD:
  assumes "same_video p p'"
  shows "cp_gst p' = cp_gst p" "cp_serialEnabled p' = cp_serialEnabled p" "cp_stableMs p' = cp_stableMs p"
    "cp_currentMode p' = cp_currentMode p" "cp_pipeline p' = cp_pipeline p" "cp_mutex p' = cp_mutex p"
  by (subst assms[unfolded same_video_def], simp)+

lemma control_frame: "compositeControlCallback ser req p = Some (r, p') \<Longrightarrow> same_video p p'"
  by (auto simp: compositeControlCallback_def same_video_def elim!: bind_SomeE split: if_splits)

lemma query_frame: "compositeConfigQueryCallback ser p = Some (r, p') \<Longrightarrow> same_video p p'"
  by (auto simp: compositeConfigQueryCallback_def same_video_def elim!: bind_SomeE split: if_splits)

text \<open>The registers a control sets, none when serial control is off or the kind is unknown.\<close>

definition control_registers ::
  "PrivateCompositeControlRequest \<Rightarrow> 'w control_program \<Rightarrow> (u16 \<Rightarrow> u16) \<Rightarrow> u16 \<Rightarrow> u16" where
  "control_registers req p regs =
     (case control_register (pq_kind req) of
        Some reg \<Rightarrow> if cp_serialEnabled p then regs(register_address reg := pq_value req) else regs
      | None \<Rightarrow> regs)"

lemma control_orderly:
  assumes "orderly gs ser view p"
  shows "\<exists>r p'. compositeControlCallback ser req p = Some (r, p') \<and> orderly gs ser view p' \<and>
    dv_regs (view (cp_world p')) = control_registers req p (dv_regs (view (cp_world p))) \<and>
    (pr_ok r \<longleftrightarrow> cp_serialEnabled p \<and> control_register (pq_kind req) \<noteq> None)"
proof (cases "cp_serialEnabled p")
  case False
  with assms show ?thesis
    by (simp add: compositeControlCallback_def mode_refused_def control_registers_def orderly_def split: option.split)
next
  case True
  with assms have con: "connected ser view (cp_controller p)" "idle (view (cp_world p))" by (simp_all add: orderly_def)
  show ?thesis
  proof (cases "control_register (pq_kind req)")
    case None
    with True assms show ?thesis
      by (simp add: compositeControlCallback_def apply_control_def mode_refused_def control_registers_def orderly_def)
  next
    case (Some reg)
    from writeRegister_faithful[OF con, of "register_address reg" "pq_value req"] obtain w1 where w1:
      "writeRegister ser (register_address reg) (pq_value req) (cp_controller p) (cp_world p) =
         Some (Success, clearLastError (cp_controller p), w1)" "idle (view w1)"
      "dv_regs (view w1) = (dv_regs (view (cp_world p)))(register_address reg := pq_value req)" by blast
    with True Some assms connected_clear[OF con(1)] show ?thesis
      by (simp add: compositeControlCallback_def apply_control_def writeRegisterNamed_def control_registers_def orderly_def)
  qed
qed

lemma query_loop_faithful:
  assumes "connected ser view c" "idle (view w)"
  shows "\<exists>c' w'. query_loop ser specs found c w =
      Some (\<lparr>ps_ok = True, ps_message = ''succeeded: composite config read successfully'',
        ps_registers = found @ map (\<lambda>spec. register_value spec (dv_regs (view w) (register_address (cg_reg spec)))) specs\<rparr>,
        c', w') \<and> connected ser view c' \<and> idle (view w') \<and> dv_regs (view w') = dv_regs (view w)"
  using assms
proof (induction specs arbitrary: found c w)
  case (Cons spec specs)
  from readRegister_faithful[OF Cons(2,3), of "register_address (cg_reg spec)"] obtain w1 where w1:
    "readRegister ser (register_address (cg_reg spec)) c w =
      Some (Inr (dv_regs (view w) (register_address (cg_reg spec))), clearLastError c, w1)"
    "idle (view w1)" "dv_regs (view w1) = dv_regs (view w)" by blast
  from Cons(1)[OF connected_clear[OF Cons(2)] w1(2), of
      "found @ [register_value spec (dv_regs (view w) (register_address (cg_reg spec)))]"] w1(1,3) show ?case
    by (simp add: readRegisterNamed_def)
qed simp

definition sensor_snapshot :: "(u16 \<Rightarrow> u16) \<Rightarrow> PrivateCompositeConfigSnapshot" where
  "sensor_snapshot regs =
     \<lparr>ps_ok = True, ps_message = ''succeeded: composite config read successfully'',
      ps_registers = map (\<lambda>spec. register_value spec (regs (register_address (cg_reg spec)))) compositeConfigRegisterSpecs\<rparr>"

lemma query_orderly:
  assumes "orderly gs ser view p"
  shows "\<exists>snapshot p'. compositeConfigQueryCallback ser p = Some (snapshot, p') \<and> orderly gs ser view p' \<and>
    dv_regs (view (cp_world p')) = dv_regs (view (cp_world p)) \<and>
    (cp_serialEnabled p \<longrightarrow> snapshot = sensor_snapshot (dv_regs (view (cp_world p))))"
proof (cases "cp_serialEnabled p")
  case True
  with assms have "connected ser view (cp_controller p)" "idle (view (cp_world p))" by (simp_all add: orderly_def)
  from query_loop_faithful[OF this, of compositeConfigRegisterSpecs "[]"] True assms show ?thesis
    by (auto simp: compositeConfigQueryCallback_def sensor_snapshot_def orderly_def)
qed (use assms in \<open>simp add: compositeConfigQueryCallback_def orderly_def\<close>)

subsection \<open>The contracts of the server\<close>

text \<open>How a switch from \<open>p\<close> can end on any line: as it was, or in the new mode.\<close>

definition switch_end ::
  "'w gst_system \<Rightarrow> PrivateWorkMode \<Rightarrow> 'w control_program \<Rightarrow> PrivateControlResult \<Rightarrow> 'w control_program \<Rightarrow> bool" where
  "switch_end gs m p r p' \<longleftrightarrow> cp_gst p' = cp_gst p \<and>
     pr_currentMode r = toString_PrivateWorkMode (if pr_ok r then m else cp_currentMode p) \<and>
     (\<not> pr_ok r \<and> cp_currentMode p' = cp_currentMode p \<and> gz_config (cp_pipeline p') = gz_config (cp_pipeline p) \<or>
      cp_currentMode p' = m \<and> gz_config (cp_pipeline p') = mode_config m p \<and>
        (pr_ok r \<longrightarrow> launched gs (mode_config m p) (cp_pipeline p')))"

lemma switch_any:
  assumes "switchCallback gs ser now m p = Some (r, p')"
  shows "switch_end gs m p r p'"
proof -
  let ?good = "switch_end gs m"
  have video: "?good q r p'" if "switch_video gs m q = (r, p')" for q r p'
  proof -
    have "pr_currentMode r = toString_PrivateWorkMode (if pr_ok r then m else cp_currentMode q)"
      using that by (auto simp: switch_video_def mode_refused_def Let_def split: prod.split_asm bool.split_asm)
    with switch_video_cases(1-3,8)[OF that] show ?thesis by (simp add: switch_end_def)
  qed
  have backed: "?good q r p'" if "switch_back gs msg q = (r, p')" for msg q r p'
  proof -
    have "pr_currentMode r = toString_PrivateWorkMode (cp_currentMode q)"
      using that by (auto simp: switch_back_def mode_refused_def)
    moreover from switch_back_cases(2)[OF that] have "cp_currentMode p' = cp_currentMode q" "cp_gst p' = cp_gst q"
      by (cases p'; cases q; simp)+
    ultimately show ?thesis using switch_back_cases(1,3)[OF that] by (simp add: switch_end_def)
  qed
  have free: "\<not> cp_mutex p" using assms by (auto simp: switchCallback_def split: if_splits)
  with assms obtain ok p1 where stop: "cp_stop gs p = Some (ok, p1)" by (auto simp: switchCallback_def elim!: bind_SomeE)
  note fr = cp_stop_frame(1,2)[OF stop]
  from fr(1) have f1: "cp_gst p1 = cp_gst p" "cp_currentMode p1 = cp_currentMode p" by (cases p1; simp)+
  have "?good p1 r p'"
  proof (cases ok)
    case False
    with assms stop free show ?thesis by (auto simp: switchCallback_def switch_end_def mode_refused_def)
  next
    case True
    obtain outm needed where map: "mapPrivateModeToCompositeOutput m = (outm, needed)" by fastforce
    show ?thesis
    proof (cases "cp_serialEnabled p1 \<and> needed")
      case False
      with assms stop True map video free show ?thesis by (auto simp: switchCallback_def)
    next
      case ser: True
      with assms stop True map free have "switch_sensor gs ser now m outm p1 = Some (r, p')" by (auto simp: switchCallback_def)
      then obtain res c w where "setOutputMode ser (now (cp_world p1)) outm (cp_controller p1) (cp_world p1) = Some (res, c, w)"
        and "\<exists>msg. switch_back gs msg (p1\<lparr>cp_controller := c, cp_world := w\<rparr>) = (r, p') \<or>
          switch_video gs m (p1\<lparr>cp_controller := c, cp_world := w\<rparr>) = (r, p')"
        by (auto simp: switch_sensor_def Let_def elim!: bind_SomeE split: sum.split_asm) blast+
      with video backed have "?good (p1\<lparr>cp_controller := c, cp_world := w\<rparr>) r p'" by blast
      then show ?thesis by (simp add: switch_end_def mode_config_def)
    qed
  qed
  with f1 fr(2) show ?thesis by (simp add: switch_end_def mode_config_def)
qed

definition settled :: "GStreamerPipelineConfigManager \<Rightarrow> 'w control_program \<Rightarrow> bool" where
  "settled gy p \<longleftrightarrow> cp_gst p = gy \<and> configured p"

lemma settled_same_video: "settled gy p \<Longrightarrow> same_video p p' \<Longrightarrow> settled gy p'"
  by (simp add: settled_def configured_def mode_config_def same_videoD)

lemma settled_switch: "settled gy p \<Longrightarrow> switch_end gs m p r p' \<Longrightarrow> settled gy p'"
  by (auto simp: settled_def configured_def switch_end_def mode_config_def)

text \<open>On any line the callbacks keep the pipeline at the configuration of the current mode.\<close>

interpretation any_line: keeping_callbacks "switchCallback gs ser now" "compositeControlCallback ser"
  "compositeConfigQueryCallback ser" "settled gy" for gs ser now gy
  by unfold_locales (blast dest: settled_switch[OF _ switch_any] settled_same_video[OF _ control_frame]
      settled_same_video[OF _ query_frame])+

text \<open>On a faithful line they return, and leave the line idle.\<close>

lemma orderly_callbacks:
  assumes "orderly gs ser view p"
  shows "switchCallback gs ser now m p = Some (r, p') \<Longrightarrow> orderly gs ser view p'"
    and "compositeControlCallback ser req p = Some (r, p') \<Longrightarrow> orderly gs ser view p'"
    and "compositeConfigQueryCallback ser p = Some (snapshot, p') \<Longrightarrow> orderly gs ser view p'"
    and "switchCallback gs ser now m p \<noteq> None" "compositeControlCallback ser req p \<noteq> None"
      "compositeConfigQueryCallback ser p \<noteq> None"
  using switch_orderly[OF assms, of now m] control_orderly[OF assms, of req] query_orderly[OF assms] by auto

interpretation faithful: answering_callbacks "switchCallback gs ser now" "compositeControlCallback ser"
  "compositeConfigQueryCallback ser" "orderly gs ser view" for gs ser now view
  by unfold_locales (blast dest: orderly_callbacks)+

subsection \<open>A serving program\<close>

text \<open>The sockets leave alone what \<open>view\<close> sees.\<close>

definition sockets_apart :: "'w sockets \<Rightarrow> ('w \<Rightarrow> 'v) \<Rightarrow> bool" where
  "sockets_apart sk view \<longleftrightarrow>
     (\<forall>w. view (snd (sk_socket sk w)) = view w) \<and> (\<forall>fd w. view (sk_reuse sk fd w) = view w) \<and>
     (\<forall>fd host port w. view (snd (sk_bind sk fd host port w)) = view w) \<and>
     (\<forall>fd n w. view (snd (sk_listen sk fd n w)) = view w) \<and> (\<forall>fd w. view (snd (sk_accept sk fd w)) = view w) \<and>
     (\<forall>fd w. view (sk_close sk fd w) = view w) \<and> (\<forall>fd n w. view (snd (sk_recv sk fd n w)) = view w) \<and>
     (\<forall>fd data w. view (snd (sk_send sk fd data w)) = view w)"

definition only_world :: "('w \<Rightarrow> 'v) \<Rightarrow> 'w control_program \<Rightarrow> 'w control_program \<Rightarrow> bool" where
  "only_world view p p' \<longleftrightarrow> p' = p\<lparr>cp_world := cp_world p'\<rparr> \<and> view (cp_world p') = view (cp_world p)"

lemma only_world_refl [simp]: "only_world view p p"
  by (simp add: only_world_def)

lemma only_world_trans: "only_world view p q \<Longrightarrow> only_world view q r \<Longrightarrow> only_world view p r"
  unfolding only_world_def by (metis control_program.update_convs(7) control_program.surjective control_program.select_convs(7))

lemma only_worldD:
  assumes "only_world view p p'"
  shows "same_video p p'" "cp_controller p' = cp_controller p" "view (cp_world p') = view (cp_world p)"
proof -
  from assms obtain w where "p' = p\<lparr>cp_world := w\<rparr>" "view w = view (cp_world p)" unfolding only_world_def
    by (metis control_program.select_convs(7) control_program.surjective control_program.update_convs(7))
  then show "same_video p p'" "cp_controller p' = cp_controller p" "view (cp_world p') = view (cp_world p)"
    by (simp_all add: same_video_def)
qed

lemma program_sockets_only:
  assumes "sockets_apart sk view"
  shows "only_world view p (snd (sk_socket (program_sockets sk) p))" "only_world view p (sk_reuse (program_sockets sk) fd p)"
    "only_world view p (snd (sk_bind (program_sockets sk) fd host port p))"
    "only_world view p (snd (sk_listen (program_sockets sk) fd n p))"
    "only_world view p (snd (sk_accept (program_sockets sk) fd p))" "only_world view p (sk_close (program_sockets sk) fd p)"
    "only_world view p (snd (sk_recv (program_sockets sk) fd k p))"
    "only_world view p (snd (sk_send (program_sockets sk) fd data p))"
  using assms by (simp_all add: sockets_apart_def only_world_def program_sockets_def on_world_def split: prod.split)
    (metis snd_conv)+

lemma send_loop_only:
  assumes "\<And>data p. only_world view p (snd (send data p))"
  shows "only_world view p (snd (send_loop send data p))"
  using assms
proof (induction send data p rule: send_loop.induct)
  case (1 send data p)
  obtain n p1 where send: "send data p = (n, p1)" by fastforce
  with 1(2)[of p data] have "only_world view p p1" by simp
  moreover from 1(1)[OF _ send[symmetric] _ 1(2)] have "data \<noteq> [] \<Longrightarrow> n \<noteq> 0 \<Longrightarrow>
    only_world view p1 (snd (send_loop send (drop n data) p1))" by blast
  ultimately show ?case using send by (subst send_loop.simps) (auto intro: only_world_trans)
qed

text \<open>A turn of the server's loop is a request handled in between changes of the world outside, or no request.\<close>

lemma turn_cases:
  assumes "private_turn (program_sockets sk) s p = Some (s', p')" "sockets_apart sk view"
  obtains "only_world view p p'" "\<exists>e. s' = s \<or> s' = s\<lparr>pc_lastError := e\<rparr>"
  | r resp q q' where "only_world view p q" "handleHttpRequest r s q = Some (resp, s', q')" "only_world view q' p'"
proof -
  let ?sk = "program_sockets sk"
  note only = program_sockets_only[OF assms(2)]
  obtain a p1 where acc: "sk_accept ?sk (pc_listenFd s) p = (a, p1)" by fastforce
  with only(5)[of p "pc_listenFd s"] have p1: "only_world view p p1" by simp
  show thesis
  proof (cases "pc_running s")
    case False
    with assms(1) that(1) show thesis by (auto simp: private_turn_def)
  next
    case running: True
    show thesis
    proof (cases a)
      case (Inl e)
      with assms(1) acc running p1 that(1) show thesis by (auto simp: private_turn_def)
    next
      case (Inr fd)
      obtain r q where recv: "sk_recv ?sk fd (kRecvBufferSize - 1) p1 = (r, q)" by fastforce
      with only(7)[of p1 fd "kRecvBufferSize - 1"] p1 have q: "only_world view p q" by (auto intro: only_world_trans)
      show thesis
      proof (cases "r = []")
        case True
        with assms(1) acc running Inr recv have "s' = s" "p' = sk_close ?sk fd q"
          by (auto simp: private_turn_def handleClient_def)
        with only(6)[of q fd] q that(1) show thesis by (auto intro: only_world_trans)
      next
        case False
        with assms(1) acc running Inr recv obtain resp q' where req: "handleHttpRequest r s q = Some (resp, s', q')"
          and p': "p' = sk_close ?sk fd (snd (sendAll ?sk fd (text_bytes resp) q'))"
          by (auto simp: private_turn_def handleClient_def elim!: bind_SomeE split: list.split_asm)
        have "only_world view q' (snd (sendAll ?sk fd (text_bytes resp) q'))"
          unfolding sendAll_def by (rule send_loop_only) (rule only(8))
        with only(6) p' have "only_world view q' p'" by (blast intro: only_world_trans)
        with q req that(2) show thesis by blast
      qed
    qed
  qed
qed

text \<open>The program while it serves: turns of the server's thread, turns of the watching loop that find the process,
  and anything else that happens in the world outside of what \<open>view\<close> sees.\<close>

inductive serving ::
  "('w \<Rightarrow> 'v) \<Rightarrow> 'w gst_system \<Rightarrow> 'w sockets \<Rightarrow> 'w control_program PrivateControlServer \<Rightarrow> 'w control_program \<Rightarrow>
     'w control_program PrivateControlServer \<Rightarrow> 'w control_program \<Rightarrow> bool"
  for view gs sk s0 p0 where
  serving_begin: "serving view gs sk s0 p0 s0 p0"
| serving_turn: "serving view gs sk s0 p0 s p \<Longrightarrow> private_turn (program_sockets sk) s p = Some (s', p') \<Longrightarrow>
    serving view gs sk s0 p0 s' p'"
| serving_watch: "serving view gs sk s0 p0 s p \<Longrightarrow> control_watch gs p = (True, p') \<Longrightarrow> serving view gs sk s0 p0 s p'"
| serving_outside: "serving view gs sk s0 p0 s p \<Longrightarrow> only_world view p p' \<Longrightarrow> serving view gs sk s0 p0 s p'"

text \<open>An invariant of requests, watching and the world outside is one of a serving program.\<close>

lemma serving_induct_requests:
  assumes "serving view gs sk s0 p0 s p" "sockets_apart sk view" "I s0 p0"
    and request: "\<And>s p r resp s' p'. I s p \<Longrightarrow> handleHttpRequest r s p = Some (resp, s', p') \<Longrightarrow> I s' p'"
    and watch: "\<And>s p p'. I s p \<Longrightarrow> control_watch gs p = (True, p') \<Longrightarrow> I s p'"
    and outside: "\<And>s p p'. I s p \<Longrightarrow> only_world view p p' \<Longrightarrow> I s p'"
    and noted: "\<And>s p e. I s p \<Longrightarrow> I (s\<lparr>pc_lastError := e\<rparr>) p"
  shows "I s p"
  using assms(1)
proof induction
  case (serving_turn s p s' p')
  from serving_turn(2) assms(2) show ?case
    by (cases rule: turn_cases) (use serving_turn(3) request outside noted in blast)+
qed (use assms(3) watch outside in blast)+

lemma control_watch_running:
  assumes "control_watch gs p = (True, p')"
  shows "p' = p\<lparr>cp_world := cp_world p'\<rparr>" "0 < cp_pid p" "apart gs view \<Longrightarrow> only_world view p p'"
proof -
  obtain run q w where r: "gq_isRunning gs (gz_process (cp_pipeline p)) (cp_world p) = (run, q, w)" 
    by (cases "gq_isRunning gs (gz_process (cp_pipeline p)) (cp_world p)") auto
  with assms have "run" and upd: "p' = p\<lparr>cp_pipeline := (cp_pipeline p)\<lparr>gz_process := q\<rparr>, cp_world := w\<rparr>"
    by (auto simp: control_watch_def gz_isRunning_def split: bool.split_asm)
  moreover from r \<open>run\<close> have "q = gz_process (cp_pipeline p)" "0 < cp_pid p"
    by (auto simp: gq_isRunning_def split: if_splits prod.split_asm wait_status.split_asm)
  ultimately show eq: "p' = p\<lparr>cp_world := cp_world p'\<rparr>" and "0 < cp_pid p" by simp_all
  show "apart gs view \<Longrightarrow> only_world view p p'"
    using isRunning_apart[OF _ r, of view] upd eq by (simp add: only_world_def)
qed

subsection \<open>How serving begins\<close>

lemma pc_start_serving:
  assumes "pc_start (program_sockets sk) config (Some m) (Some c) (Some q) new_private_server p = (ok, s, p')"
  shows "only_world (\<lambda>_. ()) p p'" "ok \<Longrightarrow> installed m c q s \<and> pc_currentMode s = PrivateWorkMode.LowlightThermalComposite"
proof -
  have apart: "sockets_apart sk (\<lambda>_. ())" by (simp add: sockets_apart_def)
  let ?sk = "program_sockets sk"
  note only = program_sockets_only[OF apart]
  have bound: "only_world (\<lambda>_. ()) p1 p2 \<and> (ok \<longrightarrow> pc_modeCallback s2 = pc_modeCallback s1 \<and>
      pc_compositeCallback s2 = pc_compositeCallback s1 \<and> pc_configQueryCallback s2 = pc_configQueryCallback s1 \<and>
      pc_currentMode s2 = pc_currentMode s1)"
    if "pc_bound ?sk fd host s1 p1 = (ok, s2, p2)" for fd host s1 p1 ok s2 p2
  proof -
    obtain e v where b: "sk_bind ?sk fd host (pf_port (pc_config s1)) p1 = (e, v)" by fastforce
    with only(3)[of p1 fd host "pf_port (pc_config s1)"] have v: "only_world (\<lambda>_. ()) p1 v" by simp
    obtain e' v' where l: "sk_listen ?sk fd (pf_backlog (pc_config s1)) v = (e', v')" by fastforce
    with only(4)[of v fd "pf_backlog (pc_config s1)"] v have v': "only_world (\<lambda>_. ()) p1 v'"
      by (auto intro: only_world_trans)
    from that b l v v' only(6) show ?thesis
      by (auto simp: pc_bound_def pc_fail_def split: option.split_asm intro: only_world_trans)
  qed
  obtain x p1 where so: "sk_socket ?sk p = (x, p1)" by fastforce
  with only(1)[of p] have p1: "only_world (\<lambda>_. ()) p p1" by simp
  let ?s = "new_private_server\<lparr>pc_config := config, pc_modeCallback := Some m, pc_compositeCallback := Some c,
    pc_configQueryCallback := Some q\<rparr>"
  have "only_world (\<lambda>_. ()) p p' \<and> (ok \<longrightarrow> pc_modeCallback s = Some m \<and> pc_compositeCallback s = Some c \<and>
      pc_configQueryCallback s = Some q \<and> pc_currentMode s = PrivateWorkMode.LowlightThermalComposite)"
  proof (cases x)
    case (Inl e)
    with assms so p1 show ?thesis by (auto simp: pc_start_def new_private_server_def pc_fail_def)
  next
    case (Inr fd)
    let ?p2 = "sk_reuse ?sk fd p1"
    have p2: "only_world (\<lambda>_. ()) p ?p2" using p1 only(2) by (blast intro: only_world_trans)
    from assms so Inr have op: "pc_opened ?sk fd ?s ?p2 = (ok, s, p')" by (simp add: pc_start_def new_private_server_def)
    show ?thesis
    proof (cases "\<exists>host. pc_bound ?sk fd host ?s ?p2 = (ok, s, p')")
      case True
      then obtain host where "pc_bound ?sk fd host ?s ?p2 = (ok, s, p')" by blast
      from bound[OF this] p2 show ?thesis by (auto simp: new_private_server_def intro: only_world_trans)
    next
      case False
      with op have "\<not> ok" "p' = sk_close ?sk fd ?p2" by (auto simp: pc_opened_def pc_fail_def Let_def split: if_splits)
      with p2 only(6) show ?thesis by (blast intro: only_world_trans)
    qed
  qed
  then show "only_world (\<lambda>_. ()) p p'" "ok \<Longrightarrow> installed m c q s \<and> pc_currentMode s = PrivateWorkMode.LowlightThermalComposite"
    by (simp_all add: installed_def)
qed

text \<open>A program that serves has the callbacks installed, and its pipeline runs the configuration of the first mode.\<close>

definition serves :: "'w gst_system \<Rightarrow> 'w serial_os \<Rightarrow> ('w \<Rightarrow> int) \<Rightarrow> 'w control_program PrivateControlServer \<Rightarrow> bool" where
  "serves gs ser now s \<longleftrightarrow>
     installed (switchCallback gs ser now) (compositeControlCallback ser) (compositeConfigQueryCallback ser) s"

lemma control_main_serving:
  assumes "control_main fl order gs ser now sk args w = Some (Serving s p)"
  shows "serves gs ser now s" "pc_currentMode s = cp_currentMode p" "configured p"
    "launched gs (mode_config (cp_currentMode p) p) (cp_pipeline p)"
proof -
  let ?m = PrivateWorkMode.LowlightThermalComposite
  from assms obtain config p1 where video: "start_video gs ser now sk config p1 = Some (Serving s p)"
    and p1: "cp_currentMode p1 = ?m" "configured p1"
    by (auto simp: control_main_def start_serial_def initial_program_def Let_def configured_def mode_config_def
        new_gst_pipeline_def split: parsed_arguments.split_asm prod.split_asm sum.split_asm if_splits)
  from video obtain p2 where st: "cp_start gs p1 = (True, p2)" and srv: "start_server gs ser now sk config p2 = Some (Serving s p)"
    by (auto simp: start_video_def split: prod.split_asm bool.split_asm)
  note eff = cp_start_effect[OF st]
  from eff(1) have p2: "cp_currentMode p2 = ?m" "cp_gst p2 = cp_gst p1" using p1 by (cases p2; simp)+
  have run: "launched gs (mode_config ?m p2) (cp_pipeline p2)" "configured p2"
    using eff(2,4) p1 p2 by (simp_all add: configured_def mode_config_def)
  from srv have pc: "pc_start (program_sockets sk) config (Some (switchCallback gs ser now))
      (Some (compositeControlCallback ser)) (Some (compositeConfigQueryCallback ser)) new_private_server p2 = (True, s, p)"
    by (auto simp: start_server_def elim!: bind_SomeE split: prod.split_asm bool.split_asm)
  note only_worldD(1)[OF pc_start_serving(1)[OF pc]]
  note same_videoD[OF this]
  with run p2 pc_start_serving(2)[OF pc] show "serves gs ser now s" "pc_currentMode s = cp_currentMode p" "configured p"
    "launched gs (mode_config (cp_currentMode p) p) (cp_pipeline p)"
    by (simp_all add: configured_def mode_config_def serves_def)
qed

lemma pc_start_running:
  "pc_start sk config mc cc qc s w = (True, s', w') \<Longrightarrow> pc_running s' \<and> pc_serverThread s'"
  by (auto simp: pc_start_def pc_opened_def pc_bound_def pc_fail_def Let_def
      split: if_splits prod.split_asm sum.split_asm option.split_asm)

lemma control_main_running:
  "control_main fl order gs ser now sk args w = Some (Serving s p) \<Longrightarrow> pc_running s \<and> pc_serverThread s"
  by (auto simp: control_main_def start_video_def start_server_def dest: pc_start_running elim!: bind_SomeE
      split: parsed_arguments.split_asm prod.split_asm sum.split_asm bool.split_asm)

subsection \<open>What a request does\<close>

lemma request_cases:
  assumes "handleHttpRequest r s p = Some (resp, s', p')" "installed modeCb controlCb queryCb s"
  obtains "s' = s" "p' = p"
  | m res where "modeCb m p = Some (res, p')" "s' = (if pr_ok res then s\<lparr>pc_currentMode := m\<rparr> else s)"
  | req res where "controlCb req p = Some (res, p')" "s' = (if pr_ok res then record_control req s else s)"
  | snapshot where "queryCb p = Some (snapshot, p')" "s' = s"
proof -
  from assms(2) have cbs: "pc_modeCallback s = Some modeCb" "pc_compositeCallback s = Some controlCb"
    "pc_configQueryCallback s = Some queryCb" by (simp_all add: installed_def)
  consider "s' = s" "p' = p"
    | m name where "handleModeRequest m name s p = Some (resp, s', p')"
    | m path where "handleCompositeRequest m path s p = Some (resp, s', p')"
    | m where "handleCompositeConfigRequest m s p = Some (resp, s', p')"
    using assms(1) unfolding handleHttpRequest_def Let_def by (metis option.inject prod.inject)
  then show thesis
  proof cases
    case 1 with that(1) show thesis by blast
  next
    case 2 with cbs that(1,2) show thesis
      by (auto simp: handleModeRequest_def elim!: bind_SomeE split: if_splits option.split_asm)
  next
    case 3 with cbs that(1,3) show thesis
      by (auto simp: handleCompositeRequest_def elim!: bind_SomeE split: if_splits option.split_asm)
  next
    case 4 with cbs that(1,4) show thesis
      by (auto simp: handleCompositeConfigRequest_def elim!: bind_SomeE split: if_splits option.split_asm)
  qed
qed

lemma switched_fix:
  "switched_registers m p regs = regs \<longleftrightarrow>
     (cp_serialEnabled p \<and> snd (mapPrivateModeToCompositeOutput m) \<longrightarrow>
        regs (register_address CompositeSensorRegister.FusionMode) =
          outputModeRegisterValue (fst (mapPrivateModeToCompositeOutput m)))"
  by (auto simp: switched_registers_def fun_upd_idem_iff)

lemma control_register_other:
  "control_register kind = Some reg \<Longrightarrow> register_address reg \<noteq> register_address CompositeSensorRegister.FusionMode"
  by (cases kind) auto

lemma control_fusion_mode:
  "control_registers req p regs (register_address CompositeSensorRegister.FusionMode) =
     regs (register_address CompositeSensorRegister.FusionMode)"
  by (auto simp: control_registers_def fun_upd_def simp del: register_address.simps split: option.split
      dest!: control_register_other)

text \<open>While a process is there, it is that of the mode the status page names, and the sensor is in that mode.\<close>

definition truthful ::
  "'w gst_system \<Rightarrow> ('w \<Rightarrow> sensor_device) \<Rightarrow> 'w control_program PrivateControlServer \<Rightarrow> 'w control_program \<Rightarrow> bool" where
  "truthful gs view s p \<longleftrightarrow>
     (0 < cp_pid p \<longrightarrow> pc_currentMode s = cp_currentMode p \<and>
        launched gs (mode_config (cp_currentMode p) p) (cp_pipeline p) \<and>
        switched_registers (cp_currentMode p) p (dv_regs (view (cp_world p))) = dv_regs (view (cp_world p)))"

lemma truthful_same:
  assumes "truthful gs view s p" "same_video p p'" "pc_currentMode s' = pc_currentMode s"
    and "dv_regs (view (cp_world p')) (register_address CompositeSensorRegister.FusionMode) =
      dv_regs (view (cp_world p)) (register_address CompositeSensorRegister.FusionMode)"
  shows "truthful gs view s' p'"
  using assms(1,3,4) same_videoD[OF assms(2)] by (simp add: truthful_def switched_fix mode_config_def)

lemma record_control_mode: "pc_currentMode (record_control req s) = pc_currentMode s"
  by (simp add: record_control_def split: PrivateCompositeControlKind.split)

lemma switch_truthful:
  assumes "orderly gs ser view p" "truthful gs view s p" "switchCallback gs ser now m p = Some (r, p')"
  shows "truthful gs view (if pr_ok r then s\<lparr>pc_currentMode := m\<rparr> else s) p'"
proof -
  from switch_orderly[OF assms(1), of now m] assms(3) have g: "cp_gst p' = cp_gst p" "cp_serialEnabled p' = cp_serialEnabled p"
    and ends: "switched gs view m p r p' \<or>
      \<not> pr_ok r \<and> cp_currentMode p' = cp_currentMode p \<and> cp_pid p' = cp_pid p \<and>
       gz_config (cp_pipeline p') = gz_config (cp_pipeline p) \<and> view (cp_world p') = view (cp_world p)"
    by (auto simp: stop_refused_def mode_refused_def split: if_splits)
  from ends show ?thesis
  proof
    assume sw: "switched gs view m p r p'"
    show ?thesis
    proof (cases "pr_ok r")
      case True
      from sw have "dv_regs (view (cp_world p')) = switched_registers m p (dv_regs (view (cp_world p)))"
        by (simp add: switched_def)
      then have "switched_registers m p' (dv_regs (view (cp_world p'))) = dv_regs (view (cp_world p'))"
        using g by (simp add: switched_fix) (simp add: switched_registers_def)
      with sw True g show ?thesis by (simp add: truthful_def switched_def mode_config_def)
    qed (use sw in \<open>simp add: truthful_def switched_def\<close>)
  next
    assume "\<not> pr_ok r \<and> cp_currentMode p' = cp_currentMode p \<and> cp_pid p' = cp_pid p \<and>
       gz_config (cp_pipeline p') = gz_config (cp_pipeline p) \<and> view (cp_world p') = view (cp_world p)"
    with assms(2) g show ?thesis by (simp add: truthful_def switched_fix mode_config_def launched_def)
  qed
qed

lemma request_truthful:
  assumes "serves gs ser now s" "orderly gs ser view p" "truthful gs view s p" "handleHttpRequest r s p = Some (resp, s', p')"
  shows "truthful gs view s' p'"
  using assms(4) assms(1)[unfolded serves_def]
proof (cases rule: request_cases)
  case 1 with assms(3) show ?thesis by simp
next
  case 2 with switch_truthful[OF assms(2,3) 2(1)] show ?thesis by simp
next
  case (3 req res)
  with control_orderly[OF assms(2), of req]
  have "dv_regs (view (cp_world p')) = control_registers req p (dv_regs (view (cp_world p)))" by auto
  with truthful_same[OF assms(3) control_frame[OF 3(1)]] 3(2) show ?thesis
    by (simp add: control_fusion_mode record_control_mode del: register_address.simps)
next
  case 4
  with query_orderly[OF assms(2)] have "dv_regs (view (cp_world p')) = dv_regs (view (cp_world p))" by auto
  with truthful_same[OF assms(3) query_frame[OF 4(1)]] 4(2) show ?thesis by simp
qed

lemma orderly_only: "orderly gs ser view p \<Longrightarrow> only_world view p p' \<Longrightarrow> orderly gs ser view p'"
  using only_worldD[of view p p'] by (simp add: orderly_def same_videoD)

lemma truthful_only: "truthful gs view s p \<Longrightarrow> only_world view p p' \<Longrightarrow> truthful gs view s p'"
  using truthful_same[of gs view s p p' s] only_worldD[of view p p'] by simp

text \<open>Over a faithful line all this is kept while the program serves; without \<open>b\<close> what does not depend on the mode
  the sensor starts in.\<close>

definition kept ::
  "bool \<Rightarrow> 'w gst_system \<Rightarrow> 'w serial_os \<Rightarrow> ('w \<Rightarrow> int) \<Rightarrow> ('w \<Rightarrow> sensor_device) \<Rightarrow> 'w control_program PrivateControlServer \<Rightarrow>
     'w control_program \<Rightarrow> bool" where
  "kept b gs ser now view s p \<longleftrightarrow> serves gs ser now s \<and> orderly gs ser view p \<and> (b \<longrightarrow> truthful gs view s p)"

lemma kept_only: "kept b gs ser now view s p \<Longrightarrow> only_world view p p' \<Longrightarrow> kept b gs ser now view s p'"
  unfolding kept_def using orderly_only truthful_only by blast

lemma serving_kept:
  assumes "serving view gs sk s0 p0 s p" "sockets_apart sk view" "kept b gs ser now view s0 p0"
  shows "kept b gs ser now view s p"
  using assms
proof (rule serving_induct_requests)
  fix s p r resp s' p'
  assume a: "kept b gs ser now view s p" "handleHttpRequest r s p = Some (resp, s', p')"
  then have "serves gs ser now s' \<and> orderly gs ser view p'" unfolding serves_def kept_def
    using faithful.request_keeps by blast
  with a request_truthful[of gs ser now s view p r resp s' p'] show "kept b gs ser now view s' p'"
    unfolding kept_def by blast
next
  fix s p p'
  assume a: "kept b gs ser now view s p" "control_watch gs p = (True, p')"
  from a(1) have "apart gs view" by (simp add: kept_def orderly_def)
  with a show "kept b gs ser now view s p'" using kept_only control_watch_running(3) by blast
next
  fix s p e
  assume "kept b gs ser now view s p"
  then show "kept b gs ser now view (s\<lparr>pc_lastError := e\<rparr>) p" by (simp add: kept_def serves_def installed_def truthful_def)
qed (use kept_only in blast)

subsection \<open>What the program guarantees\<close>

text \<open>
  Claim C6. Over a faithful line a mode switch returns. When the video process cannot be stopped, the answer says so and mode,
  process, configuration and sensor stay as they were. Otherwise the program is in the new mode, the sensor has
  the output mode it needs, the pipeline was started with the new mode's configuration, and the answer says whether it did
  start.
\<close>

theorem control_switch_mode:
  assumes "orderly gs ser view p"
  shows "\<exists>stopped p1 r p'. cp_stop gs p = Some (stopped, p1) \<and> switchCallback gs ser now m p = Some (r, p') \<and>
    orderly gs ser view p' \<and> (if stopped then switched gs view m p r p' else stop_refused view p p1 r p')"
  using switch_orderly[OF assms, of now m] by blast

text \<open>
  Whatever the line, the processes and the peers do, while the program serves its callbacks are installed and its
  pipeline has the configuration the settings give for the current mode.
\<close>

theorem control_pipeline_configured:
  assumes "control_main fl order gs ser now sk args w = Some (Serving s0 p0)" "serving (\<lambda>_. ()) gs sk s0 p0 s p"
  shows "serves gs ser now s \<and> cp_gst p = cp_gst p0 \<and> gz_config (cp_pipeline p) = mode_config (cp_currentMode p) p0"
proof -
  have "serves gs ser now s \<and> settled (cp_gst p0) p"
    using assms(2)
  proof (rule serving_induct_requests)
    show "sockets_apart sk (\<lambda>_. ())" by (simp add: sockets_apart_def)
    show "serves gs ser now s0 \<and> settled (cp_gst p0) p0"
      using control_main_serving(1,3)[OF assms(1)] by (simp add: settled_def)
  next
    fix s p r resp s' p'
    assume "serves gs ser now s \<and> settled (cp_gst p0) p" "handleHttpRequest r s p = Some (resp, s', p')"
    then show "serves gs ser now s' \<and> settled (cp_gst p0) p'" unfolding serves_def using any_line.request_keeps by blast
  next
    fix s p p'
    assume a: "serves gs ser now s \<and> settled (cp_gst p0) p" "control_watch gs p = (True, p')"
    from control_watch_running(1)[OF a(2)] have "only_world (\<lambda>_. ()) p p'" by (simp add: only_world_def)
    with a(1) only_worldD(1) settled_same_video show "serves gs ser now s \<and> settled (cp_gst p0) p'" by blast
  next
    fix s p p'
    assume "serves gs ser now s \<and> settled (cp_gst p0) p" "only_world (\<lambda>_. ()) p p'"
    with only_worldD(1) settled_same_video show "serves gs ser now s \<and> settled (cp_gst p0) p'" by blast
  next
    fix s p e
    assume "serves gs ser now s \<and> settled (cp_gst p0) p"
    then show "serves gs ser now (s\<lparr>pc_lastError := e\<rparr>) \<and> settled (cp_gst p0) p" by (simp add: serves_def installed_def)
  qed
  then show ?thesis by (simp add: settled_def configured_def mode_config_def)
qed

lemma begin_truthful:
  assumes "control_main fl order gs ser now sk args w = Some (Serving s0 p0)"
    and "switched_registers (cp_currentMode p0) p0 (dv_regs (view (cp_world p0))) = dv_regs (view (cp_world p0))"
  shows "truthful gs view s0 p0"
  using control_main_serving(2,4)[OF assms(1)] assms(2) by (simp add: truthful_def)

text \<open>
  Claim C5. Over a faithful line, and provided that the sensor already is in the output mode of the mode the program starts
  with - the program assumes this and does not bring it about -, whenever a video process is
  there while the program serves, it was started with the configuration of the mode the status page
  names, and the sensor is in the output mode this mode needs.
\<close>

theorem control_status_true:
  assumes "control_main fl order gs ser now sk args w = Some (Serving s0 p0)" "serving view gs sk s0 p0 s p"
    and "orderly gs ser view p0" "sockets_apart sk view"
    and "switched_registers (cp_currentMode p0) p0 (dv_regs (view (cp_world p0))) = dv_regs (view (cp_world p0))"
  shows "cp_pid p \<le> 0 \<or>
    launched gs (mode_config (pc_currentMode s) p) (cp_pipeline p) \<and>
    switched_registers (pc_currentMode s) p (dv_regs (view (cp_world p))) = dv_regs (view (cp_world p))"
proof -
  have "truthful gs view s0 p0" using assms(1,5) by (rule begin_truthful)
  with control_main_serving(1)[OF assms(1)] assms(3) have "kept True gs ser now view s0 p0" by (simp add: kept_def)
  with assms(2,4) have "kept True gs ser now view s p" by (rule serving_kept)
  then show ?thesis by (auto simp: kept_def truthful_def)
qed

lemma orderly_turn_returns:
  assumes "serves gs ser now s" "orderly gs ser view p" "sockets_apart sk view"
  shows "\<exists>s' p'. private_turn (program_sockets sk) s p = Some (s', p')"
proof -
  let ?sk = "program_sockets sk"
  note only = program_sockets_only[OF assms(3)]
  obtain a p1 where acc: "sk_accept ?sk (pc_listenFd s) p = (a, p1)" by fastforce
  obtain fd where fd: "a = Inr fd \<or> (\<exists>e. a = Inl e)" by (cases a) auto
  obtain r q where recv: "sk_recv ?sk fd (kRecvBufferSize - 1) p1 = (r, q)" by fastforce
  from only(5)[of p "pc_listenFd s"] only(7)[of p1 fd "kRecvBufferSize - 1"] acc recv have "only_world view p q"
    by (auto intro: only_world_trans)
  with assms(2) have "orderly gs ser view q" by (rule orderly_only)
  from faithful.request_returns[OF assms(1)[unfolded serves_def] this, of r] obtain resp s' q' where
    "handleHttpRequest r s q = Some (resp, s', q')" by blast
  with acc recv fd show ?thesis
    by (auto simp: private_turn_def handleClient_def split: list.split)
qed

text \<open>A request that needs a callback: for a mode or for the sensor's configuration.\<close>

definition needs_callback :: "string \<Rightarrow> bool" where
  "needs_callback r \<longleftrightarrow> http_method r \<in> {''GET'', ''POST''} \<and>
     (parsePath r \<in> {''/api/v1/composite/config'', ''/api/v1/composite/configuration''} \<or>
      (\<exists>name. parsePath r = ''/api/v1/mode/'' @ name \<and> privateWorkModeFromCommandName name \<noteq> None))"

lemma mode_dispatch:
  "parsePath r = ''/api/v1/mode/'' @ name \<Longrightarrow> handleHttpRequest r s p = handleModeRequest (http_method r) name s p"
  by (simp add: handleHttpRequest_def Let_def startsWith_def)

text \<open>While another thread keeps the mutex such a request waits for it.\<close>

lemma held_mutex_waits:
  assumes "serves gs ser now s" "needs_callback r" "cp_mutex p"
  shows "handleHttpRequest r s p = None"
proof -
  from assms(1) have cbs: "pc_modeCallback s = Some (switchCallback gs ser now)"
    "pc_configQueryCallback s = Some (compositeConfigQueryCallback ser)" by (simp_all add: serves_def installed_def)
  have config: "handleCompositeConfigRequest h s p = None" if "h \<in> {''GET'', ''POST''}" for h
    using that cbs assms(3) by (auto simp: handleCompositeConfigRequest_def compositeConfigQueryCallback_def)
  have mode: "handleModeRequest h name s p = None"
    if "h \<in> {''GET'', ''POST''}" "privateWorkModeFromCommandName name = Some m" for h name m
    using that cbs assms(3) by (auto simp: handleModeRequest_def switchCallback_def)
  from assms(2) show ?thesis
    by (auto simp: needs_callback_def mode_dispatch mode) (auto simp: handleHttpRequest_def startsWith_def config)
qed

text \<open>What the join of the server's thread waits for while a request is in its hands.\<close>

definition finishing ::
  "string \<Rightarrow> 'w control_program PrivateControlServer \<Rightarrow> 'w control_program \<Rightarrow> 'w control_program option" where
  "finishing r s p = map_option (\<lambda>(response, s, p). p) (handleHttpRequest r s p)"

lemma control_watch_lost: "control_watch gs p = (False, p') \<Longrightarrow> cp_mutex p'"
  by (auto simp: control_watch_def split: prod.split_asm bool.split_asm)

lemma lost_deadlock:
  assumes "serves gs ser now s" "needs_callback r" "cp_mutex p" "pc_running s" "pc_serverThread s"
  shows "control_lost ser sk (finishing r s) s p = None"
proof -
  from held_mutex_waits[OF assms(1,2)] assms(3) have "finishing r s p = None"
    "finishing r s (sk_close (program_sockets sk) (pc_listenFd s) p) = None"
    by (simp_all add: finishing_def program_sockets_def)
  with assms(4,5) show ?thesis by (simp add: control_lost_def pc_stop_def)
qed

lemma record_control_running:
  "pc_running (record_control req s) = pc_running s" "pc_serverThread (record_control req s) = pc_serverThread s"
  by (simp_all add: record_control_def split: PrivateCompositeControlKind.split)

lemma request_running:
  "handleHttpRequest r s p = Some (resp, s', p') \<Longrightarrow> pc_running s' = pc_running s \<and> pc_serverThread s' = pc_serverThread s"
  by (auto simp: handleHttpRequest_def handleModeRequest_def handleCompositeRequest_def handleCompositeConfigRequest_def
      record_control_running Let_def elim!: bind_SomeE split: if_splits option.split_asm)

text \<open>
  Claim C18. Over a faithful line every request the program has received is answered as long as the watching loop finds the
  video process. When it does not, it keeps the mutex while it stops the server: a request for a mode or for the
  configuration is then not answered, and while the server's thread has such a request in its hands the program
  does not end.
\<close>

theorem control_requests_answered:
  assumes "control_main fl order gs ser now sk args w = Some (Serving s0 p0)" "serving view gs sk s0 p0 s p"
    and "orderly gs ser view p0" "sockets_apart sk view"
  shows "(\<exists>resp s' p'. handleHttpRequest r s p = Some (resp, s', p')) \<and>
    (control_watch gs p = (False, p1) \<and> needs_callback r \<longrightarrow>
       handleHttpRequest r s p1 = None \<and> control_lost ser sk (finishing r s) s p1 = None)"
proof -
  from control_main_serving(1)[OF assms(1)] assms(3) have "kept False gs ser now view s0 p0" by (simp add: kept_def)
  with assms(2,4) have "kept False gs ser now view s p" by (rule serving_kept)
  then have s: "serves gs ser now s" "orderly gs ser view p" by (simp_all add: kept_def)
  have run: "pc_running s \<and> pc_serverThread s"
  proof (rule serving_induct_requests[OF assms(2,4)])
    show "pc_running s0 \<and> pc_serverThread s0" by (rule control_main_running[OF assms(1)])
  qed (auto dest: request_running)
  from faithful.request_returns[OF s(1)[unfolded serves_def] s(2)]
    held_mutex_waits[OF s(1)] lost_deadlock[OF s(1)] control_watch_lost run show ?thesis by blast
qed

text \<open>The register a control sets is shown with the value and the name of the request.\<close>

definition shows_control :: "PrivateCompositeControlRequest \<Rightarrow> PrivateCompositeConfigSnapshot \<Rightarrow> bool" where
  "shows_control req snapshot \<longleftrightarrow>
     list_ex (\<lambda>v. Some (pg_address v) = map_option register_address (control_register (pq_kind req)) \<and>
         pg_rawValue v = pq_value req \<and> pg_valueName v = pq_valueName req) (ps_registers snapshot)"

fun control_value_name :: "PrivateCompositeControlKind \<Rightarrow> u16 \<Rightarrow> string" where
  "control_value_name PrivateCompositeControlKind.FusionColor v = fusionColorValueName v"
| "control_value_name PrivateCompositeControlKind.ContourMode v = contourModeValueName v"
| "control_value_name PrivateCompositeControlKind.InfraredPolarity v = infraredPolarityValueName v"
| "control_value_name PrivateCompositeControlKind.Unknown v = []"

lemma canonical_named:
  "list_all (\<lambda>req. pq_kind req \<noteq> PrivateCompositeControlKind.Unknown \<and>
     control_value_name (pq_kind req) (pq_value req) = pq_valueName req) canonical_requests"
  by code_simp

lemma register_spec_simps:
  "cg_reg (register_spec i name display reg isSigned valueName) = reg"
  "cg_valueName (register_spec i name display reg isSigned valueName) = valueName"
  by (simp_all add: register_spec_def)

lemma control_specs:
  "map (\<lambda>spec. (cg_reg spec, cg_valueName spec)) (take 3 (drop 1 compositeConfigRegisterSpecs)) =
     [(CompositeSensorRegister.FusionColor, Some fusionColorValueName),
      (CompositeSensorRegister.ContourMode, Some contourModeValueName),
      (CompositeSensorRegister.InfraredPolarity, Some infraredPolarityValueName)]"
  by (simp add: compositeConfigRegisterSpecs_def register_spec_simps)

lemma control_spec:
  assumes "control_register kind = Some reg"
  shows "\<exists>spec \<in> set compositeConfigRegisterSpecs. cg_reg spec = reg \<and> cg_valueName spec = Some (control_value_name kind)"
proof -
  have "(reg, Some (control_value_name kind)) \<in>
      set (map (\<lambda>spec. (cg_reg spec, cg_valueName spec)) (take 3 (drop 1 compositeConfigRegisterSpecs)))"
    unfolding control_specs using assms by (cases kind) (auto simp: fun_eq_iff)
  then obtain spec where spec: "spec \<in> set (take 3 (drop 1 compositeConfigRegisterSpecs))"
    "(reg, Some (control_value_name kind)) = (cg_reg spec, cg_valueName spec)" unfolding set_map by (rule imageE)
  from in_set_dropD[OF in_set_takeD[OF spec(1)]] spec(2) show ?thesis by (intro bexI[of _ spec]) simp_all
qed

lemma parsed_control_shown:
  assumes "parseCompositeControlPath path = Some req" "cp_serialEnabled p"
  shows "control_register (pq_kind req) \<noteq> None" "shows_control req (sensor_snapshot (control_registers req p regs))"
proof -
  from canonical_named parsed_control_canonical[OF assms(1)] have known: "pq_kind req \<noteq> PrivateCompositeControlKind.Unknown"
    "control_value_name (pq_kind req) (pq_value req) = pq_valueName req" by (simp_all add: list_all_iff)
  from known(1) show some: "control_register (pq_kind req) \<noteq> None" by (cases "pq_kind req") simp_all
  then obtain spec where spec: "spec \<in> set compositeConfigRegisterSpecs" "control_register (pq_kind req) = Some (cg_reg spec)"
    "cg_valueName spec = Some (control_value_name (pq_kind req))" using control_spec by fastforce
  with known(2) assms(2) show "shows_control req (sensor_snapshot (control_registers req p regs))"
    by (auto simp: shows_control_def sensor_snapshot_def control_registers_def register_value_def list_ex_iff
        intro!: bexI[of _ spec])
qed

lemma composite_dispatch:
  assumes "parsePath r = ''/api/v1/composite/'' @ path" "path \<noteq> ''config''" "path \<noteq> ''configuration''"
  shows "handleHttpRequest r s p = handleCompositeRequest (http_method r) path s p"
  using assms by (simp add: handleHttpRequest_def Let_def startsWith_def)

lemma config_dispatch:
  "parsePath r = ''/api/v1/composite/config'' \<Longrightarrow> handleHttpRequest r s p = handleCompositeConfigRequest (http_method r) s p"
  by (simp add: handleHttpRequest_def Let_def startsWith_def)

text \<open>
  Claim C7. Over a faithful line a register that an accepted request sets over HTTP is the one the configuration page then
  shows, with the value and the name of the request; every other register is shown as it was.
\<close>

theorem control_read_back:
  assumes "serves gs ser now s" "orderly gs ser view p" "cp_serialEnabled p"
    and "http_method r = ''POST''" "parsePath r = ''/api/v1/composite/'' @ path" "parseCompositeControlPath path = Some req"
    and "http_method q = ''GET''" "parsePath q = ''/api/v1/composite/config''"
  shows "\<exists>result snapshot s1 p1 s2 p2. pr_ok result \<and>
    handleHttpRequest r s p = Some (answered True (control_body result req), s1, p1) \<and>
    handleHttpRequest q s1 p1 = Some (answered True (config_body snapshot), s2, p2) \<and>
    snapshot = sensor_snapshot (control_registers req p (dv_regs (view (cp_world p)))) \<and> shows_control req snapshot"
proof -
  have "parseCompositeControlPath ''config'' = None" "parseCompositeControlPath ''configuration'' = None" by code_simp+
  with assms(6) have path: "path \<noteq> ''config''" "path \<noteq> ''configuration''" by auto
  from assms(1) have cbs: "pc_compositeCallback s = Some (compositeControlCallback ser)"
    "pc_configQueryCallback s = Some (compositeConfigQueryCallback ser)" by (simp_all add: serves_def installed_def)
  from control_orderly[OF assms(2), of req] parsed_control_shown(1)[OF assms(6,3)] assms(3) obtain result p1 where
    set: "compositeControlCallback ser req p = Some (result, p1)" "orderly gs ser view p1" "pr_ok result"
    "dv_regs (view (cp_world p1)) = control_registers req p (dv_regs (view (cp_world p)))" by auto
  have first: "handleHttpRequest r s p = Some (answered True (control_body result req), record_control req s, p1)"
    unfolding composite_dispatch[OF assms(5) path] assms(4)
    using assms(6) cbs set(1,3) by (simp add: handleCompositeRequest_def)
  from set(1) assms(3) have "cp_serialEnabled p1" using same_videoD(2)[OF control_frame] by metis
  with query_orderly[OF set(2)] obtain p2 where
    query: "compositeConfigQueryCallback ser p1 = Some (sensor_snapshot (dv_regs (view (cp_world p1))), p2)" by auto
  have "handleHttpRequest q (record_control req s) p1 =
      Some (answered True (config_body (sensor_snapshot (dv_regs (view (cp_world p1))))), record_control req s, p2)"
    unfolding config_dispatch[OF assms(8)] assms(7)
    using cbs query by (simp add: handleCompositeConfigRequest_def sensor_snapshot_def)
  with first set(3,4) parsed_control_shown(2)[OF assms(6,3)] show ?thesis by metis
qed


subsection \<open>A small system for the witnesses\<close>

text \<open>A clock, video processes that end when they are told to, the byte line with its sensor, one peer that asks for the
  configuration; \<open>early\<close> says which processes end at once. There are no configuration files.\<close>

record probe_world =
  pw_time :: int
  pw_forks :: nat
  pw_alive :: bool
  pw_sensor :: sensor_device

definition probe_gst :: "(nat \<Rightarrow> bool) \<Rightarrow> probe_world gst_system" where
  "probe_gst early =
     \<lparr>gw_fork = (\<lambda>args w. (Inr 7, w\<lparr>pw_forks := pw_forks w + 1, pw_alive := \<not> early (pw_forks w)\<rparr>)),
      gw_wait = (\<lambda>pid w. (if pw_alive w then WaitRunning else WaitExited 0, w)),
      gw_kill = (\<lambda>pid sig w. w\<lparr>pw_alive := False\<rparr>), gw_sleep = (\<lambda>ms w. w\<lparr>pw_time := pw_time w + ms\<rparr>), gw_now = pw_time\<rparr>"

definition on_sensor :: "(sensor_device \<Rightarrow> 'a \<times> sensor_device) \<Rightarrow> probe_world \<Rightarrow> 'a \<times> probe_world" where
  "on_sensor f w = (case f (pw_sensor w) of (a, dv) \<Rightarrow> (a, w\<lparr>pw_sensor := dv\<rparr>))"

definition sensor_line :: "sensor_device serial_os \<Rightarrow> probe_world serial_os" where
  "sensor_line os =
     \<lparr>so_open = (\<lambda>dev. on_sensor (so_open os dev)), so_close = (\<lambda>fd w. w\<lparr>pw_sensor := so_close os fd (pw_sensor w)\<rparr>),
      so_tcgetattr = (\<lambda>fd. on_sensor (so_tcgetattr os fd)), so_tcsetattr = (\<lambda>fd l. on_sensor (so_tcsetattr os fd l)),
      so_tcflush = (\<lambda>fd w. w\<lparr>pw_sensor := so_tcflush os fd (pw_sensor w)\<rparr>),
      so_write = (\<lambda>fd bs. on_sensor (so_write os fd bs)), so_poll = (\<lambda>fd t. on_sensor (so_poll os fd t)),
      so_read = (\<lambda>fd n. on_sensor (so_read os fd n))\<rparr>"

definition probe_sockets :: "probe_world sockets" where
  "probe_sockets =
     \<lparr>sk_socket = Pair (Inr 4), sk_reuse = (\<lambda>fd w. w), sk_aton = (\<lambda>host. True), sk_bind = (\<lambda>fd host port. Pair None),
      sk_listen = (\<lambda>fd n. Pair None), sk_accept = (\<lambda>fd. Pair (Inr 5)), sk_close = (\<lambda>fd w. w), sk_shutdown = (\<lambda>fd w. w),
      sk_recv = (\<lambda>fd n. Pair ''GET /api/v1/composite/config HTTP/1.1''), sk_send = (\<lambda>fd data. Pair (length data))\<rparr>"

definition probe_files :: "probe_world files" where
  "probe_files = \<lparr>fl_read = (\<lambda>path w. None), fl_write = (\<lambda>path text w. (False, w))\<rparr>"

definition probe_start :: probe_world where
  "probe_start = \<lparr>pw_time = 0, pw_forks = 0, pw_alive = False, pw_sensor = fresh_sensor\<lparr>dv_regs := (\<lambda>a. 3)\<rparr>\<rparr>"

definition probe_main :: "probe_world control_outcome option" where
  "probe_main = control_main probe_files (\<lambda>m. []) (probe_gst (\<lambda>n. False)) (sensor_line byte_line) pw_time probe_sockets
     [] probe_start"

lemma probe_laws:
  "clock_law (probe_gst early)" "apart (probe_gst early) pw_sensor" "sockets_apart probe_sockets view"
  "faithful_line (sensor_line byte_line) fd pw_sensor"
proof -
  show "clock_law (probe_gst early)" by (simp add: clock_law_def probe_gst_def)
  show "apart (probe_gst early) pw_sensor" by (simp add: apart_def probe_gst_def)
  show "sockets_apart probe_sockets view" by (simp add: sockets_apart_def probe_sockets_def)
  show "faithful_line (sensor_line byte_line) fd pw_sensor"
    using byte_line_faithful[of fd] unfolding faithful_line_def
    by (auto simp: sensor_line_def on_sensor_def byte_line_def)
qed

lemma probe_serial:
  "\<exists>c w. ctl_init (sensor_line byte_line) (builtin_serial default_serial_config) False (setAckRequired True new_controller) probe_start =
     (Success, c, w) \<and> isReady c \<and> ctl_builder c \<noteq> None \<and> pw_sensor w = pw_sensor probe_start"
proof -
  let ?cfg = "builtin_serial default_serial_config"
  have cfg: "makeSerialPortConfig ?cfg = Inr (default_port_config\<lparr>sp_device := ''/dev/ttyACM0''\<rparr>)" "sc_enable ?cfg"
    by (simp_all add: makeSerialPortConfig_def builtin_serial_def default_serial_config_def default_port_config_def lower_none Let_def)
  have "\<exists>port w. openPort (sensor_line byte_line) (default_port_config\<lparr>sp_device := ''/dev/ttyACM0''\<rparr>) default_port probe_start =
      (Success, port, w) \<and> port_isOpen port \<and> pw_sensor w = pw_sensor probe_start"
    by (simp add: openPort_def port_isOpen_def default_port_def default_port_config_def configureTermios_def toSpeed_def
        sensor_line_def on_sensor_def byte_line_def)
  with cfg show ?thesis
    by (auto simp: ctl_init_def new_controller_def setAckRequired_def default_sensor_state_def builder_init_def isReady_def Let_def)
qed

lemma probe_video:
  assumes "cp_pid p \<le> 0" "\<not> early (pw_forks (cp_world p))"
  shows "\<exists>g w. cp_start (probe_gst early) p = (True, p\<lparr>cp_pipeline := g, cp_world := w\<rparr>) \<and>
    pw_sensor w = pw_sensor (cp_world p)"
  using assms by (simp add: cp_start_def gz_start_def gq_start_def gq_isRunning_def probe_gst_def buildUdpMpegTsH264Args_def)
    (intro exI conjI, rule refl, simp)

lemma probe_settings:
  "\<exists>gy cm. gy_load probe_files order options new_gst_manager new_config_manager w = (Success, gy, cm) \<and>
     sys_serial (cfm_config cm) = default_serial_config"
  by (simp add: gy_load_def loadAll_def loadCamera_def cm_parse_def parseSimpleYaml_def readText_def probe_files_def
      new_config_manager_def default_system_config_def rewrap_def status_error_def Let_def)

lemma probe_listens:
  "\<exists>s. start_server gs ser now probe_sockets default_private_config p = Some (Serving s p)"
proof -
  have "p\<lparr>cp_world := cp_world p\<rparr> = p" by simp
  then show ?thesis
    by (simp add: start_server_def pc_start_def new_private_server_def pc_opened_def pc_bound_def default_private_config_def
        program_sockets_def on_world_def probe_sockets_def Let_def)
qed

lemma probe_serves:
  "\<exists>s p. probe_main = Some (Serving s p) \<and> cp_serialEnabled p \<and> orderly (probe_gst (\<lambda>n. False)) (sensor_line byte_line) pw_sensor p \<and>
     switched_registers (cp_currentMode p) p (dv_regs (pw_sensor (cp_world p))) = dv_regs (pw_sensor (cp_world p))"
proof -
  obtain gy cm where gy: "gy_load probe_files (\<lambda>m. []) default_gst_options new_gst_manager new_config_manager probe_start =
      (Success, gy, cm)" "sys_serial (cfm_config cm) = default_serial_config" using probe_settings by blast
  obtain c w where c: "ctl_init (sensor_line byte_line) (builtin_serial default_serial_config) False
      (setAckRequired True new_controller) probe_start = (Success, c, w)" "isReady c" "ctl_builder c \<noteq> None"
    "pw_sensor w = pw_sensor probe_start" using probe_serial by blast
  let ?p = "(initial_program default_control_options gy probe_start)\<lparr>cp_controller := c, cp_world := w\<rparr>"
  have serial: "start_serial (sensor_line byte_line) default_control_options (builtin_serial default_serial_config)
      (initial_program default_control_options gy probe_start) = (Success, ?p)"
    using c(1) by (simp add: start_serial_def initial_program_def default_control_options_def)
  have "cp_pid ?p \<le> 0" by (simp add: initial_program_def new_gst_pipeline_def new_gst_process_def Let_def)
  from probe_video[OF this, of "\<lambda>n. False"] obtain g v where v: "cp_start (probe_gst (\<lambda>n. False)) ?p =
      (True, ?p\<lparr>cp_pipeline := g, cp_world := v\<rparr>)" "pw_sensor v = pw_sensor w" by auto
  let ?q = "?p\<lparr>cp_pipeline := g, cp_world := v\<rparr>"
  from probe_listens[of "probe_gst (\<lambda>n. False)" "sensor_line byte_line" pw_time ?q] obtain s where
    "start_server (probe_gst (\<lambda>n. False)) (sensor_line byte_line) pw_time probe_sockets default_private_config ?q =
      Some (Serving s ?q)" by blast
  with gy serial v(1) have "probe_main = Some (Serving s ?q)"
    by (simp add: probe_main_def control_main_def start_video_def default_control_options_def serial_settings_def Let_def)
  moreover have "cp_serialEnabled ?q \<and> orderly (probe_gst (\<lambda>n. False)) (sensor_line byte_line) pw_sensor ?q \<and>
     switched_registers (cp_currentMode ?q) ?q (dv_regs (pw_sensor (cp_world ?q))) = dv_regs (pw_sensor (cp_world ?q))"
    using c v(2) probe_laws by (simp add: orderly_def connected_def switched_fix initial_program_def default_control_options_def
        probe_start_def fresh_sensor_def idle_def Let_def)
  ultimately show ?thesis by blast
qed

subsection \<open>Witnesses\<close>

theorem control_switch_mode_witness:
  "\<exists>p r p'. cp_serialEnabled p \<and>
     switchCallback (probe_gst (\<lambda>n. False)) (sensor_line byte_line) pw_time PrivateWorkMode.ThermalOnly p = Some (r, p') \<and>
     orderly (probe_gst (\<lambda>n. False)) (sensor_line byte_line) pw_sensor p'"
proof -
  from probe_serves obtain p where p: "cp_serialEnabled p" "orderly (probe_gst (\<lambda>n. False)) (sensor_line byte_line) pw_sensor p" by blast
  from control_switch_mode[OF p(2), of pw_time PrivateWorkMode.ThermalOnly] p(1) show ?thesis by blast
qed

lemma probe_turn:
  "\<exists>s0 p0 s p. probe_main = Some (Serving s0 p0) \<and> cp_serialEnabled p0 \<and>
     orderly (probe_gst (\<lambda>n. False)) (sensor_line byte_line) pw_sensor p0 \<and>
     switched_registers (cp_currentMode p0) p0 (dv_regs (pw_sensor (cp_world p0))) = dv_regs (pw_sensor (cp_world p0)) \<and>
     private_turn (program_sockets probe_sockets) s0 p0 = Some (s, p)"
proof -
  from probe_serves obtain s0 p0 where m: "probe_main = Some (Serving s0 p0)" "cp_serialEnabled p0"
    "orderly (probe_gst (\<lambda>n. False)) (sensor_line byte_line) pw_sensor p0"
    "switched_registers (cp_currentMode p0) p0 (dv_regs (pw_sensor (cp_world p0))) = dv_regs (pw_sensor (cp_world p0))" by blast
  from orderly_turn_returns[OF control_main_serving(1)[OF m(1)[unfolded probe_main_def]] m(3) probe_laws(3)] m show ?thesis by blast
qed

theorem control_pipeline_configured_witness:
  "\<exists>s0 p0 s p. probe_main = Some (Serving s0 p0) \<and> private_turn (program_sockets probe_sockets) s0 p0 = Some (s, p) \<and>
     gz_config (cp_pipeline p) = mode_config (cp_currentMode p) p0"
proof -
  obtain s0 p0 s p where m: "probe_main = Some (Serving s0 p0)" "private_turn (program_sockets probe_sockets) s0 p0 = Some (s, p)"
    using probe_turn by blast
  from control_pipeline_configured[OF m(1)[unfolded probe_main_def] serving_turn[OF serving_begin m(2)]] m show ?thesis by blast
qed

theorem control_status_true_witness:
  "\<exists>s0 p0 s p. probe_main = Some (Serving s0 p0) \<and> private_turn (program_sockets probe_sockets) s0 p0 = Some (s, p) \<and>
     (cp_pid p \<le> 0 \<or> launched (probe_gst (\<lambda>n. False)) (mode_config (pc_currentMode s) p) (cp_pipeline p))"
proof -
  obtain s0 p0 s p where m: "probe_main = Some (Serving s0 p0)" "orderly (probe_gst (\<lambda>n. False)) (sensor_line byte_line) pw_sensor p0"
    "switched_registers (cp_currentMode p0) p0 (dv_regs (pw_sensor (cp_world p0))) = dv_regs (pw_sensor (cp_world p0))"
    "private_turn (program_sockets probe_sockets) s0 p0 = Some (s, p)" using probe_turn by blast
  from control_status_true[OF m(1)[unfolded probe_main_def] serving_turn[OF serving_begin m(4)] m(2) probe_laws(3) m(3)] m(1,4)
  show ?thesis by blast
qed

text \<open>The video process of a program that serves ends, and a request for the thermal mode comes.\<close>

lemma probe_lost:
  assumes "0 < cp_pid p" "\<not> pw_alive (cp_world p)"
  shows "\<exists>p1. control_watch (probe_gst early) p = (False, p1)"
  using assms by (simp add: control_watch_def gz_isRunning_def gq_isRunning_def probe_gst_def)

theorem control_requests_answered_witness:
  "\<exists>s0 p0 p p1. probe_main = Some (Serving s0 p0) \<and>
     serving pw_sensor (probe_gst (\<lambda>n. False)) probe_sockets s0 p0 s0 p \<and>
     handleHttpRequest ''POST /api/v1/mode/thermal HTTP/1.1'' s0 p \<noteq> None \<and>
     control_watch (probe_gst (\<lambda>n. False)) p = (False, p1) \<and>
     handleHttpRequest ''POST /api/v1/mode/thermal HTTP/1.1'' s0 p1 = None"
proof -
  let ?r = "''POST /api/v1/mode/thermal HTTP/1.1''"
  obtain s0 p0 where m: "probe_main = Some (Serving s0 p0)" "orderly (probe_gst (\<lambda>n. False)) (sensor_line byte_line) pw_sensor p0"
    using probe_serves by blast
  define p where "p = p0\<lparr>cp_world := (cp_world p0)\<lparr>pw_alive := False\<rparr>\<rparr>"
  have "only_world pw_sensor p0 p" by (simp add: only_world_def p_def)
  then have sv: "serving pw_sensor (probe_gst (\<lambda>n. False)) probe_sockets s0 p0 s0 p"
    by (rule serving_outside[OF serving_begin])
  have "0 < cp_pid p" using control_main_serving(4)[OF m(1)[unfolded probe_main_def]] by (simp add: launched_def p_def)
  moreover have "\<not> pw_alive (cp_world p)" by (simp add: p_def)
  ultimately obtain p1 where lost: "control_watch (probe_gst (\<lambda>n. False)) p = (False, p1)" using probe_lost by blast
  have "http_method ?r = ''POST''" "parsePath ?r = ''/api/v1/mode/'' @ ''thermal''"
    "privateWorkModeFromCommandName ''thermal'' \<noteq> None" by code_simp+
  then have "needs_callback ?r" unfolding needs_callback_def by blast
  with control_requests_answered[OF m(1)[unfolded probe_main_def] sv m(2) probe_laws(3), of ?r p1] m(1) sv lost
  show ?thesis by blast
qed

theorem control_read_back_witness:
  "\<exists>s0 p0 result snapshot s1 p1 s2 p2 req. probe_main = Some (Serving s0 p0) \<and>
     parseCompositeControlPath ''color/Desert'' = Some req \<and> pr_ok result \<and>
     handleHttpRequest ''POST /api/v1/composite/color/Desert HTTP/1.1'' s0 p0 =
       Some (answered True (control_body result req), s1, p1) \<and>
     handleHttpRequest ''GET /api/v1/composite/config HTTP/1.1'' s1 p1 = Some (answered True (config_body snapshot), s2, p2) \<and>
     shows_control req snapshot"
proof -
  obtain s0 p0 where m: "probe_main = Some (Serving s0 p0)" "cp_serialEnabled p0"
    "orderly (probe_gst (\<lambda>n. False)) (sensor_line byte_line) pw_sensor p0" using probe_serves by blast
  have req: "parseCompositeControlPath ''color/Desert'' = Some \<lparr>pq_kind = PrivateCompositeControlKind.FusionColor, pq_name = ''fusion_color'',
      pq_valueName = ''desert'', pq_value = 6\<rparr>" by code_simp
  have "http_method ''POST /api/v1/composite/color/Desert HTTP/1.1'' = ''POST''"
    "parsePath ''POST /api/v1/composite/color/Desert HTTP/1.1'' = ''/api/v1/composite/'' @ ''color/Desert''"
    "http_method ''GET /api/v1/composite/config HTTP/1.1'' = ''GET''"
    "parsePath ''GET /api/v1/composite/config HTTP/1.1'' = ''/api/v1/composite/config''" by code_simp+
  from control_read_back[OF control_main_serving(1)[OF m(1)[unfolded probe_main_def]] m(3,2) this(1,2) req this(3,4)] m(1) req
  show ?thesis by blast
qed


end
