(* ===== verification/Tri_Main.thy ===== *)
theory Tri_Main
  imports Tri_MpegTs Tri_ConfigFile Tri_EventBus
begin

text \<open>
  The program (main.cpp): it reads the configuration, initializes the parts one after the other, switches to
  the mode of its command line, starts the publisher and waits; every failure on the way takes down
  what was set up. The output to the console, the logger, the numbers printed while it waits and the destructors that run when
  \<open>main\<close> returns are left out.
\<close>

subsection \<open>The parts and the outside world\<close>

record 'w platform =
  pf_files :: "'w files"
  pf_env :: "'w media_env"
  pf_serial :: "'w serial_os"
  pf_processes :: "'w processes"
  pf_skip :: bool

record 'w app =
  ap_config :: ConfigManager
  ap_bus :: "'w EventBus"
  ap_modes :: ModeManager
  ap_plant :: "'w plant"
  ap_streamService :: StreamService
  ap_publisher :: UdpMpegTsPublisher

text \<open>The parts before they are initialized, with the encoder of the rig unused: \<open>main\<close> passes no
  encoder and no decoder.\<close>

definition new_app :: "'w \<Rightarrow> 'w app" where
  "new_app w =
     \<lparr>ap_config = new_config_manager, ap_bus = new_bus, ap_modes = new_mode_manager,
      ap_plant =
        \<lparr>plant_rig = \<lparr>rg_cameras = new_camera_manager, rg_stream = new_main_stream, rg_encoder = new_encoder, rg_world = w\<rparr>,
         plant_controller = new_controller, plant_fusion = new_engine\<rparr>,
      ap_streamService = \<lparr>ssv_mainStream = False\<rparr>, ap_publisher = new_publisher\<rparr>"

definition main_runtime :: ModeRuntimeContext where
  "main_runtime =
     \<lparr>rc_cameraManager = True, rc_compositeController = True, rc_mainStream = True, rc_eventBus = True,
      rc_mjpegDecoder = False, rc_encoder = False, rc_fusionEngine = True\<rparr>"

abbreviation app_rig :: "'w app \<Rightarrow> 'w rig" where
  "app_rig app \<equiv> plant_rig (ap_plant app)"

definition set_rig_of :: "('w rig \<Rightarrow> 'w rig) \<Rightarrow> 'w app \<Rightarrow> 'w app" where
  "set_rig_of f app = app\<lparr>ap_plant := (ap_plant app)\<lparr>plant_rig := f (app_rig app)\<rparr>\<rparr>"

text \<open>The program ends with an exit code, or because \<open>std::stoi\<close> throws, or it is ready and pushes frames.\<close>

datatype 'w main_outcome = Ended int "'w app" | Uncaught | Ready "'w app"

subsection \<open>Taking down\<close>

definition bus_down :: "'w app \<Rightarrow> 'w app" where
  "bus_down app = app\<lparr>ap_bus := bus_shutdown (ap_bus app)\<rparr>"

definition close_cameras :: "'w platform \<Rightarrow> 'w app \<Rightarrow> 'w app option" where
  "close_cameras pf app =
     do { (m, w) \<leftarrow> closeAll (env_video (pf_env pf)) (rg_cameras (app_rig app)) (rg_world (app_rig app));
          Some (set_rig_of (\<lambda>r. r\<lparr>rg_cameras := m, rg_world := w\<rparr>) app) }"

definition shutdown_controller :: "'w platform \<Rightarrow> 'w app \<Rightarrow> 'w app" where
  "shutdown_controller pf app =
     (case ctl_shutdown (pf_serial pf) (plant_controller (ap_plant app)) (rg_world (app_rig app)) of (c, w) \<Rightarrow>
        set_rig_of (\<lambda>r. r\<lparr>rg_world := w\<rparr>) (app\<lparr>ap_plant := (ap_plant app)\<lparr>plant_controller := c\<rparr>\<rparr>))"

definition stop_modes :: "'w platform \<Rightarrow> 'w app \<Rightarrow> 'w app option" where
  "stop_modes pf app =
     do { (mm, pl) \<leftarrow> mm_stop (pf_env pf) (ap_modes app) (ap_plant app);
          Some (app\<lparr>ap_modes := mm, ap_plant := pl\<rparr>) }"

text \<open>The three lengths of the cleaning up: from the cameras on, from the controller on, from the modes on.\<close>

definition leave_cameras :: "'w platform \<Rightarrow> int \<Rightarrow> 'w app \<Rightarrow> 'w main_outcome option" where
  "leave_cameras pf code app = do { app \<leftarrow> close_cameras pf app; Some (Ended code (bus_down app)) }"

definition leave_controller :: "'w platform \<Rightarrow> int \<Rightarrow> 'w app \<Rightarrow> 'w main_outcome option" where
  "leave_controller pf code app = leave_cameras pf code (shutdown_controller pf app)"

definition leave_modes :: "'w platform \<Rightarrow> int \<Rightarrow> 'w app \<Rightarrow> 'w main_outcome option" where
  "leave_modes pf code app = do { app \<leftarrow> stop_modes pf app; leave_controller pf code app }"

subsection \<open>The publisher's configuration\<close>

definition pipeInputFormatFromCameraFormat :: "string \<Rightarrow> FfmpegPipeInputFormat" where
  "pipeInputFormatFromCameraFormat format =
     (if format \<in> {''yuyv'', ''YUYV'', ''yuyv422'', ''YUYV422''} then RawYuyv422 else FfmpegPipeInputFormat.Mjpeg)"

definition push_config :: "ModeSwitchPlan \<Rightarrow> CameraConfig \<Rightarrow> string \<Rightarrow> UdpMpegTsPublisherConfig" where
  "push_config plan camera url =
     (let endpoint = (if mp_requireVisible plan \<and> \<not> mp_requireComposite plan then cc_visible camera
                      else cc_compositeLowThermal camera)
      in default_publisher_config\<lparr>
           uc_udpUrl := url, uc_width := word_of_int (ep_width endpoint),
           uc_height := word_of_int (ep_height endpoint), uc_fps := word_of_int (ep_fps endpoint),
           uc_inputFormat := pipeInputFormatFromCameraFormat (ep_format endpoint)\<rparr>)"

subsection \<open>Setting up\<close>

definition start_pushing ::
  "'w platform \<Rightarrow> ModeSwitchPlan \<Rightarrow> string \<Rightarrow> 'w app \<Rightarrow> 'w main_outcome option" where
  "start_pushing pf plan url app =
     do { (r, p, w) \<leftarrow> publisher_start (pf_processes pf) (push_config plan (sys_camera (cfm_config (ap_config app))) url)
                       True (ap_publisher app) (rg_world (app_rig app));
          let app = set_rig_of (\<lambda>r. r\<lparr>rg_world := w\<rparr>) (app\<lparr>ap_publisher := p\<rparr>);
          (case r of Inl _ \<Rightarrow> leave_modes pf 1 app | Inr _ \<Rightarrow> Some (Ready app)) }"

definition switch_and_push ::
  "'w platform \<Rightarrow> clock \<Rightarrow> WorkMode \<Rightarrow> ModeSwitchPlan \<Rightarrow> string \<Rightarrow> 'w app \<Rightarrow> 'w main_outcome option" where
  "switch_and_push pf clk mode plan url app =
     (case clk of (t0, t1, t2) \<Rightarrow>
        do { (r, mm, pl) \<leftarrow> switchTo (pf_env pf) (pf_serial pf) (pf_skip pf) t0 t1 t2 mode (ap_modes app) (ap_plant app);
             let app = app\<lparr>ap_modes := mm, ap_plant := pl\<rparr>;
             (case r of Inl _ \<Rightarrow> leave_modes pf 1 app | Inr _ \<Rightarrow> start_pushing pf plan url app) })"

definition setup_streaming ::
  "'w platform \<Rightarrow> clock \<Rightarrow> WorkMode \<Rightarrow> ModeSwitchPlan \<Rightarrow> string \<Rightarrow> 'w app \<Rightarrow> 'w main_outcome option" where
  "setup_streaming pf clk mode plan url app =
     (let (r, s) = ssv_init True (ap_streamService app); app = app\<lparr>ap_streamService := s\<rparr>
      in case r of Inl _ \<Rightarrow> leave_modes pf 1 app | Inr _ \<Rightarrow> switch_and_push pf clk mode plan url app)"

definition setup_modes ::
  "'w platform \<Rightarrow> clock \<Rightarrow> WorkMode \<Rightarrow> string \<Rightarrow> 'w app \<Rightarrow> 'w main_outcome option" where
  "setup_modes pf clk mode url app =
     (let config = cfm_config (ap_config app); (r, mm) = mm_init (sys_mode config) (sys_media config) main_runtime (ap_modes app);
          app = app\<lparr>ap_modes := mm\<rparr>
      in case r of Inl _ \<Rightarrow> leave_controller pf 1 app | Inr _ \<Rightarrow>
           (case planFor mode mm of
              Inl _ \<Rightarrow> leave_modes pf 1 app
            | Inr plan \<Rightarrow> setup_streaming pf clk mode plan url app))"

definition setup_stream ::
  "'w platform \<Rightarrow> clock \<Rightarrow> WorkMode \<Rightarrow> string \<Rightarrow> 'w app \<Rightarrow> 'w main_outcome option" where
  "setup_stream pf clk mode url app =
     (let (r, s) = ms_init (sys_media (cfm_config (ap_config app))) (rg_stream (app_rig app));
          app = set_rig_of (\<lambda>rig. rig\<lparr>rg_stream := s\<rparr>) app
      in case r of Inl _ \<Rightarrow> leave_controller pf 1 app | Inr _ \<Rightarrow> setup_modes pf clk mode url app)"

definition setup_controller ::
  "'w platform \<Rightarrow> clock \<Rightarrow> WorkMode \<Rightarrow> string \<Rightarrow> 'w app \<Rightarrow> 'w main_outcome option" where
  "setup_controller pf clk mode url app =
     (let (r, c, w) = ctl_init (pf_serial pf) (sys_serial (cfm_config (ap_config app))) True
                        (plant_controller (ap_plant app)) (rg_world (app_rig app));
          app = set_rig_of (\<lambda>rig. rig\<lparr>rg_world := w\<rparr>) (app\<lparr>ap_plant := (ap_plant app)\<lparr>plant_controller := c\<rparr>\<rparr>)
      in case r of Inl _ \<Rightarrow> leave_cameras pf 1 app | Inr _ \<Rightarrow> setup_stream pf clk mode url app)"

definition setup_cameras ::
  "'w platform \<Rightarrow> clock \<Rightarrow> WorkMode \<Rightarrow> string \<Rightarrow> 'w app \<Rightarrow> 'w main_outcome option" where
  "setup_cameras pf clk mode url app =
     (let (r, m) = manager_init (sys_camera (cfm_config (ap_config app))) True (rg_cameras (app_rig app));
          app = set_rig_of (\<lambda>rig. rig\<lparr>rg_cameras := m\<rparr>) app
      in case r of Inl _ \<Rightarrow> Some (Ended 1 (bus_down app)) | Inr _ \<Rightarrow> setup_controller pf clk mode url app)"

definition setup_system ::
  "'w platform \<Rightarrow> clock \<Rightarrow> WorkMode \<Rightarrow> string \<Rightarrow> string \<Rightarrow> 'w app \<Rightarrow> 'w main_outcome option" where
  "setup_system pf clk mode dir url app =
     (let (r, config) = loadAll (pf_files pf) dir (ap_config app) (rg_world (app_rig app));
          app = app\<lparr>ap_config := config\<rparr>
      in case r of Inl _ \<Rightarrow> Some (Ended 1 app) | Inr _ \<Rightarrow>
           let (b, bus) = bus_init False 1 (ap_bus app); app = app\<lparr>ap_bus := bus\<rparr>
           in case b of Inl _ \<Rightarrow> Some (Ended 1 app) | Inr _ \<Rightarrow> setup_cameras pf clk mode url app)"

definition argument :: "string list \<Rightarrow> nat \<Rightarrow> string \<Rightarrow> string" where
  "argument argv n fallback = (if n < length argv then argv ! n else fallback)"

definition main_setup :: "'w platform \<Rightarrow> clock \<Rightarrow> string list \<Rightarrow> 'w \<Rightarrow> 'w main_outcome option" where
  "main_setup pf clk argv w =
     (let dir = argument argv 1 ''./configs'';
          mode = workModeFromString (argument argv 2 ''LOWLIGHT_THERMAL_COMPOSITE'');
          url = argument argv 4 ''udp://192.168.1.35:5004?pkt_size=1316''
      in if stoi (argument argv 3 ''0'') = None then Some Uncaught
         else if dir = ''-h'' \<or> dir = ''--help'' then Some (Ended 0 (new_app w))
         else if mode = WorkMode.Unknown then Some (Ended 1 (new_app w))
         else setup_system pf clk mode dir url (new_app w))"

text \<open>The waiting loop goes on while no signal has arrived and, for a positive number of seconds, these
  are not over.\<close>

definition main_waits :: "bool \<Rightarrow> int \<Rightarrow> int \<Rightarrow> bool" where
  "main_waits stop seconds elapsed \<longleftrightarrow> \<not> stop \<and> \<not> (0 < seconds \<and> seconds \<le> elapsed)"

text \<open>The end of the waiting loop: the publisher is stopped, which waits for its thread, then the rest.\<close>

definition main_finish :: "'w platform \<Rightarrow> 'w app \<Rightarrow> 'w main_outcome option" where
  "main_finish pf app =
     do { (p, w) \<leftarrow> publisher_stop_end (pf_processes pf) (publisher_stop_begin (ap_publisher app)) (rg_world (app_rig app));
          leave_modes pf 0 (set_rig_of (\<lambda>r. r\<lparr>rg_world := w\<rparr>) (app\<lparr>ap_publisher := p\<rparr>)) }"

subsection \<open>What the program can do\<close>

definition cameras_closed :: "'w app \<Rightarrow> bool" where
  "cameras_closed app \<longleftrightarrow>
     \<not> vd_isOpen (dev_v4l2 (cm_visible (rg_cameras (app_rig app)))) \<and>
     \<not> vd_isOpen (dev_v4l2 (cm_composite (rg_cameras (app_rig app))))"

abbreviation cams :: "'w app \<Rightarrow> CameraManager" where
  "cams app \<equiv> rg_cameras (app_rig app)"

abbreviation app_pipeline :: "'w app \<Rightarrow> MediaPipeline option" where
  "app_pipeline app \<equiv> ex_pipeline (mm_executor (ap_modes app))"

lemma set_rig_of_simps [simp]:
  "app_rig (set_rig_of f app) = f (app_rig app)" "ap_modes (set_rig_of f app) = ap_modes app"
  "ap_publisher (set_rig_of f app) = ap_publisher app" "ap_config (set_rig_of f app) = ap_config app"
  "plant_controller (ap_plant (set_rig_of f app)) = plant_controller (ap_plant app)"
  by (simp_all add: set_rig_of_def)

lemma shutdown_controller_simps [simp]:
  "cams (shutdown_controller pf app) = cams app" "ap_modes (shutdown_controller pf app) = ap_modes app"
  by (simp_all add: shutdown_controller_def split: prod.split)

text \<open>Whatever the length of the cleaning up, the cameras are closed and no pipeline is left.\<close>

definition left_clean :: "int \<Rightarrow> 'w main_outcome \<Rightarrow> bool" where
  "left_clean code out \<longleftrightarrow> (\<exists>app. out = Ended code app \<and> cameras_closed app \<and> app_pipeline app = None)"

lemma leave_cameras_clean:
  "leave_cameras pf code app = Some out \<Longrightarrow> manager_inv (cams app) \<Longrightarrow> app_pipeline app = None \<Longrightarrow> left_clean code out"
  by (auto simp: leave_cameras_def close_cameras_def bus_down_def left_clean_def cameras_closed_def is_closed_def
      elim!: bind_SomeE dest!: closeAll_closes)

lemma leave_controller_clean:
  "leave_controller pf code app = Some out \<Longrightarrow> manager_inv (cams app) \<Longrightarrow> app_pipeline app = None \<Longrightarrow> left_clean code out"
  unfolding leave_controller_def by (erule leave_cameras_clean) simp_all

lemma leave_modes_clean:
  assumes "leave_modes pf code app = Some out" "manager_inv (cams app)"
  shows "left_clean code out"
proof -
  from assms(1) obtain mm pl where st: "mm_stop (pf_env pf) (ap_modes app) (ap_plant app) = Some (mm, pl)"
    and out: "leave_controller pf code (app\<lparr>ap_modes := mm, ap_plant := pl\<rparr>) = Some out"
    by (auto simp: leave_modes_def stop_modes_def elim!: bind_SomeE)
  from st obtain x where "ex_stop (pf_env pf) (mm_executor (ap_modes app)) (ap_plant app) = Some (x, pl)"
    and mm: "mm_executor mm = x" by (auto simp: mm_stop_def elim!: bind_SomeE)
  from ex_stop_effect[OF this(1) assms(2)] mm leave_controller_clean[OF out] show ?thesis by simp
qed

text \<open>The same holds for the ordinary end, whatever the parts did while the program waited.\<close>

lemma main_finish_clean:
  assumes "main_finish pf app = Some out" "manager_inv (cams app)"
  shows "left_clean 0 out"
proof -
  from assms(1) obtain p w where "leave_modes pf 0 (set_rig_of (\<lambda>r. r\<lparr>rg_world := w\<rparr>) (app\<lparr>ap_publisher := p\<rparr>)) = Some out"
    by (auto simp: main_finish_def elim!: bind_SomeE)
  from leave_modes_clean[OF this] assms(2) show ?thesis by simp
qed

text \<open>Without an encoder only the visible mode can be switched to.\<close>

lemma no_encoder_build:
  assumes "buildPlan pn m = Inr plan" "m \<noteq> WorkMode.VisibleOnly" "\<not> rc_encoder (ex_context x)"
    and "rc_cameraManager (ex_context x)" "rc_mainStream (ex_context x)"
    and "startPipeline env plan x pl = Some (r, x', pl')"
  shows "r \<noteq> Success"
proof -
  have "cx_cameraManager (pipeline_context (ex_context x))" "cx_mainStream (pipeline_context (ex_context x))"
    "\<not> cx_encoder (pipeline_context (ex_context x))"
    using assms(3-5) by (simp_all add: pipeline_context_def)
  note enc = encoder_required[OF assms(1,2) this]
  from assms(6) show ?thesis
    unfolding startPipeline_def build_and_start_def
    by (auto simp: rewrap_def elim!: bind_SomeE split: sum.split_asm) (metis enc option.inject prod.inject sum.distinct(1))+
qed

lemma no_encoder_execute:
  assumes "buildPlan pn m = Inr plan" "m \<noteq> WorkMode.VisibleOnly" "\<not> rc_encoder (ex_context x)"
    and "manager_inv (rg_cameras (plant_rig pl))"
    and "ex_execute env ser skip now plan x pl = Some (r, x', pl')"
  shows "r \<noteq> Success"
proof
  assume "r = Success"
  with assms(5) obtain x1 pl1 pl2 where st: "ex_stop env x pl = Some (x1, pl1)"
    and sp: "startPipeline env plan x1 pl2 = Some (Success, x', pl')" and v: "ex_validateContext plan x = Success"
    by (auto simp: ex_execute_def Let_def elim!: bind_SomeE split: if_splits sum.split_asm prod.split_asm)
  from ex_stop_effect[OF st assms(4)] have "ex_context x1 = ex_context x" by simp
  with no_encoder_build[OF assms(1,2) _ _ _ sp] v assms(3) show False
    by (auto simp: ex_validateContext_def split: if_splits)
qed

lemma switch_without_encoder:
  assumes "switchTo env ser skip t0 t1 t2 m mm pl = Some (r, mm', pl')"
    and "manager_inv (rg_cameras (plant_rig pl))" "\<not> rc_encoder (ex_context (mm_executor mm))"
  shows "manager_inv (rg_cameras (plant_rig pl')) \<and>
    (r = Success \<longrightarrow> m = WorkMode.VisibleOnly \<and> sw_currentMode (mm_state mm') = m \<and>
       is_streaming (cm_visible (rg_cameras (plant_rig pl'))))"
  using assms(1)
proof (cases rule: switchTo_cases)
  case (failed plan e x)
  with ex_execute_effect[OF failed(5) assms(2)] show ?thesis by simp
next
  case (switched plan x)
  from no_encoder_execute[OF switched(3) _ assms(3,2) switched(5)] have m: "m = WorkMode.VisibleOnly" by blast
  then have "pl_requireVisible (mp_pipeline plan)" using plan_requires(1)[OF switched(3)] by (simp add: requiresVisibleCamera_def)
  with ex_execute_effect[OF switched(5) assms(2)] switched(6) m show ?thesis
    by (simp add: cameras_stream_def select_camera_def)
qed (use assms(2) in simp_all)

text \<open>What an outcome says, for a program started in a mode.\<close>

definition outcome_ok :: "WorkMode \<Rightarrow> 'w main_outcome \<Rightarrow> bool" where
  "outcome_ok mode out \<longleftrightarrow>
     (case out of
        Uncaught \<Rightarrow> True
      | Ended code app \<Rightarrow> cameras_closed app \<and> app_pipeline app = None
      | Ready app \<Rightarrow> mode = WorkMode.VisibleOnly \<and> sw_currentMode (mm_state (ap_modes app)) = WorkMode.VisibleOnly \<and>
          is_streaming (cm_visible (cams app)) \<and> uu_running (ap_publisher app) \<and>
          uc_inputFormat (uu_config (ap_publisher app)) \<noteq> H264AnnexB)"

lemma left_clean_ok: "left_clean code out \<Longrightarrow> outcome_ok mode out"
  by (auto simp: left_clean_def outcome_ok_def)

lemma publisher_started:
  assumes "publisher_start ps config True p w = Some (Success, p', w')" "\<not> uu_running p" "uc_udpUrl config \<noteq> []"
  shows "uu_running p' \<and> uu_config p' = config"
proof -
  from assms obtain p1 where "startFfmpeg ps (p\<lparr>uu_config := config, uu_streamService := True, uu_stats := default_publisher_stats\<rparr>) w
      = (Success, p1, w')" and p': "p' = p1\<lparr>uu_running := True, uu_thread := True, uu_loop := True\<rparr>"
    by (auto simp: publisher_start_def split: if_splits prod.split_asm sum.split_asm)
  then have "uu_config p1 = config"
    by (auto simp: startFfmpeg_def Let_def split: prod.split_asm sum.split_asm option.split_asm)
  with p' show ?thesis by simp
qed

lemma push_not_h264: "uc_inputFormat (push_config plan camera url) \<noteq> H264AnnexB"
  by (simp add: push_config_def pipeInputFormatFromCameraFormat_def Let_def)

lemma start_pushing_ok:
  assumes "start_pushing pf plan url app = Some out" "manager_inv (cams app)" "\<not> uu_running (ap_publisher app)"
    and "mode = WorkMode.VisibleOnly" "sw_currentMode (mm_state (ap_modes app)) = mode" "is_streaming (cm_visible (cams app))"
  shows "outcome_ok mode out"
proof -
  from assms(1) obtain r p w where
    st: "publisher_start (pf_processes pf) (push_config plan (sys_camera (cfm_config (ap_config app))) url) True
      (ap_publisher app) (rg_world (app_rig app)) = Some (r, p, w)"
    and fin: "(case r of Inl _ \<Rightarrow> leave_modes pf 1 (set_rig_of (\<lambda>r. r\<lparr>rg_world := w\<rparr>) (app\<lparr>ap_publisher := p\<rparr>))
       | Inr _ \<Rightarrow> Some (Ready (set_rig_of (\<lambda>r. r\<lparr>rg_world := w\<rparr>) (app\<lparr>ap_publisher := p\<rparr>)))) = Some out"
    by (auto simp: start_pushing_def Let_def elim!: bind_SomeE)
  show ?thesis
  proof (cases r)
    case (Inl e)
    with fin have "leave_modes pf 1 (set_rig_of (\<lambda>r. r\<lparr>rg_world := w\<rparr>) (app\<lparr>ap_publisher := p\<rparr>)) = Some out" by simp
    from left_clean_ok[OF leave_modes_clean[OF this]] assms(2) show ?thesis by simp
  next
    case (Inr u)
    have url: "uc_udpUrl (push_config plan (sys_camera (cfm_config (ap_config app))) url) \<noteq> []"
      using st Inr assms(3) by (auto simp: publisher_start_def split: if_splits)
    from st Inr have "publisher_start (pf_processes pf) (push_config plan (sys_camera (cfm_config (ap_config app))) url)
      True (ap_publisher app) (rg_world (app_rig app)) = Some (Success, p, w)" by simp
    from publisher_started[OF this assms(3) url] have "uu_running p"
      "uc_inputFormat (uu_config p) \<noteq> H264AnnexB" by (simp_all add: push_not_h264)
    with fin Inr assms(4-6) show ?thesis by (auto simp: outcome_ok_def)
  qed
qed

lemma switch_and_push_ok:
  assumes "switch_and_push pf clk mode plan url app = Some out" "manager_inv (cams app)"
    and "\<not> uu_running (ap_publisher app)" "\<not> rc_encoder (ex_context (mm_executor (ap_modes app)))"
  shows "outcome_ok mode out"
proof -
  obtain t0 t1 t2 where clk: "clk = (t0, t1, t2)" by (cases clk) auto
  from assms(1) obtain r mm pl where
    sw: "switchTo (pf_env pf) (pf_serial pf) (pf_skip pf) t0 t1 t2 mode (ap_modes app) (ap_plant app) = Some (r, mm, pl)"
    and fin: "(case r of Inl _ \<Rightarrow> leave_modes pf 1 (app\<lparr>ap_modes := mm, ap_plant := pl\<rparr>)
       | Inr _ \<Rightarrow> start_pushing pf plan url (app\<lparr>ap_modes := mm, ap_plant := pl\<rparr>)) = Some out"
    by (auto simp: switch_and_push_def clk Let_def elim!: bind_SomeE)
  note eff = switch_without_encoder[OF sw assms(2,4)]
  show ?thesis
  proof (cases r)
    case (Inl e)
    with fin have "leave_modes pf 1 (app\<lparr>ap_modes := mm, ap_plant := pl\<rparr>) = Some out" by simp
    from left_clean_ok[OF leave_modes_clean[OF this]] eff show ?thesis by simp
  next
    case (Inr u)
    with fin have "start_pushing pf plan url (app\<lparr>ap_modes := mm, ap_plant := pl\<rparr>) = Some out" by simp
    from start_pushing_ok[OF this] eff Inr assms(3) show ?thesis by simp
  qed
qed

text \<open>The state \<open>main\<close> is in between the steps: nothing started yet.\<close>

definition nothing_started :: "'w app \<Rightarrow> bool" where
  "nothing_started app \<longleftrightarrow> manager_inv (cams app) \<and> cameras_closed app \<and> ap_modes app = new_mode_manager \<and>
     \<not> uu_running (ap_publisher app)"

lemma mm_init_new:
  assumes "mm_init modes media runtime new_mode_manager = (r, mm)"
  shows "ex_pipeline (mm_executor mm) = None" "r = Success \<Longrightarrow> ex_context (mm_executor mm) = runtime"
proof -
  obtain b pn where "planner_init modes media (mm_planner new_mode_manager) = (b, pn)" by fastforce
  with assms show "ex_pipeline (mm_executor mm) = None" "r = Success \<Longrightarrow> ex_context (mm_executor mm) = runtime"
    by (cases b; auto simp: mm_init_def new_mode_manager_def new_executor_def ex_init_def default_mode_state_def)+
qed

lemma setup_modes_ok:
  assumes "setup_modes pf clk mode url app = Some out" "nothing_started app"
  shows "outcome_ok mode out"
proof -
  obtain r mm where init: "mm_init (sys_mode (cfm_config (ap_config app))) (sys_media (cfm_config (ap_config app)))
      main_runtime (ap_modes app) = (r, mm)" by fastforce
  from init assms(2) have new: "mm_init (sys_mode (cfm_config (ap_config app))) (sys_media (cfm_config (ap_config app)))
      main_runtime new_mode_manager = (r, mm)" by (simp add: nothing_started_def)
  from mm_init_new[OF new] have mm: "ex_pipeline (mm_executor mm) = None"
    "r = Success \<Longrightarrow> \<not> rc_encoder (ex_context (mm_executor mm))" by (simp_all add: main_runtime_def)
  show ?thesis
  proof (cases r)
    case (Inl e)
    with assms(1) init have "leave_controller pf 1 (app\<lparr>ap_modes := mm\<rparr>) = Some out" by (simp add: setup_modes_def)
    from left_clean_ok[OF leave_controller_clean[OF this]] mm(1) assms(2) show ?thesis by (simp add: nothing_started_def)
  next
    case (Inr u)
    from assms(2) have inv: "manager_inv (cams (app\<lparr>ap_modes := mm\<rparr>))"
      "\<not> uu_running (ap_publisher (app\<lparr>ap_modes := mm\<rparr>))" by (simp_all add: nothing_started_def)
    have enc: "\<not> rc_encoder (ex_context (mm_executor (ap_modes (app\<lparr>ap_modes := mm\<rparr>))))" using mm Inr by simp
    show ?thesis
    proof (cases "planFor mode mm")
      case (Inl e)
      with assms(1) init Inr have "leave_modes pf 1 (app\<lparr>ap_modes := mm\<rparr>) = Some out" by (simp add: setup_modes_def)
      from left_clean_ok[OF leave_modes_clean[OF this inv(1)]] show ?thesis .
    next
      case (Inr plan)
      with assms(1) init \<open>r = Inr u\<close>
      have "switch_and_push pf clk mode plan url (app\<lparr>ap_modes := mm, ap_streamService := (ap_streamService app)\<lparr>ssv_mainStream := True\<rparr>\<rparr>) = Some out"
        by (simp add: setup_modes_def setup_streaming_def ssv_init_def)
      from switch_and_push_ok[OF this] inv enc show ?thesis by simp
    qed
  qed
qed

lemma setup_stream_ok:
  assumes "setup_stream pf clk mode url app = Some out" "nothing_started app"
  shows "outcome_ok mode out"
proof -
  obtain r s where init: "ms_init (sys_media (cfm_config (ap_config app))) (rg_stream (app_rig app)) = (r, s)" by fastforce
  let ?app = "set_rig_of (\<lambda>rig. rig\<lparr>rg_stream := s\<rparr>) app"
  from assms(2) have "nothing_started ?app" by (simp add: nothing_started_def cameras_closed_def)
  with assms(1) init setup_modes_ok[of pf clk mode url ?app out] leave_controller_clean[of pf 1 ?app out] show ?thesis
    by (cases r) (auto simp: setup_stream_def nothing_started_def new_mode_manager_def new_executor_def intro: left_clean_ok)
qed

lemma setup_controller_ok:
  assumes "setup_controller pf clk mode url app = Some out" "nothing_started app"
  shows "outcome_ok mode out"
proof -
  obtain r c w where init: "ctl_init (pf_serial pf) (sys_serial (cfm_config (ap_config app))) True
      (plant_controller (ap_plant app)) (rg_world (app_rig app)) = (r, c, w)"
    by (cases "ctl_init (pf_serial pf) (sys_serial (cfm_config (ap_config app))) True
      (plant_controller (ap_plant app)) (rg_world (app_rig app))") auto
  let ?app = "set_rig_of (\<lambda>rig. rig\<lparr>rg_world := w\<rparr>) (app\<lparr>ap_plant := (ap_plant app)\<lparr>plant_controller := c\<rparr>\<rparr>)"
  from assms(2) have "nothing_started ?app" by (simp add: nothing_started_def cameras_closed_def)
  with assms(1) init setup_stream_ok[of pf clk mode url ?app out] leave_cameras_clean[of pf 1 ?app out] show ?thesis
    by (cases r) (auto simp: setup_controller_def nothing_started_def new_mode_manager_def new_executor_def intro: left_clean_ok)
qed

lemma camera_init_closed: "camera_init cid k cap cfg d = (r, d') \<Longrightarrow> dev_v4l2 d' = dev_v4l2 d"
  by (auto simp: camera_init_def rememberError_def clearError_def Let_def split: if_splits sum.splits)

lemma manager_init_closed:
  "manager_init config bus m = (r, m') \<Longrightarrow>
     dev_v4l2 (cm_visible m') = dev_v4l2 (cm_visible m) \<and> dev_v4l2 (cm_composite m') = dev_v4l2 (cm_composite m)"
  by (auto simp: manager_init_def visible_init_def composite_init_def Let_def
      split: prod.split_asm sum.split_asm dest!: camera_init_closed)

lemma setup_cameras_ok:
  assumes "setup_cameras pf clk mode url app = Some out" "nothing_started app"
  shows "outcome_ok mode out"
proof -
  obtain r m where init: "manager_init (sys_camera (cfm_config (ap_config app))) True (rg_cameras (app_rig app)) = (r, m)"
    by fastforce
  let ?app = "set_rig_of (\<lambda>rig. rig\<lparr>rg_cameras := m\<rparr>) app"
  from assms(2) manager_init_inv[OF init] manager_init_closed[OF init] have n: "nothing_started ?app"
    by (simp add: nothing_started_def cameras_closed_def)
  show ?thesis
  proof (cases r)
    case (Inl e)
    with assms(1) init have "out = Ended 1 (bus_down ?app)" by (simp add: setup_cameras_def)
    moreover from n have "cameras_closed (bus_down ?app)" "app_pipeline (bus_down ?app) = None"
      by (simp_all add: nothing_started_def cameras_closed_def bus_down_def set_rig_of_def new_mode_manager_def new_executor_def)
    ultimately show ?thesis by (simp add: outcome_ok_def)
  next
    case (Inr u)
    with assms(1) init have "setup_controller pf clk mode url ?app = Some out" by (simp add: setup_cameras_def)
    from setup_controller_ok[OF this n] show ?thesis .
  qed
qed

lemma new_app_nothing: "nothing_started (new_app w)"
proof -
  have "\<not> vd_isOpen (dev_v4l2 new_camera)" by (simp add: new_camera_def new_v4l2_def vd_isOpen_def)
  then show ?thesis
    by (simp add: nothing_started_def new_app_def cameras_closed_def new_publisher_def new_camera_manager_def manager_inv_def
        cam_inv_new)
qed

lemma setup_system_ok:
  assumes "setup_system pf clk mode dir url app = Some out" "nothing_started app"
  shows "outcome_ok mode out"
proof -
  obtain r config where load: "loadAll (pf_files pf) dir (ap_config app) (rg_world (app_rig app)) = (r, config)" by fastforce
  obtain b bus where bus: "bus_init False 1 (ap_bus app) = (b, bus)" by fastforce
  let ?app = "app\<lparr>ap_config := config, ap_bus := bus\<rparr>"
  from assms(2) have "nothing_started ?app" by (simp add: nothing_started_def cameras_closed_def)
  with assms load bus setup_cameras_ok[of pf clk mode url ?app out] show ?thesis
    by (cases r; cases b) (auto simp: setup_system_def nothing_started_def cameras_closed_def outcome_ok_def
        new_mode_manager_def new_executor_def)
qed

text \<open>
  Claim C16. The program gets to pushing frames in no mode but the visible-only one, because it passes no encoder to
  the mode manager, and then it tells ffmpeg that the frames are MJPEG or raw, never H.264; whenever it
  ends on the way, at any step, both cameras are closed and no pipeline is left.
\<close>

theorem main_outcomes:
  assumes "main_setup pf clk argv w = Some out"
  shows "outcome_ok (workModeFromString (argument argv 2 ''LOWLIGHT_THERMAL_COMPOSITE'')) out"
proof -
  have "outcome_ok mode (Ended code (new_app w))" for mode code
    using new_app_nothing[of w] by (simp add: nothing_started_def outcome_ok_def new_mode_manager_def new_executor_def)
  note new = this
  let ?mode = "workModeFromString (argument argv 2 ''LOWLIGHT_THERMAL_COMPOSITE'')"
  from assms consider "out = Uncaught" | code where "out = Ended code (new_app w)"
    | dir url where "setup_system pf clk ?mode dir url (new_app w) = Some out"
    unfolding main_setup_def Let_def by (metis (no_types) option.inject)
  then show ?thesis
  proof cases
    case 1 then show ?thesis by (simp add: outcome_ok_def)
  next
    case 2 then show ?thesis using new by simp
  next
    case 3 from setup_system_ok[OF this new_app_nothing] show ?thesis .
  qed
qed

text \<open>With empty files and no serial port the program ends at the controller, the bus and the cameras taken down.\<close>

definition bare_platform :: "nat platform" where
  "bare_platform =
     \<lparr>pf_files = \<lparr>fl_read = (\<lambda>path w. Some []), fl_write = (\<lambda>path text w. (True, w))\<rparr>,
      pf_env = sim_env, pf_serial = dead_port,
      pf_processes = \<lparr>ps_pipe = Pair (Inl ''no pipe''), ps_fork = (\<lambda>args fd. Pair (Inl ''no process'')),
        ps_close = (\<lambda>fd. id), ps_exited = (\<lambda>pid. Pair None), ps_write = (\<lambda>fd data. Pair 0)\<rparr>,
      pf_skip = False\<rparr>"

lemma bare_load: "fst (loadAll (pf_files bare_platform) dir new_config_manager w) = Success"
proof -
  have "parse_yaml [] = []" by (simp add: parse_yaml_def split_def)
  then show ?thesis
    by (simp add: loadAll_def loadCamera_def loadSerial_def loadMode_def loadMedia_def loadProtocol_def cm_parse_def
        parseSimpleYaml_def readText_def bare_platform_def new_config_manager_def default_system_config_def
        camera_of_def visible_of_def composite_of_def serial_of_def media_of_def protocol_of_def priority_of_def
        validate_system_def validateCamera_def validateSerial_def validateMedia_def validateProtocol_def
        cfg_get_def cfg_toInt_def cfg_getBool_def Let_def isValidPort_def)
qed

lemma dead_port_fails: "fst (ctl_init dead_port config bus new_controller w) \<noteq> Success"
  by (auto simp: ctl_init_def openPort_def dead_port_def Let_def new_controller_def split: prod.split sum.split)

lemma camera_close_closed: "\<not> vd_isOpen (dev_v4l2 d) \<Longrightarrow> \<exists>d'. camera_close os d v = Some (d', v)"
  by (simp add: camera_close_def)

lemma leave_closed:
  assumes "cameras_closed app"
  shows "\<exists>app'. leave_cameras pf code app = Some (Ended code app')"
proof -
  let ?os = "env_video (pf_env pf)"
  from assms obtain d where d: "visible_close ?os (cm_visible (cams app)) (rg_world (app_rig app)) = Some (d, rg_world (app_rig app))"
    unfolding cameras_closed_def visible_close_def by (metis camera_close_closed)
  obtain rd v where rd: "closeNode ?os (dev_metadataReader (cm_composite (cams app))) (rg_world (app_rig app)) = (rd, v)"
    by fastforce
  from assms obtain c where "camera_close ?os (cm_composite (cams app)\<lparr>dev_metadataReader := rd\<rparr>) v = Some (c, v)"
    unfolding cameras_closed_def using camera_close_closed[of "cm_composite (cams app)\<lparr>dev_metadataReader := rd\<rparr>" ?os v] by auto
  with rd have "composite_close ?os (cm_composite (cams app)) (rg_world (app_rig app)) =
      Some (set_status c (\<lambda>s. s\<lparr>cam_metadataAvailable := False\<rparr>), v)" by (simp add: composite_close_def)
  with d show ?thesis by (simp add: leave_cameras_def close_cameras_def closeAll_def)
qed

lemma bare_controller:
  assumes "plant_controller (ap_plant app) = new_controller" "cameras_closed app"
  shows "\<exists>app'. setup_controller bare_platform clk mode url app = Some (Ended 1 app')"
proof -
  obtain r c v where ctl: "ctl_init dead_port (sys_serial (cfm_config (ap_config app))) True new_controller (rg_world (app_rig app))
      = (r, c, v)" using prod_cases3 by blast
  with dead_port_fails have "r \<noteq> Success" by (metis fst_conv)
  then obtain e where e: "r = Inl e" by (cases r) auto
  let ?app = "set_rig_of (\<lambda>rig. rig\<lparr>rg_world := v\<rparr>) (app\<lparr>ap_plant := (ap_plant app)\<lparr>plant_controller := c\<rparr>\<rparr>)"
  have "pf_serial bare_platform = dead_port" by (simp add: bare_platform_def)
  with ctl e assms(1) have "setup_controller bare_platform clk mode url app = leave_cameras bare_platform 1 ?app"
    by (simp add: setup_controller_def)
  moreover have "cameras_closed ?app" using assms(2) by (simp add: cameras_closed_def)
  ultimately show ?thesis using leave_closed by metis
qed

lemma bare_cameras:
  assumes "plant_controller (ap_plant app) = new_controller" "nothing_started app"
  shows "\<exists>app'. setup_cameras bare_platform clk mode url app = Some (Ended 1 app')"
proof -
  obtain r m where init: "manager_init (sys_camera (cfm_config (ap_config app))) True (cams app) = (r, m)" by fastforce
  let ?app = "set_rig_of (\<lambda>rig. rig\<lparr>rg_cameras := m\<rparr>) app"
  from assms(2) manager_init_closed[OF init] have "cameras_closed ?app" by (simp add: nothing_started_def cameras_closed_def)
  with bare_controller[of ?app] assms(1) init show ?thesis by (cases r) (simp_all add: setup_cameras_def)
qed

lemma bare_ends: "\<exists>app. main_setup bare_platform clk [''tri'', ''configs'', ''VISIBLE_ONLY''] w = Some (Ended 1 app)"
proof -
  obtain c' where load: "loadAll (pf_files bare_platform) ''configs'' new_config_manager w = (Success, c')"
    using bare_load[of "''configs''" w] by (metis prod.collapse)
  obtain bus :: "nat EventBus" where bus: "bus_init False (Suc 0) new_bus = (Success, bus)"
    by (simp add: bus_init_def new_bus_def)
  let ?app = "(new_app w)\<lparr>ap_config := c', ap_bus := bus\<rparr>"
  have n: "nothing_started ?app" using new_app_nothing[of w] by (simp add: nothing_started_def cameras_closed_def)
  have f: "ap_config (new_app w) = new_config_manager" "ap_bus (new_app w) = new_bus" "rg_world (app_rig (new_app w)) = w"
    "plant_controller (ap_plant (new_app w)) = new_controller" by (simp_all add: new_app_def)
  have "setup_system bare_platform clk mode ''configs'' url (new_app w) = setup_cameras bare_platform clk mode url ?app"
    for mode url by (simp add: setup_system_def f load bus)
  moreover have "stoi ''0'' = Some 0" "workModeFromString ''VISIBLE_ONLY'' = WorkMode.VisibleOnly" by code_simp+
  ultimately have "main_setup bare_platform clk [''tri'', ''configs'', ''VISIBLE_ONLY''] w =
    setup_cameras bare_platform clk WorkMode.VisibleOnly ''udp://192.168.1.35:5004?pkt_size=1316'' ?app"
    by (simp add: main_setup_def argument_def)
  with bare_cameras[OF _ n] f(4) show ?thesis by simp
qed

theorem main_outcomes_witness:
  "\<exists>app. main_setup bare_platform (0, 1, 2) [''tri'', ''configs'', ''VISIBLE_ONLY''] 0 = Some (Ended 1 app) \<and>
     cameras_closed app"
proof -
  obtain app where app: "main_setup bare_platform (0, 1, 2) [''tri'', ''configs'', ''VISIBLE_ONLY''] 0 = Some (Ended 1 app)"
    using bare_ends by blast
  from main_outcomes[OF app] have "cameras_closed app" by (simp add: outcome_ok_def)
  with app show ?thesis by blast
qed

end
