(* ===== verification/Tri_System.thy ===== *)
theory Tri_System
  imports Tri_Utils "HOL-Library.Signed_Division"
begin

text \<open>
  The small wrappers of the operating system: listing a directory (FileUtils.cpp), time stamps and the
  two timers (foundation/time) and the UDP socket (hardware/net). What the system answers is a record of
  functions over the world.
\<close>

subsection \<open>Listing a directory\<close>

text \<open>The entries with whether each is a regular file, or the error the iterator reports when it is made.\<close>

record 'w directories =
  dr_exists :: "string \<Rightarrow> 'w \<Rightarrow> bool"
  dr_entries :: "string \<Rightarrow> 'w \<Rightarrow> string + (string \<times> bool) list"

definition file_exists :: "'w directories \<Rightarrow> string \<Rightarrow> 'w \<Rightarrow> bool" where
  "file_exists ds path w = dr_exists ds path w"

fun list_loop :: "string option \<Rightarrow> (string \<times> bool) list \<Rightarrow> string list \<Rightarrow> string list Result" where
  "list_loop ec [] files = Inr files"
| "list_loop ec ((path, regular) # entries) files =
     (case ec of
        Some message \<Rightarrow> Error IoError message
      | None \<Rightarrow> list_loop ec entries (if regular then files @ [path] else files))"

text \<open>An iterator that was made with an error is the end iterator.\<close>

definition listFiles :: "'w directories \<Rightarrow> string \<Rightarrow> 'w \<Rightarrow> string list Result" where
  "listFiles ds directory w =
     (case dr_entries ds directory w of
        Inl message \<Rightarrow> list_loop (Some message) [] []
      | Inr entries \<Rightarrow> list_loop None entries [])"

lemma list_loop_files: "list_loop None entries files = Inr (files @ map fst (filter snd entries))"
  by (induction entries arbitrary: files) auto

text \<open>The regular files come in the order of the directory, and the error branch is never taken: a directory
  that cannot be read is reported as an empty one.\<close>

lemma listFiles_spec:
  "listFiles ds directory w =
     Inr (case dr_entries ds directory w of Inl _ \<Rightarrow> [] | Inr entries \<Rightarrow> map fst (filter snd entries))"
  by (simp add: listFiles_def list_loop_files split: sum.split)

subsection \<open>Time stamps\<close>

record Timestamp =
  ts_unixMs :: int

definition setw3 :: "string \<Rightarrow> string" where
  "setw3 s = replicate (3 - length s) CHR ''0'' @ s"

text \<open>The local time of the seconds is formatted by the C library.\<close>

definition toString_Timestamp :: "(int \<Rightarrow> string) \<Rightarrow> Timestamp \<Rightarrow> string" where
  "toString_Timestamp local t =
     local (ts_unixMs t sdiv 1000) @ ''.'' @ setw3 (show_int (ts_unixMs t smod 1000))"

definition nowString :: "(int \<Rightarrow> string) \<Rightarrow> int \<Rightarrow> string" where
  "nowString local now = toString_Timestamp local \<lparr>ts_unixMs = now\<rparr>"

lemma show_nat_length_3: "n < 1000 \<Longrightarrow> length (show_nat n) \<le> 3"
  by (subst show_nat.simps, subst show_nat.simps, subst show_nat.simps) auto

lemma setw3_length: "length s \<le> 3 \<Longrightarrow> length (setw3 s) = 3"
  by (simp add: setw3_def)

text \<open>After the epoch the milliseconds take three characters; before it the sign is among them.\<close>

lemma timestamp_length:
  "0 \<le> now \<Longrightarrow> length (nowString local now) = length (local (now div 1000)) + 4"
proof -
  assume "0 \<le> now"
  then have "now sdiv 1000 = now div 1000" "now smod 1000 = now mod 1000"
    by (simp_all add: signed_divide_int_def signed_modulo_int_def sgn_if)
  moreover have "length (show_int (now mod 1000)) \<le> 3"
  proof -
    have m: "0 \<le> now mod 1000" "now mod 1000 < 1000" by simp_all
    then have "nat (now mod 1000) < 1000" by linarith
    from show_nat_length_3[OF this] have "length (show_nat (nat (now mod 1000))) \<le> 3" .
    moreover have "\<not> now mod 1000 < 0" using m(1) by linarith
    ultimately show ?thesis unfolding show_int_def by (simp only: if_False)
  qed
  ultimately show ?thesis by (simp add: nowString_def toString_Timestamp_def setw3_length)
qed

lemma timestamp_before_epoch: "nowString local (-5) = local 0 @ ''.0-5''"
  by (simp add: nowString_def toString_Timestamp_def setw3_def) code_simp

subsection \<open>Timers\<close>

text \<open>A scoped timer calls back with the milliseconds between its construction and its destruction, given in
  the nanoseconds of the steady clock.\<close>

definition scoped_end :: "(int \<Rightarrow> 'w \<Rightarrow> 'w) option \<Rightarrow> int \<Rightarrow> int \<Rightarrow> 'w \<Rightarrow> 'w" where
  "scoped_end callback start now w =
     (case callback of None \<Rightarrow> w | Some f \<Rightarrow> f ((now - start) sdiv 1000000) w)"

record PeriodicTimer =
  tm_running :: bool
  tm_thread :: bool

definition new_timer :: PeriodicTimer where
  "new_timer = \<lparr>tm_running = False, tm_thread = False\<rparr>"

text \<open>Assigning to a thread that was not joined ends the program, here \<open>None\<close>.\<close>

definition timer_start :: "bool \<Rightarrow> PeriodicTimer \<Rightarrow> (unit Result \<times> PeriodicTimer) option" where
  "timer_start callback t =
     (if tm_running t then Some (Error Busy ''timer already running'', t)
      else if \<not> callback then Some (Error InvalidArgument ''timer callback is empty'', t)
      else if tm_thread t then None
      else Some (Success, \<lparr>tm_running = True, tm_thread = True\<rparr>))"

definition timer_stop :: "PeriodicTimer \<Rightarrow> PeriodicTimer" where
  "timer_stop t = \<lparr>tm_running = False, tm_thread = False\<rparr>"

text \<open>One turn of the thread: the callback takes \<open>cost\<close>, the sleep what is left of the interval.\<close>

definition timer_next :: "int \<Rightarrow> int \<Rightarrow> int \<Rightarrow> int" where
  "timer_next interval cost begun =
     (let after = begun + cost in if cost < interval then after + (interval - cost) else after)"

fun timer_calls :: "int \<Rightarrow> int \<Rightarrow> int list \<Rightarrow> int list" where
  "timer_calls interval begun [] = [begun]"
| "timer_calls interval begun (cost # costs) = begun # timer_calls interval (timer_next interval cost begun) costs"

lemma timer_calls_length: "length (timer_calls interval begun costs) = Suc (length costs)"
  by (induction costs arbitrary: begun) simp_all

text \<open>Two calls begin at least an interval apart, and the second not before the first has ended: the timer
  does not catch up with what a slow callback has lost.\<close>

lemma timer_calls_spaced:
  "i < length costs \<Longrightarrow>
     timer_calls interval begun costs ! Suc i = timer_calls interval begun costs ! i + max interval (costs ! i)"
proof (induction costs arbitrary: begun i)
  case (Cons c costs)
  show ?case
  proof (cases i)
    case 0 then show ?thesis by (cases costs) (auto simp: timer_next_def Let_def)
  next
    case (Suc j) with Cons show ?thesis by simp
  qed
qed simp

text \<open>With callbacks that take no longer than the interval the timer is on time.\<close>

lemma timer_calls_on_time:
  "list_all (\<lambda>c. c \<le> interval) costs \<Longrightarrow> i \<le> length costs \<Longrightarrow>
     timer_calls interval begun costs ! i = begun + int i * interval"
proof (induction i)
  case 0 show ?case by (cases costs) simp_all
next
  case (Suc i)
  then have "costs ! i \<le> interval" by (simp add: list_all_length)
  with Suc timer_calls_spaced[of i costs interval begun] show ?case by (simp add: algebra_simps)
qed

datatype timer_call = TimerStart bool | TimerStop

fun timer_run :: "timer_call list \<Rightarrow> PeriodicTimer \<Rightarrow> PeriodicTimer option" where
  "timer_run [] t = Some t"
| "timer_run (TimerStart callback # cs) t =
     (case timer_start callback t of None \<Rightarrow> None | Some (_, t) \<Rightarrow> timer_run cs t)"
| "timer_run (TimerStop # cs) t = timer_run cs (timer_stop t)"

text \<open>Between the owner's calls there is a thread exactly while the timer runs, so no start ends the program,
  however starts and stops follow each other.\<close>

lemma timer_run_returns:
  "tm_thread t = tm_running t \<Longrightarrow> \<exists>t'. timer_run cs t = Some t' \<and> tm_thread t' = tm_running t'"
proof (induction cs arbitrary: t)
  case (Cons c cs)
  show ?case
  proof (cases c)
    case (TimerStart callback)
    with Cons(2) obtain r t1 where "timer_start callback t = Some (r, t1)" "tm_thread t1 = tm_running t1"
      by (cases "tm_running t"; cases callback) (auto simp: timer_start_def)
    with Cons(1)[of t1] TimerStart show ?thesis by simp
  next
    case TimerStop with Cons(1)[of "timer_stop t"] show ?thesis by (simp add: timer_stop_def)
  qed
qed simp

subsection \<open>UDP sockets\<close>

record 'w datagrams =
  dg_socket :: "'w \<Rightarrow> (string + int) \<times> 'w"
  dg_close :: "int \<Rightarrow> 'w \<Rightarrow> 'w"
  dg_pton :: "string \<Rightarrow> bool"
  dg_sendto :: "int \<Rightarrow> string \<Rightarrow> u16 \<Rightarrow> bytes \<Rightarrow> 'w \<Rightarrow> string option \<times> 'w"

text \<open>The object is its descriptor, -1 when it is closed.\<close>

definition udp_open :: "'w datagrams \<Rightarrow> int \<Rightarrow> 'w \<Rightarrow> unit Result \<times> int \<times> 'w" where
  "udp_open dg fd w =
     (if 0 \<le> fd then (Success, fd, w)
      else case dg_socket dg w of
        (Inl e, w) \<Rightarrow> (Error IoError (''udp socket: '' @ e), -1, w)
      | (Inr fd, w) \<Rightarrow> (Success, fd, w))"

definition udp_close :: "'w datagrams \<Rightarrow> int \<Rightarrow> 'w \<Rightarrow> int \<times> 'w" where
  "udp_close dg fd w = (-1, if 0 \<le> fd then dg_close dg fd w else w)"

definition sendTo ::
  "'w datagrams \<Rightarrow> string \<Rightarrow> u16 \<Rightarrow> bytes \<Rightarrow> int \<Rightarrow> 'w \<Rightarrow> unit Result \<times> int \<times> 'w" where
  "sendTo dg ip port data fd w =
     (case (if fd < 0 then udp_open dg fd w else (Success, fd, w)) of
        (Inl e, fd, w) \<Rightarrow> (Inl e, fd, w)
      | (Inr _, fd, w) \<Rightarrow>
          if \<not> dg_pton dg ip then (Error InvalidArgument (''invalid IPv4: '' @ ip), fd, w)
          else case dg_sendto dg fd ip port data w of
            (Some e, w) \<Rightarrow> (Error IoError (''sendto: '' @ e), fd, w)
          | (None, w) \<Rightarrow> (Success, fd, w))"

text \<open>The descriptors that are open are the object's own: a socket that numbers nothing twice keeps this law.\<close>

definition datagram_law :: "'w datagrams \<Rightarrow> ('w \<Rightarrow> int set) \<Rightarrow> bool" where
  "datagram_law dg fds \<longleftrightarrow>
     (\<forall>w. case dg_socket dg w of
        (Inl _, w') \<Rightarrow> fds w' = fds w
      | (Inr fd, w') \<Rightarrow> 0 \<le> fd \<and> fd \<notin> fds w \<and> fds w' = insert fd (fds w)) \<and>
     (\<forall>fd w. fds (dg_close dg fd w) = fds w - {fd}) \<and>
     (\<forall>fd ip port data w. fds (snd (dg_sendto dg fd ip port data w)) = fds w)"

definition udp_owns :: "('w \<Rightarrow> int set) \<Rightarrow> int set \<Rightarrow> int \<Rightarrow> 'w \<Rightarrow> bool" where
  "udp_owns fds others fd w \<longleftrightarrow> fds w = others \<union> (if 0 \<le> fd then {fd} else {}) \<and> fd \<notin> others"

lemma udp_open_owns:
  assumes "datagram_law dg fds" "udp_owns fds others fd w" "udp_open dg fd w = (r, fd', w')" "-1 \<notin> others"
  shows "udp_owns fds others fd' w' \<and> (r = Success \<longrightarrow> 0 \<le> fd')"
proof (cases "0 \<le> fd")
  case True with assms show ?thesis by (simp add: udp_open_def)
next
  case False
  with assms(2) have w: "fds w = others" by (simp add: udp_owns_def)
  obtain a v where sock: "dg_socket dg w = (a, v)" by fastforce
  from assms(1) have "case dg_socket dg w of (Inl _, w') \<Rightarrow> fds w' = fds w
      | (Inr fd, w') \<Rightarrow> 0 \<le> fd \<and> fd \<notin> fds w \<and> fds w' = insert fd (fds w)" by (simp add: datagram_law_def)
  with False assms(3,4) w sock show ?thesis by (cases a) (auto simp: udp_open_def udp_owns_def)
qed

lemma sendTo_owns:
  assumes "datagram_law dg fds" "udp_owns fds others fd w" "sendTo dg ip port data fd w = (r, fd', w')" "-1 \<notin> others"
  shows "udp_owns fds others fd' w'"
proof -
  obtain r1 fd1 w1 where o1: "udp_open dg fd w = (r1, fd1, w1)" using prod_cases3 by blast
  then have opened: "(if fd < 0 then udp_open dg fd w else (Success, fd, w)) = (r1, fd1, w1)"
    by (auto simp: udp_open_def)
  note owns = udp_open_owns[OF assms(1,2) o1 assms(4)]
  show ?thesis
  proof (cases r1)
    case (Inl e) with assms(3) opened owns show ?thesis by (simp add: sendTo_def)
  next
    case (Inr u)
    obtain a v where snd: "dg_sendto dg fd1 ip port data w1 = (a, v)" by fastforce
    with assms(1) have "fds v = fds w1" unfolding datagram_law_def by (metis snd_conv)
    with assms(3) opened owns Inr snd show ?thesis
      by (auto simp: sendTo_def udp_owns_def split: if_splits option.split_asm)
  qed
qed

lemma udp_close_owns:
  assumes "datagram_law dg fds" "udp_owns fds others fd w" "udp_close dg fd w = (fd', w')"
  shows "fds w' = others \<and> fd' = -1"
  using assms by (auto simp: udp_close_def udp_owns_def datagram_law_def split: if_splits)

end
