(* ===== verification/Tri_Probes.thy ===== *)
theory Tri_Probes
  imports Tri_Cameras Tri_ConfigFile Tri_Serial
begin

text \<open>
  The two hardware probes (tools/l1_probe.cpp and tools/l1_serial_probe.cpp): the order of their steps, the exit code
  of each early return, and the destructors that close the device or the port however the probe ends. Then
  the parts whose bodies are stubs: the image enhancers, the TCP socket, the RKNN runtime and thread names.
  Console output is left out.
\<close>

subsection \<open>The camera probe\<close>

text \<open>\<open>std::atoi\<close>, which gives 0 where \<open>stoi\<close> finds no number; a value out of range is undefined in C and 0 here.\<close>

definition atoi :: "string \<Rightarrow> int" where
  "atoi s = (case stoi s of None \<Rightarrow> 0 | Some n \<Rightarrow> n)"

text \<open>The arguments after the program's name: configuration directory, node, width, height and rate.\<close>

definition probe_config_dir :: "string list \<Rightarrow> string" where
  "probe_config_dir args = (if 0 < length args then args ! 0 else ''configs'')"

definition probe_endpoint :: "string list \<Rightarrow> CameraEndpointConfig \<Rightarrow> CameraEndpointConfig" where
  "probe_endpoint args ep =
     (let ep = (if 1 < length args then ep\<lparr>ep_videoNode := args ! 1\<rparr> else ep);
          ep = (if 2 < length args then ep\<lparr>ep_width := atoi (args ! 2)\<rparr> else ep);
          ep = (if 3 < length args then ep\<lparr>ep_height := atoi (args ! 3)\<rparr> else ep)
      in if 4 < length args then ep\<lparr>ep_fps := atoi (args ! 4)\<rparr> else ep)"

text \<open>The end of \<open>main\<close> on any path after the device exists: its destructor closes it.\<close>

definition probe_exit ::
  "'w video_os \<Rightarrow> int \<Rightarrow> V4L2Device \<Rightarrow> 'w \<Rightarrow> (int \<times> V4L2Device \<times> 'w) option" where
  "probe_exit os code d w = do { (d, w) \<leftarrow> closeDevice os d w; Some (code, d, w) }"

fun probe_frames :: "'w video_os \<Rightarrow> nat \<Rightarrow> V4L2Device \<Rightarrow> 'w \<Rightarrow> 'w option" where
  "probe_frames os 0 d w = Some w"
| "probe_frames os (Suc n) d w =
     (case dequeueBuffer os 2000 d w of
        (Inl e, w) \<Rightarrow> Some w
      | (Inr frame, w) \<Rightarrow> do { (r, w) \<leftarrow> enqueueBuffer os (bv_index frame) d w; probe_frames os n d w })"

definition probe_stream ::
  "'w video_os \<Rightarrow> V4L2Device \<Rightarrow> 'w \<Rightarrow> (int \<times> V4L2Device \<times> 'w) option" where
  "probe_stream os d w =
     do { (r, d, w) \<leftarrow> requestBuffers os 4 d w;
          if \<not> result_ok r then probe_exit os 7 d w
          else do {
            (r, d, w) \<leftarrow> startStream os d w;
            if \<not> result_ok r then probe_exit os 8 d w
            else do {
              w \<leftarrow> probe_frames os 10 d w;
              (r, d, w) \<leftarrow> stopStream os d w;
              probe_exit os 0 d w } } }"

definition probe_opened ::
  "'w video_os \<Rightarrow> CameraEndpointConfig \<Rightarrow> V4L2Device \<Rightarrow> 'w \<Rightarrow> (int \<times> V4L2Device \<times> 'w) option" where
  "probe_opened os ep d w =
     do { (caps, w) \<leftarrow> queryCapability os d w;
          (formats, w) \<leftarrow> enumFormats os d w;
          (case makeCaptureFormat ep of
             Inl e \<Rightarrow> probe_exit os 5 d w
           | Inr fmt \<Rightarrow>
               do { (r, w) \<leftarrow> setFormat os fmt d w;
                    if \<not> result_ok r then probe_exit os 6 d w else probe_stream os d w }) }"

definition probe_device ::
  "'w video_os \<Rightarrow> CameraEndpointConfig \<Rightarrow> 'w \<Rightarrow> (int \<times> V4L2Device \<times> 'w) option" where
  "probe_device os ep w =
     (case inspectNode os (ep_videoNode ep) w of
        (Inl e, w) \<Rightarrow> Some (3, new_v4l2, w)
      | (Inr info, w) \<Rightarrow>
          (case openDevice os (ep_videoNode ep) False new_v4l2 w of
             (Inl e, d, w) \<Rightarrow> probe_exit os 4 d w
           | (Inr _, d, w) \<Rightarrow> probe_opened os ep d w))"

definition l1_probe ::
  "'w files \<Rightarrow> 'w video_os \<Rightarrow> string list \<Rightarrow> 'w \<Rightarrow> (int \<times> V4L2Device \<times> 'w) option" where
  "l1_probe fl os args w =
     (case loadAll fl (probe_config_dir args) new_config_manager w of
        (Inl e, cm) \<Rightarrow> Some (2, new_v4l2, w)
      | (Inr _, cm) \<Rightarrow> probe_device os (probe_endpoint args (cc_compositeLowThermal (sys_camera (cfm_config cm)))) w)"

subsection \<open>The serial probe\<close>

definition l1_serial_probe ::
  "'w files \<Rightarrow> 'w serial_os \<Rightarrow> string list \<Rightarrow> 'w \<Rightarrow> int \<times> SerialPort \<times> 'w" where
  "l1_serial_probe fl os args w =
     (case loadAll fl (probe_config_dir args) new_config_manager w of
        (Inl e, cm) \<Rightarrow> (2, default_port, w)
      | (Inr _, cm) \<Rightarrow>
          (case makeSerialPortConfig (sys_serial (cfm_config cm)) of
             Inl e \<Rightarrow> (3, default_port, w)
           | Inr config \<Rightarrow>
               (case openPort os config default_port w of
                  (Inl e, p, w) \<Rightarrow> (4, closePort os p w)
                | (Inr _, p, w) \<Rightarrow> (0, closePort os p w))))"

subsection \<open>Stubs\<close>

text \<open>\<open>LowLightEnhancer\<close>, \<open>ThermalEnhancer\<close> and \<open>CompositeEnhancer\<close> have the same body.\<close>

record Enhancer =
  eh_initialized :: bool

definition new_enhancer :: Enhancer where
  "new_enhancer = \<lparr>eh_initialized = False\<rparr>"

definition enhancer_init :: "Enhancer \<Rightarrow> unit Result \<times> Enhancer" where
  "enhancer_init h = (Success, h\<lparr>eh_initialized := True\<rparr>)"

definition enhancer_process :: "VideoFrame \<Rightarrow> Enhancer \<Rightarrow> VideoFrame Result" where
  "enhancer_process frame h = Inr frame"

definition enhancer_release :: "Enhancer \<Rightarrow> Enhancer" where
  "enhancer_release h = h\<lparr>eh_initialized := False\<rparr>"

definition tcp_openSocket :: "unit Result" where
  "tcp_openSocket = Error Unsupported ''TCP socket wrapper not implemented in L1 phase 1''"

record RknnModelInfo =
  rk_modelPath :: string

definition rknn_load :: "RknnModelInfo \<Rightarrow> unit Result" where
  "rknn_load model = Error Unsupported ''RKNN runtime backend not linked''"

text \<open>The name given to \<open>pthread_setname_np\<close>, which takes 15 characters and a terminating zero.\<close>

definition thread_name :: "string \<Rightarrow> string" where
  "thread_name name = take 15 name"

subsection \<open>How the probes end\<close>

lemma probe_exit_closed:
  "probe_exit os code d w = Some (c, d', w') \<Longrightarrow>
     c = code \<and> \<not> vd_isOpen d' \<and> vd_buffers d' = [] \<and> \<not> vd_streaming d'"
  by (auto simp: probe_exit_def dest: vd_inv_close elim!: bind_SomeE)

text \<open>However the camera probe ends, its device is closed, maps no buffer and does not stream.\<close>

definition released :: "V4L2Device \<Rightarrow> bool" where
  "released d \<longleftrightarrow> \<not> vd_isOpen d \<and> vd_buffers d = [] \<and> \<not> vd_streaming d"

lemma probe_exit_released: "probe_exit os code d w = Some (c, d', w') \<Longrightarrow> c = code \<and> released d'"
  using probe_exit_closed[of os code d w c d' w'] by (simp add: released_def)

lemma probe_stream_released:
  "probe_stream os d w = Some (c, d', w') \<Longrightarrow> c \<in> {0, 7, 8} \<and> released d'"
  by (auto simp: probe_stream_def elim!: bind_SomeE split: if_splits dest!: probe_exit_released)

lemma probe_opened_released:
  "probe_opened os ep d w = Some (c, d', w') \<Longrightarrow> c \<in> {0, 5, 6, 7, 8} \<and> released d'"
  by (auto simp: probe_opened_def elim!: bind_SomeE split: if_splits sum.split_asm
      dest!: probe_exit_released probe_stream_released)

lemma new_v4l2_released: "released new_v4l2"
  by (simp add: released_def new_v4l2_def vd_isOpen_def)

theorem probe_releases_device:
  assumes "l1_probe fl os args w = Some (c, d, w')"
  shows "c \<in> {0, 2, 3, 4, 5, 6, 7, 8} \<and> released d"
  using assms
  by (auto simp: l1_probe_def probe_device_def new_v4l2_released split: prod.split_asm sum.split_asm
      dest!: probe_exit_released probe_opened_released)

text \<open>The serial probe leaves its port closed, and its code is 0 exactly when the port could be opened.\<close>

theorem serial_probe_releases_port:
  assumes "l1_serial_probe fl os args w = (c, p, w')"
  shows "c \<in> {0, 2, 3, 4} \<and> \<not> port_isOpen p"
  using assms
  by (auto simp: l1_serial_probe_def closePort_def port_isOpen_def default_port_def split: prod.split_asm sum.split_asm)

text \<open>The camera probe ends with 0 although no frame came: the first error of the loop only leaves the loop.\<close>

lemma probe_frames_timeout:
  assumes "\<And>w. vo_poll os (vd_fd d) 2000 w = (PollTimeout, w)"
  shows "probe_frames os (Suc n) d w = Some w"
  using assms by (simp add: dequeueBuffer_def)

end
