(* ===== verification/Tri_GbStream.thy ===== *)
theory Tri_GbStream
  imports Tri_System Tri_ConfigFile Tri_RtpJpeg
begin

text \<open>
  The media path of the GB28181 play program (tests/l8_gb28181_play_probe.cpp): cutting a program stream or an H.264
  byte stream into units, the program stream around an H.264 frame (ISO/IEC 13818-1), RTP packets of at most 1200
  bytes of payload, and the loop that sends them; with a receiver and a reader of the program stream that put
  together again what was sent. Pacing and console output are left out.
\<close>

unbundle bit_operations_syntax

subsection \<open>Cutting the file\<close>

definition loadFile :: "'w files \<Rightarrow> string \<Rightarrow> 'w \<Rightarrow> bytes" where
  "loadFile fl path w = (case fl_read fl path w of None \<Rightarrow> [] | Some s \<Rightarrow> text_bytes s)"

function pack_starts :: "bytes \<Rightarrow> nat \<Rightarrow> nat list" where
  "pack_starts data i =
     (if length data < i + 4 then []
      else if data ! i = 0 \<and> data ! (i + 1) = 0 \<and> data ! (i + 2) = 1 \<and> data ! (i + 3) = 0xBA
      then i # pack_starts data (i + 4)
      else pack_starts data (i + 1))"
  by pat_completeness auto
termination by (relation "measure (\<lambda>(data, i). length data - i)") auto

declare pack_starts.simps [simp del]

text \<open>The parts of the data that begin at the given places; an empty part is left out.\<close>

fun cut_at :: "bytes \<Rightarrow> nat list \<Rightarrow> bytes list" where
  "cut_at data [] = []"
| "cut_at data [b] = (if b < length data then [drop b data] else [])"
| "cut_at data (b # e # rest) = (if b < e then [take (e - b) (drop b data)] else []) @ cut_at data (e # rest)"

definition splitPsPacks :: "bytes \<Rightarrow> bytes list" where
  "splitPsPacks data =
     (let starts = pack_starts data 0 in if starts = [] then [data] else cut_at data starts)"

function nal_starts :: "bytes \<Rightarrow> nat \<Rightarrow> nat list" where
  "nal_starts data i =
     (if length data \<le> i + 4 then []
      else if data ! i = 0 \<and> data ! (i + 1) = 0 \<and> data ! (i + 2) = 0 \<and> data ! (i + 3) = 1
      then i # nal_starts data (i + 4)
      else if data ! i = 0 \<and> data ! (i + 1) = 0 \<and> data ! (i + 2) = 1
      then i # nal_starts data (i + 3)
      else nal_starts data (i + 1))"
  by pat_completeness auto
termination by (relation "measure (\<lambda>(data, i). length data - i)") auto

declare nal_starts.simps [simp del]

definition nal_offset :: "bytes \<Rightarrow> nat \<Rightarrow> nat" where
  "nal_offset data b =
     (if b + 4 \<le> length data \<and> data ! b = 0 \<and> data ! (b + 1) = 0 \<and> data ! (b + 2) = 0 \<and> data ! (b + 3) = 1
      then b + 4 else b + 3)"

definition is_vcl :: "u8 \<Rightarrow> bool" where
  "is_vcl header \<longleftrightarrow> 1 \<le> header AND 0x1f \<and> header AND 0x1f \<le> 5"

text \<open>The loop over the units with the frame being collected and whether it has a coded slice.\<close>

fun collect_frames :: "bytes \<Rightarrow> nat list \<Rightarrow> bytes \<Rightarrow> bool \<Rightarrow> bytes list" where
  "collect_frames data [] current hasVcl = (if current = [] then [] else [current])"
| "collect_frames data (b # rest) current hasVcl =
     (let e = (case rest of [] \<Rightarrow> length data | next # _ \<Rightarrow> next); at = nal_offset data b in
      if e \<le> at then collect_frames data rest current hasVcl
      else
        let vcl = is_vcl (data ! at); nal = take (e - b) (drop b data) in
        if vcl \<and> hasVcl \<and> current \<noteq> [] then current # collect_frames data rest nal True
        else collect_frames data rest (current @ nal) (hasVcl \<or> vcl))"

definition splitAnnexBFrames :: "bytes \<Rightarrow> bytes list" where
  "splitAnnexBFrames data =
     (let starts = nal_starts data 0 in if starts = [] then [data] else collect_frames data starts [] False)"

subsection \<open>Program stream packets\<close>

definition append32 :: "bytes \<Rightarrow> u32 \<Rightarrow> bytes" where
  "append32 out v =
     out @ [ucast (drop_bit 24 v AND 0xff), ucast (drop_bit 16 v AND 0xff), ucast (drop_bit 8 v AND 0xff), ucast (v AND 0xff)]"

definition append16 :: "bytes \<Rightarrow> u16 \<Rightarrow> bytes" where
  "append16 out v = out @ [ucast (drop_bit 8 v AND 0xff), ucast (v AND 0xff)]"

text \<open>Frame numbers to the 90 kHz clock; a rate of 0 is excluded by the callers.\<close>

definition to90k :: "u64 \<Rightarrow> int \<Rightarrow> u64" where
  "to90k frameIndex fps = frameIndex * 90000 div word_of_int fps"

definition appendPesTimestamp :: "bytes \<Rightarrow> u8 \<Rightarrow> u64 \<Rightarrow> bytes" where
  "appendPesTimestamp out fb ts90k =
     (let v = ts90k AND 0x1ffffffff in
      out @ [push_bit 4 fb OR ucast (push_bit 1 (drop_bit 30 v AND 0x07)) OR 1,
             ucast (drop_bit 22 v AND 0xff),
             ucast (push_bit 1 (drop_bit 15 v AND 0x7f) OR 1),
             ucast (drop_bit 7 v AND 0xff),
             ucast (push_bit 1 (v AND 0x7f) OR 1)])"

definition pack_header :: "u64 \<Rightarrow> bytes" where
  "pack_header ts =
     append32 [] 0x000001BA @
     [0x44,
      ucast ((drop_bit 27 ts AND 0x38) OR 0x04 OR (drop_bit 28 ts AND 0x03)),
      ucast (drop_bit 20 ts AND 0xff),
      ucast (push_bit 3 (drop_bit 15 ts AND 0x1f) OR 0x04 OR (drop_bit 13 ts AND 0x03)),
      ucast (drop_bit 5 ts AND 0xff),
      ucast (push_bit 3 (ts AND 0x1f) OR 0x04),
      0x01, 0x89, 0xc3, 0xf8]"

definition sysHeader :: bytes where
  "sysHeader =
     [0x00, 0x00, 0x01, 0xBB, 0x00, 0x0C, 0x80, 0x04, 0x04, 0xE1, 0x7F, 0xE0, 0xE0, 0xE8, 0xC0, 0xC0, 0xC0, 0x20]"

definition psm :: bytes where
  "psm =
     [0x00, 0x00, 0x01, 0xBC, 0x00, 0x12, 0xE1, 0xFF, 0x00, 0x00, 0x00, 0x08, 0x1B, 0xE0, 0x00, 0x00, 0x90, 0xC0,
      0x00, 0x00, 0x2A, 0xB1, 0x04, 0xB2]"

definition pes_length :: "nat \<Rightarrow> u16" where
  "pes_length n = (if 0xffff < n + 8 then 0 else of_nat (n + 8))"

definition makePsPacket :: "bytes \<Rightarrow> u64 \<Rightarrow> int \<Rightarrow> bytes" where
  "makePsPacket h264Frame frameIndex fps =
     (let ts = to90k frameIndex fps;
          ps = pack_header ts @ sysHeader @ psm;
          ps = append16 (append32 ps 0x000001E0) (pes_length (length h264Frame)) @ [0x80, 0x80, 0x05]
      in appendPesTimestamp ps 0x02 ts @ h264Frame)"

subsection \<open>RTP packets\<close>

definition makeRtpPacket :: "bytes \<Rightarrow> u16 \<Rightarrow> u32 \<Rightarrow> u32 \<Rightarrow> bool \<Rightarrow> bytes" where
  "makeRtpPacket payload seq timestamp ssrc marker =
     [0x80, (if marker then 0x80 else 0x00) OR 96,
      ucast (drop_bit 8 seq AND 0xff), ucast (seq AND 0xff),
      ucast (drop_bit 24 timestamp AND 0xff), ucast (drop_bit 16 timestamp AND 0xff),
      ucast (drop_bit 8 timestamp AND 0xff), ucast (timestamp AND 0xff),
      ucast (drop_bit 24 ssrc AND 0xff), ucast (drop_bit 16 ssrc AND 0xff),
      ucast (drop_bit 8 ssrc AND 0xff), ucast (ssrc AND 0xff)] @ payload"

text \<open>\<open>std::stoul\<close>: white space, a sign, digits, in 64 bits where a minus negates; \<open>None\<close> when it throws.\<close>

definition stoul_digits :: "string \<Rightarrow> u64 option" where
  "stoul_digits s =
     (let ds = takeWhile isdigit s in
      if ds = [] \<or> 2 ^ 64 \<le> digits_value ds then None else Some (of_nat (digits_value ds)))"

definition stoul :: "string \<Rightarrow> u64 option" where
  "stoul s =
     (case dropWhile isspace s of
        [] \<Rightarrow> None
      | c # cs \<Rightarrow>
          if c = CHR ''-'' then map_option uminus (stoul_digits cs)
          else if c = CHR ''+'' then stoul_digits cs
          else stoul_digits (c # cs))"

definition parseSsrc :: "string \<Rightarrow> u32" where
  "parseSsrc text = (if text = [] then 1 else case stoul text of None \<Rightarrow> 1 | Some v \<Rightarrow> ucast v)"

subsection \<open>Sending\<close>

definition maxPayload :: nat where
  "maxPayload = 1200"

function send_unit ::
  "'w datagrams \<Rightarrow> int \<Rightarrow> string \<Rightarrow> u16 \<Rightarrow> bytes \<Rightarrow> u32 \<Rightarrow> u32 \<Rightarrow> nat \<Rightarrow> u16 \<Rightarrow> 'w \<Rightarrow> bool \<times> u16 \<times> 'w" where
  "send_unit dg fd ip port ps ts ssrc offset seq w =
     (if offset < length ps
      then let chunk = min maxPayload (length ps - offset);
               marker = length ps \<le> offset + chunk;
               rtp = makeRtpPacket (take chunk (drop offset ps)) seq ts ssrc marker
           in case dg_sendto dg fd ip port rtp w of
                (Some e, w) \<Rightarrow> (False, seq + 1, w)
              | (None, w) \<Rightarrow> send_unit dg fd ip port ps ts ssrc (offset + chunk) (seq + 1) w
      else (True, seq, w))"
  by pat_completeness auto
termination by (relation "measure (\<lambda>(dg, fd, ip, port, ps, ts, ssrc, offset, seq, w). length ps - offset)") (auto simp: maxPayload_def)

declare send_unit.simps [simp del]

text \<open>One pass over the units; \<open>mk\<close> gives the bytes to send for a unit and its number.\<close>

fun send_units ::
  "'w datagrams \<Rightarrow> int \<Rightarrow> string \<Rightarrow> u16 \<Rightarrow> (bytes \<Rightarrow> u64 \<Rightarrow> bytes) \<Rightarrow> int \<Rightarrow> u32 \<Rightarrow> bytes list \<Rightarrow> u64 \<Rightarrow> u16 \<Rightarrow> 'w \<Rightarrow>
     bool \<times> u64 \<times> u16 \<times> 'w" where
  "send_units dg fd ip port mk fps ssrc [] i seq w = (True, i, seq, w)"
| "send_units dg fd ip port mk fps ssrc (u # us) i seq w =
     (case send_unit dg fd ip port (mk u i) (ucast (to90k i fps)) ssrc 0 seq w of
        (False, seq, w) \<Rightarrow> (False, i, seq, w)
      | (True, seq, w) \<Rightarrow> send_units dg fd ip port mk fps ssrc us (i + 1) seq w)"

fun send_loops ::
  "'w datagrams \<Rightarrow> int \<Rightarrow> string \<Rightarrow> u16 \<Rightarrow> (bytes \<Rightarrow> u64 \<Rightarrow> bytes) \<Rightarrow> int \<Rightarrow> u32 \<Rightarrow> bytes list \<Rightarrow> nat \<Rightarrow> u64 \<Rightarrow> u16 \<Rightarrow> 'w \<Rightarrow>
     bool \<times> 'w" where
  "send_loops dg fd ip port mk fps ssrc us 0 i seq w = (True, w)"
| "send_loops dg fd ip port mk fps ssrc us (Suc n) i seq w =
     (case send_units dg fd ip port mk fps ssrc us i seq w of
        (False, i, seq, w) \<Rightarrow> (False, w)
      | (True, i, seq, w) \<Rightarrow> send_loops dg fd ip port mk fps ssrc us n i seq w)"

text \<open>The part both streaming functions share, from the socket on. A rate of 0 ends the program by a division by
  zero, which is \<open>None\<close>.\<close>

definition stream_units ::
  "'w datagrams \<Rightarrow> (bytes \<Rightarrow> u64 \<Rightarrow> bytes) \<Rightarrow> bytes list \<Rightarrow> string \<Rightarrow> int \<Rightarrow> string \<Rightarrow> int \<Rightarrow> int \<Rightarrow> 'w \<Rightarrow> (bool \<times> 'w) option" where
  "stream_units dg mk us ip port ssrcText fps loops w =
     (case dg_socket dg w of
        (Inl e, w) \<Rightarrow> Some (False, w)
      | (Inr fd, w) \<Rightarrow>
          if \<not> dg_pton dg ip then Some (False, dg_close dg fd w)
          else if fps = 0 then None
          else case send_loops dg fd ip (word_of_int port) mk fps (parseSsrc ssrcText) us (nat loops) 0 0 w of
            (ok, w) \<Rightarrow> Some (ok, dg_close dg fd w))"

definition streamPsFileAsRtp ::
  "'w files \<Rightarrow> 'w datagrams \<Rightarrow> string \<Rightarrow> string \<Rightarrow> int \<Rightarrow> string \<Rightarrow> int \<Rightarrow> int \<Rightarrow> 'w \<Rightarrow> (bool \<times> 'w) option" where
  "streamPsFileAsRtp fl dg psPath ip port ssrcText fps loops w =
     (let psFile = loadFile fl psPath w in
      if psFile = [] then Some (False, w)
      else if splitPsPacks psFile = [] then Some (False, w)
      else stream_units dg (\<lambda>pack i. pack) (splitPsPacks psFile) ip port ssrcText fps loops w)"

definition streamH264AsGbPsRtp ::
  "'w files \<Rightarrow> 'w datagrams \<Rightarrow> string \<Rightarrow> string \<Rightarrow> int \<Rightarrow> string \<Rightarrow> int \<Rightarrow> int \<Rightarrow> 'w \<Rightarrow> (bool \<times> 'w) option" where
  "streamH264AsGbPsRtp fl dg h264Path ip port ssrcText fps loops w =
     (let file = loadFile fl h264Path w in
      if file = [] then Some (False, w)
      else if splitAnnexBFrames file = [] then Some (False, w)
      else stream_units dg (\<lambda>frame i. makePsPacket frame i fps) (splitAnnexBFrames file) ip port ssrcText fps loops w)"

subsection \<open>The receiving side\<close>

text \<open>A receiver of RTP (RFC 3550) without contributing sources, of one synchronisation source.\<close>

definition rd16 :: "u8 \<Rightarrow> u8 \<Rightarrow> u16" where
  "rd16 a b = push_bit 8 (ucast a) OR ucast b"

definition rd32 :: "u8 \<Rightarrow> u8 \<Rightarrow> u8 \<Rightarrow> u8 \<Rightarrow> u32" where
  "rd32 a b c d = push_bit 24 (ucast a) OR push_bit 16 (ucast b) OR push_bit 8 (ucast c) OR ucast d"

record rtp_view =
  rv_marker :: bool
  rv_seq :: u16
  rv_ts :: u32
  rv_ssrc :: u32
  rv_payload :: bytes

definition rtp_parse :: "bytes \<Rightarrow> rtp_view option" where
  "rtp_parse p =
     (if length p < 12 \<or> p ! 0 \<noteq> 0x80 \<or> p ! 1 AND 0x7f \<noteq> 96 then None
      else Some \<lparr>rv_marker = (p ! 1 AND 0x80 \<noteq> 0), rv_seq = rd16 (p ! 2) (p ! 3),
                 rv_ts = rd32 (p ! 4) (p ! 5) (p ! 6) (p ! 7), rv_ssrc = rd32 (p ! 8) (p ! 9) (p ! 10) (p ! 11),
                 rv_payload = drop 12 p\<rparr>)"

text \<open>The units of a run of packets with their time stamps: packets are consecutive, the marker ends a unit.\<close>

fun receive :: "u32 \<Rightarrow> u16 \<Rightarrow> bytes \<Rightarrow> bytes list \<Rightarrow> (u32 \<times> bytes) list option" where
  "receive ssrc seq got [] = (if got = [] then Some [] else None)"
| "receive ssrc seq got (p # ps) =
     (case rtp_parse p of
        None \<Rightarrow> None
      | Some v \<Rightarrow>
          if rv_seq v \<noteq> seq \<or> rv_ssrc v \<noteq> ssrc then None
          else if rv_marker v
          then map_option (Cons (rv_ts v, got @ rv_payload v)) (receive ssrc (seq + 1) [] ps)
          else receive ssrc (seq + 1) (got @ rv_payload v) ps)"

lemma rd16_bytes [simp]: "rd16 (ucast (drop_bit 8 v)) (ucast v) = v"
  unfolding rd16_def by (intro bit_word_eqI) (auto simp: bit_simps)

lemma rd32_bytes [simp]:
  "rd32 (ucast (drop_bit 24 v)) (ucast (drop_bit 16 v)) (ucast (drop_bit 8 v)) (ucast v) = v"
proof (rule bit_word_eqI)
  fix n :: nat
  assume "n < LENGTH(32)"
  then show "bit (rd32 (ucast (drop_bit 24 v)) (ucast (drop_bit 16 v)) (ucast (drop_bit 8 v)) (ucast v)) n = bit v n"
    unfolding rd32_def by (cases "n < 8"; cases "n < 16"; cases "n < 24") (auto simp: bit_simps)
qed

lemma rtp_parse_packet:
  "rtp_parse (makeRtpPacket payload seq ts ssrc marker) =
     Some \<lparr>rv_marker = marker, rv_seq = seq, rv_ts = ts, rv_ssrc = ssrc, rv_payload = payload\<rparr>"
  by (cases marker) (simp_all add: rtp_parse_def makeRtpPacket_def)

subsection \<open>Cutting loses nothing\<close>

lemma pack_starts_facts:
  "sorted_wrt (<) (pack_starts data i) \<and> (\<forall>b \<in> set (pack_starts data i). i \<le> b \<and> b + 4 \<le> length data)"
proof (induction data i rule: pack_starts.induct)
  case (1 data i)
  let ?at = "data ! i = 0 \<and> data ! (i + 1) = 0 \<and> data ! (i + 2) = 1 \<and> data ! (i + 3) = 0xBA"
  note eq = pack_starts.simps[of data i]
  consider "length data < i + 4" | "\<not> length data < i + 4" ?at | "\<not> length data < i + 4" "\<not> ?at" by blast
  then show ?case
  proof cases
    case 1 then show ?thesis by (simp add: eq)
  next
    case 2
    with 1(1) have "sorted_wrt (<) (pack_starts data (i + 4)) \<and>
      (\<forall>b \<in> set (pack_starts data (i + 4)). i + 4 \<le> b \<and> b + 4 \<le> length data)" by blast
    moreover from 2 have "pack_starts data i = i # pack_starts data (i + 4)" using eq by simp
    ultimately show ?thesis using 2(1) by auto
  next
    case 3
    with 1(2) have "sorted_wrt (<) (pack_starts data (i + 1)) \<and>
      (\<forall>b \<in> set (pack_starts data (i + 1)). i + 1 \<le> b \<and> b + 4 \<le> length data)" by blast
    moreover from 3 have "pack_starts data i = pack_starts data (i + 1)" by (subst eq) (simp only: if_False)
    ultimately show ?thesis by auto
  qed
qed

lemma cut_at_concat:
  "sorted_wrt (<) (b # bs) \<Longrightarrow> \<forall>x \<in> set (b # bs). x < length data \<Longrightarrow>
     concat (cut_at data (b # bs)) = drop b data \<and> [] \<notin> set (cut_at data (b # bs))"
proof (induction bs arbitrary: b)
  case (Cons e rest)
  then have "concat (cut_at data (e # rest)) = drop e data \<and> [] \<notin> set (cut_at data (e # rest))" by simp
  moreover have "take (e - b) (drop b data) @ drop e data = drop b data" if "b < e"
    using that by (metis append_take_drop_id drop_drop le_add_diff_inverse2 less_imp_le)
  ultimately show ?case using Cons.prems by auto
qed auto

text \<open>What follows the first pack header, or everything when there is none.\<close>

definition from_first_pack :: "bytes \<Rightarrow> bytes" where
  "from_first_pack data = (case pack_starts data 0 of [] \<Rightarrow> data | b # _ \<Rightarrow> drop b data)"

lemma splitPsPacks_concat:
  assumes "data \<noteq> []"
  shows "concat (splitPsPacks data) = from_first_pack data" "[] \<notin> set (splitPsPacks data)" "splitPsPacks data \<noteq> []"
proof -
  have "concat (splitPsPacks data) = from_first_pack data \<and> [] \<notin> set (splitPsPacks data) \<and> splitPsPacks data \<noteq> []"
  proof (cases "pack_starts data 0")
    case Nil with assms show ?thesis by (simp add: splitPsPacks_def from_first_pack_def)
  next
    case (Cons b bs)
    with pack_starts_facts[of data 0] have "sorted_wrt (<) (b # bs)" "\<forall>x \<in> set (b # bs). x < length data" by auto
    from cut_at_concat[OF this] this Cons have "concat (splitPsPacks data) = from_first_pack data \<and> [] \<notin> set (splitPsPacks data)"
      and "drop b data \<noteq> []" by (simp_all add: splitPsPacks_def from_first_pack_def Let_def)
    with Cons show ?thesis by (metis concat.simps(1) from_first_pack_def list.simps(5))
  qed
  then show "concat (splitPsPacks data) = from_first_pack data" "[] \<notin> set (splitPsPacks data)" "splitPsPacks data \<noteq> []"
    by simp_all
qed

subsection \<open>What is sent\<close>

text \<open>What has been sent, with the address of each datagram: a send that succeeds appends its own, a failed one nothing.\<close>

definition datagram_log :: "'w datagrams \<Rightarrow> ('w \<Rightarrow> (string \<times> u16 \<times> bytes) list) \<Rightarrow> bool" where
  "datagram_log dg log \<longleftrightarrow>
     (\<forall>w. log (snd (dg_socket dg w)) = log w) \<and> (\<forall>fd w. log (dg_close dg fd w) = log w) \<and>
     (\<forall>fd ip port data w. log (snd (dg_sendto dg fd ip port data w)) =
        log w @ (if fst (dg_sendto dg fd ip port data w) = None then [(ip, port, data)] else []))"

function unit_packets :: "bytes \<Rightarrow> u32 \<Rightarrow> u32 \<Rightarrow> nat \<Rightarrow> u16 \<Rightarrow> bytes list" where
  "unit_packets ps ts ssrc offset seq =
     (if offset < length ps
      then makeRtpPacket (take maxPayload (drop offset ps)) seq ts ssrc (length ps \<le> offset + maxPayload) #
        unit_packets ps ts ssrc (offset + maxPayload) (seq + 1)
      else [])"
  by pat_completeness auto
termination by (relation "measure (\<lambda>(ps, ts, ssrc, offset, seq). length ps - offset)") (auto simp: maxPayload_def)

declare unit_packets.simps [simp del]

lemma send_unit_step:
  "send_unit dg fd ip port ps ts ssrc offset seq w =
     (if offset < length ps
      then case dg_sendto dg fd ip port
              (makeRtpPacket (take maxPayload (drop offset ps)) seq ts ssrc (length ps \<le> offset + maxPayload)) w of
             (Some e, w) \<Rightarrow> (False, seq + 1, w)
           | (None, w) \<Rightarrow> send_unit dg fd ip port ps ts ssrc (offset + maxPayload) (seq + 1) w
      else (True, seq, w))"
proof (cases "offset + maxPayload \<le> length ps")
  case True
  then have "min maxPayload (length ps - offset) = maxPayload" by simp
  then show ?thesis by (subst send_unit.simps) (simp add: Let_def)
next
  case False
  then have c: "min maxPayload (length ps - offset) = length ps - offset"
    "take (length ps - offset) (drop offset ps) = take maxPayload (drop offset ps)" by simp_all
  have stop: "send_unit dg fd ip port ps ts ssrc n q v = (True, q, v)" if "length ps \<le> n" for n q v
    using that by (subst send_unit.simps) simp
  show ?thesis
  proof (cases "offset < length ps")
    case True
    then have "offset + (length ps - offset) = length ps" "length ps \<le> offset + maxPayload" using False by simp_all
    with c True stop[of "length ps"] stop[of "offset + maxPayload"] show ?thesis
      by (subst send_unit.simps) (simp add: Let_def del: le_add_diff_inverse split: prod.split option.split)
  qed (simp add: stop)
qed

lemma send_unit_sent:
  assumes "datagram_log dg log" "send_unit dg fd ip port ps ts ssrc offset seq w = (ok, seq', w')"
  shows "\<exists>sent rest. unit_packets ps ts ssrc offset seq = sent @ rest \<and> log w' = log w @ map (\<lambda>d. (ip, port, d)) sent \<and>
    (ok \<longrightarrow> rest = [] \<and> seq' = seq + of_nat (length sent))"
  using assms(2)
proof (induction ps ts ssrc offset seq arbitrary: w rule: unit_packets.induct)
  case (1 ps ts ssrc offset seq)
  let ?p = "makeRtpPacket (take maxPayload (drop offset ps)) seq ts ssrc (length ps \<le> offset + maxPayload)"
  show ?case
  proof (cases "offset < length ps")
    case False
    with 1(2) show ?thesis by (simp add: send_unit_step unit_packets.simps)
  next
    case True
    obtain e v where s: "dg_sendto dg fd ip port ?p w = (e, v)" by fastforce
    from assms(1) have "log (snd (dg_sendto dg fd ip port ?p w)) =
        log w @ (if fst (dg_sendto dg fd ip port ?p w) = None then [(ip, port, ?p)] else [])"
      unfolding datagram_log_def by blast
    with s have l: "log v = log w @ (if e = None then [(ip, port, ?p)] else [])" by simp
    have u: "unit_packets ps ts ssrc offset seq = ?p # unit_packets ps ts ssrc (offset + maxPayload) (seq + 1)"
      using True by (subst unit_packets.simps) simp
    show ?thesis
    proof (cases e)
      case (Some x)
      with 1(2) True s l u show ?thesis by (subst (asm) send_unit_step) auto
    next
      case None
      with 1(2) True s have "send_unit dg fd ip port ps ts ssrc (offset + maxPayload) (seq + 1) v = (ok, seq', w')"
        by (subst (asm) send_unit_step) simp
      from 1(1)[OF True this] obtain sent rest where
        "unit_packets ps ts ssrc (offset + maxPayload) (seq + 1) = sent @ rest" "log w' = log v @ map (\<lambda>d. (ip, port, d)) sent"
        "ok \<longrightarrow> rest = [] \<and> seq' = seq + 1 + of_nat (length sent)" by blast
      with u l None show ?thesis by (intro exI[of _ "?p # sent"] exI[of _ rest]) (simp add: algebra_simps)
    qed
  qed
qed

text \<open>The packets of a list of units, and the units with their time stamps.\<close>

fun units_packets :: "(bytes \<Rightarrow> u64 \<Rightarrow> bytes) \<Rightarrow> int \<Rightarrow> u32 \<Rightarrow> bytes list \<Rightarrow> u64 \<Rightarrow> u16 \<Rightarrow> bytes list" where
  "units_packets mk fps ssrc [] i seq = []"
| "units_packets mk fps ssrc (u # us) i seq =
     (let ps = unit_packets (mk u i) (ucast (to90k i fps)) ssrc 0 seq
      in ps @ units_packets mk fps ssrc us (i + 1) (seq + of_nat (length ps)))"

fun timed_units :: "(bytes \<Rightarrow> u64 \<Rightarrow> bytes) \<Rightarrow> int \<Rightarrow> bytes list \<Rightarrow> u64 \<Rightarrow> (u32 \<times> bytes) list" where
  "timed_units mk fps [] i = []"
| "timed_units mk fps (u # us) i = (ucast (to90k i fps), mk u i) # timed_units mk fps us (i + 1)"

lemma send_units_sent:
  assumes "datagram_log dg log" "send_units dg fd ip port mk fps ssrc us i seq w = (ok, i', seq', w')"
  shows "\<exists>sent rest. units_packets mk fps ssrc us i seq = sent @ rest \<and> log w' = log w @ map (\<lambda>d. (ip, port, d)) sent \<and>
    (ok \<longrightarrow> rest = [])"
  using assms(2)
proof (induction us arbitrary: i seq w)
  case (Cons u us)
  let ?ps = "unit_packets (mk u i) (ucast (to90k i fps)) ssrc 0 seq"
  obtain ok1 seq1 w1 where one: "send_unit dg fd ip port (mk u i) (ucast (to90k i fps)) ssrc 0 seq w = (ok1, seq1, w1)"
    using prod_cases3 by blast
  from send_unit_sent[OF assms(1) one] obtain sent rest where sent: "?ps = sent @ rest"
    "log w1 = log w @ map (\<lambda>d. (ip, port, d)) sent" "ok1 \<longrightarrow> rest = [] \<and> seq1 = seq + of_nat (length sent)" by blast
  show ?case
  proof (cases ok1)
    case False
    with Cons(2) one sent show ?thesis by (auto simp: Let_def)
  next
    case True
    with Cons(2) one have "send_units dg fd ip port mk fps ssrc us (i + 1) seq1 w1 = (ok, i', seq', w')" by simp
    from Cons(1)[OF this] obtain sent2 rest2 where
      "units_packets mk fps ssrc us (i + 1) seq1 = sent2 @ rest2" "log w' = log w1 @ map (\<lambda>d. (ip, port, d)) sent2"
      "ok \<longrightarrow> rest2 = []" by blast
    with sent True show ?thesis by (intro exI[of _ "sent @ sent2"] exI[of _ rest2]) (simp add: Let_def)
  qed
qed simp

lemma send_units_append:
  "send_units dg fd ip port mk fps ssrc (us @ vs) i seq w =
     (case send_units dg fd ip port mk fps ssrc us i seq w of
        (False, r) \<Rightarrow> (False, r)
      | (True, i, seq, w) \<Rightarrow> send_units dg fd ip port mk fps ssrc vs i seq w)"
  by (induction us arbitrary: i seq w) (auto split: prod.split bool.split)

lemma send_loops_units:
  "send_loops dg fd ip port mk fps ssrc us n i seq w =
     (case send_units dg fd ip port mk fps ssrc (concat (replicate n us)) i seq w of (ok, i, seq, w) \<Rightarrow> (ok, w))"
  by (induction n arbitrary: i seq w) (auto simp: send_units_append split: prod.split bool.split)

subsection \<open>What is received\<close>

lemma receive_unit:
  assumes "offset < length ps"
  shows "receive ssrc seq got (unit_packets ps ts ssrc offset seq @ more_packets) =
    map_option (Cons (ts, got @ drop offset ps))
      (receive ssrc (seq + of_nat (length (unit_packets ps ts ssrc offset seq))) [] more_packets)"
  using assms
proof (induction ps ts ssrc offset seq arbitrary: got rule: unit_packets.induct)
  case (1 ps ts ssrc offset seq)
  have u: "unit_packets ps ts ssrc offset seq =
      makeRtpPacket (take maxPayload (drop offset ps)) seq ts ssrc (length ps \<le> offset + maxPayload) #
      unit_packets ps ts ssrc (offset + maxPayload) (seq + 1)"
    using 1(2) by (subst unit_packets.simps) simp
  show ?case
  proof (cases "length ps \<le> offset + maxPayload")
    case True
    then have "unit_packets ps ts ssrc (offset + maxPayload) (seq + 1) = []" by (subst unit_packets.simps) simp
    with u True show ?thesis by (simp add: rtp_parse_packet)
  next
    case False
    then have later: "offset + maxPayload < length ps" by simp
    have "take maxPayload (drop offset ps) @ drop (offset + maxPayload) ps = drop offset ps"
      by (metis append_take_drop_id drop_drop add.commute)
    with u False 1(1)[OF 1(2) later, of "got @ take maxPayload (drop offset ps)"] show ?thesis
      by (simp add: rtp_parse_packet algebra_simps)
  qed
qed

lemma receive_units:
  assumes "\<And>u i. u \<in> set us \<Longrightarrow> mk u i \<noteq> []"
  shows "receive ssrc seq [] (units_packets mk fps ssrc us i seq) = Some (timed_units mk fps us i)"
  using assms
proof (induction us arbitrary: i seq)
  case (Cons u us)
  then have "0 < length (mk u i)" by simp
  from receive_unit[OF this] Cons show ?case by (simp add: Let_def)
qed simp

lemma unit_packets_short: "p \<in> set (unit_packets ps ts ssrc offset seq) \<Longrightarrow> length p \<le> maxPayload + 12"
proof (induction ps ts ssrc offset seq rule: unit_packets.induct)
  case (1 ps ts ssrc offset seq)
  have "length (makeRtpPacket (take maxPayload d) seq ts ssrc m) \<le> maxPayload + 12" for d m by (simp add: makeRtpPacket_def)
  with 1 show ?case by (subst (asm) unit_packets.simps) (auto split: if_splits)
qed

lemma units_packets_short: "p \<in> set (units_packets mk fps ssrc us i seq) \<Longrightarrow> length p \<le> maxPayload + 12"
  by (induction us arbitrary: i seq) (auto simp: Let_def dest: unit_packets_short)

lemma timed_units_data: "map snd (timed_units (\<lambda>u i. u) fps us i) = us"
  by (induction us arbitrary: i) auto

lemma stream_units_sent:
  assumes "datagram_log dg log" "stream_units dg mk us ip port ssrcText fps loops w = Some (ok, w')"
  shows "\<exists>sent rest. units_packets mk fps (parseSsrc ssrcText) (concat (replicate (nat loops) us)) 0 0 = sent @ rest \<and>
    log w' = log w @ map (\<lambda>d. (ip, word_of_int port, d)) sent \<and> (ok \<longrightarrow> rest = [])"
proof -
  from assms(1) have same: "log (snd (dg_socket dg w)) = log w" "\<And>fd w. log (dg_close dg fd w) = log w" for w
    by (auto simp: datagram_log_def)
  obtain s v where sock: "dg_socket dg w = (s, v)" by fastforce
  with same(1)[of w] have v: "log v = log w" by simp
  show ?thesis
  proof (cases "\<exists>fd. s = Inr fd \<and> dg_pton dg ip")
    case False
    with assms(2) sock v same(2) show ?thesis by (auto simp: stream_units_def split: sum.split_asm if_splits)
  next
    case True
    then obtain fd where fd: "s = Inr fd" "dg_pton dg ip" by blast
    obtain ok1 i1 seq1 w1 where run: "send_units dg fd ip (word_of_int port) mk fps (parseSsrc ssrcText)
        (concat (replicate (nat loops) us)) 0 0 v = (ok1, i1, seq1, w1)" using prod_cases4 by blast
    with assms(2) sock fd have "ok = ok1" "w' = dg_close dg fd w1"
      by (auto simp: stream_units_def send_loops_units split: if_splits)
    with send_units_sent[OF assms(1) run] v same(2) show ?thesis by simp
  qed
qed

lemma concat_concat_replicate: "concat (concat (replicate n xs)) = concat (replicate n (concat xs))"
  by (induction n) simp_all

subsection \<open>What reaches the platform\<close>

text \<open>
  Claim C39. The platform that receives a program stream file gets the packs of the file, as often as the program was told to
  play it, each with the time stamp of its number on the 90 kHz clock; together the packs are the file from its
  first pack header on. The packets are consecutive and at most 1212 bytes long; when sending fails, what
  was sent is the beginning of them.
\<close>

theorem ps_file_reaches_platform:
  assumes "datagram_log dg log" "streamPsFileAsRtp fl dg path ip port ssrcText fps loops w = Some (ok, w')"
    and "loadFile fl path w \<noteq> []"
  defines "units \<equiv> timed_units (\<lambda>u i. u) fps (concat (replicate (nat loops) (splitPsPacks (loadFile fl path w)))) 0"
  shows "\<exists>sent rest. log w' = log w @ map (\<lambda>d. (ip, word_of_int port, d)) sent \<and> (ok \<longrightarrow> rest = []) \<and>
    receive (parseSsrc ssrcText) 0 [] (sent @ rest) = Some units \<and>
    concat (map snd units) = concat (replicate (nat loops) (from_first_pack (loadFile fl path w))) \<and>
    list_all (\<lambda>d. length d \<le> 1212) sent"
proof -
  let ?packs = "splitPsPacks (loadFile fl path w)" and ?mk = "\<lambda>(u :: bytes) (i :: u64). u"
  note packs = splitPsPacks_concat[OF assms(3)]
  from assms(2,3) packs(3) have "stream_units dg ?mk ?packs ip port ssrcText fps loops w = Some (ok, w')"
    by (simp add: streamPsFileAsRtp_def Let_def)
  from stream_units_sent[OF assms(1) this] obtain sent rest where sent:
    "units_packets ?mk fps (parseSsrc ssrcText) (concat (replicate (nat loops) ?packs)) 0 0 = sent @ rest"
    "log w' = log w @ map (\<lambda>d. (ip, word_of_int port, d)) sent" "ok \<longrightarrow> rest = []" by blast
  have "receive (parseSsrc ssrcText) 0 [] (sent @ rest) = Some units"
    unfolding units_def sent(1)[symmetric] by (rule receive_units) (use packs(2) in auto)
  moreover have "concat (map snd units) = concat (replicate (nat loops) (from_first_pack (loadFile fl path w)))"
    unfolding units_def timed_units_data packs(1)[symmetric] by (rule concat_concat_replicate)
  moreover have "list_all (\<lambda>d. length d \<le> 1212) sent"
    using sent(1) units_packets_short[of _ ?mk fps "parseSsrc ssrcText" "concat (replicate (nat loops) ?packs)" 0 0]
    by (auto simp: list_all_iff maxPayload_def)
  ultimately show ?thesis using sent by blast
qed

text \<open>A world that is the list of datagrams, and a file of two packs after three other bytes.\<close>

definition log_datagrams :: "(string \<times> u16 \<times> bytes) list datagrams" where
  "log_datagrams =
     \<lparr>dg_socket = Pair (Inr 3), dg_close = (\<lambda>fd w. w), dg_pton = (\<lambda>ip. True),
      dg_sendto = (\<lambda>fd ip port data w. (None, w @ [(ip, port, data)]))\<rparr>"

definition two_packs :: "(string \<times> u16 \<times> bytes) list files" where
  "two_packs =
     \<lparr>fl_read = (\<lambda>path w. Some (map char_of [9, 9, 9, 0, 0, 1, 0xBA, 5, 0, 0, 1, 0xBA, 7 :: nat])),
      fl_write = (\<lambda>path text w. (False, w))\<rparr>"

lemma log_unit: "\<exists>seq' w'. send_unit log_datagrams fd ip port ps ts ssrc offset seq w = (True, seq', w')"
proof (induction ps ts ssrc offset seq arbitrary: w rule: unit_packets.induct)
  case (1 ps ts ssrc offset seq)
  then show ?case by (subst send_unit_step) (simp add: log_datagrams_def)
qed

lemma log_units: "\<exists>r. send_units log_datagrams fd ip port mk fps ssrc us i seq w = (True, r)"
proof (induction us arbitrary: i seq w)
  case (Cons u us)
  from log_unit[of fd ip port "mk u i" "ucast (to90k i fps)" ssrc 0 seq w] Cons show ?case by auto
qed simp

theorem ps_file_reaches_platform_witness:
  "\<exists>w' units. streamPsFileAsRtp two_packs log_datagrams ''play.ps'' ''10.0.0.1'' 15060 [] 25 2 [] = Some (True, w') \<and>
     receive 1 0 [] (map (snd \<circ> snd) w') = Some units \<and>
     concat (map snd units) = concat (replicate 2 [0, 0, 1, 0xBA, 5, 0, 0, 1, 0xBA, 7])"
proof -
  have data: "loadFile two_packs ''play.ps'' [] = [9, 9, 9, 0, 0, 1, 0xBA, 5, 0, 0, 1, 0xBA, 7]"
    and ssrc: "parseSsrc [] = 1"
    by (simp_all add: loadFile_def two_packs_def text_bytes_def chr_code_def parseSsrc_def)
  let ?us = "splitPsPacks (loadFile two_packs ''play.ps'' [])"
  from data have "loadFile two_packs ''play.ps'' [] \<noteq> []" by simp
  then have loaded: "loadFile two_packs ''play.ps'' [] \<noteq> []" "?us \<noteq> []" using splitPsPacks_concat(3) by blast+
  have sock: "dg_socket log_datagrams [] = (Inr 3, [])" "dg_pton log_datagrams ip" for ip by (simp_all add: log_datagrams_def)
  obtain i seq v where "send_units log_datagrams 3 ''10.0.0.1'' (word_of_int 15060) (\<lambda>u i. u) 25 (parseSsrc [])
      (concat (replicate (nat 2) ?us)) 0 0 [] = (True, i, seq, v)" using log_units prod_cases3 by metis
  then have "stream_units log_datagrams (\<lambda>u i. u) ?us ''10.0.0.1'' 15060 [] 25 2 [] = Some (True, dg_close log_datagrams 3 v)"
    unfolding stream_units_def send_loops_units sock by (simp only: prod.case sum.case sock if_True not_True_eq_False if_False) simp
  then obtain w' where run:
    "streamPsFileAsRtp two_packs log_datagrams ''play.ps'' ''10.0.0.1'' 15060 [] 25 2 [] = Some (True, w')"
    using loaded unfolding streamPsFileAsRtp_def Let_def by simp
  have "from_first_pack [9, 9, 9, 0, 0, 1, 0xBA, 5, 0, 0, 1, 0xBA, 7] = [0, 0, 1, 0xBA, 5, 0, 0, 1, 0xBA, 7]" by code_simp
  moreover have "datagram_log log_datagrams id" by (simp add: datagram_log_def log_datagrams_def)
  ultimately show ?thesis using ps_file_reaches_platform[of _ id, OF _ run loaded(1)] run by (auto simp: data ssrc o_def)
qed

subsection \<open>Reading the program stream\<close>

text \<open>A reader of what \<open>makePsPacket\<close> makes: the pack header with its stuffing, system header and stream map by
  their lengths, and the PES packet with its time stamp and data.\<close>

definition pts_read :: "u8 \<Rightarrow> u8 \<Rightarrow> u8 \<Rightarrow> u8 \<Rightarrow> u8 \<Rightarrow> u64 option" where
  "pts_read a b c d e =
     (if a AND 0xF1 \<noteq> 0x21 \<or> c AND 1 \<noteq> 1 \<or> e AND 1 \<noteq> 1 then None
      else Some (push_bit 30 (ucast (drop_bit 1 a AND 7)) OR push_bit 22 (ucast b) OR push_bit 15 (ucast (drop_bit 1 c)) OR
        push_bit 7 (ucast d) OR ucast (drop_bit 1 e)))"

definition pes_read :: "nat \<Rightarrow> bytes \<Rightarrow> (u64 \<times> bytes) option" where
  "pes_read n d =
     (if length d < 8 \<or> d ! 0 AND 0xC0 \<noteq> 0x80 \<or> d ! 1 AND 0xC0 \<noteq> 0x80 then None
      else
        let data = drop (3 + unat (d ! 2)) d in
        map_option (\<lambda>pts. (pts, if n = 0 then data else take (n - 3 - unat (d ! 2)) data))
          (pts_read (d ! 3) (d ! 4) (d ! 5) (d ! 6) (d ! 7)))"

function sections_read :: "bytes \<Rightarrow> (u64 \<times> bytes) option" where
  "sections_read d =
     (if length d < 6 \<or> take 3 d \<noteq> [0, 0, 1] then None
      else let n = unat (rd16 (d ! 4) (d ! 5)) in
        if d ! 3 = 0xE0 then pes_read n (drop 6 d)
        else if d ! 3 = 0xBB \<or> d ! 3 = 0xBC then sections_read (drop (6 + n) d)
        else None)"
  by pat_completeness auto
termination by (relation "measure length") auto

declare sections_read.simps [simp del]

definition ps_read :: "bytes \<Rightarrow> (u64 \<times> bytes) option" where
  "ps_read d =
     (if length d < 14 \<or> take 4 d \<noteq> [0, 0, 1, 0xBA] then None
      else sections_read (drop (14 + unat (d ! 13 AND 7)) d))"

lemma five_fields:
  assumes "P n \<Longrightarrow> n < (33 :: nat)"
  shows "P n \<longleftrightarrow> (30 \<le> n \<and> n - 30 < 3 \<and> P (30 + (n - 30))) \<or> (22 \<le> n \<and> n - 22 < 8 \<and> P (22 + (n - 22))) \<or>
    (15 \<le> n \<and> n - 15 < 7 \<and> P (15 + (n - 15))) \<or> (7 \<le> n \<and> n - 7 < 8 \<and> P (7 + (n - 7))) \<or> (n < 7 \<and> P n)"
  using assms by (cases "n < 7"; cases "n < 15"; cases "n < 22"; cases "n < 30") auto

lemma join_fields:
  fixes v :: u64 and a b c d e :: u8
  assumes fields: "\<And>k. bit a k \<longleftrightarrow> k < 3 \<and> bit v (30 + k)" "\<And>k. bit b k \<longleftrightarrow> k < 8 \<and> bit v (22 + k)"
    "\<And>k. bit c k \<longleftrightarrow> k < 7 \<and> bit v (15 + k)" "\<And>k. bit d k \<longleftrightarrow> k < 8 \<and> bit v (7 + k)"
    "\<And>k. bit e k \<longleftrightarrow> k < 7 \<and> bit v k" and top: "\<And>n. bit v n \<Longrightarrow> n < 33"
  shows "push_bit 30 (ucast a) OR push_bit 22 (ucast b) OR push_bit 15 (ucast c) OR push_bit 7 (ucast d) OR ucast e = v"
proof (rule bit_word_eqI)
  fix n :: nat
  assume n: "n < LENGTH(64)"
  have "bit (push_bit 30 (ucast a) OR push_bit 22 (ucast b) OR push_bit 15 (ucast c) OR push_bit 7 (ucast d) OR ucast e :: u64) n
      \<longleftrightarrow> (30 \<le> n \<and> n - 30 < 3 \<and> bit v (30 + (n - 30))) \<or> (22 \<le> n \<and> n - 22 < 8 \<and> bit v (22 + (n - 22))) \<or>
        (15 \<le> n \<and> n - 15 < 7 \<and> bit v (15 + (n - 15))) \<or> (7 \<le> n \<and> n - 7 < 8 \<and> bit v (7 + (n - 7))) \<or> (n < 7 \<and> bit v n)"
    using n by (simp only: bit_or_iff bit_push_bit_iff bit_unsigned_iff fields) auto
  also have "\<dots> \<longleftrightarrow> bit v n" by (rule five_fields[of "bit v" n, OF top, symmetric])
  finally show "bit (push_bit 30 (ucast a) OR push_bit 22 (ucast b) OR push_bit 15 (ucast c) OR push_bit 7 (ucast d) OR ucast e :: u64) n =
      bit v n" .
qed

lemma u8_eq_iff: "(x :: u8) = y \<longleftrightarrow> list_all (\<lambda>n. bit x n = bit y n) [0..<8]"
  by (auto simp: list_all_iff intro: bit_word_eqI)

lemma pts_read_back:
  fixes ts :: u64
  shows "\<exists>a b c d e. appendPesTimestamp out 2 ts = out @ [a, b, c, d, e] \<and>
    pts_read a b c d e = Some (ts AND 0x1ffffffff)"
proof -
  let ?v = "ts AND 0x1ffffffff"
  let ?a = "push_bit 4 2 OR ucast (push_bit 1 (drop_bit 30 ?v AND 0x07)) OR 1 :: u8"
  let ?b = "ucast (drop_bit 22 ?v AND 0xff) :: u8" and ?c = "ucast (push_bit 1 (drop_bit 15 ?v AND 0x7f) OR 1) :: u8"
  let ?d = "ucast (drop_bit 7 ?v AND 0xff) :: u8" and ?e = "ucast (push_bit 1 (?v AND 0x7f) OR 1) :: u8"
  have masks: "(0x1ffffffff :: u64) = mask 33" "(0x07 :: u64) = mask 3" "(0x7f :: u64) = mask 7" "(0xff :: u64) = mask 8"
    "(7 :: u8) = mask 3" "(0xF1 :: u8) = push_bit 4 (mask 4) OR mask 1" "(0x21 :: u8) = push_bit 5 (mask 1) OR mask 1"
    "push_bit 4 (2 :: u8) = push_bit 5 (mask 1)" "(1 :: u8) = mask 1" "(1 :: u64) = mask 1"
    by (simp_all add: mask_eq_exp_minus_1)
  have marks: "?a AND 0xF1 = 0x21" "?c AND 1 = 1" "?e AND 1 = 1"
    unfolding u8_eq_iff masks by (simp_all add: upt_rec bit_simps del: push_bit_Suc drop_bit_Suc)
  have sixteen: "k < 3 \<Longrightarrow> \<not> bit (16 :: u8) k" for k
  proof -
    have "(16 :: u8) = push_bit 4 1" by simp
    then show "k < 3 \<Longrightarrow> \<not> bit (16 :: u8) k" by (simp only: bit_push_bit_iff) simp
  qed
  have fields: "bit (drop_bit 1 ?a AND 7) k \<longleftrightarrow> k < 3 \<and> bit ?v (30 + k)" "bit ?b k \<longleftrightarrow> k < 8 \<and> bit ?v (22 + k)"
    "bit (drop_bit 1 ?c) k \<longleftrightarrow> k < 7 \<and> bit ?v (15 + k)" "bit ?d k \<longleftrightarrow> k < 8 \<and> bit ?v (7 + k)"
    "bit (drop_bit 1 ?e) k \<longleftrightarrow> k < 7 \<and> bit ?v k" for k
    unfolding masks by (auto simp: bit_simps simp del: push_bit_Suc drop_bit_Suc dest: sixteen)
  have joined: "push_bit 30 (ucast (drop_bit 1 ?a AND 7)) OR push_bit 22 (ucast ?b) OR push_bit 15 (ucast (drop_bit 1 ?c)) OR
      push_bit 7 (ucast ?d) OR ucast (drop_bit 1 ?e) = ?v"
  proof (rule join_fields)
    show "bit ?v n \<Longrightarrow> n < 33" for n unfolding masks by (simp add: bit_simps)
  qed (rule fields)+
  have "pts_read ?a ?b ?c ?d ?e = Some ?v" unfolding pts_read_def by (simp only: marks joined simp_thms if_False)
  then show ?thesis by (intro exI conjI) (simp only: appendPesTimestamp_def Let_def)
qed

lemma unat_pes_length: "unat (pes_length n) = (if 0xffff < n + 8 then 0 else n + 8)"
  unfolding pes_length_def by (simp add: unsigned_of_nat take_bit_nat_eq_self del: of_nat_add)

lemma append16_all: "append16 out v = out @ [ucast (drop_bit 8 v), ucast v]"
proof -
  have "(0xff :: u16) = mask 8" by (simp add: mask_eq_exp_minus_1)
  then have "ucast (w AND 0xff) = (ucast w :: u8)" for w :: u16
    by (intro bit_word_eqI) (auto simp: bit_simps)
  then show ?thesis by (simp add: append16_def)
qed

lemma start_codes: "append32 out 0x000001BA = out @ [0, 0, 1, 0xBA]" "append32 out 0x000001E0 = out @ [0, 0, 1, 0xE0]"
proof -
  have "append32 [] 0x000001BA = [0, 0, 1, 0xBA]" "append32 [] 0x000001E0 = [0, 0, 1, 0xE0]" by code_simp+
  then show "append32 out 0x000001BA = out @ [0, 0, 1, 0xBA]" "append32 out 0x000001E0 = out @ [0, 0, 1, 0xE0]"
    unfolding append32_def append_Nil by (simp_all only:)
qed

lemma pack_header_form: "length (pack_header ts) = 14" "take 4 (pack_header ts) = [0, 0, 1, 0xBA]" "pack_header ts ! 13 = 0xf8"
  by (simp_all add: pack_header_def start_codes)

lemma ps_read_header: "ps_read (pack_header ts @ d) = sections_read d"
proof -
  have "unat ((0xf8 :: u8) AND 7) = 0" by code_simp
  then show ?thesis by (simp add: ps_read_def nth_append pack_header_form)
qed

lemma section_step:
  assumes "d = [0, 0, 1, t, 0, n] @ body @ e" "length body = unat n" "t = 0xBB \<or> t = 0xBC"
  shows "sections_read d = sections_read e"
proof -
  have "uint (ucast n :: u16) = uint n" by (rule uint_up_ucast) (simp add: is_up)
  then have "unat (ucast n :: u16) = unat n" by (simp only: unat_eq_nat_uint)
  then have n: "unat (rd16 0 n) = length body" using assms(2) by (simp add: rd16_def)
  have d: "\<not> length d < 6" "take 3 d = [0, 0, 1]" "d ! 3 = t" "d ! 4 = 0" "d ! 5 = n" "drop 6 d = body @ e"
    unfolding assms(1) by simp_all
  then have e: "drop (6 + length body) d = e" by (simp add: add.commute[of 6] flip: drop_drop)
  have "(t = 0xE0) = False" using assms(3) by (elim disjE) simp_all
  then show ?thesis
    by (simp only: sections_read.simps[of d] d e n Let_def assms(3) not_True_eq_False not_False_eq_True simp_thms if_True if_False)
qed

lemma section_pes: "sections_read ([0, 0, 1, 0xE0, a, b] @ d) = pes_read (unat (rd16 a b)) d"
  by (subst sections_read.simps) simp

lemma sections_read_fixed: "sections_read (sysHeader @ psm @ d) = sections_read d"
proof -
  have sys: "sysHeader = [0, 0, 1, 0xBB, 0, 0x0C] @ drop 6 sysHeader" "length (drop 6 sysHeader) = unat (0x0C :: u8)"
    and map: "psm = [0, 0, 1, 0xBC, 0, 0x12] @ drop 6 psm" "length (drop 6 psm) = unat (0x12 :: u8)"
    by (simp_all add: sysHeader_def psm_def)
  have "sections_read (sysHeader @ psm @ d) = sections_read (psm @ d)"
    by (rule section_step[OF _ sys(2) disjI1[OF refl]]) (subst sys(1), simp only: append.assoc)
  also have "\<dots> = sections_read d"
    by (rule section_step[OF _ map(2) disjI2[OF refl]]) (subst map(1), simp only: append.assoc)
  finally show ?thesis .
qed

lemma pes_read_back:
  assumes "n = 0 \<or> n = length f + 8" "pts_read a b c d e = Some pts"
  shows "pes_read n ([0x80, 0x80, 5, a, b, c, d, e] @ f) = Some (pts, f)"
proof -
  have "(0x80 :: u8) AND 0xC0 = 0x80" by simp
  with assms show ?thesis by (auto simp: pes_read_def)
qed

lemma ps_packet_read:
  "ps_read (makePsPacket h264Frame frameIndex fps) = Some (to90k frameIndex fps AND 0x1ffffffff, h264Frame)"
proof -
  let ?n = "pes_length (length h264Frame)" and ?ts = "to90k frameIndex fps"
  let ?ps = "pack_header ?ts @ sysHeader @ psm @ [0, 0, 1, 0xE0, ucast (drop_bit 8 ?n), ucast ?n, 0x80, 0x80, 5]"
  obtain a b c d e where pts: "appendPesTimestamp ?ps 2 ?ts = ?ps @ [a, b, c, d, e]"
      "pts_read a b c d e = Some (?ts AND 0x1ffffffff)" using pts_read_back by blast
  have "makePsPacket h264Frame frameIndex fps = appendPesTimestamp ?ps 2 ?ts @ h264Frame"
    by (simp only: makePsPacket_def Let_def start_codes append16_all append.assoc append_Cons append_Nil)
  then have "ps_read (makePsPacket h264Frame frameIndex fps) =
      sections_read ([0, 0, 1, 0xE0, ucast (drop_bit 8 ?n), ucast ?n] @ [0x80, 0x80, 5, a, b, c, d, e] @ h264Frame)"
    by (simp only: pts(1) ps_read_header sections_read_fixed append.assoc append_Cons append_Nil)
  also have "\<dots> = pes_read (unat ?n) ([0x80, 0x80, 5, a, b, c, d, e] @ h264Frame)"
    by (simp only: section_pes rd16_bytes)
  finally show ?thesis using pes_read_back[OF _ pts(2)] unat_pes_length by simp
qed

lemma makePsPacket_nonempty: "makePsPacket f i fps \<noteq> []"
  using ps_packet_read[of f i fps] by (auto simp: ps_read_def)

lemma timed_packets_read:
  "map (\<lambda>(ts, ps). (ts, ps_read ps)) (timed_units (\<lambda>f i. makePsPacket f i fps) fps us (of_nat n)) =
   map (\<lambda>(f, k). let pts = to90k (of_nat k) fps in (ucast pts, Some (pts AND 0x1ffffffff, f))) (zip us [n..<n + length us])"
proof (induction us arbitrary: n)
  case (Cons u us)
  have "of_nat n + 1 = (of_nat (Suc n) :: u64)" by simp
  moreover have "[n..<n + length (u # us)] = n # [Suc n..<Suc n + length us]" by (simp add: upt_conv_Cons del: upt_Suc)
  ultimately show ?case
    by (simp only: timed_units.simps list.map zip_Cons_Cons Cons[of "Suc n"] prod.case ps_packet_read Let_def)
qed simp

text \<open>
  Claim C40. The platform that receives an H.264 file gets program stream packets from which it reads the frames the file was cut
  into, as often as it is played, each with its number on the 90 kHz clock as RTP time stamp and, modulo 2 to the 33, as
  presentation time; when sending fails, what was sent is the beginning of the packets.
\<close>

theorem h264_file_reaches_platform:
  assumes "datagram_log dg log" "streamH264AsGbPsRtp fl dg path ip port ssrcText fps loops w = Some (ok, w')"
  defines "frames \<equiv> concat (replicate (nat loops) (splitAnnexBFrames (loadFile fl path w)))"
  shows "\<exists>sent rest units. log w' = log w @ map (\<lambda>d. (ip, word_of_int port, d)) sent \<and> (ok \<longrightarrow> rest = []) \<and>
    receive (parseSsrc ssrcText) 0 [] (sent @ rest) = Some units \<and>
    map (\<lambda>(ts, ps). (ts, ps_read ps)) units =
      map (\<lambda>(f, k). let pts = to90k (of_nat k) fps in (ucast pts, Some (pts AND 0x1ffffffff, f)))
        (zip frames [0..<length frames])"
proof -
  let ?mk = "\<lambda>f i. makePsPacket f i fps"
  let ?all = "units_packets ?mk fps (parseSsrc ssrcText) frames 0 0"
  have received: "receive (parseSsrc ssrcText) 0 [] ?all = Some (timed_units ?mk fps frames 0)"
    by (rule receive_units) (rule makePsPacket_nonempty)
  have "\<exists>sent rest. ?all = sent @ rest \<and> log w' = log w @ map (\<lambda>d. (ip, word_of_int port, d)) sent \<and> (ok \<longrightarrow> rest = [])"
  proof (cases "w' = w \<and> \<not> ok")
    case True then show ?thesis by (intro exI[of _ "[]"] exI[of _ ?all]) simp
  next
    case False
    with assms(2) have "stream_units dg ?mk (splitAnnexBFrames (loadFile fl path w)) ip port ssrcText fps loops w = Some (ok, w')"
      by (simp add: streamH264AsGbPsRtp_def Let_def split: if_splits)
    from stream_units_sent[OF assms(1) this] show ?thesis unfolding frames_def .
  qed
  then obtain sent rest where sent: "?all = sent @ rest" "log w' = log w @ map (\<lambda>d. (ip, word_of_int port, d)) sent"
    "ok \<longrightarrow> rest = []" by blast
  from received have "receive (parseSsrc ssrcText) 0 [] (sent @ rest) = Some (timed_units ?mk fps frames 0)" unfolding sent(1) .
  moreover have "map (\<lambda>(ts, ps). (ts, ps_read ps)) (timed_units ?mk fps frames 0) =
      map (\<lambda>(f, k). let pts = to90k (of_nat k) fps in (ucast pts, Some (pts AND 0x1ffffffff, f)))
        (zip frames [0..<length frames])"
    using timed_packets_read[of fps frames 0] by (simp only: semiring_1_class.of_nat_0 add_0)
  moreover note sent(2,3)
  ultimately show ?thesis
    by - (rule exI[of _ sent], rule exI[of _ rest], rule exI[of _ "timed_units ?mk fps frames 0"], intro conjI)
qed

definition one_picture :: "(string \<times> u16 \<times> bytes) list files" where
  "one_picture = \<lparr>fl_read = (\<lambda>path w. Some (map char_of [0, 0, 1, 0x65, 9 :: nat])), fl_write = (\<lambda>path text w. (False, w))\<rparr>"

lemma log_loops: "\<exists>w'. send_loops log_datagrams fd ip port mk fps ssrc us n i seq w = (True, w')"
  unfolding send_loops_units
  using log_units[of fd ip port mk fps ssrc "concat (replicate n us)" i seq w] by (auto split: prod.split)

lemma log_stream:
  assumes "fps \<noteq> 0"
  shows "\<exists>w'. stream_units log_datagrams mk us ip port ssrcText fps loops w = Some (True, w')"
proof -
  obtain w' where "send_loops log_datagrams 3 ip (word_of_int port) mk fps (parseSsrc ssrcText) us (nat loops) 0 0 w = (True, w')"
    using log_loops by blast
  with assms show ?thesis by (simp add: stream_units_def log_datagrams_def)
qed

theorem h264_file_reaches_platform_witness:
  "\<exists>w' units. streamH264AsGbPsRtp one_picture log_datagrams ''play.h264'' ''10.0.0.1'' 15060 [] 25 2 [] = Some (True, w') \<and>
     receive 1 0 [] (map (snd \<circ> snd) w') = Some units \<and>
     map (\<lambda>(ts, ps). (ts, ps_read ps)) units = [(0, Some (0, [0, 0, 1, 0x65, 9])), (3600, Some (3600, [0, 0, 1, 0x65, 9]))]"
proof -
  have data: "loadFile one_picture ''play.h264'' [] = [0, 0, 1, 0x65, 9]" and ssrc: "parseSsrc [] = 1"
    by (simp_all add: loadFile_def one_picture_def text_bytes_def chr_code_def parseSsrc_def)
  have "nal_starts [0, 0, 1, 0x65, 9] 0 = [0]" by (simp add: nal_starts.simps)
  then have cut: "splitAnnexBFrames [0, 0, 1, 0x65, 9] = [[0, 0, 1, 0x65, 9]]"
    by (simp add: splitAnnexBFrames_def nal_offset_def Let_def)
  obtain w' where run:
    "streamH264AsGbPsRtp one_picture log_datagrams ''play.h264'' ''10.0.0.1'' 15060 [] 25 2 [] = Some (True, w')"
    using log_stream[of 25 "\<lambda>f i. makePsPacket f i 25" "[[0, 0, 1, 0x65, 9]]" "''10.0.0.1''" 15060 "[]" 2 "[]"]
    unfolding streamH264AsGbPsRtp_def Let_def data cut by auto
  have log: "datagram_log log_datagrams id" by (simp add: datagram_log_def log_datagrams_def)
  have times: "to90k (of_nat 0) 25 = 0" "to90k (of_nat (Suc 0)) 25 = 3600" "(3600 :: u64) AND 0x1ffffffff = 3600"
    "(0 :: u64) AND 0x1ffffffff = 0" "ucast (3600 :: u64) = (3600 :: u32)" "ucast (0 :: u64) = (0 :: u32)"
    by (simp_all add: to90k_def)
  let ?f = "[0, 0, 1, 0x65, 9] :: bytes"
  have frames: "concat (replicate (nat 2) [?f]) = [?f, ?f]" "zip [?f, ?f] [0..<length [?f, ?f]] = [(?f, 0), (?f, Suc 0)]"
    by (simp_all add: numeral_2_eq_2)
  obtain sent rest units where "id w' = id [] @ map (\<lambda>d. (''10.0.0.1'', word_of_int 15060, d)) sent" "True \<longrightarrow> rest = []"
    and got: "receive 1 0 [] (sent @ rest) = Some units"
    and read: "map (\<lambda>(ts, ps). (ts, ps_read ps)) units = [(0, Some (0, ?f)), (3600, Some (3600, ?f))]"
    using h264_file_reaches_platform[OF log run]
    unfolding data cut frames list.map prod.case Let_def times ssrc by (elim exE conjE) (rule that; assumption)
  then have "map (snd \<circ> snd) w' = sent @ rest" by (simp add: o_def)
  with run got read show ?thesis by (intro exI conjI) (assumption, simp_all)
qed

text \<open>A picture with its parameter sets before it: the sets go to the end of the picture before.\<close>

lemma sets_follow_previous_picture:
  "splitAnnexBFrames [0, 0, 1, 0x65, 9, 0, 0, 1, 0x67, 1, 0, 0, 1, 0x65, 8] =
     [[0, 0, 1, 0x65, 9, 0, 0, 1, 0x67, 1], [0, 0, 1, 0x65, 8]]"
proof -
  let ?data = "[0, 0, 1, 0x65, 9, 0, 0, 1, 0x67, 1, 0, 0, 1, 0x65, 8] :: bytes"
  have "nal_starts ?data 0 = [0, 5, 10]" by (simp add: nal_starts.simps)
  moreover have "is_vcl 0x65" "\<not> is_vcl 0x67" by (simp_all add: is_vcl_def)
  ultimately show ?thesis by (simp add: splitAnnexBFrames_def nal_offset_def Let_def)
qed

text \<open>The system clock reference of a pack header, read by the standard: the marker bits of its six bytes.\<close>

definition scr_marked :: "bytes \<Rightarrow> bool" where
  "scr_marked d \<longleftrightarrow> d ! 4 AND 0xC4 = 0x44 \<and> d ! 6 AND 4 = 4 \<and> d ! 8 AND 4 = 4 \<and> d ! 9 AND 1 = 1"

lemma clock_unmarked: "\<not> scr_marked (makePsPacket f i fps)"
proof -
  let ?b = "push_bit 3 (to90k i fps AND 0x1f) OR 0x04"
  have "(4 :: u64) = push_bit 2 1" by simp
  then have "\<not> bit ?b 0" by (simp only: bit_or_iff bit_push_bit_iff) simp
  then have "\<not> bit ((ucast ?b :: u8) AND 1) 0" by (simp only: bit_and_iff bit_unsigned_iff simp_thms)
  then have "(ucast ?b :: u8) AND 1 \<noteq> 1" by (metis bit_1_iff zero_less_numeral)
  moreover have "makePsPacket f i fps ! 9 = ucast ?b"
    by (simp only: makePsPacket_def Let_def append32_def append16_def appendPesTimestamp_def pack_header_def start_codes
      append_Nil append_Cons append.assoc) simp
  ultimately show ?thesis by (simp add: scr_marked_def)
qed

end
