(* ===== verification/Spec2Isabelle.thy ===== *)
theory Spec2Isabelle
  imports Tri_SensorLine Tri_EventBus Tri_Queues Tri_Plan Tri_CameraManager Tri_Commands Tri_Rtsp
    Tri_PrivateControl Tri_Protocols Tri_MpegTs Tri_GStreamer Tri_ControlRuns Tri_Main Tri_System Tri_Probes
    Tri_GbStream
begin

text \<open>
  Verification of the control and media core of the tri-fusion camera program (C++, under
  \<open>src/src\<close>).

  \<^bold>\<open>The program.\<close> A visible UVC camera and a composite low-light and thermal camera are read
  through V4L2; a serial line switches what the composite sensor shows. A work mode says which
  cameras are used and how: the mode manager plans a switch, its executor stops the running pipeline,
  prepares the fusion engine, switches the sensor and starts the pipeline of the new mode. The
  pipeline's worker takes frames from a camera, decodes, converts and encodes them as configured and
  pushes them to the main stream, from which the RTSP server and the MPEG-TS publisher read. Requests
  of the front ends (private interface, GB28181, ONVIF) pass the guard that lets only the active
  protocol through, become commands and reach the services through the command bus; an HTTP server
  controls the GStreamer pipelines that replace the media pipeline. Parts announce what they do on an
  event bus that may deliver through a thread pool. \<open>main\<close> reads the configuration and sets the
  parts up in order.

  \<^bold>\<open>How code is modelled.\<close> A struct or class is a record whose fields carry a prefix (\<open>cs_\<close>, \<open>vd_\<close>,
  \<open>pipe_\<close>, ...), an enum a datatype, a method a function that takes the object and returns it
  updated with the result. \<open>Result<T>\<close> is a sum of a status and a value, so every early return is a
  branch. Fixed-width counters, registers and sizes are words of that width; C++ \<open>int\<close> is \<open>int\<close>
  where no value can leave its range. System calls and vendor libraries (termios, V4L2, MPP, RGA,
  sockets, files, processes) are records of functions over a world \<open>'w\<close>, parameters of every operation
  that uses them; the named hypotheses on them (\<open>faithful_line\<close>, \<open>driver_answers\<close>, \<open>faithful_send\<close>,
  \<open>pipe_law\<close>, \<open>fd_law\<close>) state their documented behaviour. The clock
  and the environment are arguments. Published events are kept in a list. Loops whose length depends
  on the outside (interrupted calls, bytes that trickle in) are \<open>partial_function (option)\<close>, so that
  not returning is \<open>None\<close>, and that they return is proved. Log output is left out.

  \<^bold>\<open>The theories.\<close>
  \<^item> \<open>Tri_Prelude\<close>: generic lemmas. \<open>Tri_Result\<close>: \<open>foundation/error\<close>. \<open>Tri_Utils\<close>: \<open>foundation/utils\<close>
    and the arithmetic of checksums. \<open>Tri_EnumText\<close>: a locale of enumerations with names that are
    read back, interpreted on the program's enumerations. \<open>Tri_Config\<close>: \<open>foundation/config/ConfigTypes.h\<close>.
    \<open>Tri_Events\<close>: \<open>foundation/event/Event.h\<close>.
  \<^item> \<open>Tri_SensorTypes\<close>, \<open>Tri_SensorFrames\<close>, \<open>Tri_SensorProtocol\<close>: vocabulary, commands and
    acknowledgements of the composite sensor (\<open>device_control\<close>), with a word-level frame
    specification that the byte-level parsers are shown to accept exactly. \<open>Tri_Serial\<close>:
    \<open>hardware/serial\<close>. \<open>Tri_SensorController\<close>: \<open>CompositeSensorController.cpp\<close>. \<open>Tri_SensorLine\<close>: an
    abstract sensor behind a faithful line, and the controller's operations against it.
  \<^item> \<open>Tri_Threads\<close>: \<open>BlockingQueue\<close>, \<open>ThreadPool\<close>, \<open>Worker\<close>; the pool is a step relation over the
    owner, the clients and the workers, each critical section one step. \<open>Tri_EventBus\<close>: \<open>EventBus.cpp\<close>.
  \<^item> \<open>Tri_Frames\<close>, \<open>Tri_Queues\<close>: \<open>media/frame\<close> and \<open>media/stream\<close>: frames, the bounded queue, the
    synchroniser of the two cameras, the main stream. \<open>Tri_Codec\<close>: \<open>hardware/mpp\<close>, \<open>hardware/rga\<close> and
    the nodes of \<open>media/encode\<close>, \<open>media/decode\<close>, \<open>media/process\<close>, \<open>media/mux\<close>.
  \<^item> \<open>Tri_Video\<close>: \<open>hardware/v4l2\<close> and \<open>hardware/uvc\<close>. \<open>Tri_Cameras\<close>: the two camera devices, whose
    common contract is the locale \<open>camera_class\<close>, interpreted on each. \<open>Tri_CameraManager\<close>: the manager.
  \<^item> \<open>Tri_WorkMode\<close>, \<open>Tri_Fusion\<close>, \<open>Tri_Plan\<close>: work modes, the fusion engine (\<open>algorithm\<close>), the policy,
    the pipeline configurations and the planner. \<open>Tri_Pipeline\<close>: capture nodes and \<open>MediaPipeline.cpp\<close>,
    with the owner and the worker as a transition system. \<open>Tri_ModeSwitch\<close>: \<open>ModeSwitchExecutor.cpp\<close>
    and \<open>ModeManager.cpp\<close>, shown to implement an abstract mode machine.
  \<^item> \<open>Tri_Services\<close>: \<open>service\<close>, with a system record that holds what the services' pointers reach.
    \<open>Tri_Commands\<close>: \<open>command\<close>, the vocabulary, the handlers, the router and the bus. \<open>Tri_Protocols\<close>:
    protocol kinds, the guard of the active protocol, the adapter and the manager, and the front ends
    \<open>PrivateApiService\<close>, ONVIF and GB28181.
  \<^item> \<open>Tri_ConfigFile\<close>: the reader and the writer's quoting of the configuration's YAML subset, the
    loading functions and the validators. \<open>Tri_ProtocolConfig\<close>: \<open>ProtocolConfigLoader.cpp\<close> and
    \<open>ProtocolConfigStore.cpp\<close>.
  \<^item> \<open>Tri_Sockets\<close>: socket calls and the loop that sends a whole buffer, shared with the pipe of the
    publisher. \<open>Tri_RtpJpeg\<close>, \<open>Tri_Rtsp\<close>: the RTSP server, its requests and sessions and the RTP packets
    of JPEG frames, with a receiver that puts the frame together again. \<open>Tri_PrivateControl\<close>: the HTTP
    control server, with its contract for the callbacks as two locales. \<open>Tri_MpegTs\<close>:
    \<open>UdpMpegTsPublisher.cpp\<close>. \<open>Tri_GStreamer\<close>: \<open>media/gstreamer\<close>, the command line, the child process
    and the choice of a pipeline for a mode. \<open>Tri_System\<close>: listing a directory, time stamps, timers and the UDP socket.
  \<^item> The programs. \<open>Tri_Main\<close>: \<open>main.cpp\<close>. \<open>Tri_ControlProgram\<close>: the program controlled over HTTP
    (\<open>tests/l8_private_gstreamer_control_probe.cpp\<close>), which joins the control server, the GStreamer pipeline
    and the sensor's controller; \<open>Tri_ControlRuns\<close>: its runs as a step relation, the interpretations of the
    server's contract on its callbacks and what it guarantees. \<open>Tri_Probes\<close>: the two hardware probes
    (\<open>tools\<close>) and the stubs. \<open>Tri_GbStream\<close>: the media path of the GB28181 play program
    (\<open>tests/l8_gb28181_play_probe.cpp\<close>), from the file to RTP packets, with a receiver and a reader of the
    program stream.

  \<^bold>\<open>What is shown.\<close> For the sensor: parsers accept exactly the well-formed frames, a
  successful read has received its value, written registers are read back, retries are bounded. For threads and
  events: tasks run once and in order, stopping returns, subscribers are called in order; a stopped pool or bus
  never delivers again although its restart succeeds. For media: queues keep the newest frames, synchronised
  pairs are closest pairs, the stream hands out frames in order, key frames carry their parameter sets, every
  turn of the pipeline's worker yields one frame or one counted error, and in the visible mode every camera
  frame of the pipeline's MJPEG stream is handed on. For cameras: a status never claims more than the device
  does, and closing releases everything. For modes: plans fit their mode, a successful switch has established
  everything the plan asks for, and the manager with all the parts below it refines the mode machine. For
  commands and protocols: every command is answered, a mode set by a command is the mode reported, only the
  active protocol reaches the bus, and the front ends agree on what a request means, without a guard or with it.
  For the configuration: what is written is read back, for the documents the subset can hold, what is loaded is
  in the ranges the validators check, and a valid configuration starts. For the servers: a frame that is sent is
  reassembled from its packets, the parser of JPEG data stays within it, replies carry the request's number, the
  child process reads the frames as they were written, every descriptor the publisher opened is closed or
  accounted for as lost, and a POSIX shell reads a printed command back as its arguments. For
  \<open>main\<close>: which modes can start, and what is left when it ends. For the program controlled over
  HTTP: on any line its pipeline has the configuration of the current mode; over a faithful line every request
  is answered as long as the watching loop finds the video process (afterwards that loop holds the mutex the
  callbacks wait for), the status page tells the truth if the sensor was in the start mode to begin with, and a
  register that was set is the one shown. For the GB28181 play program: the platform puts together again the
  packs or frames that were sent, with their time stamps.

  \<^bold>\<open>Choices.\<close> The worker's turn is one step of the pipeline's transition system: what it
  shares with the owner while it runs is the stop flag, which it tests between turns, and the stream and event
  bus, which lock. In the mode machine the turns lie between the manager's calls. Joining the worker is an
  operation of its own (\<open>pipe_join\<close>): it returns only when the stop flag is set, and that a
  worker's turn returns is proved beside it. A driver's \<open>poll\<close>, \<open>DQBUF\<close> and a socket's
  \<open>accept\<close> and \<open>recv\<close> give their outcome, a time-out included, as documented for calls
  with a time-out or after a shutdown. The pipeline's context says which of its pointers are set; using a null
  stream is \<open>None\<close>, and there is one stream object, as in the program. The mutex of the program
  controlled over HTTP is a field of its state, and a callback that needs it while the watching loop holds it
  has no step. The time stamps of V4L2 buffers and of events are left out, as no modelled decision reads them.

  The sender of the publisher, the accept loop of the control server and the sessions of the RTSP server
  are steps in the same way. No proof uses fuel: a loop is structural, has a measure or is partial.

  \<^bold>\<open>Not modelled.\<close> Logging (its sources are not in the repository) and reading the clock. Destructors,
  except those of a pipeline, a protocol owner and the programs: they call the operations modelled here.
  The hardware decoder is declared without a body and is a parameter of the decoder node. The code
  between \<open>fork\<close> and \<open>exec\<close> of a child process is the meaning of the parameters \<open>ps_fork\<close> and
  \<open>gw_fork\<close>. The smoke tests and the other manual probes under \<open>tests\<close> call modelled parts and are left out.
\<close>

end
